(* ===== verification/Py_Convert.thy ===== *)
theory Py_Convert
  imports Py_Values
begin

section \<open>Conversions between Python values\<close>

text \<open>
  The built-in conversions the code applies to untyped values: \<open>repr\<close> and \<open>str\<close>,
  \<open>int\<close>, \<open>list\<close> and \<open>dict\<close>, each with the exception it raises, and the
  contract of the \<open>StrEnum\<close> classes: a locale with the members of the class and
  their values, interpreted for every enumeration of \<open>domain.py\<close>.
\<close>

subsection \<open>Sequencing computations that may raise\<close>

definition rbind :: "exn + 'a \<Rightarrow> ('a \<Rightarrow> exn + 'b) \<Rightarrow> exn + 'b" where
  "rbind r k = (case r of Inl e \<Rightarrow> Inl e | Inr a \<Rightarrow> k a)"

lemma rbind_simps [simp]: "rbind (Inl e) k = Inl e" "rbind (Inr a) k = k a"
  by (simp_all add: rbind_def)

lemma rbind_Inr_iff: "rbind r k = Inr b \<longleftrightarrow> (\<exists>a. r = Inr a \<and> k a = Inr b)"
  by (cases r) auto

fun map_result :: "('a \<Rightarrow> exn + 'b) \<Rightarrow> 'a list \<Rightarrow> exn + 'b list" where
  "map_result f [] = Inr []"
| "map_result f (x # xs) = rbind (f x) (\<lambda>y. rbind (map_result f xs) (\<lambda>ys. Inr (y # ys)))"

subsection \<open>repr and str\<close>

definition hex_digit :: "nat \<Rightarrow> char" where
  "hex_digit d = (if d < 10 then char_of (48 + d) else char_of (87 + d))"

definition repr_char :: "char \<Rightarrow> char \<Rightarrow> string" where
  "repr_char q c =
     (let n = (of_char c :: nat) in
      if c = q \<or> n = 92 then [char_of (92 :: nat), c]
      else if n = 9 then [char_of (92 :: nat), CHR ''t'']
      else if n = 10 then [char_of (92 :: nat), CHR ''n'']
      else if n = 13 then [char_of (92 :: nat), CHR ''r'']
      else if n < 32 \<or> n = 127 \<or> (128 \<le> n \<and> n \<le> 160) \<or> n = 173
      then [char_of (92 :: nat), CHR ''x'', hex_digit (n div 16), hex_digit (n mod 16)]
      else [c])"

definition quote_char :: "string \<Rightarrow> char" where
  "quote_char s =
     (if char_of (39 :: nat) \<in> set s \<and> char_of (34 :: nat) \<notin> set s
      then char_of (34 :: nat) else char_of (39 :: nat))"

definition repr_str :: "string \<Rightarrow> string" where
  "repr_str s = (let q = quote_char s in [q] @ concat (map (repr_char q) s) @ [q])"

definition pad2 :: "nat \<Rightarrow> string" where
  "pad2 n = (if n < 10 then CHR ''0'' # dec_nat n else dec_nat n)"

text \<open>The shortest decimal \<open>m * 10 ^ e\<close> of a float, in Python's layout.\<close>

definition repr_float :: "int \<Rightarrow> int \<Rightarrow> string" where
  "repr_float m e =
     (let sign = (if m < 0 then ''-'' else '''');
          ds = dec_nat (nat \<bar>m\<bar>);
          pt = int (length ds) + e;
          ex = pt - 1
      in if m = 0 then ''0.0''
         else if ex < -4 \<or> 16 \<le> ex
         then sign @ [hd ds] @ (if tl ds = [] then [] else ''.'' @ tl ds) @ ''e''
              @ (if ex < 0 then ''-'' else ''+'') @ pad2 (nat \<bar>ex\<bar>)
         else if pt \<le> 0 then sign @ ''0.'' @ replicate (nat (- pt)) (CHR ''0'') @ ds
         else if int (length ds) \<le> pt
         then sign @ ds @ replicate (nat (pt - int (length ds))) (CHR ''0'') @ ''.0''
         else sign @ take (nat pt) ds @ ''.'' @ drop (nat pt) ds)"

fun py_repr :: "pyval \<Rightarrow> string" where
  "py_repr PNone = ''None''"
| "py_repr (PBool b) = (if b then ''True'' else ''False'')"
| "py_repr (PInt i) = dec_int i"
| "py_repr (PFloat m e) = repr_float m e"
| "py_repr (PStr s) = repr_str s"
| "py_repr (PList xs) = ''['' @ join '', '' (map py_repr xs) @ '']''"
| "py_repr (PDict d) =
     CHR 0x7B # join '', '' (map (\<lambda>(k, v). repr_str k @ '': '' @ py_repr v) d) @ [CHR 0x7D]"

definition py_str :: "pyval \<Rightarrow> string" where
  "py_str v = (case v of PStr s \<Rightarrow> s | _ \<Rightarrow> py_repr v)"

text \<open>\<open>str(x or "")\<close>, the coercion the dictionary readers use.\<close>

definition str_or_empty :: "pyval \<Rightarrow> string" where
  "str_or_empty v = py_str (py_or v (PStr ''''))"

lemma py_str_PStr [simp]: "py_str (PStr s) = s"
  by (simp add: py_str_def)

lemma str_or_empty_simps [simp]:
  "str_or_empty PNone = ''''"
  "str_or_empty (PStr s) = s"
  by (simp_all add: str_or_empty_def py_or_def)

subsection \<open>int\<close>

definition digit_val :: "char \<Rightarrow> nat option" where
  "digit_val c = (let n = (of_char c :: nat) in if 48 \<le> n \<and> n \<le> 57 then Some (n - 48) else None)"

text \<open>Digits, with single underscores allowed between them; the flag says whether the
  previous character was a digit.\<close>

fun parse_digits :: "bool \<Rightarrow> int \<Rightarrow> string \<Rightarrow> int option" where
  "parse_digits after acc [] = (if after then Some acc else None)"
| "parse_digits after acc (c # cs) =
     (case digit_val c of
        Some d \<Rightarrow> parse_digits True (10 * acc + int d) cs
      | None \<Rightarrow> if c = CHR ''_'' \<and> after then parse_digits False acc cs else None)"

definition parse_int :: "string \<Rightarrow> int option" where
  "parse_int s =
     (case py_strip s of
        [] \<Rightarrow> None
      | c # cs \<Rightarrow>
          if c = CHR ''-'' then map_option uminus (parse_digits False 0 cs)
          else if c = CHR ''+'' then parse_digits False 0 cs
          else parse_digits False 0 (c # cs))"

definition float_trunc :: "int \<Rightarrow> int \<Rightarrow> int" where
  "float_trunc m e =
     (if 0 \<le> e then m * 10 ^ nat e else sgn m * (\<bar>m\<bar> div 10 ^ nat (- e)))"

definition py_int :: "pyval \<Rightarrow> exn + int" where
  "py_int v =
     (case v of
        PInt i \<Rightarrow> Inr i
      | PBool b \<Rightarrow> Inr (if b then 1 else 0)
      | PFloat m e \<Rightarrow> Inr (float_trunc m e)
      | PStr s \<Rightarrow> (case parse_int s of
                      Some i \<Rightarrow> Inr i
                    | None \<Rightarrow> Inl (ValueError ''invalid literal for int()''))
      | _ \<Rightarrow> Inl (TypeError ''int() argument''))"

subsection \<open>list and dict\<close>

definition py_list :: "pyval \<Rightarrow> exn + pyval list" where
  "py_list v =
     (case v of
        PList xs \<Rightarrow> Inr xs
      | PStr s \<Rightarrow> Inr (map (\<lambda>c. PStr [c]) s)
      | PDict d \<Rightarrow> Inr (map (\<lambda>(k, _). PStr k) d)
      | _ \<Rightarrow> Inl (TypeError ''object is not iterable''))"

text \<open>\<open>dict(xs)\<close> of an iterable reads each element as a key and a value.\<close>

definition pair_of :: "pyval \<Rightarrow> exn + string \<times> pyval" where
  "pair_of v =
     (case py_list v of
        Inl _ \<Rightarrow> Inl (TypeError ''cannot convert dictionary update sequence element'')
      | Inr [PStr k, x] \<Rightarrow> Inr (k, x)
      | Inr [PList _, _] \<Rightarrow> Inl (TypeError ''unhashable type'')
      | Inr [PDict _, _] \<Rightarrow> Inl (TypeError ''unhashable type'')
      | Inr [_, _] \<Rightarrow> Inl (OutsideModel ''dictionary key that is not a string'')
      | Inr _ \<Rightarrow> Inl (ValueError ''dictionary update sequence element has the wrong length''))"

fun dict_of_pairs :: "pyval list \<Rightarrow> pydict \<Rightarrow> exn + pydict" where
  "dict_of_pairs [] d = Inr d"
| "dict_of_pairs (v # vs) d =
     (case pair_of v of Inl e \<Rightarrow> Inl e | Inr (k, x) \<Rightarrow> dict_of_pairs vs (dict_set k x d))"

definition py_dict :: "pyval \<Rightarrow> exn + pydict" where
  "py_dict v =
     (case v of
        PDict d \<Rightarrow> Inr d
      | _ \<Rightarrow> (case py_list v of Inl e \<Rightarrow> Inl e | Inr vs \<Rightarrow> dict_of_pairs vs []))"

lemma py_list_PList [simp]: "py_list (PList xs) = Inr xs"
  by (simp add: py_list_def)

lemma py_dict_PDict [simp]: "py_dict (PDict d) = Inr d"
  by (simp add: py_dict_def)

lemma py_or_PList [simp]: "py_or (PList xs) (PList []) = PList xs"
  by (simp add: py_or_def)

lemma py_or_PDict [simp]: "py_or (PDict d) (PDict []) = PDict d"
  by (simp add: py_or_def)

lemmas plain_string_simps =
  py_lower_def py_strip_def lower_char_def is_space_def Let_def

subsection \<open>The contract of a StrEnum\<close>

text \<open>
  \<open>E(s)\<close> looks a member up by its value and raises \<open>ValueError\<close> when there is none.
  A \<open>StrEnum\<close> lists its members, and no two of them have the same value.
\<close>

definition enum_of :: "'e list \<Rightarrow> ('e \<Rightarrow> string) \<Rightarrow> string \<Rightarrow> 'e option" where
  "enum_of members val s = List.find (\<lambda>e. val e = s) members"

definition enum_parse :: "'e list \<Rightarrow> ('e \<Rightarrow> string) \<Rightarrow> string \<Rightarrow> exn + 'e" where
  "enum_parse members val s =
     (case enum_of members val s of
        Some e \<Rightarrow> Inr e
      | None \<Rightarrow> Inl (ValueError (repr_str s @ '' is not a valid value'')))"

text \<open>\<open>_safe_enum\<close>: the lenient reader, with its default.\<close>

definition safe_enum :: "'e list \<Rightarrow> ('e \<Rightarrow> string) \<Rightarrow> pyval \<Rightarrow> 'e option \<Rightarrow> 'e option" where
  "safe_enum members val v dflt =
     (if v = PNone \<or> v = PStr '''' then dflt
      else case enum_of members val (py_lower (py_strip (py_str v))) of
             Some e \<Rightarrow> Some e
           | None \<Rightarrow> dflt)"

locale str_enum =
  fixes members :: "'e list"
    and val :: "'e \<Rightarrow> string"
  assumes members_complete: "e \<in> set members"
    and val_distinct: "distinct (map val members)"
begin

lemma val_inj: "val a = val b \<Longrightarrow> a = b"
  using val_distinct members_complete [of a] members_complete [of b]
  by (metis distinct_map inj_onD)

lemma enum_of_val: "enum_of members val (val e) = Some e"
proof -
  have "enum_of members val (val e) \<noteq> None"
    using members_complete [of e] by (auto simp: enum_of_def find_None_iff)
  then obtain e' where e': "enum_of members val (val e) = Some e'" by blast
  then have "val e' = val e" by (auto simp: enum_of_def find_Some_iff)
  then have "e' = e" by (rule val_inj)
  with e' show ?thesis by simp
qed

lemma enum_of_SomeD: "enum_of members val s = Some e \<Longrightarrow> s = val e"
  by (auto simp: enum_of_def find_Some_iff)

lemma enum_of_iff: "enum_of members val s = Some e \<longleftrightarrow> s = val e"
  using enum_of_SomeD enum_of_val by blast

lemma enum_parse_val: "enum_parse members val (val e) = Inr e"
  by (simp add: enum_parse_def enum_of_val)

lemma enum_parse_iff: "enum_parse members val s = Inr e \<longleftrightarrow> s = val e"
proof
  assume "enum_parse members val s = Inr e"
  then have "enum_of members val s = Some e"
    by (simp add: enum_parse_def split: option.splits)
  then show "s = val e" by (rule enum_of_SomeD)
next
  assume "s = val e"
  then show "enum_parse members val s = Inr e" by (simp add: enum_parse_val)
qed

end

text \<open>The values of most enumerations are nonempty, lower case and without blanks, so the
  lenient reader finds every member by its value.\<close>

locale plain_str_enum = str_enum +
  assumes val_plain: "val e \<noteq> [] \<and> py_lower (py_strip (val e)) = val e"
begin

lemma safe_enum_val: "safe_enum members val (PStr (val e)) dflt = Some e"
  using val_plain [of e] by (simp add: safe_enum_def enum_of_val)

lemma safe_enum_default: "safe_enum members val v (Some d) \<noteq> None"
  by (simp add: safe_enum_def split: option.splits)

end

lemma str_enumI:
  assumes "\<And>e. e \<in> set members" and "distinct (map val members)"
  shows "str_enum members val"
  using assms by unfold_locales

lemma plain_str_enumI:
  assumes all: "\<And>e. e \<in> set members" and dist: "distinct (map val members)"
    and plain: "list_all (\<lambda>s. s \<noteq> [] \<and> py_lower (py_strip s) = s) (map val members)"
  shows "plain_str_enum members val"
proof (intro plain_str_enum.intro str_enumI plain_str_enum_axioms.intro)
  fix e
  show "val e \<noteq> [] \<and> py_lower (py_strip (val e)) = val e"
    using plain all [of e] by (simp add: list_all_iff)
qed (rule all, rule dist)

end
