(* ===== verification/Py_Prog.thy ===== *)
theory Py_Prog
  imports Py_Convert
begin

section \<open>Programs with state and exceptions\<close>

text \<open>
  A method of the code that reads and writes the store is a function from the store to
  its result and the new store. A raised exception is a result of its own and leaves
  the store as it was when it was raised, since every \<open>with self.connect()\<close> block of
  the code commits by itself. The combinators below are the sequencing, the \<open>if\<close> without
  \<open>else\<close>, the \<open>for\<close> loop, \<open>try\<close>/\<open>except\<close> and \<open>try\<close>/\<open>finally\<close>
  of the code. Two judgements carry the proofs: \<open>preserves I m\<close> (an invariant, kept also
  when \<open>m\<close> raises) and \<open>keeps f m\<close> (a part of the store that \<open>m\<close> does not change).
\<close>

type_synonym ('s, 'a) prog = "'s \<Rightarrow> (exn + 'a) \<times> 's"

named_theorems preserve_rules \<open>composition rules for preserves\<close>
named_theorems keep_rules \<open>composition rules for keeps\<close>
named_theorems look_rules \<open>composition rules for looks\<close>
named_theorems prog_simps \<open>running a combinator\<close>

subsection \<open>The combinators\<close>

definition ret :: "'a \<Rightarrow> ('s, 'a) prog" where
  "ret a = (\<lambda>s. (Inr a, s))"

definition raise :: "exn \<Rightarrow> ('s, 'a) prog" where
  "raise e = (\<lambda>s. (Inl e, s))"

definition bnd :: "('s, 'a) prog \<Rightarrow> ('a \<Rightarrow> ('s, 'b) prog) \<Rightarrow> ('s, 'b) prog" where
  "bnd m k = (\<lambda>s. case m s of (Inl e, t) \<Rightarrow> (Inl e, t) | (Inr a, t) \<Rightarrow> k a t)"

definition reads :: "('s \<Rightarrow> 'a) \<Rightarrow> ('s, 'a) prog" where
  "reads f = (\<lambda>s. (Inr (f s), s))"

definition writes :: "('s \<Rightarrow> 's) \<Rightarrow> ('s, unit) prog" where
  "writes f = (\<lambda>s. (Inr (), f s))"

definition lift_result :: "exn + 'a \<Rightarrow> ('s, 'a) prog" where
  "lift_result r = (\<lambda>s. (r, s))"

definition try_write :: "('s \<Rightarrow> exn + 's) \<Rightarrow> ('s, unit) prog" where
  "try_write f = (\<lambda>s. case f s of Inl e \<Rightarrow> (Inl e, s) | Inr t \<Rightarrow> (Inr (), t))"

definition when_do :: "bool \<Rightarrow> ('s, unit) prog \<Rightarrow> ('s, unit) prog" where
  "when_do b m = (if b then m else ret ())"

fun for_each :: "'a list \<Rightarrow> ('a \<Rightarrow> ('s, unit) prog) \<Rightarrow> ('s, unit) prog" where
  "for_each [] body = ret ()"
| "for_each (x # xs) body = bnd (body x) (\<lambda>_. for_each xs body)"

text \<open>A comprehension whose elements are computed by the body.\<close>

fun collect :: "('a \<Rightarrow> ('s, 'b) prog) \<Rightarrow> 'a list \<Rightarrow> ('s, 'b list) prog" where
  "collect f [] = ret []"
| "collect f (x # xs) = bnd (f x) (\<lambda>y. bnd (collect f xs) (\<lambda>ys. ret (y # ys)))"

definition try_except :: "('s, 'a) prog \<Rightarrow> (exn \<Rightarrow> ('s, 'a) prog) \<Rightarrow> ('s, 'a) prog" where
  "try_except m h = (\<lambda>s. case m s of (Inl e, t) \<Rightarrow> h e t | (Inr a, t) \<Rightarrow> (Inr a, t))"

definition try_finally :: "('s, 'a) prog \<Rightarrow> ('s, unit) prog \<Rightarrow> ('s, 'a) prog" where
  "try_finally m fin =
     (\<lambda>s. case m s of (r, t) \<Rightarrow> (case fin t of (Inl e, u) \<Rightarrow> (Inl e, u) | (Inr _, u) \<Rightarrow> (r, u)))"

lemma ret_run [prog_simps]: "ret a s = (Inr a, s)"
  by (simp add: ret_def)

lemma raise_run [prog_simps]: "raise e s = (Inl e, s)"
  by (simp add: raise_def)

lemma reads_run [simp, prog_simps]: "reads f s = (Inr (f s), s)"
  by (simp add: reads_def)

lemma writes_run [simp, prog_simps]: "writes f s = (Inr (), f s)"
  by (simp add: writes_def)

lemma lift_result_run [prog_simps]: "lift_result r s = (r, s)"
  by (simp add: lift_result_def)

lemma when_do_True [simp]: "when_do True m = m"
  by (simp add: when_do_def)

lemma when_do_False [simp]: "when_do False m = ret ()"
  by (simp add: when_do_def)

lemma bnd_run [prog_simps]:
  "bnd m k s = (case m s of (Inl e, t) \<Rightarrow> (Inl e, t) | (Inr a, t) \<Rightarrow> k a t)"
  by (simp add: bnd_def)

lemma bnd_step: "m s = (Inr a, t) \<Longrightarrow> bnd m k s = k a t"
  by (simp add: bnd_def)

lemma bnd_raise: "m s = (Inl e, t) \<Longrightarrow> bnd m k s = (Inl e, t)"
  by (simp add: bnd_def)

lemma bnd_ret [simp]: "bnd (ret a) k = k a"
  by (simp add: bnd_def ret_def fun_eq_iff)

lemma bnd_reads [simp]: "bnd (reads f) k s = k (f s) s"
  by (simp add: bnd_def)

lemma bnd_writes [simp]: "bnd (writes f) k s = k () (f s)"
  by (simp add: bnd_def)

lemma bnd_assoc: "bnd (bnd m k) l = bnd m (\<lambda>a. bnd (k a) l)"
  by (auto simp: bnd_def fun_eq_iff split: prod.splits sum.splits)

lemma bnd_Inr_iff: "bnd m k s = (Inr b, u) \<longleftrightarrow> (\<exists>a t. m s = (Inr a, t) \<and> k a t = (Inr b, u))"
  by (auto simp: bnd_def split: prod.splits sum.splits)

lemma bnd_InrE:
  assumes "bnd m k s = (Inr b, u)"
  obtains a t where "m s = (Inr a, t)" and "k a t = (Inr b, u)"
  using assms by (auto simp: bnd_Inr_iff)

lemma try_write_run [prog_simps]:
  "try_write f s = (case f s of Inl e \<Rightarrow> (Inl e, s) | Inr t \<Rightarrow> (Inr (), t))"
  by (simp add: try_write_def)

subsection \<open>Invariants and frames\<close>

definition preserves :: "('s \<Rightarrow> bool) \<Rightarrow> ('s, 'a) prog \<Rightarrow> bool" where
  "preserves I m \<longleftrightarrow> (\<forall>s. I s \<longrightarrow> I (snd (m s)))"

definition keeps :: "('s \<Rightarrow> 'v) \<Rightarrow> ('s, 'a) prog \<Rightarrow> bool" where
  "keeps f m \<longleftrightarrow> (\<forall>s. f (snd (m s)) = f s)"

lemma preservesD: "preserves I m \<Longrightarrow> I s \<Longrightarrow> I (snd (m s))"
  by (simp add: preserves_def)

lemma preserves_run: "preserves I m \<Longrightarrow> I s \<Longrightarrow> m s = (r, t) \<Longrightarrow> I t"
  by (metis preserves_def snd_conv)

lemma keepsD: "keeps f m \<Longrightarrow> f (snd (m s)) = f s"
  by (simp add: keeps_def)

lemma keeps_run: "keeps f m \<Longrightarrow> m s = (r, t) \<Longrightarrow> f t = f s"
  by (metis keeps_def snd_conv)

lemma preserves_ret [preserve_rules]: "preserves I (ret a)"
  by (simp add: preserves_def ret_def)

lemma preserves_raise [preserve_rules]: "preserves I (raise e)"
  by (simp add: preserves_def raise_def)

lemma preserves_reads [preserve_rules]: "preserves I (reads f)"
  by (simp add: preserves_def)

lemma preserves_lift_result [preserve_rules]: "preserves I (lift_result r)"
  by (simp add: preserves_def lift_result_def)

lemma preserves_writes: "(\<And>s. I s \<Longrightarrow> I (f s)) \<Longrightarrow> preserves I (writes f)"
  by (simp add: preserves_def)

lemma preserves_try_write:
  "(\<And>s t. I s \<Longrightarrow> f s = Inr t \<Longrightarrow> I t) \<Longrightarrow> preserves I (try_write f)"
  by (auto simp: preserves_def try_write_def split: sum.splits)

lemma preserves_bnd [preserve_rules]:
  "preserves I m \<Longrightarrow> (\<And>a. preserves I (k a)) \<Longrightarrow> preserves I (bnd m k)"
  unfolding preserves_def bnd_def by (fastforce split: prod.split sum.split dest: spec)

lemma preserves_if [preserve_rules]:
  "(b \<Longrightarrow> preserves I m) \<Longrightarrow> (\<not> b \<Longrightarrow> preserves I n) \<Longrightarrow> preserves I (if b then m else n)"
  by simp

lemma preserves_when_do [preserve_rules]: "(b \<Longrightarrow> preserves I m) \<Longrightarrow> preserves I (when_do b m)"
  by (simp add: when_do_def preserves_ret)

lemma preserves_case_option [preserve_rules]:
  "preserves I m \<Longrightarrow> (\<And>a. preserves I (k a)) \<Longrightarrow> preserves I (case x of None \<Rightarrow> m | Some a \<Rightarrow> k a)"
  by (cases x) auto

lemma preserves_case_sum [preserve_rules]:
  "(\<And>e. preserves I (h e)) \<Longrightarrow> (\<And>a. preserves I (k a)) \<Longrightarrow> preserves I (case x of Inl e \<Rightarrow> h e | Inr a \<Rightarrow> k a)"
  by (cases x) auto

lemma preserves_for_each [preserve_rules]:
  "(\<And>x. x \<in> set xs \<Longrightarrow> preserves I (body x)) \<Longrightarrow> preserves I (for_each xs body)"
  by (induction xs) (auto intro: preserves_ret preserves_bnd)

lemma preserves_collect [preserve_rules]:
  "(\<And>x. x \<in> set xs \<Longrightarrow> preserves I (body x)) \<Longrightarrow> preserves I (collect body xs)"
  by (induction xs) (auto intro!: preserves_ret preserves_bnd)

lemma preserves_try_except [preserve_rules]:
  "preserves I m \<Longrightarrow> (\<And>e. preserves I (h e)) \<Longrightarrow> preserves I (try_except m h)"
  unfolding preserves_def try_except_def by (fastforce split: prod.split sum.split dest: spec)

lemma preserves_try_finally [preserve_rules]:
  "preserves I m \<Longrightarrow> preserves I fin \<Longrightarrow> preserves I (try_finally m fin)"
  unfolding preserves_def try_finally_def by (fastforce split: prod.split sum.split dest: spec)

lemma keeps_as_preserves: "keeps f m \<longleftrightarrow> (\<forall>v. preserves (\<lambda>s. f s = v) m)"
  by (auto simp: keeps_def preserves_def)

lemma keeps_ret [keep_rules]: "keeps f (ret a)"
  by (simp add: keeps_def ret_def)

lemma keeps_raise [keep_rules]: "keeps f (raise e)"
  by (simp add: keeps_def raise_def)

lemma keeps_reads [keep_rules]: "keeps f (reads g)"
  by (simp add: keeps_def)

lemma keeps_lift_result [keep_rules]: "keeps f (lift_result r)"
  by (simp add: keeps_def lift_result_def)

lemma keeps_writes: "(\<And>s. f (g s) = f s) \<Longrightarrow> keeps f (writes g)"
  by (simp add: keeps_def)

lemma keeps_try_write: "(\<And>s t. g s = Inr t \<Longrightarrow> f t = f s) \<Longrightarrow> keeps f (try_write g)"
  by (auto simp: keeps_def try_write_def split: sum.splits)

lemma keeps_bnd [keep_rules]: "keeps f m \<Longrightarrow> (\<And>a. keeps f (k a)) \<Longrightarrow> keeps f (bnd m k)"
  by (simp add: keeps_as_preserves preserves_bnd)

lemma keeps_if [keep_rules]:
  "(b \<Longrightarrow> keeps f m) \<Longrightarrow> (\<not> b \<Longrightarrow> keeps f n) \<Longrightarrow> keeps f (if b then m else n)"
  by simp

lemma keeps_when_do [keep_rules]: "(b \<Longrightarrow> keeps f m) \<Longrightarrow> keeps f (when_do b m)"
  by (simp add: when_do_def keeps_ret)

lemma keeps_case_option [keep_rules]:
  "keeps f m \<Longrightarrow> (\<And>a. keeps f (k a)) \<Longrightarrow> keeps f (case x of None \<Rightarrow> m | Some a \<Rightarrow> k a)"
  by (cases x) auto

lemma keeps_case_sum [keep_rules]:
  "(\<And>e. keeps f (h e)) \<Longrightarrow> (\<And>a. keeps f (k a)) \<Longrightarrow> keeps f (case x of Inl e \<Rightarrow> h e | Inr a \<Rightarrow> k a)"
  by (cases x) auto

lemma keeps_for_each [keep_rules]:
  "(\<And>x. x \<in> set xs \<Longrightarrow> keeps f (body x)) \<Longrightarrow> keeps f (for_each xs body)"
  by (simp add: keeps_as_preserves preserves_for_each)

lemma keeps_collect [keep_rules]: "(\<And>x. keeps f (body x)) \<Longrightarrow> keeps f (collect body xs)"
  by (simp add: keeps_as_preserves preserves_collect)

lemma keeps_try_except [keep_rules]:
  "keeps f m \<Longrightarrow> (\<And>e. keeps f (h e)) \<Longrightarrow> keeps f (try_except m h)"
  by (simp add: keeps_as_preserves preserves_try_except)

lemma keeps_try_finally [keep_rules]:
  "keeps f m \<Longrightarrow> keeps f fin \<Longrightarrow> keeps f (try_finally m fin)"
  by (simp add: keeps_as_preserves preserves_try_finally)

lemma keeps_case_prod [keep_rules]: "(\<And>a b. keeps f (g a b)) \<Longrightarrow> keeps f (case p of (a, b) \<Rightarrow> g a b)"
  by (cases p) simp

text \<open>A query returns and changes nothing.\<close>

definition looks :: "('s, 'a) prog \<Rightarrow> bool" where
  "looks m \<longleftrightarrow> (\<forall>s. \<exists>a. m s = (Inr a, s))"

lemma looksE:
  assumes "looks m"
  obtains a where "m s = (Inr a, s)"
  using assms by (auto simp: looks_def)

lemma looks_run: "looks m \<Longrightarrow> m s = (r, t) \<Longrightarrow> t = s \<and> (\<exists>a. r = Inr a)"
  by (metis looks_def prod.inject)

lemma looks_ret [look_rules]: "looks (ret a)"
  by (simp add: looks_def ret_def)

lemma looks_reads [look_rules]: "looks (reads f)"
  by (simp add: looks_def)

lemma looks_bnd [look_rules]: "looks m \<Longrightarrow> (\<And>a. looks (k a)) \<Longrightarrow> looks (bnd m k)"
  unfolding looks_def bnd_def by (metis (no_types, lifting) old.prod.case sum.simps(6))

lemma looks_case_option [look_rules]:
  "looks m \<Longrightarrow> (\<And>a. looks (k a)) \<Longrightarrow> looks (case x of None \<Rightarrow> m | Some a \<Rightarrow> k a)"
  by (cases x) auto

lemma looks_case_prod [look_rules]: "(\<And>a b. looks (g a b)) \<Longrightarrow> looks (case p of (a, b) \<Rightarrow> g a b)"
  by (cases p) simp

lemma looks_if [look_rules]: "(b \<Longrightarrow> looks m) \<Longrightarrow> (\<not> b \<Longrightarrow> looks n) \<Longrightarrow> looks (if b then m else n)"
  by simp

lemma looks_collect [look_rules]: "(\<And>x. looks (f x)) \<Longrightarrow> looks (collect f xs)"
  by (induction xs) (auto intro!: look_rules)

lemma looks_keeps: "looks m \<Longrightarrow> keeps f m"
  by (metis keeps_def looksE snd_conv)

lemma for_each_append:
  "for_each (xs @ ys) body = bnd (for_each xs body) (\<lambda>_. for_each ys body)"
  by (induction xs) (simp_all add: bnd_assoc)

text \<open>A program that never raises.\<close>

definition total :: "('s, 'a) prog \<Rightarrow> bool" where
  "total m \<longleftrightarrow> (\<forall>s. \<exists>a t. m s = (Inr a, t))"

lemma total_bnd: "total m \<Longrightarrow> (\<And>a. total (k a)) \<Longrightarrow> total (bnd m k)"
  unfolding total_def by (metis bnd_step)

lemma total_for_each: "(\<And>x. total (body x)) \<Longrightarrow> total (for_each xs body)"
proof (induction xs)
  case Nil
  show ?case by (simp add: total_def ret_def)
next
  case (Cons x xs)
  then show ?case by (auto intro: total_bnd)
qed

end
