(* ===== verification/Sql_Table.thy ===== *)
theory Sql_Table
  imports Py_Prog
begin

section \<open>Tables of the SQLite store\<close>

text \<open>
  The store of the harness is a SQLite database. A table is the list of its rows in
  insertion order; the statements the code issues are the list operations below. A row is
  kept in the form the code's \<open>*_from_row\<close> functions return it, so its columns have their
  domain types. The rows of a \<open>SELECT\<close> without an order come in insertion order, and
  equal keys of an \<open>ORDER BY\<close> keep that order (the sort is stable).
\<close>

named_theorems table_simps \<open>lookup after an update of a table\<close>

subsection \<open>Statements\<close>

definition find_key :: "('r \<Rightarrow> 'k) \<Rightarrow> 'k \<Rightarrow> 'r list \<Rightarrow> 'r option" where
  "find_key key k rows = List.find (\<lambda>r. key r = k) rows"

definition has_key :: "('r \<Rightarrow> 'k) \<Rightarrow> 'k \<Rightarrow> 'r list \<Rightarrow> bool" where
  "has_key key k rows \<longleftrightarrow> List.list_ex (\<lambda>r. key r = k) rows"

text \<open>\<open>INSERT\<close> fails on a duplicate primary key; \<open>INSERT OR IGNORE\<close> does nothing then;
  \<open>INSERT ... ON CONFLICT DO UPDATE\<close> overwrites the row in place.\<close>

definition insert_row :: "('r \<Rightarrow> 'k) \<Rightarrow> 'r \<Rightarrow> 'r list \<Rightarrow> exn + 'r list" where
  "insert_row key r rows =
     (if has_key key (key r) rows then Inl (IntegrityError ''UNIQUE constraint failed'')
      else Inr (rows @ [r]))"

text \<open>An \<open>INSERT\<close> into a table with foreign keys also fails when a referenced row is missing
  (\<open>PRAGMA foreign_keys = ON\<close>); a NULL reference is not checked.\<close>

definition insert_fk :: "('r \<Rightarrow> 'k) \<Rightarrow> bool \<Rightarrow> 'r \<Rightarrow> 'r list \<Rightarrow> exn + 'r list" where
  "insert_fk key refs_ok r rows =
     (if has_key key (key r) rows then Inl (IntegrityError ''UNIQUE constraint failed'')
      else if \<not> refs_ok then Inl (IntegrityError ''FOREIGN KEY constraint failed'')
      else Inr (rows @ [r]))"

definition ref_ok :: "('r \<Rightarrow> 'k) \<Rightarrow> 'k option \<Rightarrow> 'r list \<Rightarrow> bool" where
  "ref_ok key ref rows = (case ref of None \<Rightarrow> True | Some k \<Rightarrow> has_key key k rows)"

definition insert_or_ignore :: "('r \<Rightarrow> 'k) \<Rightarrow> 'r \<Rightarrow> 'r list \<Rightarrow> 'r list" where
  "insert_or_ignore key r rows = (if has_key key (key r) rows then rows else rows @ [r])"

definition upsert :: "('r \<Rightarrow> 'k) \<Rightarrow> 'r \<Rightarrow> 'r list \<Rightarrow> 'r list" where
  "upsert key r rows =
     (if has_key key (key r) rows then map (\<lambda>x. if key x = key r then r else x) rows
      else rows @ [r])"

definition update_where :: "('r \<Rightarrow> bool) \<Rightarrow> ('r \<Rightarrow> 'r) \<Rightarrow> 'r list \<Rightarrow> 'r list" where
  "update_where p f rows = map (\<lambda>x. if p x then f x else x) rows"

definition delete_where :: "('r \<Rightarrow> bool) \<Rightarrow> 'r list \<Rightarrow> 'r list" where
  "delete_where p rows = filter (\<lambda>x. \<not> p x) rows"

definition order_by :: "('r \<Rightarrow> 'k::linorder) \<Rightarrow> 'r list \<Rightarrow> 'r list" where
  "order_by f rows = sort_key f rows"

definition order_by_desc :: "('r \<Rightarrow> int) \<Rightarrow> 'r list \<Rightarrow> 'r list" where
  "order_by_desc f rows = sort_key (\<lambda>r. - f r) rows"

text \<open>An optional filter of a query: \<open>None\<close> and the empty string add no clause.\<close>

definition clause :: "string option \<Rightarrow> string option \<Rightarrow> bool" where
  "clause param col \<longleftrightarrow> (case param of None \<Rightarrow> True | Some p \<Rightarrow> p = [] \<or> col = Some p)"

definition limit_rows :: "nat option \<Rightarrow> 'r list \<Rightarrow> 'r list" where
  "limit_rows lim rows = (case lim of None \<Rightarrow> rows | Some n \<Rightarrow> take n rows)"

definition keyed :: "('r \<Rightarrow> 'k) \<Rightarrow> 'r list \<Rightarrow> bool" where
  "keyed key rows \<longleftrightarrow> distinct (map key rows)"

subsection \<open>Laws\<close>

lemma has_key_iff: "has_key key k rows \<longleftrightarrow> k \<in> key ` set rows"
  by (auto simp: has_key_def list_ex_iff)

lemma find_key_None [table_simps]: "find_key key k rows = None \<longleftrightarrow> k \<notin> key ` set rows"
  by (auto simp: find_key_def find_None_iff)

lemma find_key_Some: "find_key key k rows = Some r \<Longrightarrow> r \<in> set rows \<and> key r = k"
  by (auto simp: find_key_def find_Some_iff)

lemma find_key_Nil [simp]: "find_key key k [] = None"
  by (simp add: find_key_def)

lemma find_key_Cons [simp]:
  "find_key key k (r # rows) = (if key r = k then Some r else find_key key k rows)"
  by (simp add: find_key_def)

lemma find_key_append:
  "find_key key k (xs @ ys) =
     (case find_key key k xs of None \<Rightarrow> find_key key k ys | Some r \<Rightarrow> Some r)"
  by (induction xs) (auto split: option.split)

lemma keyed_find: "keyed key rows \<Longrightarrow> r \<in> set rows \<Longrightarrow> find_key key (key r) rows = Some r"
  by (induction rows) (auto simp: keyed_def)

lemma keyed_find_iff: "keyed key rows \<Longrightarrow> find_key key k rows = Some r \<longleftrightarrow> r \<in> set rows \<and> key r = k"
  using keyed_find find_key_Some by fastforce

lemma find_key_map:
  "(\<And>x. key (f x) = key x) \<Longrightarrow> find_key key k (map f rows) = map_option f (find_key key k rows)"
  by (induction rows) auto

lemma find_key_upsert [table_simps]:
  "find_key key k (upsert key r rows) = (if k = key r then Some r else find_key key k rows)"
proof (cases "has_key key (key r) rows")
  case True
  have "find_key key k (map (\<lambda>x. if key x = key r then r else x) rows) =
      (if k = key r \<and> key r \<in> key ` set rows then Some r else find_key key k rows)"
    by (induction rows) auto
  with True show ?thesis by (auto simp: upsert_def has_key_iff)
next
  case False
  then have none: "find_key key (key r) rows = None"
    by (simp add: find_key_None has_key_iff)
  have "find_key key k (rows @ [r]) =
      (case find_key key k rows of None \<Rightarrow> if key r = k then Some r else None | Some x \<Rightarrow> Some x)"
    by (simp add: find_key_append split: option.split)
  with False none show ?thesis by (auto simp: upsert_def split: option.splits)
qed

lemma map_key_upsert:
  "map key (upsert key r rows) =
     (if key r \<in> key ` set rows then map key rows else map key rows @ [key r])"
  by (auto simp: upsert_def has_key_iff)

lemma keys_upsert: "key ` set (upsert key r rows) = insert (key r) (key ` set rows)"
proof -
  have "set (map key (upsert key r rows)) = insert (key r) (key ` set rows)"
    by (auto simp: map_key_upsert)
  then show ?thesis by simp
qed

lemma keyed_upsert: "keyed key rows \<Longrightarrow> keyed key (upsert key r rows)"
  by (auto simp: keyed_def map_key_upsert)

lemma upsert_cases: "x \<in> set (upsert key r rows) \<Longrightarrow> x = r \<or> (x \<in> set rows \<and> key x \<noteq> key r)"
  by (auto simp: upsert_def has_key_iff split: if_splits) (metis imageI)

lemma upsert_member: "r \<in> set (upsert key r rows)"
  by (force simp: upsert_def has_key_iff)

lemma upsert_keep: "x \<in> set rows \<Longrightarrow> key x \<noteq> key r \<Longrightarrow> x \<in> set (upsert key r rows)"
  by (force simp: upsert_def)

lemma keyed_insert: "keyed key rows \<Longrightarrow> insert_row key r rows = Inr rows' \<Longrightarrow> keyed key rows'"
  by (auto simp: keyed_def insert_row_def has_key_iff split: if_splits)

lemma keyed_insert_or_ignore: "keyed key rows \<Longrightarrow> keyed key (insert_or_ignore key r rows)"
  by (auto simp: keyed_def insert_or_ignore_def has_key_iff)

lemma keyed_update_where:
  "(\<And>x. key (f x) = key x) \<Longrightarrow> keyed key rows \<Longrightarrow> keyed key (update_where p f rows)"
  by (simp add: keyed_def update_where_def comp_def if_distrib cong: if_cong)

lemma keyed_delete: "keyed key rows \<Longrightarrow> keyed key (delete_where p rows)"
  by (simp add: keyed_def delete_where_def distinct_map_filter)

lemma set_order_by [simp]: "set (order_by f rows) = set rows"
  by (simp add: order_by_def)

lemma set_order_by_desc [simp]: "set (order_by_desc f rows) = set rows"
  by (simp add: order_by_desc_def)

lemma sorted_order_by: "sorted (map f (order_by f rows))"
  by (simp add: order_by_def)

lemma mset_order_by_length [simp]: "length (order_by f rows) = length rows"
  by (simp add: order_by_def)

lemma keyed_order_by: "keyed key rows \<Longrightarrow> keyed key (order_by f rows)"
proof -
  assume "keyed key rows"
  then have "inj_on key (set rows)" and "distinct rows"
    by (auto simp: keyed_def distinct_map)
  then show ?thesis by (simp add: keyed_def distinct_map order_by_def)
qed

lemma filter_order_by: "filter p (order_by f rows) = order_by f (filter p rows)"
  by (simp add: order_by_def filter_sort)

subsection \<open>The interface of a table with a primary key\<close>

text \<open>
  What a client of a keyed table relies on: \<open>look\<close> reads a row by its key, \<open>put\<close> is
  the upsert, \<open>rows\<close> lists the rows and \<open>wf\<close> says that keys are unique. The client
  lemma is the loop the control plane runs over and over: list the rows once, then put a
  changed copy of some of them.
\<close>

locale keyed_table =
  fixes key :: "'r \<Rightarrow> 'k"
    and look :: "'k \<Rightarrow> 't \<Rightarrow> 'r option"
    and put :: "'r \<Rightarrow> 't \<Rightarrow> 't"
    and rows :: "'t \<Rightarrow> 'r list"
    and wf :: "'t \<Rightarrow> bool"
  assumes look_put: "look k (put r t) = (if k = key r then Some r else look k t)"
    and rows_look: "wf t \<Longrightarrow> r \<in> set (rows t) \<longleftrightarrow> look (key r) t = Some r"
    and wf_put: "wf t \<Longrightarrow> wf (put r t)"
    and look_key: "look k t = Some r \<Longrightarrow> key r = k"
    and distinct_rows: "wf t \<Longrightarrow> distinct (map key (rows t))"
    and rows_put: "wf t \<Longrightarrow> look (key r) t \<noteq> None \<Longrightarrow>
      rows (put r t) = map (\<lambda>x. if key x = key r then r else x) (rows t)"
begin

fun put_all :: "('r \<Rightarrow> bool) \<Rightarrow> ('r \<Rightarrow> 'r) \<Rightarrow> 'r list \<Rightarrow> 't \<Rightarrow> 't" where
  "put_all p f [] t = t"
| "put_all p f (r # rs) t = put_all p f rs (if p r then put (f r) t else t)"

lemma wf_put_all: "wf t \<Longrightarrow> wf (put_all p f rs t)"
  by (induction rs arbitrary: t) (auto simp: wf_put)

lemma look_put_all:
  assumes "\<And>r. key (f r) = key r" and "distinct (map key rs)"
  shows "look k (put_all p f rs t) =
    (case List.find (\<lambda>r. key r = k \<and> p r) rs of Some r \<Rightarrow> Some (f r) | None \<Rightarrow> look k t)"
  using assms(2)
proof (induction rs arbitrary: t)
  case Nil
  then show ?case by simp
next
  case (Cons r rs)
  have none: "List.find (\<lambda>r. key r = k \<and> p r) rs = None" if "key r = k"
    using Cons.prems that by (auto simp: find_None_iff) (metis imageI)
  from Cons show ?case using none
    by (auto simp: look_put assms(1) split: option.splits)
qed

text \<open>Running the loop over the listing of the table itself changes each row once.\<close>

lemma look_put_rows:
  assumes f: "\<And>r. key (f r) = key r" and wf: "wf t"
  shows "look k (put_all p f (rows t) t) = map_option (\<lambda>r. if p r then f r else r) (look k t)"
proof (cases "look k t")
  case None
  then have "List.find (\<lambda>r. key r = k \<and> p r) (rows t) = None"
    using rows_look [OF wf] by (auto simp: find_None_iff)
  with None show ?thesis by (simp add: look_put_all [OF f distinct_rows [OF wf]])
next
  case (Some r)
  then have mem: "r \<in> set (rows t)" and key: "key r = k"
    using rows_look [OF wf] look_key by auto
  show ?thesis
  proof (cases "List.find (\<lambda>r. key r = k \<and> p r) (rows t)")
    case None
    then have "\<not> p r" using mem key by (auto simp: find_None_iff)
    with None Some show ?thesis by (simp add: look_put_all [OF f distinct_rows [OF wf]])
  next
    case found: (Some r')
    then have "r' \<in> set (rows t)" and "key r' = k" and "p r'"
      by (auto simp: find_Some_iff)
    then have "r' = r" using rows_look [OF wf] Some by auto
    with found Some \<open>p r'\<close> show ?thesis by (simp add: look_put_all [OF f distinct_rows [OF wf]])
  qed
qed

text \<open>The listing after the loop is the old listing with the function applied in place.\<close>

lemma rows_put_all:
  assumes f: "\<And>r. key (f r) = key r"
  shows "wf t \<Longrightarrow> distinct (map key rs) \<Longrightarrow> set rs \<subseteq> set (rows t) \<Longrightarrow>
    rows (put_all p f rs t) = map (\<lambda>r. if r \<in> set rs \<and> p r then f r else r) (rows t)"
proof (induction rs arbitrary: t)
  case Nil
  then show ?case by simp
next
  case (Cons r rs)
  let ?t = "if p r then put (f r) t else t"
  have uniq: "x = r" if "x \<in> set (rows t)" and "key x = key r" for x
    using that Cons.prems rows_look by (metis (no_types) insert_subset list.simps(15) option.inject)
  have look: "look (key (f r)) t \<noteq> None"
    using Cons.prems rows_look by (auto simp: f)
  have rows_t: "rows ?t = map (\<lambda>x. if x = r \<and> p r then f r else x) (rows t)"
    using rows_put [OF Cons.prems(1) look] uniq by (auto simp: f)
  have "x \<in> set (rows ?t)" if "x \<in> set rs" for x
    using that Cons.prems rows_t by force
  then have "rows (put_all p f rs ?t) =
      map (\<lambda>x. if x \<in> set rs \<and> p x then f x else x) (rows ?t)"
    using Cons.prems by (intro Cons.IH) (auto simp: wf_put)
  moreover have "f r \<notin> set rs"
    using Cons.prems f by (metis distinct.simps(2) image_eqI list.set_map list.simps(9))
  ultimately show ?case using Cons.prems(2) by (auto simp: rows_t)
qed

lemma rows_put_rows:
  assumes "\<And>r. key (f r) = key r" and "wf t"
  shows "rows (put_all p f (rows t) t) = map (\<lambda>r. if p r then f r else r) (rows t)"
  using assms by (simp add: rows_put_all distinct_rows)

end

text \<open>A list of rows under \<open>upsert\<close>, listed in key order, is such a table.\<close>

lemma sort_key_map: "(\<And>x. f (g x) = f x) \<Longrightarrow> sort_key f (map g xs) = map g (sort_key f xs)"
proof (induction xs)
  case Nil
  then show ?case by simp
next
  case (Cons x xs)
  have "insort_key f (g x) (map g ys) = map g (insort_key f x ys)" for ys
    by (induction ys) (simp_all add: Cons.prems)
  with Cons show ?case by simp
qed

lemma keyed_table_upsert:
  "keyed_table key (find_key key) (upsert key) (order_by key) (keyed key)"
proof
  show "find_key key k (upsert key r t) = (if k = key r then Some r else find_key key k t)"
    for k r t by (rule find_key_upsert)
  show "r \<in> set (order_by key t) \<longleftrightarrow> find_key key (key r) t = Some r" if "keyed key t" for t r
    using that by (simp add: keyed_find_iff)
  show "keyed key (upsert key r t)" if "keyed key t" for t r
    using that by (rule keyed_upsert)
  show "key r = k" if "find_key key k t = Some r" for k t r
    using find_key_Some [OF that] by simp
  show "distinct (map key (order_by key t))" if "keyed key t" for t
    using keyed_order_by [OF that] by (simp add: keyed_def)
  show "order_by key (upsert key r t) = map (\<lambda>x. if key x = key r then r else x) (order_by key t)"
    if "keyed key t" and "find_key key (key r) t \<noteq> None" for t r
    using that by (auto simp: order_by_def upsert_def has_key_iff find_key_None sort_key_map)
qed

lemma upsert_present:
  "k \<in> key ` set rows \<Longrightarrow> key r = k \<Longrightarrow>
    upsert key r rows = map (\<lambda>x. if key x = k then r else x) rows"
  by (auto simp: upsert_def has_key_iff)

text \<open>So is a list that is only ever read as it stands.\<close>

lemma keyed_table_list: "keyed_table key (find_key key) (upsert key) (\<lambda>t. t) (keyed key)"
proof
  show "find_key key k (upsert key r t) = (if k = key r then Some r else find_key key k t)"
    for k r t by (rule find_key_upsert)
  show "r \<in> set t \<longleftrightarrow> find_key key (key r) t = Some r" if "keyed key t" for t r
    using that by (simp add: keyed_find_iff)
  show "keyed key (upsert key r t)" if "keyed key t" for t r
    using that by (rule keyed_upsert)
  show "key r = k" if "find_key key k t = Some r" for k t r
    using find_key_Some [OF that] by simp
  show "distinct (map key t)" if "keyed key t" for t
    using that by (simp add: keyed_def)
  show "upsert key r t = map (\<lambda>x. if key x = key r then r else x) t"
    if "keyed key t" and "find_key key (key r) t \<noteq> None" for t r
    using that by (simp add: find_key_None upsert_present)
qed

lemma map_upsert:
  "(\<And>x. k' (g x) = k x) \<Longrightarrow> map g (upsert k r rows) = upsert k' (g r) (map g rows)"
  by (auto simp: upsert_def has_key_iff image_image)

end
