(* ===== verification/Domain_Types.thy ===== *)
theory Domain_Types
  imports Complex_Main Sql_Table
begin

section \<open>The domain model\<close>

text \<open>
  The enumerations and dataclasses of \<open>domain.py\<close> up to \<open>FailureClassification\<close>, in
  the source's order. A \<open>StrEnum\<close> is a datatype with the values of its members, and an
  interpretation of the enumeration contract; a dataclass is a record whose fields carry
  the name of the class as a prefix. A \<open>datetime\<close> is the number of microseconds since
  the epoch in UTC. Its ISO text, which the store keeps, orders the same way. A float
  field is a rational number.
\<close>

type_synonym time = int

datatype TaskStatus =
    TS_PENDING
  | TS_ACTIVE
  | TS_COMPLETED
  | TS_FAILED

fun TaskStatus_value :: "TaskStatus \<Rightarrow> string" where
  "TaskStatus_value TS_PENDING = ''pending''"
| "TaskStatus_value TS_ACTIVE = ''active''"
| "TaskStatus_value TS_COMPLETED = ''completed''"
| "TaskStatus_value TS_FAILED = ''failed''"

definition TaskStatus_members :: "TaskStatus list" where
  "TaskStatus_members =
     [TS_PENDING, TS_ACTIVE, TS_COMPLETED, TS_FAILED]"

interpretation TaskStatus: plain_str_enum TaskStatus_members TaskStatus_value
  by (rule plain_str_enumI, case_tac e, simp_all add: TaskStatus_members_def plain_string_simps)

datatype RunStatus =
    RS_PLANNING
  | RS_WORKING
  | RS_VALIDATING
  | RS_ANALYZING
  | RS_DECIDING
  | RS_COMPLETED
  | RS_FAILED
  | RS_BLOCKED
  | RS_DISPOSED

fun RunStatus_value :: "RunStatus \<Rightarrow> string" where
  "RunStatus_value RS_PLANNING = ''planning''"
| "RunStatus_value RS_WORKING = ''working''"
| "RunStatus_value RS_VALIDATING = ''validating''"
| "RunStatus_value RS_ANALYZING = ''analyzing''"
| "RunStatus_value RS_DECIDING = ''deciding''"
| "RunStatus_value RS_COMPLETED = ''completed''"
| "RunStatus_value RS_FAILED = ''failed''"
| "RunStatus_value RS_BLOCKED = ''blocked''"
| "RunStatus_value RS_DISPOSED = ''disposed''"

definition RunStatus_members :: "RunStatus list" where
  "RunStatus_members =
     [RS_PLANNING, RS_WORKING, RS_VALIDATING, RS_ANALYZING, RS_DECIDING, RS_COMPLETED, RS_FAILED, RS_BLOCKED, RS_DISPOSED]"

interpretation RunStatus: plain_str_enum RunStatus_members RunStatus_value
  by (rule plain_str_enumI, case_tac e, simp_all add: RunStatus_members_def plain_string_simps)

datatype EvaluationVerdict =
    EV_ACCEPTABLE
  | EV_INCOMPLETE
  | EV_FAILED
  | EV_BLOCKED

fun EvaluationVerdict_value :: "EvaluationVerdict \<Rightarrow> string" where
  "EvaluationVerdict_value EV_ACCEPTABLE = ''acceptable''"
| "EvaluationVerdict_value EV_INCOMPLETE = ''incomplete''"
| "EvaluationVerdict_value EV_FAILED = ''failed''"
| "EvaluationVerdict_value EV_BLOCKED = ''blocked''"

definition EvaluationVerdict_members :: "EvaluationVerdict list" where
  "EvaluationVerdict_members =
     [EV_ACCEPTABLE, EV_INCOMPLETE, EV_FAILED, EV_BLOCKED]"

interpretation EvaluationVerdict: plain_str_enum EvaluationVerdict_members EvaluationVerdict_value
  by (rule plain_str_enumI, case_tac e, simp_all add: EvaluationVerdict_members_def plain_string_simps)

datatype DecisionAction =
    DA_RETRY
  | DA_PROMOTE
  | DA_FAIL
  | DA_BRANCH

fun DecisionAction_value :: "DecisionAction \<Rightarrow> string" where
  "DecisionAction_value DA_RETRY = ''retry''"
| "DecisionAction_value DA_PROMOTE = ''promote''"
| "DecisionAction_value DA_FAIL = ''fail''"
| "DecisionAction_value DA_BRANCH = ''branch''"

definition DecisionAction_members :: "DecisionAction list" where
  "DecisionAction_members =
     [DA_RETRY, DA_PROMOTE, DA_FAIL, DA_BRANCH]"

interpretation DecisionAction: plain_str_enum DecisionAction_members DecisionAction_value
  by (rule plain_str_enumI, case_tac e, simp_all add: DecisionAction_members_def plain_string_simps)

datatype PromotionStatus =
    PS_PENDING
  | PS_APPROVED
  | PS_REJECTED

fun PromotionStatus_value :: "PromotionStatus \<Rightarrow> string" where
  "PromotionStatus_value PS_PENDING = ''pending''"
| "PromotionStatus_value PS_APPROVED = ''approved''"
| "PromotionStatus_value PS_REJECTED = ''rejected''"

definition PromotionStatus_members :: "PromotionStatus list" where
  "PromotionStatus_members =
     [PS_PENDING, PS_APPROVED, PS_REJECTED]"

interpretation PromotionStatus: plain_str_enum PromotionStatus_members PromotionStatus_value
  by (rule plain_str_enumI, case_tac e, simp_all add: PromotionStatus_members_def plain_string_simps)

datatype WorkspacePolicy =
    WP_ISOLATED_REQUIRED
  | WP_ISOLATED_PREFERRED
  | WP_SHARED_ALLOWED

fun WorkspacePolicy_value :: "WorkspacePolicy \<Rightarrow> string" where
  "WorkspacePolicy_value WP_ISOLATED_REQUIRED = ''isolated_required''"
| "WorkspacePolicy_value WP_ISOLATED_PREFERRED = ''isolated_preferred''"
| "WorkspacePolicy_value WP_SHARED_ALLOWED = ''shared_allowed''"

definition WorkspacePolicy_members :: "WorkspacePolicy list" where
  "WorkspacePolicy_members =
     [WP_ISOLATED_REQUIRED, WP_ISOLATED_PREFERRED, WP_SHARED_ALLOWED]"

interpretation WorkspacePolicy: plain_str_enum WorkspacePolicy_members WorkspacePolicy_value
  by (rule plain_str_enumI, case_tac e, simp_all add: WorkspacePolicy_members_def plain_string_simps)

datatype PromotionMode =
    PM_DIRECT_MAIN
  | PM_BRANCH_ONLY
  | PM_BRANCH_AND_PR

fun PromotionMode_value :: "PromotionMode \<Rightarrow> string" where
  "PromotionMode_value PM_DIRECT_MAIN = ''direct_main''"
| "PromotionMode_value PM_BRANCH_ONLY = ''branch_only''"
| "PromotionMode_value PM_BRANCH_AND_PR = ''branch_and_pr''"

definition PromotionMode_members :: "PromotionMode list" where
  "PromotionMode_members =
     [PM_DIRECT_MAIN, PM_BRANCH_ONLY, PM_BRANCH_AND_PR]"

interpretation PromotionMode: plain_str_enum PromotionMode_members PromotionMode_value
  by (rule plain_str_enumI, case_tac e, simp_all add: PromotionMode_members_def plain_string_simps)

datatype RepoProvider =
    RP_GITHUB
  | RP_GITLAB

fun RepoProvider_value :: "RepoProvider \<Rightarrow> string" where
  "RepoProvider_value RP_GITHUB = ''github''"
| "RepoProvider_value RP_GITLAB = ''gitlab''"

definition RepoProvider_members :: "RepoProvider list" where
  "RepoProvider_members =
     [RP_GITHUB, RP_GITLAB]"

interpretation RepoProvider: plain_str_enum RepoProvider_members RepoProvider_value
  by (rule plain_str_enumI, case_tac e, simp_all add: RepoProvider_members_def plain_string_simps)

datatype GlobalSystemState =
    GS_OFF
  | GS_STARTING
  | GS_HEALTHY
  | GS_DEGRADED
  | GS_FROZEN

fun GlobalSystemState_value :: "GlobalSystemState \<Rightarrow> string" where
  "GlobalSystemState_value GS_OFF = ''off''"
| "GlobalSystemState_value GS_STARTING = ''starting''"
| "GlobalSystemState_value GS_HEALTHY = ''healthy''"
| "GlobalSystemState_value GS_DEGRADED = ''degraded''"
| "GlobalSystemState_value GS_FROZEN = ''frozen''"

definition GlobalSystemState_members :: "GlobalSystemState list" where
  "GlobalSystemState_members =
     [GS_OFF, GS_STARTING, GS_HEALTHY, GS_DEGRADED, GS_FROZEN]"

interpretation GlobalSystemState: plain_str_enum GlobalSystemState_members GlobalSystemState_value
  by (rule plain_str_enumI, case_tac e, simp_all add: GlobalSystemState_members_def plain_string_simps)

datatype ControlLaneStateValue =
    LS_RUNNING
  | LS_PAUSED
  | LS_COOLDOWN
  | LS_DISABLED

fun ControlLaneStateValue_value :: "ControlLaneStateValue \<Rightarrow> string" where
  "ControlLaneStateValue_value LS_RUNNING = ''running''"
| "ControlLaneStateValue_value LS_PAUSED = ''paused''"
| "ControlLaneStateValue_value LS_COOLDOWN = ''cooldown''"
| "ControlLaneStateValue_value LS_DISABLED = ''disabled''"

definition ControlLaneStateValue_members :: "ControlLaneStateValue list" where
  "ControlLaneStateValue_members =
     [LS_RUNNING, LS_PAUSED, LS_COOLDOWN, LS_DISABLED]"

interpretation ControlLaneStateValue: plain_str_enum ControlLaneStateValue_members ControlLaneStateValue_value
  by (rule plain_str_enumI, case_tac e, simp_all add: ControlLaneStateValue_members_def plain_string_simps)

datatype ObjectiveStatus =
    OS_OPEN
  | OS_INVESTIGATING
  | OS_PLANNING
  | OS_EXECUTING
  | OS_PAUSED
  | OS_RESOLVED

fun ObjectiveStatus_value :: "ObjectiveStatus \<Rightarrow> string" where
  "ObjectiveStatus_value OS_OPEN = ''open''"
| "ObjectiveStatus_value OS_INVESTIGATING = ''investigating''"
| "ObjectiveStatus_value OS_PLANNING = ''planning''"
| "ObjectiveStatus_value OS_EXECUTING = ''executing''"
| "ObjectiveStatus_value OS_PAUSED = ''paused''"
| "ObjectiveStatus_value OS_RESOLVED = ''resolved''"

definition ObjectiveStatus_members :: "ObjectiveStatus list" where
  "ObjectiveStatus_members =
     [OS_OPEN, OS_INVESTIGATING, OS_PLANNING, OS_EXECUTING, OS_PAUSED, OS_RESOLVED]"

interpretation ObjectiveStatus: plain_str_enum ObjectiveStatus_members ObjectiveStatus_value
  by (rule plain_str_enumI, case_tac e, simp_all add: ObjectiveStatus_members_def plain_string_simps)

datatype ObjectivePhase =
    OP_CREATED
  | OP_INTERROGATING
  | OP_MERMAID_REVIEW
  | OP_TRIO_PLANNING
  | OP_EXECUTING
  | OP_REVIEWING
  | OP_PROMOTED
  | OP_FAILED

fun ObjectivePhase_value :: "ObjectivePhase \<Rightarrow> string" where
  "ObjectivePhase_value OP_CREATED = ''created''"
| "ObjectivePhase_value OP_INTERROGATING = ''interrogating''"
| "ObjectivePhase_value OP_MERMAID_REVIEW = ''mermaid_review''"
| "ObjectivePhase_value OP_TRIO_PLANNING = ''trio_planning''"
| "ObjectivePhase_value OP_EXECUTING = ''executing''"
| "ObjectivePhase_value OP_REVIEWING = ''reviewing''"
| "ObjectivePhase_value OP_PROMOTED = ''promoted''"
| "ObjectivePhase_value OP_FAILED = ''failed''"

definition ObjectivePhase_members :: "ObjectivePhase list" where
  "ObjectivePhase_members =
     [OP_CREATED, OP_INTERROGATING, OP_MERMAID_REVIEW, OP_TRIO_PLANNING, OP_EXECUTING, OP_REVIEWING, OP_PROMOTED, OP_FAILED]"

interpretation ObjectivePhase: plain_str_enum ObjectivePhase_members ObjectivePhase_value
  by (rule plain_str_enumI, case_tac e, simp_all add: ObjectivePhase_members_def plain_string_simps)

datatype MermaidStatus =
    MS_DRAFT
  | MS_IN_REVIEW
  | MS_PAUSED
  | MS_FINISHED
  | MS_SUPERSEDED

fun MermaidStatus_value :: "MermaidStatus \<Rightarrow> string" where
  "MermaidStatus_value MS_DRAFT = ''draft''"
| "MermaidStatus_value MS_IN_REVIEW = ''in_review''"
| "MermaidStatus_value MS_PAUSED = ''paused''"
| "MermaidStatus_value MS_FINISHED = ''finished''"
| "MermaidStatus_value MS_SUPERSEDED = ''superseded''"

definition MermaidStatus_members :: "MermaidStatus list" where
  "MermaidStatus_members =
     [MS_DRAFT, MS_IN_REVIEW, MS_PAUSED, MS_FINISHED, MS_SUPERSEDED]"

interpretation MermaidStatus: plain_str_enum MermaidStatus_members MermaidStatus_value
  by (rule plain_str_enumI, case_tac e, simp_all add: MermaidStatus_members_def plain_string_simps)

record Project =
  project_id :: string
  project_name :: string
  project_description :: string
  project_adapter_name :: string
  project_workspace_policy :: WorkspacePolicy
  project_promotion_mode :: PromotionMode
  project_repo_provider :: "RepoProvider option"
  project_repo_name :: "string option"
  project_base_branch :: string
  project_max_concurrent_tasks :: int
  project_created_at :: time

record Task =
  task_id :: string
  task_project_id :: string
  task_title :: string
  task_objective :: string
  task_objective_id :: "string option"
  task_plan_id :: "string option"
  task_mermaid_node_id :: "string option"
  task_priority :: int
  task_parent_task_id :: "string option"
  task_source_run_id :: "string option"
  task_external_ref_type :: "string option"
  task_external_ref_id :: "string option"
  task_external_ref_metadata :: pydict
  task_validation_profile :: string
  task_validation_mode :: string
  task_scope :: pydict
  task_strategy :: string
  task_max_attempts :: int
  task_max_branches :: int
  task_required_artifacts :: "string list"
  task_attempt_metadata :: pydict
  task_status :: TaskStatus
  task_created_at :: time
  task_updated_at :: time

record Plan =
  plan_id :: string
  plan_objective_id :: string
  plan_mermaid_node_id :: "string option"
  plan_parent_plan_id :: "string option"
  plan_plan_revision :: int
  plan_slice :: pydict
  plan_atomicity_assessment :: pydict
  plan_approval_status :: string
  plan_created_at :: time
  plan_updated_at :: time

record Objective =
  objective_id :: string
  objective_project_id :: string
  objective_title :: string
  objective_summary :: string
  objective_priority :: int
  objective_status :: ObjectiveStatus
  objective_phase :: ObjectivePhase
  objective_created_at :: time
  objective_updated_at :: time

record IntentModel =
  im_id :: string
  im_objective_id :: string
  im_version :: int
  im_intent_summary :: string
  im_success_definition :: string
  im_non_negotiables :: "string list"
  im_preferred_tradeoffs :: "string list"
  im_unacceptable_outcomes :: "string list"
  im_known_unknowns :: "string list"
  im_operator_examples :: "string list"
  im_frustration_signals :: "string list"
  im_sop_constraints :: "string list"
  im_current_confidence :: rat
  im_author_type :: string
  im_created_at :: time

record MermaidArtifact =
  mm_id :: string
  mm_objective_id :: string
  mm_diagram_type :: string
  mm_version :: int
  mm_status :: MermaidStatus
  mm_summary :: string
  mm_content :: string
  mm_required_for_execution :: bool
  mm_blocking_reason :: string
  mm_author_type :: string
  mm_created_at :: time
  mm_updated_at :: time

record Run =
  run_id :: string
  run_task_id :: string
  run_status :: RunStatus
  run_attempt :: int
  run_summary :: string
  run_branch_id :: "string option"
  run_created_at :: time
  run_updated_at :: time

record Artifact =
  artifact_id :: string
  artifact_run_id :: string
  artifact_kind :: string
  artifact_path :: string
  artifact_summary :: string
  artifact_created_at :: time

record Evaluation =
  evaluation_id :: string
  evaluation_run_id :: string
  evaluation_verdict :: EvaluationVerdict
  evaluation_confidence :: rat
  evaluation_summary :: string
  evaluation_details :: pydict
  evaluation_created_at :: time

record Decision =
  decision_id :: string
  decision_run_id :: string
  decision_action :: DecisionAction
  decision_rationale :: string
  decision_created_at :: time

record Event =
  event_id :: string
  event_entity_type :: string
  event_entity_id :: string
  event_event_type :: string
  event_payload :: pydict
  event_created_at :: time

record TaskLease =
  lease_task_id :: string
  lease_worker_id :: string
  lease_lease_expires_at :: time
  lease_created_at :: time

record PromotionRecord =
  promotion_id :: string
  promotion_task_id :: string
  promotion_run_id :: string
  promotion_status :: PromotionStatus
  promotion_summary :: string
  promotion_details :: pydict
  promotion_created_at :: time

record DecisionQueueItem =
  dqi_id :: string
  dqi_run_id :: string
  dqi_task_id :: string
  dqi_evaluation_id :: string
  dqi_priority :: int
  dqi_created_at :: time
  dqi_status :: string
  dqi_started_at :: "time option"
  dqi_completed_at :: "time option"

record FailurePatternRecord =
  fpr_id :: string
  fpr_task_id :: string
  fpr_run_id :: string
  fpr_objective_id :: "string option"
  fpr_attempt :: int
  fpr_category :: string
  fpr_fingerprint :: string
  fpr_summary :: string
  fpr_details :: pydict
  fpr_created_at :: time

record ContextRecord =
  ctx_id :: string
  ctx_record_type :: string
  ctx_project_id :: string
  ctx_objective_id :: "string option"
  ctx_task_id :: "string option"
  ctx_run_id :: "string option"
  ctx_visibility :: string
  ctx_author_type :: string
  ctx_author_id :: string
  ctx_content :: string
  ctx_metadata :: pydict
  ctx_created_at :: time

record ControlSystemState =
  css_id :: string
  css_global_state :: GlobalSystemState
  css_master_switch :: bool
  css_freeze_reason :: "string option"
  css_updated_at :: time

record ControlLaneState =
  cls_lane_name :: string
  cls_state :: ControlLaneStateValue
  cls_reason :: "string option"
  cls_cooldown_until :: "time option"
  cls_updated_at :: time

record ControlEvent =
  cev_id :: string
  cev_event_type :: string
  cev_entity_type :: string
  cev_entity_id :: string
  cev_producer :: string
  cev_payload :: pydict
  cev_idempotency_key :: string
  cev_created_at :: time

record ControlBreadcrumb =
  cbc_id :: string
  cbc_entity_type :: string
  cbc_entity_id :: string
  cbc_worker_run_id :: "string option"
  cbc_classification :: "string option"
  cbc_path :: string
  cbc_created_at :: time

record ControlRecoveryAction =
  cra_id :: string
  cra_action_type :: string
  cra_target_type :: string
  cra_target_id :: string
  cra_reason :: string
  cra_result :: string
  cra_created_at :: time

record ControlCooldown =
  ccd_id :: string
  ccd_scope_type :: string
  ccd_scope_id :: string
  ccd_reason :: string
  ccd_until_at :: time
  ccd_created_at :: time

record ControlBudget =
  cbu_id :: string
  cbu_budget_scope :: string
  cbu_budget_key :: string
  cbu_window_start :: time
  cbu_window_end :: time
  cbu_usage_count :: int
  cbu_usage_cost_usd :: rat
  cbu_updated_at :: time

record ControlWorkerRun =
  cwr_id :: string
  cwr_task_id :: "string option"
  cwr_objective_id :: "string option"
  cwr_worker_kind :: string
  cwr_runtime_name :: string
  cwr_model_name :: "string option"
  cwr_attempt :: int
  cwr_status :: string
  cwr_classification :: "string option"
  cwr_started_at :: time
  cwr_ended_at :: "time option"
  cwr_breadcrumb_path :: "string option"

record FailureClassification =
  fc_classification :: string
  fc_confidence :: rat
  fc_retry_recommended :: bool
  fc_cooldown_seconds :: int
  fc_evidence :: "string list"

datatype ReviewVerdict =
    RV_PASS
  | RV_CONCERN
  | RV_REMEDIATION_REQUIRED

fun ReviewVerdict_value :: "ReviewVerdict \<Rightarrow> string" where
  "ReviewVerdict_value RV_PASS = ''pass''"
| "ReviewVerdict_value RV_CONCERN = ''concern''"
| "ReviewVerdict_value RV_REMEDIATION_REQUIRED = ''remediation_required''"

definition ReviewVerdict_members :: "ReviewVerdict list" where
  "ReviewVerdict_members =
     [RV_PASS, RV_CONCERN, RV_REMEDIATION_REQUIRED]"

interpretation ReviewVerdict: plain_str_enum ReviewVerdict_members ReviewVerdict_value
  by (rule plain_str_enumI, case_tac e, simp_all add: ReviewVerdict_members_def plain_string_simps)

datatype ReviewSeverity =
    RSV_NONE
  | RSV_LOW
  | RSV_MEDIUM
  | RSV_HIGH

fun ReviewSeverity_value :: "ReviewSeverity \<Rightarrow> string" where
  "ReviewSeverity_value RSV_NONE = ''''"
| "ReviewSeverity_value RSV_LOW = ''low''"
| "ReviewSeverity_value RSV_MEDIUM = ''medium''"
| "ReviewSeverity_value RSV_HIGH = ''high''"

definition ReviewSeverity_members :: "ReviewSeverity list" where
  "ReviewSeverity_members =
     [RSV_NONE, RSV_LOW, RSV_MEDIUM, RSV_HIGH]"

interpretation ReviewSeverity: str_enum ReviewSeverity_members ReviewSeverity_value
  by (rule str_enumI, case_tac e, simp_all add: ReviewSeverity_members_def plain_string_simps)

datatype ReviewProgressStatus =
    RPS_NEW_CONCERN
  | RPS_STILL_BLOCKING
  | RPS_IMPROVING
  | RPS_RESOLVED
  | RPS_NOT_APPLICABLE

fun ReviewProgressStatus_value :: "ReviewProgressStatus \<Rightarrow> string" where
  "ReviewProgressStatus_value RPS_NEW_CONCERN = ''new_concern''"
| "ReviewProgressStatus_value RPS_STILL_BLOCKING = ''still_blocking''"
| "ReviewProgressStatus_value RPS_IMPROVING = ''improving''"
| "ReviewProgressStatus_value RPS_RESOLVED = ''resolved''"
| "ReviewProgressStatus_value RPS_NOT_APPLICABLE = ''not_applicable''"

definition ReviewProgressStatus_members :: "ReviewProgressStatus list" where
  "ReviewProgressStatus_members =
     [RPS_NEW_CONCERN, RPS_STILL_BLOCKING, RPS_IMPROVING, RPS_RESOLVED, RPS_NOT_APPLICABLE]"

interpretation ReviewProgressStatus: plain_str_enum ReviewProgressStatus_members ReviewProgressStatus_value
  by (rule plain_str_enumI, case_tac e, simp_all add: ReviewProgressStatus_members_def plain_string_simps)

datatype ReviewDimension =
    RD_INTENT_FIDELITY
  | RD_UNIT_TEST_COVERAGE
  | RD_INTEGRATION_E2E_COVERAGE
  | RD_SECURITY
  | RD_DEVOPS
  | RD_ATOMIC_FIDELITY
  | RD_CODE_STRUCTURE

fun ReviewDimension_value :: "ReviewDimension \<Rightarrow> string" where
  "ReviewDimension_value RD_INTENT_FIDELITY = ''intent_fidelity''"
| "ReviewDimension_value RD_UNIT_TEST_COVERAGE = ''unit_test_coverage''"
| "ReviewDimension_value RD_INTEGRATION_E2E_COVERAGE = ''integration_e2e_coverage''"
| "ReviewDimension_value RD_SECURITY = ''security''"
| "ReviewDimension_value RD_DEVOPS = ''devops''"
| "ReviewDimension_value RD_ATOMIC_FIDELITY = ''atomic_fidelity''"
| "ReviewDimension_value RD_CODE_STRUCTURE = ''code_structure''"

definition ReviewDimension_members :: "ReviewDimension list" where
  "ReviewDimension_members =
     [RD_INTENT_FIDELITY, RD_UNIT_TEST_COVERAGE, RD_INTEGRATION_E2E_COVERAGE, RD_SECURITY, RD_DEVOPS, RD_ATOMIC_FIDELITY, RD_CODE_STRUCTURE]"

interpretation ReviewDimension: plain_str_enum ReviewDimension_members ReviewDimension_value
  by (rule plain_str_enumI, case_tac e, simp_all add: ReviewDimension_members_def plain_string_simps)

datatype PlanComplexity =
    PC_TRIVIAL
  | PC_SMALL
  | PC_MEDIUM
  | PC_LARGE
  | PC_TOO_LARGE

fun PlanComplexity_value :: "PlanComplexity \<Rightarrow> string" where
  "PlanComplexity_value PC_TRIVIAL = ''trivial''"
| "PlanComplexity_value PC_SMALL = ''small''"
| "PlanComplexity_value PC_MEDIUM = ''medium''"
| "PlanComplexity_value PC_LARGE = ''large''"
| "PlanComplexity_value PC_TOO_LARGE = ''too_large''"

definition PlanComplexity_members :: "PlanComplexity list" where
  "PlanComplexity_members =
     [PC_TRIVIAL, PC_SMALL, PC_MEDIUM, PC_LARGE, PC_TOO_LARGE]"

interpretation PlanComplexity: plain_str_enum PlanComplexity_members PlanComplexity_value
  by (rule plain_str_enumI, case_tac e, simp_all add: PlanComplexity_members_def plain_string_simps)

datatype OrphanStrategy =
    OST_ABSORB
  | OST_FOLLOW_UP
  | OST_ACCEPT

fun OrphanStrategy_value :: "OrphanStrategy \<Rightarrow> string" where
  "OrphanStrategy_value OST_ABSORB = ''absorb''"
| "OrphanStrategy_value OST_FOLLOW_UP = ''follow_up''"
| "OrphanStrategy_value OST_ACCEPT = ''accept''"

definition OrphanStrategy_members :: "OrphanStrategy list" where
  "OrphanStrategy_members =
     [OST_ABSORB, OST_FOLLOW_UP, OST_ACCEPT]"

interpretation OrphanStrategy: plain_str_enum OrphanStrategy_members OrphanStrategy_value
  by (rule plain_str_enumI, case_tac e, simp_all add: OrphanStrategy_members_def plain_string_simps)

end
