(* ===== verification/Domain_Dicts.thy ===== *)
theory Domain_Dicts
  imports Domain_Types
begin

section \<open>Typed domain classes and their dictionaries\<close>

text \<open>
  The classes at the end of \<open>domain.py\<close> that replace untyped dictionaries: review packets
  and their evidence contracts, plan slices, interrogation reviews and review rounds, with
  their \<open>from_dict\<close> and \<open>to_dict\<close> methods. Reading is lenient: a missing or falsy entry
  becomes the default, anything is turned into a string where a string is expected; it raises
  only where \<open>list(...)\<close> or \<open>dict(...)\<close> does.
\<close>

text \<open>\<open>list(d.get(k) or [])\<close>, \<open>dict(d.get(k) or {})\<close> and \<open>bool(d.get(k) or False)\<close>.\<close>

definition get_str :: "pydict \<Rightarrow> string \<Rightarrow> string" where
  "get_str d k = str_or_empty (dict_get d k)"

definition get_list :: "pydict \<Rightarrow> string \<Rightarrow> exn + pyval list" where
  "get_list d k = py_list (py_or (dict_get d k) (PList []))"

definition get_dict :: "pydict \<Rightarrow> string \<Rightarrow> exn + pydict" where
  "get_dict d k = py_dict (py_or (dict_get d k) (PDict []))"

definition get_bool :: "pydict \<Rightarrow> string \<Rightarrow> bool" where
  "get_bool d k = truthy (py_or (dict_get d k) (PBool False))"

text \<open>The guard of every reader: the default object unless the argument is a nonempty
  dictionary.\<close>

definition read_dict :: "pyval \<Rightarrow> 'a \<Rightarrow> (pydict \<Rightarrow> exn + 'a) \<Rightarrow> exn + 'a" where
  "read_dict v dflt rd =
     (case v of PDict d \<Rightarrow> if d = [] then Inr dflt else rd d | _ \<Rightarrow> Inr dflt)"

lemmas getter_defs = get_str_def get_list_def get_dict_def get_bool_def read_dict_def

lemma truthy_py_or_False [simp]: "truthy (py_or (PBool b) (PBool False)) = b"
  by (simp add: py_or_def)

lemma py_or_PNone [simp]: "py_or PNone v = v"
  by (simp add: py_or_def)

lemma getters_cong:
  assumes "map_of d = map_of e"
  shows "get_str d = get_str e" "get_list d = get_list e" "get_dict d = get_dict e"
    "get_bool d = get_bool e" "dict_get d = dict_get e" "d = [] \<longleftrightarrow> e = []"
  using dict_get_cong [OF assms] map_of_eq_empty [OF assms]
  by (simp_all add: getter_defs fun_eq_iff)

subsection \<open>Artifact schemas and evidence contracts\<close>

record ArtifactSchema =
  as_type :: string
  as_description :: string
  as_required_fields :: "pyval list"

definition ArtifactSchema_default :: ArtifactSchema where
  "ArtifactSchema_default = \<lparr>as_type = '''', as_description = '''', as_required_fields = []\<rparr>"

definition ArtifactSchema_from_dict :: "pyval \<Rightarrow> exn + ArtifactSchema" where
  "ArtifactSchema_from_dict v = read_dict v ArtifactSchema_default (\<lambda>d.
     rbind (get_list d ''required_fields'') (\<lambda>fs.
     Inr \<lparr>as_type = get_str d ''type'', as_description = get_str d ''description'',
          as_required_fields = fs\<rparr>))"

definition ArtifactSchema_to_dict :: "ArtifactSchema \<Rightarrow> pydict" where
  "ArtifactSchema_to_dict a =
     [(''type'', PStr (as_type a)),
      (''description'', PStr (as_description a)),
      (''required_fields'', PList (as_required_fields a))]"

record EvidenceContract =
  ec_required_artifact_type :: string
  ec_artifact_schema :: "ArtifactSchema option"
  ec_closure_criteria :: string
  ec_evidence_required :: string

definition EvidenceContract_default :: EvidenceContract where
  "EvidenceContract_default =
     \<lparr>ec_required_artifact_type = '''', ec_artifact_schema = None,
      ec_closure_criteria = '''', ec_evidence_required = ''''\<rparr>"

definition EvidenceContract_from_dict :: "pyval \<Rightarrow> exn + EvidenceContract" where
  "EvidenceContract_from_dict v = read_dict v EvidenceContract_default (\<lambda>d.
     (let schema_raw = dict_get d ''artifact_schema'' in
      rbind (if truthy schema_raw
             then rbind (ArtifactSchema_from_dict schema_raw) (\<lambda>a. Inr (Some a))
             else Inr None) (\<lambda>schema.
      Inr \<lparr>ec_required_artifact_type = get_str d ''required_artifact_type'',
           ec_artifact_schema = schema,
           ec_closure_criteria = get_str d ''closure_criteria'',
           ec_evidence_required = get_str d ''evidence_required''\<rparr>)))"

definition EvidenceContract_to_dict :: "EvidenceContract \<Rightarrow> pydict" where
  "EvidenceContract_to_dict c =
     [(''required_artifact_type'', PStr (ec_required_artifact_type c)),
      (''artifact_schema'', case ec_artifact_schema c of
                              Some a \<Rightarrow> PDict (ArtifactSchema_to_dict a) | None \<Rightarrow> PNone),
      (''closure_criteria'', PStr (ec_closure_criteria c)),
      (''evidence_required'', PStr (ec_evidence_required c))]"

subsection \<open>Review packets\<close>

record ReviewPacket =
  rp_reviewer :: string
  rp_dimension :: string
  rp_verdict :: ReviewVerdict
  rp_progress_status :: string
  rp_severity :: string
  rp_owner_scope :: string
  rp_summary :: string
  rp_findings :: "pyval list"
  rp_evidence :: "pyval list"
  rp_required_artifact_type :: string
  rp_artifact_schema :: pydict
  rp_evidence_contract :: pydict
  rp_closure_criteria :: string
  rp_evidence_required :: string
  rp_repeat_reason :: string
  rp_llm_usage :: pydict
  rp_llm_usage_reported :: bool
  rp_llm_usage_source :: string
  rp_backend :: string
  rp_prompt_path :: string
  rp_response_path :: string
  rp_review_task_id :: string
  rp_review_run_id :: string
  rp_packet_record_id :: string

definition ReviewPacket_default :: ReviewPacket where
  "ReviewPacket_default =
     \<lparr>rp_reviewer = '''', rp_dimension = '''', rp_verdict = RV_CONCERN,
      rp_progress_status = '''', rp_severity = '''', rp_owner_scope = '''', rp_summary = '''',
      rp_findings = [], rp_evidence = [], rp_required_artifact_type = '''',
      rp_artifact_schema = [], rp_evidence_contract = [], rp_closure_criteria = '''',
      rp_evidence_required = '''', rp_repeat_reason = '''', rp_llm_usage = [],
      rp_llm_usage_reported = False, rp_llm_usage_source = '''', rp_backend = '''',
      rp_prompt_path = '''', rp_response_path = '''', rp_review_task_id = '''',
      rp_review_run_id = '''', rp_packet_record_id = ''''\<rparr>"

definition ReviewPacket_from_dict :: "pyval \<Rightarrow> exn + ReviewPacket" where
  "ReviewPacket_from_dict v = read_dict v ReviewPacket_default (\<lambda>d.
     (let verdict = (case safe_enum ReviewVerdict_members ReviewVerdict_value
                            (dict_get d ''verdict'') (Some RV_CONCERN) of
                       Some r \<Rightarrow> r | None \<Rightarrow> RV_CONCERN) in
      rbind (get_list d ''findings'') (\<lambda>findings.
      rbind (get_list d ''evidence'') (\<lambda>evidence.
      rbind (get_dict d ''artifact_schema'') (\<lambda>artifact_schema.
      rbind (get_dict d ''evidence_contract'') (\<lambda>evidence_contract.
      rbind (get_dict d ''llm_usage'') (\<lambda>llm_usage.
      Inr \<lparr>rp_reviewer = get_str d ''reviewer'', rp_dimension = get_str d ''dimension'',
           rp_verdict = verdict, rp_progress_status = get_str d ''progress_status'',
           rp_severity = get_str d ''severity'', rp_owner_scope = get_str d ''owner_scope'',
           rp_summary = get_str d ''summary'', rp_findings = findings, rp_evidence = evidence,
           rp_required_artifact_type = get_str d ''required_artifact_type'',
           rp_artifact_schema = artifact_schema, rp_evidence_contract = evidence_contract,
           rp_closure_criteria = get_str d ''closure_criteria'',
           rp_evidence_required = get_str d ''evidence_required'',
           rp_repeat_reason = get_str d ''repeat_reason'', rp_llm_usage = llm_usage,
           rp_llm_usage_reported = get_bool d ''llm_usage_reported'',
           rp_llm_usage_source = get_str d ''llm_usage_source'',
           rp_backend = get_str d ''backend'', rp_prompt_path = get_str d ''prompt_path'',
           rp_response_path = get_str d ''response_path'',
           rp_review_task_id = get_str d ''review_task_id'',
           rp_review_run_id = get_str d ''review_run_id'',
           rp_packet_record_id = get_str d ''packet_record_id''\<rparr>)))))))"

definition ReviewPacket_to_dict :: "ReviewPacket \<Rightarrow> pydict" where
  "ReviewPacket_to_dict p =
     [(''reviewer'', PStr (rp_reviewer p)),
      (''dimension'', PStr (rp_dimension p)),
      (''verdict'', PStr (ReviewVerdict_value (rp_verdict p))),
      (''progress_status'', PStr (rp_progress_status p)),
      (''severity'', PStr (rp_severity p)),
      (''owner_scope'', PStr (rp_owner_scope p)),
      (''summary'', PStr (rp_summary p)),
      (''findings'', PList (rp_findings p)),
      (''evidence'', PList (rp_evidence p)),
      (''required_artifact_type'', PStr (rp_required_artifact_type p)),
      (''artifact_schema'', PDict (rp_artifact_schema p)),
      (''evidence_contract'', PDict (rp_evidence_contract p)),
      (''closure_criteria'', PStr (rp_closure_criteria p)),
      (''evidence_required'', PStr (rp_evidence_required p)),
      (''repeat_reason'', PStr (rp_repeat_reason p)),
      (''llm_usage'', PDict (rp_llm_usage p)),
      (''llm_usage_reported'', PBool (rp_llm_usage_reported p)),
      (''llm_usage_source'', PStr (rp_llm_usage_source p)),
      (''backend'', PStr (rp_backend p)),
      (''prompt_path'', PStr (rp_prompt_path p)),
      (''response_path'', PStr (rp_response_path p)),
      (''review_task_id'', PStr (rp_review_task_id p)),
      (''review_run_id'', PStr (rp_review_run_id p)),
      (''packet_record_id'', PStr (rp_packet_record_id p))]"

subsection \<open>Plan slices\<close>

record PlanSlice =
  ps_label :: string
  ps_dependencies :: "pyval list"
  ps_derived_from :: string
  ps_local_id :: string
  ps_target_impl :: string
  ps_target_test :: string
  ps_transformation :: string
  ps_input_samples :: "pyval list"
  ps_output_samples :: "pyval list"
  ps_resources :: "pyval list"
  ps_supersedes :: "pyval list"
  ps_orphan_strategy :: "OrphanStrategy option"
  ps_orphan_acceptance_reason :: string
  ps_risks :: "pyval list"
  ps_estimated_complexity :: PlanComplexity
  ps_creates_new_file :: bool

definition PlanSlice_default :: PlanSlice where
  "PlanSlice_default =
     \<lparr>ps_label = '''', ps_dependencies = [], ps_derived_from = '''', ps_local_id = '''',
      ps_target_impl = '''', ps_target_test = '''', ps_transformation = '''',
      ps_input_samples = [], ps_output_samples = [], ps_resources = [], ps_supersedes = [],
      ps_orphan_strategy = None, ps_orphan_acceptance_reason = '''', ps_risks = [],
      ps_estimated_complexity = PC_MEDIUM, ps_creates_new_file = False\<rparr>"

definition PlanSlice_from_dict :: "pyval \<Rightarrow> exn + PlanSlice" where
  "PlanSlice_from_dict v = read_dict v PlanSlice_default (\<lambda>d.
     rbind (get_list d ''dependencies'') (\<lambda>dependencies.
     rbind (get_list d ''input_samples'') (\<lambda>input_samples.
     rbind (get_list d ''output_samples'') (\<lambda>output_samples.
     rbind (get_list d ''resources'') (\<lambda>resources.
     rbind (get_list d ''supersedes'') (\<lambda>supersedes.
     rbind (get_list d ''risks'') (\<lambda>risks.
     Inr \<lparr>ps_label = get_str d ''label'', ps_dependencies = dependencies,
          ps_derived_from = get_str d ''derived_from'', ps_local_id = get_str d ''local_id'',
          ps_target_impl = get_str d ''target_impl'', ps_target_test = get_str d ''target_test'',
          ps_transformation = get_str d ''transformation'',
          ps_input_samples = input_samples, ps_output_samples = output_samples,
          ps_resources = resources, ps_supersedes = supersedes,
          ps_orphan_strategy = safe_enum OrphanStrategy_members OrphanStrategy_value
                                 (dict_get d ''orphan_strategy'') None,
          ps_orphan_acceptance_reason = get_str d ''orphan_acceptance_reason'',
          ps_risks = risks,
          ps_estimated_complexity =
            (case safe_enum PlanComplexity_members PlanComplexity_value
                    (dict_get d ''estimated_complexity'') (Some PC_MEDIUM) of
               Some c \<Rightarrow> c | None \<Rightarrow> PC_MEDIUM),
          ps_creates_new_file = get_bool d ''creates_new_file''\<rparr>)))))))"

text \<open>\<open>if x: d[k] = v\<close>\<close>

definition opt_entry :: "bool \<Rightarrow> string \<Rightarrow> pyval \<Rightarrow> pydict" where
  "opt_entry b k v = (if b then [(k, v)] else [])"

definition PlanSlice_to_dict :: "PlanSlice \<Rightarrow> pydict" where
  "PlanSlice_to_dict p =
     [(''label'', PStr (ps_label p)),
      (''dependencies'', PList (ps_dependencies p)),
      (''derived_from'', PStr (ps_derived_from p)),
      (''local_id'', PStr (ps_local_id p))]
     @ opt_entry (ps_target_impl p \<noteq> []) ''target_impl'' (PStr (ps_target_impl p))
     @ opt_entry (ps_target_test p \<noteq> []) ''target_test'' (PStr (ps_target_test p))
     @ opt_entry (ps_transformation p \<noteq> []) ''transformation'' (PStr (ps_transformation p))
     @ opt_entry (ps_input_samples p \<noteq> []) ''input_samples'' (PList (ps_input_samples p))
     @ opt_entry (ps_output_samples p \<noteq> []) ''output_samples'' (PList (ps_output_samples p))
     @ opt_entry (ps_resources p \<noteq> []) ''resources'' (PList (ps_resources p))
     @ opt_entry (ps_supersedes p \<noteq> []) ''supersedes'' (PList (ps_supersedes p))
     @ (case ps_orphan_strategy p of
          Some x \<Rightarrow> [(''orphan_strategy'', PStr (OrphanStrategy_value x))] | None \<Rightarrow> [])
     @ opt_entry (ps_orphan_acceptance_reason p \<noteq> []) ''orphan_acceptance_reason''
         (PStr (ps_orphan_acceptance_reason p))
     @ opt_entry (ps_risks p \<noteq> []) ''risks'' (PList (ps_risks p))
     @ opt_entry (ps_estimated_complexity p \<noteq> PC_MEDIUM) ''estimated_complexity''
         (PStr (PlanComplexity_value (ps_estimated_complexity p)))
     @ opt_entry (ps_creates_new_file p) ''creates_new_file'' (PBool True)"

definition plan_slice_typed :: "Plan \<Rightarrow> exn + PlanSlice" where
  "plan_slice_typed p = PlanSlice_from_dict (PDict (plan_slice p))"

subsection \<open>Interrogation reviews\<close>

record InterrogationReview =
  ir_completed :: bool
  ir_summary :: string
  ir_plan_elements :: "pyval list"
  ir_questions :: "pyval list"
  ir_generated_by :: string
  ir_backend :: pyval
  ir_prompt_path :: pyval
  ir_response_path :: pyval
  ir_red_team_rounds :: pyval
  ir_red_team_stop_reason :: pyval

definition InterrogationReview_default :: InterrogationReview where
  "InterrogationReview_default =
     \<lparr>ir_completed = False, ir_summary = '''', ir_plan_elements = [], ir_questions = [],
      ir_generated_by = ''deterministic'', ir_backend = PNone, ir_prompt_path = PNone,
      ir_response_path = PNone, ir_red_team_rounds = PNone, ir_red_team_stop_reason = PNone\<rparr>"

definition InterrogationReview_from_dict :: "pyval \<Rightarrow> exn + InterrogationReview" where
  "InterrogationReview_from_dict v = read_dict v InterrogationReview_default (\<lambda>d.
     rbind (get_list d ''plan_elements'') (\<lambda>plan_elements.
     rbind (get_list d ''questions'') (\<lambda>questions.
     Inr \<lparr>ir_completed = get_bool d ''completed'', ir_summary = get_str d ''summary'',
          ir_plan_elements = plan_elements, ir_questions = questions,
          ir_generated_by =
            py_str (py_or (dict_get d ''generated_by'') (PStr ''deterministic'')),
          ir_backend = dict_get d ''backend'', ir_prompt_path = dict_get d ''prompt_path'',
          ir_response_path = dict_get d ''response_path'',
          ir_red_team_rounds = dict_get d ''red_team_rounds'',
          ir_red_team_stop_reason = dict_get d ''red_team_stop_reason''\<rparr>)))"

definition InterrogationReview_to_dict :: "InterrogationReview \<Rightarrow> pydict" where
  "InterrogationReview_to_dict r =
     [(''completed'', PBool (ir_completed r)),
      (''summary'', PStr (ir_summary r)),
      (''plan_elements'', PList (ir_plan_elements r)),
      (''questions'', PList (ir_questions r)),
      (''generated_by'', PStr (ir_generated_by r))]
     @ opt_entry (ir_backend r \<noteq> PNone) ''backend'' (ir_backend r)
     @ opt_entry (ir_prompt_path r \<noteq> PNone) ''prompt_path'' (ir_prompt_path r)
     @ opt_entry (ir_response_path r \<noteq> PNone) ''response_path'' (ir_response_path r)
     @ opt_entry (ir_red_team_rounds r \<noteq> PNone) ''red_team_rounds'' (ir_red_team_rounds r)
     @ opt_entry (ir_red_team_stop_reason r \<noteq> PNone) ''red_team_stop_reason''
         (ir_red_team_stop_reason r)"

subsection \<open>Review rounds\<close>

record ReviewRound =
  rr_review_id :: string
  rr_objective_id :: string
  rr_packets :: "ReviewPacket list"
  rr_completed_at :: string

definition review_clear :: "ReviewRound \<Rightarrow> bool" where
  "review_clear r =
     (if rr_packets r = [] then False
      else list_all (\<lambda>p. rp_verdict p = RV_PASS) (rr_packets r))"

definition needs_remediation :: "ReviewRound \<Rightarrow> bool" where
  "needs_remediation r =
     List.list_ex (\<lambda>p. rp_verdict p \<in> {RV_CONCERN, RV_REMEDIATION_REQUIRED}) (rr_packets r)"

definition unresolved_packets :: "ReviewRound \<Rightarrow> ReviewPacket list" where
  "unresolved_packets r =
     filter (\<lambda>p. rp_verdict p \<in> {RV_CONCERN, RV_REMEDIATION_REQUIRED}) (rr_packets r)"

definition count_of :: "(string \<times> int) list \<Rightarrow> string \<Rightarrow> int" where
  "count_of counts k = (case map_of counts k of Some n \<Rightarrow> n | None \<Rightarrow> 0)"

fun count_verdicts :: "ReviewPacket list \<Rightarrow> (string \<times> int) list \<Rightarrow> (string \<times> int) list" where
  "count_verdicts [] counts = counts"
| "count_verdicts (p # ps) counts =
     (let key = ReviewVerdict_value (rp_verdict p) in
      count_verdicts ps (dict_set key (count_of counts key + 1) counts))"

definition verdict_counts :: "ReviewRound \<Rightarrow> (string \<times> int) list" where
  "verdict_counts r =
     count_verdicts (rr_packets r) (map (\<lambda>v. (ReviewVerdict_value v, 0)) ReviewVerdict_members)"

subsection \<open>The contract of a dictionary codec\<close>

text \<open>
  What the callers of a \<open>to_dict\<close>/\<open>from_dict\<close> pair rely on: reading what was written
  gives the object back, and only the entries count, not their order. The store writes its
  JSON with sorted keys, so a dictionary that comes back from it is a reordering.
\<close>

locale dict_codec =
  fixes enc :: "'a \<Rightarrow> pydict"
    and dec :: "pyval \<Rightarrow> exn + 'a"
    and wf :: "'a \<Rightarrow> bool"
  assumes dec_enc: "wf x \<Longrightarrow> dec (PDict (enc x)) = Inr x"
    and dec_order: "map_of d = map_of e \<Longrightarrow> dec (PDict d) = dec (PDict e)"
begin

lemma dec_reordered: "wf x \<Longrightarrow> map_of d = map_of (enc x) \<Longrightarrow> dec (PDict d) = Inr x"
  using dec_order [of d "enc x"] dec_enc by simp

lemma enc_inj:
  assumes "wf x" and "wf y" and eq: "map_of (enc x) = map_of (enc y)"
  shows "x = y"
proof -
  have "(Inr x :: exn + 'a) = dec (PDict (enc x))" using assms(1) by (rule dec_enc [symmetric])
  also have "\<dots> = dec (PDict (enc y))" using eq by (rule dec_order)
  also have "\<dots> = Inr y" using assms(2) by (rule dec_enc)
  finally show ?thesis by simp
qed

lemma dec_all:
  "list_all wf xs \<Longrightarrow> map_result dec (map (\<lambda>x. PDict (enc x)) xs) = Inr xs"
  by (induction xs) (simp_all add: dec_enc)

end

lemma dict_get_opt_entry [simp]:
  "dict_get (opt_entry b k v @ e) k' = (if b \<and> k' = k then v else dict_get e k')"
  "dict_get (opt_entry b k v) k' = (if b \<and> k' = k then v else PNone)"
  by (simp_all add: opt_entry_def)

lemma dict_get_case_append [simp]:
  "dict_get ((case x of None \<Rightarrow> [] | Some a \<Rightarrow> [(k, f a)]) @ e) k' =
     (case x of None \<Rightarrow> dict_get e k' | Some a \<Rightarrow> if k' = k then f a else dict_get e k')"
  by (cases x) simp_all

text \<open>An entry that is left out when it is empty reads back as the empty value.\<close>

lemma read_omitted [simp]:
  "str_or_empty (if s \<noteq> [] then PStr s else PNone) = s"
  "py_list (py_or (if xs \<noteq> [] then PList xs else PNone) (PList [])) = Inr xs"
  "truthy (py_or (if b then PBool True else PNone) (PBool False)) = b"
  "(if v \<noteq> PNone then v else PNone) = v"
  by (simp_all add: py_or_def)

lemma read_omitted_eq [simp]:
  "str_or_empty (if s = [] then PNone else PStr s) = s"
  "py_list (py_or (if xs = [] then PNone else PList xs) (PList [])) = Inr xs"
  "(if v = PNone then PNone else v) = v"
  by (simp_all add: py_or_def)

lemma ArtifactSchema_roundtrip [simp]:
  "ArtifactSchema_from_dict (PDict (ArtifactSchema_to_dict a)) = Inr a"
  by (simp add: ArtifactSchema_from_dict_def ArtifactSchema_to_dict_def getter_defs)

interpretation artifact_schema:
  dict_codec ArtifactSchema_to_dict ArtifactSchema_from_dict "\<lambda>_. True"
proof
  show "ArtifactSchema_from_dict (PDict (ArtifactSchema_to_dict x)) = Inr x" for x by simp
  show "ArtifactSchema_from_dict (PDict d) = ArtifactSchema_from_dict (PDict e)"
    if "map_of d = map_of e" for d e
    by (simp add: ArtifactSchema_from_dict_def read_dict_def getters_cong [OF that])
qed

lemma EvidenceContract_roundtrip:
  "EvidenceContract_from_dict (PDict (EvidenceContract_to_dict c)) = Inr c"
  by (cases "ec_artifact_schema c")
    (simp_all add: EvidenceContract_from_dict_def EvidenceContract_to_dict_def getter_defs,
     simp add: ArtifactSchema_to_dict_def)

interpretation evidence_contract:
  dict_codec EvidenceContract_to_dict EvidenceContract_from_dict "\<lambda>_. True"
proof
  show "EvidenceContract_from_dict (PDict (EvidenceContract_to_dict x)) = Inr x" for x
    by (rule EvidenceContract_roundtrip)
  show "EvidenceContract_from_dict (PDict d) = EvidenceContract_from_dict (PDict e)"
    if "map_of d = map_of e" for d e
    by (simp add: EvidenceContract_from_dict_def read_dict_def getters_cong [OF that])
qed

lemma ReviewPacket_roundtrip: "ReviewPacket_from_dict (PDict (ReviewPacket_to_dict p)) = Inr p"
  by (simp add: ReviewPacket_from_dict_def ReviewPacket_to_dict_def getter_defs
      ReviewVerdict.safe_enum_val)

interpretation review_packet:
  dict_codec ReviewPacket_to_dict ReviewPacket_from_dict "\<lambda>_. True"
proof
  show "ReviewPacket_from_dict (PDict (ReviewPacket_to_dict x)) = Inr x" for x
    by (rule ReviewPacket_roundtrip)
  show "ReviewPacket_from_dict (PDict d) = ReviewPacket_from_dict (PDict e)"
    if "map_of d = map_of e" for d e
    by (simp add: ReviewPacket_from_dict_def read_dict_def getters_cong [OF that])
qed

lemma safe_enum_PNone [simp]: "safe_enum members val PNone dflt = dflt"
  by (simp add: safe_enum_def)

lemma PlanSlice_roundtrip: "PlanSlice_from_dict (PDict (PlanSlice_to_dict p)) = Inr p"
  by (cases "ps_orphan_strategy p"; cases "ps_estimated_complexity p = PC_MEDIUM")
    (simp_all add: PlanSlice_from_dict_def PlanSlice_to_dict_def getter_defs
      OrphanStrategy.safe_enum_val PlanComplexity.safe_enum_val split del: if_split cong: if_cong)

interpretation plan_slices: dict_codec PlanSlice_to_dict PlanSlice_from_dict "\<lambda>_. True"
proof
  show "PlanSlice_from_dict (PDict (PlanSlice_to_dict x)) = Inr x" for x
    by (rule PlanSlice_roundtrip)
  show "PlanSlice_from_dict (PDict d) = PlanSlice_from_dict (PDict e)"
    if "map_of d = map_of e" for d e
    by (simp add: PlanSlice_from_dict_def read_dict_def getters_cong [OF that])
qed

lemma InterrogationReview_reread:
  "InterrogationReview_from_dict (PDict (InterrogationReview_to_dict r)) =
     Inr (if ir_generated_by r = [] then r\<lparr>ir_generated_by := ''deterministic''\<rparr> else r)"
  by (simp add: InterrogationReview_from_dict_def InterrogationReview_to_dict_def getter_defs
      py_or_def)

interpretation interrogation_review:
  dict_codec InterrogationReview_to_dict InterrogationReview_from_dict
    "\<lambda>r. ir_generated_by r \<noteq> []"
proof
  show "InterrogationReview_from_dict (PDict (InterrogationReview_to_dict x)) = Inr x"
    if "ir_generated_by x \<noteq> []" for x
    using that by (simp add: InterrogationReview_reread)
  show "InterrogationReview_from_dict (PDict d) = InterrogationReview_from_dict (PDict e)"
    if "map_of d = map_of e" for d e
    by (simp add: InterrogationReview_from_dict_def read_dict_def getters_cong [OF that])
qed

subsection \<open>Counting verdicts\<close>

lemma count_of_set: "count_of (dict_set k v cs) k' = (if k' = k then v else count_of cs k')"
  by (simp add: count_of_def)

lemma count_verdicts_count:
  "count_of (count_verdicts ps cs) (ReviewVerdict_value v) =
     count_of cs (ReviewVerdict_value v) + int (length (filter (\<lambda>p. rp_verdict p = v) ps))"
proof (induction ps arbitrary: cs)
  case Nil
  then show ?case by simp
next
  case (Cons p ps)
  have "ReviewVerdict_value v = ReviewVerdict_value (rp_verdict p) \<longleftrightarrow> rp_verdict p = v"
    using ReviewVerdict.val_inj by auto
  with Cons.IH show ?case by (simp add: Let_def count_of_set)
qed

lemma count_of_initial:
  "count_of (map (\<lambda>v. (ReviewVerdict_value v, 0)) ReviewVerdict_members) k = 0"
  by (simp add: count_of_def ReviewVerdict_members_def)

lemma verdict_counts_count:
  "count_of (verdict_counts r) (ReviewVerdict_value v) =
     int (length (filter (\<lambda>p. rp_verdict p = v) (rr_packets r)))"
  by (simp add: verdict_counts_def count_verdicts_count count_of_initial)

subsection \<open>Properties\<close>



text \<open>A plan slice survives being written, with its empty and default fields left out, stored
  with its keys in any order, and read back; so the writer loses no slice.\<close>

theorem plan_slice_roundtrip:
  "map_of d = map_of (PlanSlice_to_dict p) \<Longrightarrow> PlanSlice_from_dict (PDict d) = Inr p"
  by (rule plan_slices.dec_reordered) simp_all

theorem plan_slice_roundtrip_witness:
  "PlanSlice_from_dict (PDict (rev (PlanSlice_to_dict
      (PlanSlice_default\<lparr>ps_label := ''a'', ps_orphan_strategy := Some OST_ABSORB\<rparr>)))) =
   Inr (PlanSlice_default\<lparr>ps_label := ''a'', ps_orphan_strategy := Some OST_ABSORB\<rparr>)"
  by (rule plan_slice_roundtrip)
    (simp add: PlanSlice_to_dict_def PlanSlice_default_def opt_entry_def fun_eq_iff)

text \<open>An interrogation review survives being written and read back exactly when it names its
  generator; an empty generator comes back as the default one.\<close>

theorem interrogation_review_roundtrip_iff:
  "InterrogationReview_from_dict (PDict (InterrogationReview_to_dict r)) = Inr r
     \<longleftrightarrow> ir_generated_by r \<noteq> []"
proof (cases "ir_generated_by r = []")
  case True
  then have "r\<lparr>ir_generated_by := ''deterministic''\<rparr> \<noteq> r"
    by (cases r) simp
  with True show ?thesis by (simp add: InterrogationReview_reread)
qed (simp add: InterrogationReview_reread)

text \<open>Review rounds: a round is clear exactly when it has packets and none needs remediation,
  the unresolved packets are empty exactly then, and the counts of the three verdicts add up to
  the number of packets.\<close>

theorem review_round_verdicts:
  "(review_clear r \<longleftrightarrow> rr_packets r \<noteq> [] \<and> \<not> needs_remediation r) \<and>
   (needs_remediation r \<longleftrightarrow> unresolved_packets r \<noteq> []) \<and>
   (\<Sum>v\<leftarrow>ReviewVerdict_members. count_of (verdict_counts r) (ReviewVerdict_value v))
     = int (length (rr_packets r)) \<and>
   count_of (verdict_counts r) ''pass''
     = int (length (rr_packets r)) - int (length (unresolved_packets r))"
proof -
  have bad: "v = RV_CONCERN \<or> v = RV_REMEDIATION_REQUIRED \<longleftrightarrow> v \<noteq> RV_PASS" for v
    by (cases v) simp_all
  have split3: "length (filter (\<lambda>p. rp_verdict p = RV_PASS) ps)
      + length (filter (\<lambda>p. rp_verdict p = RV_CONCERN) ps)
      + length (filter (\<lambda>p. rp_verdict p = RV_REMEDIATION_REQUIRED) ps) = length ps" for ps
  proof (induction ps)
    case (Cons p ps)
    then show ?case by (cases "rp_verdict p") simp_all
  qed simp
  have pass: "length (filter (\<lambda>p. rp_verdict p = RV_PASS) ps)
      + length (filter (\<lambda>p. rp_verdict p \<noteq> RV_PASS) ps) = length ps" for ps
    by (rule sum_length_filter_compl)
  have "count_of (verdict_counts r) ''pass'' = int (length (filter (\<lambda>p. rp_verdict p = RV_PASS) (rr_packets r)))"
    using verdict_counts_count [of r RV_PASS] by simp
  moreover have "(\<Sum>v\<leftarrow>ReviewVerdict_members. count_of (verdict_counts r) (ReviewVerdict_value v))
      = int (length (rr_packets r))"
    using split3 [of "rr_packets r"]
    by (simp add: ReviewVerdict_members_def verdict_counts_count del: ReviewVerdict_value.simps)
  ultimately show ?thesis
    using pass [of "rr_packets r"]
    by (auto simp: review_clear_def needs_remediation_def unresolved_packets_def bad
        list_all_iff list_ex_iff filter_empty_conv)
qed

end
