(* ===== verification/Transitions.thy ===== *)
theory Transitions
  imports Domain_Types
begin

section \<open>Status and phase transitions\<close>

text \<open>
  The three transition tables of \<open>domain.py\<close> and the functions that enforce them. They
  share one contract, \<open>status_machine\<close>: a validator accepts a change exactly when it is
  no change or an edge of its table. The contract's lemmas (what a sequence of accepted
  changes can reach, and that terminal states stay) are proved once and interpreted for
  tasks, objectives and objective phases.
\<close>

subsection \<open>The tables and their validators\<close>

definition VALID_TASK_TRANSITIONS :: "TaskStatus \<Rightarrow> TaskStatus set" where
  "VALID_TASK_TRANSITIONS s =
     (case s of
        TS_PENDING \<Rightarrow> {TS_ACTIVE, TS_COMPLETED, TS_FAILED}
      | TS_ACTIVE \<Rightarrow> {TS_COMPLETED, TS_FAILED, TS_PENDING}
      | TS_COMPLETED \<Rightarrow> {}
      | TS_FAILED \<Rightarrow> {TS_PENDING})"

definition validate_task_transition :: "TaskStatus \<Rightarrow> TaskStatus \<Rightarrow> exn + unit" where
  "validate_task_transition current target =
     (if current = target then Inr ()
      else if target \<notin> VALID_TASK_TRANSITIONS current
      then Inl (ValueError (''Invalid task transition: '' @ TaskStatus_value current
                            @ '' -> '' @ TaskStatus_value target))
      else Inr ())"

definition VALID_OBJECTIVE_TRANSITIONS :: "ObjectiveStatus \<Rightarrow> ObjectiveStatus set" where
  "VALID_OBJECTIVE_TRANSITIONS s =
     (case s of
        OS_OPEN \<Rightarrow> {OS_INVESTIGATING, OS_PLANNING, OS_PAUSED, OS_RESOLVED}
      | OS_INVESTIGATING \<Rightarrow> {OS_PLANNING, OS_PAUSED, OS_RESOLVED}
      | OS_PLANNING \<Rightarrow> {OS_EXECUTING, OS_INVESTIGATING, OS_PAUSED, OS_RESOLVED}
      | OS_EXECUTING \<Rightarrow> {OS_PLANNING, OS_PAUSED, OS_RESOLVED}
      | OS_PAUSED \<Rightarrow> {OS_OPEN, OS_INVESTIGATING, OS_PLANNING, OS_EXECUTING, OS_RESOLVED}
      | OS_RESOLVED \<Rightarrow> {})"

definition validate_objective_transition ::
  "ObjectiveStatus \<Rightarrow> ObjectiveStatus \<Rightarrow> exn + unit" where
  "validate_objective_transition current target =
     (if current = target then Inr ()
      else if target \<notin> VALID_OBJECTIVE_TRANSITIONS current
      then Inl (ValueError (''Invalid objective transition: '' @ ObjectiveStatus_value current
                            @ '' -> '' @ ObjectiveStatus_value target))
      else Inr ())"

definition PHASE_SEQUENCE :: "ObjectivePhase list" where
  "PHASE_SEQUENCE =
     [OP_CREATED, OP_INTERROGATING, OP_MERMAID_REVIEW, OP_TRIO_PLANNING, OP_EXECUTING,
      OP_REVIEWING, OP_PROMOTED]"

text \<open>The phase after \<open>p\<close> in a sequence, for every entry but the last.\<close>

fun phase_after :: "ObjectivePhase list \<Rightarrow> ObjectivePhase \<Rightarrow> ObjectivePhase option" where
  "phase_after (a # b # ps) p = (if p = a then Some b else phase_after (b # ps) p)"
| "phase_after _ p = None"

definition VALID_PHASE_TRANSITIONS :: "ObjectivePhase \<Rightarrow> ObjectivePhase set" where
  "VALID_PHASE_TRANSITIONS p =
     (if p = OP_PROMOTED \<or> p = OP_FAILED then {}
      else case phase_after PHASE_SEQUENCE p of Some q \<Rightarrow> {q, OP_FAILED} | None \<Rightarrow> {})"

definition PHASE_TO_STATUS :: "ObjectivePhase \<Rightarrow> ObjectiveStatus" where
  "PHASE_TO_STATUS p =
     (case p of
        OP_CREATED \<Rightarrow> OS_OPEN
      | OP_INTERROGATING \<Rightarrow> OS_INVESTIGATING
      | OP_MERMAID_REVIEW \<Rightarrow> OS_PLANNING
      | OP_TRIO_PLANNING \<Rightarrow> OS_PLANNING
      | OP_EXECUTING \<Rightarrow> OS_EXECUTING
      | OP_REVIEWING \<Rightarrow> OS_RESOLVED
      | OP_PROMOTED \<Rightarrow> OS_RESOLVED
      | OP_FAILED \<Rightarrow> OS_PAUSED)"

text \<open>The message lists the allowed values in sorted order.\<close>

definition allowed_values :: "ObjectivePhase \<Rightarrow> string list" where
  "allowed_values p =
     sort (map ObjectivePhase_value
       (filter (\<lambda>q. q \<in> VALID_PHASE_TRANSITIONS p) ObjectivePhase_members))"

definition advance_objective_phase :: "ObjectivePhase \<Rightarrow> ObjectivePhase \<Rightarrow> exn + ObjectivePhase" where
  "advance_objective_phase current target =
     (if current = target then Inr target
      else if target \<notin> VALID_PHASE_TRANSITIONS current
      then Inl (ValueError (''Illegal phase transition: '' @ ObjectivePhase_value current
                @ '' -> '' @ ObjectivePhase_value target @ ''. Allowed: ''
                @ py_repr (PList (map PStr (allowed_values current)))))
      else Inr target)"

subsection \<open>The contract of a status machine\<close>

locale status_machine =
  fixes allowed :: "'s \<Rightarrow> 's set"
    and check :: "'s \<Rightarrow> 's \<Rightarrow> exn + unit"
  assumes check_iff: "check a b = Inr () \<longleftrightarrow> a = b \<or> b \<in> allowed a"
begin

definition edges :: "('s \<times> 's) set" where
  "edges = {(a, b). b \<in> allowed a}"

text \<open>A caller that asks the validator before each change, and stops when it raises.\<close>

fun drive :: "'s \<Rightarrow> 's list \<Rightarrow> exn + 's" where
  "drive a [] = Inr a"
| "drive a (b # bs) = (case check a b of Inl e \<Rightarrow> Inl e | Inr _ \<Rightarrow> drive b bs)"

lemma check_same: "check a a = Inr ()"
  by (simp add: check_iff)

lemma check_raises: "b \<notin> allowed a \<Longrightarrow> a \<noteq> b \<Longrightarrow> \<exists>e. check a b = Inl e"
  using check_iff [of a b] by (cases "check a b") auto

lemma drive_reach: "drive a bs = Inr b \<Longrightarrow> (a, b) \<in> edges\<^sup>*"
proof (induction bs arbitrary: a)
  case Nil
  then show ?case by simp
next
  case (Cons c cs)
  from Cons.prems have ok: "check a c = Inr ()" and rest: "drive c cs = Inr b"
    by (auto split: sum.splits)
  from rest have "(c, b) \<in> edges\<^sup>*" by (rule Cons.IH)
  moreover from ok have "a = c \<or> (a, c) \<in> edges" by (simp add: check_iff edges_def)
  ultimately show ?case by (auto intro: converse_rtrancl_into_rtrancl)
qed

lemma drive_append:
  "drive a (xs @ ys) = (case drive a xs of Inl e \<Rightarrow> Inl e | Inr b \<Rightarrow> drive b ys)"
  by (induction xs arbitrary: a) (auto split: sum.splits)

lemma drive_terminal: "allowed a = {} \<Longrightarrow> drive a bs = Inr b \<Longrightarrow> b = a \<and> set bs \<subseteq> {a}"
proof (induction bs arbitrary: a)
  case Nil
  then show ?case by simp
next
  case (Cons c cs)
  from Cons.prems have "check a c = Inr ()" by (auto split: sum.splits)
  with Cons.prems(1) have "c = a" by (simp add: check_iff)
  with Cons show ?case by (auto split: sum.splits)
qed

text \<open>Every state an accepted sequence goes through is accepted on its own: the sequence
  without repetitions is a path of the table.\<close>

lemma drive_path:
  "drive a bs = Inr b \<Longrightarrow> successively (\<lambda>x y. y \<in> allowed x) (remdups_adj (a # bs))"
proof (induction bs arbitrary: a)
  case Nil
  then show ?case by simp
next
  case (Cons c cs)
  from Cons.prems have ok: "check a c = Inr ()" and rest: "drive c cs = Inr b"
    by (auto split: sum.splits)
  from rest have IH: "successively (\<lambda>x y. y \<in> allowed x) (remdups_adj (c # cs))"
    by (rule Cons.IH)
  show ?case
  proof (cases "a = c")
    case True
    with IH show ?thesis by simp
  next
    case False
    with ok have "c \<in> allowed a" by (simp add: check_iff)
    then have "c \<in> allowed a" and "hd (remdups_adj (c # cs)) = c" using False by simp_all
    then have "successively (\<lambda>x y. y \<in> allowed x) (a # remdups_adj (c # cs))"
      using IH by (simp add: successively_Cons del: remdups_adj.simps)
    with False show ?thesis by simp
  qed
qed

lemma drive_last: "drive a bs = Inr b \<Longrightarrow> last (a # bs) = b"
  by (induction bs arbitrary: a) (auto split: sum.splits)

end

interpretation task_machine: status_machine VALID_TASK_TRANSITIONS validate_task_transition
  by unfold_locales (auto simp: validate_task_transition_def)

interpretation objective_machine:
  status_machine VALID_OBJECTIVE_TRANSITIONS validate_objective_transition
  by unfold_locales (auto simp: validate_objective_transition_def)

definition check_phase :: "ObjectivePhase \<Rightarrow> ObjectivePhase \<Rightarrow> exn + unit" where
  "check_phase a b = (case advance_objective_phase a b of Inl e \<Rightarrow> Inl e | Inr _ \<Rightarrow> Inr ())"

interpretation phase_machine: status_machine VALID_PHASE_TRANSITIONS check_phase
  by unfold_locales (auto simp: check_phase_def advance_objective_phase_def)

subsection \<open>Sequences of transitions\<close>

text \<open>Calling the enforcement point for each target in turn, as the workflow does.\<close>

fun advance_all :: "ObjectivePhase \<Rightarrow> ObjectivePhase list \<Rightarrow> exn + ObjectivePhase" where
  "advance_all p [] = Inr p"
| "advance_all p (q # qs) =
     (case advance_objective_phase p q of Inl e \<Rightarrow> Inl e | Inr r \<Rightarrow> advance_all r qs)"

lemma advance_result: "advance_objective_phase p q = Inr r \<Longrightarrow> r = q"
  by (auto simp: advance_objective_phase_def split: if_splits)

lemma advance_all_drive: "advance_all p qs = phase_machine.drive p qs"
proof (induction qs arbitrary: p)
  case Nil
  show ?case by simp
next
  case (Cons q qs)
  show ?case
    using check_phase_def [of p q]
    by (cases "advance_objective_phase p q") (auto simp: Cons.IH dest: advance_result)
qed

lemma phase_edges:
  "VALID_PHASE_TRANSITIONS OP_CREATED = {OP_INTERROGATING, OP_FAILED}"
  "VALID_PHASE_TRANSITIONS OP_INTERROGATING = {OP_MERMAID_REVIEW, OP_FAILED}"
  "VALID_PHASE_TRANSITIONS OP_MERMAID_REVIEW = {OP_TRIO_PLANNING, OP_FAILED}"
  "VALID_PHASE_TRANSITIONS OP_TRIO_PLANNING = {OP_EXECUTING, OP_FAILED}"
  "VALID_PHASE_TRANSITIONS OP_EXECUTING = {OP_REVIEWING, OP_FAILED}"
  "VALID_PHASE_TRANSITIONS OP_REVIEWING = {OP_PROMOTED, OP_FAILED}"
  "VALID_PHASE_TRANSITIONS OP_PROMOTED = {}"
  "VALID_PHASE_TRANSITIONS OP_FAILED = {}"
  by (simp_all add: VALID_PHASE_TRANSITIONS_def PHASE_SEQUENCE_def)

lemma succ_FAILED [simp]: "successively (\<lambda>x y. y \<in> VALID_PHASE_TRANSITIONS x) (OP_FAILED # ps) \<longleftrightarrow> ps = []"
  by (cases ps) (simp_all add: phase_edges)

lemma succ_PROMOTED [simp]: "successively (\<lambda>x y. y \<in> VALID_PHASE_TRANSITIONS x) (OP_PROMOTED # ps) \<longleftrightarrow> ps = []"
  by (cases ps) (simp_all add: phase_edges)

text \<open>A path of the phase table is determined by its ends, when it does not fail.\<close>

lemma phase_path_suffix:
  "successively (\<lambda>x y. y \<in> VALID_PHASE_TRANSITIONS x) (p # ps) \<Longrightarrow> last (p # ps) = OP_PROMOTED
   \<Longrightarrow> p # ps = dropWhile (\<lambda>q. q \<noteq> p) PHASE_SEQUENCE"
proof (induction ps arbitrary: p)
  case Nil
  then show ?case by (simp add: PHASE_SEQUENCE_def)
next
  case (Cons q qs)
  from Cons.prems have q: "q \<in> VALID_PHASE_TRANSITIONS p"
    and rest: "q # qs = dropWhile (\<lambda>r. r \<noteq> q) PHASE_SEQUENCE"
    by (auto intro: Cons.IH)
  from q rest show ?case
    by (cases p) (auto simp: phase_edges PHASE_SEQUENCE_def)
qed

subsection \<open>Properties\<close>

text \<open>C13. An objective whose phase changes all went through \<open>advance_objective_phase\<close> and
  that ends in PROMOTED has visited every phase of the lifecycle, in order: apart from repeated
  requests for the current phase, the sequence of targets is the phase sequence itself.\<close>

theorem promoted_visits_every_phase:
  "advance_all OP_CREATED qs = Inr OP_PROMOTED \<Longrightarrow> remdups_adj (OP_CREATED # qs) = PHASE_SEQUENCE"
proof -
  assume ok: "advance_all OP_CREATED qs = Inr OP_PROMOTED"
  then have run: "phase_machine.drive OP_CREATED qs = Inr OP_PROMOTED"
    by (simp add: advance_all_drive)
  obtain ps where ps: "remdups_adj (OP_CREATED # qs) = OP_CREATED # ps"
    by (metis hd_remdups_adj list.collapse list.discI list.sel(1) remdups_adj_Nil_iff)
  have "last (OP_CREATED # ps) = OP_PROMOTED"
    using phase_machine.drive_last [OF run] by (metis ps last_remdups_adj)
  with phase_machine.drive_path [OF run] have
    "OP_CREATED # ps = dropWhile (\<lambda>q. q \<noteq> OP_CREATED) PHASE_SEQUENCE"
    unfolding ps by (intro phase_path_suffix)
  then show ?thesis by (simp add: ps PHASE_SEQUENCE_def)
qed

theorem promoted_visits_every_phase_witness:
  "remdups_adj (OP_CREATED # [OP_INTERROGATING, OP_MERMAID_REVIEW, OP_MERMAID_REVIEW,
      OP_TRIO_PLANNING, OP_EXECUTING, OP_REVIEWING, OP_PROMOTED]) = PHASE_SEQUENCE"
  by (rule promoted_visits_every_phase)
    (simp add: advance_objective_phase_def phase_edges)

text \<open>The phase table and the status table agree on every edge but one: the status that
  \<open>PHASE_TO_STATUS\<close> derives changes along an edge of the objective status table whenever the
  phase changes along an edge of the phase table, except when a review fails, where the derived
  status goes from RESOLVED, which the status table makes terminal, back to PAUSED.\<close>

theorem phase_status_mismatch:
  "{(p, q). q \<in> VALID_PHASE_TRANSITIONS p \<and>
      validate_objective_transition (PHASE_TO_STATUS p) (PHASE_TO_STATUS q) \<noteq> Inr ()}
   = {(OP_REVIEWING, OP_FAILED)}"
proof -
  have "q \<in> VALID_PHASE_TRANSITIONS p \<and>
      validate_objective_transition (PHASE_TO_STATUS p) (PHASE_TO_STATUS q) \<noteq> Inr ()
      \<longleftrightarrow> p = OP_REVIEWING \<and> q = OP_FAILED" for p q
    by (cases p) (auto simp: phase_edges validate_objective_transition_def
        VALID_OBJECTIVE_TRANSITIONS_def PHASE_TO_STATUS_def)
  then show ?thesis by auto
qed

text \<open>Which task statuses a task can reach through validated changes: a completed task
  stays completed, and from every other status every status can be reached.\<close>

theorem task_status_reachability:
  "{(s, t). validate_task_transition s t = Inr ()}\<^sup>*
   = {(s, t). s \<noteq> TS_COMPLETED} \<union> {(TS_COMPLETED, TS_COMPLETED)}"
proof -
  let ?R = "{(s, t). validate_task_transition s t = Inr ()}"
  have completed: "(TS_COMPLETED, t) \<in> ?R\<^sup>* \<Longrightarrow> t = TS_COMPLETED" for t
    by (induction rule: rtrancl_induct)
      (auto simp: validate_task_transition_def VALID_TASK_TRANSITIONS_def split: if_splits)
  have to_pending: "s \<noteq> TS_COMPLETED \<Longrightarrow> (s, TS_PENDING) \<in> ?R" for s
    by (cases s) (auto simp: validate_task_transition_def VALID_TASK_TRANSITIONS_def)
  have from_pending: "(TS_PENDING, t) \<in> ?R" for t
    by (cases t) (auto simp: validate_task_transition_def VALID_TASK_TRANSITIONS_def)
  have "(s, t) \<in> ?R\<^sup>*" if "s \<noteq> TS_COMPLETED" for s t
    using to_pending [OF that] from_pending [of t]
    by (meson converse_rtrancl_into_rtrancl r_into_rtrancl)
  with completed show ?thesis by blast
qed

end
