(* ===== verification/Store.thy ===== *)
theory Store
  imports Domain_Types
begin

section \<open>The state of the store\<close>

text \<open>
  The database of \<open>SQLiteHarnessStore\<close>, one field per table, together with what the code
  reads from its surroundings: the clock (\<open>datetime.now(UTC)\<close>, one entry per call), the
  identifiers \<open>uuid4\<close> returns (their first twelve hex digits, one entry per call) and the
  value of \<open>int(t.timestamp() * 1000000)\<close>, which floating point may round. Nothing is
  assumed of these three: time may stand still or go back, identifiers may repeat.
\<close>

record store =
  st_clock :: "nat \<Rightarrow> time"
  st_ticks :: nat
  st_uuid :: "nat \<Rightarrow> string"
  st_uuids :: nat
  st_micros :: "time \<Rightarrow> int"
  st_projects :: "Project list"
  st_tasks :: "Task list"
  st_task_leases :: "TaskLease list"
  st_plans :: "Plan list"
  st_objectives :: "Objective list"
  st_intent_models :: "IntentModel list"
  st_mermaid_artifacts :: "MermaidArtifact list"
  st_context_records :: "ContextRecord list"
  st_runs :: "Run list"
  st_artifacts :: "Artifact list"
  st_evaluations :: "Evaluation list"
  st_decisions :: "Decision list"
  st_promotions :: "PromotionRecord list"
  st_decision_queue :: "DecisionQueueItem list"
  st_events :: "Event list"
  st_failure_patterns :: "FailurePatternRecord list"
  st_system :: "ControlSystemState list"
  st_lanes :: "ControlLaneState list"
  st_control_events :: "ControlEvent list"
  st_cooldowns :: "ControlCooldown list"
  st_budgets :: "ControlBudget list"
  st_worker_runs :: "ControlWorkerRun list"
  st_breadcrumbs :: "ControlBreadcrumb list"
  st_recovery :: "ControlRecoveryAction list"

type_synonym 'a op = "(store, 'a) prog"

definition utc_now :: "time op" where
  "utc_now s = (Inr (st_clock s (st_ticks s)), s\<lparr>st_ticks := Suc (st_ticks s)\<rparr>)"

definition new_id :: "string \<Rightarrow> string op" where
  "new_id prefix s =
     (Inr (prefix @ ''_'' @ st_uuid s (st_uuids s)), s\<lparr>st_uuids := Suc (st_uuids s)\<rparr>)"

text \<open>An empty database, for concrete runs: the clock stands at \<open>t\<close> and the \<open>n\<close>-th
  identifier is the number \<open>n\<close> in decimal.\<close>

definition empty_store :: "time \<Rightarrow> store" where
  "empty_store t =
     \<lparr>st_clock = (\<lambda>_. t), st_ticks = 0, st_uuid = dec_nat, st_uuids = 0, st_micros = (\<lambda>n. n),
      st_projects = [], st_tasks = [], st_task_leases = [], st_plans = [], st_objectives = [],
      st_intent_models = [], st_mermaid_artifacts = [], st_context_records = [], st_runs = [],
      st_artifacts = [], st_evaluations = [], st_decisions = [], st_promotions = [],
      st_decision_queue = [], st_events = [], st_failure_patterns = [], st_system = [], st_lanes = [],
      st_control_events = [], st_cooldowns = [], st_budgets = [], st_worker_runs = [],
      st_breadcrumbs = [], st_recovery = []\<rparr>"

text \<open>What does not depend on the clock and the identifiers already drawn: the data.\<close>

lemma utc_now_keeps: "(\<And>s n. f (s\<lparr>st_ticks := n\<rparr>) = f s) \<Longrightarrow> keeps f utc_now"
  by (simp add: keeps_def utc_now_def)

lemma new_id_keeps: "(\<And>s n. f (s\<lparr>st_uuids := n\<rparr>) = f s) \<Longrightarrow> keeps f (new_id p)"
  by (simp add: keeps_def new_id_def)

lemma utc_now_total: "total utc_now"
  by (simp add: total_def utc_now_def)

lemma new_id_total: "total (new_id p)"
  by (simp add: total_def new_id_def)

subsection \<open>JSON columns\<close>

text \<open>\<open>json.loads(json.dumps(v, sort_keys=True))\<close>: the same value with the keys of every
  dictionary in order.\<close>

fun sort_json :: "pyval \<Rightarrow> pyval" where
  "sort_json (PList xs) = PList (map sort_json xs)"
| "sort_json (PDict d) = PDict (sort_key fst (map (\<lambda>(k, v). (k, sort_json v)) d))"
| "sort_json v = v"

definition json_column :: "pydict \<Rightarrow> pydict" where
  "json_column d = (case sort_json (PDict d) of PDict e \<Rightarrow> e | _ \<Rightarrow> [])"

lemma map_of_insort_fst:
  "fst p \<notin> fst ` set xs \<Longrightarrow> map_of (insort_key fst p xs) = map_of (p # xs)"
proof (induction xs)
  case Nil
  then show ?case by simp
next
  case (Cons q xs)
  then show ?case by (cases p; cases q) (auto simp: fun_upd_twist)
qed

lemma map_of_sort_fst: "distinct (map fst xs) \<Longrightarrow> map_of (sort_key fst xs) = map_of xs"
proof (induction xs)
  case Nil
  then show ?case by simp
next
  case (Cons p xs)
  then have "fst p \<notin> fst ` set (sort_key fst xs)" by simp
  then have "map_of (insort_key fst p (sort_key fst xs)) = map_of (p # sort_key fst xs)"
    by (rule map_of_insort_fst)
  with Cons show ?case by (cases p) simp
qed

text \<open>The entries of a flat dictionary are the same after the round trip.\<close>

lemma map_of_json_column:
  assumes "distinct (map fst d)"
  shows "map_of (json_column d) k = map_option sort_json (map_of d k)"
proof -
  have "map_of (sort_key fst (map (\<lambda>(k, v). (k, sort_json v)) d)) k =
      map_of (map (\<lambda>(k, v). (k, sort_json v)) d) k"
    using assms by (subst map_of_sort_fst) (auto simp: comp_def case_prod_unfold)
  then show ?thesis by (simp add: json_column_def map_of_map)
qed

lemma dict_get_json_column:
  "distinct (map fst d) \<Longrightarrow> dict_get (json_column d) k = sort_json (dict_get d k)"
  by (simp add: dict_get_def map_of_json_column split: option.split)

end
