(* ===== verification/Control_Store.thy ===== *)
theory Control_Store
  imports Store
begin

section \<open>The control-plane tables\<close>

text \<open>
  \<open>ControlPlaneStoreMixin\<close> of \<open>persistence/control_plane.py\<close>: one operation per method, in
  the source's order, and \<open>list_task_leases\<close> of \<open>persistence/project_task.py\<close>, which the
  control plane reads. At the end the lane table is shown to satisfy the contract of a keyed
  table.
\<close>

subsection \<open>Cooldowns\<close>

definition create_control_cooldown :: "ControlCooldown \<Rightarrow> unit op" where
  "create_control_cooldown cooldown = try_write (\<lambda>s.
     rbind (insert_row ccd_id cooldown (st_cooldowns s)) (\<lambda>rows. Inr (s\<lparr>st_cooldowns := rows\<rparr>)))"

definition list_control_cooldowns ::
  "string option \<Rightarrow> string option \<Rightarrow> bool \<Rightarrow> ControlCooldown list op" where
  "list_control_cooldowns scope_type scope_id active_only =
     (if active_only
      then bnd utc_now (\<lambda>now. reads (\<lambda>s. order_by_desc ccd_created_at
             (filter (\<lambda>c. clause scope_type (Some (ccd_scope_type c))
                \<and> clause scope_id (Some (ccd_scope_id c)) \<and> now < ccd_until_at c) (st_cooldowns s))))
      else reads (\<lambda>s. order_by_desc ccd_created_at
             (filter (\<lambda>c. clause scope_type (Some (ccd_scope_type c))
                \<and> clause scope_id (Some (ccd_scope_id c))) (st_cooldowns s))))"

subsection \<open>Budgets\<close>

definition upsert_control_budget :: "ControlBudget \<Rightarrow> unit op" where
  "upsert_control_budget budget =
     writes (\<lambda>s. s\<lparr>st_budgets := upsert cbu_id budget (st_budgets s)\<rparr>)"

definition get_control_budget ::
  "string \<Rightarrow> string \<Rightarrow> time \<Rightarrow> time \<Rightarrow> ControlBudget option op" where
  "get_control_budget budget_scope budget_key window_start window_end =
     reads (\<lambda>s. List.find (\<lambda>b. cbu_budget_scope b = budget_scope \<and> cbu_budget_key b = budget_key
        \<and> cbu_window_start b = window_start \<and> cbu_window_end b = window_end) (st_budgets s))"

definition list_control_budgets ::
  "string option \<Rightarrow> string option \<Rightarrow> ControlBudget list op" where
  "list_control_budgets budget_scope budget_key =
     reads (\<lambda>s. order_by_desc cbu_updated_at
        (filter (\<lambda>b. clause budget_scope (Some (cbu_budget_scope b))
           \<and> clause budget_key (Some (cbu_budget_key b))) (st_budgets s)))"

subsection \<open>System state and lanes\<close>

definition get_control_system_state :: "ControlSystemState op" where
  "get_control_system_state =
     bnd (reads (\<lambda>s. find_key css_id ''system'' (st_system s))) (\<lambda>row.
     case row of
       None \<Rightarrow> raise (RuntimeError ''Missing control_system_state bootstrap row'')
     | Some state \<Rightarrow> ret state)"

definition update_control_system_state :: "ControlSystemState \<Rightarrow> unit op" where
  "update_control_system_state state =
     writes (\<lambda>s. s\<lparr>st_system := upsert css_id state (st_system s)\<rparr>)"

definition get_control_lane_state :: "string \<Rightarrow> ControlLaneState option op" where
  "get_control_lane_state lane_name = reads (\<lambda>s. find_key cls_lane_name lane_name (st_lanes s))"

definition list_control_lane_states :: "ControlLaneState list op" where
  "list_control_lane_states = reads (\<lambda>s. order_by cls_lane_name (st_lanes s))"

definition update_control_lane_state :: "ControlLaneState \<Rightarrow> unit op" where
  "update_control_lane_state state =
     writes (\<lambda>s. s\<lparr>st_lanes := upsert cls_lane_name state (st_lanes s)\<rparr>)"

definition ensure_control_lanes :: "string list \<Rightarrow> unit op" where
  "ensure_control_lanes lane_names =
     bnd utc_now (\<lambda>now.
     for_each lane_names (\<lambda>lane_name.
       writes (\<lambda>s. s\<lparr>st_lanes := insert_or_ignore cls_lane_name
         \<lparr>cls_lane_name = lane_name, cls_state = LS_PAUSED, cls_reason = None,
          cls_cooldown_until = None, cls_updated_at = now\<rparr> (st_lanes s)\<rparr>)))"

subsection \<open>Events, breadcrumbs, recovery actions\<close>

definition create_control_event :: "ControlEvent \<Rightarrow> unit op" where
  "create_control_event event = try_write (\<lambda>s.
     if has_key cev_idempotency_key (cev_idempotency_key event) (st_control_events s)
     then Inl (IntegrityError ''UNIQUE constraint failed'')
     else rbind (insert_row cev_id (event\<lparr>cev_payload := json_column (cev_payload event)\<rparr>)
                   (st_control_events s)) (\<lambda>rows. Inr (s\<lparr>st_control_events := rows\<rparr>)))"

definition list_control_events ::
  "string option \<Rightarrow> string option \<Rightarrow> string option \<Rightarrow> nat option \<Rightarrow> ControlEvent list op" where
  "list_control_events event_type entity_type entity_id row_limit =
     reads (\<lambda>s. limit_rows row_limit (order_by_desc cev_created_at
        (filter (\<lambda>e. clause event_type (Some (cev_event_type e))
           \<and> clause entity_type (Some (cev_entity_type e))
           \<and> clause entity_id (Some (cev_entity_id e))) (st_control_events s))))"

definition create_control_breadcrumb :: "ControlBreadcrumb \<Rightarrow> unit op" where
  "create_control_breadcrumb breadcrumb = try_write (\<lambda>s.
     rbind (insert_row cbc_id breadcrumb (st_breadcrumbs s)) (\<lambda>rows. Inr (s\<lparr>st_breadcrumbs := rows\<rparr>)))"

definition list_control_breadcrumbs ::
  "string option \<Rightarrow> string option \<Rightarrow> ControlBreadcrumb list op" where
  "list_control_breadcrumbs entity_type entity_id =
     reads (\<lambda>s. order_by_desc cbc_created_at
        (filter (\<lambda>b. clause entity_type (Some (cbc_entity_type b))
           \<and> clause entity_id (Some (cbc_entity_id b))) (st_breadcrumbs s)))"

definition create_control_recovery_action :: "ControlRecoveryAction \<Rightarrow> unit op" where
  "create_control_recovery_action action = try_write (\<lambda>s.
     rbind (insert_row cra_id action (st_recovery s)) (\<lambda>rows. Inr (s\<lparr>st_recovery := rows\<rparr>)))"

definition list_control_recovery_actions ::
  "string option \<Rightarrow> string option \<Rightarrow> ControlRecoveryAction list op" where
  "list_control_recovery_actions target_type target_id =
     reads (\<lambda>s. order_by_desc cra_created_at
        (filter (\<lambda>a. clause target_type (Some (cra_target_type a))
           \<and> clause target_id (Some (cra_target_id a))) (st_recovery s)))"

subsection \<open>Worker runs and task leases\<close>

definition upsert_control_worker_run :: "ControlWorkerRun \<Rightarrow> unit op" where
  "upsert_control_worker_run worker_run =
     writes (\<lambda>s. s\<lparr>st_worker_runs := upsert cwr_id worker_run (st_worker_runs s)\<rparr>)"

definition get_control_worker_run :: "string \<Rightarrow> ControlWorkerRun option op" where
  "get_control_worker_run worker_run_id =
     reads (\<lambda>s. find_key cwr_id worker_run_id (st_worker_runs s))"

definition list_control_worker_runs :: "string option \<Rightarrow> ControlWorkerRun list op" where
  "list_control_worker_runs task =
     reads (\<lambda>s. order_by_desc cwr_started_at
        (filter (\<lambda>r. clause task (cwr_task_id r)) (st_worker_runs s)))"

definition list_task_leases :: "string option \<Rightarrow> TaskLease list op" where
  "list_task_leases project =
     bnd utc_now (\<lambda>now.
     bnd (writes (\<lambda>s. s\<lparr>st_task_leases :=
            delete_where (\<lambda>l. lease_lease_expires_at l \<le> now) (st_task_leases s)\<rparr>)) (\<lambda>_.
     reads (\<lambda>s. order_by lease_created_at
        (case project of
           None \<Rightarrow> st_task_leases s
         | Some p \<Rightarrow> if p = [] then st_task_leases s
             else filter (\<lambda>l. case find_key task_id (lease_task_id l) (st_tasks s) of
                                None \<Rightarrow> False | Some t \<Rightarrow> task_project_id t = p)
                    (st_task_leases s)))))"

lemmas control_store_defs =
  create_control_cooldown_def list_control_cooldowns_def upsert_control_budget_def
  get_control_budget_def list_control_budgets_def get_control_system_state_def
  update_control_system_state_def get_control_lane_state_def list_control_lane_states_def
  update_control_lane_state_def ensure_control_lanes_def create_control_event_def
  list_control_events_def create_control_breadcrumb_def list_control_breadcrumbs_def
  create_control_recovery_action_def list_control_recovery_actions_def
  upsert_control_worker_run_def get_control_worker_run_def list_control_worker_runs_def
  list_task_leases_def

subsection \<open>What the operations leave alone\<close>

text \<open>The control state proper: the system rows and the lanes.\<close>

definition control_view :: "store \<Rightarrow> ControlSystemState list \<times> ControlLaneState list" where
  "control_view s = (st_system s, st_lanes s)"

lemma keeps_utc_now [keep_rules]: "keeps control_view utc_now"
  by (simp add: utc_now_keeps control_view_def)

lemma keeps_new_id [keep_rules]: "keeps control_view (new_id p)"
  by (simp add: new_id_keeps control_view_def)

lemma keeps_create [keep_rules]:
  "keeps control_view (create_control_cooldown c)"
  "keeps control_view (create_control_event e)"
  "keeps control_view (create_control_breadcrumb b)"
  "keeps control_view (create_control_recovery_action a)"
  "keeps control_view (upsert_control_budget g)"
  "keeps control_view (upsert_control_worker_run w)"
  by (auto simp: control_store_defs control_view_def rbind_Inr_iff
      intro!: keeps_try_write keeps_writes split: if_splits)

lemma keeps_list [keep_rules]:
  "keeps control_view (list_control_cooldowns a b c)"
  "keeps control_view (get_control_budget d e f g)"
  "keeps control_view (list_control_budgets a b)"
  "keeps control_view get_control_system_state"
  "keeps control_view (get_control_lane_state n)"
  "keeps control_view list_control_lane_states"
  "keeps control_view (list_control_events a b h i)"
  "keeps control_view (list_control_breadcrumbs a b)"
  "keeps control_view (list_control_recovery_actions a b)"
  "keeps control_view (get_control_worker_run n)"
  "keeps control_view (list_control_worker_runs a)"
  "keeps control_view (list_task_leases a)"
  unfolding control_store_defs
  by (auto intro!: keep_rules keeps_writes simp: control_view_def)

lemma get_control_system_state_run:
  "find_key css_id ''system'' (st_system s) = Some c \<Longrightarrow> get_control_system_state s = (Inr c, s)"
  by (simp add: get_control_system_state_def prog_simps)

lemma list_control_lane_states_run:
  "list_control_lane_states s = (Inr (order_by cls_lane_name (st_lanes s)), s)"
  by (simp add: list_control_lane_states_def)

subsection \<open>The lane table as a keyed table\<close>

interpretation lane_table: keyed_table cls_lane_name "find_key cls_lane_name"
  "upsert cls_lane_name" "order_by cls_lane_name" "keyed cls_lane_name"
  by (rule keyed_table_upsert)

end
