(* ===== verification/Control_Plane.thy ===== *)
theory Control_Plane
  imports Control_Store
begin

section \<open>The control plane\<close>

text \<open>
  \<open>ControlPlane\<close> of \<open>control_plane.py\<close>: the operator's switches over the store's system row
  and lanes. Every method is an operation over the store with the plane's \<open>producer\<close> as a
  parameter; the returned dictionary of \<open>status\<close> is the record \<open>control_status\<close>, in which an
  instant stands for its ISO text. The theory Control_Refine states
  what the plane promises and proves it.
\<close>

definition DEFAULT_CONTROL_LANES :: "string list" where
  "DEFAULT_CONTROL_LANES = [''api'', ''harness'', ''worker'', ''watch'', ''telegram'']"

definition EXPENSIVE_CODING_RUN_LIMIT :: int where
  "EXPENSIVE_CODING_RUN_LIMIT = 3"

text \<open>A \<open>timedelta\<close> is a number of microseconds.\<close>

definition EXPENSIVE_CODING_RUN_WINDOW :: time where
  "EXPENSIVE_CODING_RUN_WINDOW = 60 * 60 * 1000000"

record control_status =
  cst_global_state :: string
  cst_master_switch :: bool
  cst_lanes :: "(string \<times> string) list"
  cst_active_task_id :: "string option"
  cst_latest_failure_class :: "string option"
  cst_cooldowns :: "(string \<times> time \<times> string option) list"
  cst_last_merge_status :: "string option"
  cst_frozen_reason :: "string option"

subsection \<open>Events, lanes, cooldowns\<close>

definition control_init :: "unit op" where
  "control_init = ensure_control_lanes DEFAULT_CONTROL_LANES"

definition event_key :: "string \<Rightarrow> string \<Rightarrow> string \<Rightarrow> int \<Rightarrow> string" where
  "event_key event_type entity_type entity_id micros =
     event_type @ '':'' @ entity_type @ '':'' @ entity_id @ '':'' @ dec_int micros"

definition record_event ::
  "string \<Rightarrow> string \<Rightarrow> string \<Rightarrow> string \<Rightarrow> pydict \<Rightarrow> unit op" where
  "record_event producer event_type entity_type entity_id payload =
     bnd utc_now (\<lambda>now.
     bnd (reads (\<lambda>s. st_micros s now)) (\<lambda>micros.
     bnd (new_id ''control_event'') (\<lambda>i.
     create_control_event
       \<lparr>cev_id = i, cev_event_type = event_type, cev_entity_type = entity_type,
        cev_entity_id = entity_id, cev_producer = producer, cev_payload = payload,
        cev_idempotency_key = event_key event_type entity_type entity_id micros,
        cev_created_at = now\<rparr>)))"

definition require_lane :: "string \<Rightarrow> ControlLaneState op" where
  "require_lane lane_name =
     bnd (get_control_lane_state lane_name) (\<lambda>lane.
     case lane of
       None \<Rightarrow> raise (ValueError (''Unknown control lane: '' @ lane_name))
     | Some l \<Rightarrow> ret l)"

text \<open>\<open>update_control_lane_state(replace(lane, state=..., reason=..., cooldown_until=...,
  updated_at=datetime.now(UTC)))\<close>.\<close>

definition put_lane ::
  "ControlLaneState \<Rightarrow> ControlLaneStateValue \<Rightarrow> string option \<Rightarrow> time option \<Rightarrow> unit op" where
  "put_lane lane state reason until =
     bnd utc_now (\<lambda>now. update_control_lane_state
       (lane\<lparr>cls_state := state, cls_reason := reason, cls_cooldown_until := until,
             cls_updated_at := now\<rparr>))"

text \<open>The loop over the lanes that \<open>turn_on\<close>, \<open>turn_off\<close>, \<open>freeze\<close> and \<open>thaw\<close> share.\<close>

definition set_active_lanes :: "ControlLaneStateValue \<Rightarrow> string \<Rightarrow> unit op" where
  "set_active_lanes state reason =
     bnd list_control_lane_states (\<lambda>lanes.
     for_each lanes (\<lambda>lane.
       if cls_state lane = LS_DISABLED then ret ()
       else put_lane lane state (Some reason) None))"

definition resumed_state :: "bool \<Rightarrow> ControlLaneStateValue" where
  "resumed_state master = (if master then LS_RUNNING else LS_PAUSED)"

definition expire_at :: "string \<Rightarrow> time \<Rightarrow> unit op" where
  "expire_at producer now =
     bnd list_control_lane_states (\<lambda>lanes.
     for_each lanes (\<lambda>lane.
       case cls_cooldown_until lane of
         None \<Rightarrow> ret ()
       | Some until \<Rightarrow>
           if cls_state lane \<noteq> LS_COOLDOWN then ret ()
           else when_do (until \<le> now) (
             bnd get_control_system_state (\<lambda>system.
             bnd (update_control_lane_state
               (lane\<lparr>cls_state := resumed_state (css_master_switch system),
                     cls_reason := Some ''cooldown_expired'', cls_cooldown_until := None,
                     cls_updated_at := now\<rparr>)) (\<lambda>_.
             record_event producer ''lane_resumed'' ''lane'' (cls_lane_name lane)
               [(''reason'', PStr ''cooldown_expired''),
                (''state'', PStr (ControlLaneStateValue_value
                   (resumed_state (css_master_switch system))))])))))"

definition expire_cooldowns :: "string \<Rightarrow> unit op" where
  "expire_cooldowns producer = bnd utc_now (\<lambda>now. expire_at producer now)"

subsection \<open>The system state\<close>

definition degraded_lane :: "ControlLaneState \<Rightarrow> bool" where
  "degraded_lane lane \<longleftrightarrow> cls_state lane = LS_PAUSED \<or> cls_state lane = LS_COOLDOWN"

definition expected_state ::
  "ControlSystemState \<Rightarrow> ControlLaneState list \<Rightarrow> GlobalSystemState \<times> string option" where
  "expected_state current all_lanes =
     (if \<not> css_master_switch current then (GS_OFF, None)
      else let lanes = filter (\<lambda>l. cls_state l \<noteq> LS_DISABLED) all_lanes in
        if list_ex degraded_lane lanes
        then (GS_DEGRADED, case List.find degraded_lane lanes of
                             Some l \<Rightarrow> cls_reason l | None \<Rightarrow> css_freeze_reason current)
        else if css_global_state current = GS_STARTING then (GS_HEALTHY, None)
        else (GS_HEALTHY, None))"

definition reconcile_system_state :: "ControlSystemState op" where
  "reconcile_system_state =
     bnd get_control_system_state (\<lambda>current.
     if css_global_state current = GS_FROZEN then ret current
     else bnd list_control_lane_states (\<lambda>lanes.
       case expected_state current lanes of (expected, freeze_reason) \<Rightarrow>
         if css_global_state current = expected \<and> css_freeze_reason current = freeze_reason
         then ret current
         else bnd utc_now (\<lambda>now.
           let updated = current\<lparr>css_global_state := expected, css_freeze_reason := freeze_reason,
                                 css_updated_at := now\<rparr>
           in bnd (update_control_system_state updated) (\<lambda>_. ret updated))))"

definition latest_merge_event :: "ControlEvent option op" where
  "latest_merge_event =
     bnd (list_control_events (Some ''merge_succeeded'') None None (Some 1)) (\<lambda>good.
     if good \<noteq> [] then ret (Some (hd good))
     else bnd (list_control_events (Some ''merge_failed'') None None (Some 1)) (\<lambda>bad.
       ret (if bad = [] then None else Some (hd bad))))"

definition status_dict :: "control_status op" where
  "status_dict =
     bnd reconcile_system_state (\<lambda>system.
     bnd list_control_lane_states (\<lambda>lane_rows.
     bnd (list_task_leases None) (\<lambda>active_leases.
     bnd latest_merge_event (\<lambda>merge_event.
     ret \<lparr>cst_global_state = GlobalSystemState_value (css_global_state system),
          cst_master_switch = css_master_switch system,
          cst_lanes = fold (\<lambda>l d. dict_set (cls_lane_name l)
                        (ControlLaneStateValue_value (cls_state l)) d) lane_rows [],
          cst_active_task_id =
            (if active_leases \<noteq> [] then Some (lease_task_id (hd active_leases)) else None),
          cst_latest_failure_class =
            (case List.find degraded_lane lane_rows of
               None \<Rightarrow> None | Some l \<Rightarrow> cls_reason l),
          cst_cooldowns =
            List.map_filter (\<lambda>l. if cls_state l = LS_COOLDOWN
               then map_option (\<lambda>u. (cls_lane_name l, u, cls_reason l)) (cls_cooldown_until l)
               else None) lane_rows,
          cst_last_merge_status =
            map_option (\<lambda>e. remove_prefix ''merge_'' (cev_event_type e)) merge_event,
          cst_frozen_reason = css_freeze_reason system\<rparr>))))"

definition plane_status :: "string \<Rightarrow> control_status op" where
  "plane_status producer = bnd (expire_cooldowns producer) (\<lambda>_. status_dict)"

definition sync_global_state :: "string \<Rightarrow> string \<Rightarrow> control_status op" where
  "sync_global_state producer reason =
     bnd (expire_cooldowns producer) (\<lambda>_.
     bnd reconcile_system_state (\<lambda>current.
     bnd (if css_global_state current = GS_DEGRADED \<and> css_freeze_reason current \<noteq> Some reason
          then bnd utc_now (\<lambda>now. update_control_system_state
                 (current\<lparr>css_freeze_reason := Some reason, css_updated_at := now\<rparr>))
          else ret ()) (\<lambda>_.
     plane_status producer)))"

text \<open>\<open>replace(get_control_system_state(), ..., updated_at=datetime.now(UTC))\<close> and its update.\<close>

definition put_system ::
  "(ControlSystemState \<Rightarrow> ControlSystemState) \<Rightarrow> ControlSystemState \<Rightarrow> ControlSystemState op" where
  "put_system f current =
     bnd utc_now (\<lambda>now.
     let state = (f current)\<lparr>css_updated_at := now\<rparr>
     in bnd (update_control_system_state state) (\<lambda>_. ret state))"

definition global_payload :: "ControlSystemState \<Rightarrow> pydict" where
  "global_payload state =
     [(''global_state'', PStr (GlobalSystemState_value (css_global_state state)))]"

definition reason_payload :: "string \<Rightarrow> pydict" where
  "reason_payload reason = [(''reason'', PStr reason)]"

subsection \<open>The operator's calls\<close>

definition turn_on :: "string \<Rightarrow> control_status op" where
  "turn_on producer =
     bnd get_control_system_state (\<lambda>current.
     bnd (put_system (\<lambda>c. c\<lparr>css_global_state := GS_STARTING, css_master_switch := True,
                           css_freeze_reason := None\<rparr>) current) (\<lambda>state.
     bnd (set_active_lanes LS_RUNNING ''system_on'') (\<lambda>_.
     bnd (record_event producer ''system_on'' ''system'' ''system'' (global_payload state)) (\<lambda>_.
     sync_global_state producer ''system_on''))))"

definition turn_off :: "string \<Rightarrow> control_status op" where
  "turn_off producer =
     bnd get_control_system_state (\<lambda>current.
     bnd (put_system (\<lambda>c. c\<lparr>css_global_state := GS_OFF, css_master_switch := False,
                           css_freeze_reason := None\<rparr>) current) (\<lambda>state.
     bnd (set_active_lanes LS_PAUSED ''system_off'') (\<lambda>_.
     bnd (record_event producer ''system_off'' ''system'' ''system'' (global_payload state)) (\<lambda>_.
     plane_status producer))))"

definition new_recovery_action :: "string \<Rightarrow> string \<Rightarrow> string \<Rightarrow> unit op" where
  "new_recovery_action action_type reason outcome =
     bnd (new_id ''recovery'') (\<lambda>i.
     bnd utc_now (\<lambda>now.
     create_control_recovery_action
       \<lparr>cra_id = i, cra_action_type = action_type, cra_target_type = ''system'',
        cra_target_id = ''system'', cra_reason = reason, cra_result = outcome,
        cra_created_at = now\<rparr>))"

definition freeze :: "string \<Rightarrow> string \<Rightarrow> control_status op" where
  "freeze producer reason =
     bnd get_control_system_state (\<lambda>current.
     bnd (put_system (\<lambda>c. c\<lparr>css_global_state := GS_FROZEN,
                           css_freeze_reason := Some reason\<rparr>) current) (\<lambda>state.
     bnd (set_active_lanes LS_PAUSED ''frozen'') (\<lambda>_.
     bnd (new_recovery_action ''freeze'' reason ''applied'') (\<lambda>_.
     bnd (record_event producer ''system_frozen'' ''system'' ''system'' (reason_payload reason)) (\<lambda>_.
     plane_status producer)))))"

definition mark_degraded :: "string \<Rightarrow> string \<Rightarrow> control_status op" where
  "mark_degraded producer reason =
     bnd get_control_system_state (\<lambda>current.
     if css_global_state current = GS_FROZEN then plane_status producer
     else
     bnd (put_system (\<lambda>c. c\<lparr>css_global_state := GS_DEGRADED,
                           css_freeze_reason := Some reason\<rparr>) current) (\<lambda>state.
     bnd (record_event producer ''system_degraded'' ''system'' ''system'' (reason_payload reason)) (\<lambda>_.
     sync_global_state producer reason)))"

definition mark_healthy :: "string \<Rightarrow> string \<Rightarrow> control_status op" where
  "mark_healthy producer reason =
     bnd get_control_system_state (\<lambda>current.
     if css_global_state current = GS_FROZEN \<or> \<not> css_master_switch current
     then plane_status producer
     else
     bnd (record_event producer ''system_healthy'' ''system'' ''system'' (reason_payload reason)) (\<lambda>_.
     sync_global_state producer reason))"

definition thaw :: "string \<Rightarrow> control_status op" where
  "thaw producer =
     bnd get_control_system_state (\<lambda>current.
     let next_state = (if css_master_switch current then GS_STARTING else GS_OFF) in
     bnd (put_system (\<lambda>c. c\<lparr>css_global_state := next_state, css_freeze_reason := None\<rparr>) current) (\<lambda>state.
     bnd (when_do (css_master_switch current) (set_active_lanes LS_RUNNING ''thawed'')) (\<lambda>_.
     bnd (record_event producer ''system_thawed'' ''system'' ''system'' (global_payload state)) (\<lambda>_.
     sync_global_state producer ''thawed''))))"

definition pause_lane :: "string \<Rightarrow> string \<Rightarrow> string \<Rightarrow> control_status op" where
  "pause_lane producer lane_name reason =
     bnd (require_lane lane_name) (\<lambda>lane.
     bnd (put_lane lane LS_PAUSED (Some reason) None) (\<lambda>_.
     bnd (record_event producer ''lane_paused'' ''lane'' lane_name (reason_payload reason)) (\<lambda>_.
     sync_global_state producer reason)))"

definition resume_lane :: "string \<Rightarrow> string \<Rightarrow> string \<Rightarrow> control_status op" where
  "resume_lane producer lane_name reason =
     bnd get_control_system_state (\<lambda>current.
     if css_global_state current = GS_FROZEN
     then raise (ValueError ''Cannot resume a lane while the system is frozen'')
     else
     bnd (require_lane lane_name) (\<lambda>lane.
     bnd get_control_system_state (\<lambda>system.
     let next_state = resumed_state (css_master_switch system) in
     bnd (put_lane lane next_state (Some reason) None) (\<lambda>_.
     bnd (record_event producer ''lane_resumed'' ''lane'' lane_name
            [(''reason'', PStr reason),
             (''state'', PStr (ControlLaneStateValue_value next_state))]) (\<lambda>_.
     sync_global_state producer reason)))))"

definition new_cooldown :: "string \<Rightarrow> string \<Rightarrow> time \<Rightarrow> unit op" where
  "new_cooldown lane_name reason until_at =
     bnd (new_id ''cooldown'') (\<lambda>i.
     bnd utc_now (\<lambda>created.
     create_control_cooldown
       \<lparr>ccd_id = i, ccd_scope_type = ''lane'', ccd_scope_id = lane_name, ccd_reason = reason,
        ccd_until_at = until_at, ccd_created_at = created\<rparr>))"

definition enter_cooldown :: "string \<Rightarrow> string \<Rightarrow> string \<Rightarrow> int \<Rightarrow> control_status op" where
  "enter_cooldown producer lane_name reason seconds =
     bnd (require_lane lane_name) (\<lambda>lane.
     bnd utc_now (\<lambda>now.
     let until_at = now + max seconds 0 * 1000000 in
     bnd (put_lane lane LS_COOLDOWN (Some reason) (Some until_at)) (\<lambda>_.
     bnd (new_cooldown lane_name reason until_at) (\<lambda>_.
     bnd (record_event producer ''provider_degraded'' ''lane'' lane_name
            [(''class'', PStr reason), (''cooldown_seconds'', PInt seconds)]) (\<lambda>_.
     sync_global_state producer reason)))))"

definition record_human_escalation ::
  "string \<Rightarrow> string \<Rightarrow> pydict option \<Rightarrow> control_status op" where
  "record_human_escalation producer reason payload =
     bnd (new_recovery_action ''escalate'' reason ''recorded'') (\<lambda>_.
     bnd (record_event producer ''human_escalation_required'' ''system'' ''system''
            (case payload of None \<Rightarrow> reason_payload reason
             | Some p \<Rightarrow> if p = [] then reason_payload reason else p)) (\<lambda>_.
     plane_status producer))"

subsection \<open>Budgets\<close>

definition record_budget_usage ::
  "string \<Rightarrow> string \<Rightarrow> int \<Rightarrow> rat \<Rightarrow> time \<Rightarrow> ControlBudget op" where
  "record_budget_usage budget_scope budget_key usage_count usage_cost_usd window =
     bnd utc_now (\<lambda>now.
     let window_start = now - window; window_end = now in
     bnd (get_control_budget budget_scope budget_key window_start window_end) (\<lambda>existing.
     bnd (case existing of
            None \<Rightarrow>
              bnd (new_id ''budget'') (\<lambda>i. ret
                \<lparr>cbu_id = i, cbu_budget_scope = budget_scope, cbu_budget_key = budget_key,
                 cbu_window_start = window_start, cbu_window_end = window_end,
                 cbu_usage_count = usage_count, cbu_usage_cost_usd = usage_cost_usd,
                 cbu_updated_at = now\<rparr>)
          | Some b \<Rightarrow> ret
              (b\<lparr>cbu_usage_count := cbu_usage_count b + usage_count,
                 cbu_usage_cost_usd := cbu_usage_cost_usd b + usage_cost_usd,
                 cbu_updated_at := now, cbu_window_end := now\<rparr>)) (\<lambda>budget.
     bnd (upsert_control_budget budget) (\<lambda>_. ret budget))))"

definition expensive_coding_budget_exhausted :: "string \<Rightarrow> string \<Rightarrow> bool op" where
  "expensive_coding_budget_exhausted budget_scope budget_key =
     bnd utc_now (\<lambda>now.
     bnd (list_control_budgets (Some budget_scope) (Some budget_key)) (\<lambda>budgets.
     let cutoff = now - EXPENSIVE_CODING_RUN_WINDOW;
         total_count = sum_list (map cbu_usage_count
                         (filter (\<lambda>b. cutoff \<le> cbu_window_end b) budgets))
     in ret (EXPENSIVE_CODING_RUN_LIMIT < total_count)))"

definition NO_PROGRESS_REASON :: string where
  "NO_PROGRESS_REASON =
     ''Three completed coding runs did not advance the objective to a mergeable state.''"

definition objective_no_progress_blocked :: "string \<Rightarrow> bool op" where
  "objective_no_progress_blocked objective =
     (if objective = [] then ret False
      else bnd (list_control_events (Some ''human_escalation_required'') None None (Some 50))
        (\<lambda>events. ret (list_ex (\<lambda>event.
           str_or_empty (dict_get (cev_payload event) ''objective_id'') = objective
           \<and> str_or_empty (dict_get (cev_payload event) ''reason'') = NO_PROGRESS_REASON) events)))"

text \<open>Every entry point of the plane that changes lanes or the system row.\<close>

datatype control_call =
    TurnOn
  | TurnOff
  | Freeze string
  | MarkDegraded string
  | MarkHealthy string
  | Thaw
  | PauseLane string string
  | ResumeLane string string
  | EnterCooldown string string int
  | HumanEscalation string "pydict option"
  | Status

fun run_call :: "string \<Rightarrow> control_call \<Rightarrow> control_status op" where
  "run_call p TurnOn = turn_on p"
| "run_call p TurnOff = turn_off p"
| "run_call p (Freeze r) = freeze p r"
| "run_call p (MarkDegraded r) = mark_degraded p r"
| "run_call p (MarkHealthy r) = mark_healthy p r"
| "run_call p Thaw = thaw p"
| "run_call p (PauseLane n r) = pause_lane p n r"
| "run_call p (ResumeLane n r) = resume_lane p n r"
| "run_call p (EnterCooldown n r k) = enter_cooldown p n r k"
| "run_call p (HumanEscalation r d) = record_human_escalation p r d"
| "run_call p Status = plane_status p"

end
