(* ===== verification/Control_Refine.thy ===== *)
theory Control_Refine
  imports Control_Plane
begin

section \<open>What the control plane promises\<close>

text \<open>
  The abstract state \<open>control\<close> is the system row and the lanes in the order of their names,
  without the \<open>updated_at\<close> stamps, events, cooldown records and identifiers. Every call of the
  plane is a pure function on it, given the instants at which the call looks at the clock.
  \<open>control_refines\<close> shows that the code implements these functions; the properties of the
  plane then follow on the abstract side.
\<close>

record lane =
  ln_name :: string
  ln_state :: ControlLaneStateValue
  ln_reason :: "string option"
  ln_until :: "time option"

record control =
  ct_global :: GlobalSystemState
  ct_master :: bool
  ct_reason :: "string option"
  ct_lanes :: "lane list"

subsection \<open>The abstract calls\<close>

definition c_put :: "lane \<Rightarrow> control \<Rightarrow> control" where
  "c_put l c = c\<lparr>ct_lanes := upsert ln_name l (ct_lanes c)\<rparr>"

definition active :: "lane \<Rightarrow> bool" where
  "active l \<longleftrightarrow> ln_state l \<noteq> LS_DISABLED"

definition c_set_lanes :: "ControlLaneStateValue \<Rightarrow> string \<Rightarrow> control \<Rightarrow> control" where
  "c_set_lanes st reason c = c\<lparr>ct_lanes := map (\<lambda>l. if active l
     then l\<lparr>ln_state := st, ln_reason := Some reason, ln_until := None\<rparr> else l) (ct_lanes c)\<rparr>"

definition expired :: "time \<Rightarrow> lane \<Rightarrow> bool" where
  "expired now l \<longleftrightarrow> ln_state l = LS_COOLDOWN
     \<and> (case ln_until l of None \<Rightarrow> False | Some u \<Rightarrow> u \<le> now)"

definition resume_expired :: "bool \<Rightarrow> lane \<Rightarrow> lane" where
  "resume_expired master l =
     l\<lparr>ln_state := resumed_state master, ln_reason := Some ''cooldown_expired'', ln_until := None\<rparr>"

definition c_expire :: "time \<Rightarrow> control \<Rightarrow> control" where
  "c_expire now c = c\<lparr>ct_lanes := map (\<lambda>l. if expired now l
     then resume_expired (ct_master c) l else l) (ct_lanes c)\<rparr>"

definition degraded :: "lane \<Rightarrow> bool" where
  "degraded l \<longleftrightarrow> ln_state l = LS_PAUSED \<or> ln_state l = LS_COOLDOWN"

definition c_reconcile :: "control \<Rightarrow> control" where
  "c_reconcile c =
     (if ct_global c = GS_FROZEN then c
      else if \<not> ct_master c then c\<lparr>ct_global := GS_OFF, ct_reason := None\<rparr>
      else case List.find degraded (ct_lanes c) of
             Some l \<Rightarrow> c\<lparr>ct_global := GS_DEGRADED, ct_reason := ln_reason l\<rparr>
           | None \<Rightarrow> c\<lparr>ct_global := GS_HEALTHY, ct_reason := None\<rparr>)"

definition c_status :: "time \<Rightarrow> control \<Rightarrow> control" where
  "c_status now c = c_reconcile (c_expire now c)"

text \<open>A call ends in one or two such settlements, at increasing positions of the clock.\<close>

definition c_sync :: "time \<Rightarrow> time \<Rightarrow> control \<Rightarrow> control" where
  "c_sync t1 t2 c = c_status t2 (c_status t1 c)"

definition c_lane :: "string \<Rightarrow> ControlLaneStateValue \<Rightarrow> string \<Rightarrow> time option \<Rightarrow> control \<Rightarrow> control" where
  "c_lane n st reason until c =
     c_put \<lparr>ln_name = n, ln_state = st, ln_reason = Some reason, ln_until = until\<rparr> c"

fun c_call :: "time \<Rightarrow> time \<Rightarrow> time \<Rightarrow> control_call \<Rightarrow> control \<Rightarrow> control" where
  "c_call t0 t1 t2 TurnOn c = c_sync t1 t2 (c_set_lanes LS_RUNNING ''system_on''
     (c\<lparr>ct_global := GS_STARTING, ct_master := True, ct_reason := None\<rparr>))"
| "c_call t0 t1 t2 TurnOff c = c_status t2 (c_set_lanes LS_PAUSED ''system_off''
     (c\<lparr>ct_global := GS_OFF, ct_master := False, ct_reason := None\<rparr>))"
| "c_call t0 t1 t2 (Freeze r) c = c_status t2 (c_set_lanes LS_PAUSED ''frozen''
     (c\<lparr>ct_global := GS_FROZEN, ct_reason := Some r\<rparr>))"
| "c_call t0 t1 t2 (MarkDegraded r) c =
     (if ct_global c = GS_FROZEN then c_status t2 c
      else c_sync t1 t2 (c\<lparr>ct_global := GS_DEGRADED, ct_reason := Some r\<rparr>))"
| "c_call t0 t1 t2 (MarkHealthy r) c =
     (if ct_global c = GS_FROZEN \<or> \<not> ct_master c then c_status t2 c else c_sync t1 t2 c)"
| "c_call t0 t1 t2 Thaw c = c_sync t1 t2
     (if ct_master c
      then c_set_lanes LS_RUNNING ''thawed'' (c\<lparr>ct_global := GS_STARTING, ct_reason := None\<rparr>)
      else c\<lparr>ct_global := GS_OFF, ct_reason := None\<rparr>)"
| "c_call t0 t1 t2 (PauseLane n r) c = c_sync t1 t2 (c_lane n LS_PAUSED r None c)"
| "c_call t0 t1 t2 (ResumeLane n r) c =
     c_sync t1 t2 (c_lane n (resumed_state (ct_master c)) r None c)"
| "c_call t0 t1 t2 (EnterCooldown n r k) c =
     c_sync t1 t2 (c_lane n LS_COOLDOWN r (Some (t0 + max k 0 * 1000000)) c)"
| "c_call t0 t1 t2 (HumanEscalation r d) c = c_status t2 c"
| "c_call t0 t1 t2 Status c = c_status t2 c"

subsection \<open>The abstraction\<close>

definition lane_abs :: "ControlLaneState \<Rightarrow> lane" where
  "lane_abs l = \<lparr>ln_name = cls_lane_name l, ln_state = cls_state l, ln_reason = cls_reason l,
     ln_until = cls_cooldown_until l\<rparr>"

definition lanes_abs :: "store \<Rightarrow> lane list" where
  "lanes_abs s = map lane_abs (order_by cls_lane_name (st_lanes s))"

definition system_row :: "store \<Rightarrow> ControlSystemState option" where
  "system_row s = find_key css_id ''system'' (st_system s)"

definition control_abs :: "store \<Rightarrow> control" where
  "control_abs s =
     (case system_row s of
        None \<Rightarrow> \<lparr>ct_global = GS_OFF, ct_master = False, ct_reason = None, ct_lanes = lanes_abs s\<rparr>
      | Some c \<Rightarrow> \<lparr>ct_global = css_global_state c, ct_master = css_master_switch c,
                   ct_reason = css_freeze_reason c, ct_lanes = lanes_abs s\<rparr>)"

text \<open>The store is well formed: lane names are unique and the system row exists, as the
  constructor and the schema's bootstrap row establish.\<close>

definition control_wf :: "store \<Rightarrow> bool" where
  "control_wf s \<longleftrightarrow> keyed cls_lane_name (st_lanes s) \<and> system_row s \<noteq> None"

lemma lane_abs_sel [simp]:
  "ln_name (lane_abs l) = cls_lane_name l" "ln_state (lane_abs l) = cls_state l"
  "ln_reason (lane_abs l) = cls_reason l" "ln_until (lane_abs l) = cls_cooldown_until l"
  by (simp_all add: lane_abs_def)

lemma control_abs_lanes [simp]: "ct_lanes (control_abs s) = lanes_abs s"
  by (simp add: control_abs_def split: option.split)

lemma control_abs_system:
  assumes "system_row s = Some c"
  shows "ct_global (control_abs s) = css_global_state c" "ct_master (control_abs s) = css_master_switch c"
    "ct_reason (control_abs s) = css_freeze_reason c"
  using assms by (simp_all add: control_abs_def)

lemma view_abs:
  assumes "control_view t = control_view s"
  shows "control_abs t = control_abs s" "control_wf t = control_wf s" "system_row t = system_row s"
    "st_lanes t = st_lanes s"
  using assms
  by (simp_all add: control_view_def control_abs_def control_wf_def system_row_def lanes_abs_def
      split: option.split)

definition c_wf :: "control \<Rightarrow> bool" where
  "c_wf c \<longleftrightarrow> keyed ln_name (ct_lanes c)"

lemma control_wf_abs: "control_wf s \<Longrightarrow> c_wf (control_abs s)"
  using keyed_order_by [of cls_lane_name "st_lanes s" cls_lane_name]
  by (simp add: control_wf_def c_wf_def lanes_abs_def keyed_def comp_def)

interpretation abs_table: keyed_table ln_name "find_key ln_name" "upsert ln_name"
  "\<lambda>t. t" "keyed ln_name"
  by (rule keyed_table_list)

subsection \<open>Implementing an abstract step\<close>

text \<open>\<open>implements m R\<close>: from a well-formed store \<open>m\<close> reaches a well-formed store, whether it
  returns or raises; if it returns \<open>a\<close>, the abstract states are related by \<open>R\<close>, which also
  sees the clock.\<close>

definition implements ::
  "'a op \<Rightarrow> ((nat \<Rightarrow> time) \<Rightarrow> control \<Rightarrow> 'a \<Rightarrow> control \<Rightarrow> bool) \<Rightarrow> bool" where
  "implements m R \<longleftrightarrow> (\<forall>s r t. control_wf s \<longrightarrow> m s = (r, t) \<longrightarrow>
     control_wf t \<and> st_clock t = st_clock s
     \<and> (\<forall>a. r = Inr a \<longrightarrow> R (st_clock s) (control_abs s) a (control_abs t)))"

named_theorems impl_rules \<open>what the operations of the plane implement\<close>

lemma implementsI:
  assumes "\<And>s r t. control_wf s \<Longrightarrow> m s = (r, t) \<Longrightarrow> control_wf t"
    and "\<And>s r t. control_wf s \<Longrightarrow> m s = (r, t) \<Longrightarrow> st_clock t = st_clock s"
    and "\<And>s a t. control_wf s \<Longrightarrow> control_wf t \<Longrightarrow> m s = (Inr a, t) \<Longrightarrow>
      R (st_clock s) (control_abs s) a (control_abs t)"
  shows "implements m R"
  using assms unfolding implements_def by blast

lemma implements_wf:
  "implements m R \<Longrightarrow> control_wf s \<Longrightarrow> m s = (r, t) \<Longrightarrow> control_wf t \<and> st_clock t = st_clock s"
  unfolding implements_def by blast

lemma implementsD:
  "implements m R \<Longrightarrow> control_wf s \<Longrightarrow> m s = (Inr a, t) \<Longrightarrow>
    R (st_clock s) (control_abs s) a (control_abs t)"
  unfolding implements_def by blast

lemma implements_weaken:
  assumes m: "implements m R"
    and RQ: "\<And>ck c a c'. c_wf c \<Longrightarrow> c_wf c' \<Longrightarrow> R ck c a c' \<Longrightarrow> Q ck c a c'"
  shows "implements m Q"
proof (rule implementsI)
  show "control_wf t" and "st_clock t = st_clock s"
    if "control_wf s" and "m s = (r, t)" for s r t
    using implements_wf [OF m that] by simp_all
  show "Q (st_clock s) (control_abs s) a (control_abs t)"
    if "control_wf s" and "control_wf t" and "m s = (Inr a, t)" for s a t
    using that by (intro RQ control_wf_abs implementsD [OF m])
qed

lemma implements_bnd:
  assumes m: "implements m R" and k: "\<And>a. implements (k a) (Q a)"
  shows "implements (bnd m k) (\<lambda>ck c b c''. \<exists>a c'. c_wf c' \<and> R ck c a c' \<and> Q a ck c' b c'')"
proof (rule implementsI)
  fix s r t
  assume wf: "control_wf s" and run: "bnd m k s = (r, t)"
  obtain r1 u where u: "m s = (r1, u)" by fastforce
  note wf_u = implements_wf [OF m wf u]
  have "control_wf t \<and> st_clock t = st_clock u"
  proof (cases r1)
    case (Inl e)
    then show ?thesis using run u wf_u by (simp add: bnd_run)
  next
    case (Inr a)
    then have "k a u = (r, t)" using run u by (simp add: bnd_run)
    with k wf_u show ?thesis by (meson implements_wf)
  qed
  with wf_u show "control_wf t" and "st_clock t = st_clock s" by simp_all
next
  fix s a t
  assume wf: "control_wf s" and run: "bnd m k s = (Inr a, t)"
  from run obtain b u where u: "m s = (Inr b, u)" and t: "k b u = (Inr a, t)" by (rule bnd_InrE)
  have "control_wf u" and "st_clock u = st_clock s"
    using implements_wf [OF m wf u] by simp_all
  moreover have "R (st_clock s) (control_abs s) b (control_abs u)"
    by (rule implementsD [OF m wf u])
  moreover have "Q b (st_clock u) (control_abs u) a (control_abs t)"
    by (rule implementsD [OF k \<open>control_wf u\<close> t])
  moreover have "c_wf (control_abs u)"
    by (rule control_wf_abs [OF \<open>control_wf u\<close>])
  ultimately show "\<exists>b c'. c_wf c' \<and> R (st_clock s) (control_abs s) b c'
      \<and> Q b (st_clock s) c' a (control_abs t)"
    by auto
qed

text \<open>Sequencing with the relation the caller wants to conclude.\<close>

lemma implements_bnd':
  assumes "implements m R" and "\<And>a. implements (k a) (Q a)"
    and "\<And>ck c a c' b c''. c_wf c \<Longrightarrow> c_wf c' \<Longrightarrow> c_wf c'' \<Longrightarrow> R ck c a c' \<Longrightarrow> Q a ck c' b c'' \<Longrightarrow>
      P ck c b c''"
  shows "implements (bnd m k) P"
proof (rule implements_weaken [OF implements_bnd [OF assms(1,2)]])
  fix ck c b c''
  assume "c_wf c" and "c_wf c''" and "\<exists>a c'. c_wf c' \<and> R ck c a c' \<and> Q a ck c' b c''"
  then show "P ck c b c''" using assms(3) by blast
qed

definition same :: "(nat \<Rightarrow> time) \<Rightarrow> control \<Rightarrow> 'a \<Rightarrow> control \<Rightarrow> bool" where
  "same ck c a c' \<longleftrightarrow> c' = c"

lemma implements_same:
  assumes "keeps control_view m" and "keeps st_clock m"
  shows "implements m same"
proof (rule implementsI)
  fix s r t
  assume wf: "control_wf s" and run: "m s = (r, t)"
  show "control_wf t" using view_abs(2) [OF keeps_run [OF assms(1) run]] wf by simp
  from keeps_run [OF assms(2) run] show "st_clock t = st_clock s" .
next
  fix s a t
  assume "m s = (Inr a, t)"
  from view_abs(1) [OF keeps_run [OF assms(1) this]]
  show "same (st_clock s) (control_abs s) a (control_abs t)"
    by (simp add: same_def)
qed

lemma implements_ret: "implements (ret a) (\<lambda>ck c b c'. c' = c \<and> b = a)"
  by (rule implementsI) (auto simp: ret_run)

lemma implements_raise: "implements (raise e) Q"
  by (rule implementsI) (auto simp: raise_run)

lemma implements_if:
  "(b \<Longrightarrow> implements m R) \<Longrightarrow> (\<not> b \<Longrightarrow> implements n Q) \<Longrightarrow>
   implements (if b then m else n) (\<lambda>ck c a c'. b \<and> R ck c a c' \<or> \<not> b \<and> Q ck c a c')"
  by simp

subsection \<open>The store operations\<close>

lemma clock_store [keep_rules]:
  "keeps st_clock utc_now" "keeps st_clock (new_id p)"
  "keeps st_clock (create_control_cooldown c)" "keeps st_clock (create_control_event e)"
  "keeps st_clock (create_control_recovery_action a)"
  "keeps st_clock (update_control_lane_state l)" "keeps st_clock (update_control_system_state y)"
  "keeps st_clock (list_control_events f g h i)" "keeps st_clock (list_task_leases j)"
  by (auto simp: control_store_defs utc_now_def new_id_def keeps_def prog_simps rbind_Inr_iff
      split: sum.splits if_splits option.splits)

lemma implements_record_event [impl_rules]: "implements (record_event p a b c d) same"
  unfolding record_event_def by (intro implements_same keep_rules)

lemma implements_recovery [impl_rules]: "implements (new_recovery_action a b c) same"
  unfolding new_recovery_action_def by (intro implements_same keep_rules)

lemma implements_cooldown [impl_rules]: "implements (new_cooldown n r u) same"
  unfolding new_cooldown_def by (intro implements_same keep_rules)

lemma implements_new_id [impl_rules]: "implements (new_id p) same"
  by (intro implements_same keep_rules)

lemma implements_leases [impl_rules]: "implements (list_task_leases p) same"
  by (intro implements_same keep_rules)

lemma implements_merge [impl_rules]: "implements latest_merge_event same"
  unfolding latest_merge_event_def by (intro implements_same keep_rules)

lemma implements_now [impl_rules]:
  "implements utc_now (\<lambda>ck c now c'. c' = c \<and> now \<in> range ck)"
proof (rule implementsI)
  show "control_wf t" if "control_wf s" and "utc_now s = (r, t)" for s r t
    using that view_abs(2) [OF keeps_run [OF keeps_utc_now that(2)]] by simp
  show "st_clock t = st_clock s" if "utc_now s = (r, t)" for s r t
    using that by (auto simp: utc_now_def)
  show "control_abs t = control_abs s \<and> now \<in> range (st_clock s)"
    if "utc_now s = (Inr now, t)" for s now t
    using view_abs(1) [OF keeps_run [OF keeps_utc_now that]] that by (auto simp: utc_now_def)
qed

lemma get_control_system_state_run':
  "get_control_system_state s = (case system_row s of
     None \<Rightarrow> (Inl (RuntimeError ''Missing control_system_state bootstrap row''), s)
   | Some c \<Rightarrow> (Inr c, s))"
  by (simp add: get_control_system_state_def system_row_def prog_simps split: option.split)

lemma implements_get_system [impl_rules]:
  "implements get_control_system_state (\<lambda>ck c y c'. c' = c \<and> css_id y = ''system''
     \<and> css_global_state y = ct_global c \<and> css_master_switch y = ct_master c
     \<and> css_freeze_reason y = ct_reason c)"
proof (rule implementsI)
  show "control_wf t" and "st_clock t = st_clock s"
    if "control_wf s" and "get_control_system_state s = (r, t)" for s r t
    using that by (auto simp: get_control_system_state_run' split: option.splits)
  show "control_abs t = control_abs s \<and> css_id y = ''system''
     \<and> css_global_state y = ct_global (control_abs s) \<and> css_master_switch y = ct_master (control_abs s)
     \<and> css_freeze_reason y = ct_reason (control_abs s)"
    if "get_control_system_state s = (Inr y, t)" for s y t
  proof -
    from that have "t = s" and row: "system_row s = Some y"
      by (auto simp: get_control_system_state_run' split: option.splits)
    moreover from row have "css_id y = ''system''"
      by (auto simp: system_row_def dest: find_key_Some)
    ultimately show ?thesis by (simp add: control_abs_system)
  qed
qed

lemma implements_list_lanes [impl_rules]:
  "implements list_control_lane_states (\<lambda>ck c ls c'. c' = c \<and> map lane_abs ls = ct_lanes c)"
  by (rule implementsI) (auto simp: list_control_lane_states_run lanes_abs_def)

lemma implements_update_lane [impl_rules]:
  "implements (update_control_lane_state l)
     (\<lambda>ck c a c'. cls_lane_name l \<in> ln_name ` set (ct_lanes c) \<longrightarrow> c' = c_put (lane_abs l) c)"
proof (rule implementsI)
  fix s r t
  assume wf: "control_wf s" and run: "update_control_lane_state l s = (r, t)"
  from wf run show "control_wf t" "st_clock t = st_clock s"
    by (auto simp: update_control_lane_state_def control_wf_def system_row_def keyed_upsert)
next
  fix s a t
  assume wf: "control_wf s" and run: "update_control_lane_state l s = (Inr a, t)"
  have t: "t = s\<lparr>st_lanes := upsert cls_lane_name l (st_lanes s)\<rparr>"
    using run by (simp add: update_control_lane_state_def)
  show "cls_lane_name l \<in> ln_name ` set (ct_lanes (control_abs s)) \<longrightarrow>
      control_abs t = c_put (lane_abs l) (control_abs s)"
  proof
    assume "cls_lane_name l \<in> ln_name ` set (ct_lanes (control_abs s))"
    then have mem: "cls_lane_name l \<in> cls_lane_name ` set (order_by cls_lane_name (st_lanes s))"
      by (auto simp: lanes_abs_def)
    then have "find_key cls_lane_name (cls_lane_name l) (st_lanes s) \<noteq> None"
      by (simp add: find_key_None)
    with wf have "order_by cls_lane_name (upsert cls_lane_name l (st_lanes s)) =
        map (\<lambda>x. if cls_lane_name x = cls_lane_name l then l else x) (order_by cls_lane_name (st_lanes s))"
      by (intro lane_table.rows_put) (simp_all add: control_wf_def)
    then have "order_by cls_lane_name (st_lanes t) =
        upsert cls_lane_name l (order_by cls_lane_name (st_lanes s))"
      using upsert_present [OF mem refl] by (simp add: t)
    then have "lanes_abs t = upsert ln_name (lane_abs l) (lanes_abs s)"
      by (simp add: lanes_abs_def map_upsert [of ln_name lane_abs cls_lane_name])
    then show "control_abs t = c_put (lane_abs l) (control_abs s)"
      by (simp add: c_put_def control_abs_def system_row_def t split: option.split)
  qed
qed

lemma implements_update_system [impl_rules]:
  "implements (update_control_system_state y) (\<lambda>ck c a c'. css_id y = ''system'' \<longrightarrow>
     c' = c\<lparr>ct_global := css_global_state y, ct_master := css_master_switch y,
            ct_reason := css_freeze_reason y\<rparr>)"
proof (rule implementsI)
  fix s r t
  assume "control_wf s" and "update_control_system_state y s = (r, t)"
  then show "control_wf t" "st_clock t = st_clock s"
    by (auto simp: update_control_system_state_def control_wf_def system_row_def find_key_upsert)
next
  fix s a t
  assume "update_control_system_state y s = (Inr a, t)"
  then have t: "t = s\<lparr>st_system := upsert css_id y (st_system s)\<rparr>"
    by (simp add: update_control_system_state_def)
  show "css_id y = ''system'' \<longrightarrow> control_abs t = (control_abs s)\<lparr>ct_global := css_global_state y,
      ct_master := css_master_switch y, ct_reason := css_freeze_reason y\<rparr>"
    by (simp add: t control_abs_def system_row_def lanes_abs_def find_key_upsert split: option.split)
qed

subsection \<open>Loops over the lanes\<close>

definition lane_names :: "control \<Rightarrow> string set" where
  "lane_names c = ln_name ` set (ct_lanes c)"

lemma lane_names_put [simp]: "ln_name l \<in> lane_names c \<Longrightarrow> lane_names (c_put l c) = lane_names c"
  by (auto simp: lane_names_def c_put_def keys_upsert)

lemma c_put_sel [simp]:
  "ct_global (c_put l c) = ct_global c" "ct_master (c_put l c) = ct_master c"
  "ct_reason (c_put l c) = ct_reason c"
  by (simp_all add: c_put_def)

lemma implements_lane_loop:
  assumes body: "\<And>x. implements (body x) (\<lambda>ck c a c'. cls_lane_name x \<in> lane_names c \<longrightarrow>
      c' = (if p (lane_abs x) then c_put (g (ct_master c) (lane_abs x)) c else c))"
    and g: "\<And>b l. ln_name (g b l) = ln_name l"
  shows "implements (for_each xs body) (\<lambda>ck c a c'. cls_lane_name ` set xs \<subseteq> lane_names c \<longrightarrow>
      c' = c\<lparr>ct_lanes := abs_table.put_all p (g (ct_master c)) (map lane_abs xs) (ct_lanes c)\<rparr>)"
proof (induction xs)
  case Nil
  show ?case unfolding for_each.simps
    by (rule implements_weaken [OF implements_ret]) simp
next
  case (Cons x xs)
  show ?case unfolding for_each.simps
  proof (rule implements_bnd' [OF body [of x] Cons], intro impI)
    fix ck c a c' b c''
    assume first: "cls_lane_name x \<in> lane_names c \<longrightarrow>
        c' = (if p (lane_abs x) then c_put (g (ct_master c) (lane_abs x)) c else c)"
      and rest: "cls_lane_name ` set xs \<subseteq> lane_names c' \<longrightarrow>
        c'' = c'\<lparr>ct_lanes := abs_table.put_all p (g (ct_master c')) (map lane_abs xs) (ct_lanes c')\<rparr>"
      and sub: "cls_lane_name ` set (x # xs) \<subseteq> lane_names c"
    then have c': "c' = (if p (lane_abs x) then c_put (g (ct_master c) (lane_abs x)) c else c)"
      by simp
    with sub g have "lane_names c' = lane_names c" by simp
    with rest sub have "c'' = c'\<lparr>ct_lanes :=
        abs_table.put_all p (g (ct_master c')) (map lane_abs xs) (ct_lanes c')\<rparr>" by simp
    then show "c'' = c\<lparr>ct_lanes :=
        abs_table.put_all p (g (ct_master c)) (map lane_abs (x # xs)) (ct_lanes c)\<rparr>"
      by (simp add: c' c_put_def)
  qed
qed

text \<open>The whole loop, over the listing it starts with.\<close>

lemma implements_all_lanes:
  assumes body: "\<And>x. implements (body x) (\<lambda>ck c a c'. cls_lane_name x \<in> lane_names c \<longrightarrow>
      c' = (if p (lane_abs x) then c_put (g (ct_master c) (lane_abs x)) c else c))"
    and g: "\<And>b l. ln_name (g b l) = ln_name l"
  shows "implements (bnd list_control_lane_states (\<lambda>lanes. for_each lanes body)) (\<lambda>ck c a c'.
    c' = c\<lparr>ct_lanes := map (\<lambda>l. if p l then g (ct_master c) l else l) (ct_lanes c)\<rparr>)"
proof (rule implements_bnd' [OF implements_list_lanes implements_lane_loop [OF body g]])
  fix ck c ls c' b c''
  assume wf: "c_wf c" and R: "c' = c \<and> map lane_abs ls = ct_lanes c"
    and Q: "cls_lane_name ` set ls \<subseteq> lane_names c' \<longrightarrow>
      c'' = c'\<lparr>ct_lanes := abs_table.put_all p (g (ct_master c')) (map lane_abs ls) (ct_lanes c')\<rparr>"
  from R have "cls_lane_name ` set ls = lane_names c"
    unfolding lane_names_def by (simp flip: R [THEN conjunct2] add: image_image)
  with R Q have "c'' = c\<lparr>ct_lanes :=
      abs_table.put_all p (g (ct_master c)) (ct_lanes c) (ct_lanes c)\<rparr>" by simp
  then show "c'' = c\<lparr>ct_lanes := map (\<lambda>l. if p l then g (ct_master c) l else l) (ct_lanes c)\<rparr>"
    using wf by (simp add: abs_table.rows_put_rows [OF g] c_wf_def)
qed

lemma implements_put_lane [impl_rules]:
  "implements (put_lane l st r u) (\<lambda>ck c a c'. cls_lane_name l \<in> lane_names c \<longrightarrow>
     c' = c_put (lane_abs (l\<lparr>cls_state := st, cls_reason := r, cls_cooldown_until := u\<rparr>)) c)"
  unfolding put_lane_def
  by (rule implements_bnd' [OF implements_now implements_update_lane])
     (simp add: lane_names_def lane_abs_def)

lemma implements_set_active [impl_rules]:
  "implements (set_active_lanes st reason) (\<lambda>ck c a c'. c' = c_set_lanes st reason c)"
proof -
  let ?body = "\<lambda>lane. if cls_state lane = LS_DISABLED then ret () else put_lane lane st (Some reason) None"
  have "implements (?body x) (\<lambda>ck c a c'. cls_lane_name x \<in> lane_names c \<longrightarrow>
      c' = (if active (lane_abs x) then c_put ((\<lambda>_ l. l\<lparr>ln_state := st, ln_reason := Some reason,
        ln_until := None\<rparr>) (ct_master c) (lane_abs x)) c else c))" for x
    by (rule implements_weaken [OF implements_if [OF implements_ret implements_put_lane]])
       (auto simp: active_def lane_abs_def)
  from implements_all_lanes [OF this]
  show ?thesis by (simp add: set_active_lanes_def c_set_lanes_def)
qed

subsection \<open>Settling the system state\<close>

lemma implements_expire_at [impl_rules]:
  "implements (expire_at p now) (\<lambda>ck c a c'. c' = c_expire now c)"
proof -
  let ?body = "\<lambda>now lane. case cls_cooldown_until lane of None \<Rightarrow> ret ()
       | Some until \<Rightarrow> if cls_state lane \<noteq> LS_COOLDOWN then ret ()
           else when_do (until \<le> now) (bnd get_control_system_state (\<lambda>system.
             bnd (update_control_lane_state
               (lane\<lparr>cls_state := resumed_state (css_master_switch system),
                     cls_reason := Some ''cooldown_expired'', cls_cooldown_until := None,
                     cls_updated_at := now\<rparr>)) (\<lambda>_.
             record_event p ''lane_resumed'' ''lane'' (cls_lane_name lane)
               [(''reason'', PStr ''cooldown_expired''),
                (''state'', PStr (ControlLaneStateValue_value
                   (resumed_state (css_master_switch system))))])))"
  have act: "implements (bnd get_control_system_state (\<lambda>system.
             bnd (update_control_lane_state
               (x\<lparr>cls_state := resumed_state (css_master_switch system),
                     cls_reason := Some ''cooldown_expired'', cls_cooldown_until := None,
                     cls_updated_at := now\<rparr>)) (\<lambda>_.
             record_event p ''lane_resumed'' ''lane'' (cls_lane_name x)
               [(''reason'', PStr ''cooldown_expired''),
                (''state'', PStr (ControlLaneStateValue_value
                   (resumed_state (css_master_switch system))))])))
      (\<lambda>ck c a c'. cls_lane_name x \<in> lane_names c \<longrightarrow>
         c' = c_put (resume_expired (ct_master c) (lane_abs x)) c)" for x now
    by (rule implements_bnd' [OF implements_get_system
          implements_bnd [OF implements_update_lane implements_record_event]])
       (auto simp: same_def lane_names_def resume_expired_def lane_abs_def)
  have body: "implements (?body now x) (\<lambda>ck c a c'. cls_lane_name x \<in> lane_names c \<longrightarrow>
      c' = (if expired now (lane_abs x) then c_put (resume_expired (ct_master c) (lane_abs x)) c
            else c))" for now x
  proof (cases "expired now (lane_abs x)")
    case True
    then obtain u where "cls_cooldown_until x = Some u" "cls_state x = LS_COOLDOWN" "u \<le> now"
      by (auto simp: expired_def split: option.splits)
    then show ?thesis using act True by simp
  next
    case False
    then have "?body now x = ret ()"
      by (auto simp: expired_def when_do_def split: option.splits)
    with False show ?thesis
      by (simp del: not_None_eq) (rule implements_weaken [OF implements_ret], simp)
  qed
  show ?thesis unfolding expire_at_def
    by (rule implements_weaken [OF implements_all_lanes [OF body]])
       (auto simp: resume_expired_def c_expire_def)
qed

lemma implements_expire [impl_rules]:
  "implements (expire_cooldowns p) (\<lambda>ck c a c'. \<exists>now\<in>range ck. c' = c_expire now c)"
  unfolding expire_cooldowns_def
  by (rule implements_bnd' [OF implements_now implements_expire_at]) auto

lemma find_map: "List.find p (map f xs) = map_option f (List.find (p \<circ> f) xs)"
  by (induction xs) auto

lemma expected_state_abs:
  assumes "map lane_abs lanes = ct_lanes c" and "css_master_switch y = ct_master c"
    and "css_freeze_reason y = ct_reason c" and "css_global_state y = ct_global c"
    and "ct_global c \<noteq> GS_FROZEN"
  shows "c_reconcile c = c\<lparr>ct_global := fst (expected_state y lanes),
    ct_reason := snd (expected_state y lanes)\<rparr>"
proof -
  have deg: "degraded (lane_abs l) = degraded_lane l" for l
    by (simp add: degraded_def degraded_lane_def)
  have find: "List.find degraded_lane (filter (\<lambda>l. cls_state l \<noteq> LS_DISABLED) ls) =
      List.find degraded_lane ls" for ls
    by (induction ls) (auto simp: degraded_lane_def)
  have ex: "list_ex degraded_lane (filter (\<lambda>l. cls_state l \<noteq> LS_DISABLED) ls) \<longleftrightarrow>
      List.find degraded_lane ls \<noteq> None" for ls
    by (induction ls) (auto simp: degraded_lane_def)
  have "List.find degraded (ct_lanes c) = map_option lane_abs (List.find degraded_lane lanes)"
    by (simp flip: assms(1) add: find_map comp_def deg)
  then show ?thesis
    using assms(2-5) unfolding c_reconcile_def expected_state_def Let_def
    by (auto simp: ex find split: option.splits)
qed

lemma implements_reconcile [impl_rules]:
  "implements reconcile_system_state (\<lambda>ck c y c'. c' = c_reconcile c
     \<and> css_id y = ''system'' \<and> css_global_state y = ct_global c' \<and> css_master_switch y = ct_master c'
     \<and> css_freeze_reason y = ct_reason c')"
proof -
  let ?upd = "\<lambda>y e r. bnd utc_now (\<lambda>now.
      let updated = y\<lparr>css_global_state := e, css_freeze_reason := r, css_updated_at := now\<rparr>
      in bnd (update_control_system_state updated) (\<lambda>_. ret updated))"
  have upd: "implements (?upd y e r) (\<lambda>ck c z c'. css_id y = ''system'' \<longrightarrow>
      css_master_switch y = ct_master c \<longrightarrow> c' = c\<lparr>ct_global := e, ct_reason := r\<rparr>
      \<and> css_id z = ''system'' \<and> css_global_state z = e \<and> css_master_switch z = ct_master c
      \<and> css_freeze_reason z = r)" for y e r
    unfolding Let_def
    by (rule implements_bnd' [OF implements_now implements_bnd [OF implements_update_system implements_ret]])
       auto
  have branch: "implements (case expected_state y lanes of (e, r) \<Rightarrow>
        if css_global_state y = e \<and> css_freeze_reason y = r then ret y else ?upd y e r)
      (\<lambda>ck c z c'. css_id y = ''system'' \<and> css_global_state y = ct_global c
         \<and> css_master_switch y = ct_master c \<and> css_freeze_reason y = ct_reason c
         \<and> map lane_abs lanes = ct_lanes c \<and> ct_global c \<noteq> GS_FROZEN \<longrightarrow>
         c' = c_reconcile c \<and> css_id z = ''system'' \<and> css_global_state z = ct_global c'
         \<and> css_master_switch z = ct_master c' \<and> css_freeze_reason z = ct_reason c')" for y lanes
    unfolding case_prod_beta
    by (rule implements_weaken [OF implements_if [OF implements_ret upd]])
       (auto simp: expected_state_abs [of lanes _ y] split: if_splits)
  have lanes: "implements (bnd list_control_lane_states (\<lambda>lanes. case expected_state y lanes of (e, r) \<Rightarrow>
        if css_global_state y = e \<and> css_freeze_reason y = r then ret y else ?upd y e r))
      (\<lambda>ck c z c'. css_id y = ''system'' \<and> css_global_state y = ct_global c
         \<and> css_master_switch y = ct_master c \<and> css_freeze_reason y = ct_reason c
         \<and> ct_global c \<noteq> GS_FROZEN \<longrightarrow>
         c' = c_reconcile c \<and> css_id z = ''system'' \<and> css_global_state z = ct_global c'
         \<and> css_master_switch z = ct_master c' \<and> css_freeze_reason z = ct_reason c')" for y
    by (rule implements_bnd' [OF implements_list_lanes branch]) auto
  show ?thesis unfolding reconcile_system_state_def
    by (rule implements_bnd' [OF implements_get_system implements_if [OF implements_ret lanes]])
       (auto simp: c_reconcile_def split: if_splits)
qed

text \<open>What the returned dictionary shows of the abstract state.\<close>

definition shows_control :: "control_status \<Rightarrow> control \<Rightarrow> bool" where
  "shows_control st c \<longleftrightarrow> cst_global_state st = GlobalSystemState_value (ct_global c)
     \<and> cst_master_switch st = ct_master c
     \<and> cst_frozen_reason st = ct_reason c
     \<and> cst_lanes st = map (\<lambda>l. (ln_name l, ControlLaneStateValue_value (ln_state l))) (ct_lanes c)
     \<and> cst_latest_failure_class st =
         (case List.find degraded (ct_lanes c) of None \<Rightarrow> None | Some l \<Rightarrow> ln_reason l)"

lemma dict_set_new: "k \<notin> fst ` set d \<Longrightarrow> dict_set k v d = d @ [(k, v)]"
  by (induction d) auto

lemma fold_dict_set:
  "distinct (map k xs) \<Longrightarrow> k ` set xs \<inter> fst ` set d = {} \<Longrightarrow>
   fold (\<lambda>x d. dict_set (k x) (v x) d) xs d = d @ map (\<lambda>x. (k x, v x)) xs"
proof (induction xs arbitrary: d)
  case Nil
  then show ?case by simp
next
  case (Cons x xs)
  then have "k x \<notin> fst ` set d" and "k x \<notin> k ` set xs" by auto
  with Cons show ?case by (auto simp: dict_set_new)
qed

lemma find_degraded_abs:
  assumes "map lane_abs ls = ct_lanes c"
  shows "List.find degraded (ct_lanes c) = map_option lane_abs (List.find degraded_lane ls)"
proof -
  have "degraded \<circ> lane_abs = degraded_lane"
    by (simp add: fun_eq_iff degraded_def degraded_lane_def)
  then show ?thesis by (simp flip: assms add: find_map)
qed

lemma implements_dict [impl_rules]:
  "implements status_dict (\<lambda>ck c st c'. c' = c_reconcile c \<and> shows_control st c')"
proof -
  have lanes: "fold (\<lambda>l d. dict_set (cls_lane_name l) (ControlLaneStateValue_value (cls_state l)) d) ls [] =
      map (\<lambda>l. (ln_name l, ControlLaneStateValue_value (ln_state l))) (ct_lanes c)"
    if "c_wf c" and "map lane_abs ls = ct_lanes c" for ls c
  proof -
    have "map cls_lane_name ls = map ln_name (ct_lanes c)"
      by (simp flip: that(2))
    with that(1) have "distinct (map cls_lane_name ls)"
      by (simp add: c_wf_def keyed_def)
    then show ?thesis by (simp add: fold_dict_set flip: that(2))
  qed
  show ?thesis unfolding status_dict_def
    by (rule implements_weaken [OF implements_bnd [OF implements_reconcile
          implements_bnd [OF implements_list_lanes implements_bnd [OF implements_leases
          implements_bnd [OF implements_merge implements_ret]]]]])
       (auto simp: same_def shows_control_def lanes find_degraded_abs
         split: option.split)
qed

lemma implements_status [impl_rules]:
  "implements (plane_status p)
     (\<lambda>ck c st c'. (\<exists>now\<in>range ck. c' = c_status now c) \<and> shows_control st c')"
  unfolding plane_status_def
  by (rule implements_bnd' [OF implements_expire implements_dict]) (auto simp: c_status_def)

lemma c_reconcile_fix:
  "ct_global c = GS_DEGRADED \<Longrightarrow> c_reconcile (c_expire t (c\<lparr>ct_reason := r\<rparr>)) = c_reconcile (c_expire t c)"
  by (cases c) (simp add: c_reconcile_def c_expire_def cong: if_cong split: option.split)

text \<open>The reason handed to \<open>_sync_global_state\<close> has no effect: the closing \<open>status\<close> settles
  the system row again and writes the reason of the first degraded lane.\<close>

lemma implements_sync [impl_rules]:
  "implements (sync_global_state p reason)
     (\<lambda>ck c st c'. (\<exists>t1\<in>range ck. \<exists>t2\<in>range ck. c' = c_sync t1 t2 c) \<and> shows_control st c')"
proof -
  have amend: "implements (if css_global_state y = GS_DEGRADED \<and> css_freeze_reason y \<noteq> Some reason
          then bnd utc_now (\<lambda>now. update_control_system_state
                 (y\<lparr>css_freeze_reason := Some reason, css_updated_at := now\<rparr>))
          else ret ())
      (\<lambda>ck c a c'. css_id y = ''system'' \<and> css_global_state y = ct_global c
         \<and> css_master_switch y = ct_master c \<and> css_freeze_reason y = ct_reason c \<longrightarrow>
         c' = c \<or> ct_global c = GS_DEGRADED \<and> c' = c\<lparr>ct_reason := Some reason\<rparr>)" for y
    by (rule implements_weaken [OF implements_if
          [OF implements_bnd [OF implements_now implements_update_system] implements_ret]])
       (auto split: if_splits)
  show ?thesis unfolding sync_global_state_def
  proof (rule implements_weaken [OF implements_bnd [OF implements_expire
          implements_bnd [OF implements_reconcile implements_bnd [OF amend implements_status]]]], elim exE conjE)
    fix ck c st c' a c1 y c2 b c3
    assume 1: "\<exists>now\<in>range ck. c1 = c_expire now c" and 2: "c2 = c_reconcile c1"
      and "css_id y = ''system''" "css_global_state y = ct_global c2"
      "css_master_switch y = ct_master c2" "css_freeze_reason y = ct_reason c2"
      and "css_id y = ''system'' \<and> css_global_state y = ct_global c2
         \<and> css_master_switch y = ct_master c2 \<and> css_freeze_reason y = ct_reason c2 \<longrightarrow>
         c3 = c2 \<or> ct_global c2 = GS_DEGRADED \<and> c3 = c2\<lparr>ct_reason := Some reason\<rparr>"
      and 4: "\<exists>now\<in>range ck. c' = c_status now c3" and st: "shows_control st c'"
    then have 3: "c3 = c2 \<or> ct_global c2 = GS_DEGRADED \<and> c3 = c2\<lparr>ct_reason := Some reason\<rparr>"
      by simp
    from 1 2 obtain t1 where t1: "t1 \<in> range ck" "c2 = c_status t1 c"
      by (auto simp: c_status_def)
    from 4 obtain t2 where t2: "t2 \<in> range ck" "c' = c_status t2 c3" by blast
    from 3 have "c_status t2 c3 = c_status t2 c2"
      unfolding c_status_def by (auto simp: c_reconcile_fix)
    with t1 t2 st show "(\<exists>t1\<in>range ck. \<exists>t2\<in>range ck. c' = c_sync t1 t2 c) \<and> shows_control st c'"
      unfolding c_sync_def by metis
  qed
qed

lemma implements_put_system [impl_rules]:
  assumes "\<And>y. css_id (f y) = css_id y"
  shows "implements (put_system f y) (\<lambda>ck c z c'. css_id y = ''system'' \<longrightarrow>
     c' = c\<lparr>ct_global := css_global_state (f y), ct_master := css_master_switch (f y),
            ct_reason := css_freeze_reason (f y)\<rparr>)"
  unfolding put_system_def Let_def
  by (rule implements_weaken [OF implements_bnd [OF implements_now
        implements_bnd [OF implements_update_system implements_ret]]]) (auto simp: assms)

lemma implements_require_lane [impl_rules]:
  "implements (require_lane n) (\<lambda>ck c l c'. c' = c \<and> cls_lane_name l = n \<and> n \<in> lane_names c)"
proof (rule implementsI)
  show "control_wf t" and "st_clock t = st_clock s"
    if "control_wf s" and "require_lane n s = (r, t)" for s r t
    using that by (auto simp: require_lane_def get_control_lane_state_def prog_simps split: option.splits)
  show "control_abs t = control_abs s \<and> cls_lane_name l = n \<and> n \<in> lane_names (control_abs s)"
    if "require_lane n s = (Inr l, t)" for s l t
  proof -
    from that have "t = s" and "find_key cls_lane_name n (st_lanes s) = Some l"
      by (auto simp: require_lane_def get_control_lane_state_def prog_simps split: option.splits)
    then show ?thesis
      by (auto simp: lane_names_def lanes_abs_def image_image dest: find_key_Some)
  qed
qed

subsection \<open>Every call refines its function\<close>

text \<open>The relation of a whole call: the new state is the function's value at some readings of
  the clock, and the returned dictionary shows it. A call that returns has met its guards.\<close>

definition call_spec ::
  "control_call \<Rightarrow> (nat \<Rightarrow> time) \<Rightarrow> control \<Rightarrow> control_status \<Rightarrow> control \<Rightarrow> bool" where
  "call_spec call ck c st c' \<longleftrightarrow>
     (\<exists>t0\<in>range ck. \<exists>t1\<in>range ck. \<exists>t2\<in>range ck. c' = c_call t0 t1 t2 call c) \<and> shows_control st c'"

fun c_allowed :: "control_call \<Rightarrow> control \<Rightarrow> bool" where
  "c_allowed (PauseLane n r) c \<longleftrightarrow> n \<in> lane_names c"
| "c_allowed (ResumeLane n r) c \<longleftrightarrow> ct_global c \<noteq> GS_FROZEN \<and> n \<in> lane_names c"
| "c_allowed (EnterCooldown n r k) c \<longleftrightarrow> n \<in> lane_names c"
| "c_allowed _ c \<longleftrightarrow> True"

text \<open>The two ways a call ends, as relations of their own.\<close>

definition ends_sync :: "(nat \<Rightarrow> time) \<Rightarrow> control \<Rightarrow> control_status \<Rightarrow> control \<Rightarrow> bool" where
  "ends_sync ck c st c' \<longleftrightarrow> (\<exists>t1\<in>range ck. \<exists>t2\<in>range ck. c' = c_sync t1 t2 c) \<and> shows_control st c'"

definition ends_status :: "(nat \<Rightarrow> time) \<Rightarrow> control \<Rightarrow> control_status \<Rightarrow> control \<Rightarrow> bool" where
  "ends_status ck c st c' \<longleftrightarrow> (\<exists>now\<in>range ck. c' = c_status now c) \<and> shows_control st c'"

lemma call_spec_sync:
  assumes "ends_sync ck d st c'" and "\<And>t1 t2. c_call t0 t1 t2 call c = c_sync t1 t2 d"
    and "t0 \<in> range ck"
  shows "call_spec call ck c st c'"
  using assms unfolding call_spec_def ends_sync_def by metis

lemma call_spec_sync_any:
  assumes "ends_sync ck d st c'" and "\<And>t0 t1 t2. c_call t0 t1 t2 call c = c_sync t1 t2 d"
  shows "call_spec call ck c st c'"
  using assms by (blast intro: call_spec_sync)

lemma call_spec_status:
  assumes "ends_status ck d st c'" and "\<And>t0 t1 t2. c_call t0 t1 t2 call c = c_status t2 d"
  shows "call_spec call ck c st c'"
  using assms unfolding call_spec_def ends_status_def by metis

definition call_ok ::
  "control_call \<Rightarrow> (nat \<Rightarrow> time) \<Rightarrow> control \<Rightarrow> control_status \<Rightarrow> control \<Rightarrow> bool" where
  "call_ok call ck c st c' \<longleftrightarrow> c_allowed call c \<and> call_spec call ck c st c'"

lemma master_same:
  "ct_master c = b \<Longrightarrow>
   c\<lparr>ct_global := g, ct_master := b, ct_reason := r\<rparr> = c\<lparr>ct_global := g, ct_reason := r\<rparr>"
  by (cases c) simp

lemmas ends = implements_sync [folded ends_sync_def] implements_status [folded ends_status_def]

lemmas impl_sync = ends(1)
lemmas impl_status = ends(2)

lemma refines_turn_on: "implements (turn_on p) (call_ok TurnOn)"
  unfolding turn_on_def
  by (rule implements_weaken [OF implements_bnd [OF implements_get_system
        implements_bnd [OF implements_put_system implements_bnd [OF implements_set_active
        implements_bnd [OF implements_record_event impl_sync]]]]])
     (auto simp: same_def call_ok_def elim: call_spec_sync_any)

lemma refines_turn_off: "implements (turn_off p) (call_ok TurnOff)"
  unfolding turn_off_def
  by (rule implements_weaken [OF implements_bnd [OF implements_get_system
        implements_bnd [OF implements_put_system implements_bnd [OF implements_set_active
        implements_bnd [OF implements_record_event impl_status]]]]])
     (auto simp: same_def call_ok_def elim: call_spec_status)

lemma refines_freeze: "implements (freeze p r) (call_ok (Freeze r))"
  unfolding freeze_def
  by (rule implements_weaken [OF implements_bnd [OF implements_get_system
        implements_bnd [OF implements_put_system implements_bnd [OF implements_set_active
        implements_bnd [OF implements_recovery
        implements_bnd [OF implements_record_event impl_status]]]]]])
     (auto simp: same_def call_ok_def master_same elim: call_spec_status)

lemma refines_mark_degraded: "implements (mark_degraded p r) (call_ok (MarkDegraded r))"
  unfolding mark_degraded_def
  by (rule implements_weaken [OF implements_bnd [OF implements_get_system
        implements_if [OF impl_status implements_bnd [OF implements_put_system
        implements_bnd [OF implements_record_event impl_sync]]]]])
     (auto simp: same_def call_ok_def master_same split: if_split_asm elim: call_spec_status call_spec_sync_any)

lemma refines_mark_healthy: "implements (mark_healthy p r) (call_ok (MarkHealthy r))"
  unfolding mark_healthy_def
  by (rule implements_weaken [OF implements_bnd [OF implements_get_system
        implements_if [OF impl_status implements_bnd [OF implements_record_event impl_sync]]]])
     (auto simp: same_def call_ok_def master_same split: if_split_asm elim: call_spec_status call_spec_sync_any)

lemma refines_thaw: "implements (thaw p) (call_ok Thaw)"
proof -
  have loop: "implements (when_do b (set_active_lanes LS_RUNNING ''thawed''))
      (\<lambda>ck c a c'. c' = (if b then c_set_lanes LS_RUNNING ''thawed'' c else c))" for b
    by (cases b) (auto intro: implements_weaken [OF implements_set_active] implements_weaken [OF implements_ret])
  show ?thesis unfolding thaw_def Let_def
    by (rule implements_weaken [OF implements_bnd [OF implements_get_system
          implements_bnd [OF implements_put_system implements_bnd [OF loop
          implements_bnd [OF implements_record_event impl_sync]]]]])
       (auto simp: same_def call_ok_def master_same split: if_split_asm elim: call_spec_sync_any)
qed

lemma lane_abs_replace:
  "lane_abs (l\<lparr>cls_state := st, cls_reason := Some r, cls_cooldown_until := u\<rparr>) =
   \<lparr>ln_name = cls_lane_name l, ln_state = st, ln_reason = Some r, ln_until = u\<rparr>"
  by (simp add: lane_abs_def)

lemma refines_pause: "implements (pause_lane p n r) (call_ok (PauseLane n r))"
  unfolding pause_lane_def
  by (rule implements_weaken [OF implements_bnd [OF implements_require_lane
        implements_bnd [OF implements_put_lane implements_bnd [OF implements_record_event impl_sync]]]])
     (auto simp: same_def call_ok_def lane_abs_replace c_lane_def elim: call_spec_sync_any)

lemma refines_resume: "implements (resume_lane p n r) (call_ok (ResumeLane n r))"
  unfolding resume_lane_def Let_def
  by (rule implements_weaken [OF implements_bnd [OF implements_get_system
        implements_if [OF implements_raise [of _ "\<lambda>_ _ _ _. False"] implements_bnd [OF implements_require_lane
        implements_bnd [OF implements_get_system implements_bnd [OF implements_put_lane
        implements_bnd [OF implements_record_event impl_sync]]]]]]])
     (auto simp: same_def call_ok_def lane_abs_replace c_lane_def elim: call_spec_sync_any)

lemma refines_enter_cooldown: "implements (enter_cooldown p n r k) (call_ok (EnterCooldown n r k))"
  unfolding enter_cooldown_def Let_def
  by (rule implements_weaken [OF implements_bnd [OF implements_require_lane
        implements_bnd [OF implements_now implements_bnd [OF implements_put_lane
        implements_bnd [OF implements_cooldown
        implements_bnd [OF implements_record_event impl_sync]]]]]])
     (auto simp: same_def call_ok_def lane_abs_replace c_lane_def elim: call_spec_sync)

lemma refines_escalation:
  "implements (record_human_escalation p r d) (call_ok (HumanEscalation r d))"
  unfolding record_human_escalation_def
  by (rule implements_weaken [OF implements_bnd [OF implements_recovery
        implements_bnd [OF implements_record_event impl_status]]])
     (auto simp: same_def call_ok_def elim: call_spec_status)

lemma refines_status: "implements (plane_status p) (call_ok Status)"
  by (rule implements_weaken [OF impl_status]) (auto simp: call_ok_def elim: call_spec_status)

lemmas refines_calls = refines_turn_on refines_turn_off refines_freeze refines_mark_degraded
  refines_mark_healthy refines_thaw refines_pause refines_resume refines_enter_cooldown
  refines_escalation refines_status

lemma refines_call: "implements (run_call p call) (call_ok call)"
  by (cases call) (simp_all add: refines_calls)

end
