(* ===== verification/Decimal.thy ===== *)
theory Decimal
  imports Py_Convert
begin

section \<open>Decimal numerals\<close>

text \<open>
  \<open>str(n)\<close> of an integer determines it and contains none of the separators the code joins it
  with, so that keys built from numbers are as distinct as the numbers.
\<close>

lemma digit_value: "n < 10 \<Longrightarrow> of_char (digit_char n) = 48 + n"
  by (simp add: digit_char_def)

lemma digit_inj: "m < 10 \<Longrightarrow> n < 10 \<Longrightarrow> digit_char m = digit_char n \<Longrightarrow> m = n"
  by (metis digit_value add_left_cancel)

lemma dec_nat_inj: "dec_nat m = dec_nat n \<Longrightarrow> m = n"
proof (induction m arbitrary: n rule: dec_nat.induct)
  case (1 m)
  have one: "length (dec_nat k) = 1 \<longleftrightarrow> k < 10" for k
    by (subst dec_nat.simps) (simp add: dec_nat_nonempty)
  show ?case
  proof (cases "m < 10")
    case True
    then have "n < 10" using one 1(2) by metis
    with True 1(2) show ?thesis by (simp add: dec_nat.simps [of m] dec_nat.simps [of n] digit_inj)
  next
    case False
    then have n: "\<not> n < 10" using one 1(2) by metis
    with False 1(2) have "dec_nat (m div 10) = dec_nat (n div 10)"
      and "digit_char (m mod 10) = digit_char (n mod 10)"
      by (simp_all add: dec_nat.simps [of m] dec_nat.simps [of n])
    with 1(1) [OF False] have "m div 10 = n div 10" and "m mod 10 = n mod 10"
      by (simp_all add: digit_inj)
    then show ?thesis by (metis div_mult_mod_eq)
  qed
qed

lemma dec_nat_digits: "c \<in> set (dec_nat n) \<Longrightarrow> \<exists>d<10. c = digit_char d"
proof (induction n rule: dec_nat.induct)
  case (1 n)
  have last: "\<exists>d<10. digit_char (n mod 10) = digit_char d"
    by (intro exI [of _ "n mod 10"]) simp
  show ?case
  proof (cases "n < 10")
    case True
    with 1(2) have "c = digit_char n" by (simp add: dec_nat.simps [of n])
    with True show ?thesis by blast
  next
    case False
    with 1(2) have "c \<in> set (dec_nat (n div 10)) \<or> c = digit_char (n mod 10)"
      by (auto simp: dec_nat.simps [of n])
    with 1(1) [OF False] last show ?thesis by blast
  qed
qed

lemma digit_not:
  assumes "d < 10"
  shows "digit_char d \<noteq> CHR '':''" "digit_char d \<noteq> CHR ''-''" "digit_char d \<noteq> CHR ''_''"
proof -
  have val: "of_char c = 48 + d" if "digit_char d = c" for c
    using digit_value [OF assms] that by simp
  show "digit_char d \<noteq> CHR '':''" using val [of "CHR '':''"] assms by auto
  show "digit_char d \<noteq> CHR ''-''" using val [of "CHR ''-''"] assms by auto
  show "digit_char d \<noteq> CHR ''_''" using val [of "CHR ''_''"] assms by auto
qed

lemma dec_nat_not:
  "CHR '':'' \<notin> set (dec_nat n)" "CHR ''-'' \<notin> set (dec_nat n)" "CHR ''_'' \<notin> set (dec_nat n)"
  using dec_nat_digits digit_not by metis+

lemma dec_int_no_colon: "CHR '':'' \<notin> set (dec_int i)"
  by (simp add: dec_int_def dec_nat_not)

lemma dec_int_inj: "dec_int i = dec_int j \<Longrightarrow> i = j"
proof (cases "i < 0"; cases "j < 0")
  have hd: "dec_nat n \<noteq> CHR ''-'' # xs" for n xs
    using dec_nat_not(2) [of n] by auto
  assume eq: "dec_int i = dec_int j"
  show ?thesis if "i < 0" "j < 0"
    using eq that by (auto simp: dec_int_def dest: dec_nat_inj)
  show ?thesis if "\<not> i < 0" "\<not> j < 0"
    using eq that dec_nat_inj [of "nat i" "nat j"] by (simp add: dec_int_def)
  show ?thesis if "i < 0" "\<not> j < 0"
    using eq that hd [of "nat j"] by (simp add: dec_int_def) metis
  show ?thesis if "\<not> i < 0" "j < 0"
    using eq that hd [of "nat i"] by (simp add: dec_int_def)
qed

text \<open>A key that ends in a separator and a text without it has only one such ending.\<close>

lemma suffix_unique:
  assumes "a @ c # x = b @ c # y" and "c \<notin> set x" and "c \<notin> set y"
  shows "x = y"
proof -
  have "takeWhile (\<lambda>d. d \<noteq> c) (rev (p @ c # z)) = rev z" if "c \<notin> set z" for p z
  proof -
    have "takeWhile (\<lambda>d. d \<noteq> c) (rev z @ c # rev p) = rev z @ takeWhile (\<lambda>d. d \<noteq> c) (c # rev p)"
      using that by (intro takeWhile_append2) auto
    then show ?thesis by simp
  qed
  with assms have "rev x = rev y" by metis
  then show ?thesis by simp
qed

end
