(* ===== verification/Control_Props.thy ===== *)
theory Control_Props
  imports Control_Refine Decimal "HOL-Library.Multiset"
begin

section \<open>The properties of the control plane\<close>

text \<open>
  Consequences of the refinement, first on the abstract state, then for the code: a call leaves
  the system row in agreement with the lanes, \<open>freeze\<close> stops the lanes and they stay stopped
  until the system is thawed or switched, and no call fails but for the two guards of the source
  as long as identifiers and instants do not repeat.
\<close>

subsection \<open>On the abstract state\<close>

definition settled :: "control \<Rightarrow> bool" where
  "settled c \<longleftrightarrow>
     (if ct_global c = GS_FROZEN then True
      else if \<not> ct_master c then ct_global c = GS_OFF \<and> ct_reason c = None
      else case List.find degraded (ct_lanes c) of
             Some l \<Rightarrow> ct_global c = GS_DEGRADED \<and> ct_reason c = ln_reason l
           | None \<Rightarrow> ct_global c = GS_HEALTHY \<and> ct_reason c = None)"

lemma settled_status: "settled (c_status t c)"
  by (simp add: settled_def c_status_def c_reconcile_def split: option.split)

lemma settled_call: "settled (c_call t0 t1 t2 call c)"
  by (cases call) (simp_all add: settled_status c_sync_def)

lemma c_status_sel [simp]:
  "ct_master (c_status t c) = ct_master c"
  "ct_lanes (c_status t c) = map (\<lambda>l. if expired t l then resume_expired (ct_master c) l else l) (ct_lanes c)"
  "ct_global (c_status t c) = GS_FROZEN \<longleftrightarrow> ct_global c = GS_FROZEN"
  by (simp_all add: c_status_def c_reconcile_def c_expire_def split: option.split)

lemma c_status_frozen_reason: "ct_global c = GS_FROZEN \<Longrightarrow> ct_reason (c_status t c) = ct_reason c"
  by (simp add: c_status_def c_reconcile_def c_expire_def)

lemma c_set_lanes_sel [simp]:
  "ct_master (c_set_lanes st r c) = ct_master c" "ct_global (c_set_lanes st r c) = ct_global c"
  "ct_reason (c_set_lanes st r c) = ct_reason c"
  by (simp_all add: c_set_lanes_def)

lemma find_degraded_None: "List.find degraded ls = None \<longleftrightarrow> (\<forall>l\<in>set ls. \<not> degraded l)"
  by (auto simp: find_None_iff)

text \<open>Lanes none of which is in cooldown are not touched by expiry.\<close>

lemma map_no_cooldown:
  "\<forall>l\<in>set ls. ln_state l \<noteq> LS_COOLDOWN \<Longrightarrow>
   map (\<lambda>l. if expired t l then resume_expired b l else l) ls = ls"
  by (rule map_idI) (auto simp: expired_def)

definition stopped :: "control \<Rightarrow> bool" where
  "stopped c \<longleftrightarrow> (\<forall>l\<in>set (ct_lanes c). ln_state l = LS_PAUSED \<or> ln_state l = LS_DISABLED)"

lemma stopped_set: "stopped (c_set_lanes LS_PAUSED r c)"
  by (auto simp: stopped_def c_set_lanes_def active_def)

lemma stopped_status: "stopped c \<Longrightarrow> ct_lanes (c_status t c) = ct_lanes c"
  using map_no_cooldown [of "ct_lanes c"] by (fastforce simp: stopped_def)

definition running :: "control \<Rightarrow> bool" where
  "running c \<longleftrightarrow> (\<forall>l\<in>set (ct_lanes c). ln_state l = LS_RUNNING \<or> ln_state l = LS_DISABLED)"

lemma running_set: "running (c_set_lanes LS_RUNNING r c)"
  by (auto simp: running_def c_set_lanes_def active_def)

lemma running_status:
  assumes "running c" and "ct_master c" and "ct_global c \<noteq> GS_FROZEN"
  shows "c_status t c = c\<lparr>ct_global := GS_HEALTHY, ct_reason := None\<rparr>"
proof -
  have "c_expire t c = c"
    using assms(1) map_no_cooldown [of "ct_lanes c" t "ct_master c"]
    by (cases c) (fastforce simp: c_expire_def running_def)
  moreover have "List.find degraded (ct_lanes c) = None"
    using assms(1) by (fastforce simp: find_degraded_None degraded_def running_def)
  ultimately show ?thesis using assms(2,3) by (simp add: c_status_def c_reconcile_def)
qed

lemma turn_on_abs:
  "c_call t0 t1 t2 TurnOn c = (c_set_lanes LS_RUNNING ''system_on'' c)
     \<lparr>ct_global := GS_HEALTHY, ct_master := True, ct_reason := None\<rparr>"
proof -
  let ?d = "c_set_lanes LS_RUNNING ''system_on''
    (c\<lparr>ct_global := GS_STARTING, ct_master := True, ct_reason := None\<rparr>)"
  have "c_status t1 ?d = ?d\<lparr>ct_global := GS_HEALTHY, ct_reason := None\<rparr>"
    by (rule running_status) (simp_all add: running_set)
  moreover have "c_status t2 (?d\<lparr>ct_global := GS_HEALTHY, ct_reason := None\<rparr>) =
      ?d\<lparr>ct_global := GS_HEALTHY, ct_reason := None\<rparr>"
    using running_set [of "''system_on''"]
    by (subst running_status) (simp_all add: running_def)
  ultimately show ?thesis by (cases c) (simp add: c_sync_def c_set_lanes_def)
qed

lemma freeze_abs:
  "c_call t0 t1 t2 (Freeze r) c =
     (c_set_lanes LS_PAUSED ''frozen'' c)\<lparr>ct_global := GS_FROZEN, ct_reason := Some r\<rparr>"
proof -
  have "c_expire t2 d = d" if "stopped d" for d
    using that map_no_cooldown [of "ct_lanes d" t2 "ct_master d"]
    by (cases d) (fastforce simp: c_expire_def stopped_def)
  then show ?thesis
    by (cases c) (simp add: c_status_def c_reconcile_def stopped_set, simp add: c_set_lanes_def)
qed

lemma mark_degraded_abs:
  assumes "ct_global c \<noteq> GS_FROZEN" and "ct_master c" and "running c"
  shows "c_call t0 t1 t2 (MarkDegraded r) c = c\<lparr>ct_global := GS_HEALTHY, ct_reason := None\<rparr>"
proof -
  have "c_status t1 (c\<lparr>ct_global := GS_DEGRADED, ct_reason := Some r\<rparr>) =
      c\<lparr>ct_global := GS_HEALTHY, ct_reason := None\<rparr>"
    using assms by (subst running_status) (simp_all add: running_def)
  moreover have "c_status t2 (c\<lparr>ct_global := GS_HEALTHY, ct_reason := None\<rparr>) =
      c\<lparr>ct_global := GS_HEALTHY, ct_reason := None\<rparr>"
    using assms by (subst running_status) (simp_all add: running_def)
  ultimately show ?thesis using assms(1) by (simp add: c_sync_def)
qed

subsection \<open>A frozen plane stays stopped\<close>

definition frozen_stopped :: "store \<Rightarrow> bool" where
  "frozen_stopped s \<longleftrightarrow> control_wf s \<and> ct_global (control_abs s) = GS_FROZEN \<and> stopped (control_abs s)"

text \<open>The calls that may start a lane again.\<close>

fun restarts :: "control_call \<Rightarrow> bool" where
  "restarts TurnOn \<longleftrightarrow> True"
| "restarts TurnOff \<longleftrightarrow> True"
| "restarts Thaw \<longleftrightarrow> True"
| "restarts (EnterCooldown n r k) \<longleftrightarrow> True"
| "restarts _ \<longleftrightarrow> False"

lemma preserves_view: "keeps control_view m \<Longrightarrow> preserves frozen_stopped m"
  unfolding preserves_def frozen_stopped_def
  by (metis keepsD view_abs(1) view_abs(2))

lemma frozen_stopped_iff:
  "frozen_stopped s \<longleftrightarrow> keyed cls_lane_name (st_lanes s)
     \<and> (\<exists>c. system_row s = Some c \<and> css_global_state c = GS_FROZEN)
     \<and> (\<forall>l\<in>set (st_lanes s). cls_state l = LS_PAUSED \<or> cls_state l = LS_DISABLED)"
proof -
  have "stopped (control_abs s) \<longleftrightarrow>
      (\<forall>l\<in>set (st_lanes s). cls_state l = LS_PAUSED \<or> cls_state l = LS_DISABLED)"
    by (simp add: stopped_def lanes_abs_def)
  then show ?thesis
    by (auto simp: frozen_stopped_def control_wf_def control_abs_def)
qed

lemma preserves_put_paused [preserve_rules]:
  "preserves frozen_stopped (put_lane l LS_PAUSED r u)"
  unfolding put_lane_def update_control_lane_state_def
  by (intro preserves_bnd preserves_view keeps_utc_now preserves_writes)
     (auto simp: frozen_stopped_iff keyed_upsert system_row_def dest: upsert_cases)

lemma preserves_put_system [preserve_rules]:
  "(\<And>y. css_global_state (f y) = GS_FROZEN) \<Longrightarrow> preserves frozen_stopped (put_system f y)"
  unfolding put_system_def update_control_system_state_def Let_def
  by (intro preserves_bnd preserves_view keeps_utc_now preserves_writes preserves_ret)
     (auto simp: frozen_stopped_iff system_row_def find_key_upsert)

lemma for_each_ret: "(\<And>x. x \<in> set xs \<Longrightarrow> body x = ret ()) \<Longrightarrow> for_each xs body = ret ()"
  by (induction xs) auto

lemma frozen_lanes:
  assumes "frozen_stopped s" and "l \<in> set (st_lanes s)"
  shows "cls_state l \<noteq> LS_COOLDOWN"
  using assms by (auto simp: frozen_stopped_def stopped_def lanes_abs_def)

lemma frozen_expire:
  assumes "frozen_stopped s"
  shows "expire_cooldowns p s = (Inr (), s\<lparr>st_ticks := Suc (st_ticks s)\<rparr>)"
proof -
  have "for_each (order_by cls_lane_name (st_lanes s)) (\<lambda>lane.
      case cls_cooldown_until lane of None \<Rightarrow> ret ()
      | Some until \<Rightarrow> if cls_state lane \<noteq> LS_COOLDOWN then ret () else k lane until) = ret ()"
    for k :: "ControlLaneState \<Rightarrow> time \<Rightarrow> unit op"
    using frozen_lanes [OF assms] by (intro for_each_ret) (auto split: option.split)
  then show ?thesis
    by (simp add: expire_cooldowns_def expire_at_def utc_now_def bnd_run list_control_lane_states_run prog_simps)
qed

lemma frozen_reconcile:
  assumes "frozen_stopped s"
  shows "\<exists>c. reconcile_system_state s = (Inr c, s) \<and> css_global_state c = GS_FROZEN"
  using assms
  by (auto simp: frozen_stopped_def reconcile_system_state_def bnd_run get_control_system_state_run'
      control_wf_def control_abs_def prog_simps)

lemma preserves_expire: "preserves frozen_stopped (expire_cooldowns p)"
proof -
  have "frozen_stopped s \<Longrightarrow> frozen_stopped (s\<lparr>st_ticks := n\<rparr>)" for s n
    unfolding frozen_stopped_def by (metis (no_types, lifting) control_view_def store.select_convs
        store.update_convs(2) view_abs(1) view_abs(2) store.surjective)
  then show ?thesis by (simp add: preserves_def frozen_expire)
qed

lemma preserves_reconcile: "preserves frozen_stopped reconcile_system_state"
  unfolding preserves_def using frozen_reconcile by fastforce

lemma keeps_latest [keep_rules]: "keeps control_view latest_merge_event"
  unfolding latest_merge_event_def by (intro keep_rules)

lemma preserves_status: "preserves frozen_stopped (plane_status p)"
  unfolding plane_status_def status_dict_def
  by (intro preserves_bnd preserves_expire preserves_reconcile preserves_view keep_rules)

lemma keeps_record_event [keep_rules]: "keeps control_view (record_event p a b c d)"
  unfolding record_event_def by (intro keep_rules)

lemma keeps_recovery [keep_rules]: "keeps control_view (new_recovery_action a b c)"
  unfolding new_recovery_action_def by (intro keep_rules)

lemma preserves_sync: "preserves frozen_stopped (sync_global_state p reason)"
  unfolding preserves_def
proof (intro allI impI)
  fix s
  assume "frozen_stopped s"
  then have inv: "frozen_stopped (snd (expire_cooldowns p s))"
    by (rule preservesD [OF preserves_expire])
  have run: "expire_cooldowns p s = (Inr (), s\<lparr>st_ticks := Suc (st_ticks s)\<rparr>)"
    using \<open>frozen_stopped s\<close> by (rule frozen_expire)
  from inv run have inv': "frozen_stopped (s\<lparr>st_ticks := Suc (st_ticks s)\<rparr>)" by simp
  from frozen_reconcile [OF this] obtain c where
    "reconcile_system_state (s\<lparr>st_ticks := Suc (st_ticks s)\<rparr>) = (Inr c, s\<lparr>st_ticks := Suc (st_ticks s)\<rparr>)"
    and "css_global_state c = GS_FROZEN" by blast
  then have "sync_global_state p reason s = plane_status p (s\<lparr>st_ticks := Suc (st_ticks s)\<rparr>)"
    by (simp add: sync_global_state_def bnd_run run ret_run)
  with preservesD [OF preserves_status inv'] show "frozen_stopped (snd (sync_global_state p reason s))"
    by simp
qed

lemma preserves_set_paused: "preserves frozen_stopped (set_active_lanes LS_PAUSED r)"
  unfolding set_active_lanes_def by (intro preserve_rules preserves_view keep_rules)

lemma preserves_require: "preserves frozen_stopped (require_lane n)"
  unfolding require_lane_def by (intro preserves_view keep_rules)

lemma resume_while_frozen:
  "control_wf s \<Longrightarrow> ct_global (control_abs s) = GS_FROZEN \<Longrightarrow>
   resume_lane p n r s = (Inl (ValueError ''Cannot resume a lane while the system is frozen''), s)"
  by (auto simp: resume_lane_def bnd_run get_control_system_state_run' control_wf_def
      control_abs_def raise_run)

lemmas frozen_rules = preserves_bnd preserves_if preserves_status preserves_sync
  preserves_set_paused preserves_require preserves_put_paused preserves_put_system

lemma preserves_calls: "\<not> restarts call \<Longrightarrow> preserves frozen_stopped (run_call p call)"
proof (cases call)
  case (Freeze r)
  then show ?thesis
    by (simp add: freeze_def) (intro frozen_rules preserves_view keep_rules, simp)
next
  case (MarkDegraded r)
  have "frozen_stopped s \<Longrightarrow> mark_degraded p r s = plane_status p s" for s
    by (auto simp: mark_degraded_def bnd_run get_control_system_state_run' frozen_stopped_iff)
  with MarkDegraded show ?thesis
    using preserves_status by (simp add: preserves_def)
next
  case (MarkHealthy r)
  have "frozen_stopped s \<Longrightarrow> mark_healthy p r s = plane_status p s" for s
    by (auto simp: mark_healthy_def bnd_run get_control_system_state_run' frozen_stopped_iff)
  with MarkHealthy show ?thesis
    using preserves_status by (simp add: preserves_def)
next
  case (PauseLane n r)
  then show ?thesis
    by (simp add: pause_lane_def) (intro frozen_rules preserves_view keep_rules)
next
  case (ResumeLane n r)
  then show ?thesis
    by (simp add: preserves_def resume_while_frozen frozen_stopped_def)
next
  case (HumanEscalation r d)
  then show ?thesis
    by (simp add: record_human_escalation_def) (intro frozen_rules preserves_view keep_rules)
next
  case Status
  then show ?thesis by (simp add: preserves_status)
qed simp_all

text \<open>Sequences of calls; an exception ends the call, not the sequence.\<close>

fun run_calls :: "string \<Rightarrow> control_call list \<Rightarrow> store \<Rightarrow> store" where
  "run_calls p [] s = s"
| "run_calls p (call # calls) s = run_calls p calls (snd (run_call p call s))"

lemma frozen_run_calls:
  "list_all (\<lambda>c. \<not> restarts c) calls \<Longrightarrow> frozen_stopped s \<Longrightarrow> frozen_stopped (run_calls p calls s)"
proof (induction calls arbitrary: s)
  case Nil
  then show ?case by simp
next
  case (Cons call calls)
  then show ?case using preservesD [OF preserves_calls, of call s p] by simp
qed

subsection \<open>No call fails but for its guards\<close>

text \<open>Identifiers and instants still to be drawn are new: no two of them are equal and none
  occurs in the tables.\<close>

definition event_instant :: "store \<Rightarrow> nat \<Rightarrow> string" where
  "event_instant s n = dec_int (st_micros s (st_clock s n))"

definition fresh :: "store \<Rightarrow> bool" where
  "fresh s \<longleftrightarrow> inj_on (st_uuid s) {st_uuids s..}
     \<and> inj_on (\<lambda>n. st_micros s (st_clock s n)) {st_ticks s..}
     \<and> (\<forall>n\<ge>st_uuids s. ''control_event_'' @ st_uuid s n \<notin> cev_id ` set (st_control_events s)
          \<and> ''recovery_'' @ st_uuid s n \<notin> cra_id ` set (st_recovery s)
          \<and> ''cooldown_'' @ st_uuid s n \<notin> ccd_id ` set (st_cooldowns s))
     \<and> (\<forall>n\<ge>st_ticks s. \<forall>pre.
          pre @ CHR '':'' # event_instant s n \<notin> cev_idempotency_key ` set (st_control_events s))"

definition safe :: "'a op \<Rightarrow> bool" where
  "safe m \<longleftrightarrow> (\<forall>s. fresh s \<and> control_wf s \<longrightarrow> (\<exists>a t. m s = (Inr a, t) \<and> fresh t \<and> control_wf t))"

named_theorems safe_rules \<open>operations that do not fail\<close>

lemma safeI:
  "(\<And>s. fresh s \<Longrightarrow> control_wf s \<Longrightarrow> \<exists>a t. m s = (Inr a, t) \<and> fresh t \<and> control_wf t) \<Longrightarrow> safe m"
  by (simp add: safe_def)

lemma safe_bnd [safe_rules]: "safe m \<Longrightarrow> (\<And>a. safe (k a)) \<Longrightarrow> safe (bnd m k)"
  unfolding safe_def by (metis bnd_step)

lemma safe_ret [safe_rules]: "safe (ret a)"
  by (simp add: safe_def ret_run)

lemma safe_if [safe_rules]: "(b \<Longrightarrow> safe m) \<Longrightarrow> (\<not> b \<Longrightarrow> safe n) \<Longrightarrow> safe (if b then m else n)"
  by simp

lemma safe_when_do [safe_rules]: "(b \<Longrightarrow> safe m) \<Longrightarrow> safe (when_do b m)"
  by (simp add: when_do_def safe_ret)

lemma safe_option [safe_rules]:
  "safe m \<Longrightarrow> (\<And>a. safe (k a)) \<Longrightarrow> safe (case x of None \<Rightarrow> m | Some a \<Rightarrow> k a)"
  by (cases x) auto

lemma safe_for_each [safe_rules]: "(\<And>x. safe (body x)) \<Longrightarrow> safe (for_each xs body)"
  by (induction xs) (auto intro: safe_rules)

lemma safe_reads [safe_rules]: "safe (reads f)"
  by (simp add: safe_def)

lemma fresh_tick: "fresh s \<Longrightarrow> fresh (s\<lparr>st_ticks := Suc (st_ticks s)\<rparr>)"
  by (auto simp: fresh_def event_instant_def inj_on_def)

lemma fresh_uuid: "fresh s \<Longrightarrow> fresh (s\<lparr>st_uuids := Suc (st_uuids s)\<rparr>)"
  by (auto simp: fresh_def event_instant_def inj_on_def)

lemma control_wf_frame [simp]:
  "control_wf (s\<lparr>st_ticks := n\<rparr>) = control_wf s" "control_wf (s\<lparr>st_uuids := n\<rparr>) = control_wf s"
  "control_wf (s\<lparr>st_control_events := es\<rparr>) = control_wf s"
  "control_wf (s\<lparr>st_recovery := ras\<rparr>) = control_wf s"
  "control_wf (s\<lparr>st_cooldowns := cs\<rparr>) = control_wf s"
  "control_wf (s\<lparr>st_task_leases := ls\<rparr>) = control_wf s"
  by (simp_all add: control_wf_def system_row_def)

lemma fresh_frame [simp]:
  "fresh (s\<lparr>st_lanes := n\<rparr>) = fresh s" "fresh (s\<lparr>st_system := y\<rparr>) = fresh s"
  "fresh (s\<lparr>st_task_leases := ls\<rparr>) = fresh s"
  by (simp_all add: fresh_def event_instant_def)

lemma safe_now [safe_rules]: "safe utc_now"
  by (rule safeI) (simp add: utc_now_def fresh_tick)

lemma safe_get_system [safe_rules]: "safe get_control_system_state"
  by (rule safeI) (auto simp: get_control_system_state_run' control_wf_def split: option.split)

lemma safe_write_leases [safe_rules]: "safe (writes (\<lambda>s. s\<lparr>st_task_leases := f s\<rparr>))"
  by (rule safeI) simp

lemma safe_list [safe_rules]:
  "safe list_control_lane_states" "safe (list_control_events a b c d)" "safe (list_task_leases e)"
  unfolding control_store_defs by (intro safe_rules)+

lemma safe_update_lane [safe_rules]: "safe (update_control_lane_state l)"
  by (rule safeI) (auto simp: update_control_lane_state_def control_wf_def system_row_def keyed_upsert)

lemma safe_update_system [safe_rules]: "safe (update_control_system_state y)"
  by (rule safeI)
     (auto simp: update_control_system_state_def control_wf_def system_row_def find_key_upsert)

lemma fresh_event:
  assumes "fresh s" and "cev_id e = ''control_event_'' @ st_uuid s (st_uuids s)"
    and "cev_idempotency_key e = pre @ CHR '':'' # event_instant s (st_ticks s)"
  shows "fresh (s\<lparr>st_ticks := Suc (st_ticks s), st_uuids := Suc (st_uuids s),
    st_control_events := st_control_events s @ [e]\<rparr>)"
proof -
  have ids: "st_uuid s (st_uuids s) \<noteq> st_uuid s n" if "Suc (st_uuids s) \<le> n" for n
    using assms(1) that by (fastforce simp: fresh_def inj_on_def)
  have "event_instant s (st_ticks s) \<noteq> event_instant s n" if "Suc (st_ticks s) \<le> n" for n
  proof
    assume "event_instant s (st_ticks s) = event_instant s n"
    then have "st_micros s (st_clock s (st_ticks s)) = st_micros s (st_clock s n)"
      by (auto simp: event_instant_def dest: dec_int_inj)
    with assms(1) that show False by (fastforce simp: fresh_def inj_on_def)
  qed
  then have keys: "pre @ CHR '':'' # event_instant s (st_ticks s) \<noteq> pre' @ CHR '':'' # event_instant s n"
    if "Suc (st_ticks s) \<le> n" for n pre'
    using that dec_int_no_colon unfolding event_instant_def by (metis suffix_unique)
  from assms(1) have "fresh (s\<lparr>st_ticks := Suc (st_ticks s), st_uuids := Suc (st_uuids s)\<rparr>)"
    using fresh_uuid [OF fresh_tick] by simp
  then show ?thesis
    using ids [THEN not_sym] keys [THEN not_sym] assms(2,3)
    unfolding fresh_def event_instant_def by auto
qed

lemma record_event_run:
  assumes "fresh s"
  obtains e where "record_event p a b c d s = (Inr (),
      s\<lparr>st_ticks := Suc (st_ticks s), st_uuids := Suc (st_uuids s),
        st_control_events := st_control_events s @ [e]\<rparr>)"
    and "cev_id e = ''control_event_'' @ st_uuid s (st_uuids s)"
    and "cev_idempotency_key e = (a @ '':'' @ b @ '':'' @ c) @ CHR '':'' # event_instant s (st_ticks s)"
    and "cev_event_type e = a" and "cev_entity_type e = b" and "cev_entity_id e = c"
    and "cev_payload e = json_column d"
proof -
  let ?e = "\<lparr>cev_id = ''control_event_'' @ st_uuid s (st_uuids s), cev_event_type = a,
    cev_entity_type = b, cev_entity_id = c, cev_producer = p, cev_payload = json_column d,
    cev_idempotency_key = event_key a b c (st_micros s (st_clock s (st_ticks s))),
    cev_created_at = st_clock s (st_ticks s)\<rparr>"
  have key: "event_key a b c (st_micros s (st_clock s (st_ticks s))) =
      (a @ '':'' @ b @ '':'' @ c) @ CHR '':'' # event_instant s (st_ticks s)"
    by (simp add: event_key_def event_instant_def)
  have "\<not> has_key cev_idempotency_key (cev_idempotency_key ?e) (st_control_events s)"
    using assms unfolding fresh_def has_key_iff ControlEvent.simps key by blast
  moreover have "\<not> has_key cev_id (cev_id ?e) (st_control_events s)"
    using assms unfolding fresh_def has_key_iff ControlEvent.simps by blast
  ultimately have "record_event p a b c d s = (Inr (),
      s\<lparr>st_ticks := Suc (st_ticks s), st_uuids := Suc (st_uuids s),
        st_control_events := st_control_events s @ [?e]\<rparr>)"
    by (simp add: record_event_def bnd_run utc_now_def new_id_def create_control_event_def
        try_write_run insert_row_def)
  then show ?thesis by (rule that) (simp_all add: key)
qed

lemma safe_record_event [safe_rules]: "safe (record_event p a b c d)"
proof (rule safeI)
  fix s
  assume fr: "fresh s" and wf: "control_wf s"
  from fr obtain e where "record_event p a b c d s = (Inr (),
      s\<lparr>st_ticks := Suc (st_ticks s), st_uuids := Suc (st_uuids s),
        st_control_events := st_control_events s @ [e]\<rparr>)"
    and "cev_id e = ''control_event_'' @ st_uuid s (st_uuids s)"
    and "cev_idempotency_key e = (a @ '':'' @ b @ '':'' @ c) @ CHR '':'' # event_instant s (st_ticks s)"
    by (rule record_event_run)
  with fresh_event [OF fr this(2,3)] wf
  show "\<exists>u t. record_event p a b c d s = (Inr u, t) \<and> fresh t \<and> control_wf t" by simp
qed

lemma fresh_row:
  assumes "fresh s"
  shows "cra_id a = ''recovery_'' @ st_uuid s (st_uuids s) \<Longrightarrow>
      fresh (s\<lparr>st_uuids := Suc (st_uuids s), st_ticks := Suc (st_ticks s),
        st_recovery := st_recovery s @ [a]\<rparr>)"
    and "ccd_id c = ''cooldown_'' @ st_uuid s (st_uuids s) \<Longrightarrow>
      fresh (s\<lparr>st_uuids := Suc (st_uuids s), st_ticks := Suc (st_ticks s),
        st_cooldowns := st_cooldowns s @ [c]\<rparr>)"
proof -
  have ids: "st_uuid s (st_uuids s) \<noteq> st_uuid s n" if "Suc (st_uuids s) \<le> n" for n
    using assms that by (fastforce simp: fresh_def inj_on_def)
  have fr: "fresh (s\<lparr>st_ticks := Suc (st_ticks s), st_uuids := Suc (st_uuids s)\<rparr>)"
    using fresh_uuid [OF fresh_tick [OF assms]] by simp
  show "cra_id a = ''recovery_'' @ st_uuid s (st_uuids s) \<Longrightarrow>
      fresh (s\<lparr>st_uuids := Suc (st_uuids s), st_ticks := Suc (st_ticks s),
        st_recovery := st_recovery s @ [a]\<rparr>)"
    using fr ids ids [THEN not_sym] unfolding fresh_def event_instant_def by auto
  show "ccd_id c = ''cooldown_'' @ st_uuid s (st_uuids s) \<Longrightarrow>
      fresh (s\<lparr>st_uuids := Suc (st_uuids s), st_ticks := Suc (st_ticks s),
        st_cooldowns := st_cooldowns s @ [c]\<rparr>)"
    using fr ids ids [THEN not_sym] unfolding fresh_def event_instant_def by auto
qed

lemma safe_recovery [safe_rules]: "safe (new_recovery_action a b c)"
proof (rule safeI)
  fix s
  assume fr: "fresh s" and wf: "control_wf s"
  have "\<not> has_key cra_id (''recovery_'' @ st_uuid s (st_uuids s)) (st_recovery s)"
    using fr unfolding fresh_def has_key_iff by blast
  then show "\<exists>u t. new_recovery_action a b c s = (Inr u, t) \<and> fresh t \<and> control_wf t"
    using wf fresh_row(1) [OF fr]
    by (simp add: new_recovery_action_def bnd_run new_id_def utc_now_def
        create_control_recovery_action_def try_write_run insert_row_def)
qed

lemma safe_cooldown [safe_rules]: "safe (new_cooldown n r u)"
proof (rule safeI)
  fix s
  assume fr: "fresh s" and wf: "control_wf s"
  have "\<not> has_key ccd_id (''cooldown_'' @ st_uuid s (st_uuids s)) (st_cooldowns s)"
    using fr unfolding fresh_def has_key_iff by blast
  then show "\<exists>v t. new_cooldown n r u s = (Inr v, t) \<and> fresh t \<and> control_wf t"
    using wf fresh_row(2) [OF fr]
    by (simp add: new_cooldown_def bnd_run new_id_def utc_now_def
        create_control_cooldown_def try_write_run insert_row_def)
qed

lemma safe_put_lane [safe_rules]: "safe (put_lane l st r u)"
  unfolding put_lane_def by (intro safe_rules)

lemma safe_put_system [safe_rules]: "safe (put_system f y)"
  unfolding put_system_def Let_def by (intro safe_rules)

lemma safe_set_active [safe_rules]: "safe (set_active_lanes st r)"
  unfolding set_active_lanes_def by (intro safe_rules)

lemma safe_expire [safe_rules]: "safe (expire_cooldowns p)"
  unfolding expire_cooldowns_def expire_at_def by (intro safe_rules)

lemma safe_reconcile [safe_rules]: "safe reconcile_system_state"
  unfolding reconcile_system_state_def Let_def case_prod_beta by (intro safe_rules)

lemma safe_latest [safe_rules]: "safe latest_merge_event"
  unfolding latest_merge_event_def by (intro safe_rules)

lemma safe_status [safe_rules]: "safe (plane_status p)"
  unfolding plane_status_def status_dict_def by (intro safe_rules)

lemma safe_sync [safe_rules]: "safe (sync_global_state p r)"
  unfolding sync_global_state_def by (intro safe_rules)

text \<open>A lane that exists is found; the rest of the call then cannot fail.\<close>

lemma require_lane_run:
  "require_lane n s = (case find_key cls_lane_name n (st_lanes s) of
     None \<Rightarrow> (Inl (ValueError (''Unknown control lane: '' @ n)), s) | Some l \<Rightarrow> (Inr l, s))"
  by (simp add: require_lane_def get_control_lane_state_def prog_simps split: option.split)

lemma lane_names_iff: "n \<in> lane_names (control_abs s) \<longleftrightarrow> find_key cls_lane_name n (st_lanes s) \<noteq> None"
  unfolding lane_names_def find_key_None by (auto simp: lanes_abs_def image_image)

definition control_guard :: "control_call \<Rightarrow> control \<Rightarrow> exn option" where
  "control_guard call c =
     (case call of
        PauseLane n r \<Rightarrow>
          if n \<in> lane_names c then None else Some (ValueError (''Unknown control lane: '' @ n))
      | EnterCooldown n r k \<Rightarrow>
          if n \<in> lane_names c then None else Some (ValueError (''Unknown control lane: '' @ n))
      | ResumeLane n r \<Rightarrow>
          if ct_global c = GS_FROZEN
          then Some (ValueError ''Cannot resume a lane while the system is frozen'')
          else if n \<in> lane_names c then None else Some (ValueError (''Unknown control lane: '' @ n))
      | _ \<Rightarrow> None)"

lemma call_guarded:
  assumes fr: "fresh s" and wf: "control_wf s" and g: "control_guard call (control_abs s) = Some e"
  shows "run_call p call s = (Inl e, s)"
proof (cases call)
  case (ResumeLane n r)
  show ?thesis
  proof (cases "ct_global (control_abs s) = GS_FROZEN")
    case True
    with ResumeLane g wf show ?thesis by (simp add: control_guard_def resume_while_frozen)
  next
    case False
    then obtain c where "get_control_system_state s = (Inr c, s)" and "css_global_state c \<noteq> GS_FROZEN"
      using wf by (auto simp: get_control_system_state_run' control_wf_def control_abs_def)
    with ResumeLane g False show ?thesis
      by (auto simp: control_guard_def resume_lane_def bnd_run require_lane_run lane_names_iff
          split: if_splits)
  qed
qed (use g in \<open>auto simp: control_guard_def pause_lane_def enter_cooldown_def bnd_run
    require_lane_run lane_names_iff split: if_splits\<close>)

lemma safe_bnd_require:
  assumes "\<And>l. safe (k l)" and "fresh s" and "control_wf s" and "n \<in> lane_names (control_abs s)"
  shows "\<exists>a t. bnd (require_lane n) k s = (Inr a, t) \<and> fresh t \<and> control_wf t"
  using assms unfolding safe_def by (auto simp: bnd_run require_lane_run lane_names_iff)

lemma call_unguarded:
  assumes fr: "fresh s" and wf: "control_wf s" and g: "control_guard call (control_abs s) = None"
  shows "\<exists>st t. run_call p call s = (Inr st, t) \<and> fresh t \<and> control_wf t"
proof -
  have safe: "\<exists>a t. m s = (Inr a, t) \<and> fresh t \<and> control_wf t" if "safe m" for m :: "control_status op"
    using that fr wf by (simp add: safe_def)
  show ?thesis
  proof (cases call)
    case (ResumeLane n r)
    with g have nf: "ct_global (control_abs s) \<noteq> GS_FROZEN" and n: "n \<in> lane_names (control_abs s)"
      by (auto simp: control_guard_def split: if_splits)
    obtain c where "get_control_system_state s = (Inr c, s)" and "css_global_state c \<noteq> GS_FROZEN"
      using wf nf by (auto simp: get_control_system_state_run' control_wf_def control_abs_def)
    then show ?thesis using ResumeLane
      by (simp add: resume_lane_def bnd_step Let_def)
         (intro safe_bnd_require fr wf n safe_rules)
  next
    case (PauseLane n r)
    with g have n: "n \<in> lane_names (control_abs s)" by (auto simp: control_guard_def split: if_splits)
    with PauseLane show ?thesis
      by (simp add: pause_lane_def) (intro safe_bnd_require fr wf n safe_rules)
  next
    case (EnterCooldown n r k)
    with g have n: "n \<in> lane_names (control_abs s)" by (auto simp: control_guard_def split: if_splits)
    with EnterCooldown show ?thesis
      by (simp add: enter_cooldown_def Let_def) (intro safe_bnd_require fr wf n safe_rules)
  qed (simp_all add: turn_on_def turn_off_def freeze_def mark_degraded_def mark_healthy_def thaw_def
      record_human_escalation_def Let_def, (intro safe safe_rules)+)
qed

subsection \<open>The properties\<close>

text \<open>A store as the constructor leaves it: the schema's system row and the default lanes, with
  a clock that advances one second per reading.\<close>

definition demo_store :: store where
  "demo_store = (empty_store 0)\<lparr>st_clock := \<lambda>n. int n * 1000000,
     st_system := [\<lparr>css_id = ''system'', css_global_state = GS_OFF, css_master_switch = False,
       css_freeze_reason = None, css_updated_at = 0\<rparr>],
     st_lanes := map (\<lambda>n. \<lparr>cls_lane_name = n, cls_state = LS_PAUSED, cls_reason = None,
       cls_cooldown_until = None, cls_updated_at = 0\<rparr>) DEFAULT_CONTROL_LANES\<rparr>"

lemma demo_ready: "fresh demo_store" "control_wf demo_store"
  by (auto simp: fresh_def demo_store_def empty_store_def inj_on_def control_wf_def system_row_def
      keyed_def DEFAULT_CONTROL_LANES_def dest: dec_nat_inj)

lemma demo_lanes: "''worker'' \<in> lane_names (control_abs demo_store)"
  by (simp add: lane_names_iff demo_store_def DEFAULT_CONTROL_LANES_def)

lemma call_run:
  assumes "fresh s" and "control_wf s" and "control_guard call (control_abs s) = None"
  obtains st t t0 t1 t2 where "run_call p call s = (Inr st, t)" and "fresh t" and "control_wf t"
    and "t0 \<in> range (st_clock s)" "t1 \<in> range (st_clock s)" "t2 \<in> range (st_clock s)"
    and "control_abs t = c_call t0 t1 t2 call (control_abs s)"
    and "shows_control st (control_abs t)" and "st_clock t = st_clock s"
proof -
  from call_unguarded [OF assms, of p] obtain st t where
    run: "run_call p call s = (Inr st, t)" and ok: "fresh t" "control_wf t" by blast
  from implementsD [OF refines_call assms(2) run] implements_wf [OF refines_call assms(2) run]
  show ?thesis
    by (auto simp: call_ok_def call_spec_def intro: that run ok)
qed

text \<open>C1. Refinement of the control plane. From a well-formed store in which the instants and
  identifiers still to be drawn are new, every call of the plane either meets its guard (an
  unknown lane, or resuming a lane of a frozen system), and then it raises exactly that
  \<open>ValueError\<close> and changes nothing, or it returns, its new state is the abstract function of
  the old one at three readings of the clock, the returned dictionary shows that state, and the
  store is again one from which the next call behaves so.\<close>

theorem control_call_refines:
  assumes "fresh s" and "control_wf s"
  shows "case control_guard call (control_abs s) of
      Some e \<Rightarrow> run_call p call s = (Inl e, s)
    | None \<Rightarrow> (\<exists>st t t0 t1 t2. run_call p call s = (Inr st, t)
        \<and> {t0, t1, t2} \<subseteq> range (st_clock s)
        \<and> control_abs t = c_call t0 t1 t2 call (control_abs s)
        \<and> shows_control st (control_abs t) \<and> fresh t \<and> control_wf t)"
proof (cases "control_guard call (control_abs s)")
  case None
  from call_run [OF assms None, of p] have "\<exists>st t t0 t1 t2. run_call p call s = (Inr st, t)
      \<and> {t0, t1, t2} \<subseteq> range (st_clock s) \<and> control_abs t = c_call t0 t1 t2 call (control_abs s)
      \<and> shows_control st (control_abs t) \<and> fresh t \<and> control_wf t"
    by (metis empty_subsetI insert_subset)
  with None show ?thesis by simp
next
  case (Some e)
  then show ?thesis using call_guarded [OF assms Some] by simp
qed

lemma control_call_refines_witness:
  "\<exists>st t. run_call ''cp'' (PauseLane ''worker'' ''maintenance'') demo_store = (Inr st, t)
     \<and> shows_control st (control_abs t)"
  using control_call_refines [OF demo_ready, where p = "''cp''" and call = "PauseLane ''worker'' ''maintenance''"] demo_lanes
  by (auto simp: control_guard_def)

text \<open>C3. Every call that returns leaves the system row in agreement with the lanes, whatever
  it changed: unless the system is frozen, it is off exactly when the master switch is, degraded
  with the reason of the first paused or cooling lane (in name order) when there is one, and
  healthy without a reason otherwise. The dictionary the call returns says the same.\<close>

theorem control_status_settled:
  assumes "fresh s" and "control_wf s" and "control_guard call (control_abs s) = None"
  shows "\<exists>st t. run_call p call s = (Inr st, t) \<and> settled (control_abs t)
    \<and> cst_global_state st = GlobalSystemState_value (ct_global (control_abs t))
    \<and> cst_frozen_reason st = ct_reason (control_abs t)"
  using call_run [OF assms, of p] settled_call by (metis shows_control_def)

lemma control_status_settled_witness:
  "\<exists>st t. run_call ''cp'' TurnOn demo_store = (Inr st, t) \<and> settled (control_abs t)"
  using control_status_settled [OF demo_ready, where p = "''cp''" and call = TurnOn] by (auto simp: control_guard_def)

text \<open>\<open>turn_on\<close> from any state: the system is healthy with the master switch on and every
  lane that is not disabled runs without a cooldown; nothing else of the lanes changes.\<close>

theorem turn_on_runs_every_lane:
  assumes "fresh s" and "control_wf s"
  shows "\<exists>st t. turn_on p s = (Inr st, t)
    \<and> control_abs t = \<lparr>ct_global = GS_HEALTHY, ct_master = True, ct_reason = None,
        ct_lanes = map (\<lambda>l. if ln_state l = LS_DISABLED then l
          else l\<lparr>ln_state := LS_RUNNING, ln_reason := Some ''system_on'', ln_until := None\<rparr>)
          (ct_lanes (control_abs s))\<rparr>
    \<and> cst_global_state st = ''healthy''"
proof -
  have "control_guard TurnOn (control_abs s) = None" by (simp add: control_guard_def)
  from call_run [OF assms this, of p] obtain st t t0 t1 t2 where
    run: "run_call p TurnOn s = (Inr st, t)" and abs: "control_abs t = c_call t0 t1 t2 TurnOn (control_abs s)"
    and st: "shows_control st (control_abs t)" by metis
  have "control_abs t = \<lparr>ct_global = GS_HEALTHY, ct_master = True, ct_reason = None,
      ct_lanes = map (\<lambda>l. if ln_state l = LS_DISABLED then l
        else l\<lparr>ln_state := LS_RUNNING, ln_reason := Some ''system_on'', ln_until := None\<rparr>)
        (ct_lanes (control_abs s))\<rparr>"
    unfolding abs turn_on_abs by (simp add: c_set_lanes_def active_def if_distrib cong: if_cong)
  with run st show ?thesis by (simp add: shows_control_def)
qed

lemma turn_on_runs_every_lane_witness:
  "\<exists>st t. turn_on ''cp'' demo_store = (Inr st, t) \<and> cst_global_state st = ''healthy''"
  using turn_on_runs_every_lane [OF demo_ready, of "''cp''"] by auto

lemma lane_names_set: "lane_names (c_set_lanes st r c) = lane_names c"
proof -
  have "map ln_name (ct_lanes (c_set_lanes st r c)) = map ln_name (ct_lanes c)"
    by (simp add: c_set_lanes_def)
  then have "set (map ln_name (ct_lanes (c_set_lanes st r c))) = set (map ln_name (ct_lanes c))"
    by simp
  then show ?thesis by (simp only: lane_names_def set_map)
qed

lemma freeze_run:
  assumes "fresh s" and "control_wf s"
  obtains st t where "freeze p r s = (Inr st, t)" and "frozen_stopped t" and "fresh t"
    and "ct_reason (control_abs t) = Some r" and "shows_control st (control_abs t)"
    and "ct_master (control_abs t) = ct_master (control_abs s)"
    and "lane_names (control_abs t) = lane_names (control_abs s)"
proof -
  have "control_guard (Freeze r) (control_abs s) = None" by (simp add: control_guard_def)
  from call_run [OF assms this, of p] obtain st t t0 t1 t2 where
    run: "run_call p (Freeze r) s = (Inr st, t)" and wf: "control_wf t" and fr: "fresh t"
    and abs: "control_abs t = c_call t0 t1 t2 (Freeze r) (control_abs s)"
    and st: "shows_control st (control_abs t)" by metis
  have "frozen_stopped t"
    using wf stopped_set [of "''frozen''" "control_abs s"] unfolding frozen_stopped_def abs freeze_abs
    by (simp add: stopped_def)
  moreover have "lane_names (control_abs t) = lane_names (control_abs s)"
    using lane_names_set [of LS_PAUSED "''frozen''" "control_abs s"]
    unfolding abs freeze_abs by (simp add: lane_names_def)
  moreover have "ct_reason (control_abs t) = Some r" and "ct_master (control_abs t) = ct_master (control_abs s)"
    unfolding abs freeze_abs by simp_all
  ultimately show ?thesis using run st fr by (intro that [of st t]) simp_all
qed

text \<open>C11. \<open>freeze\<close> stops the system from any state: it returns, the system is frozen for the
  given reason, no lane is running or cooling down, and the dictionary shows it.\<close>

theorem freeze_stops_lanes:
  assumes "fresh s" and "control_wf s"
  shows "\<exists>st t. freeze p r s = (Inr st, t) \<and> frozen_stopped t
    \<and> cst_global_state st = ''frozen'' \<and> cst_frozen_reason st = Some r
    \<and> (\<forall>(n, v) \<in> set (cst_lanes st). v = ''paused'' \<or> v = ''disabled'')"
proof -
  from freeze_run [OF assms, of p r] obtain st t where *: "freeze p r s = (Inr st, t)"
    "frozen_stopped t" "ct_reason (control_abs t) = Some r" "shows_control st (control_abs t)" by metis
  then have "\<forall>(n, v) \<in> set (cst_lanes st). v = ''paused'' \<or> v = ''disabled''"
    by (auto simp: shows_control_def frozen_stopped_def stopped_def)
  with * show ?thesis by (auto simp: shows_control_def frozen_stopped_def)
qed

lemma freeze_stops_lanes_witness:
  "\<exists>st t. freeze ''cp'' ''incident'' demo_store = (Inr st, t) \<and> frozen_stopped t"
  using freeze_stops_lanes [OF demo_ready, of "''cp''" "''incident''"] by auto

text \<open>C2. A frozen system stays frozen and stopped through every sequence of calls that has no
  \<open>turn_on\<close>, \<open>turn_off\<close>, \<open>thaw\<close> or \<open>enter_cooldown\<close> in it, also when some of the calls raise,
  whatever the clock and the identifiers are.\<close>

theorem frozen_until_restart:
  assumes "frozen_stopped s" and "list_all (\<lambda>c. \<not> restarts c) calls"
  shows "frozen_stopped (run_calls p calls s)"
  using assms by (intro frozen_run_calls)

lemma frozen_until_restart_witness:
  "\<exists>s. frozen_stopped s \<and>
     frozen_stopped (run_calls ''cp'' [MarkHealthy ''ok'', ResumeLane ''api'' ''go'', Status] s)"
proof -
  obtain t where "frozen_stopped t" using freeze_run [OF demo_ready] by metis
  then show ?thesis
    using frozen_until_restart [of t "[MarkHealthy ''ok'', ResumeLane ''api'' ''go'', Status]" "''cp''"]
    by auto
qed

text \<open>The instant at which \<open>status\<close> expires cooldowns is its first reading of the clock.\<close>

lemma status_exact:
  assumes "control_wf s" and "plane_status p s = (Inr st, t)"
  shows "control_abs t = c_status (st_clock s (st_ticks s)) (control_abs s)"
proof -
  let ?now = "st_clock s (st_ticks s)"
  let ?u = "s\<lparr>st_ticks := Suc (st_ticks s)\<rparr>"
  have wf: "control_wf ?u" using assms(1) by simp
  have abs: "control_abs ?u = control_abs s"
    by (rule view_abs) (simp add: control_view_def)
  obtain s1 where s1: "expire_at p ?now ?u = (Inr (), s1)" and t: "status_dict s1 = (Inr st, t)"
    using assms(2) unfolding plane_status_def expire_cooldowns_def
    by (auto simp: utc_now_def bnd_run split: sum.splits prod.splits)
  have "control_abs s1 = c_expire ?now (control_abs ?u)" and "control_wf s1"
    using implementsD [OF implements_expire_at wf s1] implements_wf [OF implements_expire_at wf s1]
    by simp_all
  with implementsD [OF implements_dict _ t] show ?thesis by (simp add: abs c_status_def)
qed

text \<open>C12. Cooldowns end on time and only then: \<open>status\<close> returns, every lane whose cooldown is over
  at its first reading of the clock resumes (running if the master switch is on, else paused),
  every other lane is as it was, and whether the system is frozen does not change.\<close>

theorem cooldown_lifts_on_time:
  assumes "fresh s" and "control_wf s"
  shows "\<exists>st t. plane_status p s = (Inr st, t)
    \<and> ct_lanes (control_abs t) = map (\<lambda>l.
        if ln_state l = LS_COOLDOWN \<and> (\<exists>u. ln_until l = Some u \<and> u \<le> st_clock s (st_ticks s))
        then l\<lparr>ln_state := if ct_master (control_abs s) then LS_RUNNING else LS_PAUSED,
               ln_reason := Some ''cooldown_expired'', ln_until := None\<rparr>
        else l) (ct_lanes (control_abs s))
    \<and> (ct_global (control_abs t) = GS_FROZEN \<longleftrightarrow> ct_global (control_abs s) = GS_FROZEN)"
proof -
  have "control_guard Status (control_abs s) = None" by (simp add: control_guard_def)
  from call_unguarded [OF assms this, of p] obtain st t where run: "plane_status p s = (Inr st, t)"
    by auto
  have exp: "expired now l \<longleftrightarrow> ln_state l = LS_COOLDOWN \<and> (\<exists>u. ln_until l = Some u \<and> u \<le> now)" for now l
    by (auto simp: expired_def split: option.split)
  note exact = status_exact [OF assms(2) run]
  have "ct_lanes (control_abs t) = map (\<lambda>l.
        if ln_state l = LS_COOLDOWN \<and> (\<exists>u. ln_until l = Some u \<and> u \<le> st_clock s (st_ticks s))
        then l\<lparr>ln_state := if ct_master (control_abs s) then LS_RUNNING else LS_PAUSED,
               ln_reason := Some ''cooldown_expired'', ln_until := None\<rparr>
        else l) (ct_lanes (control_abs s))"
    unfolding exact c_status_sel exp resume_expired_def resumed_state_def ..
  moreover have "ct_global (control_abs t) = GS_FROZEN \<longleftrightarrow> ct_global (control_abs s) = GS_FROZEN"
    unfolding exact by simp
  ultimately show ?thesis using run by blast
qed

lemma cooldown_lifts_on_time_witness:
  "\<exists>st t. plane_status ''cp'' demo_store = (Inr st, t)
     \<and> (ct_global (control_abs t) = GS_FROZEN \<longleftrightarrow> ct_global (control_abs demo_store) = GS_FROZEN)"
  using cooldown_lifts_on_time [OF demo_ready, of "''cp''"] by blast

lemma c_call_cooldown_frozen: "ct_global (c_call t0 t1 t2 (EnterCooldown n r k) c) = GS_FROZEN \<longleftrightarrow> ct_global c = GS_FROZEN"
  by (simp add: c_sync_def c_lane_def)

text \<open>C15. The freeze does not bar cooldowns. In a frozen system whose master switch is on,
  \<open>enter_cooldown\<close> is accepted on any lane and leaves the system frozen; and once the cooldown of
  a lane is over, a mere \<open>status\<close> has that lane running while the system is still frozen.\<close>

theorem frozen_lane_runs_after_cooldown:
  assumes "fresh s" and "control_wf s" and "ct_global (control_abs s) = GS_FROZEN"
    and "ct_master (control_abs s)" and "l \<in> set (ct_lanes (control_abs s))"
    and "ln_state l = LS_COOLDOWN" and "ln_until l = Some u" and "u \<le> st_clock s (st_ticks s)"
  shows "(\<exists>st t. enter_cooldown p n r k s =
      (if n \<in> lane_names (control_abs s) then Inr st
       else Inl (ValueError (''Unknown control lane: '' @ n)), t)
      \<and> ct_global (control_abs t) = GS_FROZEN)
    \<and> (\<exists>st t. plane_status p s = (Inr st, t) \<and> cst_global_state st = ''frozen''
      \<and> (ln_name l, ''running'') \<in> set (cst_lanes st))"
proof (rule conjI)
  show "\<exists>st t. enter_cooldown p n r k s =
      (if n \<in> lane_names (control_abs s) then Inr st
       else Inl (ValueError (''Unknown control lane: '' @ n)), t)
      \<and> ct_global (control_abs t) = GS_FROZEN"
  proof (cases "n \<in> lane_names (control_abs s)")
    case True
    then have "control_guard (EnterCooldown n r k) (control_abs s) = None"
      by (simp add: control_guard_def)
    from call_run [OF assms(1,2) this, of p] obtain st t t0 t1 t2 where
      "run_call p (EnterCooldown n r k) s = (Inr st, t)"
      and "control_abs t = c_call t0 t1 t2 (EnterCooldown n r k) (control_abs s)" by metis
    then have "enter_cooldown p n r k s = (Inr st, t)" and "ct_global (control_abs t) = GS_FROZEN"
      using assms(3) by (simp_all only: c_call_cooldown_frozen run_call.simps)
    with True show ?thesis by auto
  next
    case False
    then show ?thesis
      using assms(3) call_guarded [OF assms(1,2), of "EnterCooldown n r k" _ p]
      by (simp add: control_guard_def)
  qed
next
  have "control_guard Status (control_abs s) = None" by (simp add: control_guard_def)
  then obtain st t where run: "run_call p Status s = (Inr st, t)"
    and st: "shows_control st (control_abs t)"
    by (rule call_run [OF assms(1,2), of _ p])
  then have exact: "control_abs t = c_status (st_clock s (st_ticks s)) (control_abs s)"
    by (intro status_exact [OF assms(2)]) simp
  have "expired (st_clock s (st_ticks s)) l" using assms by (simp add: expired_def)
  then have "resume_expired True l \<in> set (ct_lanes (control_abs t))"
    unfolding exact c_status_sel using assms(4,5) by force
  then have "(\<lambda>l. (ln_name l, ControlLaneStateValue_value (ln_state l))) (resume_expired True l)
      \<in> set (cst_lanes st)"
    using st unfolding shows_control_def set_map by (metis (no_types, lifting) image_eqI set_map)
  then have "(ln_name l, ''running'') \<in> set (cst_lanes st)"
    by (simp add: resume_expired_def resumed_state_def)
  moreover have "ct_global (control_abs t) = GS_FROZEN" unfolding exact using assms(3) by simp
  ultimately show "\<exists>st t. plane_status p s = (Inr st, t) \<and> cst_global_state st = ''frozen''
      \<and> (ln_name l, ''running'') \<in> set (cst_lanes st)"
    using run st by (auto simp: shows_control_def)
qed

definition demo_frozen :: store where
  "demo_frozen = demo_store\<lparr>st_system := [\<lparr>css_id = ''system'', css_global_state = GS_FROZEN,
       css_master_switch = True, css_freeze_reason = Some ''incident'', css_updated_at = 0\<rparr>],
     st_lanes := [\<lparr>cls_lane_name = ''worker'', cls_state = LS_COOLDOWN,
       cls_reason = Some ''rate_limit'', cls_cooldown_until = Some 0, cls_updated_at = 0\<rparr>]\<rparr>"

lemma demo_frozen_ready:
  "fresh demo_frozen" "control_wf demo_frozen" "ct_global (control_abs demo_frozen) = GS_FROZEN"
  "ct_master (control_abs demo_frozen)"
  "\<lparr>ln_name = ''worker'', ln_state = LS_COOLDOWN, ln_reason = Some ''rate_limit'', ln_until = Some 0\<rparr>
     \<in> set (ct_lanes (control_abs demo_frozen))"
  "(0::time) \<le> st_clock demo_frozen (st_ticks demo_frozen)"
proof -
  show "fresh demo_frozen" unfolding demo_frozen_def fresh_frame by (rule demo_ready)
qed (simp_all add: demo_frozen_def control_wf_def system_row_def keyed_def control_abs_def
      lanes_abs_def lane_abs_def demo_store_def empty_store_def)

lemma frozen_lane_runs_after_cooldown_witness:
  "\<exists>st t. plane_status ''cp'' demo_frozen = (Inr st, t) \<and> cst_global_state st = ''frozen''
     \<and> (''worker'', ''running'') \<in> set (cst_lanes st)"
  using frozen_lane_runs_after_cooldown [OF demo_frozen_ready(1-5) _ _ demo_frozen_ready(6)]
  by simp

text \<open>\<open>mark_degraded\<close> has no lasting effect while no lane is paused or cooling down: the same
  call settles the system row again, so it returns with the system healthy and without the
  reason it was given.\<close>

theorem mark_degraded_is_undone:
  assumes "fresh s" and "control_wf s" and "ct_global (control_abs s) \<noteq> GS_FROZEN"
    and "ct_master (control_abs s)" and "running (control_abs s)"
  shows "\<exists>st t. mark_degraded p r s = (Inr st, t) \<and> cst_global_state st = ''healthy''
    \<and> control_abs t = (control_abs s)\<lparr>ct_global := GS_HEALTHY, ct_reason := None\<rparr>"
proof -
  have "control_guard (MarkDegraded r) (control_abs s) = None" by (simp add: control_guard_def)
  from call_run [OF assms(1,2) this, of p] obtain st t t0 t1 t2 where
    run: "run_call p (MarkDegraded r) s = (Inr st, t)"
    and abs: "control_abs t = c_call t0 t1 t2 (MarkDegraded r) (control_abs s)"
    and st: "shows_control st (control_abs t)" by metis
  from abs have "control_abs t = (control_abs s)\<lparr>ct_global := GS_HEALTHY, ct_reason := None\<rparr>"
    by (simp only: mark_degraded_abs [OF assms(3-5)])
  with run st show ?thesis by (auto simp: shows_control_def)
qed

definition demo_on :: store where
  "demo_on = demo_store\<lparr>st_system := [\<lparr>css_id = ''system'', css_global_state = GS_HEALTHY,
       css_master_switch = True, css_freeze_reason = None, css_updated_at = 0\<rparr>],
     st_lanes := [\<lparr>cls_lane_name = ''worker'', cls_state = LS_RUNNING,
       cls_reason = None, cls_cooldown_until = None, cls_updated_at = 0\<rparr>]\<rparr>"

lemma demo_on_ready:
  "fresh demo_on" "control_wf demo_on" "ct_global (control_abs demo_on) \<noteq> GS_FROZEN"
  "ct_master (control_abs demo_on)" "running (control_abs demo_on)"
proof -
  show "fresh demo_on" unfolding demo_on_def fresh_frame by (rule demo_ready)
qed (simp_all add: demo_on_def control_wf_def system_row_def keyed_def control_abs_def
      lanes_abs_def lane_abs_def demo_store_def empty_store_def running_def)

lemma mark_degraded_is_undone_witness:
  "\<exists>st t. mark_degraded ''cp'' ''disk full'' demo_on = (Inr st, t) \<and> cst_global_state st = ''healthy''"
  using mark_degraded_is_undone [OF demo_on_ready, of "''cp''" "''disk full''"] by blast

subsection \<open>The lanes of the constructor\<close>

lemma ensure_loop:
  "for_each ns (\<lambda>n. writes (\<lambda>s. s\<lparr>st_lanes := insert_or_ignore cls_lane_name
      \<lparr>cls_lane_name = n, cls_state = LS_PAUSED, cls_reason = None, cls_cooldown_until = None,
       cls_updated_at = now\<rparr> (st_lanes s)\<rparr>)) s =
   (Inr (), s\<lparr>st_lanes := fold (\<lambda>n. insert_or_ignore cls_lane_name
      \<lparr>cls_lane_name = n, cls_state = LS_PAUSED, cls_reason = None, cls_cooldown_until = None,
       cls_updated_at = now\<rparr>) ns (st_lanes s)\<rparr>)"
  by (induction ns arbitrary: s) (simp_all add: bnd_run ret_run)

lemma find_insert_or_ignore:
  "find_key key k (insert_or_ignore key r rows) =
     (case find_key key k rows of Some x \<Rightarrow> Some x | None \<Rightarrow> if k = key r then Some r else None)"
proof (cases "find_key key (key r) rows")
  case None
  then have "insert_or_ignore key r rows = rows @ [r]"
    by (simp add: insert_or_ignore_def has_key_iff find_key_None)
  then show ?thesis by (simp add: find_key_append split: option.split)
next
  case (Some x)
  then have "insert_or_ignore key r rows = rows"
    by (metis find_key_None has_key_iff insert_or_ignore_def option.distinct(1))
  with Some show ?thesis by (auto split: option.split)
qed

lemma find_fold_insert:
  assumes "\<And>n. key (mk n) = n"
  shows "find_key key k (fold (\<lambda>n. insert_or_ignore key (mk n)) ns rows) =
    (case find_key key k rows of Some x \<Rightarrow> Some x | None \<Rightarrow> if k \<in> set ns then Some (mk k) else None)"
  by (induction ns arbitrary: rows) (auto simp: find_insert_or_ignore assms split: option.split)

lemma keyed_fold_insert:
  "keyed key rows \<Longrightarrow> keyed key (fold (\<lambda>n. insert_or_ignore key (mk n)) ns rows)"
  by (induction ns arbitrary: rows) (simp_all add: keyed_insert_or_ignore)

text \<open>Constructing a \<open>ControlPlane\<close> over any store adds the five default lanes that are
  missing, paused and without a reason, leaves every lane that exists as it is, keeps the lane
  names unique and never fails.\<close>

theorem control_init_lanes:
  assumes "keyed cls_lane_name (st_lanes s)"
  shows "\<exists>t. control_init s = (Inr (), t) \<and> keyed cls_lane_name (st_lanes t)
    \<and> (\<forall>n. find_key cls_lane_name n (st_lanes t) =
        (case find_key cls_lane_name n (st_lanes s) of
           Some l \<Rightarrow> Some l
         | None \<Rightarrow> if n \<in> {''api'', ''harness'', ''worker'', ''watch'', ''telegram''}
             then Some \<lparr>cls_lane_name = n, cls_state = LS_PAUSED, cls_reason = None,
                    cls_cooldown_until = None, cls_updated_at = st_clock s (st_ticks s)\<rparr>
             else None))"
proof -
  let ?mk = "\<lambda>n. \<lparr>cls_lane_name = n, cls_state = LS_PAUSED, cls_reason = None,
    cls_cooldown_until = None, cls_updated_at = st_clock s (st_ticks s)\<rparr>"
  let ?t = "s\<lparr>st_ticks := Suc (st_ticks s),
    st_lanes := fold (\<lambda>n. insert_or_ignore cls_lane_name (?mk n)) DEFAULT_CONTROL_LANES (st_lanes s)\<rparr>"
  have run: "control_init s = (Inr (), ?t)"
    by (simp add: control_init_def ensure_control_lanes_def bnd_run utc_now_def ensure_loop)
  have find: "find_key cls_lane_name n (st_lanes ?t) =
      (case find_key cls_lane_name n (st_lanes s) of Some l \<Rightarrow> Some l
       | None \<Rightarrow> if n \<in> set DEFAULT_CONTROL_LANES then Some (?mk n) else None)" for n
    by (simp add: find_fold_insert)
  have keyed: "keyed cls_lane_name (st_lanes ?t)"
    using assms by (simp add: keyed_fold_insert)
  have set: "set DEFAULT_CONTROL_LANES = {''api'', ''harness'', ''worker'', ''watch'', ''telegram''}"
    by (simp add: DEFAULT_CONTROL_LANES_def)
  show ?thesis
    by (rule exI [of _ ?t]) (use run keyed find in \<open>simp only: set, simp\<close>)
qed

lemma control_init_lanes_witness:
  "\<exists>t. control_init (empty_store 7) = (Inr (), t)
     \<and> find_key cls_lane_name ''worker'' (st_lanes t) \<noteq> None"
  using control_init_lanes [of "empty_store 7"] by (auto simp: keyed_def empty_store_def)

subsection \<open>Budgets\<close>

definition budget_usage :: "string \<Rightarrow> string \<Rightarrow> time \<Rightarrow> store \<Rightarrow> int" where
  "budget_usage scope key cutoff s =
     (\<Sum>b\<leftarrow>filter (\<lambda>b. cbu_budget_scope b = scope \<and> cbu_budget_key b = key
        \<and> cutoff \<le> cbu_window_end b) (st_budgets s). cbu_usage_count b)"

lemma sum_list_order_desc: "(\<Sum>x\<leftarrow>filter p (order_by_desc f xs). g x) = (\<Sum>x\<leftarrow>filter p xs. g x :: int)"
proof -
  have "mset (map g (filter p (order_by_desc f xs))) = mset (map g (filter p xs))"
    by (simp only: order_by_desc_def mset_map mset_filter mset_sort)
  then show ?thesis by (metis sum_mset_sum_list)
qed

lemma budget_exhausted_run:
  assumes "scope \<noteq> []" and "key \<noteq> []"
  shows "expensive_coding_budget_exhausted scope key s =
    (Inr (EXPENSIVE_CODING_RUN_LIMIT <
       budget_usage scope key (st_clock s (st_ticks s) - EXPENSIVE_CODING_RUN_WINDOW) s),
     s\<lparr>st_ticks := Suc (st_ticks s)\<rparr>)"
  using assms
  by (simp add: expensive_coding_budget_exhausted_def bnd_run utc_now_def list_control_budgets_def
      prog_simps clause_def sum_list_order_desc budget_usage_def conj_ac)

lemma sum_upsert_new:
  assumes "key r \<notin> key ` set rows"
  shows "(\<Sum>x\<leftarrow>filter p (upsert key r rows). g x) =
    (\<Sum>x\<leftarrow>filter p rows. g x :: int) + (if p r then g r else 0)"
  using assms by (simp add: upsert_def has_key_iff)

lemma sum_upsert_old:
  assumes "keyed key rows" and "r0 \<in> set rows" and "key r0 = key r" and "p r = p r0"
  shows "(\<Sum>x\<leftarrow>filter p (upsert key r rows). g x) =
    (\<Sum>x\<leftarrow>filter p rows. g x :: int) + (if p r0 then g r - g r0 else 0)"
proof -
  have "(\<Sum>x\<leftarrow>filter p (map (\<lambda>x. if key x = key r then r else x) rows). g x) =
      (\<Sum>x\<leftarrow>filter p rows. g x) + (if p r0 then g r - g r0 else 0)"
    using assms(1,2)
  proof (induction rows)
    case Nil
    then show ?case by simp
  next
    case (Cons y ys)
    show ?case
    proof (cases "y = r0")
      case True
      with Cons.prems assms(3) have "map (\<lambda>x. if key x = key r then r else x) ys = ys"
        by (intro map_idI) (auto simp: keyed_def image_iff)
      with True assms(3,4) show ?thesis by simp
    next
      case False
      with Cons.prems have "r0 \<in> set ys" and "key y \<noteq> key r"
        using assms(3) by (auto simp: keyed_def image_iff)
      with Cons False show ?thesis by (simp add: keyed_def)
    qed
  qed
  moreover have "key r \<in> key ` set rows" using assms(2,3) by (metis image_eqI)
  ultimately show ?thesis by (simp add: upsert_present)
qed

text \<open>Budget accounting: recording usage adds exactly the recorded count to the usage of its
  scope and key, whichever of the two branches is taken and for every cutoff up to now, and the
  budget check then compares the sum of the last hour with the limit of three.\<close>

theorem budget_usage_recorded:
  assumes "keyed cbu_id (st_budgets s)"
    and "''budget_'' @ st_uuid s (st_uuids s) \<notin> cbu_id ` set (st_budgets s)"
    and "scope \<noteq> []" and "key \<noteq> []" and "cutoff \<le> st_clock s (st_ticks s)"
  shows "\<exists>b t. record_budget_usage scope key amount cost window s = (Inr b, t)
    \<and> keyed cbu_id (st_budgets t)
    \<and> budget_usage scope key cutoff t = budget_usage scope key cutoff s + amount
    \<and> fst (expensive_coding_budget_exhausted scope key t) =
        Inr (3 < budget_usage scope key (st_clock t (st_ticks t) - 3600000000) t)"
proof -
  let ?now = "st_clock s (st_ticks s)"
  let ?match = "\<lambda>b. cbu_budget_scope b = scope \<and> cbu_budget_key b = key
    \<and> cbu_window_start b = ?now - window \<and> cbu_window_end b = ?now"
  obtain b t where run: "record_budget_usage scope key amount cost window s = (Inr b, t)"
    and rows: "st_budgets t = upsert cbu_id b (st_budgets s)"
    and usage: "budget_usage scope key cutoff t = budget_usage scope key cutoff s + amount"
  proof (cases "List.find ?match (st_budgets s)")
    case None
    let ?b = "\<lparr>cbu_id = ''budget_'' @ st_uuid s (st_uuids s), cbu_budget_scope = scope,
      cbu_budget_key = key, cbu_window_start = ?now - window, cbu_window_end = ?now,
      cbu_usage_count = amount, cbu_usage_cost_usd = cost, cbu_updated_at = ?now\<rparr>"
    let ?t = "s\<lparr>st_ticks := Suc (st_ticks s), st_uuids := Suc (st_uuids s),
      st_budgets := upsert cbu_id ?b (st_budgets s)\<rparr>"
    have "record_budget_usage scope key amount cost window s = (Inr ?b, ?t)"
      using None by (simp add: record_budget_usage_def Let_def bnd_run utc_now_def get_control_budget_def
          prog_simps new_id_def upsert_control_budget_def)
    moreover have "budget_usage scope key cutoff ?t = budget_usage scope key cutoff s + amount"
      using assms(2,5) by (simp add: budget_usage_def sum_upsert_new)
    ultimately show ?thesis by (intro that [of ?b ?t]) simp_all
  next
    case (Some r)
    let ?b = "r\<lparr>cbu_usage_count := cbu_usage_count r + amount,
      cbu_usage_cost_usd := cbu_usage_cost_usd r + cost, cbu_updated_at := ?now, cbu_window_end := ?now\<rparr>"
    let ?t = "s\<lparr>st_ticks := Suc (st_ticks s), st_budgets := upsert cbu_id ?b (st_budgets s)\<rparr>"
    have "record_budget_usage scope key amount cost window s = (Inr ?b, ?t)"
      using Some by (simp add: record_budget_usage_def Let_def bnd_run utc_now_def get_control_budget_def
          prog_simps upsert_control_budget_def)
    moreover have "budget_usage scope key cutoff ?t = budget_usage scope key cutoff s + amount"
      using Some assms(1,5)
      by (auto simp: budget_usage_def find_Some_iff sum_upsert_old [of cbu_id _ r])
    ultimately show ?thesis by (intro that [of ?b ?t]) simp_all
  qed
  moreover have "keyed cbu_id (st_budgets t)" using assms(1) by (simp add: rows keyed_upsert)
  ultimately show ?thesis
    using assms(3,4)
    by (auto simp: budget_exhausted_run EXPENSIVE_CODING_RUN_LIMIT_def EXPENSIVE_CODING_RUN_WINDOW_def)
qed

lemma budget_usage_recorded_witness:
  "\<exists>b t. record_budget_usage ''worker'' ''expensive_coding_runs'' 1 0 3600000000 demo_store = (Inr b, t)
     \<and> budget_usage ''worker'' ''expensive_coding_runs'' 0 t =
       budget_usage ''worker'' ''expensive_coding_runs'' 0 demo_store + 1"
  using budget_usage_recorded [of demo_store "''worker''" "''expensive_coding_runs''" 0 1 0 3600000000]
  by (auto simp: demo_store_def empty_store_def keyed_def)

end
