(* ===== verification/Task_Store.thy ===== *)
theory Task_Store
  imports Control_Store Transitions
begin

section \<open>Projects, tasks, leases and plans\<close>

text \<open>
  \<open>ProjectTaskStoreMixin\<close> of \<open>persistence/project_task.py\<close>, one operation per method. A
  \<open>SELECT\<close> that leaves a column out is modelled with the default that \<open>task_from_row\<close> gives the
  missing column. \<open>ORDER BY a DESC, b\<close> is two stable sorts, \<open>b\<close> first. Instants are compared as
  ISO text in the database, which for UTC instants is the order of time.
\<close>

subsection \<open>Which tasks count for an objective\<close>

definition opt_str :: "string option \<Rightarrow> string" where
  "opt_str x = (case x of None \<Rightarrow> '''' | Some s \<Rightarrow> s)"

definition dict_entry :: "pydict \<Rightarrow> string \<Rightarrow> pydict option" where
  "dict_entry metadata k = (case dict_get metadata k of PDict d \<Rightarrow> Some d | _ \<Rightarrow> None)"

definition workflow_state_disposition :: "pydict \<Rightarrow> pydict option" where
  "workflow_state_disposition metadata = dict_entry metadata ''workflow_state_disposition''"

definition task_ignored_for_objective_phase :: "TaskStatus \<Rightarrow> pydict \<Rightarrow> bool" where
  "task_ignored_for_objective_phase status metadata \<longleftrightarrow>
     (case workflow_state_disposition metadata of
        None \<Rightarrow> False
      | Some d \<Rightarrow> d \<noteq> [] \<and> py_strip (str_or_empty (dict_get d ''kind'')) = ''ignore_obsolete'')
     \<or> status = TS_FAILED
       \<and> (case dict_entry metadata ''failed_task_disposition'' of
            None \<Rightarrow> False
          | Some d \<Rightarrow> py_strip (str_or_empty (dict_get d ''kind'')) = ''waive_obsolete'')"

definition remediation_dimension :: "pydict \<Rightarrow> string" where
  "remediation_dimension metadata =
     (case dict_entry metadata ''objective_review_remediation'' of
        None \<Rightarrow> ''''
      | Some r \<Rightarrow> py_strip (str_or_empty (dict_get r ''dimension'')))"

definition task_superseded_by_completed_peer ::
  "TaskStatus \<Rightarrow> string option \<Rightarrow> string option \<Rightarrow> pydict \<Rightarrow> (string \<times> string) set \<Rightarrow> string set \<Rightarrow> bool"
where
  "task_superseded_by_completed_peer status ref_type ref_id metadata refs dimensions =
     (if status \<noteq> TS_FAILED then False
      else let normalized_type = py_strip (opt_str ref_type);
               normalized_id = py_strip (opt_str ref_id)
           in if normalized_type = [] then False
              else let dimension = remediation_dimension metadata
                   in normalized_type = ''objective_review''
                      \<and> (normalized_id \<noteq> [] \<and> (normalized_type, normalized_id) \<in> refs
                         \<or> dimension \<noteq> [] \<and> dimension \<in> dimensions))"

subsection \<open>Projects\<close>

definition create_project :: "Project \<Rightarrow> unit op" where
  "create_project project = try_write (\<lambda>s.
     if has_key project_name (project_name project) (st_projects s)
     then Inl (IntegrityError ''UNIQUE constraint failed'')
     else rbind (insert_row project_id project (st_projects s))
            (\<lambda>rows. Inr (s\<lparr>st_projects := rows\<rparr>)))"

definition update_project :: "Project \<Rightarrow> unit op" where
  "update_project project = try_write (\<lambda>s.
     if has_key project_id (project_id project) (st_projects s)
        \<and> list_ex (\<lambda>p. project_name p = project_name project \<and> project_id p \<noteq> project_id project)
            (st_projects s)
     then Inl (IntegrityError ''UNIQUE constraint failed'')
     else Inr (s\<lparr>st_projects := update_where (\<lambda>p. project_id p = project_id project)
            (\<lambda>p. project\<lparr>project_created_at := project_created_at p\<rparr>) (st_projects s)\<rparr>))"

definition list_projects :: "Project list op" where
  "list_projects = reads (\<lambda>s. order_by project_created_at (st_projects s))"

definition get_project :: "string \<Rightarrow> Project option op" where
  "get_project i = reads (\<lambda>s. find_key project_id i (st_projects s))"

definition resolve_project :: "string \<Rightarrow> Project option op" where
  "resolve_project ref =
     bnd (get_project ref) (\<lambda>project.
     case project of
       Some p \<Rightarrow> ret (Some p)
     | None \<Rightarrow> bnd list_projects (\<lambda>projects.
         ret (List.find (\<lambda>p. py_lower (project_name p) = py_lower ref) projects)))"

subsection \<open>Tasks\<close>

definition create_task :: "Task \<Rightarrow> unit op" where
  "create_task task = try_write (\<lambda>s.
     rbind (insert_fk task_id
              (has_key project_id (task_project_id task) (st_projects s)
               \<and> ref_ok objective_id (task_objective_id task) (st_objectives s))
              (task\<lparr>task_external_ref_metadata := json_column (task_external_ref_metadata task),
                    task_scope := json_column (task_scope task),
                    task_attempt_metadata := json_column (task_attempt_metadata task)\<rparr>)
              (st_tasks s))
       (\<lambda>rows. Inr (s\<lparr>st_tasks := rows\<rparr>)))"

definition by_priority :: "Task list \<Rightarrow> Task list" where
  "by_priority tasks = order_by_desc task_priority (order_by task_created_at tasks)"

definition list_tasks :: "string option \<Rightarrow> Task list op" where
  "list_tasks project = reads (\<lambda>s.
     by_priority (filter (\<lambda>t. clause project (Some (task_project_id t))) (st_tasks s)))"

definition get_task :: "string \<Rightarrow> Task option op" where
  "get_task i = reads (\<lambda>s. find_key task_id i (st_tasks s))"

definition get_task_by_external_ref :: "string \<Rightarrow> string \<Rightarrow> Task option op" where
  "get_task_by_external_ref ref_type ref_id = reads (\<lambda>s.
     List.find (\<lambda>t. task_external_ref_type t = Some ref_type \<and> task_external_ref_id t = Some ref_id)
       (order_by task_created_at (st_tasks s)))"

text \<open>This query does not select \<open>objective_id\<close>, so the task it returns has none.\<close>

definition next_pending_task :: "string option \<Rightarrow> Task option op" where
  "next_pending_task project = reads (\<lambda>s.
     map_option (\<lambda>t. t\<lparr>task_objective_id := None\<rparr>)
       (List.find (\<lambda>t. task_status t = TS_PENDING \<and> clause project (Some (task_project_id t)))
          (by_priority (st_tasks s))))"

definition find_follow_on_task :: "string \<Rightarrow> string \<Rightarrow> Task option op" where
  "find_follow_on_task parent source_run = reads (\<lambda>s.
     List.find (\<lambda>t. task_parent_task_id t = Some parent \<and> task_source_run_id t = Some source_run)
       (order_by task_created_at (st_tasks s)))"

definition list_child_tasks :: "string \<Rightarrow> Task list op" where
  "list_child_tasks parent = reads (\<lambda>s.
     map (\<lambda>t. t\<lparr>task_objective_id := None\<rparr>)
       (filter (\<lambda>t. task_parent_task_id t = Some parent) (order_by task_created_at (st_tasks s))))"

definition update_task_attempt_metadata :: "string \<Rightarrow> pydict \<Rightarrow> unit op" where
  "update_task_attempt_metadata i metadata =
     bnd (get_task i) (\<lambda>row.
     case row of
       None \<Rightarrow> raise (ValueError (''Unknown task: '' @ i))
     | Some t \<Rightarrow>
         let existing = dict_update (task_attempt_metadata t) metadata in
         bnd utc_now (\<lambda>now. writes (\<lambda>s. s\<lparr>st_tasks := update_where (\<lambda>x. task_id x = i)
           (\<lambda>x. x\<lparr>task_attempt_metadata := json_column existing, task_updated_at := now\<rparr>)
           (st_tasks s)\<rparr>)))"

definition update_task_external_metadata :: "string \<Rightarrow> pydict \<Rightarrow> unit op" where
  "update_task_external_metadata i metadata =
     bnd utc_now (\<lambda>now. writes (\<lambda>s. s\<lparr>st_tasks := update_where (\<lambda>x. task_id x = i)
       (\<lambda>x. x\<lparr>task_external_ref_metadata := json_column metadata, task_updated_at := now\<rparr>)
       (st_tasks s)\<rparr>))"

subsection \<open>The status of an objective, derived from its tasks\<close>

definition completed_refs :: "Task list \<Rightarrow> (string \<times> string) set" where
  "completed_refs rows =
     set (map (\<lambda>t. (py_strip (opt_str (task_external_ref_type t)), py_strip (opt_str (task_external_ref_id t))))
       (filter (\<lambda>t. task_status t = TS_COMPLETED \<and> py_strip (opt_str (task_external_ref_type t)) \<noteq> []
          \<and> py_strip (opt_str (task_external_ref_id t)) \<noteq> []) rows))"

definition completed_dimensions :: "Task list \<Rightarrow> string set" where
  "completed_dimensions rows =
     set (filter (\<lambda>d. d \<noteq> []) (map (\<lambda>t. remediation_dimension (task_external_ref_metadata t))
       (filter (\<lambda>t. task_status t = TS_COMPLETED) rows)))"

definition effective_statuses :: "Task list \<Rightarrow> TaskStatus list" where
  "effective_statuses rows =
     map task_status (filter (\<lambda>t.
       \<not> (task_ignored_for_objective_phase (task_status t) (task_external_ref_metadata t)
          \<or> task_superseded_by_completed_peer (task_status t) (task_external_ref_type t)
              (task_external_ref_id t) (task_external_ref_metadata t)
              (completed_refs rows) (completed_dimensions rows))) rows)"

definition derived_status :: "Task list \<Rightarrow> ObjectiveStatus" where
  "derived_status rows =
     (let effective = effective_statuses rows; ignored = map task_status rows in
      if effective = [] then
        (if list_ex (\<lambda>s. s = TS_ACTIVE) ignored then OS_EXECUTING
         else if list_ex (\<lambda>s. s = TS_PENDING) ignored then OS_PLANNING
         else OS_RESOLVED)
      else if list_ex (\<lambda>s. s = TS_ACTIVE) effective then OS_EXECUTING
      else if list_all (\<lambda>s. s = TS_COMPLETED) effective then OS_RESOLVED
      else if list_ex (\<lambda>s. s = TS_PENDING) effective then OS_PLANNING
      else OS_PAUSED)"

definition update_objective_phase :: "string \<Rightarrow> ObjectiveStatus option op" where
  "update_objective_phase objective =
     bnd (reads (\<lambda>s. filter (\<lambda>t. task_objective_id t = Some objective) (st_tasks s))) (\<lambda>rows.
     if rows = [] then ret None
     else let phase = derived_status rows in
       bnd utc_now (\<lambda>now.
       bnd (writes (\<lambda>s. s\<lparr>st_objectives := update_where (\<lambda>x. objective_id x = objective)
              (\<lambda>x. x\<lparr>objective_status := phase, objective_updated_at := now\<rparr>) (st_objectives s)\<rparr>)) (\<lambda>_.
       ret (Some phase))))"

definition update_task_status :: "string \<Rightarrow> TaskStatus \<Rightarrow> unit op" where
  "update_task_status i status =
     bnd (get_task i) (\<lambda>row.
     case row of
       None \<Rightarrow> raise (ValueError (''Unknown task: '' @ i))
     | Some t \<Rightarrow>
         bnd (lift_result (validate_task_transition (task_status t) status)) (\<lambda>_.
         bnd utc_now (\<lambda>now.
         bnd (writes (\<lambda>s. s\<lparr>st_tasks := update_where (\<lambda>x. task_id x = i)
                (\<lambda>x. x\<lparr>task_status := status, task_updated_at := now\<rparr>) (st_tasks s)\<rparr>)) (\<lambda>_.
         case task_objective_id t of
           None \<Rightarrow> ret ()
         | Some objective \<Rightarrow> if objective = [] then ret ()
             else bnd (update_objective_phase objective) (\<lambda>_. ret ())))))"

subsection \<open>Leases\<close>

definition project_lease_count :: "string \<Rightarrow> store \<Rightarrow> int" where
  "project_lease_count project s =
     int (length (filter (\<lambda>l. case find_key task_id (lease_task_id l) (st_tasks s) of
                                None \<Rightarrow> False | Some t \<Rightarrow> task_project_id t = project)
                   (st_task_leases s)))"

definition project_cap :: "string \<Rightarrow> store \<Rightarrow> int" where
  "project_cap project s =
     (case find_key project_id project (st_projects s) of
        None \<Rightarrow> 0 | Some p \<Rightarrow> project_max_concurrent_tasks p)"

definition has_capacity :: "store \<Rightarrow> Task \<Rightarrow> bool" where
  "has_capacity s t \<longleftrightarrow> (let cap = project_cap (task_project_id t) s in
     0 < cap \<longrightarrow> project_lease_count (task_project_id t) s < cap)"

definition lease_candidates :: "string option \<Rightarrow> string list option \<Rightarrow> store \<Rightarrow> Task list" where
  "lease_candidates project exclude s =
     by_priority (filter (\<lambda>t. task_status t = TS_PENDING
        \<and> \<not> has_key lease_task_id (task_id t) (st_task_leases s)
        \<and> clause project (Some (task_project_id t))
        \<and> (case exclude of None \<Rightarrow> True | Some ids \<Rightarrow> task_id t \<notin> set ids)) (st_tasks s))"

definition acquire_task_lease ::
  "string \<Rightarrow> int \<Rightarrow> string option \<Rightarrow> string list option \<Rightarrow> Task option op" where
  "acquire_task_lease worker lease_seconds project exclude =
     bnd utc_now (\<lambda>now.
     let expires_at = now + lease_seconds * 1000000 in
     bnd (writes (\<lambda>s. s\<lparr>st_task_leases :=
            delete_where (\<lambda>l. lease_lease_expires_at l \<le> now) (st_task_leases s)\<rparr>)) (\<lambda>_.
     bnd (reads (\<lambda>s. List.find (has_capacity s) (lease_candidates project exclude s))) (\<lambda>candidate.
     case candidate of
       None \<Rightarrow> ret None
     | Some t \<Rightarrow>
         bnd (reads (\<lambda>s. insert_fk lease_task_id (has_key task_id (task_id t) (st_tasks s))
                \<lparr>lease_task_id = task_id t, lease_worker_id = worker,
                 lease_lease_expires_at = expires_at, lease_created_at = now\<rparr> (st_task_leases s)))
           (\<lambda>outcome. case outcome of
              Inl e \<Rightarrow> ret None
            | Inr rows \<Rightarrow> bnd (writes (\<lambda>s. s\<lparr>st_task_leases := rows\<rparr>)) (\<lambda>_. get_task (task_id t))))))"

definition release_task_lease :: "string \<Rightarrow> string option \<Rightarrow> unit op" where
  "release_task_lease task worker =
     writes (\<lambda>s. s\<lparr>st_task_leases := delete_where (\<lambda>l. lease_task_id l = task
        \<and> (case worker of None \<Rightarrow> True | Some w \<Rightarrow> lease_worker_id l = w)) (st_task_leases s)\<rparr>)"

subsection \<open>Plans\<close>

definition create_plan :: "Plan \<Rightarrow> unit op" where
  "create_plan plan = try_write (\<lambda>s.
     rbind (insert_fk plan_id (has_key objective_id (plan_objective_id plan) (st_objectives s))
              (plan\<lparr>plan_slice := json_column (plan_slice plan),
                    plan_atomicity_assessment := json_column (plan_atomicity_assessment plan)\<rparr>)
              (st_plans s))
       (\<lambda>rows. Inr (s\<lparr>st_plans := rows\<rparr>)))"

definition get_plan :: "string \<Rightarrow> Plan option op" where
  "get_plan i = reads (\<lambda>s. find_key plan_id i (st_plans s))"

definition list_plans_for_objective :: "string \<Rightarrow> Plan list op" where
  "list_plans_for_objective objective = reads (\<lambda>s.
     order_by plan_created_at (order_by plan_id
       (filter (\<lambda>p. plan_objective_id p = objective) (st_plans s))))"

definition get_plan_by_node :: "string \<Rightarrow> string \<Rightarrow> Plan option op" where
  "get_plan_by_node objective node = reads (\<lambda>s.
     List.find (\<lambda>p. plan_objective_id p = objective \<and> plan_mermaid_node_id p = Some node)
       (order_by_desc plan_plan_revision (st_plans s)))"

end
