(* ===== verification/Record_Store.thy ===== *)
theory Record_Store
  imports Task_Store
begin

section \<open>Objectives, context, runs, events\<close>

text \<open>
  The remaining mixins of \<open>SQLiteHarnessStore\<close>: \<open>persistence/context_records.py\<close>,
  \<open>persistence/run_records.py\<close>, \<open>persistence/events_metrics.py\<close>,
  \<open>persistence/failure_patterns.py\<close>, and the operations of \<open>store.py\<close> itself. The webhook that
  \<open>create_event\<close> calls after its insert is not part of the state.
\<close>

subsection \<open>Objectives\<close>

definition create_objective :: "Objective \<Rightarrow> unit op" where
  "create_objective objective = try_write (\<lambda>s.
     rbind (insert_fk objective_id (has_key project_id (objective_project_id objective) (st_projects s))
              objective (st_objectives s))
       (\<lambda>rows. Inr (s\<lparr>st_objectives := rows\<rparr>)))"

definition list_objectives :: "string option \<Rightarrow> Objective list op" where
  "list_objectives project = reads (\<lambda>s.
     order_by_desc objective_priority (order_by objective_created_at
       (filter (\<lambda>x. clause project (Some (objective_project_id x))) (st_objectives s))))"

text \<open>This query does not select \<open>phase\<close>, so \<open>objective_from_row\<close> falls back to \<open>CREATED\<close>.\<close>

definition get_objective :: "string \<Rightarrow> Objective option op" where
  "get_objective i = reads (\<lambda>s.
     map_option (\<lambda>x. x\<lparr>objective_phase := OP_CREATED\<rparr>) (find_key objective_id i (st_objectives s)))"

definition update_objective_status :: "string \<Rightarrow> ObjectiveStatus \<Rightarrow> unit op" where
  "update_objective_status i status =
     bnd utc_now (\<lambda>now. writes (\<lambda>s. s\<lparr>st_objectives := update_where (\<lambda>x. objective_id x = i)
       (\<lambda>x. x\<lparr>objective_status := status, objective_updated_at := now\<rparr>) (st_objectives s)\<rparr>))"

definition set_objective_phase :: "string \<Rightarrow> ObjectivePhase \<Rightarrow> ObjectiveStatus option \<Rightarrow> unit op" where
  "set_objective_phase i phase status =
     (let resolved_status = (case status of Some x \<Rightarrow> x | None \<Rightarrow> PHASE_TO_STATUS phase) in
      bnd utc_now (\<lambda>now. writes (\<lambda>s. s\<lparr>st_objectives := update_where (\<lambda>x. objective_id x = i)
        (\<lambda>x. x\<lparr>objective_phase := phase, objective_status := resolved_status,
               objective_updated_at := now\<rparr>) (st_objectives s)\<rparr>)))"

subsection \<open>Intent models and diagrams\<close>

definition create_intent_model :: "IntentModel \<Rightarrow> unit op" where
  "create_intent_model im = try_write (\<lambda>s.
     if list_ex (\<lambda>x. im_objective_id x = im_objective_id im \<and> im_version x = im_version im)
          (st_intent_models s)
     then Inl (IntegrityError ''UNIQUE constraint failed'')
     else rbind (insert_fk im_id (has_key objective_id (im_objective_id im) (st_objectives s))
                   im (st_intent_models s))
            (\<lambda>rows. Inr (s\<lparr>st_intent_models := rows\<rparr>)))"

definition list_intent_models :: "string \<Rightarrow> IntentModel list op" where
  "list_intent_models objective = reads (\<lambda>s. order_by im_version (order_by im_created_at
     (filter (\<lambda>x. im_objective_id x = objective) (st_intent_models s))))"

definition last_option :: "'a list \<Rightarrow> 'a option" where
  "last_option xs = (if xs = [] then None else Some (last xs))"

definition latest_intent_model :: "string \<Rightarrow> IntentModel option op" where
  "latest_intent_model objective =
     bnd (list_intent_models objective) (\<lambda>models. ret (last_option models))"

text \<open>\<open>COALESCE(MAX(version), 0)\<close>.\<close>

definition max_or_zero :: "int list \<Rightarrow> int" where
  "max_or_zero xs = (if xs = [] then 0 else Max (set xs))"

definition next_intent_model_version :: "string \<Rightarrow> int op" where
  "next_intent_model_version objective = reads (\<lambda>s.
     max_or_zero (map im_version (filter (\<lambda>x. im_objective_id x = objective) (st_intent_models s))) + 1)"

definition create_mermaid_artifact :: "MermaidArtifact \<Rightarrow> unit op" where
  "create_mermaid_artifact artifact = try_write (\<lambda>s.
     if list_ex (\<lambda>x. mm_objective_id x = mm_objective_id artifact
          \<and> mm_diagram_type x = mm_diagram_type artifact \<and> mm_version x = mm_version artifact)
          (st_mermaid_artifacts s)
     then Inl (IntegrityError ''UNIQUE constraint failed'')
     else rbind (insert_fk mm_id (has_key objective_id (mm_objective_id artifact) (st_objectives s))
                   artifact (st_mermaid_artifacts s))
            (\<lambda>rows. Inr (s\<lparr>st_mermaid_artifacts := rows\<rparr>)))"

definition list_mermaid_artifacts :: "string \<Rightarrow> string option \<Rightarrow> MermaidArtifact list op" where
  "list_mermaid_artifacts objective diagram_type = reads (\<lambda>s. order_by mm_version (order_by mm_created_at
     (filter (\<lambda>x. mm_objective_id x = objective \<and> clause diagram_type (Some (mm_diagram_type x)))
       (st_mermaid_artifacts s))))"

definition latest_mermaid_artifact :: "string \<Rightarrow> string option \<Rightarrow> MermaidArtifact option op" where
  "latest_mermaid_artifact objective diagram_type =
     bnd (list_mermaid_artifacts objective diagram_type) (\<lambda>artifacts. ret (last_option artifacts))"

definition get_mermaid_artifact :: "string \<Rightarrow> MermaidArtifact option op" where
  "get_mermaid_artifact i = reads (\<lambda>s. find_key mm_id i (st_mermaid_artifacts s))"

definition next_mermaid_version :: "string \<Rightarrow> string \<Rightarrow> int op" where
  "next_mermaid_version objective diagram_type = reads (\<lambda>s.
     max_or_zero (map mm_version (filter (\<lambda>x. mm_objective_id x = objective
        \<and> mm_diagram_type x = diagram_type) (st_mermaid_artifacts s))) + 1)"

definition mark_mermaid_artifact_status :: "string \<Rightarrow> MermaidStatus \<Rightarrow> unit op" where
  "mark_mermaid_artifact_status i status =
     bnd utc_now (\<lambda>now. writes (\<lambda>s. s\<lparr>st_mermaid_artifacts := update_where (\<lambda>x. mm_id x = i)
       (\<lambda>x. x\<lparr>mm_status := status, mm_updated_at := now\<rparr>) (st_mermaid_artifacts s)\<rparr>))"

subsection \<open>Context records and failure patterns\<close>

definition create_context_record :: "ContextRecord \<Rightarrow> unit op" where
  "create_context_record r = try_write (\<lambda>s.
     rbind (insert_fk ctx_id
              (has_key project_id (ctx_project_id r) (st_projects s)
               \<and> ref_ok objective_id (ctx_objective_id r) (st_objectives s)
               \<and> ref_ok task_id (ctx_task_id r) (st_tasks s)
               \<and> ref_ok run_id (ctx_run_id r) (st_runs s))
              (r\<lparr>ctx_metadata := json_column (ctx_metadata r)\<rparr>) (st_context_records s))
       (\<lambda>rows. Inr (s\<lparr>st_context_records := rows\<rparr>)))"

definition list_context_records ::
  "string option \<Rightarrow> string option \<Rightarrow> string option \<Rightarrow> string option \<Rightarrow> string option \<Rightarrow> ContextRecord list op"
where
  "list_context_records project objective task run record_type = reads (\<lambda>s.
     order_by ctx_created_at (filter (\<lambda>r. clause project (Some (ctx_project_id r))
        \<and> clause objective (ctx_objective_id r) \<and> clause task (ctx_task_id r)
        \<and> clause run (ctx_run_id r) \<and> clause record_type (Some (ctx_record_type r)))
       (st_context_records s)))"

definition create_failure_pattern :: "FailurePatternRecord \<Rightarrow> unit op" where
  "create_failure_pattern r = try_write (\<lambda>s.
     rbind (insert_fk fpr_id
              (has_key task_id (fpr_task_id r) (st_tasks s) \<and> has_key run_id (fpr_run_id r) (st_runs s)
               \<and> ref_ok objective_id (fpr_objective_id r) (st_objectives s))
              (r\<lparr>fpr_details := json_column (fpr_details r)\<rparr>) (st_failure_patterns s))
       (\<lambda>rows. Inr (s\<lparr>st_failure_patterns := rows\<rparr>)))"

definition list_failure_patterns ::
  "string option \<Rightarrow> string option \<Rightarrow> string option \<Rightarrow> FailurePatternRecord list op" where
  "list_failure_patterns task run objective = reads (\<lambda>s.
     order_by fpr_created_at (filter (\<lambda>r. clause task (Some (fpr_task_id r))
        \<and> clause run (Some (fpr_run_id r)) \<and> clause objective (fpr_objective_id r))
       (st_failure_patterns s)))"

subsection \<open>Runs and what hangs on them\<close>

definition next_attempt :: "string \<Rightarrow> int op" where
  "next_attempt task = reads (\<lambda>s.
     max_or_zero (map run_attempt (filter (\<lambda>r. run_task_id r = task) (st_runs s))) + 1)"

definition create_run :: "Run \<Rightarrow> unit op" where
  "create_run run = try_write (\<lambda>s.
     rbind (insert_fk run_id (has_key task_id (run_task_id run) (st_tasks s)) run (st_runs s))
       (\<lambda>rows. Inr (s\<lparr>st_runs := rows\<rparr>)))"

definition update_run :: "Run \<Rightarrow> unit op" where
  "update_run run = writes (\<lambda>s. s\<lparr>st_runs := update_where (\<lambda>r. run_id r = run_id run)
     (\<lambda>r. r\<lparr>run_status := run_status run, run_summary := run_summary run,
            run_updated_at := run_updated_at run\<rparr>) (st_runs s)\<rparr>)"

definition list_runs :: "string option \<Rightarrow> Run list op" where
  "list_runs task = reads (\<lambda>s. order_by run_created_at
     (filter (\<lambda>r. clause task (Some (run_task_id r))) (st_runs s)))"

definition get_run :: "string \<Rightarrow> Run option op" where
  "get_run i = reads (\<lambda>s. find_key run_id i (st_runs s))"

definition create_artifact :: "Artifact \<Rightarrow> unit op" where
  "create_artifact artifact = try_write (\<lambda>s.
     rbind (insert_fk artifact_id (has_key run_id (artifact_run_id artifact) (st_runs s))
              artifact (st_artifacts s))
       (\<lambda>rows. Inr (s\<lparr>st_artifacts := rows\<rparr>)))"

definition list_artifacts :: "string \<Rightarrow> Artifact list op" where
  "list_artifacts run = reads (\<lambda>s. order_by artifact_created_at
     (filter (\<lambda>a. artifact_run_id a = run) (st_artifacts s)))"

definition create_evaluation :: "Evaluation \<Rightarrow> unit op" where
  "create_evaluation evaluation = try_write (\<lambda>s.
     rbind (insert_fk evaluation_id (has_key run_id (evaluation_run_id evaluation) (st_runs s))
              (evaluation\<lparr>evaluation_details := json_column (evaluation_details evaluation)\<rparr>)
              (st_evaluations s))
       (\<lambda>rows. Inr (s\<lparr>st_evaluations := rows\<rparr>)))"

definition list_evaluations :: "string \<Rightarrow> Evaluation list op" where
  "list_evaluations run = reads (\<lambda>s. order_by evaluation_created_at
     (filter (\<lambda>e. evaluation_run_id e = run) (st_evaluations s)))"

definition create_decision :: "Decision \<Rightarrow> unit op" where
  "create_decision decision = try_write (\<lambda>s.
     rbind (insert_fk decision_id (has_key run_id (decision_run_id decision) (st_runs s))
              decision (st_decisions s))
       (\<lambda>rows. Inr (s\<lparr>st_decisions := rows\<rparr>)))"

definition list_decisions :: "string \<Rightarrow> Decision list op" where
  "list_decisions run = reads (\<lambda>s. order_by decision_created_at
     (filter (\<lambda>d. decision_run_id d = run) (st_decisions s)))"

definition create_promotion :: "PromotionRecord \<Rightarrow> unit op" where
  "create_promotion promotion = try_write (\<lambda>s.
     rbind (insert_fk promotion_id
              (has_key task_id (promotion_task_id promotion) (st_tasks s)
               \<and> has_key run_id (promotion_run_id promotion) (st_runs s))
              (promotion\<lparr>promotion_details := json_column (promotion_details promotion)\<rparr>)
              (st_promotions s))
       (\<lambda>rows. Inr (s\<lparr>st_promotions := rows\<rparr>)))"

definition update_promotion :: "PromotionRecord \<Rightarrow> unit op" where
  "update_promotion promotion = writes (\<lambda>s. s\<lparr>st_promotions :=
     update_where (\<lambda>p. promotion_id p = promotion_id promotion)
       (\<lambda>p. p\<lparr>promotion_status := promotion_status promotion,
              promotion_summary := promotion_summary promotion,
              promotion_details := json_column (promotion_details promotion)\<rparr>) (st_promotions s)\<rparr>)"

definition list_promotions :: "string option \<Rightarrow> PromotionRecord list op" where
  "list_promotions task = reads (\<lambda>s. order_by promotion_created_at
     (filter (\<lambda>p. clause task (Some (promotion_task_id p))) (st_promotions s)))"

definition latest_promotion :: "string \<Rightarrow> PromotionRecord option op" where
  "latest_promotion task = bnd (list_promotions (Some task)) (\<lambda>rows. ret (last_option rows))"

subsection \<open>The decision queue\<close>

text \<open>\<open>SELECT datetime('now')\<close> is the clock without the fraction of the second.\<close>

definition sql_now :: "time op" where
  "sql_now = bnd utc_now (\<lambda>now. ret (now div 1000000 * 1000000))"

definition enqueue_decision :: "DecisionQueueItem \<Rightarrow> unit op" where
  "enqueue_decision item = try_write (\<lambda>s.
     rbind (insert_row dqi_id item (st_decision_queue s))
       (\<lambda>rows. Inr (s\<lparr>st_decision_queue := rows\<rparr>)))"

definition dequeue_decision :: "DecisionQueueItem option op" where
  "dequeue_decision =
     bnd (reads (\<lambda>s. List.find (\<lambda>i. dqi_status i = ''pending'')
            (order_by dqi_priority (order_by dqi_created_at (st_decision_queue s))))) (\<lambda>row.
     case row of
       None \<Rightarrow> ret None
     | Some item \<Rightarrow>
         bnd sql_now (\<lambda>now.
         bnd (writes (\<lambda>s. s\<lparr>st_decision_queue := update_where (\<lambda>i. dqi_id i = dqi_id item)
                (\<lambda>i. i\<lparr>dqi_status := ''processing'', dqi_started_at := Some now\<rparr>)
                (st_decision_queue s)\<rparr>)) (\<lambda>_.
         ret (Some (item\<lparr>dqi_status := ''processing'', dqi_started_at := Some now,
                          dqi_completed_at := None\<rparr>)))))"

definition complete_decision :: "string \<Rightarrow> string \<Rightarrow> unit op" where
  "complete_decision i status =
     bnd sql_now (\<lambda>now. writes (\<lambda>s. s\<lparr>st_decision_queue := update_where (\<lambda>x. dqi_id x = i)
       (\<lambda>x. x\<lparr>dqi_status := status, dqi_completed_at := Some now\<rparr>) (st_decision_queue s)\<rparr>))"

subsection \<open>Events\<close>

definition create_event :: "Event \<Rightarrow> unit op" where
  "create_event event = try_write (\<lambda>s.
     rbind (insert_row event_id (event\<lparr>event_payload := json_column (event_payload event)\<rparr>)
              (st_events s))
       (\<lambda>rows. Inr (s\<lparr>st_events := rows\<rparr>)))"

definition list_events :: "string option \<Rightarrow> string option \<Rightarrow> Event list op" where
  "list_events entity_type entity = reads (\<lambda>s. order_by event_created_at
     (filter (\<lambda>e. clause entity_type (Some (event_entity_type e))
        \<and> clause entity (Some (event_entity_id e))) (st_events s)))"

subsection \<open>Recovery after a crash\<close>

definition in_progress :: "RunStatus \<Rightarrow> bool" where
  "in_progress status \<longleftrightarrow>
     status \<in> set [RS_PLANNING, RS_WORKING, RS_VALIDATING, RS_ANALYZING, RS_DECIDING]"

record recovered =
  rec_runs :: nat
  rec_tasks :: nat
  rec_leases :: nat

definition recover_stale_state :: "recovered op" where
  "recover_stale_state =
     bnd utc_now (\<lambda>now.
     bnd (reads (\<lambda>s. length (filter (\<lambda>l. lease_lease_expires_at l \<le> now) (st_task_leases s)))) (\<lambda>leases.
     bnd (writes (\<lambda>s. s\<lparr>st_task_leases :=
            delete_where (\<lambda>l. lease_lease_expires_at l \<le> now) (st_task_leases s)\<rparr>)) (\<lambda>_.
     bnd (reads (\<lambda>s. filter (\<lambda>r. in_progress (run_status r)
            \<and> run_task_id r \<notin> lease_task_id ` set (filter (\<lambda>l. now < lease_lease_expires_at l)
                (st_task_leases s))) (st_runs s))) (\<lambda>stale.
     bnd (writes (\<lambda>s. s\<lparr>st_runs := update_where (\<lambda>r. in_progress (run_status r)
            \<and> run_task_id r \<notin> lease_task_id ` set (filter (\<lambda>l. now < lease_lease_expires_at l)
                (st_task_leases s)))
            (\<lambda>r. r\<lparr>run_status := RS_FAILED, run_summary := ''Recovered: process crash detected'',
                   run_updated_at := now\<rparr>) (st_runs s)\<rparr>)) (\<lambda>_.
     bnd (writes (\<lambda>s. s\<lparr>st_worker_runs := update_where (\<lambda>w. cwr_id w \<in> set (map run_id stale))
            (\<lambda>w. w\<lparr>cwr_status := ''failed'',
                   cwr_classification := (case cwr_classification w of
                      Some c \<Rightarrow> Some c | None \<Rightarrow> Some ''system_failure''),
                   cwr_ended_at := (case cwr_ended_at w of Some e \<Rightarrow> Some e | None \<Rightarrow> Some now)\<rparr>)
            (st_worker_runs s)\<rparr>)) (\<lambda>_.
     bnd (reads (\<lambda>s. length (filter (\<lambda>t. task_status t = TS_ACTIVE
            \<and> task_id t \<notin> lease_task_id ` set (st_task_leases s)) (st_tasks s)))) (\<lambda>tasks.
     bnd (writes (\<lambda>s. s\<lparr>st_tasks := update_where (\<lambda>t. task_status t = TS_ACTIVE
            \<and> task_id t \<notin> lease_task_id ` set (st_task_leases s))
            (\<lambda>t. t\<lparr>task_status := TS_PENDING, task_updated_at := now\<rparr>) (st_tasks s)\<rparr>)) (\<lambda>_.
     ret \<lparr>rec_runs = length stale, rec_tasks = tasks, rec_leases = leases\<rparr>))))))))"

definition store_initialize :: "unit op" where
  "store_initialize =
     bnd (ensure_control_lanes [''api'', ''harness'', ''worker'', ''watch'', ''telegram'']) (\<lambda>_.
     bnd recover_stale_state (\<lambda>_. ret ()))"

definition mark_run :: "Run \<Rightarrow> RunStatus \<Rightarrow> string \<Rightarrow> Run op" where
  "mark_run run status summary =
     bnd utc_now (\<lambda>now.
     let updated = run\<lparr>run_status := status, run_summary := summary, run_updated_at := now\<rparr>
     in bnd (update_run updated) (\<lambda>_. ret updated))"

subsection \<open>Metrics\<close>

definition count_by :: "('a \<Rightarrow> string) \<Rightarrow> 'a list \<Rightarrow> (string \<times> int) list" where
  "count_by f xs = map (\<lambda>k. (k, int (length (filter (\<lambda>x. f x = k) xs)))) (sort (remdups (map f xs)))"

definition get_count :: "string \<Rightarrow> (string \<times> int) list \<Rightarrow> int" where
  "get_count k d = (case map_of d k of None \<Rightarrow> 0 | Some n \<Rightarrow> n)"

record metrics =
  mt_project_id :: "string option"
  mt_tasks_by_status :: "(string \<times> int) list"
  mt_tasks_by_validation_profile :: "(string \<times> int) list"
  mt_total_runs :: int
  mt_average_attempt :: rat
  mt_active_leases :: int
  mt_promotions_by_status :: "(string \<times> int) list"
  mt_pending_promotions :: int
  mt_retry_rate :: rat
  mt_promotion_approval_rate :: rat
  mt_follow_on_task_count :: int

definition in_project :: "string option \<Rightarrow> store \<Rightarrow> string \<Rightarrow> bool" where
  "in_project project s task =
     (case project of
        None \<Rightarrow> True
      | Some p \<Rightarrow> if p = [] then True
          else (case find_key task_id task (st_tasks s) of
                  None \<Rightarrow> False | Some t \<Rightarrow> task_project_id t = p))"

definition metrics_of :: "string option \<Rightarrow> time \<Rightarrow> store \<Rightarrow> metrics" where
  "metrics_of project now s =
     (let tasks = filter (\<lambda>t. clause project (Some (task_project_id t))) (st_tasks s);
          runs = filter (\<lambda>r. in_project project s (run_task_id r)) (st_runs s);
          promotions = filter (\<lambda>p. in_project project s (promotion_task_id p)) (st_promotions s);
          by_status = count_by (\<lambda>p. PromotionStatus_value (promotion_status p)) promotions;
          total_runs = int (length runs);
          retried_runs = int (length (filter (\<lambda>r. 1 < run_attempt r) runs));
          approved = get_count ''approved'' by_status;
          rejected = get_count ''rejected'' by_status;
          total_promotions = approved + rejected
      in \<lparr>mt_project_id = project,
          mt_tasks_by_status = count_by (\<lambda>t. TaskStatus_value (task_status t)) tasks,
          mt_tasks_by_validation_profile = count_by task_validation_profile tasks,
          mt_total_runs = total_runs,
          mt_average_attempt =
            (if runs = [] then 0 else of_int (sum_list (map run_attempt runs)) / of_int total_runs),
          mt_active_leases = int (length (filter (\<lambda>l. now < lease_lease_expires_at l
             \<and> in_project project s (lease_task_id l)) (st_task_leases s))),
          mt_promotions_by_status = by_status,
          mt_pending_promotions = get_count ''pending'' by_status,
          mt_retry_rate = (if total_runs \<noteq> 0 then of_int retried_runs / of_int total_runs else 0),
          mt_promotion_approval_rate =
            (if total_promotions \<noteq> 0 then of_int approved / of_int total_promotions else 0),
          mt_follow_on_task_count = int (length (filter (\<lambda>t. task_parent_task_id t \<noteq> None) tasks))\<rparr>)"

definition metrics_snapshot :: "string option \<Rightarrow> metrics op" where
  "metrics_snapshot project = bnd utc_now (\<lambda>now. reads (metrics_of project now))"

end
