(* ===== verification/Task_Props.thy ===== *)
theory Task_Props
  imports Task_Store "HOL-Library.Multiset"
begin

section \<open>The properties of tasks and leases\<close>

text \<open>
  The task table and the lease table under any sequence of the store's calls: the invariant of
  the leases with the cap on concurrent tasks, the history of a task's status, the choice that
  \<open>acquire_task_lease\<close> makes, and the status it derives for an objective.
\<close>

datatype task_call =
    CreateTask Task
  | UpdateTaskStatus string TaskStatus
  | UpdateAttempt string pydict
  | UpdateExternal string pydict
  | UpdateObjective string
  | AcquireLease string int "string option" "string list option"
  | ReleaseLease string "string option"
  | ListLeases "string option"

definition void :: "('s, 'a) prog \<Rightarrow> ('s, unit) prog" where
  "void m = bnd m (\<lambda>_. ret ())"

fun run_task_call :: "task_call \<Rightarrow> unit op" where
  "run_task_call (CreateTask t) = create_task t"
| "run_task_call (UpdateTaskStatus i st) = update_task_status i st"
| "run_task_call (UpdateAttempt i d) = update_task_attempt_metadata i d"
| "run_task_call (UpdateExternal i d) = update_task_external_metadata i d"
| "run_task_call (UpdateObjective i) = void (update_objective_phase i)"
| "run_task_call (AcquireLease w n p x) = void (acquire_task_lease w n p x)"
| "run_task_call (ReleaseLease t w) = release_task_lease t w"
| "run_task_call (ListLeases p) = void (list_task_leases p)"

fun run_task_calls :: "task_call list \<Rightarrow> store \<Rightarrow> store" where
  "run_task_calls [] s = s"
| "run_task_calls (c # cs) s = run_task_calls cs (snd (run_task_call c s))"

lemma preserves_run_task_calls:
  "(\<And>c. preserves I (run_task_call c)) \<Longrightarrow> I s \<Longrightarrow> I (run_task_calls cs s)"
  by (induction cs arbitrary: s) (auto dest: preservesD)

lemma preserves_void: "preserves I m \<Longrightarrow> preserves I (void m)"
  unfolding void_def by (intro preserve_rules)

subsection \<open>What each call leaves alone\<close>

text \<open>The columns of the tasks that the calls on leases and objectives read.\<close>

lemma find_key_update:
  assumes "\<And>x. key (f x) = key x"
  shows "find_key key k (update_where p f rows) =
    map_option (\<lambda>x. if p x then f x else x) (find_key key k rows)"
  unfolding update_where_def by (rule find_key_map) (simp add: assms)

lemma keyed_append: "keyed key rows \<Longrightarrow> key r \<notin> key ` set rows \<Longrightarrow> keyed key (rows @ [r])"
  by (auto simp: keyed_def)

lemma insert_fk_Inr:
  "insert_fk key ok r rows = Inr rows' \<longleftrightarrow> key r \<notin> key ` set rows \<and> ok \<and> rows' = rows @ [r]"
  by (auto simp: insert_fk_def has_key_iff)

subsection \<open>Leases\<close>

definition lease_count :: "string \<Rightarrow> Task list \<Rightarrow> TaskLease list \<Rightarrow> nat" where
  "lease_count project tasks leases =
     length (filter (\<lambda>l. case find_key task_id (lease_task_id l) tasks of
                           None \<Rightarrow> False | Some t \<Rightarrow> task_project_id t = project) leases)"

text \<open>One lease per task, every lease on a task that exists, and no project with a positive
  \<open>max_concurrent_tasks\<close> over it.\<close>

definition leases_ok :: "store \<Rightarrow> bool" where
  "leases_ok s \<longleftrightarrow> keyed lease_task_id (st_task_leases s) \<and> keyed task_id (st_tasks s)
     \<and> (\<forall>l\<in>set (st_task_leases s). find_key task_id (lease_task_id l) (st_tasks s) \<noteq> None)
     \<and> (\<forall>p. 0 < project_cap p s \<longrightarrow> project_lease_count p s \<le> project_cap p s)"

lemma project_lease_count_alt: "project_lease_count p s = int (lease_count p (st_tasks s) (st_task_leases s))"
  by (simp add: project_lease_count_def lease_count_def)

lemma lease_count_delete: "lease_count p ts (delete_where q ls) \<le> lease_count p ts ls"
  by (induction ls) (auto simp: lease_count_def delete_where_def)

lemma leases_ok_delete:
  assumes "leases_ok s"
  shows "leases_ok (s\<lparr>st_task_leases := delete_where q (st_task_leases s)\<rparr>)"
proof -
  have "int (lease_count p (st_tasks s) (delete_where q (st_task_leases s))) \<le> project_cap p s"
    if "0 < project_cap p s" for p
  proof -
    have "int (lease_count p (st_tasks s) (st_task_leases s)) \<le> project_cap p s"
      using assms that by (simp add: leases_ok_def project_lease_count_alt)
    with lease_count_delete [of p "st_tasks s" q "st_task_leases s"] show ?thesis by linarith
  qed
  moreover have "project_cap p (s\<lparr>st_task_leases := delete_where q (st_task_leases s)\<rparr>) = project_cap p s" for p
    by (simp add: project_cap_def)
  moreover have "set (delete_where q (st_task_leases s)) \<subseteq> set (st_task_leases s)"
    by (auto simp: delete_where_def)
  ultimately show ?thesis
    using assms by (auto simp: leases_ok_def project_lease_count_alt keyed_delete)
qed

lemma leases_ok_tasks:
  assumes "leases_ok s" and f: "\<And>x. task_id (f x) = task_id x" "\<And>x. task_project_id (f x) = task_project_id x"
  shows "leases_ok (s\<lparr>st_tasks := update_where q f (st_tasks s)\<rparr>)"
proof -
  have find: "find_key task_id k (update_where q f (st_tasks s)) =
      map_option (\<lambda>x. if q x then f x else x) (find_key task_id k (st_tasks s))" for k
    by (rule find_key_update) (rule f(1))
  have "lease_count p (update_where q f (st_tasks s)) (st_task_leases s) =
      lease_count p (st_tasks s) (st_task_leases s)" for p
    unfolding lease_count_def find
    by (rule arg_cong [where f = length], rule filter_cong) (auto simp: f split: option.split)
  then show ?thesis
    using assms(1) by (simp add: leases_ok_def project_lease_count_alt find project_cap_def
        keyed_update_where [of task_id f, OF f(1)])
qed

lemma leases_ok_frame [simp]:
  "leases_ok (s\<lparr>st_ticks := n\<rparr>) = leases_ok s"
  "leases_ok (s\<lparr>st_objectives := os\<rparr>) = leases_ok s"
  by (simp_all add: leases_ok_def project_cap_def project_lease_count_def)

lemma leases_ok_create:
  assumes ok: "leases_ok s" and new: "task_id t \<notin> task_id ` set (st_tasks s)"
  shows "leases_ok (s\<lparr>st_tasks := st_tasks s @ [t]\<rparr>)"
proof -
  have find: "find_key task_id (lease_task_id l) (st_tasks s @ [t]) = find_key task_id (lease_task_id l) (st_tasks s)"
    if "l \<in> set (st_task_leases s)" for l
    using ok that by (auto simp: leases_ok_def find_key_append split: option.split)
  have "lease_count p (st_tasks s @ [t]) (st_task_leases s) = lease_count p (st_tasks s) (st_task_leases s)" for p
    unfolding lease_count_def
    by (rule arg_cong [where f = length], rule filter_cong) (auto simp: find)
  then show ?thesis
    using ok new find by (simp add: leases_ok_def project_lease_count_alt project_cap_def keyed_append)
qed

lemma leases_ok_insert:
  assumes ok: "leases_ok s" and t: "t \<in> set (st_tasks s)" and cap: "has_capacity s t"
    and l: "lease_task_id l = task_id t" and free: "task_id t \<notin> lease_task_id ` set (st_task_leases s)"
  shows "leases_ok (s\<lparr>st_task_leases := st_task_leases s @ [l]\<rparr>)"
proof -
  from ok t have find: "find_key task_id (lease_task_id l) (st_tasks s) = Some t"
    by (simp add: l leases_ok_def keyed_find)
  have "lease_count p (st_tasks s) (st_task_leases s @ [l]) =
      lease_count p (st_tasks s) (st_task_leases s) + (if p = task_project_id t then 1 else 0)" for p
    by (simp add: lease_count_def find)
  then show ?thesis
    using ok cap find free l
    by (auto simp: leases_ok_def project_lease_count_alt project_cap_def has_capacity_def Let_def
        keyed_append)
qed

lemma preserves_now [preserve_rules]: "preserves leases_ok utc_now"
  by (simp add: preserves_def utc_now_def)

lemma preserves_acquire: "preserves leases_ok (acquire_task_lease w n p x)"
  unfolding preserves_def
proof (intro allI impI)
  fix s
  assume ok: "leases_ok s"
  let ?now = "st_clock s (st_ticks s)"
  let ?s = "s\<lparr>st_ticks := Suc (st_ticks s),
    st_task_leases := delete_where (\<lambda>l. lease_lease_expires_at l \<le> ?now) (st_task_leases s)\<rparr>"
  have ok': "leases_ok ?s"
    using leases_ok_delete [of "s\<lparr>st_ticks := Suc (st_ticks s)\<rparr>"] ok by simp
  show "leases_ok (snd (acquire_task_lease w n p x s))"
  proof (cases "List.find (has_capacity ?s) (lease_candidates p x ?s)")
    case None
    with ok' show ?thesis
      by (simp add: acquire_task_lease_def bnd_run utc_now_def ret_run)
  next
    case (Some t)
    then have "t \<in> set (lease_candidates p x ?s)" and cap: "has_capacity ?s t"
      by (auto simp: find_Some_iff)
    then have t: "t \<in> set (st_tasks ?s)" "task_id t \<notin> lease_task_id ` set (st_task_leases ?s)"
      by (auto simp: lease_candidates_def by_priority_def has_key_iff)
    let ?l = "\<lparr>lease_task_id = task_id t, lease_worker_id = w,
      lease_lease_expires_at = ?now + n * 1000000, lease_created_at = ?now\<rparr>"
    have "insert_fk lease_task_id (has_key task_id (task_id t) (st_tasks ?s)) ?l (st_task_leases ?s) =
        Inr (st_task_leases ?s @ [?l])"
      using t by (auto simp: insert_fk_Inr has_key_iff)
    then have "snd (acquire_task_lease w n p x s) = ?s\<lparr>st_task_leases := st_task_leases ?s @ [?l]\<rparr>"
      using Some by (simp add: acquire_task_lease_def bnd_run utc_now_def get_task_def)
    with leases_ok_insert [OF ok' t(1) cap _ t(2), of ?l] show ?thesis by simp
  qed
qed

lemma leases_ok_calls: "preserves leases_ok (run_task_call c)"
proof (cases c)
  case (CreateTask t)
  then show ?thesis
    by (auto simp: create_task_def preserves_def try_write_def rbind_Inr_iff insert_fk_Inr
        intro!: leases_ok_create split: sum.split)
next
  case (AcquireLease w n p x)
  then show ?thesis by (simp add: preserves_void preserves_acquire)
qed (auto simp: update_task_status_def update_task_attempt_metadata_def Let_def
    update_task_external_metadata_def update_objective_phase_def release_task_lease_def
    list_task_leases_def get_task_def
    intro!: preserve_rules preserves_void preserves_writes leases_ok_tasks leases_ok_delete)

text \<open>C16. The caps on concurrent work hold through every sequence of calls on tasks and leases:
  at most one lease per task, every lease on an existing task, and never more leases on a
  project than its positive \<open>max_concurrent_tasks\<close>, also when calls raise in between.\<close>

theorem lease_caps_hold:
  assumes "leases_ok s"
  shows "leases_ok (run_task_calls cs s)"
  by (rule preserves_run_task_calls [OF leases_ok_calls assms])

lemma lease_caps_hold_witness:
  "leases_ok (run_task_calls [AcquireLease ''w1'' 60 None None, ListLeases None] (empty_store 0))"
  using lease_caps_hold [of "empty_store 0" "[AcquireLease ''w1'' 60 None None, ListLeases None]"]
  by (simp add: leases_ok_def empty_store_def keyed_def project_lease_count_def)

subsection \<open>The choice of a task\<close>

lemma find_first:
  assumes "sorted (map f xs)" and "List.find p xs = Some x" and "y \<in> set xs" and "p y"
  shows "f x \<le> (f y :: 'k::linorder)"
proof -
  from assms(2) obtain i where i: "i < length xs" "x = xs ! i" and first: "\<forall>j<i. \<not> p (xs ! j)"
    by (auto simp: find_Some_iff)
  from assms(3) obtain j where j: "j < length xs" "y = xs ! j" by (auto simp: in_set_conv_nth)
  have "i \<le> j" using first assms(4) j by (metis linorder_not_less)
  with assms(1) i j show ?thesis
    using sorted_nth_mono [of "map f xs" i j] by simp
qed

lemma sorted_by_priority: "sorted (map (\<lambda>t. - task_priority t) (by_priority ts))"
  by (simp add: by_priority_def order_by_desc_def)


definition demo_task :: Task where
  "demo_task = \<lparr>task_id = ''t1'', task_project_id = ''p1'', task_title = ''Title'', task_objective = ''Do'',
     task_objective_id = Some ''o1'', task_plan_id = None, task_mermaid_node_id = None,
     task_priority = 100, task_parent_task_id = None, task_source_run_id = None,
     task_external_ref_type = None, task_external_ref_id = None, task_external_ref_metadata = [],
     task_validation_profile = ''generic'', task_validation_mode = ''default_focused'',
     task_scope = [], task_strategy = ''default'', task_max_attempts = 3, task_max_branches = 1,
     task_required_artifacts = [], task_attempt_metadata = [], task_status = TS_PENDING,
     task_created_at = 0, task_updated_at = 0\<rparr>"


subsection \<open>The history of a task\<close>

text \<open>A task without the columns that may change.\<close>

definition task_core :: "Task \<Rightarrow> Task" where
  "task_core t = t\<lparr>task_external_ref_metadata := [], task_attempt_metadata := [],
     task_status := TS_PENDING, task_updated_at := 0\<rparr>"

definition task_kept :: "Task \<Rightarrow> Task \<Rightarrow> bool" where
  "task_kept t u \<longleftrightarrow> (task_status t = TS_COMPLETED \<longrightarrow> task_status u = TS_COMPLETED)
     \<and> task_core u = task_core t"

lemma task_core_update [simp]:
  "task_core (t\<lparr>task_external_ref_metadata := m, task_updated_at := n\<rparr>) = task_core t"
  "task_core (t\<lparr>task_attempt_metadata := m, task_updated_at := n\<rparr>) = task_core t"
  "task_core (t\<lparr>task_status := st, task_updated_at := n\<rparr>) = task_core t"
  by (simp_all add: task_core_def)

lemma validate_completed:
  "validate_task_transition TS_COMPLETED st = Inr u \<Longrightarrow> st = TS_COMPLETED"
  by (auto simp: validate_task_transition_def VALID_TASK_TRANSITIONS_def split: if_splits)

definition task_there :: "Task \<Rightarrow> store \<Rightarrow> bool" where
  "task_there t s \<longleftrightarrow> (\<exists>u. find_key task_id (task_id t) (st_tasks s) = Some u \<and> task_kept t u)"

lemma task_there_frame [simp]:
  "task_there t (s\<lparr>st_ticks := n\<rparr>) = task_there t s"
  "task_there t (s\<lparr>st_objectives := os\<rparr>) = task_there t s"
  "task_there t (s\<lparr>st_task_leases := ls\<rparr>) = task_there t s"
  by (simp_all add: task_there_def)

lemma task_there_update:
  assumes "task_there t s" and "\<And>x. task_id (f x) = task_id x"
    and "\<And>u. find_key task_id (task_id t) (st_tasks s) = Some u \<Longrightarrow> task_kept t u \<Longrightarrow> q u \<Longrightarrow> task_kept t (f u)"
  shows "task_there t (s\<lparr>st_tasks := update_where q f (st_tasks s)\<rparr>)"
proof -
  from assms(1) obtain u where u: "find_key task_id (task_id t) (st_tasks s) = Some u" "task_kept t u"
    by (auto simp: task_there_def)
  have "find_key task_id (task_id t) (update_where q f (st_tasks s)) = Some (if q u then f u else u)"
    using u(1) by (simp add: find_key_update [of task_id f, OF assms(2)])
  moreover have "task_kept t (if q u then f u else u)"
    using assms(3) [OF u] u(2) by simp
  ultimately show ?thesis by (simp add: task_there_def)
qed

lemma kept_now: "preserves (task_there t) utc_now"
  by (simp add: preserves_def utc_now_def)

lemma kept_update_status: "preserves (task_there t) (update_task_status i st)"
  unfolding preserves_def
proof (intro allI impI)
  fix s
  assume there: "task_there t s"
  have upd: "preserves (task_there t) (update_objective_phase o1)" for o1
    unfolding update_objective_phase_def Let_def
    by (intro preserve_rules kept_now preserves_writes) simp
  show "task_there t (snd (update_task_status i st s))"
  proof (cases "find_key task_id i (st_tasks s)")
    case None
    with there show ?thesis by (simp add: update_task_status_def get_task_def raise_run)
  next
    case (Some x)
    show ?thesis
    proof (cases "validate_task_transition (task_status x) st")
      case (Inl e)
      with Some there show ?thesis
        by (simp add: update_task_status_def get_task_def bnd_run lift_result_run)
    next
      case (Inr u)
      let ?s = "s\<lparr>st_ticks := Suc (st_ticks s), st_tasks := update_where (\<lambda>x. task_id x = i)
        (\<lambda>x. x\<lparr>task_status := st, task_updated_at := st_clock s (st_ticks s)\<rparr>) (st_tasks s)\<rparr>"
      have "task_there t (s\<lparr>st_tasks := update_where (\<lambda>x. task_id x = i)
          (\<lambda>x. x\<lparr>task_status := st, task_updated_at := st_clock s (st_ticks s)\<rparr>) (st_tasks s)\<rparr>)"
      proof (rule task_there_update [OF there])
        fix u
        assume u: "find_key task_id (task_id t) (st_tasks s) = Some u" "task_kept t u" "task_id u = i"
        with Some find_key_Some [OF u(1)] have "u = x" by simp
        with u(2) Inr validate_completed
        show "task_kept t (u\<lparr>task_status := st, task_updated_at := st_clock s (st_ticks s)\<rparr>)"
          by (auto simp: task_kept_def)
      qed simp
      then have "task_there t ?s" by (simp add: task_there_def)
      moreover have "snd (update_task_status i st s) = (case task_objective_id x of None \<Rightarrow> ?s
          | Some o1 \<Rightarrow> if o1 = [] then ?s else snd (update_objective_phase o1 ?s))"
        using Some Inr
        by (auto simp: update_task_status_def get_task_def bnd_run lift_result_run utc_now_def ret_run
            split: option.split prod.split sum.split)
      ultimately show ?thesis using upd by (auto simp: preserves_def split: option.split)
    qed
  qed
qed

lemma kept_calls: "preserves (task_there t) (run_task_call c)"
proof (cases c)
  case (CreateTask x)
  then show ?thesis
    by (auto simp: create_task_def preserves_def try_write_def rbind_Inr_iff insert_fk_Inr
        task_there_def find_key_append split: sum.split)
next
  case (UpdateTaskStatus i st)
  then show ?thesis by (simp add: kept_update_status)
qed (auto simp: update_task_attempt_metadata_def Let_def acquire_task_lease_def
    update_task_external_metadata_def update_objective_phase_def release_task_lease_def
    list_task_leases_def get_task_def task_kept_def
    intro!: preserve_rules preserves_void kept_now preserves_writes task_there_update
    split: sum.split)

text \<open>Through every sequence of calls on tasks and leases, exceptions included, a task never
  disappears, only its status, its two metadata columns and its update stamp change, and once it
  is completed it stays completed.\<close>

theorem tasks_are_kept:
  assumes "find_key task_id i (st_tasks s) = Some t"
  shows "\<exists>u. find_key task_id i (st_tasks (run_task_calls cs s)) = Some u
    \<and> (task_status t = TS_COMPLETED \<longrightarrow> task_status u = TS_COMPLETED)
    \<and> task_core u = task_core t"
proof -
  have i: "task_id t = i" using find_key_Some [OF assms] by simp
  have "task_there t s" using assms i by (simp add: task_there_def task_kept_def)
  from preserves_run_task_calls [OF kept_calls this, of cs] show ?thesis
    by (simp add: task_there_def task_kept_def i)
qed

lemma tasks_are_kept_witness:
  "\<exists>u. find_key task_id ''t1'' (st_tasks (run_task_calls
       [UpdateTaskStatus ''t1'' TS_COMPLETED, UpdateTaskStatus ''t1'' TS_FAILED]
       ((empty_store 5)\<lparr>st_tasks := [demo_task\<lparr>task_status := TS_COMPLETED\<rparr>]\<rparr>))) = Some u
     \<and> task_status u = TS_COMPLETED"
  using tasks_are_kept [of "''t1''" "(empty_store 5)\<lparr>st_tasks := [demo_task\<lparr>task_status := TS_COMPLETED\<rparr>]\<rparr>"
      "demo_task\<lparr>task_status := TS_COMPLETED\<rparr>"
      "[UpdateTaskStatus ''t1'' TS_COMPLETED, UpdateTaskStatus ''t1'' TS_FAILED]"]
  by (auto simp: demo_task_def)

subsection \<open>The status of an objective\<close>

text \<open>A task counts for its objective unless it is marked obsolete, is a waived failure, or is a
  failed review task whose finding or dimension another task completed.\<close>

definition counts :: "Task list \<Rightarrow> Task \<Rightarrow> bool" where
  "counts rows t \<longleftrightarrow>
     \<not> task_ignored_for_objective_phase (task_status t) (task_external_ref_metadata t)
     \<and> \<not> task_superseded_by_completed_peer (task_status t) (task_external_ref_type t)
           (task_external_ref_id t) (task_external_ref_metadata t)
           (completed_refs rows) (completed_dimensions rows)"

lemma set_effective: "set (effective_statuses rows) = task_status ` {t \<in> set rows. counts rows t}"
  by (auto simp: effective_statuses_def counts_def)

lemma effective_Nil: "effective_statuses rows = [] \<longleftrightarrow> (\<forall>t\<in>set rows. \<not> counts rows t)"
proof -
  have "effective_statuses rows = [] \<longleftrightarrow> set (effective_statuses rows) = {}" by simp
  then show ?thesis unfolding set_effective by blast
qed

lemma completed_counts: "task_status t = TS_COMPLETED \<Longrightarrow> \<not> task_ignored_for_objective_phase TS_COMPLETED (task_external_ref_metadata t) \<Longrightarrow> counts rows t"
  by (simp add: counts_def task_superseded_by_completed_peer_def)

definition deciding :: "Task list \<Rightarrow> Task set" where
  "deciding rows = (if \<exists>t\<in>set rows. counts rows t then {t \<in> set rows. counts rows t}
     else {t \<in> set rows. task_status t = TS_ACTIVE \<or> task_status t = TS_PENDING})"

lemma derived_status_core:
  "derived_status rows =
     (if \<exists>t\<in>deciding rows. task_status t = TS_ACTIVE then OS_EXECUTING
      else if \<forall>t\<in>deciding rows. task_status t = TS_COMPLETED then OS_RESOLVED
      else if \<exists>t\<in>deciding rows. task_status t = TS_PENDING then OS_PLANNING
      else OS_PAUSED)
   \<and> (set rows' = set rows \<longrightarrow> derived_status rows' = derived_status rows)"
proof -
  have main: "derived_status rows =
     (if \<exists>t\<in>deciding rows. task_status t = TS_ACTIVE then OS_EXECUTING
      else if \<forall>t\<in>deciding rows. task_status t = TS_COMPLETED then OS_RESOLVED
      else if \<exists>t\<in>deciding rows. task_status t = TS_PENDING then OS_PLANNING
      else OS_PAUSED)" for rows
  proof (cases "\<exists>t\<in>set rows. counts rows t")
    case True
    then have ne: "effective_statuses rows \<noteq> []" by (auto simp: effective_Nil)
    have "list_ex (\<lambda>s. s = st) (effective_statuses rows) \<longleftrightarrow> (\<exists>t\<in>deciding rows. task_status t = st)" for st
      using True unfolding list_ex_iff set_effective deciding_def by auto
    moreover have "list_all (\<lambda>s. s = TS_COMPLETED) (effective_statuses rows)
        \<longleftrightarrow> (\<forall>t\<in>deciding rows. task_status t = TS_COMPLETED)"
      using True unfolding list_all_iff set_effective deciding_def by auto
    ultimately show ?thesis using ne by (simp add: derived_status_def Let_def)
  next
    case False
    then have ne: "effective_statuses rows = []" by (auto simp: effective_Nil)
    have "list_ex (\<lambda>s. s = TS_ACTIVE) (map task_status rows) \<longleftrightarrow> (\<exists>t\<in>deciding rows. task_status t = TS_ACTIVE)"
      using False unfolding list_ex_iff deciding_def by force
    moreover have "list_ex (\<lambda>s. s = TS_PENDING) (map task_status rows) \<longleftrightarrow> (\<exists>t\<in>deciding rows. task_status t = TS_PENDING)"
      using False unfolding list_ex_iff deciding_def by force
    moreover have "(\<forall>t\<in>deciding rows. task_status t = TS_COMPLETED) \<longleftrightarrow> deciding rows = {}"
      using False by (auto simp: deciding_def)
    moreover have "deciding rows = {} \<longleftrightarrow> \<not> (\<exists>t\<in>deciding rows. task_status t = TS_ACTIVE)
        \<and> \<not> (\<exists>t\<in>deciding rows. task_status t = TS_PENDING)"
      using False by (auto simp: deciding_def)
    ultimately show ?thesis using ne by (simp add: derived_status_def Let_def)
  qed
  have "derived_status rows' = derived_status rows" if "set rows' = set rows"
  proof -
    have "completed_refs rows' = completed_refs rows" "completed_dimensions rows' = completed_dimensions rows"
      using that by (simp_all add: completed_refs_def completed_dimensions_def)
    then have "counts rows' = counts rows" by (simp add: counts_def fun_eq_iff)
    with that have "deciding rows' = deciding rows" by (simp add: deciding_def)
    then show ?thesis by (simp add: main)
  qed
  with main show ?thesis by blast
qed



definition demo_objective :: Objective where
  "demo_objective = \<lparr>objective_id = ''o1'', objective_project_id = ''p1'', objective_title = ''Title'',
     objective_summary = '''', objective_priority = 100, objective_status = OS_RESOLVED,
     objective_phase = OP_REVIEWING, objective_created_at = 0, objective_updated_at = 0\<rparr>"


end
