(* ===== verification/Record_Props.thy ===== *)
theory Record_Props
  imports Record_Store Task_Props
begin

section \<open>The properties of runs, recovery, queue and metrics\<close>

text \<open>
  What recovery after a crash leaves behind, the order in which decisions are taken from the
  queue, version numbers that never collide, the phase that \<open>get_objective\<close> hides, and the
  bounds of the metrics.
\<close>

subsection \<open>Recovery\<close>

text \<open>A run in progress without a live lease on its task, and an active task without a lease.\<close>

definition leased :: "store \<Rightarrow> string \<Rightarrow> bool" where
  "leased s i \<longleftrightarrow> i \<in> lease_task_id ` set (st_task_leases s)"

definition stale :: "time \<Rightarrow> store \<Rightarrow> bool" where
  "stale now s \<longleftrightarrow> (\<exists>r\<in>set (st_runs s). in_progress (run_status r) \<and> \<not> leased s (run_task_id r))
     \<or> (\<exists>t\<in>set (st_tasks s). task_status t = TS_ACTIVE \<and> \<not> leased s (task_id t))
     \<or> (\<exists>l\<in>set (st_task_leases s). lease_lease_expires_at l \<le> now)"

lemma coalesce: "(case x of None \<Rightarrow> Some d | Some c \<Rightarrow> Some c) = Some (case x of None \<Rightarrow> d | Some c \<Rightarrow> c)"
  by (cases x) simp_all

lemma recover_run:
  fixes s :: store
  defines "now \<equiv> st_clock s (st_ticks s)"
  defines "live \<equiv> filter (\<lambda>l. now < lease_lease_expires_at l) (st_task_leases s)"
  shows "\<exists>rec. recover_stale_state s = (Inr rec, s\<lparr>st_ticks := Suc (st_ticks s),
    st_task_leases := live,
    st_runs := map (\<lambda>r. if in_progress (run_status r) \<and> run_task_id r \<notin> lease_task_id ` set live
      then r\<lparr>run_status := RS_FAILED, run_summary := ''Recovered: process crash detected'',
             run_updated_at := now\<rparr> else r) (st_runs s),
    st_worker_runs := map (\<lambda>w. if \<exists>r\<in>set (st_runs s). run_id r = cwr_id w \<and> in_progress (run_status r)
          \<and> run_task_id r \<notin> lease_task_id ` set live
      then w\<lparr>cwr_status := ''failed'',
             cwr_classification := Some (case cwr_classification w of Some c \<Rightarrow> c | None \<Rightarrow> ''system_failure''),
             cwr_ended_at := Some (case cwr_ended_at w of Some e \<Rightarrow> e | None \<Rightarrow> now)\<rparr> else w)
      (st_worker_runs s),
    st_tasks := map (\<lambda>t. if task_status t = TS_ACTIVE \<and> task_id t \<notin> lease_task_id ` set live
      then t\<lparr>task_status := TS_PENDING, task_updated_at := now\<rparr> else t) (st_tasks s)\<rparr>)"
proof -
  have live: "delete_where (\<lambda>l. lease_lease_expires_at l \<le> now) (st_task_leases s) = live"
    by (simp add: delete_where_def live_def linorder_not_le)
  have live2: "filter (\<lambda>l. now < lease_lease_expires_at l) live = live"
    by (simp add: live_def)
  have ids: "cwr_id w \<in> set (map run_id (filter (\<lambda>r. in_progress (run_status r)
      \<and> run_task_id r \<notin> lease_task_id ` set live) (st_runs s))) \<longleftrightarrow>
      (\<exists>r\<in>set (st_runs s). run_id r = cwr_id w \<and> in_progress (run_status r)
        \<and> run_task_id r \<notin> lease_task_id ` set live)" for w
    unfolding set_map set_filter by (auto simp: image_iff intro: sym)
  show ?thesis
    unfolding recover_stale_state_def
    by (simp add: bnd_run utc_now_def ret_run update_where_def now_def [symmetric] live live2
        coalesce ids del: set_map set_filter)
qed


definition demo_crash :: store where
  "demo_crash = (empty_store 7)\<lparr>st_runs := [\<lparr>run_id = ''run_1'', run_task_id = ''task_1'',
     run_status = RS_WORKING, run_attempt = 1, run_summary = [], run_branch_id = None,
     run_created_at = 0, run_updated_at = 0\<rparr>]\<rparr>"


subsection \<open>The decision queue\<close>

definition waiting :: "store \<Rightarrow> DecisionQueueItem list" where
  "waiting s = filter (\<lambda>i. dqi_status i = ''pending'')
     (order_by dqi_priority (order_by dqi_created_at (st_decision_queue s)))"

fun drain :: "nat \<Rightarrow> DecisionQueueItem list op" where
  "drain 0 = ret []"
| "drain (Suc n) = bnd dequeue_decision (\<lambda>i. case i of None \<Rightarrow> ret []
     | Some item \<Rightarrow> bnd (drain n) (\<lambda>items. ret (item # items)))"

lemma find_filter: "List.find p xs = (case filter p xs of [] \<Rightarrow> None | x # _ \<Rightarrow> Some x)"
  by (induction xs) auto

lemma find_mem: "List.find p xs = Some x \<Longrightarrow> x \<in> set xs \<and> p x"
  by (metis find_Some_iff nth_mem)

lemma keyed_sorted_queue:
  "keyed dqi_id (st_decision_queue s) \<Longrightarrow>
   distinct (map dqi_id (order_by dqi_priority (order_by dqi_created_at (st_decision_queue s))))"
  using keyed_order_by [OF keyed_order_by] by (simp add: keyed_def)

lemma dequeue_run:
  assumes "keyed dqi_id (st_decision_queue s)"
  shows "case waiting s of
      [] \<Rightarrow> dequeue_decision s = (Inr None, s)
    | x # xs \<Rightarrow> \<exists>y t. dequeue_decision s = (Inr (Some y), t) \<and> dqi_id y = dqi_id x
        \<and> dqi_status y = ''processing'' \<and> waiting t = xs \<and> keyed dqi_id (st_decision_queue t)"
proof (cases "waiting s")
  case Nil
  then show ?thesis by (simp add: dequeue_decision_def find_filter waiting_def ret_run)
next
  case (Cons x xs)
  let ?now = "st_clock s (st_ticks s) div 1000000 * 1000000"
  let ?f = "\<lambda>i. if dqi_id i = dqi_id x then i\<lparr>dqi_status := ''processing'', dqi_started_at := Some ?now\<rparr> else i"
  let ?t = "s\<lparr>st_ticks := Suc (st_ticks s), st_decision_queue := map ?f (st_decision_queue s)\<rparr>"
  let ?q = "order_by dqi_priority (order_by dqi_created_at (st_decision_queue s))"
  have run: "dequeue_decision s = (Inr (Some (x\<lparr>dqi_status := ''processing'',
      dqi_started_at := Some ?now, dqi_completed_at := None\<rparr>)), ?t)"
    using Cons by (simp add: dequeue_decision_def find_filter waiting_def sql_now_def utc_now_def
        bnd_run ret_run update_where_def)
  have "waiting ?t = filter (\<lambda>i. dqi_status i = ''pending'') (map ?f ?q)"
    by (simp add: waiting_def order_by_def sort_key_map)
  also have "\<dots> = filter (\<lambda>i. dqi_id i \<noteq> dqi_id x) (waiting s)"
  proof -
    have "filter (\<lambda>i. dqi_status i = ''pending'') (map ?f ys) =
        filter (\<lambda>i. dqi_id i \<noteq> dqi_id x) (filter (\<lambda>i. dqi_status i = ''pending'') ys)" for ys
      by (induction ys) auto
    then show ?thesis by (simp add: waiting_def)
  qed
  also have "\<dots> = xs"
  proof -
    have "distinct (map dqi_id (waiting s))"
      using keyed_sorted_queue [OF assms] by (simp add: waiting_def distinct_map_filter)
    then have "dqi_id x \<notin> dqi_id ` set xs" by (simp add: Cons)
    then have "filter (\<lambda>i. dqi_id i \<noteq> dqi_id x) xs = xs" by (intro filter_True) (metis imageI)
    then show ?thesis by (simp add: Cons)
  qed
  finally have "waiting ?t = xs" .
  moreover have "keyed dqi_id (map ?f (st_decision_queue s))"
    using assms by (simp add: keyed_def comp_def if_distrib cong: if_cong)
  ultimately show ?thesis using Cons run by simp
qed

lemma drain_ids:
  assumes "keyed dqi_id (st_decision_queue s)"
  shows "\<exists>items t. drain n s = (Inr items, t) \<and> map dqi_id items = map dqi_id (take n (waiting s))
    \<and> waiting t = drop n (waiting s)"
  using assms
proof (induction n arbitrary: s)
  case 0
  then show ?case by (simp add: ret_run)
next
  case (Suc n)
  show ?case
  proof (cases "waiting s")
    case Nil
    with dequeue_run [OF Suc.prems] show ?thesis by (simp add: bnd_run ret_run)
  next
    case (Cons x xs)
    with dequeue_run [OF Suc.prems] obtain y t where d: "dequeue_decision s = (Inr (Some y), t)"
      "dqi_id y = dqi_id x" "waiting t = xs" "keyed dqi_id (st_decision_queue t)" by auto
    from Suc.IH [OF d(4)] obtain items u where "drain n t = (Inr items, u)"
      "map dqi_id items = map dqi_id (take n xs)" "waiting u = drop n xs" by (auto simp: d(3))
    with d Cons show ?thesis by (simp add: bnd_run ret_run)
  qed
qed

text \<open>C19. The decision queue hands out its pending items by priority, then age, each exactly
  once: taking items until none is left returns the pending items in the order of
  \<open>(priority, created_at)\<close>, no item twice and none left out, and the queue is then empty for
  every later call.\<close>

theorem decision_queue_order:
  assumes "keyed dqi_id (st_decision_queue s)"
  shows "\<exists>items t. drain (length (st_decision_queue s)) s = (Inr items, t)
    \<and> distinct (map dqi_id items)
    \<and> set (map dqi_id items) = dqi_id ` {i \<in> set (st_decision_queue s). dqi_status i = ''pending''}
    \<and> sorted (map dqi_priority (waiting s))
    \<and> map dqi_id items = map dqi_id (waiting s)
    \<and> dequeue_decision t = (Inr None, t)"
proof -
  let ?n = "length (st_decision_queue s)"
  from drain_ids [OF assms, of ?n] obtain items t where run: "drain ?n s = (Inr items, t)"
    and ids: "map dqi_id items = map dqi_id (take ?n (waiting s))"
    and rest: "waiting t = drop ?n (waiting s)" by blast
  have len: "length (waiting s) \<le> ?n"
    by (simp add: waiting_def) (metis length_filter_le mset_order_by_length)
  then have ids': "map dqi_id items = map dqi_id (waiting s)" using ids by simp
  have set: "set (waiting s) = {i \<in> set (st_decision_queue s). dqi_status i = ''pending''}"
    by (auto simp: waiting_def)
  have "distinct (map dqi_id (waiting s))"
    using keyed_sorted_queue [OF assms] by (simp add: waiting_def distinct_map_filter)
  moreover have "sorted (map dqi_priority (waiting s))"
    unfolding waiting_def by (intro sorted_filter sorted_order_by)
  moreover have "dequeue_decision t = (Inr None, t)"
    using rest len by (simp add: dequeue_decision_def find_filter waiting_def ret_run)
  moreover have "set (map dqi_id items) = dqi_id ` {i \<in> set (st_decision_queue s). dqi_status i = ''pending''}"
    unfolding ids' by (simp add: set)
  ultimately show ?thesis using run unfolding ids' [symmetric] by blast
qed

definition demo_item :: "string \<Rightarrow> int \<Rightarrow> time \<Rightarrow> string \<Rightarrow> DecisionQueueItem" where
  "demo_item i p c st = \<lparr>dqi_id = i, dqi_run_id = ''run_1'', dqi_task_id = ''task_1'',
     dqi_evaluation_id = ''eval_1'', dqi_priority = p, dqi_created_at = c, dqi_status = st,
     dqi_started_at = None, dqi_completed_at = None\<rparr>"

definition demo_queue :: store where
  "demo_queue = (empty_store 0)\<lparr>st_decision_queue := [demo_item ''a'' 5 1 ''pending'',
     demo_item ''b'' 2 9 ''pending'', demo_item ''c'' 2 3 ''pending'', demo_item ''d'' 0 0 ''completed'']\<rparr>"

lemma decision_queue_order_witness:
  "\<exists>items t. drain 4 demo_queue = (Inr items, t) \<and> map dqi_id items = [''c'', ''b'', ''a'']
     \<and> dequeue_decision t = (Inr None, t)"
proof -
  have "keyed dqi_id (st_decision_queue demo_queue)"
    by (simp add: demo_queue_def keyed_def demo_item_def)
  from decision_queue_order [OF this] obtain items t where
    "drain (length (st_decision_queue demo_queue)) demo_queue = (Inr items, t)"
    "map dqi_id items = map dqi_id (waiting demo_queue)" "dequeue_decision t = (Inr None, t)" by blast
  moreover have "length (st_decision_queue demo_queue) = 4" by (simp add: demo_queue_def)
  moreover have "map dqi_id (waiting demo_queue) = [''c'', ''b'', ''a'']"
    by (simp add: waiting_def demo_queue_def demo_item_def order_by_def)
  ultimately show ?thesis by metis
qed

subsection \<open>Versions\<close>

lemma max_or_zero_ge: "x \<in> set xs \<Longrightarrow> x \<le> max_or_zero xs"
  by (auto simp: max_or_zero_def)

lemma order_by_empty [simp]: "order_by key xs = [] \<longleftrightarrow> xs = []"
  by (metis set_empty set_order_by)

lemma last_sorted:
  assumes "\<forall>x\<in>set xs. key x < (key y :: int)" and "y \<notin> set xs"
  shows "last (order_by key (order_by k2 (xs @ [y]))) = y"
proof -
  let ?l = "order_by key (order_by k2 (xs @ [y]))"
  have all: "set ?l = insert y (set xs)" by simp
  then have ne: "?l \<noteq> []" by (metis empty_set insert_not_empty)
  have "last ?l \<in> insert y (set xs)" using last_in_set [OF ne] by (simp only: all)
  moreover have "key y \<le> key (last ?l)"
  proof -
    have "y \<in> set ?l" by simp
    then obtain i where i: "i < length ?l" "?l ! i = y" by (metis in_set_conv_nth)
    have "sorted (map key ?l)" by (rule sorted_order_by)
    then have "map key ?l ! i \<le> map key ?l ! (length ?l - 1)"
      using i by (intro sorted_nth_mono) auto
    then show ?thesis using i ne by (simp add: last_conv_nth)
  qed
  ultimately show ?thesis using assms(1) by force
qed

text \<open>Versions of diagrams never collide and the newest is found: an artifact created with the
  number that \<open>next_mermaid_version\<close> gives for its objective and type, a new identifier and an
  existing objective is always accepted, and \<open>latest_mermaid_artifact\<close> then returns it.\<close>

theorem mermaid_versions:
  assumes "next_mermaid_version (mm_objective_id a) (mm_diagram_type a) s = (Inr (mm_version a), s)"
    and "mm_id a \<notin> mm_id ` set (st_mermaid_artifacts s)"
    and "mm_objective_id a \<in> objective_id ` set (st_objectives s)" and "mm_diagram_type a \<noteq> []"
  shows "\<exists>t. create_mermaid_artifact a s = (Inr (), t)
    \<and> latest_mermaid_artifact (mm_objective_id a) (Some (mm_diagram_type a)) t = (Inr (Some a), t)"
proof -
  let ?p = "\<lambda>x. mm_objective_id x = mm_objective_id a \<and> mm_diagram_type x = mm_diagram_type a"
  let ?t = "s\<lparr>st_mermaid_artifacts := st_mermaid_artifacts s @ [a]\<rparr>"
  have v: "mm_version a = max_or_zero (map mm_version (filter ?p (st_mermaid_artifacts s))) + 1"
    using assms(1) by (simp add: next_mermaid_version_def)
  have less: "\<forall>x\<in>set (filter ?p (st_mermaid_artifacts s)). mm_version x < mm_version a"
    using max_or_zero_ge [of _ "map mm_version (filter ?p (st_mermaid_artifacts s))"] by (force simp: v)
  then have "create_mermaid_artifact a s = (Inr (), ?t)"
    using assms(2,3)
    by (auto simp: create_mermaid_artifact_def try_write_run insert_fk_def has_key_iff list_ex_iff)
  moreover have "latest_mermaid_artifact (mm_objective_id a) (Some (mm_diagram_type a)) ?t = (Inr (Some a), ?t)"
  proof -
    have "a \<notin> set (filter ?p (st_mermaid_artifacts s))" using assms(2) by auto
    from last_sorted [OF less this]
    have "last (order_by mm_version (order_by mm_created_at
        (filter ?p (st_mermaid_artifacts s) @ [a]))) = a" .
    moreover have "order_by mm_version (order_by mm_created_at
        (filter ?p (st_mermaid_artifacts s) @ [a])) \<noteq> []"
      by simp
    ultimately show ?thesis
      using assms(4) by (simp add: latest_mermaid_artifact_def list_mermaid_artifacts_def bnd_run
          ret_run last_option_def clause_def)
  qed
  ultimately show ?thesis by blast
qed


definition demo_mermaid :: "string \<Rightarrow> int \<Rightarrow> MermaidArtifact" where
  "demo_mermaid i v = \<lparr>mm_id = i, mm_objective_id = ''obj_1'', mm_diagram_type = ''workflow_control'',
     mm_version = v, mm_status = MS_DRAFT, mm_summary = [], mm_content = [],
     mm_required_for_execution = True, mm_blocking_reason = [], mm_author_type = ''system'',
     mm_created_at = 0, mm_updated_at = 0\<rparr>"

definition demo_objective :: "ObjectivePhase \<Rightarrow> Objective" where
  "demo_objective p = \<lparr>objective_id = ''obj_1'', objective_project_id = ''project_1'',
     objective_title = ''title'', objective_summary = ''summary'', objective_priority = 100,
     objective_status = OS_OPEN, objective_phase = p, objective_created_at = 0, objective_updated_at = 0\<rparr>"

definition demo_diagrams :: store where
  "demo_diagrams = (empty_store 0)\<lparr>st_objectives := [demo_objective OP_EXECUTING],
     st_mermaid_artifacts := [demo_mermaid ''m1'' 1, demo_mermaid ''m2'' 4]\<rparr>"

lemma mermaid_versions_witness:
  "\<exists>t. create_mermaid_artifact (demo_mermaid ''m3'' 5) demo_diagrams = (Inr (), t)
     \<and> latest_mermaid_artifact ''obj_1'' (Some ''workflow_control'') t = (Inr (Some (demo_mermaid ''m3'' 5)), t)"
  using mermaid_versions [of "demo_mermaid ''m3'' 5" demo_diagrams]
  by (simp add: demo_diagrams_def demo_mermaid_def demo_objective_def next_mermaid_version_def
      max_or_zero_def)

subsection \<open>Objectives\<close>

text \<open>\<open>get_objective\<close> hides the phase: after \<open>set_objective_phase\<close> has moved an existing
  objective to a phase, \<open>list_objectives\<close> shows the phase and the status that goes with it,
  while \<open>get_objective\<close> returns the same objective in the phase \<open>created\<close>.\<close>

theorem get_objective_hides_phase:
  assumes "keyed objective_id (st_objectives s)" and "i \<in> objective_id ` set (st_objectives s)"
  shows "\<exists>t x. set_objective_phase i phase None s = (Inr (), t)
    \<and> objective_id x = i \<and> objective_phase x = phase \<and> objective_status x = PHASE_TO_STATUS phase
    \<and> (\<exists>xs. list_objectives None t = (Inr xs, t) \<and> x \<in> set xs)
    \<and> get_objective i t = (Inr (Some (x\<lparr>objective_phase := OP_CREATED\<rparr>)), t)"
proof -
  let ?now = "st_clock s (st_ticks s)"
  let ?g = "\<lambda>x. x\<lparr>objective_phase := phase, objective_status := PHASE_TO_STATUS phase,
               objective_updated_at := ?now\<rparr>"
  let ?f = "\<lambda>x. if objective_id x = i then ?g x else x"
  let ?t = "s\<lparr>st_ticks := Suc (st_ticks s), st_objectives := map ?f (st_objectives s)\<rparr>"
  from assms obtain o1 where o1: "o1 \<in> set (st_objectives s)" "objective_id o1 = i" by auto
  have run: "set_objective_phase i phase None s = (Inr (), ?t)"
    by (simp add: set_objective_phase_def bnd_run utc_now_def update_where_def)
  have in_t: "?g o1 \<in> set (st_objectives ?t)" using o1 by force
  have "keyed objective_id (st_objectives ?t)"
    using assms(1) by (simp add: keyed_def comp_def if_distrib cong: if_cong)
  then have find: "find_key objective_id i (st_objectives ?t) = Some (?g o1)"
    using in_t o1(2) by (simp add: keyed_find_iff)
  show ?thesis
  proof (intro exI conjI)
    show "set_objective_phase i phase None s = (Inr (), ?t)" by (rule run)
    show "get_objective i ?t = (Inr (Some ((?g o1)\<lparr>objective_phase := OP_CREATED\<rparr>)), ?t)"
      unfolding get_objective_def by (simp only: reads_run find option.map)
    show "list_objectives None ?t = (Inr (order_by_desc objective_priority
        (order_by objective_created_at (st_objectives ?t))), ?t)"
      by (simp add: list_objectives_def clause_def)
    show "?g o1 \<in> set (order_by_desc objective_priority
        (order_by objective_created_at (st_objectives ?t)))"
      using in_t by simp
  qed (simp_all add: o1)
qed

lemma get_objective_hides_phase_witness:
  "\<exists>t x. set_objective_phase ''obj_1'' OP_EXECUTING None demo_diagrams = (Inr (), t)
     \<and> get_objective ''obj_1'' t = (Inr (Some x), t) \<and> objective_phase x = OP_CREATED"
proof -
  have "keyed objective_id (st_objectives demo_diagrams)" "''obj_1'' \<in> objective_id ` set (st_objectives demo_diagrams)"
    by (simp_all add: demo_diagrams_def keyed_def demo_objective_def)
  from get_objective_hides_phase [OF this, of OP_EXECUTING] show ?thesis by fastforce
qed


subsection \<open>Metrics\<close>

lemma count_by_total: "sum_list (map snd (count_by f xs)) = int (length xs)"
proof -
  have "sum_list (map snd (count_by f xs)) = (\<Sum>k\<in>set (map f xs). int (length (filter (\<lambda>x. f x = k) xs)))"
    by (simp add: count_by_def comp_def sum_list_distinct_conv_sum_set)
  also have "\<dots> = int (length xs)"
  proof (induction xs)
    case (Cons a xs)
    have "(\<Sum>k\<in>set (map f (a # xs)). int (length (filter (\<lambda>x. f x = k) (a # xs)))) =
        (\<Sum>k\<in>set (map f (a # xs)). int (length (filter (\<lambda>x. f x = k) xs)) + (if k = f a then 1 else 0))"
      by (rule sum.cong) auto
    also have "\<dots> = (\<Sum>k\<in>set (map f (a # xs)). int (length (filter (\<lambda>x. f x = k) xs))) + 1"
      by (subst sum.distrib) simp
    also have "(\<Sum>k\<in>set (map f (a # xs)). int (length (filter (\<lambda>x. f x = k) xs))) =
        (\<Sum>k\<in>set (map f xs). int (length (filter (\<lambda>x. f x = k) xs)))"
      by (rule sum.mono_neutral_right) (auto simp: filter_empty_conv)
    finally show ?case using Cons.IH by simp
  qed simp
  finally show ?thesis .
qed

lemma get_count_count_by: "get_count k (count_by f xs) = int (length (filter (\<lambda>x. f x = k) xs))"
proof (cases "k \<in> f ` set xs")
  case True
  then have "map_of (count_by f xs) k = Some (int (length (filter (\<lambda>x. f x = k) xs)))"
    by (simp add: count_by_def map_of_map_restrict)
  then show ?thesis by (simp add: get_count_def)
next
  case False
  then have "map_of (count_by f xs) k = None" "filter (\<lambda>x. f x = k) xs = []"
    by (auto simp: count_by_def map_of_map_restrict filter_empty_conv)
  then show ?thesis by (simp add: get_count_def)
qed

lemma part_le: "length (filter (\<lambda>x. p x \<and> q x) xs) \<le> length (filter p xs)"
  by (induction xs) auto

lemma ratio_bounds: "0 \<le> a \<Longrightarrow> a \<le> b \<Longrightarrow> 0 \<le> (of_int a :: rat) / of_int b \<and> (of_int a :: rat) / of_int b \<le> 1"
  by (cases "b = 0") (auto simp: divide_le_eq zero_le_divide_iff)

text \<open>The metrics are consistent counts: the tasks by status, and the tasks by validation
  profile, each add up to the number of tasks of the project; follow-on tasks are among them;
  the pending promotions are exactly those with status \<open>pending\<close>; the retry rate and the
  approval rate lie between 0 and 1, and the snapshot changes nothing in the store.\<close>

theorem metrics_are_counts:
  "\<exists>m t. metrics_snapshot project s = (Inr m, t) \<and> t = s\<lparr>st_ticks := Suc (st_ticks s)\<rparr>
     \<and> (let n = int (length (filter (\<lambda>x. clause project (Some (task_project_id x))) (st_tasks s))) in
          sum_list (map snd (mt_tasks_by_status m)) = n
          \<and> sum_list (map snd (mt_tasks_by_validation_profile m)) = n
          \<and> 0 \<le> mt_follow_on_task_count m \<and> mt_follow_on_task_count m \<le> n)
     \<and> mt_pending_promotions m = int (length (filter (\<lambda>p. in_project project s (promotion_task_id p)
          \<and> promotion_status p = PS_PENDING) (st_promotions s)))
     \<and> 0 \<le> mt_retry_rate m \<and> mt_retry_rate m \<le> 1
     \<and> 0 \<le> mt_promotion_approval_rate m \<and> mt_promotion_approval_rate m \<le> 1"
proof -
  let ?now = "st_clock s (st_ticks s)" and ?t = "s\<lparr>st_ticks := Suc (st_ticks s)\<rparr>"
  let ?m = "metrics_of project ?now ?t"
  let ?tasks = "filter (\<lambda>x. clause project (Some (task_project_id x))) (st_tasks s)"
  have run: "metrics_snapshot project s = (Inr ?m, ?t)"
    by (simp add: metrics_snapshot_def bnd_run utc_now_def)
  have ip: "in_project project ?t = in_project project s" by (auto simp: in_project_def fun_eq_iff split: option.split)
  have status: "PromotionStatus_value x = ''pending'' \<longleftrightarrow> x = PS_PENDING" for x
    by (cases x) simp_all
  have pend: "mt_pending_promotions ?m = int (length (filter (\<lambda>p. in_project project s (promotion_task_id p)
      \<and> promotion_status p = PS_PENDING) (st_promotions s)))"
    by (simp add: metrics_of_def Let_def get_count_count_by status ip)
  have retry: "0 \<le> mt_retry_rate ?m \<and> mt_retry_rate ?m \<le> 1"
    unfolding metrics_of_def Let_def
    by (simp add: ratio_bounds part_le)
  have rate: "0 \<le> mt_promotion_approval_rate ?m \<and> mt_promotion_approval_rate ?m \<le> 1"
    unfolding metrics_of_def Let_def by (simp add: ratio_bounds get_count_count_by del: of_int_add)
  show ?thesis
  proof (intro exI conjI)
    show "metrics_snapshot project s = (Inr ?m, ?t)" by (rule run)
    show "let n = int (length ?tasks) in sum_list (map snd (mt_tasks_by_status ?m)) = n
          \<and> sum_list (map snd (mt_tasks_by_validation_profile ?m)) = n
          \<and> 0 \<le> mt_follow_on_task_count ?m \<and> mt_follow_on_task_count ?m \<le> n"
      by (simp add: metrics_of_def Let_def count_by_total part_le)
  qed (use pend retry rate in simp_all)
qed

end
