(* ===== verification/Execution_Gate.thy ===== *)
theory Execution_Gate
  imports Record_Props
begin

section \<open>The execution gate of an objective\<close>

text \<open>
  \<open>context_control.py\<close>: the checks an objective has to pass before its tasks run. The checks
  are built in the order of the code, the two placeholders included, and the gate is ready when
  every check that is implemented holds.
\<close>

record gate_check =
  gc_key :: string
  gc_label :: string
  gc_ok :: bool
  gc_detail :: string

record ObjectiveExecutionGate =
  gate_objective_id :: string
  gate_ready :: bool
  gate_checks :: "gate_check list"

definition task_bypasses_objective_execution_gate :: "Task \<Rightarrow> bool" where
  "task_bypasses_objective_execution_gate task \<longleftrightarrow>
     task_strategy task = ''objective_review_remediation''"

definition objective_execution_gate :: "string \<Rightarrow> ObjectiveExecutionGate op" where
  "objective_execution_gate i =
     bnd (get_objective i) (\<lambda>objective.
     bnd (latest_intent_model i) (\<lambda>intent_model.
     bnd (list_context_records None (Some i) None None (Some ''interrogation_completed'')) (\<lambda>records.
     bnd (latest_mermaid_artifact i None) (\<lambda>mermaid.
     let interrogation_complete = (records \<noteq> []);
         required = (case mermaid of None \<Rightarrow> False | Some m \<Rightarrow> mm_required_for_execution m);
         finished = (case mermaid of None \<Rightarrow> False | Some m \<Rightarrow> mm_status m = MS_FINISHED);
         checks =
           [\<lparr>gc_key = ''objective_exists'', gc_label = ''Objective exists'', gc_ok = (objective \<noteq> None),
             gc_detail = (if objective \<noteq> None then [] else ''Objective record is missing.'')\<rparr>,
            \<lparr>gc_key = ''intent_model'', gc_label = ''Intent model'', gc_ok = (intent_model \<noteq> None),
             gc_detail = (if intent_model \<noteq> None then [] else ''Intent model is required before execution.'')\<rparr>,
            \<lparr>gc_key = ''interrogation_complete'', gc_label = ''Interrogation complete'',
             gc_ok = interrogation_complete,
             gc_detail = (if interrogation_complete then []
               else ''The harness must interrogate and red-team the objective before Mermaid review.'')\<rparr>,
            \<lparr>gc_key = ''required_mermaid'', gc_label = ''Required Mermaid'', gc_ok = required,
             gc_detail = (if required then []
               else ''A required Mermaid artifact must exist before execution.'')\<rparr>,
            \<lparr>gc_key = ''mermaid_finished'', gc_label = ''Mermaid finished'', gc_ok = finished,
             gc_detail = (if finished then []
               else ''Execution is blocked until the current Mermaid is finished.'')\<rparr>,
            \<lparr>gc_key = ''plan_placeholder'', gc_label = ''Plan'', gc_ok = False,
             gc_detail = ''Plan gate not implemented yet.''\<rparr>,
            \<lparr>gc_key = ''atomic_slice_placeholder'', gc_label = ''Atomic slice'', gc_ok = False,
             gc_detail = ''Atomic slice gate not implemented yet.''\<rparr>];
         implemented_checks = filter (\<lambda>c. \<not> ends_with ''_placeholder'' (gc_key c)) checks
     in ret \<lparr>gate_objective_id = i, gate_ready = list_all gc_ok implemented_checks,
             gate_checks = checks\<rparr>))))"

text \<open>What the gate promises, over the tables: the newest diagram is the last one in the order of
  \<open>(version, created_at)\<close>, whatever its type.\<close>

definition newest_mermaid :: "string \<Rightarrow> store \<Rightarrow> MermaidArtifact option" where
  "newest_mermaid i s = last_option (order_by mm_version (order_by mm_created_at
     (filter (\<lambda>x. mm_objective_id x = i) (st_mermaid_artifacts s))))"

definition executable_objective :: "string \<Rightarrow> store \<Rightarrow> bool" where
  "executable_objective i s \<longleftrightarrow>
     i \<in> objective_id ` set (st_objectives s)
     \<and> i \<in> im_objective_id ` set (st_intent_models s)
     \<and> (\<exists>r\<in>set (st_context_records s). ctx_objective_id r = Some i
          \<and> ctx_record_type r = ''interrogation_completed'')
     \<and> (\<exists>m. newest_mermaid i s = Some m \<and> mm_required_for_execution m \<and> mm_status m = MS_FINISHED)"

lemma last_option_None [simp]: "last_option xs = None \<longleftrightarrow> xs = []"
  by (simp add: last_option_def)

lemma find_key_Some_iff: "(\<exists>x. find_key key k rows = Some x) \<longleftrightarrow> k \<in> key ` set rows"
  by (metis find_key_None not_Some_eq)

lemma gate_ready_core:
  assumes "i \<noteq> []"
  shows "\<exists>g. objective_execution_gate i s = (Inr g, s) \<and> gate_objective_id g = i
    \<and> (gate_ready g \<longleftrightarrow> executable_objective i s)
    \<and> (\<not> gate_ready g \<longrightarrow> (\<exists>c. List.find (\<lambda>c. \<not> gc_ok c) (gate_checks g) = Some c
          \<and> \<not> ends_with ''_placeholder'' (gc_key c) \<and> gc_detail c \<noteq> []))"
proof -
  obtain obj im ir mm where parts:
    "obj = map_option (\<lambda>x. x\<lparr>objective_phase := OP_CREATED\<rparr>) (find_key objective_id i (st_objectives s))"
    "im = last_option (order_by im_version (order_by im_created_at
       (filter (\<lambda>x. im_objective_id x = i) (st_intent_models s))))"
    "ir = filter (\<lambda>r. ctx_objective_id r = Some i \<and> ctx_record_type r = ''interrogation_completed'')
       (st_context_records s)"
    "mm = newest_mermaid i s" by blast
  define req where "req = (case mm of None \<Rightarrow> False | Some m \<Rightarrow> mm_required_for_execution m)"
  define fin where "fin = (case mm of None \<Rightarrow> False | Some m \<Rightarrow> mm_status m = MS_FINISHED)"
  have ex: "executable_objective i s \<longleftrightarrow> obj \<noteq> None \<and> im \<noteq> None \<and> ir \<noteq> [] \<and> req \<and> fin"
    unfolding executable_objective_def req_def fin_def parts(1-3)
    by (cases "newest_mermaid i s")
      (auto simp: parts(4) find_key_None filter_empty_conv image_iff intro: sym)
  have suffix: "\<not> ends_with ''_placeholder'' ''objective_exists'' \<and> \<not> ends_with ''_placeholder'' ''intent_model''
      \<and> \<not> ends_with ''_placeholder'' ''interrogation_complete'' \<and> \<not> ends_with ''_placeholder'' ''required_mermaid''
      \<and> \<not> ends_with ''_placeholder'' ''mermaid_finished'' \<and> ends_with ''_placeholder'' ''plan_placeholder''
      \<and> ends_with ''_placeholder'' ''atomic_slice_placeholder''"
    by (simp add: ends_with_def)
  have reads: "get_objective i s = (Inr obj, s)" "latest_intent_model i s = (Inr im, s)"
    "list_context_records None (Some i) None None (Some ''interrogation_completed'') s = (Inr (order_by ctx_created_at ir), s)"
    "latest_mermaid_artifact i None s = (Inr mm, s)"
    using assms by (auto simp: parts get_objective_def latest_intent_model_def list_intent_models_def bnd_run
        ret_run list_context_records_def clause_def latest_mermaid_artifact_def
        list_mermaid_artifacts_def newest_mermaid_def conj_ac)
  show ?thesis
    unfolding objective_execution_gate_def bnd_run reads ret_run Let_def
    using ex suffix by (simp add: bnd_run reads ret_run flip: req_def fin_def)
qed

text \<open>The gate of an objective is ready exactly when the objective exists, has an intent model,
  has completed an interrogation, and its newest diagram is required for execution and finished.
  Asking never fails and changes nothing, and when the gate is closed the first check that fails is
  an implemented one, never a placeholder, with a text that says what is missing.\<close>

theorem gate_ready_iff:
  assumes "i \<noteq> []"
  shows "\<exists>g. objective_execution_gate i s = (Inr g, s) \<and> gate_objective_id g = i
    \<and> (gate_ready g \<longleftrightarrow> executable_objective i s)
    \<and> (\<not> gate_ready g \<longrightarrow> (\<exists>c. List.find (\<lambda>c. \<not> gc_ok c) (gate_checks g) = Some c
          \<and> \<not> ends_with ''_placeholder'' (gc_key c) \<and> gc_detail c \<noteq> []))"
  by (rule gate_ready_core [OF assms])

definition demo_gate :: store where
  "demo_gate = demo_diagrams\<lparr>
     st_mermaid_artifacts := [demo_mermaid ''m1'' 1, (demo_mermaid ''m2'' 4)\<lparr>mm_status := MS_FINISHED\<rparr>],
     st_intent_models := [\<lparr>im_id = ''im_1'', im_objective_id = ''obj_1'', im_version = 1,
       im_intent_summary = [], im_success_definition = [], im_non_negotiables = [],
       im_preferred_tradeoffs = [], im_unacceptable_outcomes = [], im_known_unknowns = [],
       im_operator_examples = [], im_frustration_signals = [], im_sop_constraints = [],
       im_current_confidence = 1, im_author_type = ''operator'', im_created_at = 0\<rparr>],
     st_context_records := [\<lparr>ctx_id = ''c1'', ctx_record_type = ''interrogation_completed'',
       ctx_project_id = ''project_1'', ctx_objective_id = Some ''obj_1'', ctx_task_id = None,
       ctx_run_id = None, ctx_visibility = ''internal'', ctx_author_type = ''system'', ctx_author_id = [],
       ctx_content = [], ctx_metadata = [], ctx_created_at = 0\<rparr>]\<rparr>"

lemma gate_ready_iff_witness:
  "\<exists>g. objective_execution_gate ''obj_1'' demo_gate = (Inr g, demo_gate) \<and> gate_ready g"
proof -
  have "executable_objective ''obj_1'' demo_gate"
    by (simp add: executable_objective_def demo_gate_def demo_diagrams_def demo_objective_def
        demo_mermaid_def newest_mermaid_def last_option_def order_by_def)
  then show ?thesis using gate_ready_iff [of "''obj_1''" demo_gate] by auto
qed

end
