(* ===== verification/Policy.thy ===== *)
theory Policy
  imports Domain_Types
begin

section \<open>Planning, analysis and decision policies\<close>

text \<open>
  \<open>policy.py\<close>: what a run plans, how its artifacts are judged, which action follows, and what a
  retry is told. The classes have no state; their methods are functions. The values of a
  \<open>dict[str, object]\<close> are dynamically typed, so that a reader that finds another type than the
  one the analyzer wrote behaves as the code does.
\<close>

subsection \<open>Results\<close>

record PlanResult =
  plr_summary :: string
  plr_retry_focus :: "string option"
  plr_retry_context :: "pydict option"

record WorkResult =
  wr_summary :: string
  wr_artifacts :: "(string \<times> string \<times> string) list"
  wr_outcome :: string
  wr_diagnostics :: "pydict option"

record AnalyzeResult =
  ar_verdict :: EvaluationVerdict
  ar_confidence :: rat
  ar_summary :: string
  ar_details :: pydict

record DecideResult =
  dr_action :: DecisionAction
  dr_rationale :: string

record RetryContext =
  rc_attempt :: int
  rc_previous_run_id :: "string option"
  rc_previous_verdict :: "string option"
  rc_previous_decision :: "string option"
  rc_focus :: "string option"
  rc_details :: pydict

text \<open>\<open>x or default\<close> on an optional string, and an optional string as a value.\<close>

definition opt_or :: "string option \<Rightarrow> string \<Rightarrow> string" where
  "opt_or x dflt = (case x of None \<Rightarrow> dflt | Some s \<Rightarrow> if s = [] then dflt else s)"

definition opt_val :: "string option \<Rightarrow> pyval" where
  "opt_val x = (case x of None \<Rightarrow> PNone | Some s \<Rightarrow> PStr s)"

subsection \<open>The planner\<close>

definition plan_task :: "Task \<Rightarrow> RetryContext option \<Rightarrow> PlanResult" where
  "plan_task task retry_context =
     (let first = \<lparr>plr_summary = ''Plan task '' @ [CHR 0x27] @ task_title task @ [CHR 0x27]
            @ '' using strategy '' @ [CHR 0x27] @ task_strategy task @ [CHR 0x27]
            @ '' against objective: '' @ task_objective task,
          plr_retry_focus = None, plr_retry_context = None\<rparr>
      in case retry_context of
           None \<Rightarrow> first
         | Some rc \<Rightarrow>
             if rc_attempt rc \<le> 1 then first
             else
               let focus = opt_or (rc_focus rc) ''address the last failed evaluation outcome''
               in \<lparr>plr_summary = ''Retry attempt '' @ dec_int (rc_attempt rc) @ '' for task ''
                     @ [CHR 0x27] @ task_title task @ [CHR 0x27] @ '' using strategy '' @ [CHR 0x27]
                     @ task_strategy task @ [CHR 0x27] @ ''. Focus on '' @ focus
                     @ ''. Previous verdict was '' @ [CHR 0x27]
                     @ opt_or (rc_previous_verdict rc) ''unknown'' @ [CHR 0x27]
                     @ '' with decision '' @ [CHR 0x27]
                     @ opt_or (rc_previous_decision rc) ''unknown'' @ [CHR 0x27]
                     @ ''. Objective: '' @ task_objective task,
                   plr_retry_focus = Some focus,
                   plr_retry_context = Some (dict_update
                     [(''attempt'', PInt (rc_attempt rc)),
                      (''previous_run_id'', opt_val (rc_previous_run_id rc)),
                      (''previous_verdict'', opt_val (rc_previous_verdict rc)),
                      (''previous_decision'', opt_val (rc_previous_decision rc)),
                      (''focus'', PStr focus)] (rc_details rc))\<rparr>)"

subsection \<open>The analyzer\<close>

definition failure_details :: "Task \<Rightarrow> pydict option \<Rightarrow> pydict" where
  "failure_details task diagnostics =
     (let details = [(''task_title'', PStr (task_title task)), (''strategy'', PStr (task_strategy task))]
      in case diagnostics of
           None \<Rightarrow> details
         | Some d \<Rightarrow>
             if d = [] then details
             else
               let details = dict_set ''diagnostics'' (PDict d) details
               in if truthy (dict_get d ''infrastructure_failure'')
                  then
                    let details = dict_set ''infrastructure_failure'' (PBool True) details;
                        details = dict_set ''failure_category''
                          (PStr (py_str (py_or (dict_get d ''failure_category'') (PStr ''executor_failure'')))) details;
                        message = py_or (py_or (dict_get d ''failure_message'') (dict_get d ''error''))
                          (dict_get d ''blocked_reason'')
                    in if truthy message
                       then dict_set ''root_cause_hint'' (PStr (py_str message)) details else details
                  else details)"

definition analyze :: "Task \<Rightarrow> Artifact list \<Rightarrow> AnalyzeResult" where
  "analyze task artifacts =
     (let artifact_kinds = sort (remdups (map artifact_kind artifacts));
          missing = sort (remdups (filter (\<lambda>k. k \<notin> set artifact_kinds) (task_required_artifacts task)));
          artifact_count = int (length artifacts)
      in if artifact_count = 0
         then \<lparr>ar_verdict = EV_FAILED, ar_confidence = 95 / 100,
               ar_summary = ''Run produced no artifacts.'',
               ar_details = [(''artifact_count'', PInt artifact_count)]\<rparr>
         else if missing \<noteq> []
         then \<lparr>ar_verdict = EV_INCOMPLETE, ar_confidence = 9 / 10,
               ar_summary = ''Run is missing required artifacts.'',
               ar_details = [(''artifact_count'', PInt artifact_count),
                 (''artifact_kinds'', PList (map PStr artifact_kinds)),
                 (''missing_required_artifacts'', PList (map PStr missing))]\<rparr>
         else \<lparr>ar_verdict = EV_ACCEPTABLE, ar_confidence = 8 / 10,
               ar_summary = ''Run produced the required durable artifacts.'',
               ar_details = [(''artifact_count'', PInt artifact_count),
                 (''artifact_kinds'', PList (map PStr artifact_kinds)),
                 (''task_title'', PStr (task_title task)),
                 (''strategy'', PStr (task_strategy task))]\<rparr>)"

definition analyze_blocked :: "Task \<Rightarrow> pydict option \<Rightarrow> AnalyzeResult" where
  "analyze_blocked task diagnostics =
     (let details = failure_details task diagnostics
      in \<lparr>ar_verdict = EV_BLOCKED, ar_confidence = 95 / 100,
          ar_summary = (if truthy (dict_get details ''infrastructure_failure'')
             then ''Run ended with an executor/infrastructure failure.''
             else ''Run ended with a blocked diagnosis.''),
          ar_details = details\<rparr>)"

definition analyze_failed :: "Task \<Rightarrow> pydict option \<Rightarrow> AnalyzeResult" where
  "analyze_failed task diagnostics =
     (let details = failure_details task diagnostics
      in \<lparr>ar_verdict = EV_FAILED, ar_confidence = 95 / 100,
          ar_summary = (if truthy (dict_get details ''infrastructure_failure'')
             then ''Run ended with an executor/infrastructure failure.''
             else ''Run ended with a failed worker outcome.''),
          ar_details = details\<rparr>)"

subsection \<open>The decider\<close>

definition decide :: "AnalyzeResult \<Rightarrow> Run \<Rightarrow> Task \<Rightarrow> DecideResult" where
  "decide analysis run task =
     (if truthy (dict_get (ar_details analysis) ''infrastructure_failure'')
      then if run_attempt run < task_max_attempts task
           then \<lparr>dr_action = DA_RETRY, dr_rationale =
                  ''Infrastructure failure detected; retrying since attempt budget remains.''\<rparr>
           else \<lparr>dr_action = DA_FAIL, dr_rationale =
                  ''Infrastructure failure persisted through all attempts.''\<rparr>
      else if ar_verdict analysis = EV_ACCEPTABLE
      then \<lparr>dr_action = DA_PROMOTE, dr_rationale =
             ''Required artifacts exist and analysis passed.''\<rparr>
      else if ar_verdict analysis = EV_BLOCKED
      then if run_attempt run < task_max_attempts task
           then \<lparr>dr_action = DA_RETRY, dr_rationale =
                  ''Worker blocked; retrying with scope narrowing metadata.''\<rparr>
           else \<lparr>dr_action = DA_FAIL, dr_rationale =
                  ''Worker reported a blocked diagnosis and retry budget is exhausted.''\<rparr>
      else if task_max_attempts task \<le> run_attempt run
      then if 1 < task_max_branches task \<and> run_branch_id run = None
           then \<lparr>dr_action = DA_BRANCH, dr_rationale =
                  ''Retry budget exhausted; branching into '' @ dec_int (task_max_branches task)
                  @ '' speculative runs.''\<rparr>
           else \<lparr>dr_action = DA_FAIL, dr_rationale = ''Retry budget exhausted.''\<rparr>
      else \<lparr>dr_action = DA_RETRY, dr_rationale =
             ''Artifacts were insufficient; retry within bounded task budget.''\<rparr>)"

subsection \<open>The retry advice\<close>

definition str_items :: "pyval \<Rightarrow> string list" where
  "str_items v = (case v of PList xs \<Rightarrow> map py_str xs | _ \<Rightarrow> [])"

definition advise ::
  "Task \<Rightarrow> int \<Rightarrow> Run option \<Rightarrow> AnalyzeResult option \<Rightarrow> DecisionAction option \<Rightarrow> RetryContext option"
where
  "advise task attempt previous_run previous_evaluation previous_decision =
     (case previous_run of
        None \<Rightarrow> None
      | Some run \<Rightarrow>
          if attempt \<le> 1 then None
          else
            let start = (''produce the required durable artifacts'', []);
                (focus, details) =
                  (case previous_evaluation of
                     None \<Rightarrow> start
                   | Some e \<Rightarrow>
                       let missing = str_items (dict_get (ar_details e) ''missing_required_artifacts'');
                           kinds = str_items (dict_get (ar_details e) ''artifact_kinds'')
                       in if missing \<noteq> []
                          then (''producing the missing required artifacts: '' @ join '', '' missing,
                                [(''missing_required_artifacts'', PList (map PStr missing))])
                          else if ar_verdict e = EV_FAILED
                          then (''producing at least one valid report and plan artifact before deeper changes'', [])
                          else if kinds \<noteq> []
                          then (''improving the previous artifact set: '' @ join '', '' kinds,
                                [(''artifact_kinds'', PList (map PStr kinds))])
                          else start)
            in Some \<lparr>rc_attempt = attempt, rc_previous_run_id = Some (run_id run),
                     rc_previous_verdict = map_option (\<lambda>e. EvaluationVerdict_value (ar_verdict e)) previous_evaluation,
                     rc_previous_decision = map_option DecisionAction_value previous_decision,
                     rc_focus = Some focus, rc_details = details\<rparr>)"


subsection \<open>What the policies guarantee\<close>

definition infra :: "AnalyzeResult \<Rightarrow> bool" where
  "infra analysis \<longleftrightarrow> truthy (dict_get (ar_details analysis) ''infrastructure_failure'')"

text \<open>The decision table, in every case: promote exactly when the analysis is acceptable and
  not an infrastructure failure; retry exactly when it is not to be promoted and the attempt
  budget is not used up; branch exactly when the budget is used up, the run was neither blocked
  nor an infrastructure failure, the task allows branches and the run is not a branch itself;
  fail in all the other cases, which all have the budget used up.\<close>

theorem decide_table:
  "dr_action (decide analysis run task) =
     (if \<not> infra analysis \<and> ar_verdict analysis = EV_ACCEPTABLE then DA_PROMOTE
      else if run_attempt run < task_max_attempts task then DA_RETRY
      else if \<not> infra analysis \<and> ar_verdict analysis \<in> {EV_INCOMPLETE, EV_FAILED}
              \<and> 1 < task_max_branches task \<and> run_branch_id run = None then DA_BRANCH
      else DA_FAIL)"
  by (cases "ar_verdict analysis") (simp_all add: decide_def infra_def)

text \<open>An analysis is acceptable exactly when there is at least one artifact and every required
  kind is among them, and then the decider promotes it; a run with artifacts that misses some
  kinds is incomplete and names exactly the missing kinds, sorted and without repetition.\<close>

theorem analyze_verdicts:
  "(ar_verdict (analyze task artifacts) = EV_ACCEPTABLE \<longleftrightarrow>
      artifacts \<noteq> [] \<and> set (task_required_artifacts task) \<subseteq> artifact_kind ` set artifacts)
   \<and> (ar_verdict (analyze task artifacts) = EV_FAILED \<longleftrightarrow> artifacts = [])
   \<and> (dr_action (decide (analyze task artifacts) run task) = DA_PROMOTE \<longleftrightarrow>
      ar_verdict (analyze task artifacts) = EV_ACCEPTABLE)
   \<and> {k. PStr k \<in> set (case dict_get (ar_details (analyze task artifacts)) ''missing_required_artifacts''
           of PList ks \<Rightarrow> ks | _ \<Rightarrow> [])}
      = (if artifacts = [] then {} else set (task_required_artifacts task) - artifact_kind ` set artifacts)"
proof -
  let ?missing = "sort (remdups (filter (\<lambda>k. k \<notin> artifact_kind ` set artifacts) (task_required_artifacts task)))"
  have set: "set ?missing = set (task_required_artifacts task) - artifact_kind ` set artifacts" by auto
  have infra: "\<not> infra (analyze task artifacts)"
    by (simp add: infra_def analyze_def Let_def)
  have nil: "?missing = [] \<longleftrightarrow> set (task_required_artifacts task) \<subseteq> artifact_kind ` set artifacts"
    by (metis Diff_eq_empty_iff set set_empty)
  have acc: "ar_verdict (analyze task artifacts) = EV_ACCEPTABLE \<longleftrightarrow>
      artifacts \<noteq> [] \<and> set (task_required_artifacts task) \<subseteq> artifact_kind ` set artifacts"
    using nil by (simp add: analyze_def Let_def)
  have failed: "ar_verdict (analyze task artifacts) = EV_FAILED \<longleftrightarrow> artifacts = []"
    by (simp add: analyze_def Let_def)
  have names: "dict_get (ar_details (analyze task artifacts)) ''missing_required_artifacts'' =
      (if artifacts = [] \<or> ?missing = [] then PNone else PList (map PStr ?missing))"
    by (simp add: analyze_def Let_def)
  have "{k. PStr k \<in> set (case dict_get (ar_details (analyze task artifacts)) ''missing_required_artifacts''
           of PList ks \<Rightarrow> ks | _ \<Rightarrow> [])}
      = (if artifacts = [] then {} else set (task_required_artifacts task) - artifact_kind ` set artifacts)"
    unfolding names using set nil by (auto split: if_splits)
  then show ?thesis using acc failed infra by (simp add: decide_table)
qed

text \<open>A retry knows what was missing: when a run with artifacts was incomplete, the advice for
  the next attempt and the plan made from it name exactly the missing kinds, and the plan keeps
  the number of the attempt.\<close>

theorem retry_names_missing:
  assumes "1 < attempt" and "artifacts \<noteq> []"
    and missing: "sort (remdups (filter (\<lambda>k. k \<notin> artifact_kind ` set artifacts) (task_required_artifacts task))) = ks"
    and "ks \<noteq> []"
  shows "\<exists>rc ctx. advise task attempt (Some run) (Some (analyze task artifacts)) previous = Some rc
    \<and> rc_focus rc = Some (''producing the missing required artifacts: '' @ join '', '' ks)
    \<and> plr_retry_context (plan_task task (Some rc)) = Some ctx
    \<and> dict_get ctx ''missing_required_artifacts'' = PList (map PStr ks)
    \<and> dict_get ctx ''attempt'' = PInt attempt"
proof -
  have details: "dict_get (ar_details (analyze task artifacts)) ''missing_required_artifacts'' = PList (map PStr ks)"
    using assms by (simp add: analyze_def Let_def)
  have strs: "map (py_str \<circ> PStr) xs = xs" for xs by (simp add: comp_def)
  show ?thesis
    using assms(1,4) by (simp add: advise_def details str_items_def Let_def plan_task_def opt_or_def
        strs dict_update_def)
qed

definition sample_task :: Task where
  "sample_task = \<lparr>task_id = ''task_1'', task_project_id = ''project_1'', task_title = ''Add a flag'',
     task_objective = ''objective'', task_objective_id = None, task_plan_id = None,
     task_mermaid_node_id = None, task_priority = 100, task_parent_task_id = None,
     task_source_run_id = None, task_external_ref_type = None, task_external_ref_id = None,
     task_external_ref_metadata = [], task_validation_profile = ''generic'',
     task_validation_mode = ''default_focused'', task_scope = [], task_strategy = ''default'',
     task_max_attempts = 3, task_max_branches = 1, task_required_artifacts = [''plan'', ''report''],
     task_attempt_metadata = [], task_status = TS_ACTIVE, task_created_at = 0, task_updated_at = 0\<rparr>"

definition sample_run :: Run where
  "sample_run = \<lparr>run_id = ''run_1'', run_task_id = ''task_1'', run_status = RS_FAILED, run_attempt = 1,
     run_summary = [], run_branch_id = None, run_created_at = 0, run_updated_at = 0\<rparr>"

definition sample_artifact :: Artifact where
  "sample_artifact = \<lparr>artifact_id = ''artifact_1'', artifact_run_id = ''run_1'', artifact_kind = ''plan'',
     artifact_path = ''plan.txt'', artifact_summary = [], artifact_created_at = 0\<rparr>"

end
