(* ===== verification/Queue_Service.thy ===== *)
theory Queue_Service
  imports Execution_Gate Control_Plane Policy
begin

section \<open>The queue service\<close>

text \<open>
  \<open>services/queue_service.py\<close>: one task after the other is leased, checked against the worker lane,
  the budget and the execution gate of its objective, run, and released. What the service is built
  with is an argument: \<open>run_once\<close>, the run of a task by the run service; \<open>progress\<close>, the callback
  for events; \<open>post_task\<close>, the optional callback after a task. They may change the store and raise.
  The answer of the availability gate at the time of the call is an argument as well.

  The \<open>while True\<close> loop takes fuel; every round excludes one more task, so the number of tasks is
  enough, which \<open>queue_never_spins\<close> proves.
\<close>

record gate_answer =
  ga_available :: bool
  ga_retry_in :: rat
  ga_probe_results :: "(string \<times> bool) list"

text \<open>An event is a dictionary; its values that are floats, or dictionaries of them, travel beside it:
  \<open>retry_in_seconds\<close>, and the metrics \<open>backlog_before\<close> and \<open>backlog_after\<close>.\<close>

datatype event_extra = NoExtra | RetryIn rat | Backlog metrics metrics

type_synonym progress = "pydict \<Rightarrow> event_extra \<Rightarrow> unit op"

datatype queue_result =
    GateBlocked rat
  | Processed "Task option" Run

definition opt_pyval :: "string option \<Rightarrow> pyval" where
  "opt_pyval x = (case x of None \<Rightarrow> PNone | Some s \<Rightarrow> PStr s)"

text \<open>The format \<open>:.0f\<close> of a float that is not negative: the nearest integer, halves to the even one.\<close>

definition format_int :: "rat \<Rightarrow> string" where
  "format_int r =
     (let n = \<lfloor>r\<rfloor>; d = r - of_int n
      in dec_int (if d < 1 / 2 then n else if 1 / 2 < d then n + 1 else if even n then n else n + 1))"

definition worker_lane_blocks :: "bool op" where
  "worker_lane_blocks =
     bnd get_control_system_state (\<lambda>system.
     if \<not> css_master_switch system then ret False
     else bnd (get_control_lane_state ''worker'') (\<lambda>lane.
     case lane of
       None \<Rightarrow> ret False
     | Some l \<Rightarrow>
         if cls_state l = LS_COOLDOWN then ret True
         else if cls_state l \<noteq> LS_PAUSED then ret False
         else ret True))"

definition objective_budget_exhausted :: "string \<Rightarrow> bool op" where
  "objective_budget_exhausted objective =
     bnd utc_now (\<lambda>now.
     let cutoff = now - EXPENSIVE_CODING_RUN_WINDOW in
     bnd (list_control_budgets (Some ''objective'') (Some objective)) (\<lambda>budgets.
     ret (EXPENSIVE_CODING_RUN_LIMIT <
       sum_list (map cbu_usage_count (filter (\<lambda>b. cutoff \<le> cbu_window_end b) budgets)))))"

definition objective_no_progress :: "string \<Rightarrow> bool op" where
  "objective_no_progress objective =
     bnd (list_control_events (Some ''human_escalation_required'') None None (Some 50)) (\<lambda>events.
     ret (list_ex (\<lambda>event.
       str_or_empty (dict_get (cev_payload event) ''objective_id'') = objective
       \<and> str_or_empty (dict_get (cev_payload event) ''reason'') =
           ''Three completed coding runs did not advance the objective to a mergeable state.'') events))"

definition objective_dispatch_block_reason :: "string option \<Rightarrow> string option op" where
  "objective_dispatch_block_reason objective =
     (case objective of
        None \<Rightarrow> ret None
      | Some i \<Rightarrow>
          if i = [] then ret None
          else bnd (objective_budget_exhausted i) (\<lambda>exhausted.
            if exhausted then ret (Some ''Objective budget exhausted for the current hour.'')
            else bnd (objective_no_progress i) (\<lambda>blocked.
              if blocked
              then ret (Some ''Objective is paused for no_progress; operator review required before more work on this objective.'')
              else ret None)))"

definition blocked_event :: "Task \<Rightarrow> string \<Rightarrow> pydict" where
  "blocked_event task message =
     [(''type'', PStr ''objective_gate_blocked''), (''task_id'', PStr (task_id task)),
      (''task_title'', PStr (task_title task)), (''project_id'', PStr (task_project_id task)),
      (''objective_id'', opt_pyval (task_objective_id task)), (''message'', PStr message)]"

definition lane_event :: "Task \<Rightarrow> pydict" where
  "lane_event task =
     [(''type'', PStr ''worker_lane_blocked''), (''task_id'', PStr (task_id task)),
      (''task_title'', PStr (task_title task)), (''project_id'', PStr (task_project_id task)),
      (''strategy'', PStr (task_strategy task)), (''message'', PStr ''Worker lane is paused.'')]"

text \<open>The checks of a leased task, in the order of the code: the event that reports why it is held
  back, or nothing.\<close>

definition objective_hold :: "Task \<Rightarrow> pydict option op" where
  "objective_hold task =
     bnd (objective_dispatch_block_reason (task_objective_id task)) (\<lambda>reason.
     case reason of
       Some message \<Rightarrow> ret (Some (blocked_event task message))
     | None \<Rightarrow>
         (case task_objective_id task of
            None \<Rightarrow> ret None
          | Some i \<Rightarrow>
              if i = [] \<or> task_bypasses_objective_execution_gate task then ret None
              else bnd (objective_execution_gate i) (\<lambda>gate.
                if gate_ready gate then ret None
                else ret (Some (blocked_event task
                  (case List.find (\<lambda>c. \<not> gc_ok c) (gate_checks gate) of
                     None \<Rightarrow> ''Objective execution gate is not satisfied.''
                   | Some blocking \<Rightarrow>
                       (if gc_detail blocking = [] then ''Objective execution gate is not satisfied.''
                        else gc_detail blocking)))))))"

definition hold_back :: "Task \<Rightarrow> pydict option op" where
  "hold_back task =
     bnd worker_lane_blocks (\<lambda>blocks.
     if blocks then ret (Some (lane_event task)) else objective_hold task)"

text \<open>The body of the \<open>try\<close>, and the \<open>finally\<close> around it.\<close>

definition call_back :: "(Task \<Rightarrow> unit op) option \<Rightarrow> Task option \<Rightarrow> unit op" where
  "call_back post_task updated_task =
     (case post_task of None \<Rightarrow> ret ()
      | Some callback \<Rightarrow> (case updated_task of None \<Rightarrow> ret () | Some t \<Rightarrow> callback t))"

definition run_and_report ::
  "(string \<Rightarrow> Run op) \<Rightarrow> progress \<Rightarrow> (Task \<Rightarrow> unit op) option \<Rightarrow> metrics \<Rightarrow> Task \<Rightarrow> queue_result op"
where
  "run_and_report run_once progress post_task backlog_before task =
     bnd (run_once (task_id task)) (\<lambda>run.
     bnd (get_task (task_id task)) (\<lambda>updated_task.
     bnd (metrics_snapshot (Some (task_project_id task))) (\<lambda>backlog_after.
     bnd (progress
        [(''type'', PStr ''task_finished''), (''task_id'', PStr (task_id task)),
         (''task_title'', PStr (task_title task)), (''project_id'', PStr (task_project_id task)),
         (''status'', PStr (case updated_task of None \<Rightarrow> ''unknown'' | Some t \<Rightarrow> TaskStatus_value (task_status t))),
         (''run_id'', PStr (run_id run)), (''run_status'', PStr (RunStatus_value (run_status run))),
         (''summary'', PStr (run_summary run))] (Backlog backlog_before backlog_after)) (\<lambda>_.
     bnd (call_back post_task updated_task) (\<lambda>_.
     ret (Processed updated_task run))))))"

definition started_event :: "Task \<Rightarrow> pydict" where
  "started_event task =
     [(''type'', PStr ''task_started''), (''task_id'', PStr (task_id task)),
      (''task_title'', PStr (task_title task)), (''project_id'', PStr (task_project_id task))]"

definition run_leased ::
  "(string \<Rightarrow> Run op) \<Rightarrow> progress \<Rightarrow> (Task \<Rightarrow> unit op) option \<Rightarrow> string \<Rightarrow> Task \<Rightarrow> queue_result op"
where
  "run_leased run_once progress post_task worker task =
     bnd (metrics_snapshot (Some (task_project_id task))) (\<lambda>backlog_before.
     bnd (progress (started_event task) NoExtra) (\<lambda>_.
     try_finally (run_and_report run_once progress post_task backlog_before task)
       (release_task_lease (task_id task) (Some worker))))"

text \<open>One round of the loop: done with a result, or another round with one more task excluded.\<close>

datatype round = Done "queue_result option" | Again "string list"

definition queue_round ::
  "(string \<Rightarrow> Run op) \<Rightarrow> progress \<Rightarrow> (Task \<Rightarrow> unit op) option \<Rightarrow> string option \<Rightarrow> string \<Rightarrow> int
     \<Rightarrow> string list \<Rightarrow> round op"
where
  "queue_round run_once progress post_task project worker lease_seconds excluded =
     bnd (acquire_task_lease worker lease_seconds project (Some excluded)) (\<lambda>leased.
     case leased of
       None \<Rightarrow> ret (Done None)
     | Some task \<Rightarrow>
         bnd (hold_back task) (\<lambda>held.
         case held of
           Some event \<Rightarrow>
             bnd (progress event NoExtra) (\<lambda>_.
             bnd (release_task_lease (task_id task) (Some worker)) (\<lambda>_.
             ret (Again (task_id task # excluded))))
         | None \<Rightarrow>
             bnd (run_leased run_once progress post_task worker task) (\<lambda>result. ret (Done (Some result)))))"

fun queue_loop ::
  "nat \<Rightarrow> (string list \<Rightarrow> round op) \<Rightarrow> string list \<Rightarrow> queue_result option option op"
where
  "queue_loop 0 body excluded = ret None"
| "queue_loop (Suc fuel) body excluded =
     bnd (body excluded) (\<lambda>r. case r of Done result \<Rightarrow> ret (Some result)
       | Again excluded' \<Rightarrow> queue_loop fuel body excluded')"

definition backends_event :: "gate_answer \<Rightarrow> pydict" where
  "backends_event g =
     [(''type'', PStr ''backends_unavailable''),
      (''message'', PStr (''No LLM backends reachable. Retry in '' @ format_int (ga_retry_in g) @ ''s.'')),
      (''probe_results'', PDict (map (\<lambda>(name, ok). (name, PBool ok)) (ga_probe_results g)))]"

definition process_next_task ::
  "(string \<Rightarrow> Run op) \<Rightarrow> progress \<Rightarrow> (Task \<Rightarrow> unit op) option \<Rightarrow> gate_answer option \<Rightarrow> nat
     \<Rightarrow> string option \<Rightarrow> string \<Rightarrow> int \<Rightarrow> string list \<Rightarrow> queue_result option option op"
where
  "process_next_task run_once progress post_task gate fuel project worker lease_seconds exclude_task_ids =
     (case gate of
        Some g \<Rightarrow>
          if \<not> ga_available g
          then bnd (progress (backends_event g) (RetryIn (ga_retry_in g)))
             (\<lambda>_. ret (Some (Some (GateBlocked (ga_retry_in g)))))
          else queue_loop fuel (queue_round run_once progress post_task project worker lease_seconds) exclude_task_ids
      | None \<Rightarrow> queue_loop fuel (queue_round run_once progress post_task project worker lease_seconds) exclude_task_ids)"

text \<open>The queue: \<open>result["task"].id\<close> of a blocked gate is a missing key, and of a task that is gone
  an attribute of \<open>None\<close>. The gate is asked once for each task.\<close>

fun process_queue ::
  "(string \<Rightarrow> Run op) \<Rightarrow> progress \<Rightarrow> (Task \<Rightarrow> unit op) option \<Rightarrow> (nat \<Rightarrow> gate_answer option) \<Rightarrow> nat \<Rightarrow> nat
     \<Rightarrow> string option \<Rightarrow> string \<Rightarrow> int \<Rightarrow> string list \<Rightarrow> queue_result list option op"
where
  "process_queue run_once progress post_task gates fuel 0 project worker lease_seconds seen = ret (Some [])"
| "process_queue run_once progress post_task gates fuel (Suc n) project worker lease_seconds seen =
     bnd (process_next_task run_once progress post_task (gates n) fuel project worker lease_seconds seen) (\<lambda>r.
     case r of
       None \<Rightarrow> ret None
     | Some None \<Rightarrow> ret (Some [])
     | Some (Some (GateBlocked retry_in)) \<Rightarrow> raise (KeyError ''task'')
     | Some (Some (Processed None run)) \<Rightarrow> raise (AttributeError ''id'')
     | Some (Some (Processed (Some t) run)) \<Rightarrow>
         bnd (process_queue run_once progress post_task gates fuel n project worker lease_seconds
                (task_id t # seen)) (\<lambda>rest.
         ret (map_option (\<lambda>rs. Processed (Some t) run # rs) rest)))"


subsection \<open>The loop ends\<close>

lemma acquired:
  assumes "acquire_task_lease w n p (Some excluded) s = (Inr (Some task), t)"
  shows "task_id task \<in> task_id ` set (st_tasks s) \<and> task_id task \<notin> set excluded"
  using assms by (auto simp: acquire_task_lease_def bnd_run utc_now_def ret_run Let_def get_task_def
      lease_candidates_def by_priority_def split: option.splits sum.splits dest!: find_key_Some find_mem)

lemma acquire_tasks: "keeps st_tasks (acquire_task_lease w n p x)"
  unfolding acquire_task_lease_def get_task_def Let_def
  by (intro keep_rules keeps_writes utc_now_keeps; simp split: sum.split)

lemma hold_back_reads:
  "(\<And>s n. f (s\<lparr>st_ticks := n\<rparr>) = f s) \<Longrightarrow> keeps f (hold_back task)"
  unfolding hold_back_def objective_hold_def worker_lane_blocks_def get_control_system_state_def get_control_lane_state_def
    objective_dispatch_block_reason_def objective_budget_exhausted_def objective_no_progress_def
    list_control_budgets_def list_control_events_def Let_def objective_execution_gate_def
    get_objective_def latest_intent_model_def list_intent_models_def list_context_records_def
    latest_mermaid_artifact_def list_mermaid_artifacts_def
  by (intro keep_rules utc_now_keeps)


definition task_ids :: "store \<Rightarrow> string list" where
  "task_ids s = map task_id (st_tasks s)"

lemma round_excludes:
  assumes progress: "\<And>e x. keeps task_ids (progress e x)"
    and run: "queue_round run_once progress post_task project worker secs excluded s = (Inr (Again excluded'), t)"
  shows "task_ids t = task_ids s \<and> (\<exists>i\<in>set (task_ids s). i \<notin> set excluded \<and> excluded' = i # excluded)"
proof -
  from run obtain task s1 event s2 u1 s3 u2 where
    a: "acquire_task_lease worker secs project (Some excluded) s = (Inr (Some task), s1)"
    and h: "hold_back task s1 = (Inr (Some event), s2)"
    and p: "progress event NoExtra s2 = (Inr u1, s3)"
    and r: "release_task_lease (task_id task) (Some worker) s3 = (Inr u2, t)"
    and e: "excluded' = task_id task # excluded"
    unfolding queue_round_def by (auto elim!: bnd_InrE split: option.splits simp: ret_run)
  have "st_tasks s1 = st_tasks s" by (rule keeps_run [OF acquire_tasks a])
  moreover have "st_tasks s2 = st_tasks s1" by (rule keeps_run [OF hold_back_reads h]) simp
  moreover have "task_ids s3 = task_ids s2" by (rule keeps_run [OF progress p])
  moreover have "st_tasks t = st_tasks s3" using r by (auto simp: release_task_lease_def)
  ultimately have "task_ids t = task_ids s" by (simp add: task_ids_def)
  then show ?thesis using acquired [OF a] e by (auto simp: task_ids_def)
qed

lemma queue_loop_ends:
  assumes "\<And>excluded s excluded' t. body excluded s = (Inr (Again excluded'), t) \<Longrightarrow>
      task_ids t = task_ids s \<and> (\<exists>i\<in>set (task_ids s). i \<notin> set excluded \<and> excluded' = i # excluded)"
    and "card (set (task_ids s) - set excluded) < fuel"
  shows "fst (queue_loop fuel body excluded s) \<noteq> Inr None"
  using assms(2)
proof (induction fuel arbitrary: excluded s)
  case 0
  then show ?case by simp
next
  case (Suc fuel)
  show ?case
  proof (cases "body excluded s")
    case (Pair r t)
    show ?thesis
    proof (cases "\<exists>excluded'. r = Inr (Again excluded')")
      case True
      then obtain excluded' where r: "r = Inr (Again excluded')" by blast
      with assms(1) Pair obtain i where i: "task_ids t = task_ids s" "i \<in> set (task_ids s)"
        "i \<notin> set excluded" "excluded' = i # excluded" by blast
      then have "set (task_ids t) - set excluded' \<subset> set (task_ids s) - set excluded" by auto
      then have "card (set (task_ids t) - set excluded') < card (set (task_ids s) - set excluded)"
        by (intro psubset_card_mono) auto
      then show ?thesis using Suc.IH [of t excluded'] Suc.prems Pair r by (simp add: bnd_run)
    next
      case False
      then show ?thesis using Pair by (auto simp: bnd_run ret_run split: sum.split round.split)
    qed
  qed
qed

lemma blocked_some: "fst (bnd m (\<lambda>_. ret (Some r)) s) \<noteq> Inr None"
  by (cases "m s") (auto simp: bnd_run ret_run split: sum.split)

lemma queue_ends:
  assumes "\<And>e x. keeps task_ids (progress e x)" and "length (st_tasks s) < fuel"
  shows "fst (process_next_task run_once progress post_task gate fuel project worker secs excluded s) \<noteq> Inr None"
proof -
  have "card (set (task_ids s) - set excluded) \<le> card (set (task_ids s))" by (intro card_mono) auto
  also have "\<dots> \<le> length (task_ids s)" by (rule card_length)
  finally have "card (set (task_ids s) - set excluded) < fuel" using assms(2) by (simp add: task_ids_def)
  then have loop: "fst (queue_loop fuel (queue_round run_once progress post_task project worker secs) excluded s) \<noteq> Inr None"
    by (intro queue_loop_ends) (rule round_excludes [OF assms(1)])
  show ?thesis
  proof (cases "\<exists>g. gate = Some g \<and> \<not> ga_available g")
    case True
    then show ?thesis by (auto simp: process_next_task_def blocked_some)
  next
    case False
    then show ?thesis using loop by (auto simp: process_next_task_def split: option.split)
  qed
qed


text \<open>C22. The \<open>while True\<close> loop of \<open>process_next_task\<close> ends: if the progress callback adds and removes
  no task, one round for each task and one more are enough, so that the call returns or raises, whatever
  the lanes, budgets and gates say and whatever the runner does.\<close>

theorem queue_never_spins:
  assumes "\<And>e x. keeps task_ids (progress e x)" and "length (st_tasks s) < fuel"
  shows "fst (process_next_task run_once progress post_task gate fuel project worker secs excluded s) \<noteq> Inr None"
  by (rule queue_ends [OF assms])

lemma queue_never_spins_witness:
  "fst (process_next_task (\<lambda>i. raise (RuntimeError i)) (\<lambda>e x. ret ()) None None 3 None ''w'' 60 [] demo_gate)
     \<noteq> Inr None"
  by (rule queue_never_spins) (simp_all add: keeps_ret demo_gate_def demo_diagrams_def empty_store_def)

subsection \<open>Leases are given back\<close>

definition booted :: "store \<Rightarrow> bool" where
  "booted s \<longleftrightarrow> find_key css_id ''system'' (st_system s) \<noteq> None"

lemma total_reads: "total (reads f)"
  by (simp add: total_def)

lemma total_ret: "total (ret a)"
  by (simp add: total_def ret_def)

lemma total_case_option: "total m \<Longrightarrow> (\<And>a. total (k a)) \<Longrightarrow> total (case x of None \<Rightarrow> m | Some a \<Rightarrow> k a)"
  by (cases x) auto

lemma total_if: "total m \<Longrightarrow> total n \<Longrightarrow> total (if b then m else n)"
  by simp

lemmas total_rules = total_bnd total_reads total_ret total_case_option total_if utc_now_total

lemma gate_total: "total (objective_execution_gate i)"
  unfolding objective_execution_gate_def Let_def get_objective_def latest_intent_model_def
    list_intent_models_def list_context_records_def latest_mermaid_artifact_def list_mermaid_artifacts_def
  by (intro total_rules)

lemma dispatch_total: "total (objective_dispatch_block_reason i)"
  unfolding objective_dispatch_block_reason_def objective_budget_exhausted_def objective_no_progress_def
    list_control_budgets_def list_control_events_def Let_def
  by (intro total_rules)

lemma lane_check: "booted s \<Longrightarrow> \<exists>b. worker_lane_blocks s = (Inr b, s)"
  by (auto simp: worker_lane_blocks_def get_control_system_state_def get_control_lane_state_def
      booted_def bnd_run ret_run split: option.split)

lemma objective_hold_total: "total (objective_hold task)"
  unfolding objective_hold_def by (intro total_rules dispatch_total gate_total)

lemma hold_back_total: "booted s \<Longrightarrow> \<exists>e t. hold_back task s = (Inr e, t)"
  using lane_check [of s] objective_hold_total [of task]
  by (auto simp: hold_back_def bnd_run ret_run total_def split: if_split)

lemma acquire_leases:
  assumes "acquire_task_lease w n p x s = (r, t)"
  shows "st_system t = st_system s \<and> (\<exists>leased. r = Inr leased \<and> (case leased of
      None \<Rightarrow> set (st_task_leases t) \<subseteq> set (st_task_leases s)
    | Some task \<Rightarrow> set (st_task_leases t) \<subseteq> set (st_task_leases s)
        \<union> {l. lease_task_id l = task_id task \<and> lease_worker_id l = w}))"
proof -
  let ?now = "st_clock s (st_ticks s)"
  let ?live = "delete_where (\<lambda>l. lease_lease_expires_at l \<le> ?now) (st_task_leases s)"
  let ?s1 = "s\<lparr>st_ticks := Suc (st_ticks s), st_task_leases := ?live\<rparr>"
  have live: "set ?live \<subseteq> set (st_task_leases s)" by (auto simp: delete_where_def)
  show ?thesis
  proof (cases "List.find (has_capacity ?s1) (lease_candidates p x ?s1)")
    case None
    then show ?thesis using assms live
      by (auto simp: acquire_task_lease_def bnd_run utc_now_def ret_run)
  next
    case (Some c)
    let ?l = "\<lparr>lease_task_id = task_id c, lease_worker_id = w,
      lease_lease_expires_at = ?now + n * 1000000, lease_created_at = ?now\<rparr>"
    show ?thesis
    proof (cases "insert_fk lease_task_id (has_key task_id (task_id c) (st_tasks s)) ?l ?live")
      case (Inl e)
      then show ?thesis using assms live Some
        by (auto simp: acquire_task_lease_def bnd_run utc_now_def ret_run Let_def)
    next
      case (Inr rows)
      then have rows: "rows = ?live @ [?l]" by (simp add: insert_fk_Inr)
      have "r = Inr (find_key task_id (task_id c) (st_tasks s)) \<and> t = ?s1\<lparr>st_task_leases := rows\<rparr>"
        using assms Some Inr
        by (auto simp: acquire_task_lease_def bnd_run utc_now_def ret_run Let_def get_task_def)
      then show ?thesis using live find_mem [OF Some]
        by (auto simp: rows lease_candidates_def by_priority_def find_key_None split: option.split dest: find_key_Some)
    qed
  qed
qed


text \<open>The callbacks and the runner of the deployed service leave the lease table alone.\<close>

definition lease_neutral ::
  "(string \<Rightarrow> Run op) \<Rightarrow> progress \<Rightarrow> (Task \<Rightarrow> unit op) option \<Rightarrow> bool" where
  "lease_neutral run_once progress post_task \<longleftrightarrow>
     (\<forall>i. keeps st_task_leases (run_once i))
     \<and> (\<forall>e x. total (progress e x) \<and> keeps st_task_leases (progress e x) \<and> preserves booted (progress e x))
     \<and> (\<forall>callback t. post_task = Some callback \<longrightarrow> keeps st_task_leases (callback t))"

lemma try_finally_leases:
  "keeps st_task_leases m \<Longrightarrow> st_task_leases (snd (try_finally m (release_task_lease i (Some w)) s))
     = delete_where (\<lambda>l. lease_task_id l = i \<and> lease_worker_id l = w) (st_task_leases s)"
  by (auto simp: try_finally_def release_task_lease_def dest: keeps_run split: prod.split)

lemma metrics_total: "total (metrics_snapshot p)" "keeps st_task_leases (metrics_snapshot p)"
  unfolding metrics_snapshot_def by (intro total_rules keep_rules utc_now_keeps; simp)+

lemma run_leased_releases:
  assumes env: "lease_neutral run_once progress post_task"
  shows "st_task_leases (snd (run_leased run_once progress post_task w task s)) =
    delete_where (\<lambda>l. lease_task_id l = task_id task \<and> lease_worker_id l = w) (st_task_leases s)"
proof -
  have p: "total (progress e x)" "keeps st_task_leases (progress e x)" for e x
    using env by (auto simp: lease_neutral_def)
  have k: "keeps st_task_leases (run_and_report run_once progress post_task b task)" for b
    unfolding run_and_report_def get_task_def using env
    by (intro keep_rules p(2) metrics_total(2))
      (auto simp: lease_neutral_def call_back_def keeps_ret split: option.split)
  obtain b s1 where m: "metrics_snapshot (Some (task_project_id task)) s = (Inr b, s1)"
    using metrics_total(1) by (force simp: total_def)
  obtain u s2 where q: "progress (started_event task) NoExtra s1 = (Inr u, s2)"
    using p(1) by (force simp: total_def)
  have "st_task_leases s2 = st_task_leases s"
    using keeps_run [OF metrics_total(2) m] keeps_run [OF p(2) q] by simp
  then show ?thesis
    by (simp add: run_leased_def bnd_run m q try_finally_leases [OF k])
qed


lemma release_leases: "release_task_lease i (Some w) s = (Inr (), s\<lparr>st_task_leases :=
    delete_where (\<lambda>l. lease_task_id l = i \<and> lease_worker_id l = w) (st_task_leases s)\<rparr>)"
  by (simp add: release_task_lease_def)

lemma round_releases:
  assumes env: "lease_neutral run_once progress post_task" and booted: "booted s"
    and run: "queue_round run_once progress post_task project worker secs excluded s = (r, t)"
  shows "set (st_task_leases t) \<subseteq> set (st_task_leases s) \<and> ((\<exists>x. r = Inr (Again x)) \<longrightarrow> booted t)"
proof -
  obtain l s1 where a: "acquire_task_lease worker secs project (Some excluded) s = (Inr l, s1)"
    using acquire_leases by (metis surj_pair)
  note acq = acquire_leases [OF a]
  show ?thesis
  proof (cases l)
    case None
    then show ?thesis using run a acq by (auto simp: queue_round_def bnd_run ret_run)
  next
    case (Some task)
    have "booted s1" using booted acq by (simp add: booted_def)
    from hold_back_total [OF this] obtain held s2 where h: "hold_back task s1 = (Inr held, s2)" by blast
    have s2: "st_task_leases s2 = st_task_leases s1" "st_system s2 = st_system s1"
      by (rule keeps_run [OF hold_back_reads h]; simp)+
    show ?thesis
    proof (cases held)
      case None
      then have "t = snd (run_leased run_once progress post_task worker task s2)" "\<not> (\<exists>x. r = Inr (Again x))"
        using run a h Some
        by (auto simp: queue_round_def bnd_run ret_run split: prod.splits sum.splits)
      then show ?thesis using acq Some run_leased_releases [OF env] s2 by (auto simp: delete_where_def)
    next
      case (Some event)
      obtain u s3 where p: "progress event NoExtra s2 = (Inr u, s3)"
        using env by (force simp: lease_neutral_def total_def)
      have neutral: "keeps st_task_leases (progress event NoExtra)" "preserves booted (progress event NoExtra)"
        using env by (auto simp: lease_neutral_def)
      have s3: "st_task_leases s3 = st_task_leases s2" by (rule keeps_run [OF neutral(1) p])
      have "booted s2" using \<open>booted s1\<close> s2 by (simp add: booted_def)
      then have "booted s3" by (rule preserves_run [OF neutral(2) _ p])
      then show ?thesis using run a h p Some \<open>l = Some task\<close> acq s2 s3
        by (auto simp: queue_round_def bnd_run ret_run release_leases delete_where_def booted_def)
    qed
  qed
qed

lemma loop_releases:
  assumes env: "lease_neutral run_once progress post_task" and "booted s"
  shows "set (st_task_leases (snd (queue_loop fuel (queue_round run_once progress post_task project worker secs) excluded s)))
    \<subseteq> set (st_task_leases s)"
  using assms(2)
proof (induction fuel arbitrary: excluded s)
  case 0
  then show ?case by (simp add: ret_run)
next
  case (Suc fuel)
  let ?body = "queue_round run_once progress post_task project worker secs"
  obtain r t where b: "?body excluded s = (r, t)" by fastforce
  note round = round_releases [OF env Suc.prems b]
  show ?case
  proof (cases "\<exists>x. r = Inr (Again x)")
    case True
    then obtain x where x: "r = Inr (Again x)" by blast
    with round Suc.IH [of t x] b show ?thesis by (auto simp: bnd_run)
  next
    case False
    then show ?thesis using round b by (auto simp: bnd_run ret_run split: sum.split round.split)
  qed
qed

lemma progress_neutral:
  assumes "lease_neutral run_once progress post_task"
  shows "set (st_task_leases (snd (bnd (progress e x) (\<lambda>_. ret y) s))) \<subseteq> set (st_task_leases s)"
proof -
  have "total (progress e x)" "keeps st_task_leases (progress e x)"
    using assms by (auto simp: lease_neutral_def)
  then obtain u t where "progress e x s = (Inr u, t)" "st_task_leases t = st_task_leases s"
    by (metis keeps_run total_def)
  then show ?thesis by (simp add: bnd_run ret_run)
qed

definition demo_work :: "ControlLaneStateValue \<Rightarrow> store" where
  "demo_work lane = (empty_store 0)\<lparr>st_tasks := [sample_task\<lparr>task_status := TS_PENDING\<rparr>],
     st_system := [\<lparr>css_id = ''system'', css_global_state = GS_HEALTHY, css_master_switch = True,
       css_freeze_reason = None, css_updated_at = 0\<rparr>],
     st_lanes := [\<lparr>cls_lane_name = ''worker'', cls_state = lane, cls_reason = None,
       cls_cooldown_until = None, cls_updated_at = 0\<rparr>]\<rparr>"

text \<open>C23. No lease is left behind: whether \<open>process_next_task\<close> returns a result, finds nothing, is
  held back by a gate, or the runner or the callback after the task raises, afterwards the lease table
  holds only leases that were there before. This needs that the system row exists, and that the
  callbacks and the runner leave leases alone and the progress callback does not raise: the code
  releases in a \<open>finally\<close> around the runner only, so a progress callback that raises before leaks the
  lease of the task.\<close>

theorem leases_are_released:
  assumes "lease_neutral run_once progress post_task" and "booted s"
  shows "set (st_task_leases (snd (process_next_task run_once progress post_task gate fuel project worker secs excluded s)))
    \<subseteq> set (st_task_leases s)"
  using loop_releases [OF assms]
  by (simp add: process_next_task_def progress_neutral [OF assms(1)] split: option.split)

lemma leases_are_released_witness:
  "set (st_task_leases (snd (process_next_task (\<lambda>i. raise (RuntimeError i)) (\<lambda>e x. ret ()) None None 3 None
     ''w'' 60 [] (demo_work LS_RUNNING)))) \<subseteq> {}"
proof -
  have "lease_neutral (\<lambda>i. raise (RuntimeError i)) (\<lambda>e x. ret ()) None"
    by (simp add: lease_neutral_def keeps_ret keeps_raise total_ret preserves_ret)
  moreover have "booted (demo_work LS_RUNNING)" by (simp add: booted_def demo_work_def)
  ultimately show ?thesis
    by (rule leases_are_released [THEN subset_trans]) (simp add: demo_work_def empty_store_def)
qed


subsection \<open>A paused worker runs nothing\<close>

definition worker_stopped :: "store \<Rightarrow> bool" where
  "worker_stopped s \<longleftrightarrow> (\<exists>c l. find_key css_id ''system'' (st_system s) = Some c \<and> css_master_switch c
     \<and> find_key cls_lane_name ''worker'' (st_lanes s) = Some l
     \<and> (cls_state l = LS_PAUSED \<or> cls_state l = LS_COOLDOWN))"

definition stop_neutral :: "progress \<Rightarrow> bool" where
  "stop_neutral progress \<longleftrightarrow> (\<forall>e x. total (progress e x) \<and> keeps st_tasks (progress e x)
     \<and> preserves worker_stopped (progress e x))"

lemma stopped_holds: "worker_stopped s \<Longrightarrow> hold_back task s = (Inr (Some (lane_event task)), s)"
  by (auto simp: worker_stopped_def hold_back_def worker_lane_blocks_def get_control_system_state_def
      get_control_lane_state_def bnd_run ret_run)

lemma acquire_lanes: "keeps st_lanes (acquire_task_lease w n p x)"
  unfolding acquire_task_lease_def get_task_def Let_def
  by (intro keep_rules keeps_writes utc_now_keeps; simp)

lemma stopped_round:
  assumes stopped: "worker_stopped s"
    and progress: "stop_neutral progress"
  shows "\<exists>r t. queue_round run_once progress post_task project worker secs excluded s = (Inr r, t)
    \<and> worker_stopped t \<and> st_tasks t = st_tasks s \<and> (r = Done None \<or> (\<exists>x. r = Again x))"
proof -
  obtain l s1 where a: "acquire_task_lease worker secs project (Some excluded) s = (Inr l, s1)"
    using acquire_leases by (metis surj_pair)
  have s1: "st_system s1 = st_system s" "st_lanes s1 = st_lanes s" "st_tasks s1 = st_tasks s"
    using acquire_leases [OF a] keeps_run [OF acquire_lanes a] keeps_run [OF acquire_tasks a] by auto
  have stopped1: "worker_stopped s1" using stopped s1 by (simp add: worker_stopped_def)
  show ?thesis
  proof (cases l)
    case None
    then show ?thesis using a stopped1 s1 by (simp add: queue_round_def bnd_run ret_run)
  next
    case (Some task)
    from progress obtain u s2 where p: "progress (lane_event task) NoExtra s1 = (Inr u, s2)"
      by (force simp: total_def stop_neutral_def)
    have neutral: "keeps st_tasks (progress (lane_event task) NoExtra)"
      "preserves worker_stopped (progress (lane_event task) NoExtra)" using progress by (auto simp: stop_neutral_def)
    have "st_tasks s2 = st_tasks s" "worker_stopped s2"
      using keeps_run [OF neutral(1) p] s1 preserves_run [OF neutral(2) stopped1 p] by simp_all
    then show ?thesis using a Some p stopped_holds [OF stopped1]
      by (simp add: queue_round_def bnd_run ret_run release_leases worker_stopped_def)
  qed
qed

lemma stopped_loop:
  assumes "worker_stopped s"
    and progress: "stop_neutral progress"
  shows "\<exists>r t. queue_loop fuel (queue_round run_once progress post_task project worker secs) excluded s = (Inr r, t)
    \<and> (r = None \<or> r = Some None) \<and> st_tasks t = st_tasks s"
  using assms(1)
proof (induction fuel arbitrary: excluded s)
  case 0
  then show ?case by (simp add: ret_run)
next
  case (Suc fuel)
  from stopped_round [OF Suc.prems progress] obtain r t where b:
    "queue_round run_once progress post_task project worker secs excluded s = (Inr r, t)"
    "worker_stopped t" "st_tasks t = st_tasks s" "r = Done None \<or> (\<exists>x. r = Again x)" by blast
  from b(4) show ?case
  proof
    assume "r = Done None"
    then show ?thesis using b by (simp add: bnd_run ret_run)
  next
    assume "\<exists>x. r = Again x"
    then obtain x where "r = Again x" by blast
    then show ?thesis using b Suc.IH [OF b(2), of x] by (simp add: bnd_run)
  qed
qed

text \<open>C24. A stopped worker runs nothing: with the master switch on and the worker lane paused or in a
  cooldown, \<open>process_next_task\<close> hands out no task, whatever runner it has, and ends with nothing
  processed and every task as it was, provided the progress callback does not raise, keeps the tasks
  and does not restart the lane.\<close>

theorem stopped_worker_runs_nothing:
  assumes "worker_stopped s" and "length (st_tasks s) < fuel"
    and progress: "stop_neutral progress"
  shows "\<exists>t. process_next_task run_once progress post_task None fuel project worker secs excluded s = (Inr (Some None), t)
    \<and> st_tasks t = st_tasks s"
proof -
  have "keeps task_ids (progress e x)" for e x
    using progress by (simp add: stop_neutral_def keeps_def task_ids_def)
  from queue_ends [OF this assms(2)]
  have "fst (process_next_task run_once progress post_task None fuel project worker secs excluded s) \<noteq> Inr None" .
  moreover obtain r t where "queue_loop fuel (queue_round run_once progress post_task project worker secs) excluded s
      = (Inr r, t)" "r = None \<or> r = Some None" "st_tasks t = st_tasks s"
    using stopped_loop [OF assms(1) progress] by blast
  ultimately show ?thesis by (auto simp: process_next_task_def)
qed

lemma stopped_worker_runs_nothing_witness:
  "\<exists>t. process_next_task (\<lambda>i. raise (RuntimeError i)) (\<lambda>e x. ret ()) None None 2 None ''w'' 60 [] (demo_work LS_PAUSED)
     = (Inr (Some None), t)"
proof -
  have "worker_stopped (demo_work LS_PAUSED)" by (simp add: worker_stopped_def demo_work_def)
  moreover have "length (st_tasks (demo_work LS_PAUSED)) < 2" by (simp add: demo_work_def)
  moreover have "stop_neutral (\<lambda>e x. ret ())"
    by (simp add: stop_neutral_def total_ret keeps_ret preserves_ret)
  ultimately show ?thesis using stopped_worker_runs_nothing by blast
qed

end
