(* ===== verification/Decision_Service.thy ===== *)
theory Decision_Service
  imports Record_Props Policy Decimal
begin

section \<open>The decision service\<close>

text \<open>
  \<open>services/decision_service.py\<close>: one pending item is taken from the decision queue, decided,
  recorded and applied to its run and its task. The decider is the one the service was built with;
  \<open>Policy.decide\<close> is the default. Log messages are left out.
\<close>

type_synonym decider = "AnalyzeResult \<Rightarrow> Run \<Rightarrow> Task \<Rightarrow> exn + DecideResult"

definition default_decider :: decider where
  "default_decider analysis run task = Inr (decide analysis run task)"

definition final_run_status :: "EvaluationVerdict \<Rightarrow> DecisionAction \<Rightarrow> RunStatus" where
  "final_run_status verdict action =
     (let final_status = (if action = DA_PROMOTE then RS_COMPLETED else RS_FAILED);
          final_status = (if verdict = EV_BLOCKED then RS_BLOCKED else final_status)
      in if action = DA_BRANCH then RS_FAILED else final_status)"

definition final_task_status :: "DecisionAction \<Rightarrow> TaskStatus" where
  "final_task_status action =
     (let task_status = (if action = DA_PROMOTE then TS_COMPLETED else TS_PENDING);
          task_status = (if action = DA_FAIL then TS_FAILED else task_status)
      in if action = DA_BRANCH then TS_ACTIVE else task_status)"

definition emit :: "string \<Rightarrow> string \<Rightarrow> string \<Rightarrow> pydict \<Rightarrow> unit op" where
  "emit entity_type entity event_type payload =
     bnd (new_id ''event'') (\<lambda>i.
     bnd utc_now (\<lambda>now.
     create_event \<lparr>event_id = i, event_entity_type = entity_type, event_entity_id = entity,
       event_event_type = event_type, event_payload = payload, event_created_at = now\<rparr>))"

definition decide_item :: "decider \<Rightarrow> DecisionQueueItem \<Rightarrow> bool op" where
  "decide_item decider item =
     bnd (get_run (dqi_run_id item)) (\<lambda>run_row.
     bnd (get_task (dqi_task_id item)) (\<lambda>task_row.
     case (run_row, task_row) of
       (Some run, Some task) \<Rightarrow>
         bnd (list_evaluations (dqi_run_id item)) (\<lambda>evaluations.
         case List.find (\<lambda>e. evaluation_id e = dqi_evaluation_id item) evaluations of
           None \<Rightarrow> bnd (complete_decision (dqi_id item) ''failed'') (\<lambda>_. ret True)
         | Some evaluation \<Rightarrow>
             let analysis = \<lparr>ar_verdict = evaluation_verdict evaluation,
                   ar_confidence = evaluation_confidence evaluation,
                   ar_summary = evaluation_summary evaluation,
                   ar_details = evaluation_details evaluation\<rparr>
             in
             bnd (lift_result (decider analysis run task)) (\<lambda>result.
             bnd (new_id ''decision'') (\<lambda>i.
             bnd utc_now (\<lambda>now.
             bnd (create_decision \<lparr>decision_id = i, decision_run_id = run_id run,
                    decision_action = dr_action result, decision_rationale = dr_rationale result,
                    decision_created_at = now\<rparr>) (\<lambda>_.
             bnd (emit ''decision'' i ''decision_recorded''
                    [(''run_id'', PStr (run_id run)),
                     (''action'', PStr (DecisionAction_value (dr_action result)))]) (\<lambda>_.
             let final_status = final_run_status (ar_verdict analysis) (dr_action result);
                 status = final_task_status (dr_action result)
             in
             bnd (mark_run run final_status (dr_rationale result)) (\<lambda>_.
             bnd (get_task (task_id task)) (\<lambda>current_task.
             bnd (case current_task of
                    None \<Rightarrow> ret ()
                  | Some current \<Rightarrow>
                      when_do (\<not> (task_status current = TS_COMPLETED \<and> status \<noteq> TS_COMPLETED))
                        (bnd (update_task_status (task_id task) status) (\<lambda>_.
                         emit ''task'' (task_id task) ''task_status_changed''
                           [(''status'', PStr (TaskStatus_value status)),
                            (''run_id'', PStr (run_id run))]))) (\<lambda>_.
             bnd (complete_decision (dqi_id item) ''completed'') (\<lambda>_.
             ret True))))))))))
     | _ \<Rightarrow> bnd (complete_decision (dqi_id item) ''failed'') (\<lambda>_. ret True)))"

definition process_one :: "decider \<Rightarrow> bool op" where
  "process_one decider =
     bnd dequeue_decision (\<lambda>row.
     case row of
       None \<Rightarrow> ret False
     | Some item \<Rightarrow>
         try_except (decide_item decider item)
           (\<lambda>_. bnd (complete_decision (dqi_id item) ''failed'') (\<lambda>_. ret True)))"


subsection \<open>Every item is settled\<close>

text \<open>Programs that leave the queue alone, and programs that end by settling one item, or raise
  before they touch it.\<close>

definition settle :: "string \<Rightarrow> string \<Rightarrow> time \<Rightarrow> DecisionQueueItem list \<Rightarrow> DecisionQueueItem list" where
  "settle i status now = update_where (\<lambda>x. dqi_id x = i)
     (\<lambda>x. x\<lparr>dqi_status := status, dqi_completed_at := Some now\<rparr>)"

definition settles :: "string \<Rightarrow> bool op \<Rightarrow> bool" where
  "settles i m \<longleftrightarrow> (\<forall>s. case m s of
      (Inl e, t) \<Rightarrow> st_decision_queue t = st_decision_queue s
    | (Inr b, t) \<Rightarrow> b \<and> (\<exists>status now. status \<in> {''completed'', ''failed''}
        \<and> st_decision_queue t = settle i status now (st_decision_queue s)))"

lemma settles_bnd: "keeps st_decision_queue m \<Longrightarrow> (\<And>a. settles i (k a)) \<Longrightarrow> settles i (bnd m k)"
proof -
  assume m: "keeps st_decision_queue m" and k: "\<And>a. settles i (k a)"
  show "settles i (bnd m k)"
    unfolding settles_def
  proof
    fix s
    obtain r t where run: "m s = (r, t)" by fastforce
    have same: "st_decision_queue t = st_decision_queue s" by (rule keeps_run [OF m run])
    show "case bnd m k s of (Inl e, t) \<Rightarrow> st_decision_queue t = st_decision_queue s
      | (Inr b, t) \<Rightarrow> b \<and> (\<exists>status now. status \<in> {''completed'', ''failed''}
          \<and> st_decision_queue t = settle i status now (st_decision_queue s))"
    proof (cases r)
      case (Inl e)
      then show ?thesis using run same by (simp add: bnd_run)
    next
      case (Inr a)
      then have "bnd m k s = k a t" using run by (simp add: bnd_run)
      then show ?thesis using k [of a, unfolded settles_def, THEN spec, of t] by (simp only: same)
    qed
  qed
qed

lemma complete_run: "\<exists>now. complete_decision i status s = (Inr (), s\<lparr>st_ticks := Suc (st_ticks s),
     st_decision_queue := settle i status now (st_decision_queue s)\<rparr>)"
  by (auto simp: complete_decision_def sql_now_def utc_now_def bnd_run ret_run settle_def)

lemma settles_complete:
  assumes "status \<in> {''completed'', ''failed''}"
  shows "settles i (bnd (complete_decision i status) (\<lambda>_. ret True))"
  unfolding settles_def
proof
  fix s
  obtain now where "complete_decision i status s = (Inr (), s\<lparr>st_ticks := Suc (st_ticks s),
     st_decision_queue := settle i status now (st_decision_queue s)\<rparr>)"
    using complete_run by blast
  with assms show "case bnd (complete_decision i status) (\<lambda>_. ret True) s of
      (Inl e, t) \<Rightarrow> st_decision_queue t = st_decision_queue s
    | (Inr b, t) \<Rightarrow> b \<and> (\<exists>status now. status \<in> {''completed'', ''failed''}
        \<and> st_decision_queue t = settle i status now (st_decision_queue s))"
    by (auto simp: bnd_run ret_run)
qed

lemma queue_kept_now: "keeps st_decision_queue utc_now" "keeps st_decision_queue (new_id p)"
  by (auto intro: utc_now_keeps new_id_keeps)

lemma queue_kept:
  "keeps st_decision_queue (get_run r)" "keeps st_decision_queue (get_task i)"
  "keeps st_decision_queue (list_evaluations r)" "keeps st_decision_queue (create_decision d)"
  "keeps st_decision_queue (emit a b c p)" "keeps st_decision_queue (mark_run run st summary)"
  "keeps st_decision_queue (update_task_status i ts)"
  unfolding get_run_def get_task_def list_evaluations_def create_decision_def emit_def create_event_def
    mark_run_def update_run_def update_task_status_def update_objective_phase_def Let_def
  by (intro keep_rules queue_kept_now keeps_writes keeps_try_write;
      auto simp: rbind_Inr_iff)+

lemma decide_item_settles: "settles (dqi_id item) (decide_item decider item)"
proof -
  have fail: "settles (dqi_id item) (bnd (complete_decision (dqi_id item) ''failed'') (\<lambda>_. ret True))"
    by (simp add: settles_complete)
  have optional: "keeps st_decision_queue (case x of None \<Rightarrow> ret () | Some current \<Rightarrow>
      when_do (p current) (bnd (update_task_status i st) (\<lambda>_. emit a b c d)))" for x p i st a b c d
    by (intro keep_rules queue_kept)
  show ?thesis
    unfolding decide_item_def Let_def
    by (intro settles_bnd queue_kept) (auto intro!: settles_bnd queue_kept optional fail settles_complete
        queue_kept_now keeps_lift_result split: option.split)
qed


lemma dequeue_marks:
  assumes "dequeue_decision s = (Inr (Some y), t)"
  shows "\<exists>now. st_decision_queue t = update_where (\<lambda>i. dqi_id i = dqi_id y)
    (\<lambda>i. i\<lparr>dqi_status := ''processing'', dqi_started_at := Some now\<rparr>) (st_decision_queue s)"
  using assms by (auto simp: dequeue_decision_def bnd_run ret_run sql_now_def utc_now_def
      split: option.splits)

lemma waiting_update:
  assumes "\<And>x. dqi_priority (f x) = dqi_priority x" "\<And>x. dqi_created_at (f x) = dqi_created_at x"
    and "\<And>x. x \<in> set q \<Longrightarrow> p x \<Longrightarrow> dqi_status x \<noteq> ''pending'' \<and> dqi_status (f x) \<noteq> ''pending''"
  shows "filter (\<lambda>i. dqi_status i = ''pending'') (order_by dqi_priority (order_by dqi_created_at (update_where p f q)))
    = filter (\<lambda>i. dqi_status i = ''pending'') (order_by dqi_priority (order_by dqi_created_at q))"
proof -
  let ?f = "\<lambda>x. if p x then f x else x"
  have sorted: "order_by dqi_priority (order_by dqi_created_at (update_where p f q)) =
      map ?f (order_by dqi_priority (order_by dqi_created_at q))"
    using assms(1,2) by (simp add: update_where_def order_by_def sort_key_map)
  have "filter (\<lambda>i. dqi_status i = ''pending'') (map ?f ys) = filter (\<lambda>i. dqi_status i = ''pending'') ys"
    if "set ys \<subseteq> set q" for ys
    using that by (induction ys) (use assms(3) in auto)
  then show ?thesis by (simp add: sorted)
qed

text \<open>C25. No item gets stuck and no failure escapes: with distinct item ids, \<open>process_one\<close> never
  raises, whatever the decider, the stored rows or the writes do. It returns \<open>False\<close> exactly when
  nothing is pending; otherwise it takes the first pending item, leaves it completed or failed, never
  pending or processing, and changes no other item.\<close>

theorem process_one_settles:
  assumes keyed: "keyed dqi_id (st_decision_queue s)"
  shows "\<exists>b t. process_one decider s = (Inr b, t) \<and> (b \<longleftrightarrow> waiting s \<noteq> []) \<and> waiting t = tl (waiting s)
    \<and> map dqi_id (st_decision_queue t) = map dqi_id (st_decision_queue s)
    \<and> (\<forall>x\<in>set (st_decision_queue t). if waiting s \<noteq> [] \<and> dqi_id x = dqi_id (hd (waiting s))
         then dqi_status x \<in> {''completed'', ''failed''} else x \<in> set (st_decision_queue s))"
proof (cases "waiting s")
  case Nil
  with dequeue_run [OF keyed] show ?thesis by (simp add: process_one_def bnd_run ret_run) blast
next
  case (Cons x xs)
  from dequeue_run [OF keyed] Cons obtain y t where d: "dequeue_decision s = (Inr (Some y), t)"
    "dqi_id y = dqi_id x" "waiting t = xs" by auto
  from dequeue_marks [OF d(1)] obtain now0 where q0: "st_decision_queue t =
      update_where (\<lambda>i. dqi_id i = dqi_id y) (\<lambda>i. i\<lparr>dqi_status := ''processing'',
        dqi_started_at := Some now0\<rparr>) (st_decision_queue s)" by blast
  obtain status now b u where fin: "process_one decider s = (Inr True, u)"
    "status \<in> {''completed'', ''failed''}" "st_decision_queue u = settle (dqi_id y) status now (st_decision_queue t)"
  proof (cases "decide_item decider y t")
    case (Pair r u)
    note set = decide_item_settles [of y decider, unfolded settles_def, THEN spec, of t]
    show ?thesis
    proof (cases r)
      case (Inl e)
      obtain now where "complete_decision (dqi_id y) ''failed'' u = (Inr (), u\<lparr>st_ticks := Suc (st_ticks u),
        st_decision_queue := settle (dqi_id y) ''failed'' now (st_decision_queue u)\<rparr>)"
        using complete_run by blast
      then show ?thesis using that [of _ "''failed''" now] set Pair Inl
        by (simp add: process_one_def bnd_run d(1) try_except_def ret_run)
    next
      case (Inr b)
      then show ?thesis using that set Pair
        by (auto simp: process_one_def bnd_run d(1) try_except_def)
    qed
  qed
  have "waiting u = waiting t"
    unfolding waiting_def fin(3) settle_def
    by (rule waiting_update) (use fin(2) q0 in \<open>auto simp: update_where_def\<close>)
  moreover have "map dqi_id (st_decision_queue u) = map dqi_id (st_decision_queue s)"
    unfolding fin(3) q0 settle_def by (simp add: update_where_def)
  moreover have "\<forall>z\<in>set (st_decision_queue u). if dqi_id z = dqi_id x
      then dqi_status z \<in> {''completed'', ''failed''} else z \<in> set (st_decision_queue s)"
    unfolding fin(3) q0 settle_def d(2) using fin(2) by (auto simp: update_where_def)
  ultimately show ?thesis using fin(1) d(3) Cons
    by (intro exI [of _ True] exI [of _ u]) auto
qed

lemma process_one_settles_witness:
  "\<exists>b t. process_one default_decider demo_queue = (Inr b, t) \<and> b
     \<and> map dqi_id (waiting t) = [''b'', ''a'']"
proof -
  have "keyed dqi_id (st_decision_queue demo_queue)"
    by (simp add: demo_queue_def keyed_def demo_item_def)
  moreover have "map dqi_id (waiting demo_queue) = [''c'', ''b'', ''a'']"
    by (simp add: waiting_def demo_queue_def demo_item_def order_by_def)
  then have "waiting demo_queue \<noteq> []" "map dqi_id (tl (waiting demo_queue)) = [''b'', ''a'']"
    by (auto simp: map_tl)
  ultimately show ?thesis using process_one_settles [of demo_queue default_decider] by metis
qed


subsection \<open>What a settled decision has done\<close>

text \<open>The rows a decision works on.\<close>

definition decided :: "store \<Rightarrow> Run list \<times> Task list \<times> Evaluation list \<times> Decision list" where
  "decided s = (st_runs s, st_tasks s, st_evaluations s, st_decisions s)"

lemma decided_kept:
  "keeps decided (get_run r)" "keeps decided (get_task i)" "keeps decided (list_evaluations r)"
  "keeps decided (new_id p)" "keeps decided utc_now" "keeps decided (complete_decision i st)"
  "keeps decided (emit a b c pl)"
  unfolding get_run_def get_task_def list_evaluations_def emit_def create_event_def
    complete_decision_def sql_now_def
  by (intro keep_rules keeps_writes keeps_try_write utc_now_keeps new_id_keeps;
      auto simp: rbind_Inr_iff decided_def)+

lemma runs_kept:
  "keeps st_runs (update_task_status i ts)" "keeps st_decisions (update_task_status i ts)"
  unfolding update_task_status_def update_objective_phase_def get_task_def Let_def
  by (intro keep_rules keeps_writes utc_now_keeps; simp)+

lemma mark_run_effect:
  assumes "mark_run run status summary s = (Inr r, t)" and "find_key run_id i (st_runs s) = Some run"
  shows "st_tasks t = st_tasks s \<and> st_decisions t = st_decisions s
    \<and> (\<exists>x. find_key run_id i (st_runs t) = Some x \<and> run_status x = status \<and> run_summary x = summary)"
  using assms find_key_Some [OF assms(2)]
  by (auto simp: mark_run_def bnd_run ret_run utc_now_def update_run_def Let_def find_key_update)

lemma update_task_effect:
  assumes "update_task_status i status s = (Inr u, t)"
  shows "\<exists>x. find_key task_id i (st_tasks t) = Some x \<and> task_status x = status"
proof -
  have keep: "keeps st_tasks (update_objective_phase o1)" for o1
    unfolding update_objective_phase_def Let_def by (intro keep_rules keeps_writes utc_now_keeps; simp)
  from assms obtain x now where x: "find_key task_id i (st_tasks s) = Some x"
    and t: "st_tasks t = update_where (\<lambda>x. task_id x = i)
      (\<lambda>x. x\<lparr>task_status := status, task_updated_at := now\<rparr>) (st_tasks s)"
    unfolding update_task_status_def get_task_def
    by (auto simp: bnd_run ret_run raise_run lift_result_run utc_now_def
        split: option.splits sum.splits if_splits prod.splits dest!: keeps_run [OF keep])
  from find_key_Some [OF x] x show ?thesis by (simp add: t find_key_update)
qed


definition applied :: "decider \<Rightarrow> DecisionQueueItem \<Rightarrow> store \<Rightarrow> store \<Rightarrow> bool" where
  "applied decider item s t \<longleftrightarrow> (\<exists>run task ev result d r' x.
     find_key run_id (dqi_run_id item) (st_runs s) = Some run
     \<and> find_key task_id (dqi_task_id item) (st_tasks s) = Some task
     \<and> ev \<in> set (st_evaluations s) \<and> evaluation_id ev = dqi_evaluation_id item
     \<and> evaluation_run_id ev = run_id run
     \<and> decider \<lparr>ar_verdict = evaluation_verdict ev, ar_confidence = evaluation_confidence ev,
          ar_summary = evaluation_summary ev, ar_details = evaluation_details ev\<rparr> run task = Inr result
     \<and> d \<in> set (st_decisions t) \<and> decision_run_id d = run_id run
     \<and> decision_action d = dr_action result \<and> decision_rationale d = dr_rationale result
     \<and> find_key run_id (run_id run) (st_runs t) = Some r'
     \<and> run_status r' = final_run_status (evaluation_verdict ev) (dr_action result)
     \<and> run_summary r' = dr_rationale result
     \<and> find_key task_id (task_id task) (st_tasks t) = Some x
     \<and> task_status x = (if task_status task = TS_COMPLETED then TS_COMPLETED
          else final_task_status (dr_action result)))"

lemma create_decision_effect:
  "create_decision d s = (Inr u, t) \<Longrightarrow> st_runs t = st_runs s \<and> st_tasks t = st_tasks s
     \<and> d \<in> set (st_decisions t)"
  by (auto simp: create_decision_def try_write_def rbind_Inr_iff insert_fk_Inr split: sum.splits)

lemma emitted: "emit a b c p s = (Inr u, t) \<Longrightarrow> st_runs t = st_runs s \<and> st_tasks t = st_tasks s \<and> st_decisions t = st_decisions s"
  using keeps_run [OF decided_kept(7)] by (fastforce simp: decided_def)

lemma task_step:
  assumes "(case find_key task_id i (st_tasks s) of None \<Rightarrow> ret () | Some current \<Rightarrow>
      when_do (\<not> (task_status current = TS_COMPLETED \<and> status \<noteq> TS_COMPLETED))
        (bnd (update_task_status i status) (\<lambda>_. emit a b c p))) s = (Inr u, t)"
    and "find_key task_id i (st_tasks s) = Some task"
  shows "st_runs t = st_runs s \<and> st_decisions t = st_decisions s
    \<and> (\<exists>x. find_key task_id i (st_tasks t) = Some x \<and> task_status x =
         (if task_status task = TS_COMPLETED then TS_COMPLETED else status))"
proof (cases "task_status task = TS_COMPLETED \<and> status \<noteq> TS_COMPLETED")
  case True
  then show ?thesis using assms by (auto simp: ret_run)
next
  case False
  with assms obtain v w where "update_task_status i status s = (Inr v, w)" "emit a b c p w = (Inr u, t)"
    by (auto elim: bnd_InrE)
  with False keeps_run [OF runs_kept(1)] keeps_run [OF runs_kept(2)] update_task_effect emitted
  show ?thesis by fastforce
qed

text \<open>An item either ends as failed, or went through every step of a decision.\<close>

lemma decide_item_cases:
  assumes run: "decide_item decider item s = (Inr b, t)"
  obtains now where "st_decision_queue t = settle (dqi_id item) ''failed'' now (st_decision_queue s)"
  | r0 task ev where "find_key run_id (dqi_run_id item) (st_runs s) = Some r0"
    "find_key task_id (dqi_task_id item) (st_tasks s) = Some task"
    "ev \<in> set (st_evaluations s)" "evaluation_id ev = dqi_evaluation_id item"
    "evaluation_run_id ev = dqi_run_id item"
    "List.find (\<lambda>e. evaluation_id e = dqi_evaluation_id item) (order_by evaluation_created_at
       (filter (\<lambda>e. evaluation_run_id e = dqi_run_id item) (st_evaluations s))) = Some ev"
proof -
  note failed = that(1)
  have fail: thesis if "bnd (complete_decision (dqi_id item) ''failed'') (\<lambda>_. ret True) s = (Inr b, t)"
    using that complete_run [of "dqi_id item" "''failed''" s] failed by (auto simp: bnd_run ret_run)
  let ?evs = "order_by evaluation_created_at (filter (\<lambda>e. evaluation_run_id e = dqi_run_id item) (st_evaluations s))"
  consider "find_key run_id (dqi_run_id item) (st_runs s) = None \<or> find_key task_id (dqi_task_id item) (st_tasks s) = None"
    | r0 task where "find_key run_id (dqi_run_id item) (st_runs s) = Some r0"
      "find_key task_id (dqi_task_id item) (st_tasks s) = Some task"
      "List.find (\<lambda>e. evaluation_id e = dqi_evaluation_id item) ?evs = None"
    | r0 task ev where "find_key run_id (dqi_run_id item) (st_runs s) = Some r0"
      "find_key task_id (dqi_task_id item) (st_tasks s) = Some task"
      "List.find (\<lambda>e. evaluation_id e = dqi_evaluation_id item) ?evs = Some ev" by fastforce
  then show thesis
  proof cases
    case 1
    then show ?thesis using run
      by (intro fail) (auto simp: decide_item_def get_run_def get_task_def split: option.splits)
  next
    case 2
    then show ?thesis using run
      by (intro fail) (auto simp: decide_item_def get_run_def get_task_def list_evaluations_def)
  next
    case 3
    from find_mem [OF 3(3)] show ?thesis by (intro that(2) [OF 3(1,2) _ _ _ 3(3)]) auto
  qed
qed

lemma decide_item_applied:
  assumes run: "decide_item decider item s = (Inr b, t)"
  shows "(\<exists>now. st_decision_queue t = settle (dqi_id item) ''failed'' now (st_decision_queue s))
    \<or> applied decider item s t"
  using run
proof (cases rule: decide_item_cases)
  case (1 now)
  then show ?thesis by blast
next
  case (2 r0 task ev)
  let ?a = "\<lparr>ar_verdict = evaluation_verdict ev, ar_confidence = evaluation_confidence ev,
    ar_summary = evaluation_summary ev, ar_details = evaluation_details ev\<rparr>"
  note run0 = 2(1) and task0 = 2(2) and ev = 2(3-5)
  have ids: "run_id r0 = dqi_run_id item" "task_id task = dqi_task_id item"
    using find_key_Some [OF run0] find_key_Some [OF task0] by auto
  from run obtain result i s1 now s2 u1 s3 u2 s4 u3 s5 u4 s6 u5 where
    result: "decider ?a r0 task = Inr result"
    and steps: "new_id ''decision'' s = (Inr i, s1)" "utc_now s1 = (Inr now, s2)"
      "create_decision \<lparr>decision_id = i, decision_run_id = run_id r0,
         decision_action = dr_action result, decision_rationale = dr_rationale result,
         decision_created_at = now\<rparr> s2 = (Inr u1, s3)"
      "emit ''decision'' i ''decision_recorded'' [(''run_id'', PStr (run_id r0)),
         (''action'', PStr (DecisionAction_value (dr_action result)))] s3 = (Inr u2, s4)"
      "mark_run r0 (final_run_status (evaluation_verdict ev) (dr_action result))
         (dr_rationale result) s4 = (Inr u3, s5)"
      "(case find_key task_id (task_id task) (st_tasks s5) of None \<Rightarrow> ret () | Some current \<Rightarrow>
         when_do (\<not> (task_status current = TS_COMPLETED \<and> final_task_status (dr_action result) \<noteq> TS_COMPLETED))
           (bnd (update_task_status (task_id task) (final_task_status (dr_action result))) (\<lambda>_.
            emit ''task'' (task_id task) ''task_status_changed''
              [(''status'', PStr (TaskStatus_value (final_task_status (dr_action result)))),
               (''run_id'', PStr (run_id r0))]))) s5 = (Inr u4, s6)"
      "complete_decision (dqi_id item) ''completed'' s6 = (Inr u5, t)"
    by (auto simp: decide_item_def get_run_def get_task_def list_evaluations_def run0 task0 2(6)
        Let_def lift_result_run ret_run elim!: bnd_InrE)
  have s2: "st_runs s2 = st_runs s" "st_tasks s2 = st_tasks s"
    using steps(1,2) by (auto simp: new_id_def utc_now_def)
  note c = create_decision_effect [OF steps(3)] and e = emitted [OF steps(4)]
  have "find_key run_id (run_id r0) (st_runs s4) = Some r0"
    using run0 c e s2 ids by simp
  from mark_run_effect [OF steps(5) this] obtain r' where
    m: "st_tasks s5 = st_tasks s4" "st_decisions s5 = st_decisions s4"
    "find_key run_id (run_id r0) (st_runs s5) = Some r'"
    "run_status r' = final_run_status (evaluation_verdict ev) (dr_action result)"
    "run_summary r' = dr_rationale result" by blast
  have "find_key task_id (task_id task) (st_tasks s5) = Some task"
    using task0 c e s2 m(1) ids by simp
  from task_step [OF steps(6) this] obtain x where
    x: "st_runs s6 = st_runs s5" "st_decisions s6 = st_decisions s5"
    "find_key task_id (task_id task) (st_tasks s6) = Some x"
    "task_status x = (if task_status task = TS_COMPLETED then TS_COMPLETED
       else final_task_status (dr_action result))" by blast
  have "decided t = decided s6" by (rule keeps_run [OF decided_kept(6) steps(7)])
  then have fin: "st_runs t = st_runs s6" "st_tasks t = st_tasks s6" "st_decisions t = st_decisions s6"
    by (simp_all add: decided_def)
  let ?d = "\<lparr>decision_id = i, decision_run_id = run_id r0, decision_action = dr_action result,
    decision_rationale = dr_rationale result, decision_created_at = now\<rparr>"
  have "?d \<in> set (st_decisions t)" using c e m(2) x(2) fin by simp
  moreover have "find_key run_id (run_id r0) (st_runs t) = Some r'" using m(3) x(1) fin by simp
  moreover have "find_key task_id (task_id task) (st_tasks t) = Some x" using x(3) fin by simp
  ultimately have "applied decider item s t"
    unfolding applied_def using run0 task0 ev ids result m(4,5) x(4)
    by (intro exI [of _ r0] exI [of _ task] exI [of _ ev] exI [of _ result] exI [of _ ?d]
        exI [of _ r'] exI [of _ x]) simp
  then show ?thesis ..
qed


lemma dequeue_first:
  assumes "waiting s = item # rest"
  shows "\<exists>now t. dequeue_decision s = (Inr (Some (item\<lparr>dqi_status := ''processing'',
    dqi_started_at := Some now, dqi_completed_at := None\<rparr>)), t) \<and> decided t = decided s
    \<and> st_decision_queue t = update_where (\<lambda>i. dqi_id i = dqi_id item)
        (\<lambda>i. i\<lparr>dqi_status := ''processing'', dqi_started_at := Some now\<rparr>) (st_decision_queue s)"
  using assms by (auto simp: dequeue_decision_def find_filter waiting_def sql_now_def utc_now_def
      bnd_run ret_run decided_def intro!: exI [of _ "st_clock s (st_ticks s) div 1000000 * 1000000"])

lemma applied_cong: "decided s = decided s' \<Longrightarrow> dqi_run_id i = dqi_run_id i' \<Longrightarrow> dqi_task_id i = dqi_task_id i'
    \<Longrightarrow> dqi_evaluation_id i = dqi_evaluation_id i' \<Longrightarrow> applied d i s t = applied d i' s' t"
  by (simp add: applied_def decided_def)

text \<open>What a completed item has done: if \<open>process_one\<close> leaves the item it took completed, its
  run, task and evaluation existed, the decider returned an action for them, that action is recorded
  as a decision of the run, the run has the status that goes with the verdict and the action, with
  the rationale as its summary, and the task has the status that goes with the action, unless it was
  completed before, in which case it still is.\<close>

theorem completed_decision_applied:
  assumes first: "waiting s = item # rest" and run: "process_one decider s = (Inr b, t)"
    and mark: "y \<in> set (st_decision_queue t)" "dqi_id y = dqi_id item" "dqi_status y = ''completed''"
  shows "applied decider item s t"
proof -
  from dequeue_first [OF first] obtain now t0 where d: "dequeue_decision s = (Inr (Some (item\<lparr>dqi_status :=
      ''processing'', dqi_started_at := Some now, dqi_completed_at := None\<rparr>)), t0)" "decided t0 = decided s"
    by blast
  let ?item = "item\<lparr>dqi_status := ''processing'', dqi_started_at := Some now, dqi_completed_at := None\<rparr>"
  have not_failed: "st_decision_queue t \<noteq> settle (dqi_id item) ''failed'' n q" for n q
    using mark by (auto simp: settle_def update_where_def)
  show ?thesis
  proof (cases "decide_item decider ?item t0")
    case (Pair r u)
    show ?thesis
    proof (cases r)
      case (Inl e)
      with Pair run d(1) obtain n where "st_decision_queue t = settle (dqi_id item) ''failed'' n (st_decision_queue u)"
        using complete_run [of "dqi_id item" "''failed''" u]
        by (auto simp: process_one_def bnd_run try_except_def ret_run)
      with not_failed show ?thesis by blast
    next
      case (Inr c)
      with Pair run d(1) have "decide_item decider ?item t0 = (Inr c, t)"
        by (simp add: process_one_def bnd_run try_except_def)
      from decide_item_applied [OF this] not_failed have "applied decider ?item t0 t" by auto
      then show ?thesis using applied_cong [of t0 s ?item item] d(2) by simp
    qed
  qed
qed

end
