(* ===== verification/LLM_Gate.thy ===== *)
theory LLM_Gate
  imports Complex_Main Py_Convert
begin

section \<open>The availability gate of the language model backends\<close>

text \<open>
  \<open>llm_availability.py\<close>. The gate keeps the answer of its last probe for \<open>cache_ttl\<close> seconds, and
  after a failed probe waits in a window that doubles up to a maximum. The monotonic clock is an
  argument of each call, and so are the answers \<open>probe_fn\<close> gives for the commands at that moment,
  which come from subprocesses. Seconds are rationals.
\<close>

record LLMAvailabilityGate =
  gt_commands :: "(string \<times> string) list"
  gt_cache_ttl :: rat
  gt_backoff_seconds :: rat
  gt_max_backoff_seconds :: rat
  gt_available :: "bool option"
  gt_checked_at :: rat
  gt_unavailable_until :: rat
  gt_probe_results :: "(string \<times> bool) list"

definition new_gate :: "(string \<times> string) list \<Rightarrow> rat \<Rightarrow> rat \<Rightarrow> rat \<Rightarrow> LLMAvailabilityGate" where
  "new_gate commands ttl backoff max_backoff =
     \<lparr>gt_commands = commands, gt_cache_ttl = ttl, gt_backoff_seconds = backoff,
      gt_max_backoff_seconds = max_backoff, gt_available = None, gt_checked_at = 0,
      gt_unavailable_until = 0, gt_probe_results = []\<rparr>"

text \<open>The loop over the backends: the answers recorded, and whether one of them was reachable.\<close>

fun probe_backends ::
  "(string \<Rightarrow> bool) \<Rightarrow> (string \<times> string) list \<Rightarrow> (string \<times> bool) list \<Rightarrow> (string \<times> bool) list \<times> bool"
where
  "probe_backends probe [] results = (results, False)"
| "probe_backends probe ((name, command) # rest) results =
     (if command = [] then probe_backends probe rest results
      else if probe command then (dict_set name True results, True)
      else probe_backends probe rest (dict_set name False results))"

definition is_available :: "(string \<Rightarrow> bool) \<Rightarrow> rat \<Rightarrow> LLMAvailabilityGate \<Rightarrow> bool \<times> LLMAvailabilityGate" where
  "is_available probe now g =
     (if now < gt_unavailable_until g then (False, g)
      else case (if now - gt_checked_at g < gt_cache_ttl g then gt_available g else None) of
             Some cached \<Rightarrow> (cached, g)
           | None \<Rightarrow>
               (case probe_backends probe (gt_commands g) [] of
                  (results, True) \<Rightarrow>
                    (True, g\<lparr>gt_checked_at := now, gt_probe_results := results,
                             gt_available := Some True, gt_backoff_seconds := 30\<rparr>)
                | (results, False) \<Rightarrow>
                    (False, g\<lparr>gt_checked_at := now, gt_probe_results := results,
                             gt_available := Some False,
                             gt_unavailable_until := now + gt_backoff_seconds g,
                             gt_backoff_seconds :=
                               min (gt_backoff_seconds g * 2) (gt_max_backoff_seconds g)\<rparr>)))"

definition gate_reset :: "LLMAvailabilityGate \<Rightarrow> LLMAvailabilityGate" where
  "gate_reset g = g\<lparr>gt_available := None, gt_checked_at := 0, gt_unavailable_until := 0,
                    gt_backoff_seconds := 30\<rparr>"

definition seconds_until_retry :: "rat \<Rightarrow> LLMAvailabilityGate \<Rightarrow> rat" where
  "seconds_until_retry now g = max 0 (gt_unavailable_until g - now)"

subsection \<open>Bounds and behaviour\<close>

text \<open>A use of the gate: a call with the answers of that moment, or a reset.\<close>

datatype gate_use = Ask "string \<Rightarrow> bool" rat | Reset

fun use_gate :: "LLMAvailabilityGate \<Rightarrow> gate_use \<Rightarrow> LLMAvailabilityGate" where
  "use_gate g (Ask probe now) = snd (is_available probe now g)"
| "use_gate g Reset = gate_reset g"

fun use_time :: "gate_use \<Rightarrow> rat" where
  "use_time (Ask probe now) = now"
| "use_time Reset = 0"

definition gate_ok :: "rat \<Rightarrow> LLMAvailabilityGate \<Rightarrow> bool" where
  "gate_ok latest g \<longleftrightarrow> 0 < gt_backoff_seconds g \<and> gt_backoff_seconds g \<le> gt_max_backoff_seconds g
     \<and> gt_unavailable_until g \<le> latest + gt_max_backoff_seconds g"

lemma probe_backends_found:
  "snd (probe_backends probe cs results) \<longleftrightarrow> (\<exists>(name, c)\<in>set cs. c \<noteq> [] \<and> probe c)"
  by (induction probe cs results rule: probe_backends.induct) auto

lemma is_available_cases:
  obtains (backoff) "now < gt_unavailable_until g" "is_available probe now g = (False, g)"
  | (cached) b where "gt_unavailable_until g \<le> now" "gt_available g = Some b"
      "now - gt_checked_at g < gt_cache_ttl g" "is_available probe now g = (b, g)"
  | (found) results where "gt_unavailable_until g \<le> now" "\<exists>(name, c)\<in>set (gt_commands g). c \<noteq> [] \<and> probe c"
      "is_available probe now g = (True, g\<lparr>gt_checked_at := now, gt_probe_results := results,
         gt_available := Some True, gt_backoff_seconds := 30\<rparr>)"
  | (failed) results where "gt_unavailable_until g \<le> now" "\<not> (\<exists>(name, c)\<in>set (gt_commands g). c \<noteq> [] \<and> probe c)"
      "is_available probe now g = (False, g\<lparr>gt_checked_at := now, gt_probe_results := results,
         gt_available := Some False, gt_unavailable_until := now + gt_backoff_seconds g,
         gt_backoff_seconds := min (gt_backoff_seconds g * 2) (gt_max_backoff_seconds g)\<rparr>)"
proof (cases "now < gt_unavailable_until g")
  case True
  then show thesis by (intro backoff) (simp_all add: is_available_def)
next
  case False
  note window = this
  obtain results ok where p: "probe_backends probe (gt_commands g) [] = (results, ok)" by fastforce
  then have ok: "ok \<longleftrightarrow> (\<exists>(name, c)\<in>set (gt_commands g). c \<noteq> [] \<and> probe c)"
    using probe_backends_found [of probe "gt_commands g" "[]"] by simp
  show thesis
  proof (cases "if now - gt_checked_at g < gt_cache_ttl g then gt_available g else None")
    case (Some b)
    with window show thesis
      by (intro cached [of b]) (simp_all add: is_available_def split: if_splits)
  next
    case None
    show thesis
    proof (cases ok)
      case True
      with window p ok None show thesis by (intro found [of results]) (simp_all add: is_available_def)
    next
      case False
      with window p ok None show thesis by (intro failed [of results]) (simp_all add: is_available_def)
    qed
  qed
qed

lemma use_gate_ok:
  assumes "gate_ok latest g" and "latest \<le> use_time u \<or> u = Reset" and "30 \<le> gt_max_backoff_seconds g"
    and "0 \<le> latest"
  shows "gate_ok (max latest (use_time u)) (use_gate g u)
    \<and> gt_max_backoff_seconds (use_gate g u) = gt_max_backoff_seconds g"
proof (cases u)
  case (Ask probe now)
  with assms show ?thesis
    by (cases rule: is_available_cases [of now g probe]) (auto simp: gate_ok_def)
next
  case Reset
  with assms show ?thesis by (auto simp: gate_ok_def gate_reset_def)
qed

text \<open>C28. The backoff is bounded: through every sequence of calls with a clock that does not go back,
  and resets, the window in which the gate refuses to probe never reaches more than
  \<open>max_backoff_seconds\<close> beyond the last call, and the next window is positive and at most that
  long; so a caller that waits the maximum is never refused without a look at the cache or a probe.\<close>

theorem backoff_bounded:
  assumes "0 < backoff" "backoff \<le> longest" "30 \<le> longest"
    and "sorted (map use_time (filter (\<lambda>u. u \<noteq> Reset) us))" and "\<forall>u\<in>set us. 0 \<le> use_time u"
    and "\<forall>u\<in>set us. use_time u \<le> latest" and "0 \<le> latest"
  shows "gate_ok latest (foldl use_gate (new_gate cs ttl backoff longest) us)
    \<and> gt_max_backoff_seconds (foldl use_gate (new_gate cs ttl backoff longest) us) = longest"
proof -
  have step: "gate_ok latest (foldl use_gate g us) \<and> gt_max_backoff_seconds (foldl use_gate g us) = longest"
    if "gate_ok t g" "gt_max_backoff_seconds g = longest" "0 \<le> t" "t \<le> latest"
      "sorted (map use_time (filter (\<lambda>u. u \<noteq> Reset) us))" "\<forall>u\<in>set us. u = Reset \<or> t \<le> use_time u"
      "\<forall>u\<in>set us. use_time u \<le> latest" for t g us
    using that
  proof (induction us arbitrary: t g)
    case Nil
    then show ?case by (auto simp: gate_ok_def)
  next
    case (Cons u us)
    from use_gate_ok [of t g u] Cons.prems assms(3)
    have g: "gate_ok (max t (use_time u)) (use_gate g u)" "gt_max_backoff_seconds (use_gate g u) = longest"
      by auto
    have "\<forall>v\<in>set us. v = Reset \<or> max t (use_time u) \<le> use_time v"
      using Cons.prems(3,5,6) by (cases "u = Reset") auto
    moreover have "sorted (map use_time (filter (\<lambda>u. u \<noteq> Reset) us))"
      using Cons.prems(5) by (simp split: if_splits)
    ultimately show ?case using Cons.IH [OF g] Cons.prems(3,4,7) by simp
  qed
  have "gate_ok 0 (new_gate cs ttl backoff longest)"
    using assms(1-3) by (simp add: gate_ok_def new_gate_def)
  then show ?thesis using step [of 0 _ us] assms(4-7) by (auto simp: new_gate_def)
qed


lemma backoff_bounded_witness:
  "gate_ok 100 (foldl use_gate (new_gate [(''claude'', ''claude'')] 60 30 3600)
     [Ask (\<lambda>_. False) 0, Ask (\<lambda>_. False) 60, Reset, Ask (\<lambda>_. True) 100])"
  using backoff_bounded [of 30 3600 "[Ask (\<lambda>_. False) 0, Ask (\<lambda>_. False) 60, Reset, Ask (\<lambda>_. True) 100]" 100]
  by simp

text \<open>A failure is cached longer than its backoff: with the default times, after a first call
  whose probes all failed, and from the end of the announced window of 30 seconds until 60 seconds
  after the probe, the gate says that no wait is left and still refuses, without a probe, even when
  every backend is reachable again. The answer and the window come from different fields, and the
  cache of a failed probe outlives the first window.\<close>

theorem failure_outlives_backoff:
  assumes "\<forall>(name, c)\<in>set cs. c = [] \<or> \<not> probe c" and "0 \<le> t" and "t + 30 \<le> now" and "now < t + 60"
  shows "\<exists>g. is_available probe t (new_gate cs 60 30 3600) = (False, g) \<and> seconds_until_retry t g = 30
    \<and> seconds_until_retry now g = 0 \<and> (\<forall>probe'. is_available probe' now g = (False, g))"
proof -
  obtain results where "probe_backends probe cs [] = (results, False)"
    using assms(1) probe_backends_found [of probe cs "[]"] by (cases "probe_backends probe cs []") auto
  then show ?thesis using assms(2-4)
    by (simp add: is_available_def new_gate_def seconds_until_retry_def)
qed

lemma failure_outlives_backoff_witness:
  "\<exists>g. is_available (\<lambda>_. False) 5 (new_gate [(''claude'', ''claude'')] 60 30 3600) = (False, g)
     \<and> seconds_until_retry 40 g = 0 \<and> is_available (\<lambda>_. True) 40 g = (False, g)"
  using failure_outlives_backoff [of "[(''claude'', ''claude'')]" "\<lambda>_. False" 5 40] by auto

end
