(* ===== verification/Skill_Base.thy ===== *)
theory Skill_Base
  imports Domain_Types
begin

section \<open>Skills: schemas and the contract of an invocation\<close>

text \<open>
  \<open>skills/base.py\<close>: the schema validator every skill starts from, and the outcome of invoking a
  skill. The prompt, the language model and the files are outside the model: what the model sees of
  an invocation is whether the call failed, the dictionary the skill parsed out of the answer, and
  whether its analysis file could be written. The contract that every skill offers its callers, that
  a successful result carries an output its own validator accepted, is the locale \<open>skill\<close>; each
  skill of the development is an interpretation of it.
\<close>

subsection \<open>Schemas\<close>

record schema =
  sc_required :: "string list"
  sc_types :: "(string \<times> string) list"
  sc_allowed_values :: "(string \<times> string list) list"

definition type_name :: "pyval \<Rightarrow> string" where
  "type_name v =
     (case v of PNone \<Rightarrow> ''NoneType'' | PBool _ \<Rightarrow> ''bool'' | PInt _ \<Rightarrow> ''int'' | PFloat _ _ \<Rightarrow> ''float''
      | PStr _ \<Rightarrow> ''str'' | PList _ \<Rightarrow> ''list'' | PDict _ \<Rightarrow> ''dict'')"

definition is_bool :: "pyval \<Rightarrow> bool" where
  "is_bool v = (case v of PBool _ \<Rightarrow> True | _ \<Rightarrow> False)"

definition is_number :: "pyval \<Rightarrow> bool" where
  "is_number v = (case v of PInt _ \<Rightarrow> True | PFloat _ _ \<Rightarrow> True | PBool _ \<Rightarrow> True | _ \<Rightarrow> False)"

datatype py_type = TStr | TBool | TInt | TFloat | TList | TDict | TAny

definition TYPE_MAP :: "(string \<times> py_type) list" where
  "TYPE_MAP = [(''str'', TStr), (''bool'', TBool), (''int'', TInt), (''float'', TFloat),
     (''list'', TList), (''dict'', TDict), (''any'', TAny)]"

text \<open>\<open>isinstance(value, expected)\<close>; a \<open>bool\<close> is an \<open>int\<close>, and \<open>float\<close> stands for both numbers.\<close>

fun is_instance :: "py_type \<Rightarrow> pyval \<Rightarrow> bool" where
  "is_instance TStr v = is_str v"
| "is_instance TBool v = is_bool v"
| "is_instance TInt v = (case v of PInt _ \<Rightarrow> True | PBool _ \<Rightarrow> True | _ \<Rightarrow> False)"
| "is_instance TFloat v = is_number v"
| "is_instance TList v = is_list v"
| "is_instance TDict v = is_dict v"
| "is_instance TAny v = True"

definition type_error :: "string \<Rightarrow> string \<Rightarrow> pyval \<Rightarrow> string list" where
  "type_error field_name name v =
     (let err = (\<lambda>expected got. [''field '' @ field_name @ '' expected '' @ expected @ '', got '' @ got])
      in case map_of TYPE_MAP name of
           None \<Rightarrow> []
         | Some expected \<Rightarrow>
             if expected = TFloat
             then (if is_instance TFloat v then [] else err name (type_name v))
             else if expected = TBool \<and> \<not> is_bool v then err ''bool'' (type_name v)
             else if expected = TInt \<and> is_bool v then err ''int'' ''bool''
             else if \<not> is_instance expected v then err name (type_name v)
             else [])"

definition validate_against_schema :: "pydict \<Rightarrow> schema \<Rightarrow> bool \<times> string list" where
  "validate_against_schema parsed sc =
     (let errors =
        concat (map (\<lambda>f. if dict_has parsed f then [] else [''missing required field: '' @ f])
                    (sc_required sc))
        @ concat (map (\<lambda>(f, name). if \<not> dict_has parsed f then []
                                    else type_error f name (dict_get parsed f)) (sc_types sc))
        @ concat (map (\<lambda>(f, choices). if \<not> dict_has parsed f then []
                      else if dict_get parsed f \<in> PStr ` set choices then []
                      else [''field '' @ f @ '' must be one of '' @ py_repr (PList (map PStr choices))
                            @ '', got '' @ py_repr (dict_get parsed f)]) (sc_allowed_values sc))
      in (errors = [], errors))"

text \<open>What an accepted dictionary satisfies.\<close>

definition has_type :: "string \<Rightarrow> pyval \<Rightarrow> bool" where
  "has_type name v \<longleftrightarrow>
     (case map_of TYPE_MAP name of
        None \<Rightarrow> True
      | Some expected \<Rightarrow> is_instance expected v \<and> (expected = TInt \<longrightarrow> \<not> is_bool v))"

definition conforms :: "schema \<Rightarrow> pydict \<Rightarrow> bool" where
  "conforms sc parsed \<longleftrightarrow>
     (\<forall>f\<in>set (sc_required sc). dict_has parsed f)
     \<and> (\<forall>(f, name)\<in>set (sc_types sc). dict_has parsed f \<longrightarrow> has_type name (dict_get parsed f))
     \<and> (\<forall>(f, choices)\<in>set (sc_allowed_values sc). dict_has parsed f \<longrightarrow>
          (\<exists>c\<in>set choices. dict_get parsed f = PStr c))"

lemma type_error_iff: "type_error f name v = [] \<longleftrightarrow> has_type name v"
proof (cases "map_of TYPE_MAP name")
  case None
  then show ?thesis by (simp add: type_error_def has_type_def)
next
  case (Some expected)
  then have "type_error f name v = [] \<longleftrightarrow> is_instance expected v \<and> (expected = TInt \<longrightarrow> \<not> is_bool v)
      \<and> (expected = TBool \<longrightarrow> is_bool v)"
    by (simp only: type_error_def Let_def option.case split: if_split) auto
  moreover have "expected = TBool \<Longrightarrow> is_instance expected v \<Longrightarrow> is_bool v" by simp
  ultimately show ?thesis using Some by (auto simp: has_type_def)
qed

lemma has_type_simps [simp]:
  "has_type ''str'' v = is_str v" "has_type ''bool'' v = is_bool v" "has_type ''float'' v = is_number v"
  "has_type ''list'' v = is_list v" "has_type ''dict'' v = is_dict v" "has_type ''any'' v"
  "has_type ''int'' v \<longleftrightarrow> (\<exists>i. v = PInt i)"
  by (simp_all add: has_type_def TYPE_MAP_def is_bool_def split: pyval.split)

lemma guarded_Nil: "(if \<not> p then [] else xs) = [] \<longleftrightarrow> (p \<longrightarrow> xs = [])" "(if p then [] else [x]) = [] \<longleftrightarrow> p"
  by simp_all

lemma in_choices: "v \<in> PStr ` set choices \<longleftrightarrow> (\<exists>c\<in>set choices. v = PStr c)"
  by blast

lemma validate_against_schema_iff:
  assumes "validate_against_schema parsed sc = (ok, errors)"
  shows "(ok \<longleftrightarrow> errors = []) \<and> (ok \<longleftrightarrow> conforms sc parsed)"
proof -
  have "ok \<longleftrightarrow> errors = []"
    using assms by (simp only: validate_against_schema_def Let_def prod.inject) blast
  moreover have errors: "errors = concat (map (\<lambda>f. if dict_has parsed f then [] else [''missing required field: '' @ f])
                    (sc_required sc))
        @ concat (map (\<lambda>x. if \<not> dict_has parsed (fst x) then []
                                    else type_error (fst x) (snd x) (dict_get parsed (fst x))) (sc_types sc))
        @ concat (map (\<lambda>x. if \<not> dict_has parsed (fst x) then []
                      else if dict_get parsed (fst x) \<in> PStr ` set (snd x) then []
                      else [''field '' @ fst x @ '' must be one of '' @ py_repr (PList (map PStr (snd x)))
                            @ '', got '' @ py_repr (dict_get parsed (fst x))]) (sc_allowed_values sc))"
    using assms by (simp only: validate_against_schema_def Let_def prod.inject case_prod_unfold)
  have "errors = [] \<longleftrightarrow> conforms sc parsed"
    unfolding errors conforms_def append_is_Nil_conv concat_eq_Nil_conv set_map ball_simps case_prod_unfold
      guarded_Nil type_error_iff in_choices by (rule refl)
  ultimately show ?thesis by simp
qed

lemma schema_accepts [simp]: "fst (validate_against_schema parsed sc) \<longleftrightarrow> conforms sc parsed"
  using validate_against_schema_iff by (metis prod.collapse)

lemma schema_accepts_errors: "validate_against_schema parsed sc = (True, errors) \<Longrightarrow> errors = []"
  using validate_against_schema_iff by blast

subsection \<open>Results and invocations\<close>

record SkillResult =
  sr_skill_name :: string
  sr_success :: bool
  sr_output :: pydict
  sr_raw_response :: string
  sr_errors :: "string list"
  sr_llm_backend :: "string option"
  sr_prompt_path :: "string option"
  sr_response_path :: "string option"
  sr_analysis_path :: "string option"

text \<open>The answer of the router: an execution error with its text, or the response, the backend and
  the paths of its files.\<close>

record llm_answer =
  la_response_text :: string
  la_prompt_path :: string
  la_response_path :: string
  la_backend :: string

definition new_result :: "string \<Rightarrow> SkillResult" where
  "new_result n = \<lparr>sr_skill_name = n, sr_success = False, sr_output = [], sr_raw_response = [],
     sr_errors = [], sr_llm_backend = None, sr_prompt_path = None, sr_response_path = None,
     sr_analysis_path = None\<rparr>"

definition invoke_skill ::
  "string \<Rightarrow> (string \<Rightarrow> exn + pydict) \<Rightarrow> (pydict \<Rightarrow> exn + bool \<times> string list) \<Rightarrow> (exn \<Rightarrow> string)
     \<Rightarrow> string + llm_answer \<Rightarrow> string \<Rightarrow> bool \<Rightarrow> exn + SkillResult"
where
  "invoke_skill skill_name parse_response validate_output show_exn answer run_dir writable =
     (case answer of
        Inl err \<Rightarrow> Inr ((new_result skill_name)\<lparr>sr_errors := [''llm_execution_failed: '' @ err]\<rparr>)
      | Inr llm \<Rightarrow>
          (case parse_response (la_response_text llm) of
             Inl e \<Rightarrow> Inr ((new_result skill_name)\<lparr>sr_raw_response := la_response_text llm,
                 sr_errors := [''parse_failed: '' @ show_exn e], sr_llm_backend := Some (la_backend llm),
                 sr_prompt_path := Some (la_prompt_path llm), sr_response_path := Some (la_response_path llm)\<rparr>)
           | Inr parsed \<Rightarrow>
               (case validate_output parsed of
                  Inl e \<Rightarrow> Inl e
                | Inr (ok, errors) \<Rightarrow>
                    Inr \<lparr>sr_skill_name = skill_name, sr_success = ok, sr_output = parsed,
                         sr_raw_response = la_response_text llm, sr_errors = errors,
                         sr_llm_backend = Some (la_backend llm),
                         sr_prompt_path = Some (la_prompt_path llm),
                         sr_response_path = Some (la_response_path llm),
                         sr_analysis_path = (if writable
                           then Some (run_dir @ ''/'' @ skill_name @ ''_analysis.json'') else None)\<rparr>)))"

subsection \<open>The contract\<close>

text \<open>A skill validates what it parsed; \<open>promise\<close> is what its callers may rely on in an output that
  was accepted.\<close>

locale skill =
  fixes validate_output :: "pydict \<Rightarrow> exn + bool \<times> string list" and promise :: "pydict \<Rightarrow> bool"
  assumes accepted: "validate_output parsed = Inr (True, errors) \<Longrightarrow> promise parsed"
    and no_errors: "validate_output parsed = Inr (ok, errors) \<Longrightarrow> ok \<longleftrightarrow> errors = []"
begin

lemma success_keeps_promise:
  assumes "invoke_skill n parse validate_output show answer dir w = Inr r" and "sr_success r"
  shows "promise (sr_output r) \<and> sr_errors r = [] \<and> sr_llm_backend r \<noteq> None"
  using assms accepted no_errors
  by (auto simp: invoke_skill_def new_result_def split: sum.splits prod.splits)

lemma failure_says_why:
  assumes "invoke_skill n parse validate_output show answer dir w = Inr r" and "\<not> sr_success r"
  shows "sr_errors r \<noteq> []"
  using assms no_errors
  by (auto simp: invoke_skill_def new_result_def split: sum.splits prod.splits)

end

end
