(* ===== verification/Diagnosis.thy ===== *)
theory Diagnosis
  imports Skill_Base
begin

section \<open>Failure classification\<close>

text \<open>
  \<open>skills/diagnose.py\<close> and \<open>control_classifier.py\<close>: the tables that classify a failure by the words
  of its evidence, the validator and the adapter of the language model's diagnosis, and the
  classifier that puts them together and remembers its last eight answers. The answer of the
  language model (a dictionary the skill parsed, or no usable answer) is an argument.
\<close>

subsection \<open>The diagnose skill\<close>

definition FAILURE_CLASSES :: "string list" where
  "FAILURE_CLASSES = [''provider_rate_limit'', ''credit_exhaustion'', ''provider_outage'', ''timeout'',
     ''artifact_contract_failure'', ''hung_process'', ''code_defect'', ''test_infrastructure_failure'',
     ''scope_too_broad'', ''system_failure'', ''unknown'']"

definition FAST_PATH_PATTERNS :: "(string list \<times> string \<times> int) list" where
  "FAST_PATH_PATTERNS =
     [([''rate limit''], ''provider_rate_limit'', 1800),
      ([''429''], ''provider_rate_limit'', 1800),
      ([''credit'', ''exhaust''], ''credit_exhaustion'', 0),
      ([''credit'', ''insufficient''], ''credit_exhaustion'', 0),
      ([''quota exceeded''], ''credit_exhaustion'', 0),
      ([''connection refused''], ''provider_outage'', 1800),
      ([''503'', ''service unavailable''], ''provider_outage'', 1800)]"

definition mentions :: "string list \<Rightarrow> string \<Rightarrow> bool" where
  "mentions keywords haystack \<longleftrightarrow> list_all (\<lambda>kw. contains kw haystack) keywords"

definition fast_path :: "string \<Rightarrow> FailureClassification option" where
  "fast_path evidence =
     (case List.find (\<lambda>(kws, _, _). mentions kws (py_lower evidence)) FAST_PATH_PATTERNS of
        None \<Rightarrow> None
      | Some (_, classification, cooldown) \<Rightarrow>
          Some \<lparr>fc_classification = classification, fc_confidence = 95 / 100,
                fc_retry_recommended = (classification \<noteq> ''credit_exhaustion''),
                fc_cooldown_seconds = cooldown, fc_evidence = [take 500 evidence]\<rparr>)"

definition diagnose_schema :: schema where
  "diagnose_schema =
     \<lparr>sc_required = [''classification'', ''confidence'', ''retry_recommended'', ''cooldown_seconds'', ''root_cause''],
      sc_types = [(''classification'', ''str''), (''confidence'', ''float''), (''retry_recommended'', ''bool''),
        (''cooldown_seconds'', ''int''), (''root_cause'', ''str''), (''scope_adjustment'', ''str''),
        (''why_chain'', ''list'')],
      sc_allowed_values = [(''classification'', FAILURE_CLASSES)]\<rparr>"

text \<open>\<open>float(v)\<close> of the values a validated output holds; the text of a float would need its parser.\<close>

definition py_float :: "pyval \<Rightarrow> exn + rat" where
  "py_float v =
     (case v of
        PInt i \<Rightarrow> Inr (of_int i)
      | PBool b \<Rightarrow> Inr (if b then 1 else 0)
      | PFloat m e \<Rightarrow> Inr (of_int m * 10 powi e)
      | PStr _ \<Rightarrow> Inl (OutsideModel ''float of a string'')
      | _ \<Rightarrow> Inl (TypeError ''float() argument must be a string or a real number''))"

definition get_default :: "pydict \<Rightarrow> string \<Rightarrow> pyval \<Rightarrow> pyval" where
  "get_default d k dflt = (if dict_has d k then dict_get d k else dflt)"

definition diagnose_validate :: "pydict \<Rightarrow> exn + bool \<times> string list" where
  "diagnose_validate parsed =
     (case validate_against_schema parsed diagnose_schema of
        (False, errors) \<Rightarrow> Inr (False, errors)
      | (True, errors) \<Rightarrow>
          let confidence = get_default parsed ''confidence'' (PInt 0) in
          rbind (py_float confidence) (\<lambda>c.
          if \<not> (0 \<le> c \<and> c \<le> 1)
          then Inr (False, [''confidence out of range: '' @ py_str confidence])
          else
            let cooldown = get_default parsed ''cooldown_seconds'' (PInt 0) in
            rbind (py_int cooldown) (\<lambda>n.
            if n < 0 then Inr (False, [''cooldown_seconds must be >= 0: '' @ py_str cooldown])
            else Inr (True, errors))))"

definition to_classification :: "pydict \<Rightarrow> string \<Rightarrow> exn + FailureClassification" where
  "to_classification output evidence =
     rbind (py_float (py_or (dict_get output ''confidence'') (PFloat 0 0))) (\<lambda>confidence.
     rbind (py_int (py_or (dict_get output ''cooldown_seconds'') (PInt 0))) (\<lambda>cooldown.
     Inr \<lparr>fc_classification = py_str (py_or (dict_get output ''classification'') (PStr ''unknown'')),
          fc_confidence = confidence,
          fc_retry_recommended = truthy (get_default output ''retry_recommended'' (PBool False)),
          fc_cooldown_seconds = cooldown,
          fc_evidence = (if evidence = [] then [] else [take 500 evidence])\<rparr>))"

text \<open>What the control plane relies on in a classification.\<close>

definition classification_ok :: "FailureClassification \<Rightarrow> bool" where
  "classification_ok fc \<longleftrightarrow> fc_classification fc \<in> set FAILURE_CLASSES
     \<and> 0 \<le> fc_confidence fc \<and> fc_confidence fc \<le> 1 \<and> 0 \<le> fc_cooldown_seconds fc"

definition diagnosis_ok :: "pydict \<Rightarrow> bool" where
  "diagnosis_ok output \<longleftrightarrow> (\<forall>evidence. \<exists>fc. to_classification output evidence = Inr fc
     \<and> classification_ok fc
     \<and> dict_get output ''classification'' = PStr (fc_classification fc)
     \<and> dict_get output ''retry_recommended'' = PBool (fc_retry_recommended fc)
     \<and> dict_get output ''cooldown_seconds'' = PInt (fc_cooldown_seconds fc))"

lemma is_numberE: "is_number v \<Longrightarrow> \<exists>c. py_float v = Inr c \<and> py_float (py_or v (PFloat 0 0)) = Inr c"
  by (cases v) (auto simp: is_number_def py_float_def py_or_def)

lemma is_boolE: "is_bool v \<Longrightarrow> \<exists>b. v = PBool b"
  by (cases v) (auto simp: is_bool_def)

lemma class_nonempty: "[] \<notin> set FAILURE_CLASSES"
  by (simp add: FAILURE_CLASSES_def)

lemma diagnose_accepts:
  assumes "diagnose_validate parsed = Inr (True, errors)"
  shows "errors = [] \<and> diagnosis_ok parsed"
proof -
  from assms obtain c n where s: "validate_against_schema parsed diagnose_schema = (True, errors)"
    and c: "py_float (get_default parsed ''confidence'' (PInt 0)) = Inr c" "0 \<le> c" "c \<le> 1"
    and n: "py_int (get_default parsed ''cooldown_seconds'' (PInt 0)) = Inr n" "0 \<le> n"
    unfolding diagnose_validate_def
    by (auto simp: rbind_Inr_iff Let_def split: prod.splits bool.splits if_splits)
  have conf: "conforms diagnose_schema parsed" using s schema_accepts [of parsed diagnose_schema] by simp
  have has: "dict_has parsed ''classification''" "dict_has parsed ''confidence''"
    "dict_has parsed ''retry_recommended''" "dict_has parsed ''cooldown_seconds''"
    using conf by (simp_all add: conforms_def diagnose_schema_def)
  have types: "is_number (dict_get parsed ''confidence'')" "is_bool (dict_get parsed ''retry_recommended'')"
    "\<exists>i. dict_get parsed ''cooldown_seconds'' = PInt i"
    using conf has by (simp_all add: conforms_def diagnose_schema_def)
  obtain cl where cl: "cl \<in> set FAILURE_CLASSES" "dict_get parsed ''classification'' = PStr cl"
    using conf has(1) by (auto simp: conforms_def diagnose_schema_def)
  obtain b where b: "dict_get parsed ''retry_recommended'' = PBool b" using is_boolE types(2) by blast
  obtain i where i: "dict_get parsed ''cooldown_seconds'' = PInt i" using types(3) by blast
  have "n = i" using n i has by (simp add: get_default_def py_int_def)
  moreover have "py_float (py_or (dict_get parsed ''confidence'') (PFloat 0 0)) = Inr c"
    using is_numberE [OF types(1)] c(1) has by (auto simp: get_default_def)
  moreover have "py_int (py_or (PInt i) (PInt 0)) = Inr i" by (simp add: py_or_def py_int_def)
  moreover have "py_or (PStr cl) (PStr ''unknown'') = PStr cl"
    using cl(1) class_nonempty by (cases "cl = []") (auto simp: py_or_def)
  ultimately have "diagnosis_ok parsed"
    using c n cl b i has
    by (auto simp: diagnosis_ok_def to_classification_def classification_ok_def get_default_def)
  then show ?thesis using schema_accepts_errors [OF s] by simp
qed

interpretation diagnose: skill diagnose_validate diagnosis_ok
proof
  fix parsed errors
  assume "diagnose_validate parsed = Inr (True, errors)"
  then show "diagnosis_ok parsed" using diagnose_accepts by blast
next
  fix parsed ok errors
  assume v: "diagnose_validate parsed = Inr (ok, errors)"
  show "ok \<longleftrightarrow> errors = []"
  proof (cases ok)
    case True
    with v diagnose_accepts show ?thesis by simp
  next
    case False
    with v show ?thesis using validate_against_schema_iff [of parsed diagnose_schema]
      by (auto simp: diagnose_validate_def rbind_Inr_iff Let_def split: prod.splits bool.splits if_splits)
  qed
qed

end
