(* ===== verification/Classifier.thy ===== *)
theory Classifier
  imports Diagnosis
begin

section \<open>The failure classifier\<close>

text \<open>
  \<open>control_classifier.py\<close>. A table of words decides the plain cases; what it does not know goes to
  the diagnose skill, when a router is configured; what the skill cannot answer gets a shallow guess.
  The state of a classifier is the list of its recent answers, at most eight.
\<close>

definition FAST_PATH :: "(string list \<times> string \<times> int \<times> bool \<times> rat) list" where
  "FAST_PATH =
     [([''rate limit''], ''provider_rate_limit'', 1800, False, 95 / 100),
      ([''429''], ''provider_rate_limit'', 1800, False, 95 / 100),
      ([''credit'', ''exhaust''], ''credit_exhaustion'', 0, False, 95 / 100),
      ([''credit'', ''insufficient''], ''credit_exhaustion'', 0, False, 95 / 100),
      ([''quota exceeded''], ''credit_exhaustion'', 0, False, 95 / 100),
      ([''connection refused''], ''provider_outage'', 1800, False, 80 / 100),
      ([''service unavailable''], ''provider_outage'', 1800, False, 80 / 100),
      ([''503''], ''provider_outage'', 1800, False, 80 / 100),
      ([''timed out''], ''timeout'', 0, True, 85 / 100),
      ([''timeout''], ''timeout'', 0, True, 80 / 100),
      ([''missing required artifact''], ''artifact_contract_failure'', 0, True, 90 / 100),
      ([''missing required artifacts''], ''artifact_contract_failure'', 0, True, 90 / 100),
      ([''validation_evidence_missing''], ''artifact_contract_failure'', 0, True, 90 / 100),
      ([''artifacts were insufficient''], ''artifact_contract_failure'', 0, True, 90 / 100),
      ([''required artifact''], ''artifact_contract_failure'', 0, True, 85 / 100),
      ([''objective_review_packet''], ''artifact_contract_failure'', 0, True, 85 / 100),
      ([''retry budget exhausted''], ''system_failure'', 0, False, 80 / 100),
      ([''killed''], ''hung_process'', 0, True, 70 / 100),
      ([''stale''], ''hung_process'', 0, True, 70 / 100),
      ([''hung''], ''hung_process'', 0, True, 70 / 100)]"

definition fast_classify :: "string \<Rightarrow> FailureClassification option" where
  "fast_classify evidence =
     (if evidence = [] then None
      else case List.find (\<lambda>(kws, _). mentions kws (py_lower evidence)) FAST_PATH of
             None \<Rightarrow> None
           | Some (_, classification, cooldown, retry, confidence) \<Rightarrow>
               Some \<lparr>fc_classification = classification, fc_confidence = confidence,
                     fc_retry_recommended = retry, fc_cooldown_seconds = cooldown,
                     fc_evidence = [take 500 evidence]\<rparr>)"

definition shallow_signal_classification :: "string \<Rightarrow> string list \<Rightarrow> FailureClassification" where
  "shallow_signal_classification haystack evidence_list =
     (if contains ''traceback'' haystack \<or> contains ''exception'' haystack \<or> contains ''error:'' haystack
      then \<lparr>fc_classification = ''system_failure'', fc_confidence = 5 / 10, fc_retry_recommended = False,
            fc_cooldown_seconds = 0, fc_evidence = evidence_list\<rparr>
      else \<lparr>fc_classification = ''unknown'', fc_confidence = 2 / 10, fc_retry_recommended = False,
            fc_cooldown_seconds = 0, fc_evidence = evidence_list\<rparr>)"

text \<open>What the diagnose skill answers: no router, an invocation without success, or the output of a
  successful one.\<close>

datatype diagnosis = NoRouter | NoAnswer | Answer pydict

definition llm_classify :: "diagnosis \<Rightarrow> string \<Rightarrow> exn + FailureClassification option" where
  "llm_classify answer evidence =
     (case answer of
        Answer output \<Rightarrow> rbind (to_classification output evidence) (\<lambda>fc. Inr (Some fc))
      | _ \<Rightarrow> Inr None)"

definition note_class :: "string \<Rightarrow> string list \<Rightarrow> string list" where
  "note_class classification recent =
     (let recent = recent @ [classification]
      in if 8 < length recent then drop (length recent - 8) recent else recent)"

definition classify ::
  "diagnosis \<Rightarrow> string option \<Rightarrow> string list \<Rightarrow> string list \<Rightarrow> exn + FailureClassification \<times> string list"
where
  "classify answer evidence extra_evidence recent =
     (let snippets = filter (\<lambda>x. x \<noteq> []) ((case evidence of None \<Rightarrow> [] | Some e \<Rightarrow> [e]) @ extra_evidence);
          joined = join [CHR 0x0A] snippets
      in case fast_classify joined of
           Some fast \<Rightarrow> Inr (fast, note_class (fc_classification fast) recent)
         | None \<Rightarrow>
             rbind (llm_classify answer joined) (\<lambda>llm_result.
             case llm_result of
               Some fc \<Rightarrow> Inr (fc, note_class (fc_classification fc) recent)
             | None \<Rightarrow>
                 let fallback = shallow_signal_classification (py_lower joined) (take 5 snippets)
                 in Inr (fallback, note_class (fc_classification fallback) recent)))"

subsection \<open>Properties\<close>

lemma fast_path_rows: "list_all (\<lambda>(kws, c, cooldown, retry, conf). c \<in> set FAILURE_CLASSES
    \<and> 0 \<le> conf \<and> conf \<le> 1 \<and> 0 \<le> cooldown) FAST_PATH"
  by (simp add: FAST_PATH_def FAILURE_CLASSES_def)

lemma find_rows: "list_all p xs \<Longrightarrow> List.find q xs = Some x \<Longrightarrow> p x"
  by (auto simp: find_Some_iff list_all_length)

lemma fast_classify_ok:
  assumes "fast_classify evidence = Some fc"
  shows "classification_ok fc"
proof -
  from assms obtain kws c cooldown retry conf where
    row: "List.find (\<lambda>(kws, _). mentions kws (py_lower evidence)) FAST_PATH = Some (kws, c, cooldown, retry, conf)"
    and fc: "fc = \<lparr>fc_classification = c, fc_confidence = conf, fc_retry_recommended = retry,
      fc_cooldown_seconds = cooldown, fc_evidence = [take 500 evidence]\<rparr>"
    by (auto simp: fast_classify_def split: if_splits option.splits)
  from find_rows [OF fast_path_rows row] show ?thesis by (simp add: fc classification_ok_def)
qed

lemma shallow_ok: "classification_ok (shallow_signal_classification haystack snippets)"
  by (simp add: shallow_signal_classification_def classification_ok_def FAILURE_CLASSES_def)

lemma note_class_bound: "length recent \<le> 8 \<Longrightarrow> length (note_class c recent) \<le> 8 \<and> last (note_class c recent) = c"
  by (simp add: note_class_def Let_def)

text \<open>C26. Every classification is one the control plane can act on: when the answer of the language
  model, if there is one, is an output the diagnose skill accepted, \<open>classify\<close> returns, its class is
  one of the eleven failure classes, its confidence lies between 0 and 1 and its cooldown is not
  negative; it remembers its answer last, and never more than eight.\<close>

theorem classify_well_typed:
  assumes "length recent \<le> 8"
    and "\<And>output. answer = Answer output \<Longrightarrow> \<exists>errors. diagnose_validate output = Inr (True, errors)"
  shows "\<exists>fc recent'. classify answer evidence extra recent = Inr (fc, recent') \<and> classification_ok fc
    \<and> length recent' \<le> 8 \<and> last recent' = fc_classification fc"
proof -
  let ?snippets = "filter (\<lambda>x. x \<noteq> []) ((case evidence of None \<Rightarrow> [] | Some e \<Rightarrow> [e]) @ extra)"
  let ?joined = "join [CHR 0x0A] ?snippets"
  have llm: "\<exists>r. llm_classify answer ?joined = Inr r \<and> (\<forall>fc. r = Some fc \<longrightarrow> classification_ok fc)"
  proof (cases answer)
    case (Answer out)
    with assms(2) diagnose.accepted have "diagnosis_ok out" by blast
    then obtain fc where "to_classification out ?joined = Inr fc" "classification_ok fc"
      unfolding diagnosis_ok_def by blast
    then show ?thesis by (simp add: llm_classify_def Answer)
  qed (simp_all add: llm_classify_def)
  show ?thesis
  proof (cases "fast_classify ?joined")
    case (Some fc)
    then show ?thesis using fast_classify_ok [OF Some] note_class_bound [OF assms(1)]
      by (simp add: classify_def Let_def)
  next
    case None
    from llm obtain r where r: "llm_classify answer ?joined = Inr r" "\<forall>fc. r = Some fc \<longrightarrow> classification_ok fc"
      by blast
    show ?thesis
      using None r shallow_ok note_class_bound [OF assms(1)]
      by (cases r) (simp_all add: classify_def Let_def)
  qed
qed

definition demo_diagnosis :: pydict where
  "demo_diagnosis = [(''classification'', PStr ''code_defect''), (''confidence'', PFloat 8 (-1)),
     (''retry_recommended'', PBool True), (''cooldown_seconds'', PInt 0), (''root_cause'', PStr ''a cause''),
     (''scope_adjustment'', PStr [])]"

lemma demo_diagnosis_accepted: "diagnose_validate demo_diagnosis = Inr (True, [])"
  by (simp add: diagnose_validate_def validate_against_schema_def diagnose_schema_def demo_diagnosis_def
      type_error_def TYPE_MAP_def FAILURE_CLASSES_def is_str_def is_bool_def is_number_def py_float_def
      get_default_def py_int_def)

lemma classify_well_typed_witness:
  "\<exists>fc recent'. classify (Answer demo_diagnosis) (Some ''assertion failed'') [] [] = Inr (fc, recent')
     \<and> classification_ok fc"
proof -
  have "\<exists>fc recent'. classify (Answer demo_diagnosis) (Some ''assertion failed'') [] [] = Inr (fc, recent')
      \<and> classification_ok fc \<and> length recent' \<le> 8 \<and> last recent' = fc_classification fc"
    by (rule classify_well_typed) (auto simp: demo_diagnosis_accepted)
  then show ?thesis by blast
qed

text \<open>The row for \<open>missing required artifacts\<close> is dead: whatever mentions it also mentions the row
  before it.\<close>

lemma dead_row: "mentions [''missing required artifacts''] haystack \<Longrightarrow> mentions [''missing required artifact''] haystack"
proof -
  assume "mentions [''missing required artifacts''] haystack"
  then obtain pre post where "haystack = pre @ ''missing required artifacts'' @ post"
    by (auto simp: mentions_def contains_iff)
  then have "haystack = pre @ ''missing required artifact'' @ (''s'' @ post)" by simp
  then show ?thesis by (auto simp: mentions_def contains_iff)
qed

end
