(* ===== verification/Control_Runtime.thy ===== *)
theory Control_Runtime
  imports Classifier Control_Props Record_Props
begin

section \<open>The runtime observer\<close>

text \<open>
  \<open>control_runtime.py\<close> and \<open>control_breadcrumbs.py\<close>: the observer receives the events of the queue
  and of the runs, classifies failures, keeps the worker runs and breadcrumbs, and lets the control
  plane act. An event is a dictionary. The classifier is an argument, the answer it gives for a piece
  of evidence; \<open>Classifier.classify\<close> is the one the program uses. The files of a breadcrumb bundle
  are not part of the store; its row and its path are.
\<close>

subsection \<open>Breadcrumbs\<close>

definition write_bundle ::
  "string \<Rightarrow> string \<Rightarrow> string \<Rightarrow> pydict \<Rightarrow> string option \<Rightarrow> string option \<Rightarrow> string op" where
  "write_bundle workspace_root entity_type entity_id decision worker_run_id classification =
     bnd (new_id ''breadcrumb'') (\<lambda>bundle_id.
     let bundle_dir = workspace_root @ ''/control/breadcrumbs/'' @ entity_type @ ''/'' @ entity_id
                      @ ''/'' @ bundle_id
     in
     bnd utc_now (\<lambda>now.
     bnd (create_control_breadcrumb
       \<lparr>cbc_id = bundle_id, cbc_entity_type = entity_type, cbc_entity_id = entity_id,
        cbc_worker_run_id = worker_run_id,
        cbc_classification = (case classification of
           Some c \<Rightarrow> if c \<noteq> [] then Some c else Some (str_or_empty (dict_get decision ''classification''))
         | None \<Rightarrow> Some (str_or_empty (dict_get decision ''classification''))),
        cbc_path = bundle_dir, cbc_created_at = now\<rparr>) (\<lambda>_.
     ret bundle_dir)))"

subsection \<open>Lanes\<close>

definition set_worker_lane :: "ControlLaneStateValue \<Rightarrow> string \<Rightarrow> unit op" where
  "set_worker_lane state reason =
     bnd (get_control_lane_state ''worker'') (\<lambda>row.
     case row of
       None \<Rightarrow> ret ()
     | Some lane \<Rightarrow>
         bnd utc_now (\<lambda>now.
         update_control_lane_state (lane\<lparr>cls_state := state, cls_reason := Some reason,
           cls_cooldown_until := None, cls_updated_at := now\<rparr>)))"

definition INFRA_FAILURES :: "string list" where
  "INFRA_FAILURES = [''provider_rate_limit'', ''provider_outage'', ''credit_exhaustion'', ''hung_process'']"

definition TASK_FAILURES :: "string list" where
  "TASK_FAILURES = [''code_defect'', ''test_infrastructure_failure'', ''scope_too_broad'',
     ''artifact_contract_failure'', ''system_failure'', ''unknown'']"

definition discard :: "'a op \<Rightarrow> unit op" where
  "discard m = bnd m (\<lambda>_. ret ())"

definition apply_classification_policy :: "string \<Rightarrow> string \<Rightarrow> int \<Rightarrow> unit op" where
  "apply_classification_policy producer classification cooldown_seconds =
     (if classification \<in> {''provider_rate_limit'', ''provider_outage''} \<and> 0 < cooldown_seconds
      then discard (enter_cooldown producer ''worker'' classification cooldown_seconds)
      else if classification = ''credit_exhaustion''
      then bnd (pause_lane producer ''worker'' classification) (\<lambda>_.
           discard (record_human_escalation producer ''credit_exhaustion''
             (Some [(''reason'', PStr ''Credit exhaustion requires operator action before more work can run.'')])))
      else if classification \<in> set TASK_FAILURES then set_worker_lane LS_RUNNING classification
      else if classification \<in> set INFRA_FAILURES
      then bnd (set_worker_lane LS_PAUSED classification) (\<lambda>_.
           discard (mark_degraded producer classification))
      else set_worker_lane LS_RUNNING classification)"

subsection \<open>Failures\<close>

definition new_worker_run :: "string \<Rightarrow> string \<Rightarrow> time \<Rightarrow> ControlWorkerRun" where
  "new_worker_run i task now =
     \<lparr>cwr_id = i, cwr_task_id = Some task, cwr_objective_id = None, cwr_worker_kind = ''coding_worker'',
      cwr_runtime_name = ''local'', cwr_model_name = None, cwr_attempt = 1, cwr_status = ''started'',
      cwr_classification = None, cwr_started_at = now, cwr_ended_at = None, cwr_breadcrumb_path = None\<rparr>"

definition recent_classification_count :: "string \<Rightarrow> nat op" where
  "recent_classification_count classification =
     bnd (list_control_worker_runs None) (\<lambda>runs.
     ret (length (filter (\<lambda>item. cwr_classification item = Some classification) (take 8 runs))))"

definition failure_evidence :: "pydict \<Rightarrow> string" where
  "failure_evidence event =
     join [CHR 0x0A] (filter (\<lambda>x. x \<noteq> [])
       (map (\<lambda>k. str_or_empty (dict_get event k))
         [''failure_category'', ''failure_message'', ''analysis_summary'', ''decision_rationale'', ''worker_outcome'']))"

text \<open>The four writes of a failure report: the worker run, the event, the policy, the escalation.\<close>

definition finish_worker_run :: "pydict \<Rightarrow> string \<Rightarrow> string \<Rightarrow> string \<Rightarrow> string \<Rightarrow> unit op" where
  "finish_worker_run event run task classification bundle_dir =
     bnd (get_control_worker_run run) (\<lambda>row.
     bnd (case row of None \<Rightarrow> bnd utc_now (\<lambda>now. ret (new_worker_run run task now)) | Some r \<Rightarrow> ret r) (\<lambda>existing.
     bnd utc_now (\<lambda>now.
     upsert_control_worker_run (existing\<lparr>
       cwr_status := py_str (py_or (dict_get event ''run_status'') (PStr ''failed'')),
       cwr_classification := Some classification, cwr_ended_at := Some now,
       cwr_breadcrumb_path := Some bundle_dir\<rparr>))))"

definition report_failure :: "pydict \<Rightarrow> string \<Rightarrow> string \<Rightarrow> string \<Rightarrow> unit op" where
  "report_failure event run task classification =
     bnd (new_id ''control_event'') (\<lambda>event_id.
     bnd (new_id ''event_key'') (\<lambda>key.
     bnd utc_now (\<lambda>created.
     create_control_event
       \<lparr>cev_id = event_id, cev_event_type = ''worker_failed'', cev_entity_type = ''task'',
        cev_entity_id = (if task \<noteq> [] then task else run), cev_producer = ''control-runtime'',
        cev_payload = [(''run_id'', PStr run), (''classification'', PStr classification),
          (''task_status'', dict_get event ''task_status'')],
        cev_idempotency_key = key, cev_created_at = created\<rparr>)))"

definition escalate_unknown :: "string \<Rightarrow> string \<Rightarrow> unit op" where
  "escalate_unknown producer classification =
     (if classification = ''unknown''
      then bnd (recent_classification_count ''unknown'') (\<lambda>n.
        if 2 \<le> n
        then discard (record_human_escalation producer ''unknown_repeated''
          (Some [(''reason'', PStr ''Unknown classification occurred twice and requires operator review.'')]))
        else ret ())
      else ret ())"

definition record_failure ::
  "string \<Rightarrow> string \<Rightarrow> (string \<Rightarrow> exn + FailureClassification) \<Rightarrow> pydict \<Rightarrow> unit op" where
  "record_failure producer workspace_root classifier event =
     bnd (if truthy (dict_get event ''run_id'') then ret (py_str (dict_get event ''run_id''))
          else new_id ''run'') (\<lambda>run.
     let task = str_or_empty (dict_get event ''task_id'') in
     bnd (lift_result (classifier (failure_evidence event))) (\<lambda>fc.
     bnd (write_bundle workspace_root ''task'' (if task \<noteq> [] then task else ''unknown_task'')
       [(''classification'', PStr (fc_classification fc)),
        (''retry_recommended'', PBool (fc_retry_recommended fc)),
        (''cooldown_seconds'', PInt (fc_cooldown_seconds fc))]
       (Some run) (Some (fc_classification fc))) (\<lambda>bundle_dir.
     bnd (finish_worker_run event run task (fc_classification fc) bundle_dir) (\<lambda>_.
     bnd (report_failure event run task (fc_classification fc)) (\<lambda>_.
     bnd (apply_classification_policy producer (fc_classification fc) (fc_cooldown_seconds fc)) (\<lambda>_.
     escalate_unknown producer (fc_classification fc)))))))"

subsection \<open>Progress\<close>

definition enforce_no_progress :: "string \<Rightarrow> string \<Rightarrow> Task option \<Rightarrow> unit op" where
  "enforce_no_progress producer workspace_root completed_task =
     (case completed_task of
        None \<Rightarrow> ret ()
      | Some task \<Rightarrow>
          (case task_objective_id task of
             None \<Rightarrow> ret ()
           | Some i \<Rightarrow>
               if i = [] then ret ()
               else bnd (get_objective i) (\<lambda>objective.
                 case objective of
                   None \<Rightarrow> ret ()
                 | Some o1 \<Rightarrow>
                     if objective_status o1 = OS_RESOLVED then ret ()
                     else bnd (list_control_worker_runs None) (\<lambda>runs.
                       let recent_runs = take 3 (filter (\<lambda>item. cwr_objective_id item = Some i) runs)
                       in if length recent_runs < 3 then ret ()
                          else if \<not> list_all (\<lambda>item. cwr_status item = ''completed'') recent_runs then ret ()
                          else
                            bnd (write_bundle workspace_root ''objective'' i
                              [(''classification'', PStr ''no_progress''), (''retry_recommended'', PBool False),
                               (''cooldown_seconds'', PInt 0)] None (Some ''no_progress'')) (\<lambda>_.
                            discard (record_human_escalation producer ''no_progress''
                              (Some [(''objective_id'', PStr i), (''reason'', PStr NO_PROGRESS_REASON)])))))))"

subsection \<open>Events\<close>

definition handle_run_created :: "string \<Rightarrow> pydict \<Rightarrow> unit op" where
  "handle_run_created producer event =
     (if \<not> dict_has event ''task_id'' then raise (KeyError ''task_id'')
      else
        let task_id1 = py_str (dict_get event ''task_id'') in
        bnd (get_task task_id1) (\<lambda>task.
        if \<not> dict_has event ''run_id'' then raise (KeyError ''run_id'')
        else
          bnd (lift_result (py_int (py_or (dict_get event ''attempt'') (PInt 1)))) (\<lambda>attempt.
          bnd utc_now (\<lambda>now.
          bnd (upsert_control_worker_run
            ((new_worker_run (py_str (dict_get event ''run_id'')) task_id1 now)\<lparr>
               cwr_objective_id := (case task of None \<Rightarrow> None | Some t \<Rightarrow> task_objective_id t),
               cwr_attempt := attempt\<rparr>)) (\<lambda>_.
          case (case task of None \<Rightarrow> None | Some t \<Rightarrow> task_objective_id t) of
            Some i \<Rightarrow>
              if i = []
              then discard (record_budget_usage ''worker'' ''expensive_coding_runs'' 1 0 EXPENSIVE_CODING_RUN_WINDOW)
              else
                bnd (record_budget_usage ''objective'' i 1 0 EXPENSIVE_CODING_RUN_WINDOW) (\<lambda>_.
                bnd (expensive_coding_budget_exhausted ''objective'' i) (\<lambda>exhausted.
                when_do exhausted (discard (record_human_escalation producer ''budget_exhausted''
                  (Some [(''objective_id'', PStr i), (''reason'',
                    PStr ''Expensive coding run budget exhausted for this objective in the current hour.'')])))))
          | None \<Rightarrow>
              discard (record_budget_usage ''worker'' ''expensive_coding_runs'' 1 0 EXPENSIVE_CODING_RUN_WINDOW))))))"

definition handle_task_finished :: "string \<Rightarrow> string \<Rightarrow> pydict \<Rightarrow> unit op" where
  "handle_task_finished producer workspace_root event =
     bnd (get_control_worker_run (str_or_empty (dict_get event ''run_id''))) (\<lambda>worker_run.
     bnd (case worker_run of
            None \<Rightarrow> ret ()
          | Some r \<Rightarrow>
              bnd utc_now (\<lambda>now. upsert_control_worker_run (r\<lparr>
                cwr_status := py_str (py_or (dict_get event ''run_status'') (PStr ''completed'')),
                cwr_ended_at := Some now\<rparr>))) (\<lambda>_.
     let task_id1 = str_or_empty (dict_get event ''task_id'') in
     bnd (if task_id1 \<noteq> [] then get_task task_id1 else ret None) (\<lambda>completed_task.
     when_do (str_or_empty (dict_get event ''status'') = ''completed'')
       (bnd (mark_healthy producer ''task_completed'') (\<lambda>_.
        enforce_no_progress producer workspace_root completed_task)))))"

definition handle_event ::
  "string \<Rightarrow> string \<Rightarrow> (string \<Rightarrow> exn + FailureClassification) \<Rightarrow> pydict \<Rightarrow> unit op" where
  "handle_event producer workspace_root classifier event =
     (let event_type = str_or_empty (dict_get event ''type'') in
      if event_type = ''task_started'' then set_worker_lane LS_RUNNING ''task_started''
      else if event_type = ''run_created'' then handle_run_created producer event
      else if event_type = ''task_finished'' then handle_task_finished producer workspace_root event
      else if event_type = ''failure_diagnostic''
      then record_failure producer workspace_root classifier event
      else if event_type = ''backends_unavailable''
      then bnd (lift_result (classifier (str_or_empty (dict_get event ''message'')))) (\<lambda>fc.
           apply_classification_policy producer (fc_classification fc) (fc_cooldown_seconds fc))
      else ret ())"


subsection \<open>The observer and a frozen system\<close>

lemma set_worker_lane_run:
  assumes "find_key cls_lane_name ''worker'' (st_lanes s) = Some lane"
  shows "set_worker_lane state reason s = (Inr (), s\<lparr>st_ticks := Suc (st_ticks s),
    st_lanes := upsert cls_lane_name (lane\<lparr>cls_state := state, cls_reason := Some reason,
      cls_cooldown_until := None, cls_updated_at := st_clock s (st_ticks s)\<rparr>) (st_lanes s)\<rparr>)"
  using assms by (simp add: set_worker_lane_def get_control_lane_state_def bnd_run utc_now_def
      update_control_lane_state_def)

text \<open>The events after which the observer sets the worker lane to running, with its reason.\<close>

definition restarting_event :: "(string \<Rightarrow> exn + FailureClassification) \<Rightarrow> pydict \<Rightarrow> bool" where
  "restarting_event classifier event \<longleftrightarrow>
     str_or_empty (dict_get event ''type'') = ''task_started''
     \<or> (str_or_empty (dict_get event ''type'') = ''backends_unavailable''
        \<and> (\<exists>fc. classifier (str_or_empty (dict_get event ''message'')) = Inr fc
             \<and> fc_classification fc \<notin> set INFRA_FAILURES))"

text \<open>The observer does not look at the master switch or a freeze: whatever the system row and
  the worker lane say, paused by a freeze, by an operator, or in a cooldown, the start of a task, and
  a report whose classification is no infrastructure failure, put the worker lane into the running
  state, with no cooldown left, and leave the system row as it was. A system that shows itself as
  frozen then has a running worker.\<close>

theorem observer_overrides_freeze:
  assumes "restarting_event classifier event" and "''worker'' \<in> cls_lane_name ` set (st_lanes s)"
  shows "\<exists>t lane. handle_event producer ws classifier event s = (Inr (), t)
    \<and> find_key cls_lane_name ''worker'' (st_lanes t) = Some lane \<and> cls_state lane = LS_RUNNING
    \<and> cls_cooldown_until lane = None \<and> st_system t = st_system s"
proof -
  from assms(2) obtain lane where lane: "find_key cls_lane_name ''worker'' (st_lanes s) = Some lane"
    by (metis find_key_None not_Some_eq)
  have name: "cls_lane_name lane = ''worker''" using find_key_Some [OF lane] by simp
  have policy: "apply_classification_policy producer c n = set_worker_lane LS_RUNNING c"
    if "c \<notin> set INFRA_FAILURES" for c n
    using that by (auto simp: apply_classification_policy_def INFRA_FAILURES_def)
  have "\<exists>reason. handle_event producer ws classifier event s = set_worker_lane LS_RUNNING reason s"
    using assms(1) by (auto simp: restarting_event_def handle_event_def Let_def policy bnd_run lift_result_run)
  then obtain reason where "handle_event producer ws classifier event s = set_worker_lane LS_RUNNING reason s"
    by blast
  then show ?thesis by (simp add: set_worker_lane_run [OF lane] name find_key_upsert)
qed

definition demo_stopped :: store where
  "demo_stopped = (empty_store 0)\<lparr>
     st_system := [\<lparr>css_id = ''system'', css_global_state = GS_FROZEN, css_master_switch = True,
       css_freeze_reason = Some ''incident'', css_updated_at = 0\<rparr>],
     st_lanes := [\<lparr>cls_lane_name = ''worker'', cls_state = LS_PAUSED, cls_reason = Some ''frozen'',
       cls_cooldown_until = None, cls_updated_at = 0\<rparr>]\<rparr>"

lemma observer_overrides_freeze_witness:
  "\<exists>t lane. handle_event ''cp'' ''ws'' (\<lambda>e. Inr (shallow_signal_classification e []))
     [(''type'', PStr ''task_started'')] demo_stopped = (Inr (), t)
     \<and> find_key cls_lane_name ''worker'' (st_lanes t) = Some lane \<and> cls_state lane = LS_RUNNING
     \<and> st_system t = st_system demo_stopped"
proof -
  have "restarting_event (\<lambda>e. Inr (shallow_signal_classification e [])) [(''type'', PStr ''task_started'')]"
    by (simp add: restarting_event_def str_or_empty_def py_or_def)
  moreover have "''worker'' \<in> cls_lane_name ` set (st_lanes demo_stopped)" by (simp add: demo_stopped_def)
  ultimately show ?thesis using observer_overrides_freeze by blast
qed


subsection \<open>What a call of the control plane leaves alone\<close>

definition beside_plane :: "(store \<Rightarrow> 'v) \<Rightarrow> bool" where
  "beside_plane f \<longleftrightarrow> (\<forall>s. (\<forall>n. f (s\<lparr>st_ticks := n\<rparr>) = f s) \<and> (\<forall>n. f (s\<lparr>st_uuids := n\<rparr>) = f s)
     \<and> (\<forall>r. f (s\<lparr>st_system := r\<rparr>) = f s) \<and> (\<forall>r. f (s\<lparr>st_lanes := r\<rparr>) = f s)
     \<and> (\<forall>r. f (s\<lparr>st_control_events := r\<rparr>) = f s) \<and> (\<forall>r. f (s\<lparr>st_cooldowns := r\<rparr>) = f s)
     \<and> (\<forall>r. f (s\<lparr>st_recovery := r\<rparr>) = f s) \<and> (\<forall>r. f (s\<lparr>st_task_leases := r\<rparr>) = f s))"

lemma plane_steps:
  assumes "beside_plane f"
  shows "keeps f utc_now" "keeps f (new_id p)" "keeps f (update_control_system_state y)"
    "keeps f (update_control_lane_state l)" "keeps f (create_control_event e)"
    "keeps f (create_control_cooldown c)" "keeps f (create_control_recovery_action a)"
    "keeps f (list_task_leases pr)" "keeps f get_control_system_state"
    "keeps f (get_control_lane_state n)" "keeps f list_control_lane_states"
    "keeps f (list_control_events x1 x2 x3 x4)"
  using assms
  unfolding update_control_system_state_def update_control_lane_state_def create_control_event_def
    create_control_cooldown_def create_control_recovery_action_def list_task_leases_def
    get_control_system_state_def get_control_lane_state_def list_control_lane_states_def list_control_events_def
  by (intro keep_rules keeps_writes keeps_try_write utc_now_keeps new_id_keeps;
      auto simp: beside_plane_def rbind_Inr_iff split: if_splits)+

lemma plane_parts:
  assumes "beside_plane f"
  shows "keeps f (put_lane l st r u)" "keeps f (put_system g y)" "keeps f (record_event p a b c d)"
    "keeps f (new_recovery_action x y' z)" "keeps f (new_cooldown n r' u')" "keeps f (require_lane n)"
    "keeps f (set_active_lanes st r'')" "keeps f (expire_cooldowns p)" "keeps f reconcile_system_state"
    "keeps f latest_merge_event"
  unfolding put_lane_def put_system_def record_event_def new_recovery_action_def new_cooldown_def
    require_lane_def set_active_lanes_def expire_cooldowns_def expire_at_def reconcile_system_state_def
    latest_merge_event_def Let_def
  by (intro keep_rules plane_steps [OF assms]; auto intro!: keep_rules plane_steps [OF assms]
      simp: record_event_def split: prod.split)+

lemma plane_calls_keep:
  assumes "beside_plane f"
  shows "keeps f (plane_status p)" "keeps f (sync_global_state p r)"
    "keeps f (mark_degraded p r)" "keeps f (mark_healthy p r)" "keeps f (pause_lane p n r)"
    "keeps f (enter_cooldown p n r k)" "keeps f (record_human_escalation p r d)"
proof -
  have status: "keeps f (plane_status p)" for p
    unfolding plane_status_def status_dict_def by (intro keep_rules plane_parts [OF assms] plane_steps [OF assms])
  have sync: "keeps f (sync_global_state p r)" for p r
    unfolding sync_global_state_def by (intro keep_rules plane_parts [OF assms] plane_steps [OF assms] status)
  note parts = keep_rules plane_parts [OF assms] plane_steps [OF assms] status sync
  show "keeps f (plane_status p)" "keeps f (sync_global_state p r)" by (rule status, rule sync)
  show "keeps f (mark_degraded p r)" unfolding mark_degraded_def by (intro parts)
  show "keeps f (mark_healthy p r)" unfolding mark_healthy_def by (intro parts)
  show "keeps f (pause_lane p n r)" unfolding pause_lane_def by (intro parts)
  show "keeps f (enter_cooldown p n r k)" unfolding enter_cooldown_def Let_def by (intro parts)
  show "keeps f (record_human_escalation p r d)" unfolding record_human_escalation_def by (intro parts)
qed

lemma keeps_discard: "keeps f m \<Longrightarrow> keeps f (discard m)"
  unfolding discard_def by (intro keep_rules)

lemma policy_keeps: "beside_plane f \<Longrightarrow> keeps f (apply_classification_policy p c n)"
  unfolding apply_classification_policy_def set_worker_lane_def
  by (intro keep_rules keeps_discard plane_calls_keep plane_steps)


definition records :: "store \<Rightarrow> ControlWorkerRun list \<times> ControlBreadcrumb list" where
  "records s = (st_worker_runs s, st_breadcrumbs s)"

lemma beside_records: "beside_plane records"
  by (simp add: beside_plane_def records_def)

lemma bundle_written:
  assumes "write_bundle ws entity_type i d w (Some c) s = (Inr dir, t)" and "c \<noteq> []"
  shows "st_worker_runs t = st_worker_runs s \<and> (\<exists>b\<in>set (st_breadcrumbs t). cbc_worker_run_id b = w
    \<and> cbc_path b = dir \<and> cbc_classification b = Some c)"
  using assms by (auto simp: write_bundle_def new_id_def utc_now_def bnd_run ret_run Let_def
      create_control_breadcrumb_def try_write_def insert_row_def rbind_Inr_iff split: sum.splits if_splits)

lemma finish_effect:
  assumes "finish_worker_run event i task c dir s = (Inr u, t)"
  shows "st_breadcrumbs t = st_breadcrumbs s \<and> (\<exists>w. find_key cwr_id i (st_worker_runs t) = Some w
    \<and> cwr_classification w = Some c \<and> cwr_ended_at w \<noteq> None
    \<and> cwr_status w = py_str (py_or (dict_get event ''run_status'') (PStr ''failed''))
    \<and> cwr_breadcrumb_path w = Some dir)"
proof (cases "find_key cwr_id i (st_worker_runs s)")
  case None
  then show ?thesis using assms
    by (auto simp: finish_worker_run_def get_control_worker_run_def bnd_run utc_now_def ret_run
        upsert_control_worker_run_def new_worker_run_def find_key_upsert)
next
  case (Some r)
  with find_key_Some [OF Some] show ?thesis using assms
    by (auto simp: finish_worker_run_def get_control_worker_run_def bnd_run utc_now_def ret_run
        upsert_control_worker_run_def find_key_upsert)
qed

lemma report_keeps: "beside_plane f \<Longrightarrow> keeps f (report_failure e r t' c)"
  unfolding report_failure_def by (intro keep_rules plane_steps)

lemma escalate_keeps: "beside_plane f \<Longrightarrow> keeps f (escalate_unknown p c)"
  unfolding escalate_unknown_def recent_classification_count_def list_control_worker_runs_def
  by (intro keep_rules keeps_discard plane_calls_keep)

text \<open>A failure leaves its trace: when the observer returns from a failure report of a run, the
  run has a worker run row with the class that the classifier gave it, an end, the reported status
  or \<open>failed\<close>, and the path of a breadcrumb row of the same run and class, whatever the control
  plane did with the lanes afterwards.\<close>

theorem failure_is_recorded:
  assumes run: "record_failure producer ws classifier event s = (Inr u, t)"
    and event: "dict_get event ''run_id'' = PStr i" "i \<noteq> []"
    and verdict: "classifier (failure_evidence event) = Inr fc" "fc_classification fc \<noteq> []"
  shows "\<exists>w b. find_key cwr_id i (st_worker_runs t) = Some w
    \<and> cwr_classification w = Some (fc_classification fc) \<and> cwr_ended_at w \<noteq> None
    \<and> cwr_status w = py_str (py_or (dict_get event ''run_status'') (PStr ''failed''))
    \<and> b \<in> set (st_breadcrumbs t) \<and> cbc_worker_run_id b = Some i
    \<and> cbc_classification b = Some (fc_classification fc) \<and> cwr_breadcrumb_path w = Some (cbc_path b)"
proof -
  let ?c = "fc_classification fc" and ?task = "str_or_empty (dict_get event ''task_id'')"
  from run event verdict obtain d dir s1 s2 s3 s4 where
    b: "write_bundle ws ''task'' (if ?task \<noteq> [] then ?task else ''unknown_task'') d (Some i) (Some ?c) s = (Inr dir, s1)"
    and w: "finish_worker_run event i ?task ?c dir s1 = (Inr (), s2)"
    and rest: "report_failure event i ?task ?c s2 = (Inr (), s3)"
      "apply_classification_policy producer ?c (fc_cooldown_seconds fc) s3 = (Inr (), s4)"
      "escalate_unknown producer ?c s4 = (Inr u, t)"
    unfolding record_failure_def by (fastforce simp: Let_def lift_result_run ret_run elim!: bnd_InrE)
  have "records t = records s2"
    using keeps_run [OF report_keeps [OF beside_records] rest(1)]
      keeps_run [OF policy_keeps [OF beside_records] rest(2)]
      keeps_run [OF escalate_keeps [OF beside_records] rest(3)] by simp
  then show ?thesis
    using finish_effect [OF w] bundle_written [OF b verdict(2)] by (fastforce simp: records_def)
qed

end
