(* ===== verification/Py_Regex.thy ===== *)
theory Py_Regex
  imports Py_Convert
begin

section \<open>Regular expressions\<close>

text \<open>
  The part of Python's \<open>re\<close> the code uses: a backtracking matcher that tries the branches of an
  alternative from left to right and repeats as often as it can. A position is the text
  already read, backwards, the text to come, and the groups closed so far. \<open>matches\<close> lists every
  way to match from a position in the order the engine tries them; the engine's result is the first.
  None of the patterns of the code repeats an expression that can match the empty text, so a
  repetition that makes no progress is simply not taken.
\<close>

datatype regex =
    Empty
  | One "char \<Rightarrow> bool"
  | Seq regex regex
  | Alt regex regex
  | Many regex
  | Group nat regex
  | WordEnd

type_synonym position = "string \<times> string \<times> (nat \<times> string) list"

definition to_come :: "position \<Rightarrow> string" where
  "to_come p = fst (snd p)"

definition groups :: "position \<Rightarrow> (nat \<times> string) list" where
  "groups p = snd (snd p)"

definition close_group :: "nat \<Rightarrow> position \<Rightarrow> position \<Rightarrow> position" where
  "close_group n p q =
     (fst q, to_come q, (n, take (length (to_come p) - length (to_come q)) (to_come p)) # groups q)"

text \<open>A letter, a digit or an underscore, also beyond ASCII.\<close>

definition is_word :: "char \<Rightarrow> bool" where
  "is_word c =
     (let n = (of_char c :: nat) in
      (48 \<le> n \<and> n \<le> 57) \<or> (65 \<le> n \<and> n \<le> 90) \<or> n = 95 \<or> (97 \<le> n \<and> n \<le> 122)
      \<or> n \<in> {170, 178, 179, 181, 185, 186, 188, 189, 190}
      \<or> (192 \<le> n \<and> n \<noteq> 215 \<and> n \<noteq> 247))"

definition word_end :: "string \<Rightarrow> string \<Rightarrow> bool" where
  "word_end before after \<longleftrightarrow>
     (before \<noteq> [] \<and> is_word (hd before)) \<noteq> (after \<noteq> [] \<and> is_word (hd after))"

fun repeated :: "nat \<Rightarrow> (position \<Rightarrow> position list) \<Rightarrow> position \<Rightarrow> position list" where
  "repeated 0 f p = [p]"
| "repeated (Suc n) f p =
     concat (map (\<lambda>q. if length (to_come q) < length (to_come p) then repeated n f q else []) (f p)) @ [p]"

primrec matches :: "regex \<Rightarrow> position \<Rightarrow> position list" where
  "matches Empty = (\<lambda>p. [p])"
| "matches (One f) = (\<lambda>(before, after, gs). case after of [] \<Rightarrow> []
     | c # cs \<Rightarrow> if f c then [(c # before, cs, gs)] else [])"
| "matches (Seq r s) = (\<lambda>p. concat (map (matches s) (matches r p)))"
| "matches (Alt r s) = (\<lambda>p. matches r p @ matches s p)"
| "matches (Many r) = (\<lambda>p. repeated (length (to_come p)) (matches r) p)"
| "matches (Group n r) = (\<lambda>p. map (close_group n p) (matches r p))"
| "matches WordEnd = (\<lambda>(before, after, gs). if word_end before after then [(before, after, gs)] else [])"

text \<open>Evaluation of the character classes, on the bits.\<close>

lemma is_space_code [code]:
  "is_space c \<longleftrightarrow> List.member [CHR 0x09, CHR 0x0A, CHR 0x0B, CHR 0x0C, CHR 0x0D, CHR 0x1C, CHR 0x1D,
     CHR 0x1E, CHR 0x1F, CHR 0x20, CHR 0x85, CHR 0xA0] c"
  by (cases c) (simp add: is_space_def Let_def)

lemma lower_char_code [code]:
  "lower_char (Char b0 b1 b2 b3 b4 b5 b6 b7) =
     (if b6 \<and> \<not> b5 \<and> (if b7 then \<not> (b4 \<and> b2 \<and> b1 \<and> b0 \<and> (b3 \<or> \<not> b3)) 
           else (b4 \<or> b3 \<or> b2 \<or> b1 \<or> b0) \<and> \<not> (b4 \<and> b3 \<and> (b2 \<or> b1 \<and> b0)))
      then Char b0 b1 b2 b3 b4 True b6 b7 else Char b0 b1 b2 b3 b4 b5 b6 b7)"
  by (cases b0; cases b1; cases b2; cases b3; cases b4; cases b5; cases b6; cases b7; simp add: lower_char_def Let_def; simp add: char_of_def bit_0)
subsection \<open>Writing patterns\<close>

definition Some_of :: "regex \<Rightarrow> regex" where
  "Some_of r = Seq r (Many r)"

definition Maybe :: "regex \<Rightarrow> regex" where
  "Maybe r = Alt r Empty"

fun seq :: "regex list \<Rightarrow> regex" where
  "seq [] = Empty"
| "seq [r] = r"
| "seq (r # s # rs) = Seq r (seq (s # rs))"

fun alt :: "regex list \<Rightarrow> regex" where
  "alt [] = Empty"
| "alt [r] = r"
| "alt (r # s # rs) = Alt r (alt (s # rs))"

definition Lit :: "string \<Rightarrow> regex" where
  "Lit s = seq (map (\<lambda>c. One (\<lambda>d. d = c)) s)"

text \<open>Under \<open>re.IGNORECASE\<close>.\<close>

definition Lit_i :: "string \<Rightarrow> regex" where
  "Lit_i s = seq (map (\<lambda>c. One (\<lambda>d. lower_char d = lower_char c)) s)"

definition Space :: regex where
  "Space = Many (One is_space)"

definition Not_in :: "string \<Rightarrow> regex" where
  "Not_in cs = One (\<lambda>c. c \<notin> set cs)"

subsection \<open>match and finditer\<close>

definition re_match :: "regex \<Rightarrow> string \<Rightarrow> (nat \<times> string) list option" where
  "re_match r s = (case matches r ([], s, []) of [] \<Rightarrow> None | p # _ \<Rightarrow> Some (groups p))"

definition group_of :: "(nat \<times> string) list \<Rightarrow> nat \<Rightarrow> string" where
  "group_of gs n = (case map_of gs n of Some s \<Rightarrow> s | None \<Rightarrow> [])"

text \<open>The matches of a pattern that never matches the empty text, from left to right; \<open>n\<close> bounds
  the characters to come.\<close>

fun scan :: "nat \<Rightarrow> regex \<Rightarrow> string \<Rightarrow> string \<Rightarrow> (nat \<times> string) list list" where
  "scan 0 r before after = []"
| "scan (Suc n) r before [] = []"
| "scan (Suc n) r before (c # cs) =
     (case matches r (before, c # cs, []) of
        p # _ \<Rightarrow> if length (to_come p) < length (c # cs) then groups p # scan n r (fst p) (to_come p)
                else scan n r (c # before) cs
      | [] \<Rightarrow> scan n r (c # before) cs)"

definition re_finditer :: "regex \<Rightarrow> string \<Rightarrow> (nat \<times> string) list list" where
  "re_finditer r s = scan (length s) r [] s"

subsection \<open>Where a match can be\<close>

text \<open>A match reads a part of the text: what was read and what is to come stay the same text.\<close>

definition whole :: "position \<Rightarrow> string" where
  "whole p = rev (fst p) @ to_come p"

lemma whole_repeated:
  assumes "\<And>p q. q \<in> set (f p) \<Longrightarrow> whole q = whole p" and "q \<in> set (repeated n f p)"
  shows "whole q = whole p"
  using assms(2)
proof (induction n arbitrary: p)
  case (Suc n)
  from Suc.prems consider "q = p" | m where "m \<in> set (f p)" "q \<in> set (repeated n f m)"
    by (auto split: if_splits)
  then show ?case
  proof cases
    case 2
    with Suc.IH assms(1) show ?thesis by metis
  qed simp
qed simp

lemma whole_close_group [simp]: "whole (close_group n p q) = whole q"
  by (simp add: whole_def close_group_def to_come_def)

lemma matches_whole: "q \<in> set (matches r p) \<Longrightarrow> whole q = whole p"
proof (induction r arbitrary: p q)
  case (Many r)
  then show ?case using whole_repeated [of "matches r" q] by simp
next
  case (Seq r s)
  then obtain m where "m \<in> set (matches r p)" "q \<in> set (matches s m)" by auto
  with Seq.IH show ?case by metis
next
  case (Group n r)
  then obtain m where "m \<in> set (matches r p)" "q = close_group n p m" by auto
  with Group.IH show ?case by simp
next
  case (One f)
  then show ?case by (cases p) (auto simp: whole_def to_come_def split: list.splits if_splits)
next
  case WordEnd
  then show ?case by (cases p) (auto split: if_splits)
qed auto

end
