(* ===== verification/Mermaid_Render.thy ===== *)
theory Mermaid_Render
  imports Domain_Dicts Py_Regex "HOL-Library.Product_Lexorder"
begin

section \<open>Diagrams of plans\<close>

text \<open>
  \<open>mermaid/render.py\<close>: the identifier of the node of a plan, the flowchart drawn from the plans of
  an objective, and the check of a proposed flowchart against the plans. Both directions are pure
  functions of the plans; a plan whose dictionary cannot be read raises.
\<close>

subsection \<open>Nodes, labels and dependencies\<close>

text \<open>\<open>P_\<close> and the first twelve characters of the identifier behind its first underscore.\<close>

definition after_underscore :: "string \<Rightarrow> string" where
  "after_underscore i = (if CHR ''_'' \<in> set i then tl (dropWhile (\<lambda>c. c \<noteq> CHR ''_'') i) else i)"

definition canonical_node_id :: "Plan \<Rightarrow> string" where
  "canonical_node_id plan = ''P_'' @ take 12 (after_underscore (plan_id plan))"


text \<open>\<open>str.replace\<close> of one character.\<close>

definition replace_char :: "char \<Rightarrow> string \<Rightarrow> string \<Rightarrow> string" where
  "replace_char c by s = concat (map (\<lambda>d. if d = c then by else [d]) s)"

definition mermaid_escape_label :: "string \<Rightarrow> string" where
  "mermaid_escape_label label =
     py_strip (replace_char (CHR 0x0A) ''<br/>'' (replace_char (CHR 0x22) [CHR 0x27] label))"

definition label_candidate :: "pyval \<Rightarrow> string option" where
  "label_candidate v = (case v of PStr s \<Rightarrow> if py_strip s \<noteq> [] then Some (py_strip s) else None | _ \<Rightarrow> None)"

definition plan_label :: "Plan \<Rightarrow> exn + string" where
  "plan_label plan =
     rbind (plan_slice_typed plan) (\<lambda>sl.
     Inr (if ps_label sl \<noteq> [] then ps_label sl
          else case label_candidate (dict_get (plan_slice plan) ''title'') of
            Some s \<Rightarrow> s
          | None \<Rightarrow> (case label_candidate (dict_get (plan_slice plan) ''task_title'') of
              Some s \<Rightarrow> s
            | None \<Rightarrow> plan_id plan)))"

definition plan_dependencies :: "Plan \<Rightarrow> exn + string list" where
  "plan_dependencies plan =
     rbind (plan_slice_typed plan) (\<lambda>sl.
     Inr (concat (map (\<lambda>d. case d of PStr s \<Rightarrow> if py_strip s \<noteq> [] then [py_strip s] else [] | _ \<Rightarrow> [])
            (ps_dependencies sl))))"

subsection \<open>Drawing the plans\<close>

definition node_line :: "string \<Rightarrow> string \<Rightarrow> string" where
  "node_line i label = ''    '' @ i @ ''['' @ [CHR 0x22] @ label @ [CHR 0x22] @ '']''"

definition edge_line :: "string \<times> string \<Rightarrow> string" where
  "edge_line e = ''    '' @ fst e @ '' --> '' @ snd e"

definition objective_line :: "Objective \<Rightarrow> string" where
  "objective_line objective = node_line ''O'' (mermaid_escape_label (''Objective: '' @ objective_title objective))"

definition sorted_plans :: "Plan list \<Rightarrow> Plan list" where
  "sorted_plans plans = order_by plan_created_at (order_by plan_id plans)"

text \<open>Two dictionaries of plans, by node and by identifier; the last plan of a key stays.\<close>

definition last_plan :: "(Plan \<Rightarrow> string) \<Rightarrow> Plan list \<Rightarrow> string \<Rightarrow> Plan option" where
  "last_plan key plans k = List.find (\<lambda>p. key p = k) (rev plans)"

definition resolve_ref :: "Plan list \<Rightarrow> string \<Rightarrow> string option" where
  "resolve_ref plans dep_ref =
     (if starts_with ''P_'' dep_ref \<and> last_plan canonical_node_id plans dep_ref \<noteq> None then Some dep_ref
      else map_option canonical_node_id (last_plan plan_id plans dep_ref))"

definition edges_of :: "Plan list \<Rightarrow> Plan \<Rightarrow> exn + (string \<times> string) list" where
  "edges_of plans plan =
     rbind (plan_dependencies plan) (\<lambda>deps.
     Inr (map (\<lambda>src. (src, canonical_node_id plan)) (List.map_filter (resolve_ref plans) deps)))"

definition root_edges :: "Plan list \<Rightarrow> (string \<times> string) list \<Rightarrow> (string \<times> string) list" where
  "root_edges plans edges =
     map (\<lambda>p. (''O'', canonical_node_id p)) (filter (\<lambda>p. canonical_node_id p \<notin> snd ` set edges) plans)"

definition plan_node :: "Plan \<Rightarrow> exn + string" where
  "plan_node plan =
     rbind (plan_label plan) (\<lambda>label. Inr (node_line (canonical_node_id plan) (mermaid_escape_label label)))"

definition NL :: string where
  "NL = [CHR 0x0A]"

definition render_mermaid_from_plans :: "Plan list \<Rightarrow> Objective \<Rightarrow> exn + string" where
  "render_mermaid_from_plans plans objective =
     (let plan_list = filter (\<lambda>p. plan_approval_status p \<noteq> ''rejected'') plans;
          head = [''flowchart TD'', objective_line objective]
      in if plan_list = []
         then Inr (join NL (head @ [''    O --> AWAITING['' @ [CHR 0x22] @ ''awaiting decomposition'' @ [CHR 0x22] @ '']'']))
         else
           let plan_list = sorted_plans plan_list in
           rbind (map_result plan_node plan_list) (\<lambda>nodes.
           rbind (map_result (edges_of plan_list) plan_list) (\<lambda>edges.
           Inr (join NL (head @ nodes @ map edge_line (root_edges plan_list (concat edges))
                         @ map edge_line (sort (concat edges)))))))"


subsection \<open>Reading a flowchart\<close>

definition line_break :: "char \<Rightarrow> bool" where
  "line_break c = (let n = (of_char c :: nat) in (10 \<le> n \<and> n \<le> 13) \<or> (28 \<le> n \<and> n \<le> 30) \<or> n = 133)"

text \<open>\<open>str.splitlines\<close>; the flag says whether a line feed would belong to the break before it.\<close>

fun split_lines :: "bool \<Rightarrow> string \<Rightarrow> string \<Rightarrow> string list" where
  "split_lines after_cr acc [] = (if acc = [] then [] else [rev acc])"
| "split_lines after_cr acc (c # cs) =
     (if after_cr \<and> c = CHR 0x0A then split_lines False acc cs
      else if line_break c then rev acc # split_lines (c = CHR 0x0D) [] cs
      else split_lines False (c # acc) cs)"

definition fence_stripped :: "string list \<Rightarrow> string list" where
  "fence_stripped lines =
     (if lines \<noteq> [] \<and> starts_with ''```'' (hd lines)
      then (if tl lines \<noteq> [] \<and> starts_with ''```'' (last (tl lines)) then butlast (tl lines) else tl lines)
      else lines)"

definition Ident :: regex where
  "Ident = Seq (One (\<lambda>c. c \<in> set ''ABCDEFGHIJKLMNOPQRSTUVWXYZabcdefghijklmnopqrstuvwxyz_''))
     (Many (One (\<lambda>c. c \<in> set ''ABCDEFGHIJKLMNOPQRSTUVWXYZabcdefghijklmnopqrstuvwxyz0123456789_'')))"

definition NODE_DECL_RE :: regex where
  "NODE_DECL_RE = seq [Space, Group 1 Ident, Space, alt
     [seq [Lit [CHR ''['', CHR 0x22], Group 2 (Many (Not_in [CHR 0x22])), Lit [CHR 0x22, CHR '']'']],
      seq [Lit ''['', Group 3 (Many (Not_in '']'')), Lit '']''],
      seq [Lit ''('', Group 4 (Many (Not_in '')'')), Lit '')''],
      seq [Lit [CHR 0x7B], Group 5 (Many (Not_in [CHR 0x7D])), Lit [CHR 0x7D]]]]"

definition HEADER_RE :: regex where
  "HEADER_RE = seq [Space, Group 1 (alt [Lit_i ''flowchart'', Lit_i ''graph'']), Some_of (One is_space),
     Group 2 (alt (map Lit_i [''TD'', ''TB'', ''BT'', ''LR'', ''RL''])), WordEnd]"

definition NONFLOW_RE :: regex where
  "NONFLOW_RE = seq [Space, Group 1 (alt (map Lit_i [''stateDiagram'', ''sequenceDiagram'', ''classDiagram'',
     ''erDiagram'', ''gantt'', ''pie'', ''journey'']))]"

definition EDGE_RE :: regex where
  "EDGE_RE = seq [Group 1 Ident, Space, alt
     [seq [Lit ''-'', Some_of (Lit ''-''), Lit ''>''],
      seq [Lit ''='', Some_of (Lit ''=''), Lit ''>''],
      seq [Lit ''-.-'', Maybe (Lit ''>'')],
      seq [Lit ''~~~'', Maybe (Lit ''>'')]],
     Space, Maybe (seq [Lit ''|'', Many (Not_in ''|''), Lit ''|'', Space]), Group 2 Ident]"

definition upper_char :: "char \<Rightarrow> char" where
  "upper_char c = (let n = (of_char c :: nat) in if 97 \<le> n \<and> n \<le> 122 then char_of (n - 32) else c)"

definition node_label :: "(nat \<times> string) list \<Rightarrow> string" where
  "node_label gs = (case List.map_filter (map_of gs) [2, 3, 4, 5] of l # _ \<Rightarrow> l | [] \<Rightarrow> [])"

record flowchart =
  fc_saw_header :: bool
  fc_direction :: string
  fc_nodes :: "(string \<times> string) list"
  fc_edges :: "(string \<times> string) list"
  fc_errors :: "string list"

definition declare_node :: "string \<Rightarrow> flowchart \<Rightarrow> flowchart" where
  "declare_node line fc =
     (case re_match NODE_DECL_RE line of
        None \<Rightarrow> fc
      | Some gs \<Rightarrow>
          let node_id = group_of gs 1 in
          if map_of (fc_nodes fc) node_id \<noteq> None
          then fc\<lparr>fc_errors := fc_errors fc @ [''duplicate node declaration: '' @ node_id]\<rparr>
          else fc\<lparr>fc_nodes := fc_nodes fc @ [(node_id, py_strip (node_label gs))]\<rparr>)"

definition add_edges :: "string \<Rightarrow> flowchart \<Rightarrow> flowchart" where
  "add_edges line fc =
     fc\<lparr>fc_edges := fc_edges fc @ filter (\<lambda>(src, dst). src \<noteq> [] \<and> dst \<noteq> [])
          (map (\<lambda>gs. (group_of gs 1, group_of gs 2)) (re_finditer EDGE_RE line))\<rparr>"

definition skipped_line :: "string \<Rightarrow> bool" where
  "skipped_line line \<longleftrightarrow> starts_with ''subgraph'' line \<or> line = ''end''
     \<or> list_ex (\<lambda>p. starts_with p line) [''classDef'', ''class '', ''style '', ''linkStyle'', ''click '']"

text \<open>The flag is the early return at a diagram of another type, which skips the check of the header.\<close>

fun read_lines :: "string list \<Rightarrow> flowchart \<Rightarrow> flowchart \<times> bool" where
  "read_lines [] fc = (fc, False)"
| "read_lines (raw # lines) fc =
     (let line = py_strip raw in
      if line = [] \<or> starts_with ''%%'' line then read_lines lines fc
      else if re_match NONFLOW_RE line \<noteq> None
      then (fc\<lparr>fc_errors := fc_errors fc @ [''non-flowchart diagram type: ''
              @ takeWhile (\<lambda>c. \<not> is_space c) line @ ''; only flowchart is supported'']\<rparr>, True)
      else case re_match HEADER_RE line of
        Some gs \<Rightarrow> read_lines lines (fc\<lparr>fc_saw_header := True, fc_direction := map upper_char (group_of gs 2)\<rparr>)
      | None \<Rightarrow>
          if skipped_line line then read_lines lines fc
          else read_lines lines (add_edges line (declare_node line fc)))"

definition parse_mermaid :: "string \<Rightarrow> flowchart" where
  "parse_mermaid diagram =
     (case read_lines (fence_stripped (split_lines False [] (py_strip diagram)))
        \<lparr>fc_saw_header = False, fc_direction = ''TD'', fc_nodes = [], fc_edges = [], fc_errors = []\<rparr> of
        (fc, True) \<Rightarrow> fc
      | (fc, False) \<Rightarrow>
          if fc_saw_header fc then fc
          else fc\<lparr>fc_errors := fc_errors fc @ [''missing flowchart header'']\<rparr>)"

subsection \<open>Similarity of labels\<close>

text \<open>\<open>re.sub\<close> of runs of white space by a blank.\<close>

fun squeeze :: "string \<Rightarrow> string" where
  "squeeze [] = []"
| "squeeze [c] = (if is_space c then '' '' else [c])"
| "squeeze (c # d # cs) =
     (if is_space c then (if is_space d then squeeze (d # cs) else CHR '' '' # squeeze (d # cs))
      else c # squeeze (d # cs))"

definition ngrams :: "string \<Rightarrow> string set" where
  "ngrams label =
     (let norm = squeeze (py_strip (py_lower label)) in
      if length norm < 3 then (if norm \<noteq> [] then {norm} else {})
      else set (map (\<lambda>i. take 3 (drop i norm)) [0..<length norm - 2]))"

definition label_similarity :: "string \<Rightarrow> string \<Rightarrow> rat" where
  "label_similarity a b =
     (let ga = ngrams a; gb = ngrams b in
      if ga = {} \<and> gb = {} then 1
      else if ga = {} \<or> gb = {} then 0
      else of_nat (card (ga \<inter> gb)) / of_nat (card (ga \<union> gb)))"

lemma label_similarity_bounds: "0 \<le> label_similarity a b \<and> label_similarity a b \<le> 1"
proof -
  have "finite (ngrams a)" "finite (ngrams b)" by (simp_all add: ngrams_def Let_def)
  then have "card (ngrams a \<inter> ngrams b) \<le> card (ngrams a \<union> ngrams b)"
    by (intro card_mono) auto
  then show ?thesis
    by (auto simp: label_similarity_def Let_def divide_le_eq)
qed


subsection \<open>Checking a proposed flowchart\<close>

record PlanOp =
  po_kind :: string
  po_plan_id :: "string option"
  po_proposed_label :: string
  po_proposed_dependencies :: "string list"

record CanonicalizeResult =
  cr_accepted :: bool
  cr_canonical_text :: "string option"
  cr_rejection_reasons :: "string list"
  cr_plan_operations :: "PlanOp list"
  cr_mapping :: "(string \<times> string) list"
  cr_unmapped_proposed :: "string list"
  cr_unmapped_plans :: "string list"

definition CanonicalizeResult_default :: CanonicalizeResult where
  "CanonicalizeResult_default =
     \<lparr>cr_accepted = False, cr_canonical_text = None, cr_rejection_reasons = [], cr_plan_operations = [],
      cr_mapping = [], cr_unmapped_proposed = [], cr_unmapped_plans = []\<rparr>"

definition broken_edges :: "flowchart \<Rightarrow> string list" where
  "broken_edges fc = concat (map (\<lambda>(src, dst).
     (if map_of (fc_nodes fc) src = None then [''edge references undeclared node: '' @ src] else [])
     @ (if map_of (fc_nodes fc) dst = None then [''edge references undeclared node: '' @ dst] else []))
     (fc_edges fc))"

definition nodes_to_match :: "flowchart \<Rightarrow> (string \<times> string) list" where
  "nodes_to_match fc = filter (\<lambda>(_, lbl). lbl \<noteq> ''awaiting decomposition'')
     (filter (\<lambda>(nid, _). nid \<noteq> ''O'') (fc_nodes fc))"

text \<open>First by identifier.\<close>

definition match_by_id :: "Plan list \<Rightarrow> (string \<times> string) list \<Rightarrow> (string \<times> string) list" where
  "match_by_id plans nodes = List.map_filter (\<lambda>(pid, _).
     map_option (\<lambda>p. (pid, plan_id p)) (last_plan canonical_node_id plans pid)) nodes"

text \<open>Then by label, the most similar pairs first.\<close>

definition similar_to :: "rat \<Rightarrow> string \<Rightarrow> Plan \<Rightarrow> exn + rat option" where
  "similar_to threshold plabel plan =
     rbind (plan_label plan) (\<lambda>l.
     let sim = label_similarity plabel l in Inr (if threshold \<le> sim then Some sim else None))"

definition similar_pairs :: "rat \<Rightarrow> (string \<times> string) list \<Rightarrow> Plan list \<Rightarrow> exn + (rat \<times> string \<times> string) list" where
  "similar_pairs threshold nodes plans =
     rbind (map_result (\<lambda>(pid, plabel).
        rbind (map_result (similar_to threshold plabel) plans) (\<lambda>sims.
        Inr (List.map_filter (\<lambda>(plan, sim). map_option (\<lambda>x. (- x, pid, plan_id plan)) sim) (zip plans sims)))) nodes)
       (\<lambda>rows. Inr (sort (concat rows)))"

fun assign_greedily ::
  "(rat \<times> string \<times> string) list \<Rightarrow> (string \<times> string) list \<Rightarrow> string set \<Rightarrow> (string \<times> string) list" where
  "assign_greedily [] chosen bound = chosen"
| "assign_greedily ((_, pid, plan) # pairs) chosen bound =
     (if pid \<in> fst ` set chosen \<or> plan \<in> bound then assign_greedily pairs chosen bound
      else assign_greedily pairs (chosen @ [(pid, plan)]) (insert plan bound))"

definition ambiguity :: "rat \<Rightarrow> Plan list \<Rightarrow> string \<times> string \<Rightarrow> exn + string list" where
  "ambiguity threshold plans node =
     (case node of (pid, plabel) \<Rightarrow>
        rbind (map_result (similar_to threshold plabel) plans) (\<lambda>sims.
        let qualifying = List.map_filter (\<lambda>(plan, sim). map_option (\<lambda>_. PStr (plan_id plan)) sim) (zip plans sims) in
        Inr (if 1 < length qualifying
             then [''ambiguous mapping: proposed node '' @ repr_str pid @ '' (label='' @ repr_str plabel
                   @ '') matches multiple plans: '' @ py_repr (PList qualifying)]
             else [])))"

definition dropped_reason :: "Plan list \<Rightarrow> string \<Rightarrow> exn + string" where
  "dropped_reason plans i =
     (case last_plan plan_id plans i of
        None \<Rightarrow> Inl (KeyError i)
      | Some plan \<Rightarrow> rbind (plan_label plan) (\<lambda>l.
          Inr (''dropped plan: '' @ i @ '' ('' @ repr_str l @ '') has no node in the proposal'')))"

definition orphan_reason :: "string \<times> string \<Rightarrow> string" where
  "orphan_reason node = ''orphan proposed node: '' @ repr_str (fst node) @ '' (label='' @ repr_str (snd node)
     @ '') has no matching plan''"

definition canonical_end :: "Plan list \<Rightarrow> (string \<times> string) list \<Rightarrow> string \<Rightarrow> exn + string option" where
  "canonical_end plans matching i =
     (case map_of matching i of
        None \<Rightarrow> Inr None
      | Some p \<Rightarrow> (case last_plan plan_id plans p of
          None \<Rightarrow> Inl (KeyError p)
        | Some plan \<Rightarrow> Inr (Some (canonical_node_id plan))))"

definition canonical_edge ::
  "bool \<Rightarrow> Plan list \<Rightarrow> (string \<times> string) list \<Rightarrow> string \<times> string \<Rightarrow> exn + (string \<times> string) list" where
  "canonical_edge with_objective plans matching e =
     (case e of (src, dst) \<Rightarrow>
        rbind (if with_objective \<and> src = ''O'' then Inr (Some ''O'') else canonical_end plans matching src) (\<lambda>s.
        rbind (if with_objective \<and> dst = ''O'' then Inr (Some ''O'') else canonical_end plans matching dst) (\<lambda>d.
        Inr (case (s, d) of (Some s, Some d) \<Rightarrow> if s \<noteq> [] \<and> d \<noteq> [] then [(s, d)] else [] | _ \<Rightarrow> []))))"

text \<open>Every plan without an edge from another plan is attached to the objective.\<close>

fun attach_roots :: "string set \<Rightarrow> Plan list \<Rightarrow> (string \<times> string) list \<Rightarrow> (string \<times> string) list" where
  "attach_roots dependents [] edges = edges"
| "attach_roots dependents (plan # plans) edges =
     (let nid = canonical_node_id plan in
      attach_roots dependents plans
        (if nid \<notin> dependents \<and> (''O'', nid) \<notin> set edges then edges @ [(''O'', nid)] else edges))"

definition emit_canonical ::
  "Plan list \<Rightarrow> Objective \<Rightarrow> (string \<times> string) list \<Rightarrow> (string \<times> string) list \<Rightarrow> string \<Rightarrow> exn + string" where
  "emit_canonical plans objective edges matching direction =
     rbind (map_result plan_node (sorted_plans plans)) (\<lambda>nodes.
     rbind (map_result (canonical_edge True plans matching) edges) (\<lambda>rows.
     let canonical = concat rows;
         dependents = snd ` set (filter (\<lambda>(s, _). s \<noteq> ''O'') canonical);
         all_edges = attach_roots dependents (sorted_plans plans) canonical
     in Inr (join NL ([''flowchart '' @ direction, objective_line objective] @ nodes
                      @ map edge_line (sort (remdups all_edges))))))"

definition emit_canonical_bare ::
  "Plan list \<Rightarrow> (string \<times> string) list \<Rightarrow> (string \<times> string) list \<Rightarrow> string \<Rightarrow> exn + string" where
  "emit_canonical_bare plans edges matching direction =
     rbind (map_result plan_node (sorted_plans plans)) (\<lambda>nodes.
     rbind (map_result (canonical_edge False plans matching) edges) (\<lambda>rows.
     Inr (join NL ([''flowchart '' @ direction] @ nodes @ map edge_line (concat rows)))))"


text \<open>The three phases: the pairs by identifier, all pairs, and the ambiguous leftovers.\<close>

definition match_plans ::
  "rat \<Rightarrow> Plan list \<Rightarrow> (string \<times> string) list \<Rightarrow> exn + (string \<times> string) list \<times> string list" where
  "match_plans threshold plans nodes =
     (let by_id = match_by_id plans nodes;
          bound = snd ` set by_id;
          remaining = filter (\<lambda>(pid, _). pid \<notin> fst ` set by_id) nodes
      in
      rbind (similar_pairs threshold remaining (filter (\<lambda>p. plan_id p \<notin> bound) plans)) (\<lambda>pairs.
      let by_label = assign_greedily pairs [] bound in
      rbind (map_result (ambiguity threshold plans)
               (filter (\<lambda>(pid, _). pid \<notin> fst ` set by_label) remaining)) (\<lambda>reasons.
      Inr (by_id @ by_label, concat reasons))))"

definition canonicalize_mermaid ::
  "string \<Rightarrow> Plan list \<Rightarrow> Objective option \<Rightarrow> bool \<Rightarrow> rat \<Rightarrow> exn + CanonicalizeResult" where
  "canonicalize_mermaid proposed_text plans objective allow_plan_adds threshold =
     (let fc = parse_mermaid proposed_text;
          reasons = fc_errors fc @ broken_edges fc
      in if reasons \<noteq> [] then Inr (CanonicalizeResult_default\<lparr>cr_rejection_reasons := reasons\<rparr>)
      else
        let nodes = nodes_to_match fc in
        rbind (match_plans threshold plans nodes) (\<lambda>(matching, ambiguous).
        let unmapped = filter (\<lambda>(pid, _). pid \<notin> fst ` set matching) nodes;
            dropped = filter (\<lambda>i. i \<notin> snd ` set matching) (map plan_id plans);
            result = CanonicalizeResult_default\<lparr>cr_mapping := matching,
              cr_unmapped_proposed := map fst unmapped, cr_unmapped_plans := dropped\<rparr>
        in
        rbind (map_result (dropped_reason plans) dropped) (\<lambda>drops.
        let reasons = ambiguous @ drops @ (if allow_plan_adds then [] else map orphan_reason unmapped) in
        if reasons \<noteq> [] then Inr (result\<lparr>cr_rejection_reasons := reasons\<rparr>)
        else if allow_plan_adds \<and> unmapped \<noteq> []
        then Inr (result\<lparr>cr_plan_operations := map (\<lambda>(_, lbl).
          \<lparr>po_kind = ''add'', po_plan_id = None, po_proposed_label = lbl, po_proposed_dependencies = []\<rparr>) unmapped\<rparr>)
        else
          rbind (case objective of
              Some ob \<Rightarrow> emit_canonical plans ob (fc_edges fc) matching (fc_direction fc)
            | None \<Rightarrow> emit_canonical_bare plans (fc_edges fc) matching (fc_direction fc)) (\<lambda>canonical.
          Inr (result\<lparr>cr_accepted := True, cr_canonical_text := Some canonical\<rparr>)))))"

subsection \<open>An accepted proposal shows every plan once\<close>

lemma last_plan_Some: "last_plan key plans k = Some p \<Longrightarrow> p \<in> set plans \<and> key p = k"
proof -
  assume "last_plan key plans k = Some p"
  then have "p \<in> set (rev plans)" "key p = k"
    unfolding last_plan_def by (auto simp: find_Some_iff simp del: set_rev)
  then show ?thesis by simp
qed

lemma last_plan_None: "last_plan key plans k = None \<longleftrightarrow> k \<notin> key ` set plans"
  by (auto simp: last_plan_def find_None_iff)

lemma match_by_id_mem:
  "(pid, i) \<in> set (match_by_id plans nodes) \<Longrightarrow>
     pid \<in> fst ` set nodes \<and> (\<exists>p\<in>set plans. i = plan_id p \<and> pid = canonical_node_id p)"
  by (induction nodes) (auto simp: match_by_id_def split: option.splits dest!: last_plan_Some)

lemma match_by_id_props:
  assumes "distinct (map fst nodes)"
  shows "distinct (map fst (match_by_id plans nodes))" and "distinct (map snd (match_by_id plans nodes))"
proof -
  show fsts: "distinct (map fst (match_by_id plans nodes))"
    using assms
  proof (induction nodes)
    case (Cons n nodes)
    have "fst ` set (match_by_id plans nodes) \<subseteq> fst ` set nodes"
      using match_by_id_mem by fastforce
    with Cons show ?case by (cases n) (auto simp: match_by_id_def List.map_filter_simps split: option.split)
  qed (simp add: match_by_id_def List.map_filter_simps)
  have "inj_on snd (set (match_by_id plans nodes))"
    by (rule inj_onI) (auto dest!: match_by_id_mem simp: canonical_node_id_def)
  then show "distinct (map snd (match_by_id plans nodes))"
    using fsts by (auto simp: distinct_map)
qed

lemma assign_greedily_props:
  assumes "distinct (map fst chosen)" and "distinct (map snd chosen)" and "snd ` set chosen \<subseteq> bound"
  shows "distinct (map fst (assign_greedily pairs chosen bound))
    \<and> distinct (map snd (assign_greedily pairs chosen bound))
    \<and> snd ` set (assign_greedily pairs chosen bound) \<inter> bound \<subseteq> snd ` set chosen
    \<and> set (assign_greedily pairs chosen bound) \<subseteq> set chosen \<union> snd ` set pairs"
  using assms
proof (induction pairs chosen bound rule: assign_greedily.induct)
  case (2 sim pid plan pairs chosen bound)
  show ?case
  proof (cases "pid \<in> fst ` set chosen \<or> plan \<in> bound")
    case True
    with 2 show ?thesis by auto
  next
    case False
    with 2(2) 2(3-5) show ?thesis by simp blast
  qed
qed simp


lemma similar_pairs_mem:
  assumes "similar_pairs threshold nodes plans = Inr pairs" and "(x, pid, i) \<in> set pairs"
  shows "pid \<in> fst ` set nodes \<and> i \<in> plan_id ` set plans"
proof -
  have row: "pid' = pid \<and> i \<in> plan_id ` set plans"
    if "(x, pid, i) \<in> set (List.map_filter (\<lambda>(plan, sim). map_option (\<lambda>x. (- x, pid', plan_id plan)) sim) (zip ps sims))"
      and "set ps \<subseteq> set plans" for pid' ps and sims :: "rat option list"
    using that
  proof (induction ps sims rule: list_induct2')
    case (4 p ps sim sims)
    then show ?case by (cases sim) auto
  qed simp_all
  from assms(1) obtain rows where rows: "map_result (\<lambda>(pid, plabel).
        rbind (map_result (similar_to threshold plabel) plans) (\<lambda>sims.
        Inr (List.map_filter (\<lambda>(plan, sim). map_option (\<lambda>x. (- x, pid, plan_id plan)) sim) (zip plans sims)))) nodes
      = Inr rows" "pairs = sort (concat rows)"
    by (auto simp: similar_pairs_def rbind_Inr_iff)
  have "\<exists>r\<in>set rows. (x, pid, i) \<in> set r" using assms(2) rows(2) by auto
  with rows(1) show ?thesis
  proof (induction nodes arbitrary: rows)
    case (Cons n nodes)
    obtain pid' plabel where n: "n = (pid', plabel)" by (cases n)
    with Cons.prems(1) obtain sims ys where ys: "map_result (\<lambda>(pid, plabel).
        rbind (map_result (similar_to threshold plabel) plans) (\<lambda>sims.
        Inr (List.map_filter (\<lambda>(plan, sim). map_option (\<lambda>x. (- x, pid, plan_id plan)) sim) (zip plans sims)))) nodes = Inr ys"
      and r: "rows = List.map_filter (\<lambda>(plan, sim). map_option (\<lambda>x. (- x, pid', plan_id plan)) sim) (zip plans sims) # ys"
      by (auto simp: rbind_Inr_iff)
    from Cons.prems(2) r consider "\<exists>r\<in>set ys. (x, pid, i) \<in> set r"
      | "(x, pid, i) \<in> set (List.map_filter (\<lambda>(plan, sim). map_option (\<lambda>x. (- x, pid', plan_id plan)) sim) (zip plans sims))"
      by auto
    then show ?case
    proof cases
      case 1
      with Cons.IH [OF ys] show ?thesis by auto
    next
      case 2
      have "pid' = pid \<and> i \<in> plan_id ` set plans" by (rule row) (use 2 in auto)
      then show ?thesis by (simp add: n)
    qed
  qed simp
qed

lemma read_lines_distinct:
  "distinct (map fst (fc_nodes fc)) \<Longrightarrow> distinct (map fst (fc_nodes (fst (read_lines lines fc))))"
proof (induction lines fc rule: read_lines.induct)
  case (2 raw lines fc)
  have step: "distinct (map fst (fc_nodes (add_edges l (declare_node l fc))))" for l
    using "2.prems" by (auto simp: add_edges_def declare_node_def Let_def map_of_eq_None_iff split: option.split)
  show ?case
    using 2 step by (simp add: Let_def split: option.split)
qed simp

lemma parse_mermaid_distinct: "distinct (map fst (fc_nodes (parse_mermaid diagram)))"
  using read_lines_distinct [of "\<lparr>fc_saw_header = False, fc_direction = ''TD'', fc_nodes = [], fc_edges = [], fc_errors = []\<rparr>"
      "fence_stripped (split_lines False [] (py_strip diagram))"]
  by (auto simp: parse_mermaid_def split: prod.split bool.split)

lemma map_result_length: "map_result f xs = Inr ys \<Longrightarrow> length ys = length xs"
  by (induction xs arbitrary: ys) (auto simp: rbind_Inr_iff)

lemma append_matching:
  assumes "distinct (map fst a) \<and> distinct (map snd a) \<and> fst ` set a \<subseteq> N \<and> snd ` set a \<subseteq> P"
    and "distinct (map fst b) \<and> distinct (map snd b) \<and> fst ` set b \<subseteq> M \<and> snd ` set b \<subseteq> P"
    and "M \<subseteq> N" and "M \<inter> fst ` set a = {}" and "snd ` set b \<inter> snd ` set a = {}"
  shows "distinct (map fst (a @ b)) \<and> distinct (map snd (a @ b)) \<and> fst ` set (a @ b) \<subseteq> N \<and> snd ` set (a @ b) \<subseteq> P"
proof -
  have "fst ` set b \<subseteq> M" using assms(2) by simp
  then have "fst ` set a \<inter> fst ` set b = {}" "fst ` set b \<subseteq> N" using assms(3,4) by blast+
  with assms show ?thesis by (simp add: image_Un Int_commute)
qed

lemma match_plans_props:
  assumes "match_plans threshold plans nodes = Inr (matching, reasons)" and "distinct (map fst nodes)"
  shows "distinct (map fst matching) \<and> distinct (map snd matching)
    \<and> fst ` set matching \<subseteq> fst ` set nodes \<and> snd ` set matching \<subseteq> plan_id ` set plans"
proof -
  let ?by_id = "match_by_id plans nodes"
  let ?remaining = "filter (\<lambda>(pid, _). pid \<notin> fst ` set ?by_id) nodes"
  from assms(1) obtain pairs where pairs: "similar_pairs threshold ?remaining
      (filter (\<lambda>p. plan_id p \<notin> snd ` set ?by_id) plans) = Inr pairs"
    and m: "matching = ?by_id @ assign_greedily pairs [] (snd ` set ?by_id)"
    by (auto simp: match_plans_def Let_def rbind_Inr_iff)
  let ?by_label = "assign_greedily pairs [] (snd ` set ?by_id)"
  have g: "distinct (map fst ?by_label)" "distinct (map snd ?by_label)"
    "snd ` set ?by_label \<inter> snd ` set ?by_id = {}" "set ?by_label \<subseteq> snd ` set pairs"
    using assign_greedily_props [of "[]" "snd ` set ?by_id" pairs] by auto
  have lab: "pid \<in> fst ` set ?remaining \<and> i \<in> plan_id ` set plans" if "(pid, i) \<in> set ?by_label" for pid i
  proof -
    from that g(4) have "(pid, i) \<in> snd ` set pairs" by blast
    then obtain e where "e \<in> set pairs" "snd e = (pid, i)" by (elim imageE) simp
    then have "(fst e, pid, i) \<in> set pairs" by (metis prod.collapse)
    note mem = similar_pairs_mem [OF pairs this]
    have "plan_id ` set (filter p plans) \<subseteq> plan_id ` set plans" for p by (rule image_mono) simp
    from subsetD [OF this conjunct2 [OF mem]] conjunct1 [OF mem] show ?thesis by (intro conjI)
  qed
  have "fst ` set ?by_label \<subseteq> fst ` set ?remaining" "snd ` set ?by_label \<subseteq> plan_id ` set plans"
    using lab by fastforce+
  moreover have "fst ` set ?by_id \<subseteq> fst ` set nodes" "snd ` set ?by_id \<subseteq> plan_id ` set plans"
    using match_by_id_mem by fastforce+
  moreover have "fst ` set ?remaining \<inter> fst ` set ?by_id = {}" "fst ` set ?remaining \<subseteq> fst ` set nodes"
    by (auto simp: rev_image_eqI)
  ultimately show ?thesis
    unfolding m using g(1-3) match_by_id_props [OF assms(2), of plans]
    by (intro append_matching [where M = "fst ` set ?remaining"] conjI) assumption+
qed

text \<open>C27. A proposed flowchart is accepted only if it shows every plan of the objective exactly
  once: its node declarations are distinct and all its edges run between declared nodes, and the
  mapping is a bijection between its nodes, without the objective and the placeholder, and
  the identifiers of the plans. A canonical text comes with every acceptance.\<close>

theorem accepted_shows_every_plan:
  assumes "canonicalize_mermaid diagram plans objective allow_plan_adds threshold = Inr r" and "cr_accepted r"
  shows "fc_errors (parse_mermaid diagram) = []
    \<and> distinct (map fst (fc_nodes (parse_mermaid diagram)))
    \<and> list_all (\<lambda>(src, dst). src \<in> fst ` set (fc_nodes (parse_mermaid diagram))
        \<and> dst \<in> fst ` set (fc_nodes (parse_mermaid diagram))) (fc_edges (parse_mermaid diagram))
    \<and> bij_betw (\<lambda>pid. the (map_of (cr_mapping r) pid))
        (fst ` set (nodes_to_match (parse_mermaid diagram))) (plan_id ` set plans)
    \<and> cr_canonical_text r \<noteq> None"
proof -
  let ?fc = "parse_mermaid diagram"
  let ?nodes = "nodes_to_match ?fc"
  have dist: "distinct (map fst (fc_nodes ?fc))" by (rule parse_mermaid_distinct)
  then have nodes: "distinct (map fst ?nodes)" by (simp add: nodes_to_match_def distinct_map_filter)
  have clean: "fc_errors ?fc = []" "broken_edges ?fc = []"
    using assms by (auto simp: canonicalize_mermaid_def Let_def CanonicalizeResult_default_def split: if_splits)
  from assms clean obtain matching reasons where
    m: "match_plans threshold plans ?nodes = Inr (matching, reasons)" and
    all: "filter (\<lambda>(pid, _). pid \<notin> fst ` set matching) ?nodes = []"
      "filter (\<lambda>i. i \<notin> snd ` set matching) (map plan_id plans) = []" and
    r: "cr_mapping r = matching" "cr_canonical_text r \<noteq> None"
  proof (cases "match_plans threshold plans ?nodes")
    case (Inr mr)
    obtain matching ambiguous where mr: "mr = (matching, ambiguous)" by (cases mr)
    obtain drops where drops: "map_result (dropped_reason plans)
        (filter (\<lambda>i. i \<notin> snd ` set matching) (map plan_id plans)) = Inr drops"
      using assms clean Inr mr
      by (cases "map_result (dropped_reason plans) (filter (\<lambda>i. i \<notin> snd ` set matching) (map plan_id plans))")
        (simp_all add: canonicalize_mermaid_def)
    show ?thesis
      using that [OF Inr [unfolded mr]] assms clean Inr mr drops map_result_length [OF drops]
      by (auto simp: canonicalize_mermaid_def Let_def CanonicalizeResult_default_def rbind_Inr_iff
          filter_map split: if_splits)
  qed (use assms clean in \<open>simp add: canonicalize_mermaid_def\<close>)
  note props = match_plans_props [OF m nodes]
  have fsts: "fst ` set matching = fst ` set ?nodes"
    using props all(1) by (auto simp: filter_empty_conv)
  have snds: "snd ` set matching = plan_id ` set plans"
    using props all(2) by (auto simp: filter_empty_conv)
  have the_of: "the (map_of matching (fst e)) = snd e" if "e \<in> set matching" for e
    using that props map_of_is_SomeI [of matching "fst e" "snd e"] by (simp only: prod.collapse option.sel)
  have "bij_betw (\<lambda>pid. the (map_of matching pid)) (fst ` set matching) (snd ` set matching)"
  proof (rule bij_betwI')
    fix x y
    assume "x \<in> fst ` set matching" "y \<in> fst ` set matching"
    then obtain a b where ab: "a \<in> set matching" "b \<in> set matching" "x = fst a" "y = fst b" by blast
    show "(the (map_of matching x) = the (map_of matching y)) = (x = y)"
      using ab props the_of by (metis distinct_map inj_onD)
  qed (use the_of in \<open>force+\<close>)
  moreover have "list_all (\<lambda>(src, dst). src \<in> fst ` set (fc_nodes ?fc) \<and> dst \<in> fst ` set (fc_nodes ?fc)) (fc_edges ?fc)"
    using clean(2) by (auto simp: broken_edges_def list_all_iff map_of_eq_None_iff split: if_splits)
  ultimately show ?thesis using clean dist r fsts snds by simp
qed


definition demo_plan :: "string \<Rightarrow> string \<Rightarrow> string list \<Rightarrow> Plan" where
  "demo_plan i label deps = \<lparr>plan_id = i, plan_objective_id = ''obj_1'', plan_mermaid_node_id = None,
     plan_parent_plan_id = None, plan_plan_revision = 1,
     plan_slice = [(''label'', PStr label), (''dependencies'', PList (map PStr deps))],
     plan_atomicity_assessment = [], plan_approval_status = ''approved'',
     plan_created_at = 0, plan_updated_at = 0\<rparr>"

definition demo_diagram :: string where
  "demo_diagram = join NL [''graph LR'', ''O[x] --> A'', ''A(add field)'']"


lemma accepted_shows_every_plan_witness:
  "\<exists>r. canonicalize_mermaid demo_diagram [demo_plan ''plan_1'' ''Add field'' []] None False (1 / 2) = Inr r
     \<and> bij_betw (\<lambda>pid. the (map_of (cr_mapping r) pid)) {''A''} {''plan_1''}"
proof -
  let ?plans = "[demo_plan ''plan_1'' ''Add field'' []]"
  have "case canonicalize_mermaid demo_diagram ?plans None False (1 / 2) of Inr r \<Rightarrow> cr_accepted r | Inl _ \<Rightarrow> False"
    by code_simp
  then obtain r where run: "canonicalize_mermaid demo_diagram ?plans None False (1 / 2) = Inr r" and acc: "cr_accepted r"
    by (cases "canonicalize_mermaid demo_diagram ?plans None False (1 / 2)") simp_all
  have nodes: "nodes_to_match (parse_mermaid demo_diagram) = [(''A'', ''add field'')]" by code_simp
  from accepted_shows_every_plan [OF run acc] show ?thesis
    unfolding nodes using run by (simp add: demo_plan_def)
qed

text \<open>Edges are searched for in the whole line, also inside a quoted label: the flowchart drawn from
  a plan whose label contains an arrow is not accepted for that plan.\<close>

lemma drawing_not_accepted:
  "\<exists>plans objective diagram r. render_mermaid_from_plans plans objective = Inr diagram
     \<and> canonicalize_mermaid diagram plans (Some objective) False (1 / 2) = Inr r \<and> \<not> cr_accepted r"
proof -
  let ?plans = "[demo_plan ''plan_1'' ''map a --> b'' []]"
  let ?ob = "\<lparr>objective_id = ''obj_1'', objective_project_id = ''p'', objective_title = ''t'',
    objective_summary = [], objective_priority = 100, objective_status = OS_OPEN, objective_phase = OP_CREATED,
    objective_created_at = 0, objective_updated_at = 0\<rparr>"
  have "case render_mermaid_from_plans ?plans ?ob of Inl _ \<Rightarrow> False | Inr diagram \<Rightarrow>
      (case canonicalize_mermaid diagram ?plans (Some ?ob) False (1 / 2) of Inl _ \<Rightarrow> False
       | Inr r \<Rightarrow> \<not> cr_accepted r)"
    by code_simp
  then show ?thesis by (auto split: sum.splits)
qed

subsection \<open>Every plan hangs from the objective\<close>

text \<open>The edges of a drawing: those from the objective and those between plans.\<close>

definition drawn_edges :: "Plan list \<Rightarrow> (string \<times> string) list list \<Rightarrow> (string \<times> string) set" where
  "drawn_edges plans rows = set (root_edges plans (concat rows)) \<union> set (concat rows)"

lemma map_result_nth: "map_result f xs = Inr ys \<Longrightarrow> i < length xs \<Longrightarrow> f (xs ! i) = Inr (ys ! i)"
proof (induction xs arbitrary: ys i)
  case (Cons x xs)
  then show ?case by (cases i) (auto simp: rbind_Inr_iff)
qed simp

lemma drawn_edge_origin:
  assumes "map_result (edges_of plans) plans = Inr rows" and "(a, b) \<in> set (concat rows)"
  shows "\<exists>p\<in>set plans. \<exists>deps. plan_dependencies p = Inr deps \<and> b = canonical_node_id p
    \<and> (\<exists>d\<in>set deps. resolve_ref plans d = Some a)"
proof -
  from assms(2) obtain row where "row \<in> set rows" "(a, b) \<in> set row" by auto
  then obtain i where i: "i < length rows" "(a, b) \<in> set (rows ! i)"
    by (metis in_set_conv_nth)
  then have n: "i < length plans" using map_result_length [OF assms(1)] by simp
  from map_result_nth [OF assms(1) n] obtain deps where "plan_dependencies (plans ! i) = Inr deps"
    "rows ! i = map (\<lambda>src. (src, canonical_node_id (plans ! i))) (List.map_filter (resolve_ref plans) deps)"
    by (auto simp: edges_of_def rbind_Inr_iff)
  moreover have "\<exists>d\<in>set ds. f d = Some x" if "x \<in> set (List.map_filter f ds)" for x :: string and f and ds :: "string list"
    using that by (induction ds) (auto split: option.splits)
  ultimately show ?thesis using i(2) n nth_mem [OF n] by fastforce
qed

lemma resolve_ref_node: "resolve_ref plans d = Some n \<Longrightarrow> n \<in> canonical_node_id ` set plans"
  by (auto simp: resolve_ref_def last_plan_None dest: last_plan_Some split: if_splits)

lemma plans_hang_from_objective:
  assumes rows: "map_result (edges_of plans) plans = Inr rows"
    and rank: "\<And>p deps d n. p \<in> set plans \<Longrightarrow> plan_dependencies p = Inr deps \<Longrightarrow> d \<in> set deps
      \<Longrightarrow> resolve_ref plans d = Some n \<Longrightarrow> (rank n :: nat) < rank (canonical_node_id p)"
    and n: "n \<in> canonical_node_id ` set plans"
  shows "(''O'', n) \<in> (drawn_edges plans rows)\<^sup>+"
  using n
proof (induction "rank n" arbitrary: n rule: less_induct)
  case less
  show ?case
  proof (cases "n \<in> snd ` set (concat rows)")
    case False
    then have "(''O'', n) \<in> set (root_edges plans (concat rows))"
      using less.prems by (auto simp: root_edges_def)
    then show ?thesis by (auto simp: drawn_edges_def)
  next
    case True
    then obtain a where a: "(a, n) \<in> set (concat rows)" by (metis imageE prod.collapse)
    from drawn_edge_origin [OF rows a] obtain p deps d where
      "p \<in> set plans" "plan_dependencies p = Inr deps" "n = canonical_node_id p" "d \<in> set deps" "resolve_ref plans d = Some a"
      by blast
    then have "rank a < rank n" "a \<in> canonical_node_id ` set plans"
      using rank resolve_ref_node by blast+
    then have "(''O'', a) \<in> (drawn_edges plans rows)\<^sup>+" by (rule less.hyps)
    then show ?thesis using a by (auto simp: drawn_edges_def intro: trancl_into_trancl)
  qed
qed

end
