(* ===== verification/Plan_Draft.thy ===== *)
theory Plan_Draft
  imports Skill_Base Record_Props Mermaid_Render
begin

section \<open>Drafting plans\<close>

text \<open>
  \<open>skills/plan_draft.py\<close>: reading, checking and storing the plans the language model proposes for an
  objective. Every proposed plan has a local name, a label, and the local names of the plans it
  depends on; storing resolves the names to the identifiers of the stored plans. The prompt is not
  modelled; the dictionary that \<open>extract_json_payload\<close> finds in the answer is an argument.
\<close>

subsection \<open>Equality of values\<close>

text \<open>\<open>==\<close> compares numbers by value, whatever their type.\<close>

definition num_of :: "pyval \<Rightarrow> rat option" where
  "num_of v = (case v of PInt i \<Rightarrow> Some (of_int i) | PBool b \<Rightarrow> Some (if b then 1 else 0)
     | PFloat m e \<Rightarrow> Some (of_int m * 10 powi e) | _ \<Rightarrow> None)"

definition py_eq :: "pyval \<Rightarrow> pyval \<Rightarrow> bool" where
  "py_eq v w = (case num_of v of None \<Rightarrow> v = w | Some a \<Rightarrow> num_of w = Some a)"

definition unhashable :: "pyval \<Rightarrow> bool" where
  "unhashable v \<longleftrightarrow> is_list v \<or> is_dict v"

lemma py_eq_str [simp]: "py_eq (PStr s) v \<longleftrightarrow> v = PStr s"
  by (auto simp: py_eq_def num_of_def)

subsection \<open>Reading the answer\<close>

definition stripped :: "pyval \<Rightarrow> string" where
  "stripped v = py_strip (str_or_empty v)"

definition read_deps :: "pyval \<Rightarrow> pyval list" where
  "read_deps deps_raw =
     (case deps_raw of
        PList xs \<Rightarrow> map PStr (filter (\<lambda>d. d \<noteq> []) (map (\<lambda>d. py_strip (py_str d)) xs))
      | _ \<Rightarrow> [])"

definition read_plan :: "pyval \<Rightarrow> pydict list" where
  "read_plan v =
     (case v of
        PDict item \<Rightarrow>
          let local_id = stripped (dict_get item ''local_id'');
              label = stripped (dict_get item ''label'');
              depends_on = read_deps (py_or (py_or (dict_get item ''depends_on'') (dict_get item ''dependencies''))
                                        (PList []))
          in if local_id \<noteq> [] \<and> label \<noteq> []
             then [[(''local_id'', PStr local_id), (''label'', PStr label), (''depends_on'', PList depends_on)]]
             else []
      | _ \<Rightarrow> [])"

definition parse_plans :: "pydict option \<Rightarrow> pydict" where
  "parse_plans payload =
     (case payload of
        None \<Rightarrow> [(''plans'', PList [])]
      | Some parsed \<Rightarrow>
          (case dict_get parsed ''plans'' of
             PList raw \<Rightarrow> [(''plans'', PList (map PDict (concat (map read_plan raw))))]
           | _ \<Rightarrow> [(''plans'', PList [])]))"

subsection \<open>Checking the plans\<close>

definition MAX_PLANS :: nat where
  "MAX_PLANS = 15"

definition plan_schema :: schema where
  "plan_schema = \<lparr>sc_required = [''plans''], sc_types = [(''plans'', ''list'')], sc_allowed_values = []\<rparr>"

text \<open>The first loop: every entry is a dictionary with a new name and a label.\<close>

fun check_names :: "nat \<Rightarrow> string list \<Rightarrow> pyval list \<Rightarrow> string list" where
  "check_names idx seen [] = []"
| "check_names idx seen (v # vs) =
     (case v of
        PDict plan \<Rightarrow>
          let local_id = stripped (dict_get plan ''local_id'') in
          if local_id = [] then [''plan '' @ dec_nat idx @ '' missing local_id'']
          else if local_id \<in> set seen then [''duplicate local_id: '' @ repr_str local_id]
          else if stripped (dict_get plan ''label'') = [] then [''plan '' @ repr_str local_id @ '' has empty label'']
          else check_names (Suc idx) (local_id # seen) vs
      | _ \<Rightarrow> [''plan '' @ dec_nat idx @ '' is not a dict''])"

text \<open>The second loop: the dependencies of a plan are names of earlier plans.\<close>

fun check_deps :: "pyval \<Rightarrow> pyval list \<Rightarrow> pyval list \<Rightarrow> exn + string list" where
  "check_deps local_id seen [] = Inr []"
| "check_deps local_id seen (dep # deps) =
     (if py_eq dep local_id
      then Inr [''self-reference: '' @ py_repr local_id @ '' depends on itself'']
      else if unhashable dep then Inl (TypeError ''unhashable type'')
      else if \<not> list_ex (py_eq dep) seen
      then Inr [''forward or unknown reference: plan '' @ py_repr local_id @ '' depends_on ''
                @ py_repr dep @ '' which is not an earlier plan'']
      else check_deps local_id seen deps)"

fun check_order :: "pyval list \<Rightarrow> pydict list \<Rightarrow> exn + string list" where
  "check_order seen [] = Inr []"
| "check_order seen (plan # plans) =
     (if \<not> dict_has plan ''local_id'' then Inl (KeyError ''local_id'')
      else
        let local_id = dict_get plan ''local_id'' in
        rbind (py_list (py_or (dict_get plan ''depends_on'') (PList []))) (\<lambda>deps.
        rbind (check_deps local_id seen deps) (\<lambda>errors.
        if errors \<noteq> [] then Inr errors
        else if unhashable local_id then Inl (TypeError ''unhashable type'')
        else check_order (local_id # seen) plans)))"

definition dict_of :: "pyval \<Rightarrow> pydict" where
  "dict_of v = (case v of PDict d \<Rightarrow> d | _ \<Rightarrow> [])"

definition plans_of :: "pydict \<Rightarrow> pyval list" where
  "plans_of parsed = (case dict_get parsed ''plans'' of PList xs \<Rightarrow> xs | _ \<Rightarrow> [])"

definition plan_draft_validate :: "pydict \<Rightarrow> exn + bool \<times> string list" where
  "plan_draft_validate parsed =
     (case validate_against_schema parsed plan_schema of
        (False, errors) \<Rightarrow> Inr (False, errors)
      | (True, _) \<Rightarrow>
          let plans = plans_of parsed in
          if plans = [] then Inr (False, [''plans list is empty''])
          else if MAX_PLANS < length plans
          then Inr (False, [''plans list has '' @ dec_nat (length plans) @ '' entries, exceeds max of ''
                            @ dec_nat MAX_PLANS])
          else
            let errors = check_names 0 [] plans in
            if errors \<noteq> [] then Inr (False, errors)
            else rbind (check_order [] (map dict_of plans)) (\<lambda>errors. Inr (errors = [], errors)))"

subsection \<open>Storing the plans\<close>

definition TRIO_SLICE_KEYS :: "string list" where
  "TRIO_SLICE_KEYS = [''target_impl'', ''target_test'', ''transformation'', ''input_samples'',
     ''output_samples'', ''resources'', ''supersedes'', ''orphan_strategy'', ''orphan_acceptance_reason'',
     ''risks'', ''estimated_complexity'']"

text \<open>\<open>[m[d] for d in deps if d in m]\<close>: a name given twice has the identifier given last.\<close>

definition resolve_deps :: "(pyval \<times> string) list \<Rightarrow> pyval list \<Rightarrow> string list" where
  "resolve_deps names deps =
     List.map_filter (\<lambda>d. map_option snd (List.find (\<lambda>(n, _). py_eq d n) names)) deps"

definition trio_entries :: "pydict \<Rightarrow> pydict" where
  "trio_entries pd =
     List.map_filter (\<lambda>k. if dict_has pd k \<and> dict_get pd k \<noteq> PNone \<and> dict_get pd k \<noteq> PStr []
        then Some (k, dict_get pd k) else None) TRIO_SLICE_KEYS"

definition drafted_plan ::
  "string \<Rightarrow> string \<Rightarrow> time \<Rightarrow> nat \<Rightarrow> (pyval \<times> string) list \<Rightarrow> pyval list \<Rightarrow> pydict \<Rightarrow> string \<Rightarrow> Plan" where
  "drafted_plan objective author_tag base idx names deps pd i =
     (let slice_dict =
          [(''label'', dict_get pd ''label''),
           (''dependencies'', PList (map PStr (resolve_deps names deps))),
           (''derived_from'', PStr author_tag), (''local_id'', dict_get pd ''local_id'')]
          @ trio_entries pd;
        stamp = base + int idx * 1000000;
        plan = \<lparr>plan_id = i, plan_objective_id = objective, plan_mermaid_node_id = None,
          plan_parent_plan_id = None, plan_plan_revision = 1, plan_slice = slice_dict,
          plan_atomicity_assessment = [(''is_atomic'', PBool True), (''violations'', PList []),
            (''reason'', PStr (''from '' @ author_tag))],
          plan_approval_status = ''approved'', plan_created_at = stamp, plan_updated_at = stamp\<rparr>
      in plan\<lparr>plan_mermaid_node_id := Some (canonical_node_id plan)\<rparr>)"

fun materialize_loop ::
  "string \<Rightarrow> string \<Rightarrow> time \<Rightarrow> nat \<Rightarrow> (pyval \<times> string) list \<Rightarrow> pydict list \<Rightarrow> Plan list op" where
  "materialize_loop objective author_tag base idx names [] = ret []"
| "materialize_loop objective author_tag base idx names (pd # pds) =
     (if \<not> dict_has pd ''local_id'' then raise (KeyError ''local_id'')
      else if \<not> dict_has pd ''label'' then raise (KeyError ''label'')
      else
        bnd (lift_result (py_list (py_or (dict_get pd ''depends_on'') (PList [])))) (\<lambda>deps.
        if list_ex unhashable deps then raise (TypeError ''unhashable type'')
        else
        bnd (new_id ''plan'') (\<lambda>i.
        let plan = drafted_plan objective author_tag base idx names deps pd i in
        bnd (create_plan plan) (\<lambda>_.
        if unhashable (dict_get pd ''local_id'') then raise (TypeError ''unhashable type'')
        else
        bnd (materialize_loop objective author_tag base (Suc idx) ((dict_get pd ''local_id'', i) # names) pds)
          (\<lambda>persisted. ret (plan # persisted))))))"

definition materialize_plans :: "string \<Rightarrow> pydict list \<Rightarrow> string \<Rightarrow> Plan list op" where
  "materialize_plans objective plans_data author_tag =
     bnd utc_now (\<lambda>base_ts. materialize_loop objective author_tag base_ts 0 [] plans_data)"


subsection \<open>What the validator promises\<close>

definition deps_of :: "pydict \<Rightarrow> pyval list" where
  "deps_of pd = (case py_list (py_or (dict_get pd ''depends_on'') (PList [])) of Inr ds \<Rightarrow> ds | Inl _ \<Rightarrow> [])"

text \<open>Every dependency of a plan names an earlier plan.\<close>

definition backward :: "pydict list \<Rightarrow> bool" where
  "backward plans \<longleftrightarrow> (\<forall>k<length plans. \<forall>d\<in>set (deps_of (plans ! k)).
     \<exists>j<k. py_eq d (dict_get (plans ! j) ''local_id''))"

definition plans_ok :: "pydict \<Rightarrow> bool" where
  "plans_ok parsed \<longleftrightarrow>
     (let plans = map dict_of (plans_of parsed) in
       plans \<noteq> [] \<and> length plans \<le> 15
       \<and> list_all is_dict (plans_of parsed)
       \<and> distinct (map (\<lambda>p. stripped (dict_get p ''local_id'')) plans)
       \<and> list_all (\<lambda>p. stripped (dict_get p ''local_id'') \<noteq> [] \<and> stripped (dict_get p ''label'') \<noteq> []) plans
       \<and> backward plans)"

lemma check_names_ok:
  assumes "check_names idx seen vs = []"
  shows "list_all is_dict vs \<and> distinct (map (\<lambda>v. stripped (dict_get (dict_of v) ''local_id'')) vs)
    \<and> set seen \<inter> set (map (\<lambda>v. stripped (dict_get (dict_of v) ''local_id'')) vs) = {}
    \<and> list_all (\<lambda>v. stripped (dict_get (dict_of v) ''local_id'') \<noteq> []
        \<and> stripped (dict_get (dict_of v) ''label'') \<noteq> []) vs"
  using assms
proof (induction vs arbitrary: idx seen)
  case (Cons v vs)
  then obtain plan where v: "v = PDict plan" by (cases v) auto
  with Cons.prems have parts: "stripped (dict_get plan ''local_id'') \<noteq> []"
    "stripped (dict_get plan ''local_id'') \<notin> set seen" "stripped (dict_get plan ''label'') \<noteq> []"
    "check_names (Suc idx) (stripped (dict_get plan ''local_id'') # seen) vs = []"
    by (auto simp: Let_def split: if_splits)
  from Cons.IH [OF parts(4)] parts(1-3) show ?case
    by (auto simp: v dict_of_def is_dict_def)
qed simp

lemma check_deps_ok:
  "check_deps i seen deps = Inr [] \<Longrightarrow> \<forall>d\<in>set deps. \<not> py_eq d i \<and> \<not> unhashable d \<and> (\<exists>n\<in>set seen. py_eq d n)"
  by (induction deps) (auto simp: list_ex_iff split: if_splits)

lemma check_order_ok:
  assumes "check_order seen plans = Inr []" and "k < length plans" and "d \<in> set (deps_of (plans ! k))"
  shows "(\<exists>n\<in>set seen. py_eq d n) \<or> (\<exists>j<k. py_eq d (dict_get (plans ! j) ''local_id''))"
  using assms
proof (induction plans arbitrary: seen k)
  case (Cons plan plans)
  from Cons.prems(1) obtain deps where deps: "py_list (py_or (dict_get plan ''depends_on'') (PList [])) = Inr deps"
    "check_deps (dict_get plan ''local_id'') seen deps = Inr []"
    "check_order (dict_get plan ''local_id'' # seen) plans = Inr []"
    by (auto simp: rbind_Inr_iff Let_def split: if_splits)
  show ?case
  proof (cases k)
    case 0
    then have "d \<in> set deps" using Cons.prems(3) deps(1) by (simp add: deps_of_def)
    then show ?thesis using check_deps_ok [OF deps(2)] by blast
  next
    case (Suc l)
    then have "l < length plans" "d \<in> set (deps_of (plans ! l))" using Cons.prems(2,3) by simp_all
    from Cons.IH [OF deps(3) this] show ?thesis
    proof
      assume "\<exists>n\<in>set (dict_get plan ''local_id'' # seen). py_eq d n"
      then show ?thesis using Suc by (auto intro: exI [of _ 0])
    next
      assume "\<exists>j<l. py_eq d (dict_get (plans ! j) ''local_id'')"
      then obtain j where "j < l" "py_eq d (dict_get (plans ! j) ''local_id'')" by blast
      then have "Suc j < k" "py_eq d (dict_get ((plan # plans) ! Suc j) ''local_id'')" using Suc by simp_all
      then show ?thesis by blast
    qed
  qed
qed simp

lemma plan_draft_accepts:
  assumes "plan_draft_validate parsed = Inr (True, errors)"
  shows "plans_ok parsed \<and> errors = []"
proof -
  from assms have parts: "plans_of parsed \<noteq> []" "length (plans_of parsed) \<le> 15"
    "check_names 0 [] (plans_of parsed) = []" "check_order [] (map dict_of (plans_of parsed)) = Inr []" "errors = []"
    by (auto simp: plan_draft_validate_def Let_def MAX_PLANS_def rbind_Inr_iff
        split: prod.splits bool.splits if_splits)
  from check_order_ok [OF parts(4)] have "backward (map dict_of (plans_of parsed))"
    by (auto simp: backward_def)
  then show ?thesis
    using parts(1,2,5) check_names_ok [OF parts(3)] by (simp add: plans_ok_def comp_def list_all_iff)
qed

interpretation plan_draft: skill plan_draft_validate plans_ok
proof
  fix parsed errors
  assume "plan_draft_validate parsed = Inr (True, errors)"
  then show "plans_ok parsed" using plan_draft_accepts by blast
next
  fix parsed ok errors
  assume v: "plan_draft_validate parsed = Inr (ok, errors)"
  then show "ok \<longleftrightarrow> errors = []"
    using validate_against_schema_iff [of parsed plan_schema]
    by (auto simp: plan_draft_validate_def rbind_Inr_iff Let_def split: prod.splits bool.splits if_splits)
qed


subsection \<open>What is stored\<close>

text \<open>The plan with its two dictionaries as the database returns them.\<close>

definition stored_plan :: "Plan \<Rightarrow> Plan" where
  "stored_plan plan = plan\<lparr>plan_slice := json_column (plan_slice plan),
     plan_atomicity_assessment := json_column (plan_atomicity_assessment plan)\<rparr>"

text \<open>The rows the loop makes, when \<open>ids n\<close> is the \<open>n\<close>-th new identifier.\<close>

fun drafted_rows ::
  "(nat \<Rightarrow> string) \<Rightarrow> string \<Rightarrow> string \<Rightarrow> time \<Rightarrow> nat \<Rightarrow> (pyval \<times> string) list \<Rightarrow> pydict list \<Rightarrow> Plan list" where
  "drafted_rows ids objective tag base idx names [] = []"
| "drafted_rows ids objective tag base idx names (pd # pds) =
     drafted_plan objective tag base idx names (deps_of pd) pd (ids 0)
     # drafted_rows (\<lambda>n. ids (Suc n)) objective tag base (Suc idx) ((dict_get pd ''local_id'', ids 0) # names) pds"

definition readable_plan :: "pydict \<Rightarrow> bool" where
  "readable_plan pd \<longleftrightarrow> (\<exists>i. dict_get pd ''local_id'' = PStr i) \<and> dict_has pd ''local_id'' \<and> dict_has pd ''label''
     \<and> py_list (py_or (dict_get pd ''depends_on'') (PList [])) = Inr (deps_of pd)
     \<and> (\<forall>d\<in>set (deps_of pd). \<exists>i. d = PStr i)"

lemma drafted_plan_id [simp]:
  "plan_id (drafted_plan objective tag base idx names deps pd i) = i"
  "plan_objective_id (drafted_plan objective tag base idx names deps pd i) = objective"
  by (simp_all add: drafted_plan_def Let_def)

lemma drafted_rows_ids: "map plan_id (drafted_rows ids objective tag base idx names pds) = map ids [0..<length pds]"
  by (induction pds arbitrary: ids idx names)
    (simp_all add: upt_conv_Cons map_Suc_upt [symmetric] comp_def del: upt_Suc)

lemma materialize_loop_run:
  assumes "list_all readable_plan pds" and "has_key objective_id objective (st_objectives s)"
    and "ids = (\<lambda>n. ''plan_'' @ st_uuid s (st_uuids s + n))"
    and "distinct (map plan_id (st_plans s) @ map ids [0..<length pds])"
  shows "materialize_loop objective tag base idx names pds s =
     (Inr (drafted_rows ids objective tag base idx names pds),
      s\<lparr>st_uuids := st_uuids s + length pds,
        st_plans := st_plans s @ map stored_plan (drafted_rows ids objective tag base idx names pds)\<rparr>)"
  using assms
proof (induction pds arbitrary: s ids idx names)
  case (Cons pd pds)
  let ?p = "drafted_plan objective tag base idx names (deps_of pd) pd (ids 0)"
  let ?s = "s\<lparr>st_uuids := Suc (st_uuids s), st_plans := st_plans s @ [stored_plan ?p]\<rparr>"
  let ?rest = "drafted_rows (\<lambda>n. ids (Suc n)) objective tag base (Suc idx) ((dict_get pd ''local_id'', ids 0) # names) pds"
  have pd: "readable_plan pd" and pds: "list_all readable_plan pds" using Cons.prems(1) by simp_all
  have split: "map ids [0..<length (pd # pds)] = ids 0 # map (\<lambda>n. ids (Suc n)) [0..<length pds]"
    by (simp add: upt_conv_Cons map_Suc_upt [symmetric] comp_def del: upt_Suc)
  have new: "ids 0 \<notin> plan_id ` set (st_plans s)"
    and fresh: "distinct (map plan_id (st_plans ?s) @ map (\<lambda>n. ids (Suc n)) [0..<length pds])"
    using Cons.prems(4) unfolding split by (auto simp: stored_plan_def)
  have ids: "(\<lambda>n. ids (Suc n)) = (\<lambda>n. ''plan_'' @ st_uuid ?s (st_uuids ?s + n))"
    and drawn: "new_id ''plan'' s = (Inr (ids 0), s\<lparr>st_uuids := Suc (st_uuids s)\<rparr>)"
    using Cons.prems(3) by (simp_all add: fun_eq_iff new_id_def)
  have store: "create_plan ?p (s\<lparr>st_uuids := Suc (st_uuids s)\<rparr>) = (Inr (), ?s)"
    using Cons.prems(2) new
    by (auto simp: create_plan_def try_write_run insert_fk_def has_key_iff rbind_Inr_iff stored_plan_def)
  have rest: "materialize_loop objective tag base (Suc idx) ((dict_get pd ''local_id'', ids 0) # names) pds ?s =
      (Inr ?rest, ?s\<lparr>st_uuids := st_uuids ?s + length pds, st_plans := st_plans ?s @ map stored_plan ?rest\<rparr>)"
    by (rule Cons.IH [OF pds _ ids fresh]) (use Cons.prems(2) in simp)
  have ok: "\<not> list_ex unhashable (deps_of pd)" "\<not> unhashable (dict_get pd ''local_id'')"
    using pd by (auto simp: readable_plan_def list_ex_iff unhashable_def is_list_def is_dict_def)
  show ?case
    using pd ok store rest
    by (simp add: readable_plan_def bnd_run lift_result_run drawn ret_run Let_def)
qed (simp add: ret_run)


text \<open>The names known to the \<open>k\<close>-th turn of the loop are those of the drafts before it.\<close>

definition earlier :: "(nat \<Rightarrow> string) \<Rightarrow> pydict list \<Rightarrow> nat \<Rightarrow> (pyval \<times> string) list" where
  "earlier ids pds k = rev (map (\<lambda>j. (dict_get (pds ! j) ''local_id'', ids j)) [0..<k])"

lemma drafted_rows_nth:
  "k < length pds \<Longrightarrow> drafted_rows ids objective tag base idx names pds ! k =
     drafted_plan objective tag base (idx + k) (earlier ids pds k @ names) (deps_of (pds ! k)) (pds ! k) (ids k)"
proof (induction pds arbitrary: ids idx names k)
  case (Cons pd pds)
  show ?case
  proof (cases k)
    case (Suc l)
    have "earlier ids (pd # pds) (Suc l) = earlier (\<lambda>n. ids (Suc n)) pds l @ [(dict_get pd ''local_id'', ids 0)]"
      by (simp add: earlier_def upt_conv_Cons map_Suc_upt [symmetric] comp_def del: upt_Suc)
    moreover have "l < length pds" using Suc Cons.prems by simp
    ultimately show ?thesis by (simp add: Suc Cons.IH del: upt_Suc)
  qed (simp add: earlier_def)
qed simp

lemma find_unique:
  assumes "x \<in> set xs" and "P x" and "\<And>y. y \<in> set xs \<Longrightarrow> P y \<Longrightarrow> y = x"
  shows "List.find P xs = Some x"
  proof (cases "List.find P xs")
  case None
  then show ?thesis using assms(1,2) by (auto simp: find_None_iff)
next
  case (Some y)
  then have "y \<in> set xs" "P y" by (auto simp: find_Some_iff)
  then show ?thesis using Some assms(3) by simp
qed

lemma resolve_earlier:
  assumes "distinct (map (\<lambda>p. dict_get p ''local_id'') pds)" and "k \<le> length pds"
    and "\<forall>d\<in>set deps. (\<exists>i. d = PStr i) \<and> (\<exists>j<k. d = dict_get (pds ! j) ''local_id'')"
  shows "list_all2 (\<lambda>d i. \<exists>j<k. d = dict_get (pds ! j) ''local_id'' \<and> i = ids j) deps
    (resolve_deps (earlier ids pds k) deps)"
  using assms(3)
proof (induction deps)
  case (Cons d deps)
  then obtain i where i: "d = PStr i" by auto
  from Cons.prems obtain j where j: "j < k" "d = dict_get (pds ! j) ''local_id''" by auto
  have "List.find (\<lambda>(n, _). py_eq d n) (earlier ids pds k) = Some (d, ids j)"
  proof (rule find_unique)
    show "(d, ids j) \<in> set (earlier ids pds k)" using j by (auto simp: earlier_def)
  next
    fix y
    assume "y \<in> set (earlier ids pds k)" and "case y of (n, _) \<Rightarrow> py_eq d n"
    then obtain l where l: "l < k" "y = (d, ids l)" "dict_get (pds ! l) ''local_id'' = d"
      using i by (auto simp: earlier_def)
    have "l = j" using assms(1,2) l j by (metis (no_types, lifting) length_map nth_eq_iff_index_eq nth_map order_less_le_trans)
    then show "y = (d, ids j)" using l(2) by simp
  qed (use i in simp)
  with Cons j show ?case by (auto simp: resolve_deps_def map_filter_simps)
qed (simp add: resolve_deps_def map_filter_simps)

subsection \<open>From the answer to the database\<close>

lemma read_plan_readable: "pd \<in> set (read_plan v) \<Longrightarrow> readable_plan pd"
  by (cases v) (auto simp: read_plan_def Let_def readable_plan_def dict_get_def dict_has_def deps_of_def
      py_or_def py_list_def read_deps_def split: if_splits pyval.splits)

lemma parsed_readable: "list_all readable_plan (map dict_of (plans_of (parse_plans payload)))"
proof -
  have "plans_of (parse_plans payload) = []
      \<or> (\<exists>raw. plans_of (parse_plans payload) = map PDict (concat (map read_plan raw)))"
    by (auto simp: plans_of_def parse_plans_def dict_get_def split: option.split pyval.split)
  then show ?thesis
  proof (elim disjE exE)
    fix raw
    assume "plans_of (parse_plans payload) = map PDict (concat (map read_plan raw))"
    then show ?thesis using read_plan_readable by (simp add: list_all_iff dict_of_def)
  qed simp
qed

text \<open>The rows the loop makes from an accepted answer, and what their dependencies resolve to.\<close>

lemma drafted_core:
  assumes "plan_draft_validate (parse_plans payload) = Inr (True, errors)"
    and "drafts = map dict_of (plans_of (parse_plans payload))"
    and "objective \<in> objective_id ` set (st_objectives s)"
    and "f = (\<lambda>n. ''plan_'' @ st_uuid s (st_uuids s + n))"
    and "distinct (map plan_id (st_plans s) @ map f [0..<length drafts])"
    and "plans = drafted_rows f objective tag (st_clock s (st_ticks s)) 0 [] drafts"
  shows "materialize_plans objective drafts tag s = (Inr plans, s\<lparr>st_ticks := Suc (st_ticks s),
        st_uuids := st_uuids s + length drafts, st_plans := st_plans s @ map stored_plan plans\<rparr>)
    \<and> (\<forall>k<length drafts. list_all2 (\<lambda>d i. \<exists>j<k. d = dict_get (drafts ! j) ''local_id'' \<and> i = f j)
         (deps_of (drafts ! k)) (resolve_deps (earlier f drafts k) (deps_of (drafts ! k))))"
proof (intro conjI allI impI)
  let ?s = "s\<lparr>st_ticks := Suc (st_ticks s)\<rparr>"
  have readable: "list_all readable_plan drafts" unfolding assms(2) by (rule parsed_readable)
  have ok: "plans_ok (parse_plans payload)" using plan_draft_accepts [OF assms(1)] by blast
  then have "distinct (map (\<lambda>p. stripped (dict_get p ''local_id'')) drafts)" and earlier_refs: "backward drafts"
    by (simp_all add: plans_ok_def Let_def assms(2) [symmetric])
  then have names: "distinct (map (\<lambda>p. dict_get p ''local_id'') drafts)"
    using distinct_map [of stripped "map (\<lambda>p. dict_get p ''local_id'') drafts"] by (simp add: comp_def)
  show "materialize_plans objective drafts tag s = (Inr plans, s\<lparr>st_ticks := Suc (st_ticks s),
        st_uuids := st_uuids s + length drafts, st_plans := st_plans s @ map stored_plan plans\<rparr>)"
    using materialize_loop_run [OF readable, of objective ?s f tag] assms(3-6)
    by (simp add: materialize_plans_def bnd_run utc_now_def has_key_iff)
  fix k
  assume k: "k < length drafts"
  have "\<forall>d\<in>set (deps_of (drafts ! k)). (\<exists>i. d = PStr i) \<and> (\<exists>j<k. d = dict_get (drafts ! j) ''local_id'')"
  proof
    fix d
    assume d: "d \<in> set (deps_of (drafts ! k))"
    obtain i where i: "d = PStr i" using readable k d by (auto simp: list_all_length readable_plan_def)
    obtain j where "j < k" "py_eq d (dict_get (drafts ! j) ''local_id'')"
      using earlier_refs k d by (auto simp: backward_def)
    then show "(\<exists>i. d = PStr i) \<and> (\<exists>j<k. d = dict_get (drafts ! j) ''local_id'')" using i by auto
  qed
  from resolve_earlier [OF names less_imp_le [OF k] this, of f]
  show "list_all2 (\<lambda>d i. \<exists>j<k. d = dict_get (drafts ! j) ''local_id'' \<and> i = f j) (deps_of (drafts ! k))
      (resolve_deps (earlier f drafts k) (deps_of (drafts ! k)))" .
qed

lemma drafted_rows_length [simp]: "length (drafted_rows ids objective tag base idx names pds) = length pds"
  by (induction pds arbitrary: ids idx names) simp_all

text \<open>The plans read from an answer of the language model, once accepted, are stored as proposed.
  If the objective exists and the new identifiers are new, \<open>materialize_plans_from_skill_output\<close>
  does not raise; it appends one row per proposed plan, in order, with the label of the proposal,
  and every local name in a plan's \<open>depends_on\<close> becomes the identifier of the earlier plan of
  that name: none is dropped and none points forward, so the stored plans have no cycle.\<close>

theorem drafted_plans_stored:
  assumes "plan_draft_validate (parse_plans payload) = Inr (True, errors)"
    and "drafts = map dict_of (plans_of (parse_plans payload))"
    and "objective \<in> objective_id ` set (st_objectives s)"
    and "ids = map (\<lambda>n. ''plan_'' @ st_uuid s (st_uuids s + n)) [0..<length drafts]"
    and "distinct (map plan_id (st_plans s) @ ids)"
  shows "\<exists>plans t. materialize_plans objective drafts tag s = (Inr plans, t)
    \<and> map plan_id plans = ids \<and> st_plans t = st_plans s @ map stored_plan plans
    \<and> (\<forall>k<length plans. dict_get (plan_slice (plans ! k)) ''label'' = dict_get (drafts ! k) ''label''
        \<and> (\<exists>us. dict_get (plan_slice (plans ! k)) ''dependencies'' = PList (map PStr us)
             \<and> list_all2 (\<lambda>d i. \<exists>j<k. d = dict_get (drafts ! j) ''local_id'' \<and> i = ids ! j)
                 (deps_of (drafts ! k)) us))"
proof -
  let ?f = "\<lambda>n. ''plan_'' @ st_uuid s (st_uuids s + n)"
  let ?plans = "drafted_rows ?f objective tag (st_clock s (st_ticks s)) 0 [] drafts"
  from assms(4,5) have "distinct (map plan_id (st_plans s) @ map ?f [0..<length drafts])" by simp
  note core = drafted_core [OF assms(1-3) refl this refl, of tag]
  have row: "dict_get (plan_slice (?plans ! k)) ''label'' = dict_get (drafts ! k) ''label''
      \<and> dict_get (plan_slice (?plans ! k)) ''dependencies'' =
          PList (map PStr (resolve_deps (earlier ?f drafts k) (deps_of (drafts ! k))))"
    if "k < length drafts" for k
    using that by (simp add: drafted_rows_nth drafted_plan_def Let_def dict_get_def)
  have refs: "list_all2 (\<lambda>d i. \<exists>j<k. d = dict_get (drafts ! j) ''local_id'' \<and> i = ids ! j) (deps_of (drafts ! k))
      (resolve_deps (earlier ?f drafts k) (deps_of (drafts ! k)))" if k: "k < length drafts" for k
  proof (rule list_all2_mono)
    show "list_all2 (\<lambda>d i. \<exists>j<k. d = dict_get (drafts ! j) ''local_id'' \<and> i = ?f j) (deps_of (drafts ! k))
        (resolve_deps (earlier ?f drafts k) (deps_of (drafts ! k)))"
      by (rule conjunct2 [OF core, THEN spec, THEN mp, OF k])
  qed (use k assms(4) in auto)
  have "map plan_id ?plans = ids" unfolding drafted_rows_ids by (simp add: assms(4))
  with core show ?thesis
    by (intro exI [of _ ?plans] exI, intro conjI) (use row refs in auto)
qed

definition demo_payload :: pydict where
  "demo_payload = [(''plans'', PList
     [PDict [(''local_id'', PStr ''p1''), (''label'', PStr ''add the field''), (''depends_on'', PList [])],
      PDict [(''local_id'', PStr '' p2''), (''label'', PStr ''test it''), (''dependencies'', PList [PStr ''p1''])]])]"

end
