(* ===== verification/Plan_Diagram.thy ===== *)
theory Plan_Diagram
  imports Plan_Draft
begin

section \<open>Diagrams of drafted plans\<close>

text \<open>
  What \<open>skills/plan_draft.py\<close> stores and \<open>mermaid/render.py\<close> draws, together: the diagram of the plans of
  an accepted answer shows every plan, and every plan hangs from the objective.
\<close>

lemma py_strip_no_space:
  assumes "\<forall>c\<in>set s. \<not> is_space c"
  shows "py_strip s = s"
proof -
  have drop: "dropWhile is_space xs = xs" if "\<forall>c\<in>set xs. \<not> is_space c" for xs
    using that by (cases xs) auto
  show ?thesis using drop [of s] drop [of "rev s"] assms by (simp add: py_strip_def)
qed

text \<open>The identifiers \<open>uuid4().hex[:12]\<close> can yield.\<close>

definition hex12 :: "string \<Rightarrow> bool" where
  "hex12 u \<longleftrightarrow> length u = 12 \<and> list_all (\<lambda>c. c \<in> set ''0123456789abcdef'') u"

lemma no_space: "list_all (\<lambda>c. \<not> is_space c) ''0123456789abcdef''" "list_all (\<lambda>c. \<not> is_space c) ''plan_''"
  by code_simp+

lemma plan_id_strip:
  assumes "hex12 u"
  shows "py_strip (''plan_'' @ u) = ''plan_'' @ u"
proof (rule py_strip_no_space)
  have "\<forall>c\<in>set u. \<not> is_space c"
    using assms no_space(1) unfolding hex12_def list_all_iff by metis
  with no_space(2) show "\<forall>c\<in>set (''plan_'' @ u). \<not> is_space c"
    unfolding list_all_iff set_append ball_Un by (intro conjI)
qed

lemma plan_id_node: "hex12 u \<Longrightarrow> take 12 (after_underscore (''plan_'' @ u)) = u"
  by (simp add: after_underscore_def hex12_def)


subsection \<open>The drafted plans as the diagram reads them\<close>

definition plain_draft :: "pydict \<Rightarrow> bool" where
  "plain_draft pd \<longleftrightarrow> (\<exists>i l ds. l \<noteq> [] \<and>
     pd = [(''local_id'', PStr i), (''label'', PStr l), (''depends_on'', PList (map PStr ds))])"

lemma read_plan_plain: "pd \<in> set (read_plan v) \<Longrightarrow> plain_draft pd"
  by (cases v) (auto simp: read_plan_def Let_def plain_draft_def read_deps_def split: if_splits pyval.splits)

lemma parsed_plain: "list_all plain_draft (map dict_of (plans_of (parse_plans payload)))"
proof -
  have "plans_of (parse_plans payload) = []
      \<or> (\<exists>raw. plans_of (parse_plans payload) = map PDict (concat (map read_plan raw)))"
    by (auto simp: plans_of_def parse_plans_def dict_get_def split: option.split pyval.split)
  then show ?thesis
  proof (elim disjE exE)
    fix raw
    assume "plans_of (parse_plans payload) = map PDict (concat (map read_plan raw))"
    then show ?thesis using read_plan_plain by (simp add: list_all_iff dict_of_def)
  qed simp
qed

lemma stored_plan_simps [simp]:
  "plan_id (stored_plan p) = plan_id p" "plan_approval_status (stored_plan p) = plan_approval_status p"
  "plan_slice (stored_plan p) = json_column (plan_slice p)"
  by (simp_all add: stored_plan_def)

lemma canonical_stored [simp]: "canonical_node_id (stored_plan p) = canonical_node_id p"
  by (simp add: canonical_node_id_def)

lemma sort_strings: "map sort_json (map PStr us) = map PStr us"
  by (induction us) simp_all

lemma drafted_slice:
  assumes "plain_draft pd" and "p = stored_plan (drafted_plan objective tag base idx names deps pd i)"
  shows "\<exists>sl. plan_slice_typed p = Inr sl \<and> ps_label sl \<noteq> []
    \<and> ps_dependencies sl = map PStr (resolve_deps names deps)"
proof -
  from assms(1) obtain li l ds where l: "l \<noteq> []" and
    pd: "pd = [(''local_id'', PStr li), (''label'', PStr l), (''depends_on'', PList (map PStr ds))]"
    by (auto simp: plain_draft_def)
  let ?d = "[(''label'', PStr l), (''dependencies'', PList (map PStr (resolve_deps names deps))),
    (''derived_from'', PStr tag), (''local_id'', PStr li)]"
  have "trio_entries pd = []" by (simp add: trio_entries_def TRIO_SLICE_KEYS_def pd dict_has_def)
  then have slice: "plan_slice p = json_column ?d"
    by (simp add: assms(2) drafted_plan_def Let_def pd dict_get_def)
  have get: "dict_get (json_column ?d) k = sort_json (dict_get ?d k)" for k
    by (rule dict_get_json_column) simp
  have "json_column ?d \<noteq> []" using get [of "''label''"] by (auto simp: dict_get_def)
  then show ?thesis
    using l by (simp add: plan_slice_typed_def slice PlanSlice_from_dict_def getter_defs get sort_strings)
qed


lemma map_result_all:
  "(\<And>x. x \<in> set xs \<Longrightarrow> \<exists>y. f x = Inr y) \<Longrightarrow> \<exists>ys. map_result f xs = Inr ys"
proof (induction xs)
  case (Cons x xs)
  then obtain y ys where "f x = Inr y" "map_result f xs = Inr ys" by fastforce
  then show ?case by simp
qed simp

text \<open>What the diagram reads of the row of the \<open>k\<close>-th draft.\<close>

lemma drafted_row_read:
  assumes "list_all plain_draft drafts" and "k < length drafts"
    and "f = (\<lambda>n. ''plan_'' @ uuid n)" and "\<forall>n<length drafts. hex12 (uuid n)"
    and "list_all2 (\<lambda>d i. \<exists>j<k. d = dict_get (drafts ! j) ''local_id'' \<and> i = f j)
         (deps_of (drafts ! k)) (resolve_deps (earlier f drafts k) (deps_of (drafts ! k)))"
    and "p = stored_plan (drafted_rows f objective tag base 0 [] drafts ! k)"
  shows "canonical_node_id p = ''P_'' @ uuid k \<and> plan_id p = f k
    \<and> (\<exists>label. plan_label p = Inr label)
    \<and> (\<exists>us. plan_dependencies p = Inr us \<and> (\<forall>u\<in>set us. \<exists>j<k. u = f j))"
proof -
  let ?us = "resolve_deps (earlier f drafts k) (deps_of (drafts ! k))"
  have p: "p = stored_plan (drafted_plan objective tag base k (earlier f drafts k) (deps_of (drafts ! k)) (drafts ! k) (f k))"
    using assms(2,6) by (simp add: drafted_rows_nth)
  have "plain_draft (drafts ! k)" using assms(1,2) by (simp add: list_all_length)
  from drafted_slice [OF this p] obtain sl where
    sl: "plan_slice_typed p = Inr sl" "ps_label sl \<noteq> []" "ps_dependencies sl = map PStr ?us" by blast
  have us: "\<exists>j<k. u = f j" if "u \<in> set ?us" for u
    using assms(5) that by (auto simp: list_all2_conv_all_nth in_set_conv_nth) 
  have strip: "py_strip u = u \<and> u \<noteq> []" if "u \<in> set ?us" for u
    using us [OF that] assms(2-4) plan_id_strip by auto
  have "concat (map (\<lambda>d. case d of PStr x \<Rightarrow> if py_strip x \<noteq> [] then [py_strip x] else [] | _ \<Rightarrow> []) (map PStr vs)) = vs"
    if "set vs \<subseteq> set ?us" for vs
    using that strip by (induction vs) auto
  from this [OF subset_refl] have "plan_dependencies p = Inr ?us"
    by (simp add: plan_dependencies_def sl)
  moreover have "canonical_node_id p = ''P_'' @ uuid k"
    using plan_id_node [of "uuid k"] assms(2-4) by (simp add: canonical_node_id_def p)
  moreover have "plan_label p = Inr (ps_label sl)" by (simp add: plan_label_def sl)
  moreover have "plan_id p = f k" by (simp add: p)
  ultimately show ?thesis using us by blast
qed

lemma render_runs:
  assumes "plan_list = sorted_plans (filter (\<lambda>p. plan_approval_status p \<noteq> ''rejected'') plans)" and "plan_list \<noteq> []"
    and "map_result plan_node plan_list = Inr nodes" and "map_result (edges_of plan_list) plan_list = Inr rows"
  shows "render_mermaid_from_plans plans ob = Inr (join NL ([''flowchart TD'', objective_line ob] @ nodes
     @ map edge_line (root_edges plan_list (concat rows) @ sort (concat rows))))"
proof -
  have "filter (\<lambda>p. plan_approval_status p \<noteq> ''rejected'') plans \<noteq> []"
    using assms(1,2) by (auto simp: sorted_plans_def order_by_def)
  then show ?thesis
    using assms(3,4) by (simp add: render_mermaid_from_plans_def Let_def assms(1) [symmetric])
qed


text \<open>The diagram of the plans drafted from an accepted answer is whole. When the answer is accepted,
  the objective exists and the new identifiers are twelve hexadecimal digits and new, the stored plans
  can be drawn: the text has one node line for each plan, and the edges it lists lead from the
  objective to every plan, if need be through the plans it depends on.\<close>

theorem drafted_diagram_connected:
  assumes "plan_draft_validate (parse_plans payload) = Inr (True, errors)"
    and "drafts = map dict_of (plans_of (parse_plans payload))"
    and "objective \<in> objective_id ` set (st_objectives s)"
    and "uuids = map (\<lambda>n. st_uuid s (st_uuids s + n)) [0..<length drafts]" and "list_all hex12 uuids"
    and "distinct (map plan_id (st_plans s) @ map (\<lambda>u. ''plan_'' @ u) uuids)"
  shows "\<exists>plans t nodes edges. materialize_plans objective drafts tag s = (Inr plans, t)
    \<and> render_mermaid_from_plans (map stored_plan plans) ob =
        Inr (join NL ([''flowchart TD'', objective_line ob] @ nodes @ map edge_line edges))
    \<and> length nodes = length drafts
    \<and> list_all (\<lambda>u. \<exists>label. node_line (''P_'' @ u) label \<in> set nodes) uuids
    \<and> list_all (\<lambda>u. (''O'', ''P_'' @ u) \<in> (set edges)\<^sup>+) uuids"
proof -
  define uuid where "uuid = (\<lambda>n. st_uuid s (st_uuids s + n))"
  define f where "f = (\<lambda>n. ''plan_'' @ uuid n)"
  let ?N = "length drafts"
  define plans where "plans = drafted_rows f objective tag (st_clock s (st_ticks s)) 0 [] drafts"
  have uuids: "uuids = map uuid [0..<?N]" using assms(4) by (simp add: uuid_def)
  have dist: "distinct (map plan_id (st_plans s) @ map f [0..<?N])"
    using assms(6) by (simp add: uuids f_def comp_def)
  then have uuid_inj: "uuid j = uuid k \<Longrightarrow> j < ?N \<Longrightarrow> k < ?N \<Longrightarrow> j = k" for j k
    by (auto simp: distinct_map f_def inj_on_def)
  have hex: "\<forall>n<?N. hex12 (uuid n)" using assms(5) by (simp add: uuids list_all_iff)
  have f: "f = (\<lambda>n. ''plan_'' @ st_uuid s (st_uuids s + n))" by (simp add: f_def uuid_def)
  note core = drafted_core [OF assms(1-3) f dist plans_def]
  have plain: "list_all plain_draft drafts" unfolding assms(2) by (rule parsed_plain)
  have row: "canonical_node_id p = ''P_'' @ uuid k \<and> plan_id p = f k \<and> (\<exists>label. plan_label p = Inr label)
      \<and> (\<exists>us. plan_dependencies p = Inr us \<and> (\<forall>u\<in>set us. \<exists>j<k. u = f j))"
    if "k < ?N" and "p = stored_plan (plans ! k)" for k p
    using drafted_row_read [OF plain that(1) f_def hex] core that unfolding plans_def by blast
  define shown where "shown = sorted_plans (filter (\<lambda>p. plan_approval_status p \<noteq> ''rejected'') (map stored_plan plans))"
  have "plan_approval_status p = ''approved''" if "p \<in> set plans" for p
    using that by (auto simp: plans_def in_set_conv_nth drafted_rows_nth drafted_plan_def Let_def)
  then have mem: "set shown = set (map stored_plan plans)"
    and len: "length shown = ?N"
    by (auto simp: shown_def sorted_plans_def plans_def order_by_def)
  have nth: "\<exists>k<?N. p = stored_plan (plans ! k)" if "p \<in> set shown" for p
    using that unfolding mem by (auto simp: in_set_conv_nth plans_def)
  have "\<exists>nodes. map_result plan_node shown = Inr nodes"
    by (rule map_result_all) (use nth row in \<open>fastforce simp: plan_node_def\<close>)
  moreover have "\<exists>rows. map_result (edges_of shown) shown = Inr rows"
    by (rule map_result_all) (use nth row in \<open>fastforce simp: edges_of_def\<close>)
  ultimately obtain nodes rows where nodes: "map_result plan_node shown = Inr nodes"
    and rows: "map_result (edges_of shown) shown = Inr rows" by blast
  let ?edges = "root_edges shown (concat rows) @ sort (concat rows)"
  have "drafts \<noteq> []"
    using plan_draft_accepts [OF assms(1)] by (simp add: plans_ok_def Let_def assms(2))
  with len have "shown \<noteq> []" by auto
  from render_runs [OF shown_def this nodes rows]
  have drawn: "render_mermaid_from_plans (map stored_plan plans) ob =
      Inr (join NL ([''flowchart TD'', objective_line ob] @ nodes @ map edge_line ?edges))" .
  have there: "stored_plan (plans ! k) \<in> set shown" if "k < ?N" for k
    unfolding mem using that by (simp add: plans_def)
  have node: "\<exists>label. node_line (''P_'' @ uuid k) label \<in> set nodes" if k: "k < ?N" for k
  proof -
    from there [OF k] obtain i where i: "i < length shown" "shown ! i = stored_plan (plans ! k)"
      by (auto simp: in_set_conv_nth)
    have "plan_node (shown ! i) = Inr (nodes ! i)" by (rule map_result_nth [OF nodes i(1)])
    then have "\<exists>label. nodes ! i = node_line (''P_'' @ uuid k) label"
      using row [OF k refl] unfolding i(2) by (auto simp: plan_node_def eq_commute [of "nodes ! i"])
    then show ?thesis using i(1) map_result_length [OF nodes] nth_mem by metis
  qed
  define rank where "rank n = (LEAST j. n = ''P_'' @ uuid j)" for n
  have rank: "rank (''P_'' @ uuid k) = k" if "k < ?N" for k
    unfolding rank_def
  proof (rule Least_equality)
    fix y
    assume "''P_'' @ uuid k = ''P_'' @ uuid y"
    then have "uuid k = uuid y" by simp
    then show "k \<le> y" using uuid_inj [of k y] that by (cases "k \<le> y") auto
  qed simp
  have "(''O'', ''P_'' @ uuid k) \<in> (drawn_edges shown rows)\<^sup>+" if k: "k < ?N" for k
  proof (rule plans_hang_from_objective [OF rows, of rank])
    fix p deps d n
    assume p: "p \<in> set shown" and deps: "plan_dependencies p = Inr deps" "d \<in> set deps" and d: "resolve_ref shown d = Some n"
    from nth [OF p] obtain l where l: "l < ?N" "p = stored_plan (plans ! l)" by blast
    with row [OF l] deps obtain j where j: "j < l" "d = f j" by auto
    then obtain q where q: "q \<in> set shown" "plan_id q = f j" "n = canonical_node_id q"
      using d by (auto simp: resolve_ref_def f_def starts_with_def dest!: last_plan_Some split: if_splits)
    from nth [OF q(1)] obtain m where m: "m < ?N" "q = stored_plan (plans ! m)" by blast
    then have "uuid m = uuid j" using row [OF m] q(2) by (simp add: f_def)
    then have "n = ''P_'' @ uuid j" using row [OF m] q(3) by simp
    then show "rank n < rank (canonical_node_id p)" using rank j(1) l(1) row [OF l] by simp
  next
    show "''P_'' @ uuid k \<in> canonical_node_id ` set shown"
      using row [OF k refl] there [OF k] by (metis imageI)
  qed
  moreover have "drawn_edges shown rows = set ?edges" by (simp add: drawn_edges_def)
  ultimately show ?thesis
    using core drawn node len map_result_length [OF nodes]
    by (intro exI [of _ plans] exI [of _ nodes] exI [of _ ?edges] exI) (auto simp: uuids list_all_iff)
qed


lemma drafted_diagram_connected_witness:
  "\<exists>plans nodes edges.
     render_mermaid_from_plans (map stored_plan plans) (demo_objective OP_EXECUTING) =
       Inr (join NL ([''flowchart TD'', objective_line (demo_objective OP_EXECUTING)] @ nodes @ map edge_line edges))
     \<and> length nodes = 2 \<and> (''O'', ''P_000000000001'') \<in> (set edges)\<^sup>+"
proof -
  let ?s = "(empty_store 0)\<lparr>st_objectives := [demo_objective OP_EXECUTING], st_uuid := \<lambda>n. ''00000000000'' @ dec_nat n\<rparr>"
  let ?drafts = "map dict_of (plans_of (parse_plans (Some demo_payload)))"
  let ?uuids = "[''000000000000'', ''000000000001'']"
  have ok: "plan_draft_validate (parse_plans (Some demo_payload)) = Inr (True, [])" by code_simp
  have len: "length ?drafts = 2" by code_simp
  have there: "''obj_1'' \<in> objective_id ` set (st_objectives ?s)" by (simp add: demo_objective_def)
  have uuids: "?uuids = map (\<lambda>n. st_uuid ?s (st_uuids ?s + n)) [0..<length ?drafts]" by code_simp
  have hex: "list_all hex12 ?uuids" by code_simp
  have fresh: "distinct (map plan_id (st_plans ?s) @ map (\<lambda>u. ''plan_'' @ u) ?uuids)" by (simp add: empty_store_def)
  from drafted_diagram_connected [OF ok refl there uuids hex fresh, of "''skill''" "demo_objective OP_EXECUTING"]
  show ?thesis unfolding len by (elim exE conjE) (intro exI conjI, assumption, simp_all)
qed

end
