(* ===== verification/Run_Service.thy ===== *)
theory Run_Service
  imports Decision_Service Execution_Gate
begin

section \<open>The run service\<close>

text \<open>
  \<open>services/run_service.py\<close> and \<open>services/workspace_policy.py\<close>: one run of a task, from the workspace to the
  decision and its effect on the task. The worker, the project adapters and the validation service
  are arguments: what they do outside the database is not part of the model. A worker is
  the events it reports while it works, and its result or its exception; an event callback that
  raises stops it. Files (the run directory, \<open>report.json\<close>) and telemetry are left out; a path is its text.
\<close>

subsection \<open>Workspaces and workers\<close>

record workspace =
  ws_project_root :: string
  ws_workspace_mode :: string
  ws_source_repo_root :: "string option"
  ws_branch_name :: "string option"
  ws_metadata_files :: "string list"
  ws_environment :: "(string \<times> string) list"
  ws_is_symlink :: bool
  ws_diagnostics :: pydict

record worker =
  wk_name :: string
  wk_reports :: bool
  wk_work :: "Task \<Rightarrow> Run \<Rightarrow> pydict option \<Rightarrow> pydict list \<times> (exn + WorkResult)"

record adapter =
  ad_prepare :: "Project \<Rightarrow> Task \<Rightarrow> Run \<Rightarrow> exn + workspace"
  ad_build_worker :: "(Project \<Rightarrow> Task \<Rightarrow> Run \<Rightarrow> workspace \<Rightarrow> worker \<Rightarrow> exn + worker option) option"

record run_env =
  re_root :: string
  re_adapters :: "string \<Rightarrow> exn + adapter"
  re_worker :: worker
  re_validator :: "(Task \<Rightarrow> Run \<Rightarrow> WorkResult \<Rightarrow> string \<Rightarrow> exn + WorkResult option) option"
  re_resolve :: "string \<Rightarrow> string"

type_synonym announce = "pydict \<Rightarrow> unit op"

text \<open>\<open>WorkspacePolicyEnforcer.validate\<close>.\<close>

definition validate_workspace :: "(string \<Rightarrow> string) \<Rightarrow> Project \<Rightarrow> workspace \<Rightarrow> exn + unit" where
  "validate_workspace resolve project workspace =
     (if project_workspace_policy project = WP_SHARED_ALLOWED then Inr ()
      else if project_workspace_policy project = WP_ISOLATED_PREFERRED then Inr ()
      else case ws_source_repo_root workspace of
        None \<Rightarrow> Inr ()
      | Some source \<Rightarrow>
          let project_root = resolve (ws_project_root workspace);
              source_root = resolve source;
              refuse = (\<lambda>reason. Inl (WorkspacePolicyViolation
                (''Project '' @ project_id project @ '' requires isolated workspaces, but adapter '' @ reason)))
          in if ws_workspace_mode workspace = ''shared_repo''
             then refuse ''returned workspace_mode=shared_repo''
             else if project_root = source_root then refuse ''returned the source repo root directly''
             else if ws_is_symlink workspace \<and> project_root = source_root then refuse ''symlinked the source repo''
             else Inr ())"

subsection \<open>Evidence\<close>

definition report_path :: "string \<Rightarrow> Run \<Rightarrow> string" where
  "report_path base run = base @ ''/runs/'' @ run_id run @ ''/report.json''"

definition diag :: "WorkResult \<Rightarrow> pydict" where
  "diag work = (case wr_diagnostics work of None \<Rightarrow> [] | Some d \<Rightarrow> d)"

definition ensure_failure_evidence :: "string \<Rightarrow> Run \<Rightarrow> WorkResult \<Rightarrow> WorkResult" where
  "ensure_failure_evidence base run work =
     (if wr_outcome work \<noteq> ''blocked'' \<and> wr_outcome work \<noteq> ''failed'' then work
      else if ''report'' \<in> set (map fst (wr_artifacts work)) then work
      else work\<lparr>wr_artifacts := wr_artifacts work
             @ [(''report'', report_path base run, ''Structured failure evidence report'')]\<rparr>)"

definition missing_evidence :: string where
  "missing_evidence = ''Candidate validation did not persist deterministic compile_check and test_check evidence. ''
     @ ''The run cannot be promoted until validation writes those report fields.''"

definition dict_or_none :: "pyval \<Rightarrow> pyval" where
  "dict_or_none v = (if is_dict v then v else PNone)"

definition enforce_validation_evidence :: "WorkResult \<Rightarrow> WorkResult" where
  "enforce_validation_evidence work =
     (let diagnostics = diag work;
          worker_outcome = str_or_empty (dict_get diagnostics ''worker_outcome'');
          compile_check = dict_get diagnostics ''compile_check'';
          test_check = dict_get diagnostics ''test_check''
      in if \<not> (worker_outcome = ''candidate'' \<or> \<not> is_dict compile_check \<or> \<not> is_dict test_check) then work
         else \<lparr>wr_summary = missing_evidence, wr_artifacts = wr_artifacts work, wr_outcome = ''failed'',
                wr_diagnostics = Some (dict_update diagnostics
                  [(''worker_outcome'', PStr ''failed''), (''failure_category'', PStr ''validation_evidence_missing''),
                   (''failure_message'', PStr missing_evidence),
                   (''compile_check'', dict_or_none compile_check), (''test_check'', dict_or_none test_check)])\<rparr>)"

subsection \<open>The status of the task\<close>

definition apply_task_status_for_run :: "string \<Rightarrow> TaskStatus \<Rightarrow> TaskStatus op" where
  "apply_task_status_for_run i status =
     bnd (get_task i) (\<lambda>row.
     case row of
       None \<Rightarrow> raise (ValueError (''Unknown task: '' @ i))
     | Some current \<Rightarrow>
         if task_status current = TS_COMPLETED \<and> status \<noteq> TS_COMPLETED then ret (task_status current)
         else bnd (update_task_status i status) (\<lambda>_. ret status))"

definition attempt_metadata :: "Task \<Rightarrow> Run \<Rightarrow> AnalyzeResult \<Rightarrow> pydict \<Rightarrow> pydict" where
  "attempt_metadata task run analysis diagnostics =
     (let message = py_or (py_or (py_or (dict_get diagnostics ''failure_message'') (dict_get diagnostics ''error''))
            (dict_get diagnostics ''blocked_reason'')) (PStr (ar_summary analysis));
          category = py_strip (str_or_empty (dict_get diagnostics ''failure_category''))
      in (if truthy (dict_get diagnostics ''infrastructure_failure'')
             \<and> \<not> truthy (dict_get diagnostics ''backends_unavailable'')
          then [(''infrastructure_failure'', PDict [(''run_id'', PStr (run_id run)),
                 (''category'', PStr (py_str (py_or (dict_get diagnostics ''failure_category'') (PStr ''executor_failure'')))),
                 (''message'', PStr (py_strip (py_str message)))])]
          else [])
         @ (if category \<in> set [''atomicity_decomposition'', ''policy_self_modification'']
            then [(''atomicity_narrowing'', PDict [(''run_id'', PStr (run_id run)), (''category'', PStr category),
                   (''rationale'', PStr (py_strip (py_str (py_or (dict_get diagnostics ''failure_message'')
                      (PStr (ar_summary analysis))))))])]
            else [])
         @ (if category \<in> set [''validation_timeout'', ''stale_progress_timeout'']
               \<and> task_strategy task \<in> set [''executor_repair'', ''bounded_unblocker'']
            then [(''timeout_narrowing'', PDict [(''run_id'', PStr (run_id run)), (''category'', PStr category),
                   (''timeout_seconds'', dict_get diagnostics ''timeout_seconds'')])]
            else []))"

definition record_attempt_metadata :: "Task \<Rightarrow> Run \<Rightarrow> AnalyzeResult \<Rightarrow> unit op" where
  "record_attempt_metadata task run analysis =
     (case dict_get (ar_details analysis) ''diagnostics'' of
        PDict diagnostics \<Rightarrow>
          let metadata = attempt_metadata task run analysis diagnostics in
          when_do (metadata \<noteq> [])
            (bnd (update_task_attempt_metadata (task_id task) metadata) (\<lambda>_.
             emit ''task'' (task_id task) ''attempt_metadata_recorded'' metadata))
      | _ \<Rightarrow> ret ())"


subsection \<open>Calling the worker\<close>

definition caught :: "unit op \<Rightarrow> exn option op" where
  "caught m = try_except (bnd m (\<lambda>_. ret None)) (\<lambda>e. ret (Some e))"

text \<open>The events of the worker, with the flag of the phase-aware callback.\<close>

fun deliver :: "Run \<Rightarrow> announce \<Rightarrow> bool \<Rightarrow> pydict list \<Rightarrow> (bool \<times> exn option) op" where
  "deliver run progress announced [] = ret (announced, None)"
| "deliver run progress announced (event # events) =
     (let validating = (\<not> announced \<and> dict_get event ''worker_phase'' = PStr ''validating'') in
      bnd (when_do validating
             (bnd (mark_run run RS_VALIDATING ''Compiling and running focused tests.'') (\<lambda>_. ret ()))) (\<lambda>_.
      bnd (caught (progress event)) (\<lambda>stopped.
      case stopped of
        Some e \<Rightarrow> ret (announced \<or> validating, Some e)
      | None \<Rightarrow> deliver run progress (announced \<or> validating) events)))"

definition work_once ::
  "worker \<Rightarrow> Task \<Rightarrow> Run \<Rightarrow> announce \<Rightarrow> bool \<Rightarrow> pydict option \<Rightarrow> (bool \<times> (exn + WorkResult)) op"
where
  "work_once worker task run progress announced hints =
     (case wk_work worker task run hints of
        (events, result) \<Rightarrow>
          bnd (deliver run progress announced (if wk_reports worker then events else [])) (\<lambda>(announced, stopped).
          ret (announced, case stopped of Some e \<Rightarrow> Inl e | None \<Rightarrow> result)))"

definition call_worker :: "worker \<Rightarrow> Task \<Rightarrow> Run \<Rightarrow> announce \<Rightarrow> pydict \<Rightarrow> WorkResult op" where
  "call_worker worker task run progress retry_hints =
     bnd (work_once worker task run progress False (Some retry_hints)) (\<lambda>(announced, result).
     case result of
       Inl (TypeError m) \<Rightarrow>
         bnd (work_once worker task run progress announced None) (\<lambda>(_, result). lift_result result)
     | _ \<Rightarrow> lift_result result)"

subsection \<open>The work phase\<close>

definition as_analysis :: "Evaluation \<Rightarrow> AnalyzeResult" where
  "as_analysis e = \<lparr>ar_verdict = evaluation_verdict e, ar_confidence = evaluation_confidence e,
     ar_summary = evaluation_summary e, ar_details = evaluation_details e\<rparr>"

definition hints_of :: "Evaluation option \<Rightarrow> pydict" where
  "hints_of previous =
     (case previous of
        None \<Rightarrow> []
      | Some e \<Rightarrow>
          (case py_or (dict_get (evaluation_details e) ''diagnostics'') (PDict []) of
             PDict diagnostics \<Rightarrow>
               (case dict_get diagnostics ''retry_hints'' of PDict hints \<Rightarrow> hints | _ \<Rightarrow> [])
           | _ \<Rightarrow> []))"

definition phase_event :: "Task \<Rightarrow> Run \<Rightarrow> string \<Rightarrow> string \<Rightarrow> pydict" where
  "phase_event task run phase detail =
     [(''type'', PStr ''run_phase_changed''), (''task_id'', PStr (task_id task)),
      (''task_title'', PStr (task_title task)), (''run_id'', PStr (run_id run)),
      (''phase'', PStr phase), (''detail'', PStr detail)]"

definition new_run :: "Task \<Rightarrow> int \<Rightarrow> string \<Rightarrow> string option \<Rightarrow> Run op" where
  "new_run task attempt summary branch =
     bnd (new_id ''run'') (\<lambda>i.
     bnd utc_now (\<lambda>created.
     bnd utc_now (\<lambda>updated.
     let run = \<lparr>run_id = i, run_task_id = task_id task, run_status = RS_PLANNING, run_attempt = attempt,
          run_summary = summary, run_branch_id = branch, run_created_at = created, run_updated_at = updated\<rparr>
     in bnd (create_run run) (\<lambda>_. ret run))))"

definition new_artifact :: "Run \<Rightarrow> string \<Rightarrow> string \<Rightarrow> string \<Rightarrow> string op" where
  "new_artifact run kind path summary =
     bnd (new_id ''artifact'') (\<lambda>i.
     bnd utc_now (\<lambda>now.
     bnd (create_artifact \<lparr>artifact_id = i, artifact_run_id = run_id run, artifact_kind = kind,
       artifact_path = path, artifact_summary = summary, artifact_created_at = now\<rparr>) (\<lambda>_. ret i)))"

definition record_artifact :: "Run \<Rightarrow> string \<Rightarrow> string \<Rightarrow> string \<Rightarrow> unit op" where
  "record_artifact run kind path summary =
     bnd (new_artifact run kind path summary) (\<lambda>i.
     emit ''artifact'' i ''artifact_recorded''
       [(''run_id'', PStr (run_id run)), (''kind'', PStr kind), (''path'', PStr path)])"

definition begin_run :: "Task \<Rightarrow> announce \<Rightarrow> (Run \<times> RetryContext option \<times> pydict) op" where
  "begin_run task progress =
     bnd (emit ''task'' (task_id task) ''task_activated'' []) (\<lambda>_.
     bnd (next_attempt (task_id task)) (\<lambda>attempt.
     bnd (list_runs (Some (task_id task))) (\<lambda>prior_runs.
     let previous_run = last_option prior_runs in
     bnd (case previous_run of None \<Rightarrow> ret [] | Some r \<Rightarrow> list_evaluations (run_id r)) (\<lambda>evaluations.
     bnd (case previous_run of None \<Rightarrow> ret [] | Some r \<Rightarrow> list_decisions (run_id r)) (\<lambda>decisions.
     let retry_context = advise task attempt previous_run (map_option as_analysis (last_option evaluations))
           (map_option decision_action (last_option decisions));
         retry_hints = hints_of (last_option evaluations)
     in
     bnd (new_run task attempt ''Run created.'' None) (\<lambda>run.
     bnd (progress [(''type'', PStr ''run_created''), (''task_id'', PStr (task_id task)),
            (''task_title'', PStr (task_title task)), (''run_id'', PStr (run_id run)),
            (''attempt'', PInt attempt)]) (\<lambda>_.
     bnd (emit ''run'' (run_id run) ''run_created''
            [(''task_id'', PStr (task_id task)), (''attempt'', PInt attempt)]) (\<lambda>_.
     ret (run, retry_context, retry_hints)))))))))"

definition prepare_run :: "run_env \<Rightarrow> Project \<Rightarrow> Task \<Rightarrow> Run \<Rightarrow> (worker \<times> workspace) op" where
  "prepare_run env project task run =
     bnd (lift_result (re_adapters env (project_adapter_name project))) (\<lambda>adapter.
     bnd (lift_result (ad_prepare adapter project task run)) (\<lambda>prepared.
     bnd (lift_result (validate_workspace (re_resolve env) project prepared)) (\<lambda>_.
     bnd (for_each (ws_metadata_files prepared)
            (\<lambda>path. record_artifact run ''workspace_metadata'' path ''Prepared project workspace metadata'')) (\<lambda>_.
     bnd (emit ''run'' (run_id run) ''project_workspace_prepared''
            [(''project_id'', PStr (project_id project)), (''project_adapter'', PStr (project_adapter_name project)),
             (''project_root'', PStr (ws_project_root prepared)),
             (''workspace_mode'', PStr (ws_workspace_mode prepared)),
             (''source_repo_root'', opt_val (ws_source_repo_root prepared)),
             (''branch_name'', opt_val (ws_branch_name prepared)),
             (''diagnostics'', PDict (ws_diagnostics prepared))]) (\<lambda>_.
     case ad_build_worker adapter of
       None \<Rightarrow> ret (re_worker env, prepared)
     | Some build \<Rightarrow>
         bnd (lift_result (build project task run prepared (re_worker env))) (\<lambda>override.
         case override of
           None \<Rightarrow> ret (re_worker env, prepared)
         | Some worker \<Rightarrow>
             bnd (emit ''run'' (run_id run) ''project_worker_selected''
                    [(''project_adapter'', PStr (project_adapter_name project)),
                     (''worker_backend'', PStr (wk_name worker))]) (\<lambda>_.
             ret (worker, prepared))))))))"

definition plan_run :: "Task \<Rightarrow> Run \<Rightarrow> RetryContext option \<Rightarrow> announce \<Rightarrow> Run op" where
  "plan_run task run retry_context progress =
     (let plan = plan_task task retry_context;
          context = (case plr_retry_context plan of None \<Rightarrow> [] | Some c \<Rightarrow> c)
      in
      bnd (progress (phase_event task run ''planning'' (plr_summary plan))) (\<lambda>_.
      bnd (emit ''run'' (run_id run) ''planned''
             [(''summary'', PStr (plr_summary plan)), (''retry_context'', PDict context)]) (\<lambda>_.
      bnd (when_do (retry_context \<noteq> None) (emit ''run'' (run_id run) ''retry_strategy_selected'' context)) (\<lambda>_.
      bnd (mark_run run RS_WORKING (plr_summary plan)) (\<lambda>run.
      bnd (progress (phase_event task run ''working''
             ''Executing worker command and waiting for durable artifacts.'')) (\<lambda>_.
      ret run))))))"

definition work_phase :: "run_env \<Rightarrow> Task \<Rightarrow> Project \<Rightarrow> announce \<Rightarrow> (WorkResult \<times> Run \<times> string) op" where
  "work_phase env task project progress =
     bnd (begin_run task progress) (\<lambda>(run, retry_context, retry_hints).
     bnd (prepare_run env project task run) (\<lambda>(worker, prepared).
     bnd (plan_run task run retry_context progress) (\<lambda>run.
     bnd (call_worker worker task run progress retry_hints) (\<lambda>work.
     let work = ensure_failure_evidence (re_root env) run work in
     if truthy (dict_get (diag work) ''backends_unavailable'')
     then
       bnd (mark_run run RS_BLOCKED ''All LLM backends unavailable.'') (\<lambda>run.
       bnd (apply_task_status_for_run (task_id task) TS_PENDING) (\<lambda>_.
       bnd (progress [(''type'', PStr ''backends_unavailable''), (''task_id'', PStr (task_id task)),
              (''run_id'', PStr (run_id run)),
              (''message'', PStr (if dict_has (diag work) ''failure_message''
                 then py_str (dict_get (diag work) ''failure_message'') else []))]) (\<lambda>_.
       ret (work, run, ws_project_root prepared))))
     else ret (work, run, ws_project_root prepared)))))"


subsection \<open>The validation phase\<close>

definition needs_external_validation :: "WorkResult \<Rightarrow> bool" where
  "needs_external_validation work \<longleftrightarrow>
     wr_outcome work = ''success'' \<and> diag work \<noteq> []
     \<and> dict_get (diag work) ''worker_outcome'' = PStr ''candidate''
     \<and> \<not> truthy (dict_get (diag work) ''skip_external_validation'')"

definition validate_candidate ::
  "run_env \<Rightarrow> Task \<Rightarrow> Run \<Rightarrow> WorkResult \<Rightarrow> string \<Rightarrow> announce \<Rightarrow> (Run \<times> WorkResult) op"
where
  "validate_candidate env task run work project_root progress =
     (if \<not> needs_external_validation work then ret (run, work)
      else
        bnd (mark_run run RS_VALIDATING ''Running compile and test validation.'') (\<lambda>run.
        bnd (progress [(''type'', PStr ''run_phase_changed''), (''task_id'', PStr (task_id task)),
               (''run_id'', PStr (run_id run)), (''phase'', PStr ''validating'')]) (\<lambda>_.
        bnd (case re_validator env of
               None \<Rightarrow> ret None
             | Some validate \<Rightarrow> lift_result (validate task run work project_root)) (\<lambda>result.
        ret (run, enforce_validation_evidence (case result of None \<Rightarrow> work | Some w \<Rightarrow> w))))))"

definition record_work :: "Task \<Rightarrow> Run \<Rightarrow> WorkResult \<Rightarrow> announce \<Rightarrow> Run op" where
  "record_work task run work progress =
     bnd (emit ''run'' (run_id run) ''worker_completed''
            [(''outcome'', PStr (wr_outcome work)), (''diagnostics'', PDict (diag work))]) (\<lambda>_.
     bnd (for_each (wr_artifacts work)
            (\<lambda>(kind, path, summary). record_artifact run kind path summary)) (\<lambda>_.
     bnd (mark_run run RS_ANALYZING (wr_summary work)) (\<lambda>run.
     bnd (progress (phase_event task run ''analyzing'' (wr_summary work))) (\<lambda>_.
     ret run))))"

definition analyze_work :: "Task \<Rightarrow> Run \<Rightarrow> WorkResult \<Rightarrow> AnalyzeResult op" where
  "analyze_work task run work =
     (if wr_outcome work = ''blocked'' then ret (analyze_blocked task (wr_diagnostics work))
      else if wr_outcome work = ''failed'' then ret (analyze_failed task (wr_diagnostics work))
      else bnd (list_artifacts (run_id run)) (\<lambda>artifacts. ret (analyze task artifacts)))"

text \<open>The three confidences of the analyzer as floats.\<close>

definition confidence_val :: "rat \<Rightarrow> pyval" where
  "confidence_val c = (if of_int \<lfloor>c * 10\<rfloor> = c * 10 then PFloat \<lfloor>c * 10\<rfloor> (- 1) else PFloat \<lfloor>c * 100\<rfloor> (- 2))"

definition new_evaluation :: "Run \<Rightarrow> AnalyzeResult \<Rightarrow> string op" where
  "new_evaluation run analysis =
     bnd (new_id ''evaluation'') (\<lambda>i.
     bnd utc_now (\<lambda>now.
     bnd (create_evaluation \<lparr>evaluation_id = i, evaluation_run_id = run_id run,
       evaluation_verdict = ar_verdict analysis, evaluation_confidence = ar_confidence analysis,
       evaluation_summary = ar_summary analysis, evaluation_details = ar_details analysis,
       evaluation_created_at = now\<rparr>) (\<lambda>_. ret i)))"

definition record_analysis :: "Task \<Rightarrow> Run \<Rightarrow> AnalyzeResult \<Rightarrow> announce \<Rightarrow> Run op" where
  "record_analysis task run analysis progress =
     bnd (new_evaluation run analysis) (\<lambda>i.
     bnd (emit ''evaluation'' i ''evaluation_recorded''
            [(''run_id'', PStr (run_id run)), (''verdict'', PStr (EvaluationVerdict_value (ar_verdict analysis))),
             (''confidence'', confidence_val (ar_confidence analysis))]) (\<lambda>_.
     bnd (mark_run run RS_DECIDING (ar_summary analysis)) (\<lambda>run.
     bnd (progress (phase_event task run ''deciding'' (ar_summary analysis))) (\<lambda>_.
     ret run))))"

definition new_decision :: "Run \<Rightarrow> DecideResult \<Rightarrow> string op" where
  "new_decision run result =
     bnd (new_id ''decision'') (\<lambda>i.
     bnd utc_now (\<lambda>now.
     bnd (create_decision \<lparr>decision_id = i, decision_run_id = run_id run, decision_action = dr_action result,
       decision_rationale = dr_rationale result, decision_created_at = now\<rparr>) (\<lambda>_. ret i)))"

definition failure_report ::
  "Task \<Rightarrow> Run \<Rightarrow> WorkResult \<Rightarrow> AnalyzeResult \<Rightarrow> DecideResult \<Rightarrow> TaskStatus \<Rightarrow> RunStatus \<Rightarrow> pydict"
where
  "failure_report task run work analysis result task_now final_status =
     (let d = diag work in
      [(''task_id'', PStr (task_id task)), (''task_title'', PStr (task_title task)), (''run_id'', PStr (run_id run)),
       (''attempt'', PInt (run_attempt run)), (''max_attempts'', PInt (task_max_attempts task)),
       (''task_status'', PStr (TaskStatus_value task_now)), (''run_status'', PStr (RunStatus_value final_status)),
       (''decision'', PStr (DecisionAction_value (dr_action result))),
       (''decision_rationale'', PStr (dr_rationale result)),
       (''verdict'', PStr (EvaluationVerdict_value (ar_verdict analysis))),
       (''analysis_summary'', PStr (ar_summary analysis)), (''worker_outcome'', PStr (wr_outcome work)),
       (''failure_category'', PStr (str_or_empty (dict_get d ''failure_category''))),
       (''failure_message'', PStr (str_or_empty (dict_get d ''failure_message''))),
       (''changed_files'', if dict_has d ''changed_files'' then dict_get d ''changed_files'' else PList []),
       (''atomicity_gate'', dict_get d ''atomicity_gate''), (''compile_check'', dict_get d ''compile_check''),
       (''test_check'', dict_get d ''test_check''),
       (''validation_elapsed_seconds'', dict_get d ''validation_elapsed_seconds''),
       (''infrastructure_failure'', PBool (truthy (dict_get d ''infrastructure_failure''))),
       (''backends_unavailable'', PBool (truthy (dict_get d ''backends_unavailable'')))])"

definition conclude_run ::
  "Task \<Rightarrow> Run \<Rightarrow> WorkResult \<Rightarrow> AnalyzeResult \<Rightarrow> DecideResult \<Rightarrow> announce \<Rightarrow> Run op"
where
  "conclude_run task run work analysis result progress =
     (let final_status = final_run_status (ar_verdict analysis) (dr_action result);
          status = final_task_status (dr_action result)
      in
      bnd (mark_run run final_status (dr_rationale result)) (\<lambda>run.
      bnd (apply_task_status_for_run (task_id task) status) (\<lambda>task_now.
      bnd (when_do (task_now = status)
             (emit ''task'' (task_id task) ''task_status_changed''
                [(''status'', PStr (TaskStatus_value status)), (''run_id'', PStr (run_id run))])) (\<lambda>_.
      let report = failure_report task run work analysis result task_now final_status in
      bnd (when_do (task_now \<noteq> TS_COMPLETED)
             (bnd (emit ''run'' (run_id run) ''failure_diagnostic'' report) (\<lambda>_.
              progress (dict_update [(''type'', PStr ''failure_diagnostic'')] report)))) (\<lambda>_.
      ret run)))))"

definition validation_phase ::
  "run_env \<Rightarrow> Task \<Rightarrow> Run \<Rightarrow> WorkResult \<Rightarrow> string \<Rightarrow> announce \<Rightarrow> Run op"
where
  "validation_phase env task run work project_root progress =
     bnd (validate_candidate env task run work project_root progress) (\<lambda>(run, work).
     bnd (record_work task run work progress) (\<lambda>run.
     bnd (analyze_work task run work) (\<lambda>analysis.
     bnd (record_analysis task run analysis progress) (\<lambda>run.
     let result = decide analysis run task in
     bnd (new_decision run result) (\<lambda>i.
     bnd (emit ''decision'' i ''decision_recorded''
            [(''run_id'', PStr (run_id run)), (''action'', PStr (DecisionAction_value (dr_action result)))]) (\<lambda>_.
     bnd (record_attempt_metadata task run analysis) (\<lambda>_.
     conclude_run task run work analysis result progress)))))))"

subsection \<open>One run\<close>

definition run_once_inner :: "run_env \<Rightarrow> Task \<Rightarrow> Project \<Rightarrow> announce \<Rightarrow> Run op" where
  "run_once_inner env task project progress =
     bnd (work_phase env task project progress) (\<lambda>(work, run, project_root).
     if run_status run = RS_BLOCKED then ret run
     else
       bnd (progress [(''type'', PStr ''ready_for_next''), (''task_id'', PStr (task_id task))]) (\<lambda>_.
       validation_phase env task run work project_root progress))"

definition back_to_pending :: "string \<Rightarrow> exn \<Rightarrow> 'a op" where
  "back_to_pending i e =
     bnd (get_task i) (\<lambda>current.
     bnd (when_do (map_option task_status current = Some TS_ACTIVE) (update_task_status i TS_PENDING)) (\<lambda>_.
     raise e))"

definition run_guarded :: "run_env \<Rightarrow> Task \<Rightarrow> Project \<Rightarrow> announce \<Rightarrow> Run op" where
  "run_guarded env task project progress =
     bnd (update_task_status (task_id task) TS_ACTIVE) (\<lambda>_.
     try_except (run_once_inner env task project progress) (back_to_pending (task_id task)))"

definition gate_refuses :: "Task \<Rightarrow> string option op" where
  "gate_refuses task =
     (case task_objective_id task of
        None \<Rightarrow> ret None
      | Some i \<Rightarrow>
          if i = [] \<or> task_bypasses_objective_execution_gate task then ret None
          else bnd (objective_execution_gate i) (\<lambda>gate.
            if gate_ready gate then ret None
            else ret (Some (case List.find (\<lambda>c. \<not> gc_ok c) (gate_checks gate) of
                Some blocking \<Rightarrow> gc_detail blocking
              | None \<Rightarrow> ''Objective execution gate is not satisfied.''))))"

text \<open>The dash in the message about a finished task is U+2014, beyond the characters of the model.\<close>

definition run_once :: "run_env \<Rightarrow> announce \<Rightarrow> string \<Rightarrow> Run op" where
  "run_once env progress i =
     bnd (get_task i) (\<lambda>row.
     case row of
       None \<Rightarrow> raise (ValueError (''Unknown task: '' @ i))
     | Some task \<Rightarrow>
         bnd (gate_refuses task) (\<lambda>refused.
         case refused of
           Some detail \<Rightarrow> raise (ValueError detail)
         | None \<Rightarrow>
             if task_status task \<in> {TS_COMPLETED, TS_FAILED}
             then raise (ValueError (''Task '' @ i @ '' is already '' @ TaskStatus_value (task_status task)
                    @ '' - cannot run again''))
             else
               bnd (get_project (task_project_id task)) (\<lambda>project.
               case project of
                 None \<Rightarrow> raise (ValueError (''Unknown project for task: '' @ task_project_id task))
               | Some p \<Rightarrow> run_guarded env task p progress)))"

end
