(* ===== verification/Run_Props.thy ===== *)
theory Run_Props
  imports Run_Service
begin

section \<open>What the run service guarantees\<close>

text \<open>
  A run that fails gives its task back, a task is completed only by a run with the required
  artifacts, and attempts are counted upwards. The worker, the adapters, the validation service and the
  event callback stay arbitrary; where a callback could interfere with the tables a statement is
  about, it says so.
\<close>

subsection \<open>The status of the task after a failure\<close>

definition status_of :: "string \<Rightarrow> store \<Rightarrow> TaskStatus option" where
  "status_of i s = map_option task_status (find_key task_id i (st_tasks s))"

lemma update_objective_runs: "\<exists>r t. update_objective_phase ob s = (Inr r, t) \<and> st_tasks t = st_tasks s"
  by (simp add: update_objective_phase_def bnd_run utc_now_def ret_run Let_def)

lemma update_task_status_run:
  assumes "status_of i s = Some st" and "validate_task_transition st status = Inr ()"
  shows "\<exists>t. update_task_status i status s = (Inr (), t) \<and> status_of i t = Some status"
proof -
  from assms(1) obtain x where x: "find_key task_id i (st_tasks s) = Some x" "task_status x = st"
    by (auto simp: status_of_def)
  let ?now = "st_clock s (st_ticks s)"
  let ?s = "s\<lparr>st_ticks := Suc (st_ticks s), st_tasks := update_where (\<lambda>y. task_id y = i)
    (\<lambda>y. y\<lparr>task_status := status, task_updated_at := ?now\<rparr>) (st_tasks s)\<rparr>"
  have st: "status_of i ?s = Some status"
    using x find_key_Some [OF x(1)] by (simp add: status_of_def find_key_update)
  have "update_task_status i status s = (case task_objective_id x of None \<Rightarrow> ret ()
     | Some ob \<Rightarrow> if ob = [] then ret () else bnd (update_objective_phase ob) (\<lambda>_. ret ())) ?s"
    using x assms(2) by (simp add: update_task_status_def get_task_def lift_result_run bnd_run utc_now_def)
  moreover obtain r t where "update_objective_phase (the (task_objective_id x)) ?s = (Inr r, t)" "st_tasks t = st_tasks ?s"
    using update_objective_runs by blast
  moreover from this have "status_of i t = Some status" using st by (simp add: status_of_def)
  ultimately show ?thesis
    using st by (cases "task_objective_id x") (auto simp: ret_run bnd_run)
qed

lemma update_task_status_sets:
  assumes "update_task_status i status s = (Inr u, t)"
  shows "status_of i t = Some status"
proof -
  obtain st where st: "status_of i s = Some st" "validate_task_transition st status = Inr ()"
    using assms by (auto simp: update_task_status_def get_task_def status_of_def raise_run bnd_run lift_result_run
        split: option.splits sum.splits)
  from update_task_status_run [OF this] assms show ?thesis by auto
qed

lemma back_to_pending_run:
  "\<exists>t. back_to_pending i e s = (Inl e, t) \<and> status_of i t \<noteq> Some TS_ACTIVE"
proof (cases "status_of i s = Some TS_ACTIVE")
  case True
  have "validate_task_transition TS_ACTIVE TS_PENDING = Inr ()"
    by (simp add: validate_task_transition_def VALID_TASK_TRANSITIONS_def)
  from update_task_status_run [OF True this] obtain t where
    "update_task_status i TS_PENDING s = (Inr (), t)" "status_of i t = Some TS_PENDING" by blast
  with True show ?thesis by (auto simp: back_to_pending_def get_task_def bnd_run raise_run status_of_def)
next
  case False
  then show ?thesis
    by (auto simp: back_to_pending_def get_task_def bnd_run raise_run status_of_def ret_run when_do_def)
qed

lemma gate_refuses_reads: "gate_refuses task s = (r, t) \<Longrightarrow> t = s"
proof -
  have reads: "keeps (\<lambda>s. s) (gate_refuses task)"
    unfolding gate_refuses_def objective_execution_gate_def get_objective_def latest_intent_model_def
      list_intent_models_def list_context_records_def latest_mermaid_artifact_def list_mermaid_artifacts_def Let_def
    by (intro keep_rules)
  show "gate_refuses task s = (r, t) \<Longrightarrow> t = s" by (rule keeps_run [OF reads])
qed

lemma failed_run_outcome:
  assumes "run_once env progress i s = (Inl e, t)"
  shows "t = s \<or> status_of i t \<noteq> Some TS_ACTIVE"
proof (cases "find_key task_id i (st_tasks s)")
  case None
  with assms show ?thesis by (simp add: run_once_def get_task_def raise_run)
next
  case (Some task)
  obtain g u where g: "gate_refuses task s = (g, u)" by fastforce
  have u: "u = s" by (rule gate_refuses_reads [OF g])
  show ?thesis
  proof (cases "g = Inr None \<and> task_status task \<notin> {TS_COMPLETED, TS_FAILED} \<and> find_key project_id (task_project_id task) (st_projects s) \<noteq> None")
    case True
    then obtain p where p: "find_key project_id (task_project_id task) (st_projects s) = Some p"
      by blast
    have id: "task_id task = i" using find_key_Some [OF Some] by simp
    have "run_guarded env task p progress s = (Inl e, t)"
      using assms Some g u True p by (simp add: run_once_def get_task_def bnd_run get_project_def)
    moreover have "validate_task_transition (task_status task) TS_ACTIVE = Inr ()"
      using True by (cases "task_status task") (simp_all add: validate_task_transition_def VALID_TASK_TRANSITIONS_def)
    moreover have "status_of i s = Some (task_status task)" using Some by (simp add: status_of_def)
    ultimately obtain s1 where "update_task_status i TS_ACTIVE s = (Inr (), s1)"
      and run: "run_guarded env task p progress s = (Inl e, t)"
      using update_task_status_run by blast
    then have tried: "try_except (run_once_inner env task p progress) (back_to_pending i) s1 = (Inl e, t)"
      by (simp add: run_guarded_def id bnd_run)
    obtain r s2 where inner: "run_once_inner env task p progress s1 = (r, s2)" by fastforce
    with tried obtain e' where "(back_to_pending i e' :: Run op) s2 = (Inl e, t)"
      by (auto simp: try_except_def split: sum.splits)
    then show ?thesis using back_to_pending_run [where 'a = Run, of i e' s2] by auto
  next
    case False
    then show ?thesis
      using assms Some g u
      by (auto simp: run_once_def get_task_def bnd_run get_project_def raise_run
          split: sum.splits option.splits if_splits prod.splits)
  qed
qed

text \<open>C5. A run that fails gives its task back. Whatever the worker, the adapter, the validation service
  or the event callback does, an exception of \<open>run_once\<close> either leaves the database as it was, because
  the run was refused before it began, or leaves the task in another status than \<open>active\<close>.\<close>

theorem failed_run_gives_task_back:
  assumes "run_once env progress i s = (Inl e, t)"
  shows "t = s \<or> status_of i t \<noteq> Some TS_ACTIVE"
  using assms by (rule failed_run_outcome)


subsection \<open>What the steps of a run leave alone\<close>

text \<open>A part of the store that does not depend on the clock, the identifiers, the events and what is
  updated of the runs.\<close>

definition run_ident :: "Run \<Rightarrow> string \<times> string \<times> int \<times> string option" where
  "run_ident r = (run_id r, run_task_id r, run_attempt r, run_branch_id r)"

definition aside :: "(store \<Rightarrow> 'v) \<Rightarrow> bool" where
  "aside f \<longleftrightarrow> (\<forall>s n. f (s\<lparr>st_ticks := n\<rparr>) = f s) \<and> (\<forall>s n. f (s\<lparr>st_uuids := n\<rparr>) = f s)
     \<and> (\<forall>s es. f (s\<lparr>st_events := es\<rparr>) = f s)
     \<and> (\<forall>s rs. map run_ident rs = map run_ident (st_runs s) \<longrightarrow> f (s\<lparr>st_runs := rs\<rparr>) = f s)"

lemma asideD:
  assumes "aside f"
  shows "f (s\<lparr>st_ticks := n\<rparr>) = f s" and "f (s\<lparr>st_uuids := n\<rparr>) = f s" and "f (s\<lparr>st_events := es\<rparr>) = f s"
    and "map run_ident rs = map run_ident (st_runs s) \<Longrightarrow> f (s\<lparr>st_runs := rs\<rparr>) = f s"
  using assms by (simp_all add: aside_def)

lemma update_run_aside: "aside f \<Longrightarrow> keeps f (update_run r)"
  unfolding update_run_def
  by (rule keeps_writes, rule asideD(4)) (auto simp: update_where_def run_ident_def)

lemma aside_basic [keep_rules]:
  assumes "aside f"
  shows "keeps f utc_now" and "keeps f (new_id p)" and "keeps f (emit a b c d)" and "keeps f (mark_run r st sm)"
  unfolding emit_def mark_run_def create_event_def Let_def
  by (intro keep_rules keeps_try_write utc_now_keeps new_id_keeps update_run_aside assms;
      auto simp: rbind_Inr_iff asideD [OF assms])+

lemma new_run_keeps:
  assumes "aside f" and "\<And>s rs. f (s\<lparr>st_runs := rs\<rparr>) = f s"
  shows "keeps f (new_run task n sm br)"
  unfolding new_run_def create_run_def Let_def
  by (intro keep_rules keeps_try_write assms(1)) (auto simp: rbind_Inr_iff assms(2))

definition quiet :: "(store \<Rightarrow> 'v) \<Rightarrow> announce \<Rightarrow> bool" where
  "quiet f progress \<longleftrightarrow> (\<forall>e. keeps f (progress e))"

lemma quietD: "quiet f progress \<Longrightarrow> keeps f (progress e)"
  by (simp add: quiet_def)

lemma deliver_keeps [keep_rules]:
  assumes "aside f" and "quiet f progress"
  shows "keeps f (deliver run progress b events)"
  by (induction events arbitrary: b)
    (auto simp: Let_def caught_def intro!: keep_rules assms(1) quietD [OF assms(2)])

lemma call_worker_keeps [keep_rules]:
  assumes "aside f" and "quiet f progress"
  shows "keeps f (call_worker w task run progress hints)"
proof -
  have once: "keeps f (work_once w task run progress b h)" for b h
    unfolding work_once_def by (intro keep_rules assms)
  have "keeps f (case e of TypeError m \<Rightarrow> bnd (work_once w task run progress b None) (\<lambda>(_, x). lift_result x)
     | _ \<Rightarrow> lift_result r)" for e r b
    by (cases e) (auto intro!: keep_rules once)
  then show ?thesis
    unfolding call_worker_def by (intro keep_rules once) (simp add: keep_rules split: sum.split)
qed

lemma begin_run_keeps:
  assumes "aside f" and "\<And>s rs. f (s\<lparr>st_runs := rs\<rparr>) = f s" and "quiet f progress"
  shows "keeps f (begin_run task progress)"
  unfolding begin_run_def next_attempt_def list_runs_def list_evaluations_def list_decisions_def Let_def
  by (intro keep_rules new_run_keeps assms(1,2) quietD [OF assms(3)])

lemma phases_keep:
  assumes f: "aside f" and progress: "quiet f progress"
  shows "keeps f (plan_run task run rc progress)" and "keeps f (validate_candidate env task run work base progress)"
    and "keeps f (analyze_work task run work)"
  unfolding plan_run_def validate_candidate_def analyze_work_def list_artifacts_def Let_def
  by (intro keep_rules f quietD [OF progress])+

lemma record_artifact_keeps [keep_rules]:
  assumes "aside f" and "\<And>s xs. f (s\<lparr>st_artifacts := xs\<rparr>) = f s"
  shows "keeps f (record_artifact run k p sm)"
  unfolding record_artifact_def new_artifact_def create_artifact_def
  by (intro keep_rules keeps_try_write assms(1)) (auto simp: rbind_Inr_iff assms(2))

lemma prepare_keeps:
  assumes "aside f" and "\<And>s xs. f (s\<lparr>st_artifacts := xs\<rparr>) = f s"
  shows "keeps f (prepare_run env project task run)"
  unfolding prepare_run_def by (intro keep_rules assms)

lemma record_work_keeps:
  assumes "aside f" and "\<And>s xs. f (s\<lparr>st_artifacts := xs\<rparr>) = f s" and "quiet f progress"
  shows "keeps f (record_work task run work progress)"
  unfolding record_work_def by (intro keep_rules assms(1,2) quietD [OF assms(3)])

lemma record_analysis_keeps:
  assumes "aside f" and "\<And>s xs. f (s\<lparr>st_evaluations := xs\<rparr>) = f s" and "quiet f progress"
  shows "keeps f (record_analysis task run analysis progress)"
  unfolding record_analysis_def new_evaluation_def create_evaluation_def
  by (intro keep_rules keeps_try_write assms(1) quietD [OF assms(3)]) (auto simp: rbind_Inr_iff assms(2))

lemma new_decision_keeps:
  assumes "aside f" and "\<And>s xs. f (s\<lparr>st_decisions := xs\<rparr>) = f s"
  shows "keeps f (new_decision run result)"
  unfolding new_decision_def create_decision_def
  by (intro keep_rules keeps_try_write assms(1)) (auto simp: rbind_Inr_iff assms(2))


lemma new_decision_recorded:
  assumes "new_decision run result s = (Inr i, t)"
  shows "\<exists>d. st_decisions t = st_decisions s @ [d] \<and> decision_run_id d = run_id run \<and> decision_action d = dr_action result"
  using assms
  by (auto simp: new_decision_def create_decision_def bnd_Inr_iff new_id_def utc_now_def ret_run try_write_def
      rbind_Inr_iff insert_fk_Inr split: sum.splits)

lemma run_rows_kept [keep_rules]:
  "keeps st_runs (emit a b c d)" "keeps st_runs (new_decision r x)" "keeps st_runs (update_task_status i st)"
  unfolding emit_def create_event_def new_decision_def create_decision_def update_task_status_def get_task_def
    update_objective_phase_def Let_def
  by (intro keep_rules keeps_try_write keeps_writes new_id_keeps utc_now_keeps; auto simp: rbind_Inr_iff)+

subsection \<open>The outcome of a run\<close>

definition run_tables :: "store \<Rightarrow> Task list \<times> Artifact list \<times> Decision list" where
  "run_tables s = (st_tasks s, st_artifacts s, st_decisions s)"

lemma quiet_tables:
  assumes "quiet run_tables progress"
  shows "quiet st_tasks progress" and "quiet st_artifacts progress" and "quiet st_decisions progress"
    and "quiet (status_of i) progress"
  using assms by (auto simp: quiet_def keeps_def run_tables_def status_of_def)

lemma aside_tables [simp]:
  "aside st_tasks" "aside st_artifacts" "aside st_decisions" "aside (status_of i)"
  by (simp_all add: aside_def status_of_def)

definition kept_tables :: "store \<Rightarrow> Artifact list \<times> Decision list" where
  "kept_tables s = (st_artifacts s, st_decisions s)"

lemma update_status_keeps: "keeps kept_tables (update_task_status i st)"
  unfolding update_task_status_def get_task_def update_objective_phase_def Let_def
  by (intro keep_rules keeps_writes utc_now_keeps; simp add: kept_tables_def)

lemma apply_status_run:
  assumes "status_of i s = Some TS_ACTIVE"
  shows "\<exists>t. apply_task_status_for_run i status s = (Inr status, t) \<and> status_of i t = Some status
    \<and> kept_tables t = kept_tables s"
proof -
  have "validate_task_transition TS_ACTIVE status = Inr ()"
    by (cases status) (simp_all add: validate_task_transition_def VALID_TASK_TRANSITIONS_def)
  from update_task_status_run [OF assms this] obtain t where
    t: "update_task_status i status s = (Inr (), t)" "status_of i t = Some status" by blast
  obtain x where "find_key task_id i (st_tasks s) = Some x" "task_status x = TS_ACTIVE"
    using assms by (auto simp: status_of_def)
  with t have "apply_task_status_for_run i status s = (Inr status, t)"
    by (simp add: apply_task_status_for_run_def get_task_def bnd_run ret_run)
  with t(2) keeps_run [OF update_status_keeps t(1)] show ?thesis by blast
qed

lemma status_of_metadata:
  "status_of i (s\<lparr>st_tasks := update_where (\<lambda>x. task_id x = j)
     (\<lambda>x. x\<lparr>task_attempt_metadata := a, task_updated_at := b\<rparr>) (st_tasks s)\<rparr>) = status_of i s"
  by (cases "find_key task_id i (st_tasks s)") (simp_all add: status_of_def find_key_update)

lemma status_of_ticks: "status_of i (s\<lparr>st_ticks := n\<rparr>) = status_of i s"
  by (simp add: status_of_def)

lemma metadata_keeps:
  "keeps (status_of i) (record_attempt_metadata task run analysis)"
  "keeps kept_tables (record_attempt_metadata task run analysis)"
proof -
  have upd: "keeps (status_of i) (update_task_attempt_metadata j m)" "keeps kept_tables (update_task_attempt_metadata j m)" for j m
    unfolding update_task_attempt_metadata_def get_task_def Let_def
    by (intro keep_rules keeps_writes utc_now_keeps; simp add: status_of_metadata status_of_ticks kept_tables_def)+
  have aside: "aside (status_of i)" "aside kept_tables" by (simp_all add: aside_def kept_tables_def status_of_def)
  show "keeps (status_of i) (record_attempt_metadata task run analysis)"
    "keeps kept_tables (record_attempt_metadata task run analysis)"
    unfolding record_attempt_metadata_def Let_def
    by (cases "dict_get (ar_details analysis) ''diagnostics''"; simp; intro keep_rules upd aside)+
qed

lemma mark_run_result: "mark_run run st sm s = (Inr r, t) \<Longrightarrow>
    run_id r = run_id run \<and> run_attempt r = run_attempt run \<and> run_branch_id r = run_branch_id run \<and> run_status r = st"
  by (auto simp: mark_run_def bnd_run utc_now_def ret_run update_run_def)

lemma mark_run_ident: "mark_run run st sm s = (Inr r, t) \<Longrightarrow> run_ident r = run_ident run"
  by (auto simp: mark_run_def bnd_run utc_now_def ret_run update_run_def run_ident_def)

lemma conclude_run_outcome:
  assumes run: "conclude_run task run work analysis result progress s = (Inr r, t)"
    and active: "status_of (task_id task) s = Some TS_ACTIVE" and quiet: "quiet run_tables progress"
  shows "run_id r = run_id run \<and> run_attempt r = run_attempt run \<and> run_branch_id r = run_branch_id run
    \<and> run_status r = final_run_status (ar_verdict analysis) (dr_action result)
    \<and> status_of (task_id task) t = Some (final_task_status (dr_action result))
    \<and> kept_tables t = kept_tables s"
proof -
  let ?both = "\<lambda>s. (status_of (task_id task) s, kept_tables s)"
  have aside: "aside ?both" by (simp add: aside_def kept_tables_def status_of_def)
  have q: "quiet ?both progress" using quiet by (auto simp: quiet_def keeps_def run_tables_def kept_tables_def status_of_def)
  from run obtain s1 where m: "mark_run run (final_run_status (ar_verdict analysis) (dr_action result)) (dr_rationale result) s = (Inr r, s1)"
    and rest: "bnd (apply_task_status_for_run (task_id task) (final_task_status (dr_action result))) (\<lambda>task_now.
      bnd (when_do (task_now = final_task_status (dr_action result))
             (emit ''task'' (task_id task) ''task_status_changed''
                [(''status'', PStr (TaskStatus_value (final_task_status (dr_action result)))), (''run_id'', PStr (run_id r))])) (\<lambda>_.
      bnd (when_do (task_now \<noteq> TS_COMPLETED)
             (bnd (emit ''run'' (run_id r) ''failure_diagnostic'' (failure_report task r work analysis result task_now
                (final_run_status (ar_verdict analysis) (dr_action result)))) (\<lambda>_.
              progress (dict_update [(''type'', PStr ''failure_diagnostic'')] (failure_report task r work analysis result task_now
                (final_run_status (ar_verdict analysis) (dr_action result))))))) (\<lambda>_. ret r))) s1 = (Inr r, t)"
    unfolding conclude_run_def Let_def by (auto simp: bnd_Inr_iff ret_run)
  have s1: "?both s1 = ?both s" by (rule keeps_run [OF aside_basic(4) [OF aside] m])
  with active obtain s2 where s2: "apply_task_status_for_run (task_id task) (final_task_status (dr_action result)) s1
      = (Inr (final_task_status (dr_action result)), s2)" "status_of (task_id task) s2 = Some (final_task_status (dr_action result))"
      "kept_tables s2 = kept_tables s1"
    using apply_status_run [of "task_id task" s1] by auto
  have "keeps ?both (bnd (when_do b (emit w x y z)) (\<lambda>_. bnd (when_do c (bnd (emit w' x' y' z') (\<lambda>_. progress e))) (\<lambda>_. ret r)))"
    for b c w x y z w' x' y' z' e
    by (intro keep_rules aside quietD [OF q])
  note tail = this
  from rest show ?thesis
  proof (rule bnd_InrE)
    fix a u
    assume a: "apply_task_status_for_run (task_id task) (final_task_status (dr_action result)) s1 = (Inr a, u)"
      and rest: "bnd (when_do (a = final_task_status (dr_action result))
             (emit ''task'' (task_id task) ''task_status_changed''
                [(''status'', PStr (TaskStatus_value (final_task_status (dr_action result)))), (''run_id'', PStr (run_id r))])) (\<lambda>_.
      bnd (when_do (a \<noteq> TS_COMPLETED)
             (bnd (emit ''run'' (run_id r) ''failure_diagnostic'' (failure_report task r work analysis result a
                (final_run_status (ar_verdict analysis) (dr_action result)))) (\<lambda>_.
              progress (dict_update [(''type'', PStr ''failure_diagnostic'')] (failure_report task r work analysis result a
                (final_run_status (ar_verdict analysis) (dr_action result))))))) (\<lambda>_. ret r)) u = (Inr r, t)"
    show ?thesis using keeps_run [OF tail rest] a s1 s2 mark_run_result [OF m] by simp
  qed
qed


lemma work_phase_outcome:
  assumes run: "work_phase env task project progress s = (Inr (work, run, base), t)"
    and active: "status_of (task_id task) s = Some TS_ACTIVE" and quiet: "quiet run_tables progress"
  shows "st_decisions t = st_decisions s \<and>
    (if run_status run = RS_BLOCKED then status_of (task_id task) t = Some TS_PENDING
     else status_of (task_id task) t = Some TS_ACTIVE)"
proof -
  let ?both = "\<lambda>s. (status_of (task_id task) s, st_decisions s)"
  have aside: "aside ?both" by (simp add: aside_def status_of_def)
  have arts: "\<And>s xs. ?both (s\<lparr>st_artifacts := xs\<rparr>) = ?both s" by (simp add: status_of_def)
  have runs: "\<And>s xs. ?both (s\<lparr>st_runs := xs\<rparr>) = ?both s" by (simp add: status_of_def)
  have q: "quiet ?both progress" using quiet by (auto simp: quiet_def keeps_def run_tables_def status_of_def)
  from run obtain r0 rc h s1 w ws s2 r1 s3 wk s4 where steps:
    "begin_run task progress s = (Inr (r0, rc, h), s1)" "prepare_run env project task r0 s1 = (Inr (w, ws), s2)"
    "plan_run task r0 rc progress s2 = (Inr r1, s3)" "call_worker w task r1 progress h s3 = (Inr wk, s4)"
    and rest: "(let work = ensure_failure_evidence (re_root env) r1 wk in
     if truthy (dict_get (diag work) ''backends_unavailable'')
     then
       bnd (mark_run r1 RS_BLOCKED ''All LLM backends unavailable.'') (\<lambda>run.
       bnd (apply_task_status_for_run (task_id task) TS_PENDING) (\<lambda>_.
       bnd (progress [(''type'', PStr ''backends_unavailable''), (''task_id'', PStr (task_id task)),
              (''run_id'', PStr (run_id run)),
              (''message'', PStr (if dict_has (diag work) ''failure_message''
                 then py_str (dict_get (diag work) ''failure_message'') else []))]) (\<lambda>_.
       ret (work, run, ws_project_root ws))))
     else ret (work, r1, ws_project_root ws)) s4 = (Inr (work, run, base), t)"
    unfolding work_phase_def by (fastforce elim!: bnd_InrE)
  have "?both s4 = ?both s"
    using keeps_run [OF begin_run_keeps [OF aside runs q] steps(1)] keeps_run [OF prepare_keeps [OF aside arts] steps(2)]
      keeps_run [OF phases_keep(1) [OF aside q] steps(3)] keeps_run [OF call_worker_keeps [OF aside q] steps(4)] by simp
  then have s4: "status_of (task_id task) s4 = Some TS_ACTIVE" "st_decisions s4 = st_decisions s" using active by simp_all
  have r1: "run_status r1 = RS_WORKING"
    using steps(3) unfolding plan_run_def Let_def by (auto elim!: bnd_InrE simp: ret_run dest!: mark_run_result)
  show ?thesis
  proof (cases "truthy (dict_get (diag (ensure_failure_evidence (re_root env) r1 wk)) ''backends_unavailable'')")
    case True
    with rest obtain s5 u s6 e v where m: "mark_run r1 RS_BLOCKED ''All LLM backends unavailable.'' s4 = (Inr run, s5)"
      and a: "apply_task_status_for_run (task_id task) TS_PENDING s5 = (Inr u, s6)"
      and p: "progress e s6 = (Inr v, t)"
      by (auto elim!: bnd_InrE simp: ret_run Let_def)
    have s5: "?both s5 = ?both s4" by (rule keeps_run [OF aside_basic(4) [OF aside] m])
    with s4 apply_status_run [of "task_id task" s5 TS_PENDING] a
    have "status_of (task_id task) s6 = Some TS_PENDING" "kept_tables s6 = kept_tables s5" by auto
    moreover have "?both t = ?both s6" by (rule keeps_run [OF quietD [OF q] p])
    ultimately show ?thesis using mark_run_result [OF m] s5 s4 by (simp add: kept_tables_def)
  next
    case False
    with rest have "run = r1" "t = s4" by (simp_all add: ret_run Let_def)
    then show ?thesis using r1 s4 by simp
  qed
qed

text \<open>The run has the artifacts its task requires.\<close>

definition has_required_artifacts :: "Task \<Rightarrow> string \<Rightarrow> store \<Rightarrow> bool" where
  "has_required_artifacts task run s \<longleftrightarrow>
     (let kinds = map artifact_kind (filter (\<lambda>a. artifact_run_id a = run) (st_artifacts s)) in
      kinds \<noteq> [] \<and> set (task_required_artifacts task) \<subseteq> set kinds)"

lemma promoted_has_artifacts:
  assumes "analyze_work task run work s = (Inr analysis, t)" and "dr_action (decide analysis r task) = DA_PROMOTE"
  shows "has_required_artifacts task (run_id run) s"
proof -
  have "ar_verdict analysis = EV_ACCEPTABLE"
    using assms(2) by (auto simp: decide_def split: if_splits)
  with assms(1) have analysis: "analysis = analyze task (order_by artifact_created_at
      (filter (\<lambda>a. artifact_run_id a = run_id run) (st_artifacts s)))"
    and acc: "ar_verdict analysis = EV_ACCEPTABLE"
    by (auto simp: analyze_work_def ret_run analyze_blocked_def analyze_failed_def Let_def list_artifacts_def
        split: if_splits)
  have sorted_nil: "sort (remdups xs) = [] \<Longrightarrow> xs = []" for xs :: "string list"
    by (metis length_0_conv length_sort remdups_eq_nil_iff)
  define as where "as = filter (\<lambda>a. artifact_run_id a = run_id run) (st_artifacts s)"
  have "set (map artifact_kind (order_by artifact_created_at as)) = set (map artifact_kind as)" by simp
  moreover have "as \<noteq> []" "filter (\<lambda>k. k \<notin> set (map artifact_kind (order_by artifact_created_at as))) (task_required_artifacts task) = []"
    using analysis acc sorted_nil by (auto simp: analyze_def Let_def as_def [symmetric] split: if_splits)
  ultimately show ?thesis
    by (auto simp: has_required_artifacts_def Let_def as_def [symmetric] filter_empty_conv)
qed


text \<open>What is settled when the validation phase has returned.\<close>

definition settled_by :: "Task \<Rightarrow> Run \<Rightarrow> Decision \<Rightarrow> store \<Rightarrow> bool" where
  "settled_by task r d t \<longleftrightarrow> (\<exists>analysis. decision_run_id d = run_id r
     \<and> decision_action d = dr_action (decide analysis r task)
     \<and> run_status r = final_run_status (ar_verdict analysis) (decision_action d)
     \<and> status_of (task_id task) t = Some (final_task_status (decision_action d))
     \<and> (decision_action d = DA_PROMOTE \<longrightarrow> has_required_artifacts task (run_id r) t))"

definition settled_run :: "Task \<Rightarrow> Run \<Rightarrow> store \<Rightarrow> bool" where
  "settled_run task r t \<longleftrightarrow> (\<exists>d\<in>set (st_decisions t). settled_by task r d t)"

lemma decide_cong: "run_attempt r = run_attempt r' \<Longrightarrow> run_branch_id r = run_branch_id r' \<Longrightarrow> decide a r task = decide a r' task"
  by (simp add: decide_def)

lemma has_required_cong: "st_artifacts s = st_artifacts t \<Longrightarrow> has_required_artifacts task i s = has_required_artifacts task i t"
  by (simp add: has_required_artifacts_def)

lemma validation_phase_outcome:
  assumes run: "validation_phase env task run work base progress s = (Inr r, t)"
    and active: "status_of (task_id task) s = Some TS_ACTIVE" and quiet: "quiet run_tables progress"
  shows "\<exists>d. st_decisions t = st_decisions s @ [d] \<and> settled_by task r d t"
proof -
  let ?st = "status_of (task_id task)"
  note q = quiet_tables [OF quiet]
  have run_same: "run_id r2 = run_id r1 \<and> run_attempt r2 = run_attempt r1 \<and> run_branch_id r2 = run_branch_id r1"
    if "record_analysis task r1 a progress u = (Inr r2, v)" for r1 r2 a u v
    using that unfolding record_analysis_def by (auto elim!: bnd_InrE simp: ret_run dest!: mark_run_result)
  from run obtain r1 w s1 r2 s2 a s3 r3 s4 i s5 u s6 v s7 where steps:
    "validate_candidate env task run work base progress s = (Inr (r1, w), s1)"
    "record_work task r1 w progress s1 = (Inr r2, s2)" "analyze_work task r2 w s2 = (Inr a, s3)"
    "record_analysis task r2 a progress s3 = (Inr r3, s4)"
    "new_decision r3 (decide a r3 task) s4 = (Inr i, s5)"
    "emit ''decision'' i ''decision_recorded'' [(''run_id'', PStr (run_id r3)),
       (''action'', PStr (DecisionAction_value (dr_action (decide a r3 task))))] s5 = (Inr u, s6)"
    "record_attempt_metadata task r3 a s6 = (Inr v, s7)"
    "conclude_run task r3 w a (decide a r3 task) progress s7 = (Inr r, t)"
    unfolding validation_phase_def Let_def by (fastforce elim!: bnd_InrE)
  have "?st s7 = ?st s"
    using keeps_run [OF phases_keep(2) [OF aside_tables(4) q(4)] steps(1)]
      keeps_run [OF record_work_keeps [OF aside_tables(4) _ q(4)] steps(2)]
      keeps_run [OF phases_keep(3) [OF aside_tables(4) q(4)] steps(3)]
      keeps_run [OF record_analysis_keeps [OF aside_tables(4) _ q(4)] steps(4)]
      keeps_run [OF new_decision_keeps [OF aside_tables(4)] steps(5)]
      keeps_run [OF aside_basic(3) [OF aside_tables(4)] steps(6)] keeps_run [OF metadata_keeps(1) steps(7)]
    by (simp add: status_of_def)
  then have s7: "?st s7 = Some TS_ACTIVE" using active by simp
  from conclude_run_outcome [OF steps(8) s7 quiet] have fin: "run_id r = run_id r3" "run_attempt r = run_attempt r3"
    "run_branch_id r = run_branch_id r3" "run_status r = final_run_status (ar_verdict a) (dr_action (decide a r3 task))"
    "?st t = Some (final_task_status (dr_action (decide a r3 task)))" "kept_tables t = kept_tables s7" by auto
  have tables: "kept_tables s7 = kept_tables s6" by (rule keeps_run [OF metadata_keeps(2) steps(7)])
  have dec6: "st_decisions s6 = st_decisions s5" "st_artifacts s6 = st_artifacts s5"
    using keeps_run [OF aside_basic(3) [OF aside_tables(3)] steps(6)] keeps_run [OF aside_basic(3) [OF aside_tables(2)] steps(6)]
    by simp_all
  have arts: "st_artifacts s5 = st_artifacts s3"
    using keeps_run [OF new_decision_keeps [OF aside_tables(2)] steps(5)]
      keeps_run [OF record_analysis_keeps [OF aside_tables(2) _ q(2)] steps(4)] by simp
  have s3: "s3 = s2" using steps(3) by (auto simp: analyze_work_def ret_run list_artifacts_def split: if_splits)
  have dec4: "st_decisions s4 = st_decisions s"
    using keeps_run [OF phases_keep(2) [OF aside_tables(3) q(3)] steps(1)]
      keeps_run [OF record_work_keeps [OF aside_tables(3) _ q(3)] steps(2)]
      keeps_run [OF phases_keep(3) [OF aside_tables(3) q(3)] steps(3)]
      keeps_run [OF record_analysis_keeps [OF aside_tables(3) _ q(3)] steps(4)] by simp
  from new_decision_recorded [OF steps(5)] obtain d where d: "st_decisions s5 = st_decisions s4 @ [d]" "decision_run_id d = run_id r3"
    "decision_action d = dr_action (decide a r3 task)" by blast
  have "has_required_artifacts task (run_id r) t" if "decision_action d = DA_PROMOTE"
  proof -
    have "has_required_artifacts task (run_id r2) s2"
      using promoted_has_artifacts [OF steps(3)] that d(3) run_same [OF steps(4)] decide_cong [of r3 r2 a task] by simp
    moreover have "st_artifacts t = st_artifacts s2" using fin(6) tables dec6 arts s3 by (simp add: kept_tables_def)
    ultimately show ?thesis using has_required_cong fin(1) run_same [OF steps(4)] by metis
  qed
  moreover have "st_decisions t = st_decisions s @ [d]" using d(1) fin(6) tables dec6 dec4 by (simp add: kept_tables_def)
  moreover have "decide a r3 task = decide a r task" by (rule decide_cong) (simp_all add: fin)
  ultimately show ?thesis
    unfolding settled_by_def using d fin by (intro exI [of _ d] conjI exI [of _ a]) simp_all
qed


text \<open>The steps of an accepted run that returns.\<close>

lemma run_once_steps:
  assumes "run_once env progress i s = (Inr r, t)"
  obtains task project s1 work r1 base s2 where "find_key task_id i (st_tasks s) = Some task" and "task_id task = i"
    and "update_task_status i TS_ACTIVE s = (Inr (), s1)"
    and "work_phase env task project progress s1 = (Inr (work, r1, base), s2)"
    and "(if run_status r1 = RS_BLOCKED then ret r1
     else bnd (progress [(''type'', PStr ''ready_for_next''), (''task_id'', PStr (task_id task))]) (\<lambda>_.
       validation_phase env task r1 work base progress)) s2 = (Inr r, t)"
proof -
  obtain task where task: "find_key task_id i (st_tasks s) = Some task"
    using assms by (cases "find_key task_id i (st_tasks s)") (simp_all add: run_once_def get_task_def raise_run)
  have id: "task_id task = i" using find_key_Some [OF task] by simp
  obtain g u where g: "gate_refuses task s = (g, u)" by fastforce
  have u: "u = s" by (rule gate_refuses_reads [OF g])
  from assms task g u obtain p where status: "task_status task \<notin> {TS_COMPLETED, TS_FAILED}"
    and run: "run_guarded env task p progress s = (Inr r, t)"
    by (auto simp: run_once_def get_task_def bnd_run get_project_def raise_run
        split: sum.splits option.splits if_splits prod.splits)
  have "validate_task_transition (task_status task) TS_ACTIVE = Inr ()"
    using status by (cases "task_status task") (simp_all add: validate_task_transition_def VALID_TASK_TRANSITIONS_def)
  with update_task_status_run [of i s "task_status task" TS_ACTIVE] task obtain s1 where
    s1: "update_task_status i TS_ACTIVE s = (Inr (), s1)" by (auto simp: status_of_def)
  have "try_except (run_once_inner env task p progress) (back_to_pending i) s1 = (Inr r, t)"
    using run s1 by (simp add: run_guarded_def id bnd_run)
  moreover have "(back_to_pending i e :: Run op) v \<noteq> (Inr r, t)" for e v
    using back_to_pending_run [where 'a = Run, of i e v] by auto
  ultimately have "run_once_inner env task p progress s1 = (Inr r, t)"
    by (auto simp: try_except_def split: prod.splits sum.splits)
  then show ?thesis
    unfolding run_once_inner_def by (elim bnd_InrE) (auto intro: that [OF task id s1])
qed

lemma run_once_outcome:
  assumes "run_once env progress i s = (Inr r, t)" and "find_key task_id i (st_tasks s) = Some task"
    and "quiet run_tables progress"
  shows "(run_status r = RS_BLOCKED \<and> status_of i t = Some TS_PENDING \<and> st_decisions t = st_decisions s)
    \<or> (\<exists>d. st_decisions t = st_decisions s @ [d] \<and> settled_by task r d t)"
proof -
  obtain task' project s1 work r1 base s2 where there: "find_key task_id i (st_tasks s) = Some task'" and id': "task_id task' = i"
    and s1: "update_task_status i TS_ACTIVE s = (Inr (), s1)"
    and w: "work_phase env task' project progress s1 = (Inr (work, r1, base), s2)"
    and rest: "(if run_status r1 = RS_BLOCKED then ret r1
     else bnd (progress [(''type'', PStr ''ready_for_next''), (''task_id'', PStr (task_id task'))]) (\<lambda>_.
       validation_phase env task' r1 work base progress)) s2 = (Inr r, t)"
    by (rule run_once_steps [OF assms(1)])
  have same: "task' = task" using there assms(2) by simp
  note id = id' [unfolded same] and w = w [unfolded same] and rest = rest [unfolded same]
  have dec: "st_decisions s1 = st_decisions s" using keeps_run [OF update_status_keeps s1] by (simp add: kept_tables_def)
  note active = update_task_status_sets [OF s1]
  have wo: "st_decisions s2 = st_decisions s1 \<and> (if run_status r1 = RS_BLOCKED then status_of i s2 = Some TS_PENDING
      else status_of i s2 = Some TS_ACTIVE)"
    using work_phase_outcome [OF w, unfolded id, OF active assms(3)] by simp
  show ?thesis
  proof (cases "run_status r1 = RS_BLOCKED")
    case True
    with rest wo dec show ?thesis by (simp add: ret_run)
  next
    case False
    with rest obtain v s3 e where p: "progress e s2 = (Inr v, s3)"
      and val: "validation_phase env task r1 work base progress s3 = (Inr r, t)"
      by (auto elim!: bnd_InrE)
    have "status_of i s3 = Some TS_ACTIVE" "st_decisions s3 = st_decisions s"
      using keeps_run [OF quietD [OF quiet_tables(4) [OF assms(3)]] p] keeps_run [OF quietD [OF quiet_tables(3) [OF assms(3)]] p]
        wo False dec by simp_all
    then show ?thesis using validation_phase_outcome [OF val, unfolded id, OF _ assms(3)] by simp
  qed
qed

text \<open>C4. A run settles its task. If \<open>run_once\<close> returns a run \<open>r\<close> of a task and the event callback leaves the
  tasks, artifacts and decisions alone, there are two outcomes. Either no backend was available:
  the run is blocked, the task is pending again and no decision was recorded. Or a decision
  of the run is recorded, taken by the decision table for some analysis, and the statuses of the run and
  of the task are those that go with it; and when it promotes, so that the task is completed, the run has
  recorded artifacts, among them one of every kind the task requires. The worker's own word that it
  succeeded is never enough.\<close>

theorem run_settles_task:
  assumes "run_once env progress i s = (Inr r, t)" and "find_key task_id i (st_tasks s) = Some task"
    and "quiet run_tables progress"
  shows "(run_status r = RS_BLOCKED \<and> status_of i t = Some TS_PENDING \<and> st_decisions t = st_decisions s)
    \<or> settled_run task r t"
  using run_once_outcome [OF assms] by (auto simp: settled_run_def)

subsection \<open>A concrete run\<close>

text \<open>A worker that writes a plan and a report, and one that says it succeeded without them.\<close>

definition demo_worker :: "string list \<Rightarrow> worker" where
  "demo_worker kinds = \<lparr>wk_name = ''demo'', wk_reports = True,
     wk_work = (\<lambda>task run hints. ([[(''worker_phase'', PStr ''validating'')]],
       Inr \<lparr>wr_summary = ''done'', wr_artifacts = map (\<lambda>k. (k, k, k)) kinds, wr_outcome = ''success'',
            wr_diagnostics = None\<rparr>))\<rparr>"

definition demo_env :: "worker \<Rightarrow> run_env" where
  "demo_env w = \<lparr>re_root = ''ws'', re_adapters = (\<lambda>_. Inr \<lparr>ad_prepare = (\<lambda>p task run. Inr
       \<lparr>ws_project_root = ''root'', ws_workspace_mode = ''ephemeral_dir'', ws_source_repo_root = None,
        ws_branch_name = None, ws_metadata_files = [], ws_environment = [], ws_is_symlink = False, ws_diagnostics = []\<rparr>),
       ad_build_worker = None\<rparr>),
     re_worker = w, re_validator = None, re_resolve = (\<lambda>x. x)\<rparr>"

definition demo_project :: Project where
  "demo_project = \<lparr>project_id = ''project_1'', project_name = ''p'', project_description = [],
     project_adapter_name = ''generic'', project_workspace_policy = WP_ISOLATED_REQUIRED,
     project_promotion_mode = PM_BRANCH_AND_PR, project_repo_provider = None, project_repo_name = None,
     project_base_branch = ''main'', project_max_concurrent_tasks = 1, project_created_at = 0\<rparr>"

definition demo_runs :: store where
  "demo_runs = (empty_store 0)\<lparr>st_projects := [demo_project], st_tasks := [sample_task\<lparr>task_status := TS_PENDING\<rparr>]\<rparr>"

definition silent :: announce where
  "silent e = ret ()"

lemma quiet_silent [simp]: "quiet f silent"
  by (simp add: quiet_def silent_def keeps_ret)


end
