(* ===== verification/Run_Liveness.thy ===== *)
theory Run_Liveness
  imports Run_Props
begin

section \<open>When a run returns\<close>

text \<open>
  \<open>run_once\<close> raises only for a reason: when the run is not refused, the new identifiers are new, and the
  adapter, the worker, the validation service and the event callback return, then it returns too. The
  judgement \<open>returns P m Q\<close> says that \<open>m\<close>, started where \<open>P\<close> holds, returns and leaves \<open>Q\<close>.
\<close>

named_theorems return_rules \<open>composition rules for returns\<close>

definition returns :: "('s \<Rightarrow> bool) \<Rightarrow> ('s, 'a) prog \<Rightarrow> ('a \<Rightarrow> 's \<Rightarrow> bool) \<Rightarrow> bool" where
  "returns P m Q \<longleftrightarrow> (\<forall>s. P s \<longrightarrow> (\<exists>a t. m s = (Inr a, t) \<and> Q a t))"

lemma returnsD: "returns P m Q \<Longrightarrow> P s \<Longrightarrow> \<exists>a t. m s = (Inr a, t) \<and> Q a t"
  by (simp add: returns_def)

lemma returns_bnd: "returns P m Q \<Longrightarrow> (\<And>a. returns (Q a) (k a) R) \<Longrightarrow> returns P (bnd m k) R"
  unfolding returns_def bnd_run by fastforce

lemma returns_ret: "(\<And>s. P s \<Longrightarrow> Q a s) \<Longrightarrow> returns P (ret a) Q"
  by (simp add: returns_def ret_run)

lemma returns_weaken: "returns P m Q \<Longrightarrow> (\<And>a s. Q a s \<Longrightarrow> R a s) \<Longrightarrow> returns P m R"
  unfolding returns_def by blast

text \<open>The common case: a property that every step keeps.\<close>

definition keeps_going :: "('s \<Rightarrow> bool) \<Rightarrow> ('s, 'a) prog \<Rightarrow> bool" where
  "keeps_going P m \<longleftrightarrow> returns P m (\<lambda>_. P)"

lemma going_bnd [return_rules]: "keeps_going P m \<Longrightarrow> (\<And>a. keeps_going P (k a)) \<Longrightarrow> keeps_going P (bnd m k)"
  unfolding keeps_going_def by (rule returns_bnd)

lemma going_ret [return_rules]: "keeps_going P (ret a)"
  by (simp add: keeps_going_def returns_ret)

lemma going_reads [return_rules]: "keeps_going P (reads f)"
  by (simp add: keeps_going_def returns_def)

lemma going_lift [return_rules]: "\<exists>a. r = Inr a \<Longrightarrow> keeps_going P (lift_result r)"
  by (auto simp: keeps_going_def returns_def lift_result_run)

lemma going_when [return_rules]: "(b \<Longrightarrow> keeps_going P m) \<Longrightarrow> keeps_going P (when_do b m)"
  by (cases b) (simp_all add: going_ret)

lemma going_if [return_rules]:
  "(b \<Longrightarrow> keeps_going P m) \<Longrightarrow> (\<not> b \<Longrightarrow> keeps_going P m') \<Longrightarrow> keeps_going P (if b then m else m')"
  by simp

lemma going_prod [return_rules]: "(\<And>a b. keeps_going P (g a b)) \<Longrightarrow> keeps_going P (case p of (a, b) \<Rightarrow> g a b)"
  by (cases p) simp

lemma going_option [return_rules]:
  "(x = None \<Longrightarrow> keeps_going P m) \<Longrightarrow> (\<And>a. x = Some a \<Longrightarrow> keeps_going P (g a))
   \<Longrightarrow> keeps_going P (case x of None \<Rightarrow> m | Some a \<Rightarrow> g a)"
  by (cases x) simp_all

lemma going_for_each [return_rules]: "(\<And>x. x \<in> set xs \<Longrightarrow> keeps_going P (body x)) \<Longrightarrow> keeps_going P (for_each xs body)"
  by (induction xs) (auto intro!: return_rules)

lemma goingD: "keeps_going P m \<Longrightarrow> P s \<Longrightarrow> \<exists>a t. m s = (Inr a, t) \<and> P t"
  unfolding keeps_going_def by (rule returnsD)

subsection \<open>New identifiers and rows that are there\<close>

definition fresh :: "store \<Rightarrow> bool" where
  "fresh s \<longleftrightarrow> inj (st_uuid s) \<and> (\<forall>n\<ge>st_uuids s.
     ''event_'' @ st_uuid s n \<notin> event_id ` set (st_events s)
     \<and> ''run_'' @ st_uuid s n \<notin> run_id ` set (st_runs s)
     \<and> ''artifact_'' @ st_uuid s n \<notin> artifact_id ` set (st_artifacts s)
     \<and> ''evaluation_'' @ st_uuid s n \<notin> evaluation_id ` set (st_evaluations s)
     \<and> ''decision_'' @ st_uuid s n \<notin> decision_id ` set (st_decisions s))"

definition ready :: "string \<Rightarrow> string set \<Rightarrow> store \<Rightarrow> bool" where
  "ready i rs s \<longleftrightarrow> fresh s \<and> status_of i s = Some TS_ACTIVE \<and> rs \<subseteq> run_id ` set (st_runs s)"

lemma emit_going [return_rules]: "keeps_going (ready i rs) (emit a b c d)"
  unfolding keeps_going_def returns_def
  by (auto simp: emit_def bnd_run new_id_def utc_now_def create_event_def try_write_run insert_row_def has_key_iff
      ready_def fresh_def status_of_def inj_eq)

lemma now_going [return_rules]: "keeps_going (ready i rs) utc_now"
  by (auto simp: keeps_going_def returns_def utc_now_def ready_def fresh_def status_of_def)

lemma mark_going [return_rules]: "keeps_going (ready i rs) (mark_run r st sm)"
proof -
  have ids: "run_id ` set (update_where p (\<lambda>x. x\<lparr>run_status := a, run_summary := b, run_updated_at := c\<rparr>) xs) = run_id ` set xs"
    for p a b c xs
  proof -
    have "map run_id (update_where p (\<lambda>x. x\<lparr>run_status := a, run_summary := b, run_updated_at := c\<rparr>) xs) = map run_id xs"
      by (simp add: update_where_def)
    then show ?thesis by (metis list.set_map)
  qed
  show ?thesis
    by (auto simp: keeps_going_def returns_def mark_run_def bnd_run utc_now_def update_run_def ret_run Let_def
        ready_def fresh_def status_of_def ids)
qed

lemma new_artifact_going [return_rules]:
  "run_id run \<in> rs \<Longrightarrow> keeps_going (ready i rs) (record_artifact run k p sm)"
  unfolding record_artifact_def
  by (intro return_rules)
    (auto simp: keeps_going_def returns_def new_artifact_def bnd_run new_id_def utc_now_def create_artifact_def try_write_run
      insert_fk_def has_key_iff ready_def fresh_def status_of_def inj_eq ret_run)


lemma new_evaluation_going [return_rules]: "run_id run \<in> rs \<Longrightarrow> keeps_going (ready i rs) (new_evaluation run a)"
  by (auto simp: keeps_going_def returns_def new_evaluation_def bnd_run new_id_def utc_now_def create_evaluation_def
      try_write_run insert_fk_def has_key_iff ready_def fresh_def status_of_def inj_eq ret_run)

lemma new_decision_going [return_rules]: "run_id run \<in> rs \<Longrightarrow> keeps_going (ready i rs) (new_decision run d)"
  by (auto simp: keeps_going_def returns_def new_decision_def bnd_run new_id_def utc_now_def create_decision_def
      try_write_run insert_fk_def has_key_iff ready_def fresh_def status_of_def inj_eq ret_run)

lemma metadata_going [return_rules]: "keeps_going (ready (task_id task) rs) (record_attempt_metadata task run a)"
proof -
  have upd: "keeps_going (ready i rs) (update_task_attempt_metadata i m)" for i m
    unfolding keeps_going_def returns_def
  proof (intro allI impI)
    fix s
    assume r: "ready i rs s"
    then obtain x where x: "find_key task_id i (st_tasks s) = Some x" by (auto simp: ready_def status_of_def)
    let ?t = "s\<lparr>st_ticks := Suc (st_ticks s), st_tasks := update_where (\<lambda>y. task_id y = i)
       (\<lambda>y. y\<lparr>task_attempt_metadata := json_column (dict_update (task_attempt_metadata x) m),
              task_updated_at := st_clock s (st_ticks s)\<rparr>) (st_tasks s)\<rparr>"
    have "update_task_attempt_metadata i m s = (Inr (), ?t)"
      by (simp add: update_task_attempt_metadata_def get_task_def x bnd_run utc_now_def)
    moreover have "ready i rs ?t"
      using r status_of_metadata [where s = "s\<lparr>st_ticks := Suc (st_ticks s)\<rparr>"] status_of_ticks [where s = s]
      by (simp add: ready_def fresh_def)
    ultimately show "\<exists>a t. update_task_attempt_metadata i m s = (Inr a, t) \<and> ready i rs t" by blast
  qed
  show ?thesis
    unfolding record_attempt_metadata_def Let_def
    by (cases "dict_get (ar_details a) ''diagnostics''"; simp; intro return_rules upd)
qed

lemma new_run_returns:
  "returns (ready (task_id task) rs) (new_run task n sm br) (\<lambda>r. ready (task_id task) (insert (run_id r) rs))"
proof -
  have "task_id task \<in> task_id ` set (st_tasks s)" if "status_of (task_id task) s = Some TS_ACTIVE" for s
    using that by (metis find_key_Some_iff map_option_eq_Some status_of_def)
  then show ?thesis
    by (auto simp: returns_def new_run_def bnd_run new_id_def utc_now_def create_run_def try_write_run insert_fk_def
        has_key_iff ready_def fresh_def status_of_def inj_eq ret_run Let_def)
qed

text \<open>The events of the worker are delivered; the callback is one that returns.\<close>

definition polite :: "string \<Rightarrow> announce \<Rightarrow> bool" where
  "polite i progress \<longleftrightarrow> (\<forall>e. keeps_going fresh (progress e) \<and> (\<forall>rs. keeps_going (ready i rs) (progress e)))"

lemma deliver_returns:
  assumes "polite i progress"
  shows "returns (ready i rs) (deliver run progress b events) (\<lambda>(_, stopped) s. stopped = None \<and> ready i rs s)"
proof (induction events arbitrary: b)
  case Nil
  then show ?case by (simp add: returns_ret)
next
  case (Cons e events)
  have p: "returns (ready i rs) (caught (progress e)) (\<lambda>stopped s. stopped = None \<and> ready i rs s)"
    unfolding returns_def
  proof (intro allI impI)
    fix s
    assume s: "ready i rs s"
    have "keeps_going (ready i rs) (progress e)" using assms by (simp add: polite_def)
    from goingD [OF this s] obtain u t where "progress e s = (Inr u, t)" "ready i rs t" by blast
    then show "\<exists>a t. caught (progress e) s = (Inr a, t) \<and> a = None \<and> ready i rs t"
      by (simp add: caught_def try_except_def bnd_run ret_run)
  qed
  have rest: "returns (\<lambda>s. stopped = None \<and> ready i rs s)
      (case stopped of Some x \<Rightarrow> ret (c, Some x) | None \<Rightarrow> deliver run progress c events)
      (\<lambda>(_, stopped) s. stopped = None \<and> ready i rs s)" for stopped c
    using Cons.IH by (cases stopped) (simp_all add: returns_def)
  have m: "keeps_going (ready i rs) (when_do c (bnd (mark_run run RS_VALIDATING sm) (\<lambda>_. ret ())))" for c sm
    by (intro return_rules)
  show ?case
    unfolding deliver.simps Let_def
    by (rule returns_bnd [OF m [unfolded keeps_going_def]]) (rule returns_bnd [OF p rest])
qed

definition works :: "Task \<Rightarrow> worker \<Rightarrow> bool" where
  "works task w \<longleftrightarrow> (\<forall>run hints. \<exists>x. snd (wk_work w task run hints) = Inr x)"

lemma call_worker_going:
  assumes "polite i progress" and "works task w"
  shows "keeps_going (ready i rs) (call_worker w task run progress hints)"
proof -
  have once: "returns (ready i rs) (work_once w task run progress b h) (\<lambda>(_, r) s. (\<exists>x. r = Inr x) \<and> ready i rs s)" for b h
  proof -
    obtain events r where w: "wk_work w task run h = (events, r)" by fastforce
    obtain x where x: "r = Inr x" using assms(2) w by (metis snd_conv works_def)
    show ?thesis
      unfolding work_once_def w prod.case
      by (rule returns_bnd [OF deliver_returns [OF assms(1)]])
        (auto simp: returns_def ret_run x split: prod.splits option.splits)
  qed
  show ?thesis
    unfolding keeps_going_def call_worker_def
    by (rule returns_bnd [OF once]) (auto simp: returns_def lift_result_run split: prod.splits)
qed


subsection \<open>The phases return\<close>

lemma going_also:
  assumes "keeps_going P m" and "\<And>s a t. m s = (Inr a, t) \<Longrightarrow> R a"
  shows "returns P m (\<lambda>a s. R a \<and> P s)"
  using assms unfolding keeps_going_def returns_def by blast

lemma returns_fact: "(b \<Longrightarrow> returns P m Q) \<Longrightarrow> returns (\<lambda>s. b \<and> P s) m Q"
  by (auto simp: returns_def)

lemma polite_going: "polite i progress \<Longrightarrow> keeps_going (ready i rs) (progress e)"
  "polite i progress \<Longrightarrow> keeps_going fresh (progress e)"
  by (simp_all add: polite_def)

lemma begin_run_returns:
  assumes "polite (task_id task) progress"
  shows "returns (ready (task_id task) rs) (begin_run task progress)
     (\<lambda>(run, _, _) s. ready (task_id task) (insert (run_id run) rs) s)"
proof -
  have reads: "keeps_going P (next_attempt i)" "keeps_going P (list_runs j)" "keeps_going P (list_evaluations i)"
    "keeps_going P (list_decisions i)" for P i j
    by (simp_all add: next_attempt_def list_runs_def list_evaluations_def list_decisions_def going_reads)
  have tail: "returns (ready i (insert (run_id run) rs)) (bnd (progress e) (\<lambda>_. bnd (emit a b c d) (\<lambda>_. ret (run, x, y))))
     (\<lambda>(run, _, _) s. ready i (insert (run_id run) rs) s)" if "polite i progress" for i run e a b c d x y
    by (rule returns_bnd [OF polite_going(1) [OF that, unfolded keeps_going_def]])
      (rule returns_bnd [OF emit_going [unfolded keeps_going_def]], simp add: returns_ret)
  note go = returns_bnd [OF _ , rotated]
  have opt: "keeps_going P (case z of None \<Rightarrow> ret [] | Some r \<Rightarrow> list_evaluations (run_id r))"
    "keeps_going P (case z of None \<Rightarrow> ret [] | Some r \<Rightarrow> list_decisions (run_id r))" for P z
    by (intro return_rules reads)+
  show ?thesis
    unfolding begin_run_def Let_def
    by (rule returns_bnd [OF emit_going [unfolded keeps_going_def]])
      (rule returns_bnd [OF reads(1) [unfolded keeps_going_def]],
       rule returns_bnd [OF reads(2) [unfolded keeps_going_def]],
       rule returns_bnd [OF opt(1) [unfolded keeps_going_def]],
       rule returns_bnd [OF opt(2) [unfolded keeps_going_def]],
       rule returns_bnd [OF new_run_returns], rule tail [OF assms])
qed

text \<open>What the run needs from its surroundings: an adapter that prepares an acceptable workspace, and
  workers and a validation service that return.\<close>

definition env_ok :: "run_env \<Rightarrow> Project \<Rightarrow> Task \<Rightarrow> bool" where
  "env_ok env project task \<longleftrightarrow>
     (\<exists>ad. re_adapters env (project_adapter_name project) = Inr ad \<and>
       (\<forall>run. \<exists>ws. ad_prepare ad project task run = Inr ws \<and> validate_workspace (re_resolve env) project ws = Inr ()
          \<and> (case ad_build_worker ad of None \<Rightarrow> True
             | Some build \<Rightarrow> \<exists>w. build project task run ws (re_worker env) = Inr w \<and> (case w of None \<Rightarrow> True | Some v \<Rightarrow> works task v))))
     \<and> works task (re_worker env)
     \<and> (case re_validator env of None \<Rightarrow> True | Some v \<Rightarrow> \<forall>run work base. \<exists>w. v task run work base = Inr w)"

lemma prepare_returns:
  assumes "env_ok env project task" and "run_id run \<in> rs"
  shows "returns (ready i rs) (prepare_run env project task run) (\<lambda>(w, _) s. works task w \<and> ready i rs s)"
proof -
  from assms(1) obtain ad ws where ad: "re_adapters env (project_adapter_name project) = Inr ad"
    and ws: "ad_prepare ad project task run = Inr ws" "validate_workspace (re_resolve env) project ws = Inr ()"
    and build: "case ad_build_worker ad of None \<Rightarrow> True
       | Some build \<Rightarrow> \<exists>w. build project task run ws (re_worker env) = Inr w \<and> (case w of None \<Rightarrow> True | Some v \<Rightarrow> works task v)"
    and w: "works task (re_worker env)"
    unfolding env_ok_def by blast
  have lift: "bnd (lift_result (Inr x)) k = k x" for x :: 'x and k :: "'x \<Rightarrow> (store, 'y) prog"
    by (simp add: fun_eq_iff bnd_def lift_result_def)
  have arts: "keeps_going (ready i rs) (for_each ps (\<lambda>p. record_artifact run k p sm))" for ps k sm
    by (intro return_rules assms(2))
  have tail: "returns (ready i rs) (case ad_build_worker ad of None \<Rightarrow> ret (re_worker env, ws)
     | Some build \<Rightarrow> bnd (lift_result (build project task run ws (re_worker env))) (\<lambda>override. case override of
          None \<Rightarrow> ret (re_worker env, ws)
        | Some worker \<Rightarrow> bnd (emit a b c (d worker)) (\<lambda>_. ret (worker, ws)))) (\<lambda>(w, _) s. works task w \<and> ready i rs s)"
    for a b c d
  proof (cases "ad_build_worker ad")
    case None
    then show ?thesis using w by (simp add: returns_ret)
  next
    case (Some bd)
    with build obtain v where v: "bd project task run ws (re_worker env) = Inr v" "case v of None \<Rightarrow> True | Some u \<Rightarrow> works task u" by auto
    show ?thesis
    proof (cases v)
      case None
      with Some v(1) w show ?thesis by (simp add: lift returns_ret)
    next
      case (Some u)
      have "returns (ready i rs) (bnd (emit a b c (d u)) (\<lambda>_. ret (u, ws))) (\<lambda>(w, _) s. works task w \<and> ready i rs s)"
        by (rule returns_bnd [OF emit_going [unfolded keeps_going_def]]) (use v(2) Some in \<open>simp add: returns_ret\<close>)
      with Some v(1) \<open>ad_build_worker ad = Some bd\<close> show ?thesis by (simp add: lift)
    qed
  qed
  show ?thesis
    unfolding prepare_run_def ad lift ws
    by (rule returns_bnd [OF arts [unfolded keeps_going_def]])
      (rule returns_bnd [OF emit_going [unfolded keeps_going_def]], rule tail)
qed


lemma plan_run_returns:
  assumes "polite i progress"
  shows "returns (ready i rs) (plan_run task run rc progress) (\<lambda>r s. run_id r = run_id run \<and> ready i rs s)"
proof (rule going_also)
  show "keeps_going (ready i rs) (plan_run task run rc progress)"
    unfolding plan_run_def Let_def by (intro return_rules polite_going(1) [OF assms])
  show "run_id r = run_id run" if "plan_run task run rc progress s = (Inr r, t)" for s r t
    using that unfolding plan_run_def Let_def by (auto elim!: bnd_InrE simp: ret_run dest!: mark_run_result)
qed

lemma validate_candidate_returns:
  assumes "polite i progress" and "env_ok env project task"
  shows "returns (ready i rs) (validate_candidate env task run work base progress)
     (\<lambda>(r, _) s. run_id r = run_id run \<and> ready i rs s)"
proof -
  have "\<exists>w. v task r work base = Inr w" if "re_validator env = Some v" for v r
    using assms(2) that by (auto simp: env_ok_def)
  then have "keeps_going (ready i rs) (validate_candidate env task run work base progress)"
    unfolding validate_candidate_def Let_def
    by (intro return_rules polite_going(1) [OF assms(1)]) auto
  moreover have "run_id (fst r) = run_id run" if "validate_candidate env task run work base progress s = (Inr r, t)" for s r t
    using that unfolding validate_candidate_def Let_def
    by (auto elim!: bnd_InrE simp: ret_run dest!: mark_run_result split: if_splits)
  ultimately show ?thesis
    by (rule returns_weaken [OF going_also]) auto
qed

lemma record_work_returns:
  assumes "polite i progress" and "run_id run \<in> rs"
  shows "returns (ready i rs) (record_work task run work progress) (\<lambda>r s. run_id r = run_id run \<and> ready i rs s)"
proof (rule going_also)
  show "keeps_going (ready i rs) (record_work task run work progress)"
    unfolding record_work_def by (intro return_rules polite_going(1) [OF assms(1)] assms(2))
  show "run_id r = run_id run" if "record_work task run work progress s = (Inr r, t)" for s r t
    using that unfolding record_work_def by (auto elim!: bnd_InrE simp: ret_run dest!: mark_run_result)
qed

lemma analyze_work_going [return_rules]: "keeps_going P (analyze_work task run work)"
  unfolding analyze_work_def list_artifacts_def by (intro return_rules)

lemma record_analysis_returns:
  assumes "polite i progress" and "run_id run \<in> rs"
  shows "returns (ready i rs) (record_analysis task run a progress) (\<lambda>r s. run_id r = run_id run \<and> ready i rs s)"
proof (rule going_also)
  show "keeps_going (ready i rs) (record_analysis task run a progress)"
    unfolding record_analysis_def by (intro return_rules polite_going(1) [OF assms(1)] assms(2))
  show "run_id r = run_id run" if "record_analysis task run a progress s = (Inr r, t)" for s r t
    using that unfolding record_analysis_def by (auto elim!: bnd_InrE simp: ret_run dest!: mark_run_result)
qed

definition fresh_view ::
  "store \<Rightarrow> (nat \<Rightarrow> string) \<times> nat \<times> Event list \<times> Run list \<times> Artifact list \<times> Evaluation list \<times> Decision list"
where
  "fresh_view s = (st_uuid s, st_uuids s, st_events s, st_runs s, st_artifacts s, st_evaluations s, st_decisions s)"

lemma fresh_cong: "fresh_view s = fresh_view t \<Longrightarrow> fresh s = fresh t"
  by (simp add: fresh_def fresh_view_def)

lemma update_status_fresh: "keeps fresh_view (update_task_status i status)"
  unfolding update_task_status_def get_task_def update_objective_phase_def Let_def
  by (intro keep_rules keeps_writes utc_now_keeps; simp add: fresh_view_def)

lemma apply_status_returns: "returns (ready i rs) (apply_task_status_for_run i status) (\<lambda>_. fresh)"
  unfolding returns_def
proof (intro allI impI)
  fix s
  assume r: "ready i rs s"
  have k: "keeps fresh_view (apply_task_status_for_run i status)"
    unfolding apply_task_status_for_run_def get_task_def by (intro keep_rules update_status_fresh)
  from r apply_status_run [of i s status] obtain t where
    t: "apply_task_status_for_run i status s = (Inr status, t)" by (auto simp: ready_def)
  from fresh_cong [OF keeps_run [OF k t]] r have "fresh t" by (simp add: ready_def)
  with t show "\<exists>a t. apply_task_status_for_run i status s = (Inr a, t) \<and> fresh t" by blast
qed

lemma emit_fresh [return_rules]: "keeps_going fresh (emit a b c d)"
  unfolding keeps_going_def returns_def
  by (auto simp: emit_def bnd_run new_id_def utc_now_def create_event_def try_write_run insert_row_def has_key_iff
      fresh_def inj_eq)

lemma conclude_returns:
  assumes "polite (task_id task) progress"
  shows "returns (ready (task_id task) rs) (conclude_run task run work a d progress) (\<lambda>_. fresh)"
proof -
  have tail: "keeps_going fresh (bnd (when_do b (emit e f g h)) (\<lambda>_.
      bnd (when_do c (bnd (emit e' f' g' h') (\<lambda>_. progress x))) (\<lambda>_. ret (r :: Run))))" for b c e f g h e' f' g' h' x r
    by (intro return_rules polite_going(2) [OF assms])
  show ?thesis
    unfolding conclude_run_def Let_def
    by (rule returns_bnd [OF mark_going [unfolded keeps_going_def]], rule returns_bnd [OF apply_status_returns],
        rule tail [unfolded keeps_going_def])
qed

lemma validation_returns:
  assumes p: "polite (task_id task) progress" and env: "env_ok env project task" and run: "run_id run \<in> rs"
  shows "returns (ready (task_id task) rs) (validation_phase env task run work base progress) (\<lambda>_. fresh)"
proof -
  let ?R = "ready (task_id task) rs"
  have rest: "returns ?R (bnd (new_decision r3 (decide a r3 task)) (\<lambda>i. bnd (emit b (c i) d (e i))
      (\<lambda>_. bnd (record_attempt_metadata task r3 a) (\<lambda>_. conclude_run task r3 w a (decide a r3 task) progress)))) (\<lambda>_. fresh)"
    if "run_id r3 \<in> rs" for r3 a b d c e w
    by (rule returns_bnd [OF new_decision_going [OF that, unfolded keeps_going_def]],
        rule returns_bnd [OF emit_going [unfolded keeps_going_def]],
        rule returns_bnd [OF metadata_going [unfolded keeps_going_def]], rule conclude_returns [OF p])
  have analyzed: "returns ?R (bnd (analyze_work task r2 w) (\<lambda>a. bnd (record_analysis task r2 a progress) (\<lambda>r3.
      bnd (new_decision r3 (decide a r3 task)) (\<lambda>i. bnd (emit b (c i) d (e r3 a i))
      (\<lambda>_. bnd (record_attempt_metadata task r3 a) (\<lambda>_. conclude_run task r3 w a (decide a r3 task) progress)))))) (\<lambda>_. fresh)"
    if "run_id r2 \<in> rs" for r2 w b c d e
    using that
    by (intro returns_bnd [OF analyze_work_going [unfolded keeps_going_def]]
        returns_bnd [OF record_analysis_returns [OF p]] returns_fact rest) simp_all
  show ?thesis
    unfolding validation_phase_def Let_def
  proof (rule returns_bnd [OF validate_candidate_returns [OF p env]])
    show "returns (case x of (r, _) \<Rightarrow> \<lambda>s. run_id r = run_id run \<and> ?R s) (case x of (r1, w) \<Rightarrow>
        bnd (record_work task r1 w progress) (\<lambda>r2. bnd (analyze_work task r2 w) (\<lambda>a. bnd (record_analysis task r2 a progress) (\<lambda>r3.
        bnd (new_decision r3 (decide a r3 task)) (\<lambda>i. bnd (emit ''decision'' i ''decision_recorded''
          [(''run_id'', PStr (run_id r3)), (''action'', PStr (DecisionAction_value (dr_action (decide a r3 task))))])
        (\<lambda>_. bnd (record_attempt_metadata task r3 a) (\<lambda>_. conclude_run task r3 w a (decide a r3 task) progress))))))) (\<lambda>_. fresh)" for x
      using run by (cases x)
        (simp, intro returns_fact returns_bnd [OF record_work_returns [OF p]] analyzed; simp)
  qed
qed

text \<open>The work phase leaves either a run that was blocked, with the task given back, or a run to be validated.\<close>

lemma work_phase_returns:
  assumes p: "polite (task_id task) progress" and env: "env_ok env project task"
  shows "returns (ready (task_id task) {}) (work_phase env task project progress)
     (\<lambda>(_, run, _) s. if run_status run = RS_BLOCKED then fresh s else ready (task_id task) {run_id run} s)"
proof -
  let ?Q = "\<lambda>(_, run, _) s. if run_status run = RS_BLOCKED then fresh s else ready (task_id task) {run_id run} s"
  have tail: "returns (ready (task_id task) {k})
      (if b then bnd (mark_run run RS_BLOCKED sm) (\<lambda>run. bnd (apply_task_status_for_run (task_id task) TS_PENDING)
          (\<lambda>_. bnd (progress (e run)) (\<lambda>_. ret (w, run, base)))) else ret (w, run, base)) ?Q" if k: "run_id run = k" for b run sm e w base k
  proof (cases b)
    case True
    have m: "returns (ready (task_id task) {k}) (mark_run run RS_BLOCKED sm)
       (\<lambda>r s. run_status r = RS_BLOCKED \<and> ready (task_id task) {k} s)"
      by (rule going_also [OF mark_going]) (simp add: mark_run_result)
    show ?thesis
      using True by (simp, intro returns_bnd [OF m] returns_fact returns_bnd [OF apply_status_returns]
          returns_bnd [OF polite_going(2) [OF p, unfolded keeps_going_def]]) (simp add: returns_ret)
  next
    case False
    then show ?thesis by (simp, intro returns_ret) (auto simp: ready_def k)
  qed
  have called: "returns (ready (task_id task) {k}) (bnd (call_worker w task run progress h) (\<lambda>v. g v)) ?Q"
    if "works task w" and "\<And>v. returns (ready (task_id task) {k}) (g v) ?Q" for w run h g k
    by (rule returns_bnd [OF call_worker_going [OF p that(1), unfolded keeps_going_def]]) (rule that(2))
  have planned: "returns (case y of (w, _) \<Rightarrow> \<lambda>s. works task w \<and> ready (task_id task) {run_id run} s)
      (case y of (worker, prepared) \<Rightarrow> bnd (plan_run task run rc progress) (\<lambda>r. bnd (call_worker worker task r progress h) (g prepared r))) ?Q"
    if "\<And>ws r v. run_id r = run_id run \<Longrightarrow> returns (ready (task_id task) {run_id run}) (g ws r v) ?Q" for y run rc h g
    by (cases y) (simp only: prod.case, intro returns_fact returns_bnd [OF plan_run_returns [OF p]] called that)
  have prepared: "returns (case x of (run, _, _) \<Rightarrow> ready (task_id task) {run_id run}) (case x of (run, rc, h) \<Rightarrow>
      bnd (prepare_run env project task run) (\<lambda>(worker, prepared).
      bnd (plan_run task run rc progress) (\<lambda>r. bnd (call_worker worker task r progress h) (g prepared r)))) ?Q"
    if "\<And>k ws r v. run_id r = k \<Longrightarrow> returns (ready (task_id task) {k}) (g ws r v) ?Q" for x g
    by (cases x) (simp only: prod.case, intro returns_bnd [OF prepare_returns [OF env]] planned that; simp)
  show ?thesis
    unfolding work_phase_def Let_def
    by (intro returns_bnd [OF begin_run_returns [OF p]] prepared tail)
qed

lemma run_once_inner_returns:
  assumes p: "polite (task_id task) progress" and env: "env_ok env project task"
  shows "returns (ready (task_id task) {}) (run_once_inner env task project progress) (\<lambda>_. fresh)"
proof -
  have rest: "returns (case x of (_, run, _) \<Rightarrow> \<lambda>s. if run_status run = RS_BLOCKED then fresh s else ready (task_id task) {run_id run} s)
      (case x of (work, run, base) \<Rightarrow> if run_status run = RS_BLOCKED then ret run
        else bnd (progress e) (\<lambda>_. validation_phase env task run work base progress)) (\<lambda>_. fresh)" for x e
  proof (cases x)
    case (fields work run base)
    have "returns (ready (task_id task) {run_id run})
        (bnd (progress e) (\<lambda>_. validation_phase env task run work base progress)) (\<lambda>_. fresh)"
      by (rule returns_bnd [OF polite_going(1) [OF p, unfolded keeps_going_def]], rule validation_returns [OF p env]) simp
    then show ?thesis
      by (simp add: fields returns_ret)
  qed
  show ?thesis
    unfolding run_once_inner_def by (rule returns_bnd [OF work_phase_returns [OF p env] rest])
qed

lemma accepted_run_returns:
  assumes "find_key task_id i (st_tasks s) = Some task" and "gate_refuses task s = (Inr None, s)"
    and "task_status task \<noteq> TS_COMPLETED" and "task_status task \<noteq> TS_FAILED"
    and "find_key project_id (task_project_id task) (st_projects s) = Some project"
    and "env_ok env project task" and "polite i progress" and "fresh s"
  shows "\<exists>r t. run_once env progress i s = (Inr r, t) \<and> fresh t"
proof -
  have id: "task_id task = i" using find_key_Some [OF assms(1)] by simp
  have "validate_task_transition (task_status task) TS_ACTIVE = Inr ()"
    using assms(3,4) by (cases "task_status task") (simp_all add: validate_task_transition_def VALID_TASK_TRANSITIONS_def)
  with update_task_status_run [of i s "task_status task" TS_ACTIVE] assms(1) obtain s1 where
    s1: "update_task_status i TS_ACTIVE s = (Inr (), s1)" "status_of i s1 = Some TS_ACTIVE" by (auto simp: status_of_def)
  have "fresh s1"
    using fresh_cong [OF keeps_run [OF update_status_fresh s1(1)]] assms(8) by simp
  with s1(2) have "ready (task_id task) {} s1" by (simp add: ready_def id)
  from returnsD [OF run_once_inner_returns [OF assms(7) [folded id] assms(6)] this] obtain r t where
    "run_once_inner env task project progress s1 = (Inr r, t)" "fresh t" by auto
  then have "run_guarded env task project progress s = (Inr r, t)"
    using s1(1) by (simp add: run_guarded_def id bnd_run try_except_def)
  then show ?thesis
    using assms(1-5) \<open>fresh t\<close> by (simp add: run_once_def get_task_def bnd_run get_project_def)
qed


subsection \<open>The concrete run, with the theorems applied to it\<close>

lemma demo_fresh: "fresh demo_runs"
  by (auto simp: fresh_def demo_runs_def empty_store_def inj_def dest: dec_nat_inj)

lemma demo_env_ok: "env_ok (demo_env (demo_worker kinds)) demo_project task"
  by (simp add: env_ok_def demo_env_def demo_worker_def works_def validate_workspace_def)

lemma silent_polite: "polite i silent"
  by (simp add: polite_def keeps_going_def silent_def returns_ret)

lemma demo_accepted:
  "find_key task_id ''task_1'' (st_tasks demo_runs) = Some (sample_task\<lparr>task_status := TS_PENDING\<rparr>)"
  "gate_refuses (sample_task\<lparr>task_status := TS_PENDING\<rparr>) demo_runs = (Inr None, demo_runs)"
  "find_key project_id (task_project_id (sample_task\<lparr>task_status := TS_PENDING\<rparr>)) (st_projects demo_runs) = Some demo_project"
  by (simp_all add: demo_runs_def find_key_def sample_task_def demo_project_def gate_refuses_def ret_run)


lemma run_settles_task_witness:
  "\<exists>r t. run_once (demo_env (demo_worker [''plan'', ''report''])) silent ''task_1'' demo_runs = (Inr r, t)
     \<and> ((run_status r = RS_BLOCKED \<and> status_of ''task_1'' t = Some TS_PENDING \<and> st_decisions t = st_decisions demo_runs)
        \<or> settled_run (sample_task\<lparr>task_status := TS_PENDING\<rparr>) r t)"
proof -
  obtain r t where r: "run_once (demo_env (demo_worker [''plan'', ''report''])) silent ''task_1'' demo_runs = (Inr r, t)"
    using accepted_run_returns [OF demo_accepted(1,2) _ _ demo_accepted(3) demo_env_ok silent_polite demo_fresh,
        of "[''plan'', ''report'']"] by auto
  from run_settles_task [OF r demo_accepted(1) quiet_silent] r show ?thesis by blast
qed

text \<open>A run that fails because its adapter is unknown.\<close>

definition no_adapter :: run_env where
  "no_adapter = (demo_env (demo_worker []))\<lparr>re_adapters := (\<lambda>n. Inl (ValueError n))\<rparr>"

lemma no_adapter_raises: "fst (run_once no_adapter progress i s) \<noteq> Inr r"
proof -
  have "\<not> prepare_run no_adapter project task run u = (Inr x, t)" for project task run u x t
    by (simp add: prepare_run_def no_adapter_def lift_result_run bnd_run)
  then have work: "\<not> work_phase no_adapter task project progress u = (Inr x, t)" for task project u x t
    unfolding work_phase_def by (auto elim!: bnd_InrE)
  have inner: "\<not> run_once_inner no_adapter task project progress u = (Inr x, t)" for task project u x t
    unfolding run_once_inner_def by (auto elim!: bnd_InrE simp: work)
  have given_back: "\<not> (back_to_pending j e :: Run op) u = (Inr x, t)" for j e u x t
    using back_to_pending_run [where 'a = Run, of j e u] by auto
  have "\<not> run_guarded no_adapter task project progress u = (Inr x, t)" for task project u x t
    unfolding run_guarded_def
    by (auto elim!: bnd_InrE simp: try_except_def inner given_back split: prod.splits sum.splits)
  then have "\<not> run_once no_adapter progress i s = (Inr r, t)" for t
    unfolding run_once_def by (auto elim!: bnd_InrE simp: raise_run split: option.splits if_splits)
  then show ?thesis by (metis prod.collapse)
qed

lemma failed_run_gives_task_back_witness:
  "\<exists>e t. run_once no_adapter silent ''task_1'' demo_runs = (Inl e, t)
     \<and> (t = demo_runs \<or> status_of ''task_1'' t \<noteq> Some TS_ACTIVE)"
proof -
  have "\<exists>e t. run_once no_adapter silent ''task_1'' demo_runs = (Inl e, t)"
    using no_adapter_raises [of silent "''task_1''" demo_runs] by (metis prod.collapse sumE)
  then obtain e t where "run_once no_adapter silent ''task_1'' demo_runs = (Inl e, t)" by blast
  with failed_run_gives_task_back [OF this] show ?thesis by blast
qed


end
