(* ===== verification/Workspace_Cleanup.thy ===== *)
theory Workspace_Cleanup
  imports Run_Liveness
begin

section \<open>The workspaces of old runs\<close>

text \<open>
  \<open>RunService.cleanup_stale_run_workspaces\<close> and its helpers. The directory of runs is an argument, the
  list of its entries; what is removed is returned as a list of actions, with the exit codes of git as an
  argument. Before each run the workspaces that no one needs any more are removed.
\<close>

subsection \<open>The clean-up\<close>

record run_dir =
  rd_name :: string
  rd_is_dir :: bool
  rd_has_workspace :: bool

datatype fs_action =
    GitRemove string string
  | GitPrune string
  | RmTree string

record git_state =
  git_remove_code :: "string \<Rightarrow> int"
  left_behind :: "string \<Rightarrow> bool"

record cleanup_summary =
  cs_removed :: int
  cs_removed_orphaned :: int
  cs_skipped_active :: int
  cs_skipped_artifact_backed :: int
  cs_skipped_unpromoted :: int
  cs_missing_run :: int

definition no_cleanup :: cleanup_summary where
  "no_cleanup = \<lparr>cs_removed = 0, cs_removed_orphaned = 0, cs_skipped_active = 0, cs_skipped_artifact_backed = 0,
     cs_skipped_unpromoted = 0, cs_missing_run = 0\<rparr>"

definition run_is_promoted :: "Run \<Rightarrow> bool op" where
  "run_is_promoted run =
     bnd (get_task (run_task_id run)) (\<lambda>row.
     case row of
       None \<Rightarrow> ret False
     | Some task \<Rightarrow> bnd (list_promotions (Some (task_id task))) (\<lambda>promotions.
         ret (list_ex (\<lambda>p. promotion_status p = PS_APPROVED) promotions)))"

definition path_is_within :: "string \<Rightarrow> string \<Rightarrow> bool" where
  "path_is_within candidate parent \<longleftrightarrow> candidate = parent \<or> starts_with (parent @ ''/'') candidate"

definition contains_referenced_artifacts :: "(string \<Rightarrow> string) \<Rightarrow> string \<Rightarrow> string \<Rightarrow> bool op" where
  "contains_referenced_artifacts resolve run workspace_dir =
     bnd (list_artifacts run) (\<lambda>artifacts.
     ret (list_ex (\<lambda>a. let path = py_strip (artifact_path a) in
        path \<noteq> [] \<and> path_is_within (resolve path) (resolve workspace_dir)) artifacts))"

definition remove_workspace_dir :: "git_state \<Rightarrow> string \<Rightarrow> string \<Rightarrow> fs_action list op" where
  "remove_workspace_dir git run workspace_dir =
     bnd (list_events (Some ''run'') (Some run)) (\<lambda>events.
     let prepared = List.find (\<lambda>e. event_event_type e = ''project_workspace_prepared'') (rev events);
         field = (\<lambda>k. case prepared of None \<Rightarrow> '''' | Some e \<Rightarrow> py_strip (str_or_empty (dict_get (event_payload e) k)));
         source = field ''source_repo_root''
     in ret (if field ''workspace_mode'' = ''git_worktree'' \<and> source \<noteq> []
             then if git_remove_code git workspace_dir = 0
                  then [GitRemove source workspace_dir, GitPrune source]
                  else GitRemove source workspace_dir
                       # (if left_behind git workspace_dir then [RmTree workspace_dir] else [])
             else [RmTree workspace_dir]))"

definition workspace_of :: "string \<Rightarrow> run_dir \<Rightarrow> string" where
  "workspace_of runs_root d = runs_root @ ''/'' @ rd_name d @ ''/workspace''"

definition cleanup_dir ::
  "(string \<Rightarrow> string) \<Rightarrow> git_state \<Rightarrow> string \<Rightarrow> run_dir \<Rightarrow> cleanup_summary \<Rightarrow> (cleanup_summary \<times> fs_action list) op"
where
  "cleanup_dir resolve git runs_root d summary =
     (let workspace_dir = workspace_of runs_root d in
      if \<not> rd_is_dir d \<or> \<not> rd_has_workspace d then ret (summary, [])
      else bnd (get_run (rd_name d)) (\<lambda>row.
      case row of
        None \<Rightarrow>
          bnd (remove_workspace_dir git (rd_name d) workspace_dir) (\<lambda>done_now.
          ret (summary\<lparr>cs_missing_run := cs_missing_run summary + 1,
                 cs_removed_orphaned := cs_removed_orphaned summary + 1\<rparr>, done_now))
      | Some run \<Rightarrow>
          if run_status run \<notin> {RS_COMPLETED, RS_FAILED, RS_BLOCKED, RS_DISPOSED}
          then ret (summary\<lparr>cs_skipped_active := cs_skipped_active summary + 1\<rparr>, [])
          else bnd (contains_referenced_artifacts resolve (run_id run) workspace_dir) (\<lambda>referenced.
            if referenced
            then ret (summary\<lparr>cs_skipped_artifact_backed := cs_skipped_artifact_backed summary + 1\<rparr>, [])
            else bnd (if run_status run = RS_COMPLETED then run_is_promoted run else ret True) (\<lambda>promoted.
              if \<not> promoted
              then ret (summary\<lparr>cs_skipped_unpromoted := cs_skipped_unpromoted summary + 1\<rparr>, [])
              else bnd (remove_workspace_dir git (run_id run) workspace_dir) (\<lambda>done_now.
                ret (summary\<lparr>cs_removed := cs_removed summary + 1\<rparr>, done_now))))))"

fun cleanup_dirs ::
  "(string \<Rightarrow> string) \<Rightarrow> git_state \<Rightarrow> string \<Rightarrow> run_dir list \<Rightarrow> cleanup_summary \<Rightarrow> (cleanup_summary \<times> fs_action list) op"
where
  "cleanup_dirs resolve git runs_root [] summary = ret (summary, [])"
| "cleanup_dirs resolve git runs_root (d # ds) summary =
     bnd (cleanup_dir resolve git runs_root d summary) (\<lambda>(summary, now).
     bnd (cleanup_dirs resolve git runs_root ds summary) (\<lambda>(summary, later).
     ret (summary, now @ later)))"

definition cleanup_stale_run_workspaces ::
  "(string \<Rightarrow> string) \<Rightarrow> git_state \<Rightarrow> string \<Rightarrow> run_dir list option \<Rightarrow> (cleanup_summary \<times> fs_action list) op"
where
  "cleanup_stale_run_workspaces resolve git runs_root entries =
     (case entries of
        None \<Rightarrow> ret (no_cleanup, [])
      | Some ds \<Rightarrow> cleanup_dirs resolve git runs_root ds no_cleanup)"

subsection \<open>What is removed\<close>

text \<open>The reference: which workspaces may go.\<close>

definition stale :: "(string \<Rightarrow> string) \<Rightarrow> string \<Rightarrow> store \<Rightarrow> run_dir \<Rightarrow> bool" where
  "stale resolve runs_root s d \<longleftrightarrow> rd_is_dir d \<and> rd_has_workspace d \<and>
     (case find_key run_id (rd_name d) (st_runs s) of
        None \<Rightarrow> True
      | Some run \<Rightarrow> \<not> in_progress (run_status run)
          \<and> (\<forall>a\<in>set (st_artifacts s). artifact_run_id a = run_id run \<longrightarrow> py_strip (artifact_path a) \<noteq> []
               \<longrightarrow> \<not> path_is_within (resolve (py_strip (artifact_path a))) (resolve (workspace_of runs_root d)))
          \<and> (run_status run = RS_COMPLETED \<longrightarrow>
               (\<exists>task. find_key task_id (run_task_id run) (st_tasks s) = Some task
                  \<and> (\<exists>p\<in>set (st_promotions s). clause (Some (task_id task)) (Some (promotion_task_id p))
                       \<and> promotion_status p = PS_APPROVED))))"

fun removes :: "fs_action \<Rightarrow> string option" where
  "removes (GitRemove _ d) = Some d"
| "removes (GitPrune _) = None"
| "removes (RmTree d) = Some d"

lemma remove_run: "\<exists>as. remove_workspace_dir git i w s = (Inr as, s)
    \<and> (\<exists>a\<in>set as. removes a = Some w) \<and> (\<forall>a\<in>set as. removes a = Some w \<or> removes a = None)"
  by (auto simp: remove_workspace_dir_def list_events_def Let_def ret_run)

lemma promoted_run: "run_is_promoted run s = (Inr (\<exists>task. find_key task_id (run_task_id run) (st_tasks s) = Some task
    \<and> (\<exists>p\<in>set (st_promotions s). clause (Some (task_id task)) (Some (promotion_task_id p)) \<and> promotion_status p = PS_APPROVED)), s)"
  by (auto simp: run_is_promoted_def get_task_def list_promotions_def ret_run list_ex_iff split: option.split)

lemma referenced_run: "contains_referenced_artifacts resolve i w s = (Inr (\<exists>a\<in>set (st_artifacts s). artifact_run_id a = i
    \<and> py_strip (artifact_path a) \<noteq> [] \<and> path_is_within (resolve (py_strip (artifact_path a))) (resolve w)), s)"
  by (auto simp: contains_referenced_artifacts_def list_artifacts_def ret_run list_ex_iff Let_def)

text \<open>One directory: what is done, and which counter goes up.\<close>

definition counted :: "cleanup_summary \<Rightarrow> int" where
  "counted c = cs_removed c + cs_removed_orphaned c + cs_skipped_active c + cs_skipped_artifact_backed c + cs_skipped_unpromoted c"

definition removed :: "cleanup_summary \<Rightarrow> int" where
  "removed c = cs_removed c + cs_removed_orphaned c"

lemma cleanup_dir_run:
  "\<exists>c' as. cleanup_dir resolve git base d c s = (Inr (c', as), s)
     \<and> counted c' = counted c + (if rd_is_dir d \<and> rd_has_workspace d then 1 else 0)
     \<and> removed c' = removed c + (if stale resolve base s d then 1 else 0)
     \<and> (\<forall>a\<in>set as. removes a = Some (workspace_of base d) \<or> removes a = None)
     \<and> ((\<exists>a\<in>set as. removes a \<noteq> None) \<longleftrightarrow> stale resolve base s d)"
proof (cases "rd_is_dir d \<and> rd_has_workspace d")
  case False
  then show ?thesis by (auto simp: cleanup_dir_def stale_def ret_run)
next
  case dir: True
  show ?thesis
  proof (cases "find_key run_id (rd_name d) (st_runs s)")
    case None
    obtain as where as: "remove_workspace_dir git (rd_name d) (workspace_of base d) s = (Inr as, s)"
      "\<exists>a\<in>set as. removes a = Some (workspace_of base d)" "\<forall>a\<in>set as. removes a = Some (workspace_of base d) \<or> removes a = None"
      using remove_run by blast
    have "cleanup_dir resolve git base d c s = (Inr (c\<lparr>cs_missing_run := cs_missing_run c + 1,
        cs_removed_orphaned := cs_removed_orphaned c + 1\<rparr>, as), s)"
      using dir None as(1) by (simp add: cleanup_dir_def get_run_def bnd_run ret_run Let_def)
    moreover have "stale resolve base s d" using dir None by (simp add: stale_def)
    ultimately show ?thesis using dir as(2,3) by (auto simp: counted_def removed_def)
  next
    case (Some run)
    obtain as where as: "remove_workspace_dir git (run_id run) (workspace_of base d) s = (Inr as, s)"
      "\<exists>a\<in>set as. removes a = Some (workspace_of base d)" "\<forall>a\<in>set as. removes a = Some (workspace_of base d) \<or> removes a = None"
      using remove_run by blast
    have terminal: "run_status run \<notin> {RS_COMPLETED, RS_FAILED, RS_BLOCKED, RS_DISPOSED} \<longleftrightarrow> in_progress (run_status run)"
      by (cases "run_status run") (simp_all add: in_progress_def)
    let ?ref = "\<exists>a\<in>set (st_artifacts s). artifact_run_id a = run_id run \<and> py_strip (artifact_path a) \<noteq> []
       \<and> path_is_within (resolve (py_strip (artifact_path a))) (resolve (workspace_of base d))"
    consider (progress) "in_progress (run_status run)" | (ref) "\<not> in_progress (run_status run)" ?ref
      | (rest) "\<not> in_progress (run_status run)" "\<not> ?ref" by blast
    then show ?thesis
    proof cases
      case progress
      then have "cleanup_dir resolve git base d c s = (Inr (c\<lparr>cs_skipped_active := cs_skipped_active c + 1\<rparr>, []), s)"
        using dir Some by (simp add: cleanup_dir_def get_run_def ret_run Let_def terminal del: insert_iff empty_iff)
      then show ?thesis using dir Some progress by (simp add: stale_def counted_def removed_def)
    next
      case ref
      have "contains_referenced_artifacts resolve (run_id run) (workspace_of base d) s = (Inr True, s)"
        unfolding referenced_run using ref(2) by blast
      with ref(1) have "cleanup_dir resolve git base d c s =
          (Inr (c\<lparr>cs_skipped_artifact_backed := cs_skipped_artifact_backed c + 1\<rparr>, []), s)"
        using dir Some
        by (simp add: cleanup_dir_def get_run_def ret_run Let_def terminal bnd_run del: insert_iff empty_iff)
      moreover have "\<not> stale resolve base s d" using ref Some by (auto simp: stale_def)
      ultimately show ?thesis using dir by (simp add: counted_def removed_def)
    next
      case rest
      let ?go = "run_status run = RS_COMPLETED \<longrightarrow> (\<exists>task. find_key task_id (run_task_id run) (st_tasks s) = Some task
        \<and> (\<exists>p\<in>set (st_promotions s). clause (Some (task_id task)) (Some (promotion_task_id p)) \<and> promotion_status p = PS_APPROVED))"
      have st: "stale resolve base s d \<longleftrightarrow> ?go" using dir Some rest by (auto simp: stale_def)
      have "contains_referenced_artifacts resolve (run_id run) (workspace_of base d) s = (Inr False, s)"
        unfolding referenced_run using rest(2) by blast
      with rest(1) have "cleanup_dir resolve git base d c s =
          (if ?go then (Inr (c\<lparr>cs_removed := cs_removed c + 1\<rparr>, as), s)
           else (Inr (c\<lparr>cs_skipped_unpromoted := cs_skipped_unpromoted c + 1\<rparr>, []), s))"
        using dir Some
        by (simp add: cleanup_dir_def get_run_def Let_def terminal bnd_run promoted_run ret_run as(1)
            del: insert_iff empty_iff)
      then show ?thesis
        using as(2,3) dir unfolding st by (cases ?go) (auto simp: counted_def removed_def)
    qed
  qed
qed



end
