(* ===== verification/Branch_Service.thy ===== *)
theory Branch_Service
  imports Run_Liveness
begin

section \<open>Branches, and running a task until it is stable\<close>

text \<open>
  \<open>services/branch_service.py\<close> runs a task several times beside each other's results and keeps the best,
  and the last three methods of \<open>services/run_service.py\<close> run a task until it is completed or
  failed and clean up the workspaces of old runs. The worker and the adapters are those of \<open>Run_Service\<close>;
  a branch calls the worker without a callback, so that its events are lost.
\<close>

subsection \<open>Creating the branches\<close>

record BranchResult =
  br_branch_id :: string
  br_runs :: "Run list"

record WinnerResult =
  wnr_winner_run :: Run
  wnr_disposed_runs :: "Run list"
  wnr_rationale :: string

definition branch_count_of :: "Task \<Rightarrow> int option \<Rightarrow> int" where
  "branch_count_of task wanted =
     min (case wanted of None \<Rightarrow> task_max_branches task | Some c \<Rightarrow> if c = 0 then task_max_branches task else c)
         (task_max_branches task)"

definition analyze_branch :: "Task \<Rightarrow> Run \<Rightarrow> WorkResult \<Rightarrow> AnalyzeResult op" where
  "analyze_branch task run work =
     (if wr_outcome work = ''blocked'' then ret (analyze_blocked task (wr_diagnostics work))
      else bnd (list_artifacts (run_id run)) (\<lambda>artifacts. ret (analyze task artifacts)))"

definition branch_work ::
  "run_env \<Rightarrow> adapter \<Rightarrow> Project \<Rightarrow> Task \<Rightarrow> string \<Rightarrow> int \<Rightarrow> nat \<Rightarrow> Run \<Rightarrow> Run op"
where
  "branch_work env adapter project task branch size_n index run =
     bnd (emit ''run'' (run_id run) ''branch_run_created''
            [(''task_id'', PStr (task_id task)), (''branch_id'', PStr branch),
             (''branch_index'', PInt (int index)), (''branch_count'', PInt size_n)]) (\<lambda>_.
     bnd (lift_result (ad_prepare adapter project task run)) (\<lambda>_.
     bnd (mark_run run RS_WORKING (plr_summary (plan_task task None))) (\<lambda>run.
     bnd (lift_result (snd (wk_work (re_worker env) task run None))) (\<lambda>work.
     bnd (for_each (wr_artifacts work) (\<lambda>(kind, path, summary).
            bnd (new_artifact run kind path summary) (\<lambda>_. ret ()))) (\<lambda>_.
     bnd (mark_run run RS_ANALYZING (wr_summary work)) (\<lambda>run.
     bnd (analyze_branch task run work) (\<lambda>analysis.
     bnd (new_evaluation run analysis) (\<lambda>_.
     mark_run run (if ar_verdict analysis = EV_ACCEPTABLE then RS_COMPLETED else RS_FAILED)
       (ar_summary analysis)))))))))"

definition branch_run ::
  "run_env \<Rightarrow> adapter \<Rightarrow> Project \<Rightarrow> Task \<Rightarrow> string \<Rightarrow> int \<Rightarrow> int \<Rightarrow> nat \<Rightarrow> Run op"
where
  "branch_run env adapter project task branch size_n attempt index =
     bnd (new_run task (attempt + int index)
            (''Speculative branch '' @ dec_int (int index + 1) @ ''/'' @ dec_int size_n @ ''.'') (Some branch))
       (branch_work env adapter project task branch size_n index)"

definition create_branches :: "run_env \<Rightarrow> string \<Rightarrow> int option \<Rightarrow> BranchResult op" where
  "create_branches env i wanted =
     bnd (get_task i) (\<lambda>row.
     case row of
       None \<Rightarrow> raise (ValueError (''Unknown task: '' @ i))
     | Some task \<Rightarrow>
         bnd (get_project (task_project_id task)) (\<lambda>found.
         case found of
           None \<Rightarrow> raise (ValueError (''Unknown project for task: '' @ task_project_id task))
         | Some project \<Rightarrow>
             let n = branch_count_of task wanted in
             if n < 2 then raise (ValueError (''Branching requires max_branches >= 2, got ''
                @ dec_int (task_max_branches task)))
             else
               bnd (new_id ''branch'') (\<lambda>branch.
               bnd (update_task_status (task_id task) TS_ACTIVE) (\<lambda>_.
               bnd (emit ''task'' (task_id task) ''branch_started''
                      [(''branch_id'', PStr branch), (''branch_count'', PInt n)]) (\<lambda>_.
               bnd (next_attempt (task_id task)) (\<lambda>attempt.
               bnd (lift_result (re_adapters env (project_adapter_name project))) (\<lambda>adapter.
               bnd (collect (branch_run env adapter project task branch n attempt) [0..<nat n]) (\<lambda>runs.
               bnd (emit ''task'' (task_id task) ''branches_completed''
                      [(''branch_id'', PStr branch), (''run_ids'', PList (map (\<lambda>r. PStr (run_id r)) runs)),
                       (''statuses'', PList (map (\<lambda>r. PStr (RunStatus_value (run_status r))) runs))]) (\<lambda>_.
               ret \<lparr>br_branch_id = branch, br_runs = runs\<rparr>)))))))))"

subsection \<open>The winner\<close>

text \<open>The score is a float in the code; the confidences of the analyzer have at most two decimals, so
  that it is computed without rounding. \<open>fixed1\<close> prints it with one decimal, \<open>score_val\<close> is the float.\<close>

definition score_of :: "Evaluation list \<Rightarrow> nat \<Rightarrow> rat" where
  "score_of evaluations artifacts =
     (case map evaluation_confidence evaluations of
        [] \<Rightarrow> 0
      | c # cs \<Rightarrow> foldl max c cs * 100 + of_nat artifacts)"

definition fixed1 :: "rat \<Rightarrow> string" where
  "fixed1 x = (let n = round (x * 10) in dec_int (n div 10) @ ''.'' @ dec_int (n mod 10))"

definition score_val :: "rat \<Rightarrow> pyval" where
  "score_val x = (if of_int \<lfloor>x\<rfloor> = x then PFloat \<lfloor>x\<rfloor> 0 else confidence_val x)"

definition score_run :: "Run \<Rightarrow> (Run \<times> rat) op" where
  "score_run run =
     bnd (list_evaluations (run_id run)) (\<lambda>evaluations.
     bnd (list_artifacts (run_id run)) (\<lambda>artifacts.
     ret (run, score_of evaluations (length artifacts))))"

definition dispose_run :: "string \<Rightarrow> Run \<Rightarrow> Run \<Rightarrow> unit op" where
  "dispose_run branch winner run =
     bnd (mark_run run RS_DISPOSED (''Disposed in favor of winner '' @ run_id winner @ ''.'')) (\<lambda>_.
     emit ''run'' (run_id run) ''branch_run_disposed''
       [(''branch_id'', PStr branch), (''winner_run_id'', PStr (run_id winner))])"

definition crown :: "string \<Rightarrow> string \<Rightarrow> Run list \<Rightarrow> Run \<times> rat \<Rightarrow> WinnerResult op" where
  "crown i branch branch_runs best =
     (let winner = fst best;
          disposed = filter (\<lambda>r. run_id r \<noteq> run_id winner) branch_runs;
          rationale = ''Selected as branch winner with score '' @ fixed1 (snd best) @ '' over ''
            @ dec_int (int (length disposed)) @ '' other branch(es).''
      in
      bnd (for_each disposed (dispose_run branch winner)) (\<lambda>_.
      bnd (new_decision winner \<lparr>dr_action = DA_PROMOTE, dr_rationale = rationale\<rparr>) (\<lambda>_.
      bnd (update_task_status i TS_COMPLETED) (\<lambda>_.
      bnd (emit ''task'' i ''branch_winner_selected''
             [(''branch_id'', PStr branch), (''winner_run_id'', PStr (run_id winner)),
              (''winner_score'', score_val (snd best)),
              (''disposed_run_ids'', PList (map (\<lambda>r. PStr (run_id r)) disposed))]) (\<lambda>_.
      ret \<lparr>wnr_winner_run = winner, wnr_disposed_runs = disposed, wnr_rationale = rationale\<rparr>)))))"

definition select_winner :: "string \<Rightarrow> string \<Rightarrow> WinnerResult op" where
  "select_winner i branch =
     bnd (get_task i) (\<lambda>row.
     case row of
       None \<Rightarrow> raise (ValueError (''Unknown task: '' @ i))
     | Some task \<Rightarrow>
         bnd (list_runs (Some i)) (\<lambda>all_runs.
         let branch_runs = filter (\<lambda>r. run_branch_id r = Some branch) all_runs;
             completed_runs = filter (\<lambda>r. run_status r = RS_COMPLETED) branch_runs
         in
         if branch_runs = [] then raise (ValueError (''No runs found for branch '' @ branch))
         else if completed_runs = [] then
           bnd (update_task_status (task_id task) TS_FAILED) (\<lambda>_.
           bnd (emit ''task'' (task_id task) ''branch_selection_failed''
                  [(''branch_id'', PStr branch), (''reason'', PStr ''No completed branch runs available.'')]) (\<lambda>_.
           raise (ValueError (''No completed runs in branch '' @ branch))))
         else
           bnd (collect score_run completed_runs) (\<lambda>scored.
           crown (task_id task) branch branch_runs (hd (sort_key (\<lambda>p. - snd p) scored)))))"

definition resolve_branching :: "run_env \<Rightarrow> string \<Rightarrow> Run list op" where
  "resolve_branching env i =
     bnd (create_branches env i None) (\<lambda>result.
     bnd (try_except (bnd (select_winner i (br_branch_id result)) (\<lambda>_. ret ()))
            (\<lambda>e. case e of ValueError _ \<Rightarrow> ret () | _ \<Rightarrow> raise e)) (\<lambda>_.
     ret (br_runs result)))"

subsection \<open>Running until the task is stable\<close>

definition task_started :: "Task \<Rightarrow> pydict" where
  "task_started task =
     [(''type'', PStr ''task_started''), (''task_id'', PStr (task_id task)), (''task_title'', PStr (task_title task)),
      (''project_id'', PStr (task_project_id task))]"

definition task_finished :: "Task \<Rightarrow> Task option \<Rightarrow> Run \<Rightarrow> pydict" where
  "task_finished task updated run =
     [(''type'', PStr ''task_finished''), (''task_id'', PStr (task_id task)), (''task_title'', PStr (task_title task)),
      (''project_id'', PStr (task_project_id task)),
      (''status'', PStr (case updated of None \<Rightarrow> ''unknown'' | Some t \<Rightarrow> TaskStatus_value (task_status t))),
      (''run_id'', PStr (run_id run)), (''run_status'', PStr (RunStatus_value (run_status run))),
      (''summary'', PStr (run_summary run))]"

datatype step = Stable | Ran "Run list"

text \<open>One round of the loop, and the loop with fuel: \<open>None\<close> is a loop that is still running.\<close>

definition stable_step :: "run_env \<Rightarrow> announce \<Rightarrow> (Task \<Rightarrow> unit op) option \<Rightarrow> string \<Rightarrow> step op" where
  "stable_step env progress post i =
     bnd (get_task i) (\<lambda>row.
     case row of
       None \<Rightarrow> raise (ValueError (''Unknown task: '' @ i))
     | Some task \<Rightarrow>
         if task_status task \<in> {TS_COMPLETED, TS_FAILED} then ret Stable
         else
           bnd (progress (task_started task)) (\<lambda>_.
           bnd (run_once env progress i) (\<lambda>run.
           bnd (get_task (task_id task)) (\<lambda>updated.
           bnd (progress (task_finished task updated run)) (\<lambda>_.
           bnd (case (post, updated) of (Some f, Some t) \<Rightarrow> f t | _ \<Rightarrow> ret ()) (\<lambda>_.
           bnd (list_decisions (run_id run)) (\<lambda>decisions.
           if map_option decision_action (last_option decisions) = Some DA_BRANCH
           then bnd (resolve_branching env i) (\<lambda>runs. ret (Ran (run # runs)))
           else ret (Ran [run]))))))))"

fun run_until_stable ::
  "nat \<Rightarrow> run_env \<Rightarrow> announce \<Rightarrow> (Task \<Rightarrow> unit op) option \<Rightarrow> string \<Rightarrow> Run list option op"
where
  "run_until_stable 0 env progress post i = ret None"
| "run_until_stable (Suc n) env progress post i =
     bnd (stable_step env progress post i) (\<lambda>step.
     case step of
       Stable \<Rightarrow> ret (Some [])
     | Ran runs \<Rightarrow> bnd (run_until_stable n env progress post i) (\<lambda>rest. ret (map_option ((@) runs) rest)))"

end
