(* ===== verification/Branch_Props.thy ===== *)
theory Branch_Props
  imports Branch_Service
begin

section \<open>What branches and repeated runs guarantee\<close>

subsection \<open>The winner of a branch\<close>

definition in_branch :: "string \<Rightarrow> string \<Rightarrow> Run \<Rightarrow> bool" where
  "in_branch i branch r \<longleftrightarrow> run_task_id r = i \<and> run_branch_id r = Some branch"

definition score_in :: "store \<Rightarrow> Run \<Rightarrow> rat" where
  "score_in s r = score_of (order_by evaluation_created_at (filter (\<lambda>e. evaluation_run_id e = run_id r) (st_evaluations s)))
     (length (filter (\<lambda>a. artifact_run_id a = run_id r) (st_artifacts s)))"

lemma score_runs: "collect score_run rs s = (Inr (map (\<lambda>r. (r, score_in s r)) rs), s)"
  by (induction rs)
    (simp_all add: score_run_def score_in_def list_evaluations_def list_artifacts_def bnd_run ret_run)

lemma best_first:
  fixes f :: "'a \<Rightarrow> 'k::linorder"
  assumes "xs \<noteq> []"
  shows "hd (sort_key f xs) \<in> set xs" and "x \<in> set xs \<Longrightarrow> f (hd (sort_key f xs)) \<le> f x"
proof -
  obtain y ys where ys: "sort_key f xs = y # ys"
    using assms by (metis length_0_conv length_sort list.exhaust)
  then have set: "set xs = insert y (set ys)" by (metis list.simps(15) set_sort)
  then show "hd (sort_key f xs) \<in> set xs" by (simp add: ys)
  have "sorted (map f (y # ys))" by (metis ys sorted_sort_key)
  then show "x \<in> set xs \<Longrightarrow> f (hd (sort_key f xs)) \<le> f x" by (auto simp: ys set)
qed

text \<open>What happens to a row when the runs with the identifiers \<open>D\<close> are disposed of.\<close>

definition disposed_row :: "string set \<Rightarrow> Run \<Rightarrow> Run \<Rightarrow> bool" where
  "disposed_row D x y \<longleftrightarrow> run_id y = run_id x \<and> run_task_id y = run_task_id x \<and> run_branch_id y = run_branch_id x
     \<and> (if run_id x \<in> D then run_status y = RS_DISPOSED else y = x)"

lemma disposed_row_trans: "disposed_row A x y \<Longrightarrow> disposed_row B y z \<Longrightarrow> disposed_row (A \<union> B) x z"
  by (auto simp: disposed_row_def split: if_splits)

lemma mark_disposed_rows:
  "mark_run d RS_DISPOSED sm s = (Inr r, t) \<Longrightarrow>
    list_all2 (disposed_row {run_id d}) (st_runs s) (st_runs t) \<and> st_tasks t = st_tasks s"
  by (auto simp: mark_run_def bnd_run utc_now_def update_run_def ret_run Let_def update_where_def
      list_all2_conv_all_nth disposed_row_def)

lemma dispose_run_rows:
  "dispose_run branch w d s = (Inr u, t) \<Longrightarrow>
    list_all2 (disposed_row {run_id d}) (st_runs s) (st_runs t) \<and> st_tasks t = st_tasks s"
  unfolding dispose_run_def
proof (elim bnd_InrE)
  fix r s1
  assume m: "mark_run d RS_DISPOSED (''Disposed in favor of winner '' @ run_id w @ ''.'') s = (Inr r, s1)"
    and e: "emit ''run'' (run_id d) ''branch_run_disposed''
       [(''branch_id'', PStr branch), (''winner_run_id'', PStr (run_id w))] s1 = (Inr u, t)"
  show ?thesis
    using mark_disposed_rows [OF m] keeps_run [OF run_rows_kept(1) e] keeps_run [OF aside_basic(3) [OF aside_tables(1)] e] by simp
qed

lemma dispose_rows:
  "for_each ds (dispose_run branch w) s = (Inr u, t) \<Longrightarrow>
    list_all2 (disposed_row (run_id ` set ds)) (st_runs s) (st_runs t) \<and> st_tasks t = st_tasks s"
proof (induction ds arbitrary: s)
  case Nil
  then show ?case by (auto simp: ret_run disposed_row_def list.rel_refl)
next
  case (Cons d ds)
  from Cons.prems obtain v s1 where d: "dispose_run branch w d s = (Inr v, s1)"
    and rest: "for_each ds (dispose_run branch w) s1 = (Inr u, t)"
    by (metis bnd_InrE for_each.simps(2))
  have "list_all2 (disposed_row ({run_id d} \<union> run_id ` set ds)) (st_runs s) (st_runs t)"
  proof (rule list_all2_trans [where ?P1.0 = "disposed_row {run_id d}" and ?P2.0 = "disposed_row (run_id ` set ds)"])
    show "disposed_row {run_id d} x y \<Longrightarrow> disposed_row (run_id ` set ds) y z
      \<Longrightarrow> disposed_row ({run_id d} \<union> run_id ` set ds) x z" for x y z by (rule disposed_row_trans)
    show "list_all2 (disposed_row {run_id d}) (st_runs s) (st_runs s1)" using dispose_run_rows [OF d] by simp
    show "list_all2 (disposed_row (run_id ` set ds)) (st_runs s1) (st_runs t)" using Cons.IH [OF rest] by simp
  qed
  then show ?case using dispose_run_rows [OF d] Cons.IH [OF rest] by simp
qed

definition branch_rows :: "string \<Rightarrow> string \<Rightarrow> store \<Rightarrow> Run list" where
  "branch_rows i branch s = filter (\<lambda>r. run_branch_id r = Some branch)
     (order_by run_created_at (filter (\<lambda>r. clause (Some i) (Some (run_task_id r))) (st_runs s)))"

definition finished_rows :: "string \<Rightarrow> string \<Rightarrow> store \<Rightarrow> Run list" where
  "finished_rows i branch s = filter (\<lambda>r. run_status r = RS_COMPLETED) (branch_rows i branch s)"

definition best_row :: "string \<Rightarrow> string \<Rightarrow> store \<Rightarrow> Run" where
  "best_row i branch s =
     fst (hd (sort_key (\<lambda>p. - snd p) (map (\<lambda>r. (r, score_in s r)) (finished_rows i branch s))))"

lemma set_branch_rows: "i \<noteq> [] \<Longrightarrow> set (branch_rows i branch s) = {r \<in> set (st_runs s). in_branch i branch r}"
  by (auto simp: branch_rows_def in_branch_def clause_def)

lemma best_row_best:
  assumes "finished_rows i branch s \<noteq> []"
  shows "best_row i branch s \<in> set (finished_rows i branch s)"
    and "r \<in> set (finished_rows i branch s) \<Longrightarrow> score_in s r \<le> score_in s (best_row i branch s)"
proof -
  let ?xs = "map (\<lambda>r. (r, score_in s r)) (finished_rows i branch s)"
  let ?best = "hd (sort_key (\<lambda>p. - snd p) ?xs)"
  have ne: "?xs \<noteq> []" using assms by simp
  have best: "?best \<in> set ?xs" by (rule best_first(1) [OF ne])
  then have snd: "snd ?best = score_in s (fst ?best)" by auto
  show "best_row i branch s \<in> set (finished_rows i branch s)"
    using best by (auto simp: best_row_def)
  assume "r \<in> set (finished_rows i branch s)"
  then have "(r, score_in s r) \<in> set ?xs" by simp
  from best_first(2) [OF ne this, of "\<lambda>p. - snd p"] show "score_in s r \<le> score_in s (best_row i branch s)"
    by (simp add: best_row_def snd)
qed

lemma select_winner_run:
  assumes "find_key task_id i (st_tasks s) = Some task" and "branch_rows i branch s \<noteq> []"
  shows "select_winner i branch s = (if finished_rows i branch s = []
     then bnd (update_task_status i TS_FAILED) (\<lambda>_.
          bnd (emit ''task'' i ''branch_selection_failed''
                 [(''branch_id'', PStr branch), (''reason'', PStr ''No completed branch runs available.'')]) (\<lambda>_.
          raise (ValueError (''No completed runs in branch '' @ branch)))) s
     else crown i branch (branch_rows i branch s)
       (hd (sort_key (\<lambda>p. - snd p) (map (\<lambda>r. (r, score_in s r)) (finished_rows i branch s)))) s)"
  using assms find_key_Some [OF assms(1)]
  by (simp add: select_winner_def get_task_def list_runs_def Let_def branch_rows_def [symmetric] finished_rows_def [symmetric]
      bnd_step [OF score_runs])

lemma select_winner_steps:
  assumes "select_winner i branch s = (Inr w, t)"
  obtains u1 u2 u3 s1 s2 s3 x e where "finished_rows i branch s \<noteq> []" and "wnr_winner_run w = best_row i branch s"
    and "wnr_disposed_runs w = filter (\<lambda>r. run_id r \<noteq> run_id (wnr_winner_run w)) (branch_rows i branch s)"
    and "for_each (wnr_disposed_runs w) (dispose_run branch (wnr_winner_run w)) s = (Inr u1, s1)"
    and "new_decision (wnr_winner_run w) \<lparr>dr_action = DA_PROMOTE, dr_rationale = wnr_rationale w\<rparr> s1 = (Inr x, s2)"
    and "update_task_status i TS_COMPLETED s2 = (Inr u2, s3)"
    and "emit ''task'' i ''branch_winner_selected'' e s3 = (Inr u3, t)"
proof -
  obtain task where task: "find_key task_id i (st_tasks s) = Some task"
    using assms by (cases "find_key task_id i (st_tasks s)") (simp_all add: select_winner_def get_task_def raise_run)
  have rows: "branch_rows i branch s \<noteq> []"
    using assms by (auto simp: select_winner_def get_task_def task list_runs_def branch_rows_def [symmetric] raise_run Let_def)
  have ne: "finished_rows i branch s \<noteq> []"
    using assms by (auto simp: select_winner_run [OF task rows] raise_run bnd_Inr_iff split: if_splits)
  have "crown i branch (branch_rows i branch s)
      (hd (sort_key (\<lambda>p. - snd p) (map (\<lambda>r. (r, score_in s r)) (finished_rows i branch s)))) s = (Inr w, t)"
    using assms ne by (simp add: select_winner_run [OF task rows])
  then show ?thesis
    unfolding crown_def Let_def by (elim bnd_InrE) (rule that; auto simp: ret_run best_row_def ne)
qed

text \<open>The best branch wins. When \<open>select_winner\<close> returns, the winner is a completed run of the branch
  with the highest score among the completed ones; afterwards it stands as it was while every other run of the
  branch is disposed of, no other run of any task or branch was touched, a decision to promote the
  winner is recorded and the task is completed.\<close>

theorem best_branch_wins:
  assumes "select_winner i branch s = (Inr w, t)" and "i \<noteq> []" and "keyed run_id (st_runs s)"
  shows "let win = wnr_winner_run w in
    win \<in> set (st_runs s) \<and> win \<in> set (st_runs t) \<and> in_branch i branch win \<and> run_status win = RS_COMPLETED
    \<and> (\<forall>r\<in>set (st_runs s). in_branch i branch r \<and> run_status r = RS_COMPLETED \<longrightarrow> score_in s r \<le> score_in s win)
    \<and> (\<forall>r\<in>set (st_runs t). in_branch i branch r \<and> r \<noteq> win \<longrightarrow> run_status r = RS_DISPOSED)
    \<and> (\<forall>r\<in>set (st_runs s). \<not> in_branch i branch r \<longrightarrow> r \<in> set (st_runs t))
    \<and> (\<exists>d\<in>set (st_decisions t). decision_run_id d = run_id win \<and> decision_action d = DA_PROMOTE)
    \<and> status_of i t = Some TS_COMPLETED"
proof -
  let ?win = "wnr_winner_run w" and ?dis = "wnr_disposed_runs w"
  obtain u1 u2 u3 s1 s2 s3 x e where ne: "finished_rows i branch s \<noteq> []" and win: "?win = best_row i branch s"
    and dis: "?dis = filter (\<lambda>r. run_id r \<noteq> run_id ?win) (branch_rows i branch s)"
    and steps: "for_each ?dis (dispose_run branch ?win) s = (Inr u1, s1)"
      "new_decision ?win \<lparr>dr_action = DA_PROMOTE, dr_rationale = wnr_rationale w\<rparr> s1 = (Inr x, s2)"
      "update_task_status i TS_COMPLETED s2 = (Inr u2, s3)" "emit ''task'' i ''branch_winner_selected'' e s3 = (Inr u3, t)"
    by (rule select_winner_steps [OF assms(1)])
  have fin: "set (finished_rows i branch s) = {r \<in> set (st_runs s). in_branch i branch r \<and> run_status r = RS_COMPLETED}"
    by (auto simp: finished_rows_def set_branch_rows [OF assms(2)])
  have w: "?win \<in> set (st_runs s)" "in_branch i branch ?win" "run_status ?win = RS_COMPLETED"
    using best_row_best(1) [OF ne] fin win by auto
  have inj: "r = ?win" if "r \<in> set (st_runs s)" "run_id r = run_id ?win" for r
    using assms(3) w(1) that by (auto simp: keyed_def distinct_map dest: inj_onD)
  have rows: "list_all2 (disposed_row (run_id ` set ?dis)) (st_runs s) (st_runs t)"
    using dispose_rows [OF steps(1)] keeps_run [OF run_rows_kept(2) steps(2)] keeps_run [OF run_rows_kept(3) steps(3)]
      keeps_run [OF run_rows_kept(1) steps(4)] by simp
  have there: "\<exists>r'\<in>set (st_runs t). disposed_row (run_id ` set ?dis) r r'" if "r \<in> set (st_runs s)" for r
    using rows that by (metis in_set_conv_nth list_all2_conv_all_nth)
  have origin: "\<exists>r'\<in>set (st_runs s). disposed_row (run_id ` set ?dis) r' r" if "r \<in> set (st_runs t)" for r
    using rows that by (metis in_set_conv_nth list_all2_conv_all_nth)
  have notdis: "run_id ?win \<notin> run_id ` set ?dis" by (auto simp: dis)
  have kept: "?win \<in> set (st_runs t)"
    using there [OF w(1)] notdis by (auto simp: disposed_row_def)
  have disposed: "run_status r = RS_DISPOSED" if "r \<in> set (st_runs t)" "in_branch i branch r" "r \<noteq> ?win" for r
  proof -
    from origin [OF that(1)] obtain r' where r': "r' \<in> set (st_runs s)" "disposed_row (run_id ` set ?dis) r' r" by blast
    then have "r' \<in> set (branch_rows i branch s)"
      using that(2) by (auto simp: set_branch_rows [OF assms(2)] disposed_row_def in_branch_def)
    moreover have "run_id r' \<noteq> run_id ?win"
    proof
      assume "run_id r' = run_id ?win"
      moreover from this have "r' = ?win" by (rule inj [OF r'(1)])
      ultimately show False using r'(2) that(3) notdis by (auto simp: disposed_row_def)
    qed
    ultimately have "run_id r' \<in> run_id ` set ?dis" by (simp add: dis)
    then show ?thesis using r'(2) by (simp add: disposed_row_def)
  qed
  have others: "r \<in> set (st_runs t)" if "r \<in> set (st_runs s)" "\<not> in_branch i branch r" for r
  proof -
    have "run_id r \<notin> run_id ` set ?dis"
      using that assms(3) by (auto simp: dis set_branch_rows [OF assms(2)] keyed_def distinct_map dest!: inj_onD)
    with there [OF that(1)] show ?thesis by (auto simp: disposed_row_def)
  qed
  have "st_decisions t = st_decisions s2"
    using keeps_run [OF update_status_keeps steps(3)] keeps_run [OF aside_basic(3) [OF aside_tables(3)] steps(4)]
    by (simp add: kept_tables_def)
  with new_decision_recorded [OF steps(2)] have dec:
    "\<exists>d\<in>set (st_decisions t). decision_run_id d = run_id ?win \<and> decision_action d = DA_PROMOTE" by auto
  have status: "status_of i t = Some TS_COMPLETED"
    using update_task_status_sets [OF steps(3)] keeps_run [OF aside_basic(3) [OF aside_tables(4)] steps(4)] by simp
  show ?thesis
    unfolding Let_def using w kept disposed others dec status best_row_best(2) [OF ne] fin win by auto
qed

subsection \<open>A selection that returns\<close>

lemma update_status_returns:
  assumes "status = TS_COMPLETED \<or> status = TS_FAILED \<or> status = TS_PENDING"
  shows "returns (ready i rs) (update_task_status i status) (\<lambda>_. fresh)"
  unfolding returns_def
proof (intro allI impI)
  fix s
  assume r: "ready i rs s"
  have "validate_task_transition TS_ACTIVE status = Inr ()"
    using assms by (auto simp: validate_task_transition_def VALID_TASK_TRANSITIONS_def)
  moreover have "status_of i s = Some TS_ACTIVE" using r by (simp add: ready_def)
  ultimately obtain t where t: "update_task_status i status s = (Inr (), t)" using update_task_status_run by blast
  from fresh_cong [OF keeps_run [OF update_status_fresh t]] r t
  show "\<exists>a t. update_task_status i status s = (Inr a, t) \<and> fresh t" by (auto simp: ready_def)
qed

lemma crown_returns:
  assumes "run_id (fst best) \<in> rs"
  shows "returns (ready i rs) (crown i branch rows best) (\<lambda>_. fresh)"
proof -
  have disp: "keeps_going (ready i rs) (for_each ds (dispose_run branch w))" for ds w
    unfolding dispose_run_def by (intro return_rules)
  have tail: "keeps_going fresh (bnd (emit a b c d) (\<lambda>_. ret x))" for a b c d and x :: WinnerResult
    by (intro return_rules)
  show ?thesis
    unfolding crown_def Let_def
    by (rule returns_bnd [OF disp [unfolded keeps_going_def]],
        rule returns_bnd [OF new_decision_going [OF assms, unfolded keeps_going_def]],
        rule returns_bnd [OF update_status_returns], simp, rule tail [unfolded keeps_going_def])
qed

definition demo_run :: "string \<Rightarrow> RunStatus \<Rightarrow> Run" where
  "demo_run i st = \<lparr>run_id = i, run_task_id = ''task_1'', run_status = st, run_attempt = 1, run_summary = [],
     run_branch_id = Some ''branch_1'', run_created_at = 0, run_updated_at = 0\<rparr>"

definition demo_branch :: store where
  "demo_branch = (empty_store 0)\<lparr>st_tasks := [sample_task\<lparr>task_status := TS_ACTIVE\<rparr>],
     st_runs := [demo_run ''a'' RS_COMPLETED, demo_run ''b'' RS_FAILED, demo_run ''c'' RS_COMPLETED],
     st_evaluations := [\<lparr>evaluation_id = ''e'', evaluation_run_id = ''c'', evaluation_verdict = EV_ACCEPTABLE,
       evaluation_confidence = 9 / 10, evaluation_summary = [], evaluation_details = [], evaluation_created_at = 0\<rparr>]\<rparr>"

end
