(* ===== verification/Run_Stability.thy ===== *)
theory Run_Stability
  imports Branch_Props
begin

section \<open>Running until stable ends\<close>

text \<open>
  The loop of \<open>run_until_stable\<close> has no bound of its own: it ends because every round that retries uses up an
  attempt. That needs a worker that never reports unavailable backends, since such a round is not
  counted; with one that always does, the loop never ends.
\<close>

subsection \<open>The runs of a task\<close>

definition run_keys :: "store \<Rightarrow> (string \<times> string \<times> int \<times> string option) list" where
  "run_keys s = map run_ident (st_runs s)"

definition attempts_of :: "string \<Rightarrow> store \<Rightarrow> int" where
  "attempts_of i s = max_or_zero (map run_attempt (filter (\<lambda>r. run_task_id r = i) (st_runs s)))"

definition attempts_in :: "string \<Rightarrow> (string \<times> string \<times> int \<times> string option) list \<Rightarrow> int" where
  "attempts_in i ks = max_or_zero (map (\<lambda>(_, _, a, _). a) (filter (\<lambda>(_, j, _, _). j = i) ks))"

lemma attempts_of_keys: "attempts_of i s = attempts_in i (run_keys s)"
  by (simp add: attempts_of_def attempts_in_def run_keys_def filter_map comp_def run_ident_def)

lemma max_or_zero_snoc: "max_or_zero (xs @ [max_or_zero xs + 1]) = max_or_zero xs + 1"
proof (cases "xs = []")
  case False
  then have "Max (insert (Max (set xs) + 1) (set xs)) = max (Max (set xs) + 1) (Max (set xs))"
    by (intro Max_insert) auto
  then show ?thesis using False by (simp add: max_or_zero_def)
qed (simp add: max_or_zero_def)

lemma attempts_in_snoc: "attempts_in i (ks @ [(r, i, attempts_in i ks + 1, b)]) = attempts_in i ks + 1"
  using max_or_zero_snoc by (simp add: attempts_in_def)

lemma aside_keys [simp]: "aside run_keys"
  by (simp add: aside_def run_keys_def)

lemma keys_frame [simp]:
  "run_keys (s\<lparr>st_artifacts := a\<rparr>) = run_keys s" "run_keys (s\<lparr>st_evaluations := e\<rparr>) = run_keys s"
  "run_keys (s\<lparr>st_decisions := d\<rparr>) = run_keys s" "run_keys (s\<lparr>st_tasks := ts\<rparr>) = run_keys s"
  by (simp_all add: run_keys_def)

lemma keeps_run_keys: "keeps st_runs m \<Longrightarrow> keeps run_keys m"
  by (simp add: keeps_def run_keys_def)

lemma next_attempt_run: "next_attempt i s = (Inr (attempts_of i s + 1), s)"
  by (simp add: next_attempt_def attempts_of_def)

lemma new_run_keys:
  assumes "new_run task n sm br s = (Inr r, t)"
  shows "run_keys t = run_keys s @ [run_ident r]" and "run_ident r = (run_id r, task_id task, n, br)"
    and "run_id r \<notin> run_id ` set (st_runs s)"
  using assms
  by (auto simp: new_run_def create_run_def bnd_Inr_iff new_id_def utc_now_def ret_run try_write_def rbind_Inr_iff
      insert_fk_Inr run_keys_def run_ident_def has_key_iff Let_def split: sum.splits)

lemma begin_run_keys:
  assumes "begin_run task progress s = (Inr (run, rc, h), t)" and "quiet run_keys progress"
  shows "run_keys t = run_keys s @ [run_ident run]" and "run_id run \<notin> fst ` set (run_keys s)"
    and "run_ident run = (run_id run, task_id task, attempts_of (task_id task) s + 1, None)"
proof -
  have reads: "t = s" if "(case z of None \<Rightarrow> ret [] | Some r \<Rightarrow> list_evaluations (run_id r)) s = (Inr x, t)
      \<or> (case z of None \<Rightarrow> ret [] | Some r \<Rightarrow> list_decisions (run_id r)) s = (Inr y, t)" for z :: "Run option" and x y s t
    using that by (cases z) (auto simp: ret_run list_evaluations_def list_decisions_def)
  from assms(1) obtain u1 s1 u2 s2 s3 u3 e a b c d where steps:
    "emit ''task'' (task_id task) ''task_activated'' [] s = (Inr u1, s1)"
    "new_run task (attempts_of (task_id task) s1 + 1) ''Run created.'' None s1 = (Inr run, s2)"
    "progress e s2 = (Inr u2, s3)" "emit a b c d s3 = (Inr u3, t)"
    unfolding begin_run_def Let_def
  proof (elim bnd_InrE, goal_cases)
    case (1 u1 s1 n s1' rs s2 ev s3 dc s4 r s5 u2 s6 u3 s7)
    have eqs: "s1' = s1" "n = attempts_of (task_id task) s1 + 1" "s2 = s1'" "r = run" "s7 = t"
      using 1(3,4,10) by (auto simp: next_attempt_run list_runs_def ret_run)
    have "s3 = s2" "s4 = s3" using reads 1(5,6) by blast+
    with eqs show ?case using 1(1) [OF 1(2) _ 1(8)] 1(7,9) by simp
  qed
  have k1: "run_keys s1 = run_keys s" by (rule keeps_run [OF aside_basic(3) [OF aside_keys] steps(1)])
  have k3: "run_keys s3 = run_keys s2" by (rule keeps_run [OF quietD [OF assms(2)] steps(3)])
  have k4: "run_keys t = run_keys s3" by (rule keeps_run [OF aside_basic(3) [OF aside_keys] steps(4)])
  note new = new_run_keys [OF steps(2)]
  show "run_keys t = run_keys s @ [run_ident run]" using new(1) k1 k3 k4 by simp
  show "run_id run \<notin> fst ` set (run_keys s)"
    using new(3) unfolding k1 [symmetric] by (auto simp: run_keys_def run_ident_def)
  show "run_ident run = (run_id run, task_id task, attempts_of (task_id task) s + 1, None)"
    using new(2) by (simp add: attempts_of_keys k1)
qed


text \<open>Every other phase leaves the keys of the runs alone and hands the same run on.\<close>

lemma prepare_result: "prepare_run env project task run s = (Inr (w, ws), t) \<Longrightarrow> w = re_worker env
    \<or> (\<exists>ad build. re_adapters env (project_adapter_name project) = Inr ad \<and> ad_build_worker ad = Some build
         \<and> build project task run ws (re_worker env) = Inr (Some w))"
  unfolding prepare_run_def
  by (elim bnd_InrE) (auto elim!: bnd_InrE simp: ret_run lift_result_run split: option.splits)

lemma phase_idents:
  "plan_run task run rc progress s = (Inr r, t) \<Longrightarrow> run_ident r = run_ident run \<and> run_status r = RS_WORKING"
  "validate_candidate env task run work base progress s = (Inr (r, w), t) \<Longrightarrow> run_ident r = run_ident run"
  "record_work task run work progress s = (Inr r, t) \<Longrightarrow> run_ident r = run_ident run"
  "record_analysis task run analysis progress s = (Inr r, t) \<Longrightarrow> run_ident r = run_ident run"
  "conclude_run task run work analysis result progress s = (Inr r, t) \<Longrightarrow> run_ident r = run_ident run"
  unfolding plan_run_def validate_candidate_def record_work_def record_analysis_def conclude_run_def Let_def
  by (auto elim!: bnd_InrE simp: ret_run dest: mark_run_ident mark_run_result split: if_splits)

lemma validation_phase_ident:
  "validation_phase env task run work base progress s = (Inr r, t) \<Longrightarrow> run_ident r = run_ident run"
  unfolding validation_phase_def Let_def
  by (elim bnd_InrE) (auto elim!: bnd_InrE dest!: phase_idents split: prod.splits)

text \<open>A part of the store that runs only grow: every step after the creation of the run keeps it.\<close>

lemma status_ops_keep_keys [keep_rules]:
  "keeps run_keys (update_task_status i st)" "keeps run_keys (apply_task_status_for_run i st)"
  "keeps run_keys (record_attempt_metadata task run a)" "keeps run_keys (new_decision r x)"
proof -
  have upd: "keeps run_keys (update_task_attempt_metadata i m)" for i m
    unfolding update_task_attempt_metadata_def get_task_def Let_def
    by (intro keep_rules keeps_writes utc_now_keeps; simp add: run_keys_def)
  show st: "keeps run_keys (update_task_status i st)" for i st
    by (rule keeps_run_keys [OF run_rows_kept(3)])
  show "keeps run_keys (apply_task_status_for_run i st)"
    unfolding apply_task_status_for_run_def get_task_def by (intro keep_rules st)
  show "keeps run_keys (new_decision r x)" by (rule keeps_run_keys [OF run_rows_kept(2)])
  show "keeps run_keys (record_attempt_metadata task run a)"
    unfolding record_attempt_metadata_def Let_def
    by (cases "dict_get (ar_details a) ''diagnostics''"; simp; intro keep_rules upd aside_keys)
qed

lemma conclude_keeps_keys:
  assumes "quiet run_keys progress"
  shows "keeps run_keys (conclude_run task run work analysis result progress)"
  unfolding conclude_run_def Let_def by (intro keep_rules aside_keys quietD [OF assms])

lemma validation_phase_keeps_keys:
  assumes q: "quiet run_keys progress"
  shows "keeps run_keys (validation_phase env task run work base progress)"
  unfolding validation_phase_def Let_def
  by (intro keep_rules phases_keep [OF aside_keys q] record_work_keeps [OF aside_keys _ q]
      record_analysis_keeps [OF aside_keys _ q] conclude_keeps_keys [OF q] aside_keys) simp_all

subsection \<open>Workers with backends\<close>

lemma work_once_result:
  "work_once w task run progress b h s = (Inr (b', Inr work), t) \<Longrightarrow> \<exists>events. wk_work w task run h = (events, Inr work)"
  by (auto simp: work_once_def ret_run elim!: bnd_InrE split: prod.splits option.splits)

lemma call_worker_result:
  assumes "call_worker w task run progress hints s = (Inr work, t)"
  shows "\<exists>events h. wk_work w task run h = (events, Inr work)"
proof -
  from assms obtain b r u where first: "work_once w task run progress False (Some hints) s = (Inr (b, r), u)"
    and rest: "(case r of Inl (TypeError m) \<Rightarrow> bnd (work_once w task run progress b None) (\<lambda>(_, x). lift_result x)
       | _ \<Rightarrow> lift_result r) u = (Inr work, t)"
    unfolding call_worker_def by (auto elim!: bnd_InrE)
  show ?thesis
  proof (cases r)
    case (Inr x)
    with first rest work_once_result show ?thesis by (fastforce simp: lift_result_run)
  next
    case (Inl e)
    with rest obtain m where "e = TypeError m" by (cases e) (auto simp: lift_result_run)
    with rest Inl obtain c v where "work_once w task run progress b None u = (Inr (c, Inr work), v)"
      by (auto elim!: bnd_InrE simp: lift_result_run)
    then show ?thesis by (blast dest: work_once_result)
  qed
qed

lemma diag_evidence [simp]: "diag (ensure_failure_evidence base r work) = diag work"
  by (simp add: ensure_failure_evidence_def diag_def)

definition uses_worker :: "run_env \<Rightarrow> worker \<Rightarrow> bool" where
  "uses_worker env w \<longleftrightarrow> w = re_worker env \<or> (\<exists>name ad build project task run ws. re_adapters env name = Inr ad
     \<and> ad_build_worker ad = Some build \<and> build project task run ws (re_worker env) = Inr (Some w))"

definition unavailable :: "WorkResult \<Rightarrow> bool" where
  "unavailable work \<longleftrightarrow> truthy (dict_get (diag work) ''backends_unavailable'')"

text \<open>An environment whose workers always have a backend, and one whose workers never have one.\<close>

definition backed :: "run_env \<Rightarrow> bool" where
  "backed env \<longleftrightarrow> (\<forall>w task run hints events work. uses_worker env w \<longrightarrow> wk_work w task run hints = (events, Inr work)
     \<longrightarrow> \<not> unavailable work)"

definition starved :: "run_env \<Rightarrow> bool" where
  "starved env \<longleftrightarrow> (\<forall>w task run hints events work. uses_worker env w \<longrightarrow> wk_work w task run hints = (events, Inr work)
     \<longrightarrow> unavailable work)"

lemma work_phase_keys:
  assumes run: "work_phase env task project progress s = (Inr (work, run, base), t)"
    and q: "quiet run_keys progress"
  shows "run_keys t = run_keys s @ [run_ident run]"
    and "run_ident run = (run_id run, task_id task, attempts_of (task_id task) s + 1, None)"
    and "run_id run \<notin> fst ` set (run_keys s)"
    and "backed env \<Longrightarrow> run_status run = RS_WORKING" and "starved env \<Longrightarrow> run_status run = RS_BLOCKED"
proof -
  from run obtain r0 rc h s1 w ws s2 r1 s3 wk s4 where steps:
    "begin_run task progress s = (Inr (r0, rc, h), s1)" "prepare_run env project task r0 s1 = (Inr (w, ws), s2)"
    "plan_run task r0 rc progress s2 = (Inr r1, s3)" "call_worker w task r1 progress h s3 = (Inr wk, s4)"
    and rest: "(let work = ensure_failure_evidence (re_root env) r1 wk in
     if truthy (dict_get (diag work) ''backends_unavailable'')
     then
       bnd (mark_run r1 RS_BLOCKED ''All LLM backends unavailable.'') (\<lambda>run.
       bnd (apply_task_status_for_run (task_id task) TS_PENDING) (\<lambda>_.
       bnd (progress [(''type'', PStr ''backends_unavailable''), (''task_id'', PStr (task_id task)),
              (''run_id'', PStr (run_id run)),
              (''message'', PStr (if dict_has (diag work) ''failure_message''
                 then py_str (dict_get (diag work) ''failure_message'') else []))]) (\<lambda>_.
       ret (work, run, ws_project_root ws))))
     else ret (work, r1, ws_project_root ws)) s4 = (Inr (work, run, base), t)"
    unfolding work_phase_def by (fastforce elim!: bnd_InrE)
  have uses: "uses_worker env w" using prepare_result [OF steps(2)] unfolding uses_worker_def by blast
  obtain events hh where wk: "wk_work w task r1 hh = (events, Inr wk)" using call_worker_result [OF steps(4)] by blast
  have id: "run_ident r1 = run_ident r0" "run_status r1 = RS_WORKING" using phase_idents(1) [OF steps(3)] by simp_all
  have end_run: "run_ident run = run_ident r1 \<and> run_keys t = run_keys s4
      \<and> run_status run = (if unavailable wk then RS_BLOCKED else RS_WORKING)"
  proof (cases "unavailable wk")
    case True
    with rest obtain s5 u s6 e v where m: "mark_run r1 RS_BLOCKED ''All LLM backends unavailable.'' s4 = (Inr run, s5)"
      and a: "apply_task_status_for_run (task_id task) TS_PENDING s5 = (Inr u, s6)" and p: "progress e s6 = (Inr v, t)"
      by (auto elim!: bnd_InrE simp: ret_run Let_def unavailable_def)
    from True mark_run_ident [OF m] mark_run_result [OF m] keeps_run [OF aside_basic(4) [OF aside_keys] m]
      keeps_run [OF status_ops_keep_keys(2) a] keeps_run [OF quietD [OF q] p] show ?thesis by simp
  next
    case False
    with rest have "run = r1" "t = s4" by (simp_all add: ret_run Let_def unavailable_def)
    with False id(2) show ?thesis by simp
  qed
  note new = begin_run_keys [OF steps(1) q]
  have "run_keys s4 = run_keys s1"
    using keeps_run [OF prepare_keeps [OF aside_keys] steps(2)] keeps_run [OF phases_keep(1) [OF aside_keys q] steps(3)]
      keeps_run [OF call_worker_keeps [OF aside_keys q] steps(4)] by simp
  with new(1) id end_run show "run_keys t = run_keys s @ [run_ident run]" by simp
  have same: "run_id run = run_id r0" using id(1) end_run by (simp add: run_ident_def)
  show "run_ident run = (run_id run, task_id task, attempts_of (task_id task) s + 1, None)"
    using new(3) id(1) end_run same by simp
  show "run_id run \<notin> fst ` set (run_keys s)" using new(2) same by simp
  show "backed env \<Longrightarrow> run_status run = RS_WORKING" "starved env \<Longrightarrow> run_status run = RS_BLOCKED"
    using end_run uses wk by (auto simp: backed_def starved_def)
qed

lemma run_once_keys:
  assumes "run_once env progress i s = (Inr r, t)" and q: "quiet run_keys progress"
  shows "run_keys t = run_keys s @ [(run_id r, i, attempts_of i s + 1, None)]"
    and "run_ident r = (run_id r, i, attempts_of i s + 1, None)" and "run_id r \<notin> fst ` set (run_keys s)"
proof -
  obtain task project s1 work r1 base s2 where id: "task_id task = i"
    and s1: "update_task_status i TS_ACTIVE s = (Inr (), s1)"
    and w: "work_phase env task project progress s1 = (Inr (work, r1, base), s2)"
    and rest: "(if run_status r1 = RS_BLOCKED then ret r1
     else bnd (progress [(''type'', PStr ''ready_for_next''), (''task_id'', PStr (task_id task))]) (\<lambda>_.
       validation_phase env task r1 work base progress)) s2 = (Inr r, t)"
    by (rule run_once_steps [OF assms(1)])
  note wk = work_phase_keys [OF w q]
  have "run_keys t = run_keys s2 \<and> run_ident r = run_ident r1"
  proof (cases "run_status r1 = RS_BLOCKED")
    case True
    with rest show ?thesis by (simp add: ret_run)
  next
    case False
    with rest obtain u e s3 where p: "progress e s2 = (Inr u, s3)"
      and val: "validation_phase env task r1 work base progress s3 = (Inr r, t)" by (auto elim!: bnd_InrE)
    show ?thesis
      using keeps_run [OF validation_phase_keeps_keys [OF q] val] keeps_run [OF quietD [OF q] p]
        validation_phase_ident [OF val] by simp
  qed
  moreover from this have "run_id r = run_id r1" by (simp add: run_ident_def)
  moreover have "run_keys s1 = run_keys s" by (rule keeps_run [OF status_ops_keep_keys(1) s1])
  ultimately show "run_keys t = run_keys s @ [(run_id r, i, attempts_of i s + 1, None)]"
    and "run_ident r = (run_id r, i, attempts_of i s + 1, None)" and "run_id r \<notin> fst ` set (run_keys s)"
    using wk(1-3) id by (simp_all add: attempts_of_keys)
qed

text \<open>What a run leaves of its task: every column except the status, the attempt metadata and the time.\<close>

definition steady :: "(Task \<Rightarrow> 'v) \<Rightarrow> bool" where
  "steady g \<longleftrightarrow> (\<forall>x a b. g (x\<lparr>task_status := a, task_updated_at := b\<rparr>) = g x)
     \<and> (\<forall>x m b. g (x\<lparr>task_attempt_metadata := m, task_updated_at := b\<rparr>) = g x)"

definition setting_of :: "(Task \<Rightarrow> 'v) \<Rightarrow> string \<Rightarrow> store \<Rightarrow> 'v option \<times> Project list" where
  "setting_of g i s = (map_option g (find_key task_id i (st_tasks s)), st_projects s)"

lemma aside_setting [simp]: "aside (setting_of g i)"
  by (simp add: aside_def setting_of_def)

lemma setting_updates:
  assumes "steady g"
  shows "setting_of g i (s\<lparr>st_tasks := update_where (\<lambda>x. task_id x = k) (\<lambda>x. x\<lparr>task_status := a, task_updated_at := b\<rparr>) (st_tasks s)\<rparr>) = setting_of g i s"
    and "setting_of g i (s\<lparr>st_tasks := update_where (\<lambda>x. task_id x = k) (\<lambda>x. x\<lparr>task_attempt_metadata := m, task_updated_at := b\<rparr>) (st_tasks s)\<rparr>) = setting_of g i s"
  using assms
  by (cases "find_key task_id i (st_tasks s)"; simp add: setting_of_def find_key_update steady_def)+

lemma setting_frame [simp]:
  "setting_of g i (s\<lparr>st_artifacts := x1\<rparr>) = setting_of g i s" "setting_of g i (s\<lparr>st_evaluations := x2\<rparr>) = setting_of g i s"
  "setting_of g i (s\<lparr>st_decisions := x3\<rparr>) = setting_of g i s" "setting_of g i (s\<lparr>st_runs := x4\<rparr>) = setting_of g i s"
  "setting_of g i (s\<lparr>st_objectives := x5\<rparr>) = setting_of g i s" "setting_of g i (s\<lparr>st_ticks := x6\<rparr>) = setting_of g i s"
  by (simp_all add: setting_of_def)

lemma status_ops_keep_setting:
  assumes g: "steady g"
  shows "keeps (setting_of g i) (update_task_status j st)" "keeps (setting_of g i) (apply_task_status_for_run j st)"
    "keeps (setting_of g i) (record_attempt_metadata task run a)"
proof -
  have upd: "keeps (setting_of g i) (update_task_attempt_metadata j m)" for j m
    unfolding update_task_attempt_metadata_def get_task_def Let_def
    by (intro keep_rules keeps_writes utc_now_keeps; simp add: setting_updates [OF g])
  show st: "keeps (setting_of g i) (update_task_status j st)" for j st
    unfolding update_task_status_def get_task_def update_objective_phase_def Let_def
    by (intro keep_rules keeps_writes utc_now_keeps; simp add: setting_updates [OF g])
  show "keeps (setting_of g i) (apply_task_status_for_run j st)"
    unfolding apply_task_status_for_run_def get_task_def by (intro keep_rules st)
  show "keeps (setting_of g i) (record_attempt_metadata task run a)"
    unfolding record_attempt_metadata_def Let_def
    by (cases "dict_get (ar_details a) ''diagnostics''"; simp; intro keep_rules upd aside_setting)
qed

lemma run_once_keeps_setting:
  assumes q: "quiet (setting_of g j) progress" and g: "steady g"
  shows "keeps (setting_of g j) (run_once env progress i)"
proof -
  note rules = q keep_rules aside_setting status_ops_keep_setting [OF g] quietD [OF q] new_decision_keeps
  have work: "keeps (setting_of g j) (work_phase env task project progress)" for task project
    unfolding work_phase_def Let_def
    by (intro rules begin_run_keeps [OF aside_setting _ q] prepare_keeps phases_keep [OF aside_setting q]) simp_all
  have val: "keeps (setting_of g j) (validation_phase env task run w base progress)" for task run w base
    unfolding validation_phase_def conclude_run_def Let_def
    by (intro rules phases_keep [OF aside_setting q] record_work_keeps [OF aside_setting _ q]
        record_analysis_keeps [OF aside_setting _ q]) simp_all
  have gate: "keeps (setting_of g j) (gate_refuses task)" for task
    using gate_refuses_reads unfolding keeps_def by (metis prod.collapse)
  show ?thesis
    unfolding run_once_def run_guarded_def run_once_inner_def back_to_pending_def get_task_def get_project_def
    by (intro rules work val gate)
qed

definition limit_of :: "string \<Rightarrow> store \<Rightarrow> int option" where
  "limit_of i s = map_option task_max_attempts (find_key task_id i (st_tasks s))"

lemma limit_of_setting: "limit_of i s = fst (setting_of task_max_attempts i s)"
  by (simp add: limit_of_def setting_of_def)

subsection \<open>Branching finishes the task\<close>

lemma branch_run_keys:
  assumes "branch_run env adapter project task branch n attempt x s = (Inr r, t)"
  shows "\<exists>j a. run_keys t = run_keys s @ [(j, task_id task, a, Some branch)]"
proof -
  from assms obtain run s1 where new: "new_run task (attempt + int x)
       (''Speculative branch '' @ dec_int (int x + 1) @ ''/'' @ dec_int n @ ''.'') (Some branch) s = (Inr run, s1)"
    and rest: "branch_work env adapter project task branch n x run s1 = (Inr r, t)"
    unfolding branch_run_def by (rule bnd_InrE)
  have arts: "keeps run_keys (new_artifact r a b c)" "keeps run_keys (new_evaluation r an)" for r a b c an
    unfolding new_artifact_def create_artifact_def new_evaluation_def create_evaluation_def
    by (intro keep_rules keeps_try_write aside_keys; auto simp: rbind_Inr_iff)+
  have "keeps run_keys (branch_work env adapter project task branch n x run)"
    unfolding branch_work_def analyze_branch_def list_artifacts_def by (intro keep_rules arts aside_keys)
  from keeps_run [OF this rest] new_run_keys [OF new] show ?thesis by auto
qed

lemma branch_run_status: "keeps (status_of i) (branch_run env adapter project task branch n attempt x)"
proof -
  have arts: "keeps (status_of i) (new_artifact r a b c)" "keeps (status_of i) (new_evaluation r an)" for r a b c an
    unfolding new_artifact_def create_artifact_def new_evaluation_def create_evaluation_def
    by (intro keep_rules keeps_try_write aside_tables(4); auto simp: rbind_Inr_iff status_of_def)+
  have new: "keeps (status_of i) (new_run task a sm b)" for a sm b
    by (rule new_run_keeps) (simp_all add: status_of_def)
  show ?thesis
    unfolding branch_run_def branch_work_def analyze_branch_def list_artifacts_def by (intro keep_rules new arts aside_tables(4))
qed

lemma collect_keys:
  assumes "\<forall>x s r t. f x s = (Inr r, t) \<longrightarrow> (\<exists>j a. run_keys t = run_keys s @ [(j, i, a, b)])"
  shows "collect f xs s = (Inr rs, t) \<Longrightarrow> set (run_keys s) \<subseteq> set (run_keys t) \<and> (xs \<noteq> [] \<longrightarrow> (\<exists>j a. (j, i, a, b) \<in> set (run_keys t)))"
proof (induction xs arbitrary: s rs)
  case Nil
  then show ?case by (simp add: ret_run)
next
  case (Cons x xs)
  then obtain r s1 rs' where f: "f x s = (Inr r, s1)" and rest: "collect f xs s1 = (Inr rs', t)"
    by (auto elim!: bnd_InrE simp: ret_run)
  from assms f obtain j a where new: "run_keys s1 = run_keys s @ [(j, i, a, b)]" by blast
  with Cons.IH [OF rest] have "(j, i, a, b) \<in> set (run_keys t)" "set (run_keys s) \<subseteq> set (run_keys t)" by simp_all
  then show ?case by blast
qed

lemma create_branches_outcome:
  assumes "create_branches env i wanted s = (Inr b, t)"
  shows "status_of i t = Some TS_ACTIVE" and "branch_rows i (br_branch_id b) t \<noteq> []"
proof -
  obtain task where task: "find_key task_id i (st_tasks s) = Some task"
    using assms by (cases "find_key task_id i (st_tasks s)") (simp_all add: create_branches_def get_task_def raise_run)
  have id: "task_id task = i" using find_key_Some [OF task] by simp
  let ?n = "branch_count_of task wanted"
  obtain project where project: "find_key project_id (task_project_id task) (st_projects s) = Some project"
    using assms task by (cases "find_key project_id (task_project_id task) (st_projects s)")
      (simp_all add: create_branches_def get_task_def get_project_def raise_run)
  have n: "\<not> ?n < 2"
    using assms task project by (auto simp: create_branches_def get_task_def get_project_def raise_run Let_def)
  have "bnd (new_id ''branch'') (\<lambda>branch.
     bnd (update_task_status i TS_ACTIVE) (\<lambda>_.
     bnd (emit ''task'' i ''branch_started'' [(''branch_id'', PStr branch), (''branch_count'', PInt ?n)]) (\<lambda>_.
     bnd (next_attempt i) (\<lambda>attempt.
     bnd (lift_result (re_adapters env (project_adapter_name project))) (\<lambda>adapter.
     bnd (collect (branch_run env adapter project task branch ?n attempt) [0..<nat ?n]) (\<lambda>runs.
     bnd (emit ''task'' i ''branches_completed''
            [(''branch_id'', PStr branch), (''run_ids'', PList (map (\<lambda>r. PStr (run_id r)) runs)),
             (''statuses'', PList (map (\<lambda>r. PStr (RunStatus_value (run_status r))) runs))]) (\<lambda>_.
     ret \<lparr>br_branch_id = branch, br_runs = runs\<rparr>))))))) s = (Inr b, t)"
    using assms n by (simp add: create_branches_def get_task_def get_project_def task project Let_def id)
  then obtain branch v s1 u2 s2 u3 e3 s3 adapter rs s4 u5 e5 where steps:
    "new_id ''branch'' s = (Inr branch, s1)" "update_task_status i TS_ACTIVE s1 = (Inr u2, s2)"
    "emit ''task'' i ''branch_started'' e3 s2 = (Inr u3, s3)"
    "collect (branch_run env adapter project task branch ?n v) [0..<nat ?n] s3 = (Inr rs, s4)"
    "emit ''task'' i ''branches_completed'' e5 s4 = (Inr u5, t)" and b: "br_branch_id b = branch"
    by (elim bnd_InrE) (auto simp: next_attempt_run lift_result_run ret_run)
  have run: "\<exists>j a. run_keys v' = run_keys u @ [(j, i, a, Some branch)]"
    if "branch_run env adapter project task branch ?n v x u = (Inr r, v')" for x u r v'
    using branch_run_keys [OF that] id by simp
  have "[0..<nat ?n] \<noteq> []" using n by simp
  moreover have "\<forall>x u r v'. branch_run env adapter project task branch ?n v x u = (Inr r, v')
      \<longrightarrow> (\<exists>j a. run_keys v' = run_keys u @ [(j, i, a, Some branch)])" using run by blast
  ultimately obtain j a where "(j, i, a, Some branch) \<in> set (run_keys s4)"
    using collect_keys [OF _ steps(4)] by blast
  moreover have "run_keys t = run_keys s4" by (rule keeps_run [OF aside_basic(3) [OF aside_keys] steps(5)])
  ultimately have "(j, i, a, Some branch) \<in> set (run_keys t)" by simp
  then obtain r where "r \<in> set (st_runs t)" "run_task_id r = i" "run_branch_id r = Some branch"
    by (auto simp: run_keys_def run_ident_def)
  then have "r \<in> set (branch_rows i (br_branch_id b) t)" by (simp add: branch_rows_def b clause_def)
  then show "branch_rows i (br_branch_id b) t \<noteq> []" by auto
  have "status_of i s4 = status_of i s2"
    using keeps_run [OF keeps_collect [OF branch_run_status] steps(4)] keeps_run [OF aside_basic(3) [OF aside_tables(4)] steps(3)]
    by simp
  then show "status_of i t = Some TS_ACTIVE"
    using update_task_status_sets [OF steps(2)] keeps_run [OF aside_basic(3) [OF aside_tables(4)] steps(5)] by simp
qed

text \<open>Which errors a step can raise: none of those on the way to the winner is a \<open>ValueError\<close>.\<close>

definition no_value_error :: "('s, 'a) prog \<Rightarrow> bool" where
  "no_value_error m \<longleftrightarrow> (\<forall>s msg t. m s \<noteq> (Inl (ValueError msg), t))"

lemma nve_bnd: "no_value_error m \<Longrightarrow> (\<And>a. no_value_error (k a)) \<Longrightarrow> no_value_error (bnd m k)"
  by (auto simp: no_value_error_def bnd_def split: prod.splits sum.splits)

lemma nve_ret: "no_value_error (ret a)"
  by (simp add: no_value_error_def ret_run)

lemma nve_for_each: "(\<And>x. no_value_error (f x)) \<Longrightarrow> no_value_error (for_each xs f)"
  by (induction xs) (simp_all add: nve_ret nve_bnd)

lemma nve_steps: "no_value_error (emit a b c d)" "no_value_error (new_decision r x)" "no_value_error (mark_run r st sm)"
  by (auto simp: no_value_error_def emit_def create_event_def new_decision_def create_decision_def mark_run_def
      update_run_def bnd_run new_id_def utc_now_def try_write_run insert_row_def insert_fk_def ret_run Let_def
      split: sum.splits if_splits prod.splits)

definition calm_while_active :: "string \<Rightarrow> 'a op \<Rightarrow> bool" where
  "calm_while_active i m \<longleftrightarrow> (\<forall>s msg t. status_of i s = Some TS_ACTIVE \<longrightarrow> m s \<noteq> (Inl (ValueError msg), t))"

lemma calm_bnd:
  assumes "no_value_error m" and "keeps (status_of i) m" and "\<And>a. calm_while_active i (k a)"
  shows "calm_while_active i (bnd m k)"
  unfolding calm_while_active_def
proof (intro allI impI)
  fix s msg t
  assume s: "status_of i s = Some TS_ACTIVE"
  obtain r u where m: "m s = (r, u)" by fastforce
  with keeps_run [OF assms(2) m] s assms(3) have "k a u \<noteq> (Inl (ValueError msg), t)" for a
    by (simp add: calm_while_active_def)
  with m assms(1) show "bnd m k s \<noteq> (Inl (ValueError msg), t)"
    by (cases r) (auto simp: bnd_run no_value_error_def)
qed

lemma calm_complete:
  assumes "no_value_error m"
  shows "calm_while_active i (bnd (update_task_status i TS_COMPLETED) (\<lambda>_. m))"
  unfolding calm_while_active_def
proof (intro allI impI)
  fix s msg t
  assume s: "status_of i s = Some TS_ACTIVE"
  have "validate_task_transition TS_ACTIVE TS_COMPLETED = Inr ()"
    by (simp add: validate_task_transition_def VALID_TASK_TRANSITIONS_def)
  from update_task_status_run [OF s this] obtain u where "update_task_status i TS_COMPLETED s = (Inr (), u)" by blast
  with assms show "bnd (update_task_status i TS_COMPLETED) (\<lambda>_. m) s \<noteq> (Inl (ValueError msg), t)"
    by (simp add: bnd_run no_value_error_def)
qed

lemma crown_no_value_error: "calm_while_active i (crown i branch rows best)"
proof -
  have disp: "no_value_error (for_each ds (dispose_run branch w))" for ds w
    unfolding dispose_run_def by (intro nve_for_each nve_bnd nve_steps)
  have kept: "keeps (status_of i) (for_each ds (dispose_run branch w))" "keeps (status_of i) (new_decision r x)" for ds w r x
    unfolding dispose_run_def by (intro keep_rules aside_tables(4) new_decision_keeps; simp add: status_of_def)+
  show ?thesis
    unfolding crown_def Let_def by (intro calm_bnd disp kept nve_steps calm_complete nve_bnd nve_ret)
qed

lemma select_winner_settles:
  assumes run: "select_winner i branch s = (r, t)" and "r = Inr w \<or> r = Inl (ValueError msg)"
    and active: "status_of i s = Some TS_ACTIVE" and rows: "branch_rows i branch s \<noteq> []"
  shows "status_of i t = Some TS_COMPLETED \<or> status_of i t = Some TS_FAILED"
proof (cases "r = Inr w")
  case True
  with run have won: "select_winner i branch s = (Inr w, t)" by simp
  obtain u1 u2 u3 s1 s2 s3 x e where st: "update_task_status i TS_COMPLETED s2 = (Inr u2, s3)"
    and e: "emit ''task'' i ''branch_winner_selected'' e s3 = (Inr u3, t)"
    by (rule select_winner_steps [OF won])
  show ?thesis
    using update_task_status_sets [OF st] keeps_run [OF aside_basic(3) [OF aside_tables(4)] e] by simp
next
  case False
  with assms(2) run have raised: "select_winner i branch s = (Inl (ValueError msg), t)" by simp
  from active obtain task where task: "find_key task_id i (st_tasks s) = Some task" by (auto simp: status_of_def)
  show ?thesis
  proof (cases "finished_rows i branch s = []")
    case True
    have "validate_task_transition TS_ACTIVE TS_FAILED = Inr ()"
      by (simp add: validate_task_transition_def VALID_TASK_TRANSITIONS_def)
    from update_task_status_run [OF active this] obtain s1 where
      s1: "update_task_status i TS_FAILED s = (Inr (), s1)" "status_of i s1 = Some TS_FAILED" by blast
    have "keeps (status_of i) (bnd (emit a b c d) (\<lambda>_. raise e) :: WinnerResult op)" for a b c d e
      by (intro keep_rules aside_tables(4))
    note kept = this
    have "bnd (update_task_status i TS_FAILED) k s = k () s1" for k :: "unit \<Rightarrow> WinnerResult op"
      by (simp add: bnd_run s1)
    then obtain a b c d e where "bnd (emit a b c d) (\<lambda>_. raise e) s1 = (Inl (ValueError msg) :: exn + WinnerResult, t)"
      using raised True by (auto simp: select_winner_run [OF task rows] simp del: append.simps)
    from keeps_run [OF kept this] show ?thesis using s1(2) by simp
  next
    case False
    let ?best = "hd (sort_key (\<lambda>p. - snd p) (map (\<lambda>r. (r, score_in s r)) (finished_rows i branch s)))"
    have crown: "crown i branch (branch_rows i branch s) ?best s = (Inl (ValueError msg), t)"
      using raised False by (simp add: select_winner_run [OF task rows])
    then show ?thesis using crown_no_value_error [of i] active by (simp add: calm_while_active_def)
  qed
qed

lemma resolve_branching_settles:
  assumes "resolve_branching env i s = (Inr rs, t)"
  shows "status_of i t = Some TS_COMPLETED \<or> status_of i t = Some TS_FAILED"
proof -
  from assms obtain b s1 u where b: "create_branches env i None s = (Inr b, s1)"
    and w: "try_except (bnd (select_winner i (br_branch_id b)) (\<lambda>_. ret ()))
            (\<lambda>e. case e of ValueError _ \<Rightarrow> ret () | _ \<Rightarrow> raise e) s1 = (Inr u, t)"
    unfolding resolve_branching_def by (auto elim!: bnd_InrE simp: ret_run)
  note made = create_branches_outcome [OF b]
  obtain r v where r: "select_winner i (br_branch_id b) s1 = (r, v)" by fastforce
  with w have "v = t \<and> ((\<exists>x. r = Inr x) \<or> (\<exists>msg. r = Inl (ValueError msg)))"
    by (auto simp: try_except_def bnd_run ret_run raise_run split: sum.splits exn.splits)
  with select_winner_settles [OF r _ made] show ?thesis by blast
qed

subsection \<open>The loop ends\<close>

definition loop_view :: "store \<Rightarrow> Project list \<times> Task list \<times> (string \<times> string \<times> int \<times> string option) list \<times> Artifact list \<times> Decision list" where
  "loop_view s = (st_projects s, st_tasks s, run_keys s, st_artifacts s, st_decisions s)"

lemma quiet_loop:
  assumes "quiet loop_view progress"
  shows "quiet run_tables progress" and "quiet run_keys progress" and "quiet (setting_of g i) progress"
    and "quiet (status_of i) progress"
  using assms by (auto simp: quiet_def keeps_def loop_view_def run_tables_def setting_of_def status_of_def)

definition decisions_of_runs :: "store \<Rightarrow> bool" where
  "decisions_of_runs s \<longleftrightarrow> decision_run_id ` set (st_decisions s) \<subseteq> fst ` set (run_keys s)"

definition finished_task :: "string \<Rightarrow> store \<Rightarrow> bool" where
  "finished_task i s \<longleftrightarrow> status_of i s = Some TS_COMPLETED \<or> status_of i s = Some TS_FAILED"

lemma view_cong:
  assumes "loop_view s = loop_view t"
  shows "status_of i s = status_of i t" and "limit_of i s = limit_of i t" and "attempts_of i s = attempts_of i t"
    and "decisions_of_runs s = decisions_of_runs t" and "finished_task i s = finished_task i t"
    and "st_decisions s = st_decisions t"
  using assms by (simp_all add: loop_view_def status_of_def limit_of_def attempts_of_keys decisions_of_runs_def finished_task_def)

lemma decide_retry: "dr_action (decide a r task) = DA_RETRY \<Longrightarrow> run_attempt r < task_max_attempts task"
  by (auto simp: decide_def split: if_splits)

lemma decide_four: "dr_action (decide a r task) \<in> {DA_RETRY, DA_PROMOTE, DA_FAIL, DA_BRANCH}"
  by (auto simp: decide_def)

lemma run_once_decides:
  assumes run: "run_once env progress i s = (Inr r, t)" and task: "find_key task_id i (st_tasks s) = Some task"
    and q: "quiet loop_view progress" and env: "backed env"
  shows "\<exists>d. st_decisions t = st_decisions s @ [d] \<and> settled_by task r d t"
proof -
  obtain task' project s1 work r1 base s2 where there: "find_key task_id i (st_tasks s) = Some task'" and id: "task_id task' = i"
    and s1: "update_task_status i TS_ACTIVE s = (Inr (), s1)"
    and w: "work_phase env task' project progress s1 = (Inr (work, r1, base), s2)"
    and rest: "(if run_status r1 = RS_BLOCKED then ret r1
     else bnd (progress [(''type'', PStr ''ready_for_next''), (''task_id'', PStr (task_id task'))]) (\<lambda>_.
       validation_phase env task' r1 work base progress)) s2 = (Inr r, t)"
    by (rule run_once_steps [OF run])
  have same: "task' = task" using there task by simp
  note status = work_phase_keys(4) [OF w quiet_loop(2) [OF q] env]
  from rest status obtain u e s3 where p: "progress e s2 = (Inr u, s3)"
    and val: "validation_phase env task r1 work base progress s3 = (Inr r, t)" by (auto elim!: bnd_InrE simp: same)
  have active: "status_of (task_id task') s1 = Some TS_ACTIVE" using update_task_status_sets [OF s1] by (simp add: id)
  have "status_of i s2 = Some TS_ACTIVE \<and> st_decisions s2 = st_decisions s1"
    using work_phase_outcome [OF w active quiet_loop(1) [OF q]] status id by simp
  moreover have "st_decisions s1 = st_decisions s" using keeps_run [OF update_status_keeps s1] by (simp add: kept_tables_def)
  moreover have "status_of i s3 = status_of i s2" by (rule keeps_run [OF quietD [OF quiet_loop(4) [OF q]] p])
  moreover have "st_decisions s3 = st_decisions s2"
    by (rule keeps_run [OF quietD [OF quiet_tables(3) [OF quiet_loop(1) [OF q]]] p])
  ultimately have st3: "status_of i s3 = Some TS_ACTIVE" and dec: "st_decisions s3 = st_decisions s" by simp_all
  have st4: "status_of (task_id task) s3 = Some TS_ACTIVE" using st3 id unfolding same by simp
  from validation_phase_outcome [OF val st4 quiet_loop(1) [OF q]] dec show ?thesis by simp
qed

text \<open>What a run leaves behind, as far as the loop is concerned.\<close>

lemma run_once_progress:
  assumes run: "run_once env progress i s = (Inr r, t)" and task: "find_key task_id i (st_tasks s) = Some task"
    and q: "quiet loop_view progress" and env: "backed env" and refs: "decisions_of_runs s"
  shows "decisions_of_runs t" and "limit_of i t = limit_of i s" and "attempts_of i t = attempts_of i s + 1"
    and "\<exists>d. filter (\<lambda>d. decision_run_id d = run_id r) (st_decisions t) = [d] \<and>
      (finished_task i t \<or> decision_action d = DA_BRANCH \<or> attempts_of i s + 1 < task_max_attempts task)"
proof -
  note keys = run_once_keys [OF run quiet_loop(2) [OF q]]
  show "limit_of i t = limit_of i s" unfolding limit_of_setting
    by (rule arg_cong [OF keeps_run [OF run_once_keeps_setting [OF quiet_loop(3) [OF q]] run]]) (simp add: steady_def)
  show "attempts_of i t = attempts_of i s + 1" by (simp add: attempts_of_keys keys(1) attempts_in_snoc)
  from run_once_decides [OF run task q env] obtain d where d: "st_decisions t = st_decisions s @ [d]" "settled_by task r d t"
    by blast
  then have id: "decision_run_id d = run_id r" by (auto simp: settled_by_def)
  with d refs show "decisions_of_runs t" by (auto simp: decisions_of_runs_def keys(1))
  have "filter (\<lambda>d. decision_run_id d = run_id r) (st_decisions s) = []"
  proof -
    have "\<forall>x\<in>set (st_decisions s). decision_run_id x \<noteq> run_id r"
      using refs keys(3) unfolding decisions_of_runs_def by (metis image_subset_iff)
    then show ?thesis by (simp add: filter_empty_conv)
  qed
  then have only: "filter (\<lambda>d. decision_run_id d = run_id r) (st_decisions t) = [d]" using d id by simp
  from d(2) obtain a where a: "decision_action d = dr_action (decide a r task)"
    and st: "status_of (task_id task) t = Some (final_task_status (decision_action d))" by (auto simp: settled_by_def)
  have "task_id task = i" using find_key_Some [OF task] by simp
  moreover have "run_attempt r = attempts_of i s + 1" using keys(2) by (simp add: run_ident_def)
  ultimately have "finished_task i t \<or> decision_action d = DA_BRANCH \<or> attempts_of i s + 1 < task_max_attempts task"
    using decide_four [of a r task] decide_retry [of a r task] a st by (auto simp: finished_task_def final_task_status_def)
  with only show "\<exists>d. filter (\<lambda>d. decision_run_id d = run_id r) (st_decisions t) = [d] \<and>
      (finished_task i t \<or> decision_action d = DA_BRANCH \<or> attempts_of i s + 1 < task_max_attempts task)" by blast
qed

definition quiet_after :: "(Task \<Rightarrow> unit op) option \<Rightarrow> bool" where
  "quiet_after post \<longleftrightarrow> (\<forall>f x. post = Some f \<longrightarrow> keeps loop_view (f x))"

lemma stable_step_progress:
  assumes run: "stable_step env progress post i s = (Inr (Ran rs), t)" and task: "find_key task_id i (st_tasks s) = Some task"
    and q: "quiet loop_view progress" and post: "quiet_after post"
    and env: "backed env" and refs: "decisions_of_runs s"
  shows "finished_task i t \<or> (decisions_of_runs t \<and> limit_of i t = limit_of i s
     \<and> attempts_of i t = attempts_of i s + 1 \<and> attempts_of i s + 1 < task_max_attempts task)"
proof -
  have id: "task_id task = i" using find_key_Some [OF task] by simp
  have keep_post: "keeps loop_view (case (post, x) of (Some f, Some y) \<Rightarrow> f y | _ \<Rightarrow> ret ())" for x :: "Task option"
    using post by (auto simp: quiet_after_def split: option.split intro!: keep_rules)
  from run task obtain u1 s1 r s2 s3 up u3 s4 u4 e1 e2 where steps:
    "progress e1 s = (Inr u1, s1)" "run_once env progress i s1 = (Inr r, s2)" "progress e2 s2 = (Inr u3, s3)"
    "(case (post, up) of (Some f, Some y) \<Rightarrow> f y | _ \<Rightarrow> ret ()) s3 = (Inr u4, s4)"
    and rest: "(if map_option decision_action (last_option (order_by decision_created_at
        (filter (\<lambda>d. decision_run_id d = run_id r) (st_decisions s4)))) = Some DA_BRANCH
      then bnd (resolve_branching env i) (\<lambda>runs. ret (Ran (r # runs))) else ret (Ran [r])) s4 = (Inr (Ran rs), t)"
  proof -
    have "task_status task \<notin> {TS_COMPLETED, TS_FAILED}"
      using run task by (auto simp: stable_step_def get_task_def ret_run)
    then have "bnd (progress (task_started task)) (\<lambda>_. bnd (run_once env progress i) (\<lambda>run.
        bnd (get_task (task_id task)) (\<lambda>updated. bnd (progress (task_finished task updated run)) (\<lambda>_.
        bnd (case (post, updated) of (Some f, Some t) \<Rightarrow> f t | _ \<Rightarrow> ret ()) (\<lambda>_.
        bnd (list_decisions (run_id run)) (\<lambda>decisions.
        if map_option decision_action (last_option decisions) = Some DA_BRANCH
        then bnd (resolve_branching env i) (\<lambda>runs. ret (Ran (run # runs))) else ret (Ran [run]))))))) s = (Inr (Ran rs), t)"
      using run task by (simp add: stable_step_def get_task_def)
    then show ?thesis
      by (elim bnd_InrE) (rule that; auto simp: get_task_def list_decisions_def simp del: map_option_eq_Some split del: if_split)
  qed
  have v1: "loop_view s1 = loop_view s" by (rule keeps_run [OF quietD [OF q] steps(1)])
  have task1: "find_key task_id i (st_tasks s1) = Some task" using v1 task by (simp add: loop_view_def)
  note ran = run_once_progress [OF steps(2) task1 q env]
  have v4: "loop_view s4 = loop_view s2"
    using keeps_run [OF quietD [OF q] steps(3)] keeps_run [OF keep_post steps(4)] by simp
  from ran(4) refs view_cong(4) [OF v1] obtain d where d: "filter (\<lambda>d. decision_run_id d = run_id r) (st_decisions s2) = [d]"
    "finished_task i s2 \<or> decision_action d = DA_BRANCH \<or> attempts_of i s1 + 1 < task_max_attempts task" by blast
  show ?thesis
  proof (cases "decision_action d = DA_BRANCH")
    case True
    with rest d(1) view_cong(6) [OF v4] obtain runs u where "resolve_branching env i s4 = (Inr runs, t)"
      by (auto elim!: bnd_InrE simp: last_option_def order_by_def ret_run split: if_splits)
    from resolve_branching_settles [OF this] show ?thesis by (simp add: finished_task_def)
  next
    case False
    with rest d(1) view_cong(6) [OF v4] have "t = s4" by (auto simp: last_option_def order_by_def ret_run)
    with d(2) False ran(1-3) refs view_cong [OF v1] view_cong [OF v4] show ?thesis by auto
  qed
qed

lemma stable_step_finished:
  assumes "finished_task i s"
  shows "stable_step env progress post i s = (Inr Stable, s)"
  using assms by (auto simp: finished_task_def status_of_def stable_step_def get_task_def ret_run)

lemma stable_step_Stable:
  assumes "stable_step env progress post i s = (Inr Stable, t)"
  shows "finished_task i t"
proof -
  have "t = s \<and> finished_task i s"
  proof (cases "find_key task_id i (st_tasks s)")
    case None
    with assms show ?thesis by (simp add: stable_step_def get_task_def raise_run)
  next
    case (Some task)
    show ?thesis
    proof (cases "task_status task \<in> {TS_COMPLETED, TS_FAILED}")
      case True
      with Some assms show ?thesis by (auto simp: stable_step_def get_task_def ret_run finished_task_def status_of_def)
    next
      case False
      with Some assms show ?thesis
        by (auto simp: stable_step_def get_task_def ret_run elim!: bnd_InrE split: if_splits)
    qed
  qed
  then show ?thesis by simp
qed

text \<open>C7. Running until stable ends. With a worker that never reports unavailable backends, callbacks that leave the
  tasks, runs, artifacts and decisions alone, and decisions that refer to runs (a foreign key of the
  database), \<open>run_until_stable\<close> ends within one round for each attempt that is left and two more:
  it raises, or it returns with the task completed or failed. Each retry uses an attempt, and the branches
  that follow the last attempt always finish the task.\<close>

theorem run_until_stable_ends:
  assumes "run_until_stable n env progress post i s = (r, t)" and "backed env" and "quiet loop_view progress"
    and "quiet_after post" and "decisions_of_runs s"
    and "limit_of i s = Some m" and "nat (m - attempts_of i s) + 2 \<le> n"
  shows "(\<exists>e. r = Inl e) \<or> (\<exists>runs. r = Inr (Some runs) \<and> finished_task i t)"
  using assms(1,5-7)
proof (induction n arbitrary: s r)
  case (Suc n)
  obtain x u where step: "stable_step env progress post i s = (x, u)" by fastforce
  show ?case
  proof (cases "\<exists>rs. x = Inr (Ran rs)")
    case False
    with Suc.prems(1) step stable_step_Stable show ?thesis
      by (cases x) (auto simp: bnd_run ret_run split: step.splits)
  next
    case True
    then obtain rs where x: "x = Inr (Ran rs)" by blast
    obtain task where task: "find_key task_id i (st_tasks s) = Some task" and m: "task_max_attempts task = m"
      using Suc.prems(3) by (auto simp: limit_of_def)
    obtain q v where rest: "run_until_stable n env progress post i u = (q, v)" by fastforce
    from Suc.prems(1) step x rest have r: "r = (case q of Inl e \<Rightarrow> Inl e | Inr y \<Rightarrow> Inr (map_option ((@) rs) y))" "t = v"
      by (auto simp: bnd_run ret_run split: sum.splits)
    have "finished_task i u \<or> (decisions_of_runs u \<and> limit_of i u = limit_of i s
       \<and> attempts_of i u = attempts_of i s + 1 \<and> attempts_of i s + 1 < m)"
      using stable_step_progress [OF step [unfolded x] task assms(3,4,2) Suc.prems(2)] m by blast
    then show ?thesis
    proof
      assume fin: "finished_task i u"
      obtain k where "n = Suc k" using Suc.prems(4) by (cases n) auto
      with rest stable_step_finished [OF fin] have "q = Inr (Some [])" "v = u" by (auto simp: bnd_run ret_run)
      with fin r show ?thesis by simp
    next
      assume more: "decisions_of_runs u \<and> limit_of i u = limit_of i s
         \<and> attempts_of i u = attempts_of i s + 1 \<and> attempts_of i s + 1 < m"
      have "(\<exists>e. q = Inl e) \<or> (\<exists>runs. q = Inr (Some runs) \<and> finished_task i t)"
        by (rule Suc.IH [OF rest [folded r(2)]]) (use more Suc.prems(3,4) in auto)
      with r show ?thesis by auto
    qed
  qed
qed simp

subsection \<open>Without backends the loop never ends\<close>

lemma run_once_starved:
  assumes run: "run_once env progress i s = (Inr r, t)" and q: "quiet loop_view progress" and env: "starved env"
  shows "status_of i t = Some TS_PENDING \<and> st_decisions t = st_decisions s"
proof -
  obtain task project s1 work r1 base s2 where id: "task_id task = i"
    and s1: "update_task_status i TS_ACTIVE s = (Inr (), s1)"
    and w: "work_phase env task project progress s1 = (Inr (work, r1, base), s2)"
    and rest: "(if run_status r1 = RS_BLOCKED then ret r1
     else bnd (progress [(''type'', PStr ''ready_for_next''), (''task_id'', PStr (task_id task))]) (\<lambda>_.
       validation_phase env task r1 work base progress)) s2 = (Inr r, t)"
    by (rule run_once_steps [OF run])
  have blocked: "run_status r1 = RS_BLOCKED" by (rule work_phase_keys(5) [OF w quiet_loop(2) [OF q] env])
  with rest have "t = s2" by (simp add: ret_run)
  moreover have "status_of (task_id task) s1 = Some TS_ACTIVE" using update_task_status_sets [OF s1] id by simp
  note work_phase_outcome [OF w this quiet_loop(1) [OF q]]
  moreover have "st_decisions s1 = st_decisions s" using keeps_run [OF update_status_keeps s1] by (simp add: kept_tables_def)
  ultimately show ?thesis using blocked id by simp
qed

text \<open>The state of the loop between two rounds without a backend.\<close>

definition waiting :: "string \<Rightarrow> Project \<Rightarrow> store \<Rightarrow> bool" where
  "waiting i project s \<longleftrightarrow> fresh s \<and> decisions_of_runs s \<and> status_of i s = Some TS_PENDING
     \<and> (\<exists>p ps. setting_of (\<lambda>t. (task_project_id t, task_objective_id t)) i s = (Some (p, None), ps)
            \<and> find_key project_id p ps = Some project)"

lemma waiting_round:
  assumes w: "waiting i project s" and env: "starved env" and q: "quiet loop_view progress" and p: "polite i progress"
    and ok: "\<forall>task. env_ok env project task"
  shows "\<exists>r t. stable_step env progress None i s = (Inr (Ran [r]), t) \<and> waiting i project t"
proof -
  let ?g = "\<lambda>t. (task_project_id t, task_objective_id t)"
  have returns: "\<exists>v. progress e u = (Inr (), v) \<and> fresh v \<and> loop_view v = loop_view u" if "fresh u" for e u
    using goingD [OF polite_going(2) [OF p] that] keeps_run [OF quietD [OF q]] by fastforce
  from w obtain task where task: "find_key task_id i (st_tasks s) = Some task" and task_st: "task_status task = TS_PENDING"
    by (auto simp: waiting_def status_of_def)
  have id: "task_id task = i" using find_key_Some [OF task] by simp
  obtain s1 where s1: "progress (task_started task) s = (Inr (), s1)" "fresh s1" "loop_view s1 = loop_view s"
    using returns w unfolding waiting_def by blast
  have task1: "find_key task_id i (st_tasks s1) = Some task" using s1(3) task by (simp add: loop_view_def)
  have project1: "find_key project_id (task_project_id task) (st_projects s1) = Some project" "task_objective_id task = None"
    using w task s1(3) by (auto simp: waiting_def setting_of_def loop_view_def)
  have "gate_refuses task s1 = (Inr None, s1)" by (simp add: gate_refuses_def project1(2) ret_run)
  from accepted_run_returns [OF task1 this _ _ project1(1) spec [OF ok] p s1(2)] task_st obtain r s2 where
    r: "run_once env progress i s1 = (Inr r, s2)" and f2: "fresh s2" by auto
  note ran = run_once_starved [OF r q env] and keys = run_once_keys [OF r quiet_loop(2) [OF q]]
  have set2: "setting_of ?g i s2 = setting_of ?g i s1"
    by (rule keeps_run [OF run_once_keeps_setting [OF quiet_loop(3) [OF q]] r]) (simp add: steady_def)
  from ran obtain task2 where task2: "find_key task_id i (st_tasks s2) = Some task2" by (auto simp: status_of_def)
  obtain s3 where s3: "progress (task_finished task (Some task2) r) s2 = (Inr (), s3)" "fresh s3" "loop_view s3 = loop_view s2"
    using returns [OF f2] by blast
  have refs1: "decisions_of_runs s1" using w view_cong(4) [OF s1(3)] by (simp add: waiting_def)
  have "\<forall>x\<in>set (st_decisions s1). decision_run_id x \<noteq> run_id r"
    using refs1 keys(3) unfolding decisions_of_runs_def by (metis image_subset_iff)
  then have none: "filter (\<lambda>d. decision_run_id d = run_id r) (st_decisions s3) = []"
    using view_cong(6) [OF s3(3)] ran by (simp add: filter_empty_conv)
  have "stable_step env progress None i s = (Inr (Ran [r]), s3)"
    by (simp add: stable_step_def get_task_def task task_st bnd_run s1(1) r id task2 s3(1) ret_run list_decisions_def none
        order_by_def last_option_def)
  moreover have "waiting i project s3"
  proof -
    have "decisions_of_runs s2" using refs1 ran by (auto simp: decisions_of_runs_def keys(1))
    moreover have "setting_of ?g i s3 = setting_of ?g i s"
      using set2 s1(3) s3(3) by (simp add: setting_of_def loop_view_def)
    ultimately show ?thesis
      using w s3(2) ran view_cong(1,4) [OF s3(3)] by (simp add: waiting_def)
  qed
  ultimately show ?thesis by blast
qed

text \<open>C8. Without backends the loop never ends. When every worker answers that the backends are unavailable, a pending task
  goes back to pending in each round, and no amount of rounds ends \<open>run_until_stable\<close>, although each of its
  steps returns. Nothing in the loop waits or counts these rounds, and each of them adds a run.\<close>

theorem starved_task_never_stable:
  assumes "starved env" and "quiet loop_view progress" and "polite i progress" and "\<forall>task. env_ok env project task"
    and "fresh s" and "decisions_of_runs s" and "find_key task_id i (st_tasks s) = Some task"
    and "task_status task = TS_PENDING" and "task_objective_id task = None"
    and "find_key project_id (task_project_id task) (st_projects s) = Some project"
  shows "\<exists>t. run_until_stable n env progress None i s = (Inr None, t)"
proof -
  have "waiting i project s"
    using assms(5-10) by (simp add: waiting_def status_of_def setting_of_def)
  then show ?thesis
  proof (induction n arbitrary: s)
    case (Suc n)
    from waiting_round [OF Suc.prems assms(1-4)] obtain r u where "stable_step env progress None i s = (Inr (Ran [r]), u)"
      and "waiting i project u" by blast
    with Suc.IH show ?case by (fastforce simp: bnd_run ret_run)
  qed (simp add: ret_run)
qed

subsection \<open>The theorems applied\<close>

lemma demo_backed: "backed (demo_env (demo_worker kinds))"
  by (auto simp: backed_def uses_worker_def demo_env_def demo_worker_def unavailable_def diag_def dict_get_def)

lemma demo_refs: "decisions_of_runs demo_runs"
  by (simp add: decisions_of_runs_def demo_runs_def empty_store_def)

lemma run_until_stable_ends_witness:
  "\<exists>r t. run_until_stable 5 (demo_env (demo_worker [''plan'', ''report''])) silent None ''task_1'' demo_runs = (r, t)
     \<and> ((\<exists>e. r = Inl e) \<or> (\<exists>runs. r = Inr (Some runs) \<and> finished_task ''task_1'' t))"
proof -
  obtain r t where run: "run_until_stable 5 (demo_env (demo_worker [''plan'', ''report''])) silent None ''task_1'' demo_runs = (r, t)"
    by fastforce
  have "limit_of ''task_1'' demo_runs = Some 3" "attempts_of ''task_1'' demo_runs = 0"
    by (simp_all add: limit_of_def demo_runs_def find_key_def sample_task_def attempts_of_def max_or_zero_def empty_store_def)
  then show ?thesis
    using run run_until_stable_ends [OF run demo_backed quiet_silent _ demo_refs] by (simp add: quiet_after_def)
qed

text \<open>A worker without a backend.\<close>

definition starved_worker :: worker where
  "starved_worker = \<lparr>wk_name = ''starved'', wk_reports = False,
     wk_work = (\<lambda>task run hints. ([], Inr \<lparr>wr_summary = ''no backend'', wr_artifacts = [], wr_outcome = ''blocked'',
       wr_diagnostics = Some [(''backends_unavailable'', PBool True)]\<rparr>))\<rparr>"

lemma starved_task_never_stable_witness:
  "\<exists>t. run_until_stable 1000 (demo_env starved_worker) silent None ''task_1'' demo_runs = (Inr None, t)"
proof (rule starved_task_never_stable [OF _ _ silent_polite _ demo_fresh demo_refs demo_accepted(1) _ _ demo_accepted(3)])
  show "starved (demo_env starved_worker)"
    by (auto simp: starved_def uses_worker_def demo_env_def starved_worker_def unavailable_def diag_def dict_get_def)
  show "\<forall>task. env_ok (demo_env starved_worker) demo_project task"
    by (simp add: env_ok_def demo_env_def starved_worker_def works_def validate_workspace_def)
qed (simp_all add: sample_task_def)


end
