(* ===== verification/Queue_Runs.thy ===== *)
theory Queue_Runs
  imports Queue_Service Run_Stability
begin

section \<open>The queue with the run service\<close>

text \<open>
  The engine wires \<open>RunService.run_once\<close> into the queue service. Together they leave no task active: what a
  lease hands out comes back as pending, completed or failed, whichever way the run ends.
\<close>

subsection \<open>A run concerns its own task\<close>

lemma status_ops_keep_others:
  assumes "j \<noteq> i"
  shows "keeps (status_of j) (update_task_status i st)" "keeps (status_of j) (apply_task_status_for_run i st)"
proof -
  have find: "find_key task_id j (update_where (\<lambda>y. task_id y = i) (\<lambda>y. y\<lparr>task_status := a, task_updated_at := b\<rparr>) ts)
      = find_key task_id j ts" for a b ts
    using assms by (cases "find_key task_id j ts") (auto simp: find_key_update dest: find_key_Some)
  show st: "keeps (status_of j) (update_task_status i st)"
    unfolding update_task_status_def get_task_def update_objective_phase_def Let_def
    by (intro keep_rules keeps_writes utc_now_keeps; simp add: status_of_def find)
  show "keeps (status_of j) (apply_task_status_for_run i st)"
    unfolding apply_task_status_for_run_def get_task_def by (intro keep_rules st)
qed

lemma run_once_keeps_others:
  assumes q: "quiet (status_of j) progress" and other: "j \<noteq> i"
  shows "keeps (status_of j) (run_once env progress i)"
proof -
  note rules = q keep_rules aside_tables(4) quietD [OF q] metadata_keeps(1) new_decision_keeps
  have work: "keeps (status_of j) (work_phase env task project progress)" if "task_id task = i" for task project
    unfolding work_phase_def Let_def that
    by (intro rules begin_run_keeps [OF aside_tables(4) _ q] prepare_keeps phases_keep [OF aside_tables(4) q]
        status_ops_keep_others [OF other]) (simp_all add: status_of_def)
  have val: "keeps (status_of j) (validation_phase env task run w base progress)" if "task_id task = i" for task run w base
    unfolding validation_phase_def conclude_run_def Let_def that
    by (intro rules phases_keep [OF aside_tables(4) q] record_work_keeps [OF aside_tables(4) _ q]
        record_analysis_keeps [OF aside_tables(4) _ q] status_ops_keep_others [OF other]) (simp_all add: status_of_def)
  have gate: "keeps (status_of j) (gate_refuses task)" for task
    using gate_refuses_reads unfolding keeps_def by (metis prod.collapse)
  have guarded: "keeps (status_of j) (run_guarded env task p progress)" if "task_id task = i" for task p
    unfolding run_guarded_def run_once_inner_def back_to_pending_def get_task_def that
    by (intro rules work [OF that] val [OF that] status_ops_keep_others [OF other])
  show ?thesis
    unfolding keeps_def
  proof
    fix s
    show "status_of j (snd (run_once env progress i s)) = status_of j s"
    proof (cases "find_key task_id i (st_tasks s)")
      case None
      then show ?thesis by (simp add: run_once_def get_task_def raise_run)
    next
      case (Some task)
      have id: "task_id task = i" using find_key_Some [OF Some] by simp
      have "keeps (status_of j) (bnd (gate_refuses task) (\<lambda>refused. case refused of
           Some detail \<Rightarrow> raise (ValueError detail)
         | None \<Rightarrow>
             if task_status task \<in> {TS_COMPLETED, TS_FAILED}
             then raise (ValueError (''Task '' @ i @ '' is already '' @ TaskStatus_value (task_status task)
                    @ '' - cannot run again''))
             else
               bnd (get_project (task_project_id task)) (\<lambda>project.
               case project of
                 None \<Rightarrow> raise (ValueError (''Unknown project for task: '' @ task_project_id task))
               | Some p \<Rightarrow> run_guarded env task p progress)))"
        unfolding get_project_def by (intro keep_rules gate guarded [OF id])
      from keepsD [OF this, of s] show ?thesis by (simp only: run_once_def get_task_def bnd_reads Some option.case)
    qed
  qed
qed

subsection \<open>No task stays active\<close>

text \<open>No task is active, and none asks for branches, whose choice leaves a task active for
  \<open>run_until_stable\<close> to resolve.\<close>

definition at_rest :: "store \<Rightarrow> bool" where
  "at_rest s \<longleftrightarrow> (\<forall>j x. find_key task_id j (st_tasks s) = Some x \<longrightarrow> task_status x \<noteq> TS_ACTIVE \<and> task_max_branches x \<le> 1)"

lemma at_rest_iff: "at_rest s \<longleftrightarrow> (\<forall>j. status_of j s \<noteq> Some TS_ACTIVE) \<and> (\<forall>j n. fst (setting_of task_max_branches j s) = Some n \<longrightarrow> n \<le> 1)"
proof -
  have "(\<forall>x. find_key task_id j (st_tasks s) = Some x \<longrightarrow> task_status x \<noteq> TS_ACTIVE \<and> task_max_branches x \<le> 1)
      \<longleftrightarrow> status_of j s \<noteq> Some TS_ACTIVE \<and> (\<forall>n. fst (setting_of task_max_branches j s) = Some n \<longrightarrow> n \<le> 1)" for j
    by (cases "find_key task_id j (st_tasks s)") (simp_all add: status_of_def setting_of_def)
  then show ?thesis unfolding at_rest_def by blast
qed

lemma run_once_at_rest:
  assumes q: "quiet loop_view progress"
  shows "preserves at_rest (run_once env progress i)"
  unfolding preserves_def
proof (intro allI impI)
  fix s
  assume rest: "at_rest s"
  obtain r t where run: "run_once env progress i s = (r, t)" by fastforce
  have others: "status_of j t = status_of j s" if "j \<noteq> i" for j
    by (rule keeps_run [OF run_once_keeps_others [OF quiet_loop(4) [OF q] that] run])
  have branches: "setting_of task_max_branches j t = setting_of task_max_branches j s" for j
    by (rule keeps_run [OF run_once_keeps_setting [OF quiet_loop(3) [OF q]] run]) (simp add: steady_def)
  have "status_of i t \<noteq> Some TS_ACTIVE"
  proof (cases r)
    case (Inl e)
    with failed_run_outcome [of env progress i s e t] run rest show ?thesis by (auto simp: at_rest_iff)
  next
    case (Inr x)
    with run have ok: "run_once env progress i s = (Inr x, t)" by simp
    obtain task project s1 work r1 base s2 where task: "find_key task_id i (st_tasks s) = Some task"
      by (rule run_once_steps [OF ok])
    have one: "task_max_branches task \<le> 1" using rest task by (auto simp: at_rest_def)
    have id: "task_id task = i" using find_key_Some [OF task] by simp
    from run_once_outcome [OF ok task quiet_loop(1) [OF q]] show ?thesis
    proof
      assume "\<exists>d. st_decisions t = st_decisions s @ [d] \<and> settled_by task x d t"
      then obtain a where "status_of i t = Some (final_task_status (dr_action (decide a x task)))"
        by (auto simp: settled_by_def id)
      then show ?thesis using one by (auto simp: decide_def final_task_status_def split: if_splits)
    qed simp
  qed
  with others rest branches show "at_rest (snd (run_once env progress i s))"
    by (auto simp: at_rest_iff run) metis
qed

definition rest_neutral :: "progress \<Rightarrow> (Task \<Rightarrow> unit op) option \<Rightarrow> bool" where
  "rest_neutral progress post_task \<longleftrightarrow> (\<forall>e x. keeps loop_view (progress e x))
     \<and> (\<forall>callback t. post_task = Some callback \<longrightarrow> keeps loop_view (callback t))"

lemma at_rest_frame: "keeps st_tasks m \<Longrightarrow> preserves at_rest m"
  by (simp add: keeps_def preserves_def at_rest_def)

lemma round_at_rest:
  assumes env: "\<And>i. preserves at_rest (runner i)" and neutral: "rest_neutral progress post_task"
  shows "preserves at_rest (queue_round runner progress post_task project worker secs excluded)"
proof -
  have p: "preserves at_rest (progress e x)" for e x
    using neutral by (auto simp: rest_neutral_def keeps_def loop_view_def intro!: at_rest_frame)
  have cb: "preserves at_rest (call_back post_task t)" for t
    using neutral by (auto simp: rest_neutral_def call_back_def keeps_def loop_view_def ret_run
        intro!: at_rest_frame split: option.split)
  have held: "preserves at_rest (hold_back task)" for task
    by (rule at_rest_frame [OF hold_back_reads]) simp
  have metrics: "preserves at_rest (metrics_snapshot pr)" for pr
    unfolding metrics_snapshot_def by (intro at_rest_frame keep_rules utc_now_keeps) simp_all
  have lease: "preserves at_rest (acquire_task_lease a n b c)" for a n b c by (rule at_rest_frame [OF acquire_tasks])
  have release: "preserves at_rest (release_task_lease a b)" for a b
    unfolding release_task_lease_def by (intro at_rest_frame keep_rules keeps_writes) (simp split: option.split)
  show ?thesis
    unfolding queue_round_def run_leased_def run_and_report_def get_task_def
    by (intro preserve_rules p cb held metrics lease release env)
qed


lemma queue_loop_preserves:
  "(\<And>ex. preserves I (body ex)) \<Longrightarrow> preserves I (queue_loop fuel body ex)"
  by (induction fuel arbitrary: ex) (auto intro!: preserve_rules split: round.split)

text \<open>C10. The queue leaves no task active. When no task is active and none asks for branches, that is so again
  after \<open>process_next_task\<close> has handed a task to the run service, whether the run promotes, retries, fails,
  finds no backend or raises, and whether the callbacks around it raise.\<close>

theorem queue_leaves_no_task_active:
  assumes "at_rest s" and "rest_neutral progress post_task"
  shows "at_rest (snd (process_next_task (run_once env (\<lambda>e. progress e NoExtra)) progress post_task gate fuel project worker
    secs excluded s))"
proof -
  have q: "quiet loop_view (\<lambda>e. progress e NoExtra)" using assms(2) by (simp add: rest_neutral_def quiet_def)
  have p: "preserves at_rest (progress e x)" for e x
    using assms(2) by (auto simp: rest_neutral_def keeps_def loop_view_def intro!: at_rest_frame)
  have "preserves at_rest (process_next_task (run_once env (\<lambda>e. progress e NoExtra)) progress post_task gate fuel project worker
    secs excluded)"
    unfolding process_next_task_def
    by (intro preserve_rules p queue_loop_preserves round_at_rest run_once_at_rest [OF q] assms(2))
  from preservesD [OF this assms(1)] show ?thesis .
qed

lemma queue_leaves_no_task_active_witness:
  "at_rest (snd (process_next_task (run_once (demo_env (demo_worker [''plan''])) (\<lambda>e. ret ())) (\<lambda>e x. ret ()) None None 3 None
     ''w'' 60 [] (demo_work LS_RUNNING)))"
proof -
  have "at_rest (demo_work LS_RUNNING)"
    by (auto simp: at_rest_def demo_work_def sample_task_def find_key_def split: if_splits)
  moreover have "rest_neutral (\<lambda>e x. ret ()) None" by (simp add: rest_neutral_def keeps_ret)
  ultimately show ?thesis by (rule queue_leaves_no_task_active)
qed

end
