(* ===== verification/Task_Service.thy ===== *)
theory Task_Service
  imports Decision_Service Mermaid_Render
begin

section \<open>Creating tasks, and what becomes of failed ones\<close>

text \<open>
  \<open>services/task_service.py\<close>: projects, the creation of a task with its plan, follow-on tasks, the
  tree of retries a failed task belongs to, and the four dispositions of a failed task. The keyword
  arguments of \<open>create_task_with_policy\<close> are a record with the defaults of the code.
\<close>

subsection \<open>Projects\<close>

record project_args =
  pa_name :: "string option"
  pa_description :: "string option"
  pa_adapter_name :: "string option"
  pa_workspace_policy :: "WorkspacePolicy option"
  pa_promotion_mode :: "PromotionMode option"
  pa_repo_provider :: "RepoProvider option"
  pa_repo_name :: "string option"
  pa_base_branch :: "string option"
  pa_max_concurrent_tasks :: "int option"

definition add_project ::
  "string \<Rightarrow> string \<Rightarrow> string \<Rightarrow> WorkspacePolicy \<Rightarrow> PromotionMode \<Rightarrow> RepoProvider option \<Rightarrow> string option
     \<Rightarrow> string \<Rightarrow> Project op"
where
  "add_project name description adapter_name policy mode provider repo base_branch =
     bnd (new_id ''project'') (\<lambda>i.
     bnd utc_now (\<lambda>now.
     let project = \<lparr>project_id = i, project_name = name, project_description = description,
           project_adapter_name = adapter_name, project_workspace_policy = policy,
           project_promotion_mode = mode, project_repo_provider = provider, project_repo_name = repo,
           project_base_branch = base_branch, project_max_concurrent_tasks = 1, project_created_at = now\<rparr>
     in bnd (create_project project) (\<lambda>_. ret project)))"

definition given :: "'a option \<Rightarrow> 'a \<Rightarrow> 'a" where
  "given x old = (case x of None \<Rightarrow> old | Some v \<Rightarrow> v)"

definition change_project :: "string \<Rightarrow> project_args \<Rightarrow> Project op" where
  "change_project i a =
     bnd (get_project i) (\<lambda>row.
     case row of
       None \<Rightarrow> raise (ValueError (''Unknown project: '' @ i))
     | Some existing \<Rightarrow>
         let project = existing\<lparr>
               project_name := given (pa_name a) (project_name existing),
               project_description := given (pa_description a) (project_description existing),
               project_adapter_name := given (pa_adapter_name a) (project_adapter_name existing),
               project_workspace_policy := given (pa_workspace_policy a) (project_workspace_policy existing),
               project_promotion_mode := given (pa_promotion_mode a) (project_promotion_mode existing),
               project_repo_provider := (if pa_repo_provider a \<noteq> None then pa_repo_provider a
                  else project_repo_provider existing),
               project_repo_name := (if pa_repo_name a \<noteq> None then pa_repo_name a
                  else project_repo_name existing),
               project_base_branch := given (pa_base_branch a) (project_base_branch existing),
               project_max_concurrent_tasks :=
                  given (pa_max_concurrent_tasks a) (project_max_concurrent_tasks existing)\<rparr>
         in bnd (update_project project) (\<lambda>_. ret project))"

subsection \<open>A new task and its plan\<close>

text \<open>\<open>services/common.py\<close>: the payload of the event of a new task.\<close>

definition str_list :: "string list \<Rightarrow> pyval" where
  "str_list xs = PList (map PStr xs)"

definition task_created_payload :: "Task \<Rightarrow> pydict" where
  "task_created_payload t =
     [(''project_id'', PStr (task_project_id t)),
      (''priority'', PInt (task_priority t)),
      (''parent_task_id'', opt_val (task_parent_task_id t)),
      (''source_run_id'', opt_val (task_source_run_id t)),
      (''external_ref_type'', opt_val (task_external_ref_type t)),
      (''external_ref_id'', opt_val (task_external_ref_id t)),
      (''external_ref_metadata'', PDict (task_external_ref_metadata t)),
      (''validation_profile'', PStr (task_validation_profile t)),
      (''validation_mode'', PStr (task_validation_mode t)),
      (''scope'', PDict (task_scope t)),
      (''strategy'', PStr (task_strategy t)),
      (''max_attempts'', PInt (task_max_attempts t)),
      (''max_branches'', PInt (task_max_branches t)),
      (''required_artifacts'', str_list (task_required_artifacts t))]"

definition auto_plan :: "Task \<Rightarrow> string \<Rightarrow> pyval list \<Rightarrow> time \<Rightarrow> time \<Rightarrow> Plan" where
  "auto_plan t i files created updated =
     (let plan = \<lparr>plan_id = i, plan_objective_id = opt_str (task_objective_id t),
        plan_mermaid_node_id = None, plan_parent_plan_id = None, plan_plan_revision = 1,
        plan_slice = [(''derived_from'', PStr ''task_service.create_task''),
          (''task_id'', PStr (task_id t)), (''task_title'', PStr (task_title t)),
          (''label'', PStr (task_title t)), (''files'', PList files)],
        plan_atomicity_assessment = [(''is_atomic'', PBool True), (''violations'', PList []),
          (''reason'', PStr ''auto-created 1:1 plan'')],
        plan_approval_status = ''approved'', plan_created_at = created, plan_updated_at = updated\<rparr>
      in plan\<lparr>plan_mermaid_node_id := Some (canonical_node_id plan)\<rparr>)"

definition ensure_plan_linkage :: "Task \<Rightarrow> Task op" where
  "ensure_plan_linkage t =
     (if opt_str (task_objective_id t) = [] then ret t
      else if opt_str (task_plan_id t) \<noteq> [] \<and> opt_str (task_mermaid_node_id t) \<noteq> [] then ret t
      else if opt_str (task_plan_id t) = [] then
        bnd (new_id ''plan'') (\<lambda>i.
        bnd (lift_result (py_list (py_or (dict_get (task_scope t) ''files_to_touch'') (PList [])))) (\<lambda>files.
        bnd utc_now (\<lambda>created.
        bnd utc_now (\<lambda>updated.
        let plan = auto_plan t i files created updated in
        bnd (create_plan plan) (\<lambda>_.
        ret (t\<lparr>task_plan_id := Some (plan_id plan), task_mermaid_node_id := plan_mermaid_node_id plan\<rparr>))))))
      else
        bnd (get_plan (opt_str (task_plan_id t))) (\<lambda>existing.
        ret (t\<lparr>task_mermaid_node_id :=
               (case existing of Some p \<Rightarrow> plan_mermaid_node_id p | None \<Rightarrow> task_mermaid_node_id t)\<rparr>)))"

definition add_task :: "Task \<Rightarrow> Task op" where
  "add_task t =
     bnd (if opt_str (task_external_ref_type t) \<noteq> [] \<and> opt_str (task_external_ref_id t) \<noteq> []
             \<and> opt_str (task_parent_task_id t) = [] \<and> opt_str (task_source_run_id t) = []
          then get_task_by_external_ref (opt_str (task_external_ref_type t)) (opt_str (task_external_ref_id t))
          else ret None) (\<lambda>existing.
     case existing of
       Some e \<Rightarrow> ret e
     | None \<Rightarrow>
         bnd (ensure_plan_linkage t) (\<lambda>t.
         bnd (create_task t) (\<lambda>_.
         bnd (emit ''task'' (task_id t) ''task_created'' (task_created_payload t)) (\<lambda>_.
         ret t))))"

subsection \<open>The amendment of risky tasks\<close>

definition HIGH_RISK_TASK_STRATEGIES :: "string list" where
  "HIGH_RISK_TASK_STRATEGIES = [''objective_review_remediation'', ''atomic_from_mermaid'',
     ''operator_ergonomics'', ''sa_structural_fix'', ''sa_watch_direct_repair'']"

definition py_rstrip :: "string \<Rightarrow> string" where
  "py_rstrip s = rev (dropWhile is_space (rev s))"

definition amendment_lines :: "string \<Rightarrow> string list \<Rightarrow> string \<Rightarrow> pydict \<Rightarrow> string list" where
  "amendment_lines strategy required validation_mode scope =
     [''- Address repository code and test changes before relying on summaries or reports.'',
      ''- If no repository files change, the task is not complete.'',
      ''- Required artifacts for completion: '' @ join '', '' required @ ''.'',
      ''- Validation mode for this task: '' @ validation_mode @ ''.'']
     @ (if scope \<noteq> [] then [''- Follow the task scope strictly when deciding which files to touch.''] else [])
     @ (if strategy = ''objective_review_remediation'' then
          [''- This is a promotion-review remediation task. Artifact-shaped prose is not enough.'',
           ''- The final evidence artifact must be backed by real repository state, real tests, or other durable run artifacts.'']
        else [])
     @ (if strategy \<in> set [''atomic_from_mermaid'', ''sa_structural_fix'', ''sa_watch_direct_repair'',
            ''operator_ergonomics''] then
          [''- This task is workflow-sensitive. Keep the change set narrow and avoid unrelated worker/control-plane modifications unless the objective explicitly requires them.'']
        else [])"

definition apply_task_amendment ::
  "string \<Rightarrow> string \<Rightarrow> string list \<Rightarrow> string \<Rightarrow> pydict \<Rightarrow> string option \<Rightarrow> string option \<Rightarrow> pydict \<Rightarrow> string \<times> pydict"
where
  "apply_task_amendment objective strategy required validation_mode scope ref_type ref_id metadata =
     (if strategy \<notin> set HIGH_RISK_TASK_STRATEGIES then (objective, metadata)
      else let rules = amendment_lines strategy required validation_mode scope in
        (py_rstrip objective @ NL @ NL @ join NL (''Task Amendment:'' # rules),
         dict_set ''task_amendment'' (PDict
           [(''version'', PInt 1), (''strategy'', PStr strategy),
            (''required_artifacts'', str_list required), (''validation_mode'', PStr validation_mode),
            (''scope_present'', PBool (scope \<noteq> [])),
            (''external_ref_type'', PStr (opt_str ref_type)), (''external_ref_id'', PStr (opt_str ref_id)),
            (''lines'', str_list rules)]) metadata))"

subsection \<open>Tasks under the policy\<close>

record task_args =
  ta_project_id :: string
  ta_title :: string
  ta_objective :: string
  ta_priority :: int
  ta_parent_task_id :: "string option"
  ta_source_run_id :: "string option"
  ta_external_ref_type :: "string option"
  ta_external_ref_id :: "string option"
  ta_objective_id :: "string option"
  ta_external_ref_metadata :: "pydict option"
  ta_validation_profile :: string
  ta_validation_mode :: "string option"
  ta_scope :: "pydict option"
  ta_strategy :: string
  ta_max_attempts :: int
  ta_max_branches :: int
  ta_required_artifacts :: "string list option"
  ta_mermaid_node_id :: "string option"
  ta_plan_id :: "string option"

definition task_args_default ::
  "string \<Rightarrow> string \<Rightarrow> string \<Rightarrow> int \<Rightarrow> string option \<Rightarrow> string option \<Rightarrow> string option \<Rightarrow> string option \<Rightarrow> task_args"
where
  "task_args_default project title objective priority parent source_run ref_type ref_id =
     \<lparr>ta_project_id = project, ta_title = title, ta_objective = objective, ta_priority = priority,
      ta_parent_task_id = parent, ta_source_run_id = source_run, ta_external_ref_type = ref_type,
      ta_external_ref_id = ref_id, ta_objective_id = None, ta_external_ref_metadata = None,
      ta_validation_profile = ''generic'', ta_validation_mode = None, ta_scope = None,
      ta_strategy = ''default'', ta_max_attempts = 3, ta_max_branches = 1,
      ta_required_artifacts = None, ta_mermaid_node_id = None, ta_plan_id = None\<rparr>"

definition opt_list :: "'a list option \<Rightarrow> 'a list" where
  "opt_list x = (case x of None \<Rightarrow> [] | Some xs \<Rightarrow> xs)"

text \<open>The operator's non-negotiables are copied into the scope when the task is created.\<close>

definition frozen_scope :: "string \<Rightarrow> pydict option \<Rightarrow> pydict option op" where
  "frozen_scope objective scope =
     (if scope = None \<or> \<not> dict_has (opt_list scope) ''non_negotiables'' then
        bnd (latest_intent_model objective) (\<lambda>intent.
        ret (case intent of
               None \<Rightarrow> scope
             | Some im \<Rightarrow> if im_non_negotiables im = [] then scope
                 else Some (dict_set ''non_negotiables''
                   (str_list (filter (\<lambda>n. n \<noteq> []) (map py_strip (im_non_negotiables im)))) (opt_list scope))))
      else ret scope)"

definition linked_scope :: "task_args \<Rightarrow> pydict option op" where
  "linked_scope a =
     (case ta_objective_id a of
        None \<Rightarrow> ret (ta_scope a)
      | Some objective \<Rightarrow>
          bnd (get_objective objective) (\<lambda>row.
          case row of
            None \<Rightarrow> raise (ValueError (''Unknown objective: '' @ objective))
          | Some linked \<Rightarrow>
              if objective_project_id linked \<noteq> ta_project_id a
              then raise (ValueError (''Objective '' @ objective @ '' does not belong to project '' @ ta_project_id a))
              else frozen_scope objective (ta_scope a)))"

definition or_default :: "string \<Rightarrow> string \<Rightarrow> string" where
  "or_default s d = (if s = [] then d else s)"

definition task_of_args :: "task_args \<Rightarrow> pydict \<Rightarrow> string \<Rightarrow> time \<Rightarrow> time \<Rightarrow> Task" where
  "task_of_args a scope i created updated =
     (let required = (if opt_list (ta_required_artifacts a) = [] then [''plan'', ''report'']
                      else opt_list (ta_required_artifacts a));
          mode = or_default (py_strip (opt_str (ta_validation_mode a))) ''default_focused'';
          amended = apply_task_amendment (ta_objective a) (ta_strategy a) required mode scope
            (ta_external_ref_type a) (ta_external_ref_id a) (opt_list (ta_external_ref_metadata a))
      in \<lparr>task_id = i, task_project_id = ta_project_id a, task_title = ta_title a,
          task_objective = fst amended, task_objective_id = ta_objective_id a,
          task_plan_id = ta_plan_id a, task_mermaid_node_id = ta_mermaid_node_id a,
          task_priority = ta_priority a, task_parent_task_id = ta_parent_task_id a,
          task_source_run_id = ta_source_run_id a, task_external_ref_type = ta_external_ref_type a,
          task_external_ref_id = ta_external_ref_id a, task_external_ref_metadata = snd amended,
          task_validation_profile = ta_validation_profile a, task_validation_mode = mode,
          task_scope = scope, task_strategy = ta_strategy a, task_max_attempts = ta_max_attempts a,
          task_max_branches = ta_max_branches a, task_required_artifacts = required,
          task_attempt_metadata = [], task_status = TS_PENDING, task_created_at = created,
          task_updated_at = updated\<rparr>)"

definition create_task_with_policy :: "task_args \<Rightarrow> Task op" where
  "create_task_with_policy a =
     bnd (linked_scope a) (\<lambda>scope.
     bnd (new_id ''task'') (\<lambda>i.
     bnd utc_now (\<lambda>created.
     bnd utc_now (\<lambda>updated.
     add_task (task_of_args a (opt_list scope) i created updated)))))"

subsection \<open>Follow-on tasks\<close>

record follow_on_args =
  fa_title :: string
  fa_objective :: string
  fa_priority :: "int option"
  fa_strategy :: "string option"
  fa_validation_mode :: "string option"
  fa_max_attempts :: "int option"
  fa_required_artifacts :: "string list option"
  fa_overrides :: "pydict option"

definition follow_on_default :: "string \<Rightarrow> string \<Rightarrow> follow_on_args" where
  "follow_on_default title objective =
     \<lparr>fa_title = title, fa_objective = objective, fa_priority = None, fa_strategy = None,
      fa_validation_mode = None, fa_max_attempts = None, fa_required_artifacts = None, fa_overrides = None\<rparr>"

definition follow_on_task_args :: "Task \<Rightarrow> string \<Rightarrow> string \<Rightarrow> follow_on_args \<Rightarrow> task_args" where
  "follow_on_task_args parent parent_id source_run a =
     \<lparr>ta_project_id = task_project_id parent, ta_title = fa_title a, ta_objective = fa_objective a,
      ta_priority = given (fa_priority a) (task_priority parent), ta_parent_task_id = Some parent_id,
      ta_source_run_id = Some source_run, ta_external_ref_type = task_external_ref_type parent,
      ta_external_ref_id = task_external_ref_id parent, ta_objective_id = task_objective_id parent,
      ta_external_ref_metadata =
        Some (dict_update (task_external_ref_metadata parent) (opt_list (fa_overrides a))),
      ta_validation_profile = task_validation_profile parent,
      ta_validation_mode = Some (given (fa_validation_mode a) (task_validation_mode parent)),
      ta_scope = Some (task_scope parent),
      ta_strategy = or_default (opt_str (fa_strategy a)) (task_strategy parent),
      ta_max_attempts = given (fa_max_attempts a) (task_max_attempts parent), ta_max_branches = 1,
      ta_required_artifacts = Some (if opt_list (fa_required_artifacts a) \<noteq> []
         then opt_list (fa_required_artifacts a) else task_required_artifacts parent),
      ta_mermaid_node_id = None, ta_plan_id = None\<rparr>"

definition create_follow_on_task :: "string \<Rightarrow> string \<Rightarrow> follow_on_args \<Rightarrow> Task op" where
  "create_follow_on_task parent_id source_run a =
     bnd (get_task parent_id) (\<lambda>row.
     case row of
       None \<Rightarrow> raise (ValueError (''Unknown parent task: '' @ parent_id))
     | Some parent \<Rightarrow>
         bnd (create_task_with_policy (follow_on_task_args parent parent_id source_run a)) (\<lambda>t.
         bnd (emit ''task'' (task_id t) ''follow_on_task_created''
                [(''parent_task_id'', PStr parent_id), (''source_run_id'', PStr source_run)]) (\<lambda>_.
         ret t)))"

subsection \<open>The tree of retries\<close>

text \<open>Upwards along the parents until there is none, or one that was passed already. Each step
  passes a task of the store that was not passed before.\<close>

function climb :: "Task list \<Rightarrow> string list \<Rightarrow> Task \<Rightarrow> Task" where
  "climb tasks visited current =
     (if opt_str (task_parent_task_id current) = [] then current
      else case find_key task_id (opt_str (task_parent_task_id current)) tasks of
             None \<Rightarrow> current
           | Some parent \<Rightarrow> if task_id parent \<in> set visited then current
               else climb tasks (task_id parent # visited) parent)"
  by pat_completeness auto

termination
proof (relation "measure (\<lambda>(tasks, visited, _). card (task_id ` set tasks - set visited))")
  fix tasks :: "Task list" and visited :: "string list" and current parent :: Task
  assume "find_key task_id (opt_str (task_parent_task_id current)) tasks = Some parent"
    and new: "task_id parent \<notin> set visited"
  then have "parent \<in> set tasks" by (blast dest: find_key_Some)
  then have "task_id ` set tasks - set (task_id parent # visited) \<subset> task_id ` set tasks - set visited"
    using new by auto
  then show "((tasks, task_id parent # visited, parent), tasks, visited, current)
      \<in> measure (\<lambda>(tasks, visited, _). card (task_id ` set tasks - set visited))"
    by (simp add: psubset_card_mono)
qed simp

declare climb.simps [simp del]

definition retry_tree_root :: "Task \<Rightarrow> Task op" where
  "retry_tree_root t = reads (\<lambda>s. climb (st_tasks s) [task_id t] t)"

text \<open>Downwards with a stack whose top is the head of the list: children are pushed in their order, so
  the last one is taken first. Each round takes an identifier of the stack that was not seen before,
  or shortens the stack.\<close>

definition children_of :: "Task list \<Rightarrow> string \<Rightarrow> Task list" where
  "children_of tasks i = filter (\<lambda>t. i \<noteq> [] \<and> task_parent_task_id t = Some i) tasks"

function walk_down :: "Task list \<Rightarrow> string list \<Rightarrow> Task list \<Rightarrow> Task list" where
  "walk_down tasks seen [] = []"
| "walk_down tasks seen (t # stack) =
     (if task_id t \<in> set seen then walk_down tasks seen stack
      else t # walk_down tasks (task_id t # seen) (rev (children_of tasks (task_id t)) @ stack))"
  by pat_completeness auto

termination
proof (relation "(\<lambda>(tasks, seen, stack). card (task_id ` (set tasks \<union> set stack) - set seen)) <*mlex*>
    measure (\<lambda>(tasks, seen, stack). length stack)")
  show "wf ((\<lambda>(tasks, seen, stack). card (task_id ` (set tasks \<union> set stack) - set seen)) <*mlex*>
    measure (\<lambda>(tasks, seen, stack). length stack))"
    by (intro wf_mlex wf_measure)
next
  fix tasks stack :: "Task list" and seen :: "string list" and t :: Task
  have "card (task_id ` (set tasks \<union> set stack) - set seen)
      \<le> card (task_id ` (set tasks \<union> set (t # stack)) - set seen)"
    by (rule card_mono) auto
  then show "((tasks, seen, stack), tasks, seen, t # stack) \<in>
      (\<lambda>(tasks, seen, stack). card (task_id ` (set tasks \<union> set stack) - set seen)) <*mlex*>
      measure (\<lambda>(tasks, seen, stack). length stack)"
    by (intro mlex_leq) auto
next
  fix tasks stack :: "Task list" and seen :: "string list" and t :: Task
  assume new: "task_id t \<notin> set seen"
  let ?stack = "rev (children_of tasks (task_id t)) @ stack"
  have "task_id ` (set tasks \<union> set ?stack) - set (task_id t # seen)
      \<subset> task_id ` (set tasks \<union> set (t # stack)) - set seen"
    using new by (auto simp: children_of_def)
  then show "((tasks, task_id t # seen, ?stack), tasks, seen, t # stack) \<in>
      (\<lambda>(tasks, seen, stack). card (task_id ` (set tasks \<union> set stack) - set seen)) <*mlex*>
      measure (\<lambda>(tasks, seen, stack). length stack)"
    by (intro mlex_less) (simp add: psubset_card_mono)
qed

definition tree_below :: "Task list \<Rightarrow> string \<Rightarrow> Task list" where
  "tree_below tasks i = order_by task_created_at (walk_down tasks [] (rev (children_of tasks i)))"

definition retry_tree_descendants :: "Task \<Rightarrow> Task list op" where
  "retry_tree_descendants top_task =
     bnd (list_tasks (Some (task_project_id top_task))) (\<lambda>tasks. ret (tree_below tasks (task_id top_task)))"

subsection \<open>What failed before\<close>

record failure_info =
  fi_category :: string
  fi_missing :: "string list"

record retry_entry =
  re_task_id :: string
  re_task_title :: string
  re_objective :: string
  re_run_id :: string
  re_attempt :: int
  re_run_status :: string
  re_outcome :: string
  re_verdict :: string
  re_decision :: string
  re_failure :: failure_info

definition failure_dict :: "failure_info \<Rightarrow> pydict" where
  "failure_dict f = [(''failure_category'', PStr (fi_category f)),
     (''missing_required_artifacts'', str_list (fi_missing f))]"

definition entry_dict :: "retry_entry \<Rightarrow> pydict" where
  "entry_dict e = [(''task_id'', PStr (re_task_id e)), (''task_title'', PStr (re_task_title e)),
     (''objective'', PStr (re_objective e)), (''run_id'', PStr (re_run_id e)),
     (''attempt'', PInt (re_attempt e)), (''run_status'', PStr (re_run_status e)),
     (''outcome'', PStr (re_outcome e)), (''verdict'', PStr (re_verdict e)),
     (''decision'', PStr (re_decision e)), (''failure'', PDict (failure_dict (re_failure e)))]"

definition missing_of :: "pydict \<Rightarrow> string list" where
  "missing_of details =
     (case dict_get details ''missing_required_artifacts'' of
        PList xs \<Rightarrow> sort (map py_str (filter (\<lambda>x. py_strip (py_str x) \<noteq> []) xs))
      | _ \<Rightarrow> [])"

definition category_in :: "Evaluation \<Rightarrow> string" where
  "category_in e =
     (let details = evaluation_details e;
          diagnostics = opt_list (dict_entry details ''diagnostics'')
      in py_str (py_or (py_or (dict_get details ''failure_category'') (dict_get diagnostics ''failure_category''))
           (PStr (EvaluationVerdict_value (evaluation_verdict e)))))"

definition run_to_classify :: "Task \<Rightarrow> string \<Rightarrow> Run option op" where
  "run_to_classify t i =
     bnd (get_run i) (\<lambda>row.
     case row of
       Some run \<Rightarrow> if run_task_id run = task_id t then ret (Some run)
         else bnd (list_runs (Some (task_id t))) (\<lambda>runs. ret (last_option runs))
     | None \<Rightarrow> bnd (list_runs (Some (task_id t))) (\<lambda>runs. ret (last_option runs)))"

definition failure_classification :: "Task \<Rightarrow> string \<Rightarrow> failure_info op" where
  "failure_classification t i =
     bnd (run_to_classify t i) (\<lambda>row.
     case row of
       None \<Rightarrow> ret \<lparr>fi_category = [], fi_missing = []\<rparr>
     | Some run \<Rightarrow>
         bnd (list_evaluations (run_id run)) (\<lambda>evaluations.
         bnd (list_failure_patterns (Some (task_id t)) None None) (\<lambda>patterns.
         let evaluation = last_option evaluations;
             pattern = last_option (filter (\<lambda>p. fpr_run_id p = run_id run) patterns);
             known = (case pattern of None \<Rightarrow> [] | Some p \<Rightarrow> fpr_category p)
         in ret (case evaluation of
                None \<Rightarrow> \<lparr>fi_category = known, fi_missing = []\<rparr>
              | Some e \<Rightarrow> \<lparr>fi_category = (if known = [] then category_in e else known),
                           fi_missing = missing_of (evaluation_details e)\<rparr>))))"

definition history_entry :: "Task \<Rightarrow> retry_entry option op" where
  "history_entry t =
     bnd (list_runs (Some (task_id t))) (\<lambda>runs.
     case last_option runs of
       None \<Rightarrow> ret None
     | Some run \<Rightarrow>
         bnd (list_evaluations (run_id run)) (\<lambda>evaluations.
         bnd (list_decisions (run_id run)) (\<lambda>decisions.
         bnd (failure_classification t (run_id run)) (\<lambda>failure.
         ret (Some \<lparr>re_task_id = task_id t, re_task_title = task_title t,
           re_objective = task_objective t, re_run_id = run_id run, re_attempt = run_attempt run,
           re_run_status = RunStatus_value (run_status run),
           re_outcome = (case last_option evaluations of
              Some e \<Rightarrow> evaluation_summary e | None \<Rightarrow> run_summary run),
           re_verdict = (case last_option evaluations of
              Some e \<Rightarrow> EvaluationVerdict_value (evaluation_verdict e) | None \<Rightarrow> []),
           re_decision = (case last_option decisions of
              Some d \<Rightarrow> DecisionAction_value (decision_action d) | None \<Rightarrow> []),
           re_failure = failure\<rparr>)))))"

definition build_retry_history :: "Task \<Rightarrow> Task list \<Rightarrow> retry_entry list op" where
  "build_retry_history top_task descendants =
     bnd (collect history_entry (top_task # descendants)) (\<lambda>entries.
     ret (List.map_filter (\<lambda>e. e) entries))"

definition previous_retry_failure :: "retry_entry list \<Rightarrow> string \<Rightarrow> failure_info option" where
  "previous_retry_failure history current_task =
     map_option re_failure (last_option (filter (\<lambda>e. re_task_id e \<noteq> current_task) history))"

definition same_failure_classification :: "failure_info option \<Rightarrow> failure_info \<Rightarrow> bool" where
  "same_failure_classification previous current =
     (case previous of
        None \<Rightarrow> False
      | Some p \<Rightarrow> py_strip (fi_category p) = py_strip (fi_category current)
          \<and> sort (fi_missing p) = sort (fi_missing current))"

subsection \<open>Blocking a tree of retries\<close>

definition REMEDIATION_TREE_CAP :: nat where
  "REMEDIATION_TREE_CAP = 15"

definition RETRY_HISTORY_MAX_OBJECTIVE_CHARS :: nat where
  "RETRY_HISTORY_MAX_OBJECTIVE_CHARS = 280"

definition remediation_block_reason ::
  "Task \<Rightarrow> Task \<Rightarrow> string \<Rightarrow> pydict list \<Rightarrow> (string option \<times> retry_entry list \<times> failure_info) op"
where
  "remediation_block_reason parent top_task source_run findings =
     bnd (retry_tree_descendants top_task) (\<lambda>descendants.
     bnd (build_retry_history top_task descendants) (\<lambda>history.
     bnd (failure_classification parent source_run) (\<lambda>current.
     ret (if REMEDIATION_TREE_CAP \<le> length descendants
             \<or> REMEDIATION_TREE_CAP < length descendants + length findings
          then (Some (''Retry tree for root failure '' @ [CHR 0x27] @ task_title top_task @ [CHR 0x27]
                  @ '' reached the hard cap of '' @ dec_nat REMEDIATION_TREE_CAP @ '' remediation tasks.''),
                history, current)
          else if same_failure_classification (previous_retry_failure history (task_id parent)) current
          then (Some ''Latest remediation attempt repeated the previous root cause classification; escalating to blocked instead of spawning another retry.'',
                history, current)
          else (None, history, current)))))"

definition context_record ::
  "string \<Rightarrow> string \<Rightarrow> string option \<Rightarrow> string option \<Rightarrow> string option \<Rightarrow> string \<Rightarrow> pydict op \<Rightarrow> unit op"
where
  "context_record record_type project objective task run content metadata =
     bnd (new_id ''context'') (\<lambda>i.
     bnd metadata (\<lambda>meta.
     bnd utc_now (\<lambda>now.
     create_context_record \<lparr>ctx_id = i, ctx_record_type = record_type, ctx_project_id = project,
       ctx_objective_id = objective, ctx_task_id = task, ctx_run_id = run,
       ctx_visibility = ''operator_visible'', ctx_author_type = ''system'', ctx_author_id = [],
       ctx_content = content, ctx_metadata = meta, ctx_created_at = now\<rparr>)))"

definition mark_retry_tree_blocked :: "Task \<Rightarrow> Task \<Rightarrow> string \<Rightarrow> string \<Rightarrow> failure_info \<Rightarrow> unit op" where
  "mark_retry_tree_blocked t top_task source_run reason current =
     bnd (when_do (opt_str (task_objective_id t) \<noteq> [])
       (bnd (update_objective_status (opt_str (task_objective_id t)) OS_INVESTIGATING) (\<lambda>_.
        context_record ''failed_task_retry_blocked'' (task_project_id t) (task_objective_id t)
          (Some (task_id t)) (if source_run = [] then None else Some source_run) reason
          (bnd (retry_tree_descendants top_task) (\<lambda>descendants.
           ret [(''root_task_id'', PStr (task_id top_task)),
                (''retry_tree_descendants'', PInt (int (length descendants))),
                (''failure_classification'', PDict (failure_dict current))]))))) (\<lambda>_.
     emit ''task'' (task_id t) ''failed_task_retry_blocked''
       [(''root_task_id'', PStr (task_id top_task)), (''source_run_id'', PStr source_run),
        (''reason'', PStr reason), (''failure_classification'', PDict (failure_dict current))])"

subsection \<open>Tasks from findings\<close>

definition history_line :: "nat \<Rightarrow> retry_entry \<Rightarrow> string" where
  "history_line index e =
     (let objective = take RETRY_HISTORY_MAX_OBJECTIVE_CHARS (squeeze (py_strip (re_objective e)));
          missing = join '', '' (fi_missing (re_failure e));
          outcome = squeeze (py_strip (re_outcome e))
      in dec_nat index @ ''. '' @ re_task_title e @ '' tried '' @ [CHR 0x27] @ objective @ [CHR 0x27] @ ''. ''
         @ ''Outcome: '' @ or_default outcome ''no evaluation summary recorded'' @ '' ''
         @ ''(verdict='' @ or_default (re_verdict e) ''unknown''
         @ '', decision='' @ or_default (re_decision e) ''unknown'' @ '', ''
         @ ''failure_category='' @ or_default (fi_category (re_failure e)) ''unknown''
         @ (if missing = [] then [] else '', missing_artifacts='' @ missing) @ '').'')"

definition format_retry_history :: "retry_entry list \<Rightarrow> string" where
  "format_retry_history history =
     join NL (map (\<lambda>(index, e). history_line index e) (zip [1..<Suc (length history)] history))"

definition compose_remediation_objective :: "string \<Rightarrow> retry_entry list \<Rightarrow> string" where
  "compose_remediation_objective base history =
     (let summary = format_retry_history history in
      if summary = [] then base
      else base @ NL @ NL @ ''Prior retry history for this root failure:'' @ NL @ summary @ NL @ NL
        @ ''This attempt must do something different from the prior rounds. Focus now on: '' @ base)"

definition remediation_metadata ::
  "string \<Rightarrow> string \<Rightarrow> Task \<Rightarrow> retry_entry list \<Rightarrow> failure_info \<Rightarrow> pydict \<Rightarrow> exn + pydict"
where
  "remediation_metadata parent_id source_run top_task history current finding =
     rbind (py_list (py_or (dict_get finding ''finding_ids'') (PList []))) (\<lambda>ids.
     rbind (py_list (py_or (dict_get finding ''remediation_hints'') (PList []))) (\<lambda>hints.
     Inr [(''failed_task_disposition'', PDict [(''kind'', PStr ''split_into_narrower_tasks''),
            (''source_task_id'', PStr parent_id), (''source_run_id'', PStr source_run)]),
          (''retry_remediation'', PDict [(''root_task_id'', PStr (task_id top_task)),
            (''parent_task_id'', PStr parent_id), (''history'', PList (map (PDict \<circ> entry_dict) history)),
            (''current_failure'', PDict (failure_dict current)),
            (''history_summary'', PStr (format_retry_history history))]),
          (''promotion_remediation'', PDict [(''finding_ids'', PList ids),
            (''review_round_id'', PStr (str_or_empty (dict_get finding ''review_round_id''))),
            (''dimension_name'', PStr (str_or_empty (dict_get finding ''dimension_name''))),
            (''summary'', PStr (str_or_empty (dict_get finding ''summary''))),
            (''remediation_hints'', PList hints)])]))"

definition finding_args ::
  "Task \<Rightarrow> string \<Rightarrow> string \<Rightarrow> Task \<Rightarrow> retry_entry list \<Rightarrow> failure_info \<Rightarrow> nat \<Rightarrow> pydict \<Rightarrow> exn + follow_on_args"
where
  "finding_args parent parent_id source_run top_task history current index finding =
     rbind (remediation_metadata parent_id source_run top_task history current finding) (\<lambda>metadata.
     Inr ((follow_on_default
        (or_default (py_strip (str_or_empty (dict_get finding ''title'')))
           (''Remediate review finding '' @ dec_nat index))
        (compose_remediation_objective
           (or_default (py_strip (str_or_empty (dict_get finding ''objective'')))
              ''Address the failed-task review finding and keep the work on the same objective.'') history))
      \<lparr>fa_strategy := Some (py_str (py_or (py_or (dict_get finding ''strategy'') (PStr (task_strategy parent)))
          (PStr ''atomic_from_mermaid''))),
       fa_validation_mode := Some (py_str (py_or (py_or (dict_get finding ''validation_mode'')
          (PStr (task_validation_mode parent))) (PStr ''default_focused''))),
       fa_overrides := Some metadata\<rparr>))"

definition create_tasks_from_review_findings :: "string \<Rightarrow> string \<Rightarrow> pydict list \<Rightarrow> Task list op" where
  "create_tasks_from_review_findings parent_id source_run findings =
     bnd (get_task parent_id) (\<lambda>row.
     case row of
       None \<Rightarrow> raise (ValueError (''Unknown parent task: '' @ parent_id))
     | Some parent \<Rightarrow>
         bnd (retry_tree_root parent) (\<lambda>top_task.
         bnd (remediation_block_reason parent top_task source_run findings) (\<lambda>(blocked, history, current).
         case blocked of
           Some reason \<Rightarrow>
             bnd (mark_retry_tree_blocked parent top_task source_run reason current) (\<lambda>_. ret [])
         | None \<Rightarrow>
             bnd (collect (\<lambda>(index, finding).
                    bnd (lift_result (finding_args parent parent_id source_run top_task history current index finding))
                      (create_follow_on_task parent_id source_run))
                  (zip [1..<Suc (length findings)] findings)) (\<lambda>created.
             bnd (when_do (opt_str (task_objective_id parent) \<noteq> [] \<and> created \<noteq> [])
                    (update_objective_status (opt_str (task_objective_id parent)) OS_PLANNING)) (\<lambda>_.
             ret created)))))"

subsection \<open>Dispositions of a failed task\<close>

record disposition_args =
  da_rationale :: string
  da_source_run_id :: "string option"
  da_findings :: "pydict list option"
  da_operator_title :: "string option"
  da_operator_objective :: "string option"
  da_attempt_metadata :: "pydict option"

definition disposition_payload :: "string \<Rightarrow> string \<Rightarrow> string \<Rightarrow> pydict" where
  "disposition_payload kind rationale source_run =
     [(''kind'', PStr kind), (''rationale'', PStr (py_strip rationale)), (''source_run_id'', PStr source_run)]"

definition retry_as_is :: "Task \<Rightarrow> pydict \<Rightarrow> pydict \<Rightarrow> pydict \<Rightarrow> pydict op" where
  "retry_as_is t attempt_metadata merged payload =
     bnd (when_do (attempt_metadata \<noteq> []) (update_task_attempt_metadata (task_id t) attempt_metadata)) (\<lambda>_.
     bnd (update_task_external_metadata (task_id t) merged) (\<lambda>_.
     bnd (update_task_status (task_id t) TS_PENDING) (\<lambda>_.
     bnd (when_do (opt_str (task_objective_id t) \<noteq> [])
            (update_objective_status (opt_str (task_objective_id t)) OS_PLANNING)) (\<lambda>_.
     bnd (emit ''task'' (task_id t) ''failed_task_requeued'' payload) (\<lambda>_.
     ret [(''status'', PStr ''pending''), (''task_id'', PStr (task_id t))])))))"

definition split_failed_task :: "Task \<Rightarrow> string \<Rightarrow> pydict list \<Rightarrow> pydict \<Rightarrow> pydict \<Rightarrow> pydict op" where
  "split_failed_task t source_run findings merged payload =
     bnd (retry_tree_root t) (\<lambda>top_task.
     bnd (remediation_block_reason t top_task source_run findings) (\<lambda>(blocked, history, current).
     case blocked of
       Some reason \<Rightarrow>
         bnd (mark_retry_tree_blocked t top_task source_run reason current) (\<lambda>_.
         ret [(''status'', PStr ''blocked''), (''task_id'', PStr (task_id t)), (''reason'', PStr reason)])
     | None \<Rightarrow>
         bnd (create_tasks_from_review_findings (task_id t) source_run findings) (\<lambda>created.
         bnd (update_task_external_metadata (task_id t) merged) (\<lambda>_.
         bnd (emit ''task'' (task_id t) ''failed_task_split''
                (payload @ [(''created_task_ids'', str_list (map task_id created))])) (\<lambda>_.
         ret [(''status'', PStr ''split''), (''task_ids'', str_list (map task_id created))])))))"

definition hand_to_operator ::
  "Task \<Rightarrow> string \<Rightarrow> string option \<Rightarrow> string option \<Rightarrow> pydict \<Rightarrow> pydict \<Rightarrow> pydict op"
where
  "hand_to_operator t source_run title objective merged payload =
     bnd (create_follow_on_task (task_id t) source_run
            ((follow_on_default (or_default (opt_str title) (''Manually implement: '' @ task_title t))
                (or_default (opt_str objective) (task_objective t)))
             \<lparr>fa_strategy := Some ''operator_ergonomics'', fa_validation_mode := Some ''lightweight_operator'',
              fa_overrides := Some [(''failed_task_disposition'', PDict payload),
                (''operator_owned'', PBool True)]\<rparr>)) (\<lambda>follow_on.
     bnd (update_task_external_metadata (task_id t) merged) (\<lambda>_.
     bnd (when_do (opt_str (task_objective_id t) \<noteq> [])
            (update_objective_status (opt_str (task_objective_id t)) OS_PLANNING)) (\<lambda>_.
     bnd (emit ''task'' (task_id t) ''failed_task_manualized''
            (payload @ [(''operator_task_id'', PStr (task_id follow_on))])) (\<lambda>_.
     ret [(''status'', PStr ''manual''), (''task_id'', PStr (task_id follow_on))]))))"

definition waive_failed_task :: "Task \<Rightarrow> string \<Rightarrow> pydict \<Rightarrow> pydict \<Rightarrow> pydict op" where
  "waive_failed_task t rationale merged payload =
     bnd (update_task_external_metadata (task_id t) merged) (\<lambda>_.
     bnd (when_do (opt_str (task_objective_id t) \<noteq> [])
            (bnd (context_record ''failed_task_waived'' (task_project_id t) (task_objective_id t) None None
                   (or_default (py_strip rationale) (''Waived failed task '' @ task_title t @ ''.''))
                   (ret payload)) (\<lambda>_.
             bnd (update_objective_phase (opt_str (task_objective_id t))) (\<lambda>_. ret ())))) (\<lambda>_.
     bnd (emit ''task'' (task_id t) ''failed_task_waived'' payload) (\<lambda>_.
     ret [(''status'', PStr ''waived''), (''task_id'', PStr (task_id t))])))"

definition apply_failed_task_disposition :: "string \<Rightarrow> string \<Rightarrow> disposition_args \<Rightarrow> pydict op" where
  "apply_failed_task_disposition i disposition a =
     bnd (get_task i) (\<lambda>row.
     case row of
       None \<Rightarrow> raise (ValueError (''Unknown task: '' @ i))
     | Some t \<Rightarrow>
         let normalized = py_lower (py_strip disposition) in
         if task_status t \<noteq> TS_FAILED
         then raise (ValueError (''Task '' @ i @ '' must be failed before applying a failed-task disposition''))
         else
         bnd (list_runs (Some (task_id t))) (\<lambda>runs.
         let source_run = or_default (opt_str (da_source_run_id a))
               (case last_option runs of None \<Rightarrow> [] | Some r \<Rightarrow> run_id r);
             payload = disposition_payload normalized (da_rationale a) source_run;
             merged = dict_set ''failed_task_disposition'' (PDict payload) (task_external_ref_metadata t)
         in if normalized = ''retry_as_is''
            then retry_as_is t (opt_list (da_attempt_metadata a)) merged payload
            else if normalized = ''split_into_narrower_tasks''
            then split_failed_task t source_run (opt_list (da_findings a)) merged payload
            else if normalized = ''allow_manual_operator_implementation''
            then hand_to_operator t source_run (da_operator_title a) (da_operator_objective a) merged payload
            else if normalized = ''waive_obsolete''
            then waive_failed_task t (da_rationale a) merged payload
            else raise (ValueError (''Unsupported failed-task disposition: '' @ disposition))))"

subsection \<open>The tree of retries, declaratively\<close>

text \<open>A task is below another when a chain of parents leads from it to the other.\<close>

definition child_rel :: "Task list \<Rightarrow> (string \<times> string) set" where
  "child_rel tasks = {(i, task_id t) | i t. t \<in> set tasks \<and> task_parent_task_id t = Some i \<and> i \<noteq> []}"

lemma set_children: "t \<in> set (children_of tasks i) \<longleftrightarrow> t \<in> set tasks \<and> task_parent_task_id t = Some i \<and> i \<noteq> []"
  by (auto simp: children_of_def)

lemma child_rel_iff: "(i, j) \<in> child_rel tasks \<longleftrightarrow> (\<exists>t\<in>set (children_of tasks i). task_id t = j)"
  by (auto simp: child_rel_def set_children)

text \<open>The walk visits the identifiers reachable from the stack without passing a seen one.\<close>

lemma walk_down_distinct:
  "distinct (map task_id (walk_down tasks seen stack)) \<and> task_id ` set (walk_down tasks seen stack) \<inter> set seen = {}"
  by (induction tasks seen stack rule: walk_down.induct) auto

lemma walk_down_sound:
  "set (walk_down tasks seen stack) \<subseteq>
     {t. \<exists>u\<in>set stack. t = u \<or> t \<in> set tasks \<and> (task_id u, task_id t) \<in> (child_rel tasks)\<^sup>+}"
proof (induction tasks seen stack rule: walk_down.induct)
  case (1 tasks seen)
  then show ?case by simp
next
  case (2 tasks seen t stack)
  show ?case
  proof (cases "task_id t \<in> set seen")
    case True
    with 2(1) show ?thesis by auto
  next
    case False
    have "\<exists>u\<in>set (t # stack). x = u \<or> x \<in> set tasks \<and> (task_id u, task_id x) \<in> (child_rel tasks)\<^sup>+"
      if x: "x \<in> set (walk_down tasks (task_id t # seen) (rev (children_of tasks (task_id t)) @ stack))" for x
    proof -
      obtain u where u: "u \<in> set (children_of tasks (task_id t)) \<union> set stack"
        and reach: "x = u \<or> x \<in> set tasks \<and> (task_id u, task_id x) \<in> (child_rel tasks)\<^sup>+"
        using 2(2) [OF False] x by fastforce
      show ?thesis
      proof (cases "u \<in> set stack")
        case True
        with reach show ?thesis by auto
      next
        case False
        then have child: "u \<in> set (children_of tasks (task_id t))" using u by simp
        then have edge: "(task_id t, task_id u) \<in> child_rel tasks" by (auto simp: child_rel_iff)
        have "x \<in> set tasks \<and> (task_id t, task_id x) \<in> (child_rel tasks)\<^sup>+"
          using reach child edge by (auto simp: set_children intro: trancl_into_trancl2)
        then show ?thesis by auto
      qed
    qed
    with False show ?thesis by auto
  qed
qed

lemma walk_down_complete:
  "task_id ` set stack \<subseteq> task_id ` set (walk_down tasks seen stack) \<union> set seen
   \<and> (\<forall>i\<in>task_id ` set (walk_down tasks seen stack). \<forall>j. (i, j) \<in> child_rel tasks
        \<longrightarrow> j \<in> task_id ` set (walk_down tasks seen stack) \<union> set seen)"
proof (induction tasks seen stack rule: walk_down.induct)
  case (1 tasks seen)
  then show ?case by simp
next
  case (2 tasks seen t stack)
  show ?case
  proof (cases "task_id t \<in> set seen")
    case True
    with 2(1) show ?thesis by auto
  next
    case False
    let ?below = "task_id ` set (walk_down tasks (task_id t # seen) (rev (children_of tasks (task_id t)) @ stack))"
    have ids: "task_id ` set (walk_down tasks seen (t # stack)) = insert (task_id t) ?below"
      using False by simp
    have below: "task_id ` set (children_of tasks (task_id t)) \<union> task_id ` set stack \<subseteq> ?below \<union> insert (task_id t) (set seen)"
      and closed: "\<forall>i\<in>?below. \<forall>j. (i, j) \<in> child_rel tasks \<longrightarrow> j \<in> ?below \<union> insert (task_id t) (set seen)"
      using 2(2) [OF False] by (simp_all add: image_Un)
    have first: "\<forall>j. (task_id t, j) \<in> child_rel tasks \<longrightarrow> j \<in> ?below \<union> insert (task_id t) (set seen)"
      using below unfolding child_rel_iff by blast
    show ?thesis unfolding ids using below closed first by auto
  qed
qed

lemma ids_below: "task_id ` set (tree_below tasks i) = {j. (i, j) \<in> (child_rel tasks)\<^sup>+}"
proof
  have edge: "(i, task_id u) \<in> child_rel tasks" if "u \<in> set (children_of tasks i)" for u
    using that by (auto simp: child_rel_iff)
  show "task_id ` set (tree_below tasks i) \<subseteq> {j. (i, j) \<in> (child_rel tasks)\<^sup>+}"
    using walk_down_sound [of tasks "[]" "rev (children_of tasks i)"]
    by (force simp: tree_below_def dest: edge intro: trancl_into_trancl2)
  have closed: "task_id ` set (children_of tasks i) \<subseteq> task_id ` set (tree_below tasks i)"
    "\<forall>k\<in>task_id ` set (tree_below tasks i). \<forall>j. (k, j) \<in> child_rel tasks \<longrightarrow> j \<in> task_id ` set (tree_below tasks i)"
    using walk_down_complete [of "rev (children_of tasks i)" tasks "[]"] by (simp_all add: tree_below_def)
  show "{j. (i, j) \<in> (child_rel tasks)\<^sup>+} \<subseteq> task_id ` set (tree_below tasks i)"
  proof clarify
    fix j
    assume "(i, j) \<in> (child_rel tasks)\<^sup>+"
    then show "j \<in> task_id ` set (tree_below tasks i)"
    proof (induction rule: trancl_induct)
      case (base j)
      then show ?case using closed(1) by (auto simp: child_rel_iff)
    next
      case (step k j)
      then show ?case using closed(2) by blast
    qed
  qed
qed

lemma tree_below_distinct: "distinct (map task_id (tree_below tasks i))"
proof -
  have "distinct (map task_id (walk_down tasks [] (rev (children_of tasks i))))"
    using walk_down_distinct by blast
  then show ?thesis by (simp add: tree_below_def distinct_map order_by_def)
qed

lemma tree_below_length: "length (tree_below tasks i) = card {j. (i, j) \<in> (child_rel tasks)\<^sup>+}"
  using distinct_card [OF tree_below_distinct, of tasks i] by (simp add: ids_below)

lemma tree_below_subset: "set (tree_below tasks i) \<subseteq> set tasks"
  using walk_down_sound [of tasks "[]" "rev (children_of tasks i)"]
  by (auto simp: tree_below_def set_children)

lemma set_tree_below:
  assumes "keyed task_id tasks"
  shows "set (tree_below tasks i) = {t \<in> set tasks. (i, task_id t) \<in> (child_rel tasks)\<^sup>+}"
proof
  show "set (tree_below tasks i) \<subseteq> {t \<in> set tasks. (i, task_id t) \<in> (child_rel tasks)\<^sup>+}"
    using tree_below_subset ids_below [of tasks i] by auto
  show "{t \<in> set tasks. (i, task_id t) \<in> (child_rel tasks)\<^sup>+} \<subseteq> set (tree_below tasks i)"
  proof clarify
    fix t
    assume t: "t \<in> set tasks" and "(i, task_id t) \<in> (child_rel tasks)\<^sup>+"
    then obtain u where u: "u \<in> set (tree_below tasks i)" and id_eq: "task_id u = task_id t"
      using ids_below [of tasks i] by (metis (mono_tags, lifting) imageE mem_Collect_eq)
    then have "u \<in> set tasks" using tree_below_subset by blast
    with t id_eq assms have "u = t" by (metis keyed_def distinct_map inj_onD)
    with u show "t \<in> set (tree_below tasks i)" by simp
  qed
qed

definition root_of :: "store \<Rightarrow> Task \<Rightarrow> Task" where
  "root_of s t = climb (st_tasks s) [task_id t] t"

lemma climb_above:
  "task_id t \<in> set visited \<Longrightarrow> climb tasks visited t = t
     \<or> climb tasks visited t \<in> set tasks \<and> task_id (climb tasks visited t) \<notin> set visited"
proof (induction tasks visited t rule: climb.induct)
  case (1 tasks visited current)
  show ?case
  proof (cases "opt_str (task_parent_task_id current) = []
      \<or> find_key task_id (opt_str (task_parent_task_id current)) tasks = None
      \<or> (\<exists>p. find_key task_id (opt_str (task_parent_task_id current)) tasks = Some p \<and> task_id p \<in> set visited)")
    case True
    then have "climb tasks visited current = current"
      by (subst climb.simps) (auto split: option.split)
    then show ?thesis by simp
  next
    case False
    then obtain p where p: "opt_str (task_parent_task_id current) \<noteq> []"
      "find_key task_id (opt_str (task_parent_task_id current)) tasks = Some p" "task_id p \<notin> set visited"
      by auto
    then have step: "climb tasks visited current = climb tasks (task_id p # visited) p"
      by (subst climb.simps) simp
    from 1(1) [OF p] find_key_Some [OF p(2)] p(3) show ?thesis unfolding step by auto
  qed
qed

lemma climb_reaches:
  "(task_id (climb tasks visited t), task_id t) \<in> (child_rel (t # tasks))\<^sup>*"
proof (induction tasks visited t rule: climb.induct)
  case (1 tasks visited current)
  show ?case
  proof (cases "opt_str (task_parent_task_id current) = []
      \<or> find_key task_id (opt_str (task_parent_task_id current)) tasks = None
      \<or> (\<exists>p. find_key task_id (opt_str (task_parent_task_id current)) tasks = Some p \<and> task_id p \<in> set visited)")
    case True
    then have "climb tasks visited current = current"
      by (subst climb.simps) (auto split: option.split)
    then show ?thesis by simp
  next
    case False
    then obtain p where p: "opt_str (task_parent_task_id current) \<noteq> []"
      "find_key task_id (opt_str (task_parent_task_id current)) tasks = Some p" "task_id p \<notin> set visited"
      by auto
    then have step: "climb tasks visited current = climb tasks (task_id p # visited) p"
      by (subst climb.simps) simp
    have mem: "p \<in> set tasks" and key: "task_id p = opt_str (task_parent_task_id current)"
      using find_key_Some [OF p(2)] by auto
    have sub: "child_rel (p # tasks) \<subseteq> child_rel (current # tasks)"
      using mem by (auto simp: child_rel_def)
    have up: "(task_id (climb tasks (task_id p # visited) p), task_id p) \<in> (child_rel (current # tasks))\<^sup>*"
      using 1 [OF p] rtrancl_mono [OF sub] by blast
    have "task_parent_task_id current = Some (task_id p)"
      using p(1) key by (cases "task_parent_task_id current") (auto simp: opt_str_def)
    then have edge: "(task_id p, task_id current) \<in> child_rel (current # tasks)"
      using p(1) key by (auto simp: child_rel_def)
    show ?thesis unfolding step using up edge by (rule rtrancl_into_rtrancl)
  qed
qed

text \<open>Where no chain of parents is a cycle, the climb ends at a task without a parent in the store.\<close>

lemma climb_ends:
  "acyclic (child_rel tasks) \<Longrightarrow> t \<in> set tasks \<Longrightarrow> \<forall>i\<in>set visited. (task_id t, i) \<in> (child_rel tasks)\<^sup>* \<Longrightarrow>
    opt_str (task_parent_task_id (climb tasks visited t)) = []
    \<or> opt_str (task_parent_task_id (climb tasks visited t)) \<notin> task_id ` set tasks"
proof (induction tasks visited t rule: climb.induct)
  case (1 tasks visited current)
  show ?case
  proof (cases "opt_str (task_parent_task_id current) = []
      \<or> find_key task_id (opt_str (task_parent_task_id current)) tasks = None")
    case True
    then have "climb tasks visited current = current"
      by (subst climb.simps) (auto split: option.split)
    with True show ?thesis by (auto simp: find_key_None)
  next
    case False
    then obtain p where p: "opt_str (task_parent_task_id current) \<noteq> []"
      "find_key task_id (opt_str (task_parent_task_id current)) tasks = Some p"
      by auto
    have mem: "p \<in> set tasks" and key: "task_id p = opt_str (task_parent_task_id current)"
      using find_key_Some [OF p(2)] by auto
    have edge: "(task_id p, task_id current) \<in> child_rel tasks"
      using p(1) key 1(3) by (cases "task_parent_task_id current") (auto simp: opt_str_def child_rel_def)
    have new: "task_id p \<notin> set visited"
    proof
      assume "task_id p \<in> set visited"
      then have "(task_id current, task_id p) \<in> (child_rel tasks)\<^sup>*" using 1(4) by blast
      with edge have "(task_id p, task_id p) \<in> (child_rel tasks)\<^sup>+" by (rule rtrancl_into_trancl2)
      with 1(2) show False unfolding acyclic_def by blast
    qed
    have "\<forall>i\<in>set (task_id p # visited). (task_id p, i) \<in> (child_rel tasks)\<^sup>*"
      using 1(4) edge by (auto intro: converse_rtrancl_into_rtrancl)
    from 1(1) [OF p new 1(2) mem this] show ?thesis
      using p new by (subst (1 2) climb.simps) simp
  qed
qed

definition project_tasks :: "string \<Rightarrow> store \<Rightarrow> Task list" where
  "project_tasks project s = filter (\<lambda>t. clause (Some project) (Some (task_project_id t))) (st_tasks s)"

lemma child_rel_cong: "set xs = set ys \<Longrightarrow> child_rel xs = child_rel ys"
  by (simp add: child_rel_def)

lemma project_listing:
  "list_tasks (Some project) s = (Inr (by_priority (project_tasks project s)), s)"
  "child_rel (by_priority (project_tasks project s)) = child_rel (project_tasks project s)"
proof -
  show "list_tasks (Some project) s = (Inr (by_priority (project_tasks project s)), s)"
    by (simp add: list_tasks_def project_tasks_def)
  show "child_rel (by_priority (project_tasks project s)) = child_rel (project_tasks project s)"
    by (rule child_rel_cong) (simp add: by_priority_def)
qed

text \<open>C31. The tree of retries is computed right, also where the parents form a cycle. The root found
  from a task is the task or one above it; where the parents do not form a cycle it has no parent in
  the store. The descendants of a task are exactly the tasks of its project that a chain of parents
  within the project links to it, each once and the oldest first. Both only read.\<close>

theorem retry_tree_exact:
  assumes keyed: "keyed task_id (st_tasks s)" and t: "t \<in> set (st_tasks s)"
  shows "\<exists>top_task ds. retry_tree_root t s = (Inr top_task, s)
      \<and> top_task \<in> set (st_tasks s) \<and> (task_id top_task, task_id t) \<in> (child_rel (st_tasks s))\<^sup>*
      \<and> (acyclic (child_rel (st_tasks s)) \<longrightarrow> opt_str (task_parent_task_id top_task) = []
           \<or> opt_str (task_parent_task_id top_task) \<notin> task_id ` set (st_tasks s))
      \<and> retry_tree_descendants t s = (Inr ds, s)
      \<and> set ds = {x \<in> set (project_tasks (task_project_id t) s).
           (task_id t, task_id x) \<in> (child_rel (project_tasks (task_project_id t) s))\<^sup>+}
      \<and> distinct ds \<and> sorted (map task_created_at ds)"
proof -
  let ?all = "st_tasks s" and ?mine = "by_priority (project_tasks (task_project_id t) s)"
  have root: "retry_tree_root t s = (Inr (root_of s t), s)"
    by (simp add: retry_tree_root_def root_of_def)
  have "child_rel (t # ?all) = child_rel ?all" using t by (intro child_rel_cong) auto
  then have above: "(task_id (root_of s t), task_id t) \<in> (child_rel ?all)\<^sup>*"
    using climb_reaches [of ?all "[task_id t]" t] by (simp add: root_of_def)
  have mem: "root_of s t \<in> set ?all"
    using climb_above [of t "[task_id t]" ?all] t by (auto simp: root_of_def)
  have ends: "opt_str (task_parent_task_id (root_of s t)) = []
      \<or> opt_str (task_parent_task_id (root_of s t)) \<notin> task_id ` set ?all" if "acyclic (child_rel ?all)"
    using climb_ends [OF that t, of "[task_id t]"] by (simp add: root_of_def)
  have ds: "retry_tree_descendants t s = (Inr (tree_below ?mine (task_id t)), s)"
    by (simp add: retry_tree_descendants_def bnd_run project_listing ret_run)
  have "inj_on task_id (set ?mine)"
    using keyed by (auto simp: by_priority_def project_tasks_def keyed_def distinct_map inj_on_def)
  moreover have "distinct ?mine"
    using keyed by (simp add: by_priority_def project_tasks_def keyed_def distinct_map order_by_def order_by_desc_def)
  ultimately have "keyed task_id ?mine" by (simp add: keyed_def distinct_map)
  then have "set (tree_below ?mine (task_id t)) = {x \<in> set (project_tasks (task_project_id t) s).
      (task_id t, task_id x) \<in> (child_rel (project_tasks (task_project_id t) s))\<^sup>+}"
    using set_tree_below [of ?mine "task_id t", unfolded project_listing(2)] by (simp add: by_priority_def)
  moreover have "distinct (tree_below ?mine (task_id t))"
    using tree_below_distinct by (simp add: distinct_map)
  moreover have "sorted (map task_created_at (tree_below ?mine (task_id t)))"
    by (simp add: tree_below_def sorted_order_by)
  ultimately show ?thesis using root mem above ends ds by blast
qed

end
