(* ===== verification/Retry_Tree.thy ===== *)
theory Retry_Tree
  imports Task_Service
begin

section \<open>How a tree of retries grows\<close>

text \<open>
  What the operations of \<open>Task_Service\<close> do to the table of tasks: they add children to one task, or
  they change what is neither the identifier, the parent nor the project of a task. With the shape of the
  tree from \<open>Task_Service\<close> this bounds the number of tasks a failed task can be split into, and says
  what a disposition leaves behind.
\<close>

subsection \<open>The table of tasks\<close>

named_theorems tasks_kept \<open>operations that do not write the table of tasks\<close>

lemma basic_keep_tasks [tasks_kept]:
  "keeps st_tasks utc_now" "keeps st_tasks (new_id p)" "keeps st_tasks (emit a b c d)"
  "keeps st_tasks (create_plan plan)" "keeps st_tasks (update_objective_status j st)"
  "keeps st_tasks (create_context_record r)" "keeps st_tasks (update_objective_phase j)"
  unfolding emit_def create_event_def create_plan_def update_objective_status_def create_context_record_def
    update_objective_phase_def Let_def
  by (intro keep_rules keeps_try_write keeps_writes utc_now_keeps new_id_keeps; auto simp: rbind_Inr_iff)+

lemma reading_keeps_tasks [tasks_kept]:
  "keeps st_tasks (list_tasks project)" "keeps st_tasks (get_plan k)" "keeps st_tasks (get_objective j)"
  "keeps st_tasks (latest_intent_model j)" "keeps st_tasks (get_task i)" "keeps st_tasks (retry_tree_root x)"
  "keeps st_tasks (get_task_by_external_ref rt ri)" "keeps st_tasks (list_runs t)" "keeps st_tasks (get_run k)"
  "keeps st_tasks (list_evaluations k)" "keeps st_tasks (list_decisions k)"
  "keeps st_tasks (list_failure_patterns a b c)"
  unfolding list_tasks_def get_plan_def get_objective_def latest_intent_model_def list_intent_models_def
    get_task_def retry_tree_root_def get_task_by_external_ref_def list_runs_def get_run_def list_evaluations_def
    list_decisions_def list_failure_patterns_def
  by (intro keep_rules)+

lemma service_keeps_tasks [tasks_kept]:
  "keeps st_tasks (linked_scope a)" "keeps st_tasks (ensure_plan_linkage x)"
  "keeps st_tasks (failure_classification x k)"
  unfolding linked_scope_def frozen_scope_def ensure_plan_linkage_def failure_classification_def
    run_to_classify_def Let_def
  by (intro keep_rules tasks_kept)+

lemma history_keeps_tasks [tasks_kept]:
  "keeps st_tasks (retry_tree_descendants x)"
  "keeps st_tasks (build_retry_history x xs)"
  unfolding retry_tree_descendants_def build_retry_history_def history_entry_def
  by (intro keep_rules tasks_kept)+

lemma blocking_keeps_tasks [tasks_kept]:
  "keeps st_tasks (remediation_block_reason x top_task k fs)"
  "keeps st_tasks (mark_retry_tree_blocked x top_task k reason current)"
  unfolding remediation_block_reason_def mark_retry_tree_blocked_def context_record_def
  by (intro keep_rules tasks_kept)+

subsection \<open>Growth\<close>

text \<open>\<open>grows i k m\<close>: however \<open>m\<close> ends, it has appended at most \<open>k\<close> tasks, all of them children of \<open>i\<close>, and no two
  tasks share an identifier if none did before.\<close>

definition grown :: "string \<Rightarrow> nat \<Rightarrow> store \<Rightarrow> store \<Rightarrow> bool" where
  "grown i k s t \<longleftrightarrow> (\<exists>new. st_tasks t = st_tasks s @ new \<and> length new \<le> k
     \<and> (\<forall>x\<in>set new. task_parent_task_id x = Some i)
     \<and> (keyed task_id (st_tasks s) \<longrightarrow> keyed task_id (st_tasks t)))"

definition grows :: "string \<Rightarrow> nat \<Rightarrow> 'a op \<Rightarrow> bool" where
  "grows i k m \<longleftrightarrow> (\<forall>s. grown i k s (snd (m s)))"

lemma growsD: "grows i k m \<Longrightarrow> m s = (r, t) \<Longrightarrow> grown i k s t"
  by (metis grows_def snd_conv)

lemma grown_trans:
  assumes "grown i k s t" and "grown i l t u"
  shows "grown i (k + l) s u"
proof -
  obtain new newer where "st_tasks t = st_tasks s @ new" "length new \<le> k" "\<forall>x\<in>set new. task_parent_task_id x = Some i"
    "st_tasks u = st_tasks t @ newer" "length newer \<le> l" "\<forall>x\<in>set newer. task_parent_task_id x = Some i"
    using assms by (auto simp: grown_def)
  moreover have "keyed task_id (st_tasks s) \<longrightarrow> keyed task_id (st_tasks u)"
    using assms unfolding grown_def by blast
  ultimately show ?thesis
    unfolding grown_def by (intro exI [of _ "new @ newer"]) auto
qed

lemma grows_keep: "keeps st_tasks m \<Longrightarrow> grows i 0 m"
  by (simp add: grows_def grown_def keeps_def)

lemma grows_mono: "grows i k m \<Longrightarrow> k \<le> l \<Longrightarrow> grows i l m"
  unfolding grows_def grown_def by (meson order_trans)

lemma grows_still: "keeps st_tasks m \<Longrightarrow> grows i k m"
  using grows_mono [OF grows_keep] by blast

text \<open>The second step may use what the first one returns.\<close>

lemma grows_bnd:
  assumes m: "grows i k m" and next_step: "\<And>s a t. m s = (Inr a, t) \<Longrightarrow> grows i l (f a)"
  shows "grows i (k + l) (bnd m f)"
  unfolding grows_def
proof
  fix s
  obtain r t where run: "m s = (r, t)" by fastforce
  have first: "grown i k s t" using m run by (rule growsD)
  show "grown i (k + l) s (snd (bnd m f s))"
  proof (cases r)
    case (Inl e)
    then have "snd (bnd m f s) = t" by (simp add: bnd_run run)
    then show ?thesis using first by (auto simp: grown_def)
  next
    case (Inr a)
    have "grown i l t (snd (f a t))" using next_step [of s a t] run Inr by (simp add: grows_def)
    then show ?thesis using grown_trans [OF first] by (simp add: bnd_run run Inr)
  qed
qed

lemma grows_after: "keeps st_tasks m \<Longrightarrow> (\<And>a. grows i k (f a)) \<Longrightarrow> grows i k (bnd m f)"
  using grows_bnd [OF grows_keep, of m i k f] by simp

lemma grows_before: "grows i k m \<Longrightarrow> (\<And>a. keeps st_tasks (f a)) \<Longrightarrow> grows i k (bnd m f)"
  using grows_bnd [of i k m 0 f, OF _ grows_keep] by simp

lemma grows_after_result:
  assumes "keeps st_tasks m" and "\<And>s a t. m s = (Inr a, t) \<Longrightarrow> grows i k (f a)"
  shows "grows i k (bnd m f)"
  using grows_bnd [OF grows_keep, OF assms] by simp

lemma grows_collect: "(\<And>x. x \<in> set xs \<Longrightarrow> grows i 1 (f x)) \<Longrightarrow> grows i (length xs) (collect f xs)"
proof (induction xs)
  case Nil
  then show ?case by (auto intro!: grows_keep keep_rules)
next
  case (Cons x xs)
  have "grows i (1 + length xs) (bnd (f x) (\<lambda>y. bnd (collect f xs) (\<lambda>ys. ret (y # ys))))"
    using Cons by (intro grows_bnd grows_before) (auto intro!: keep_rules)
  then show ?case by simp
qed

subsection \<open>The operations\<close>

lemma create_task_grows: "task_parent_task_id x = Some i \<Longrightarrow> grows i 1 (create_task x)"
  by (auto simp: grows_def grown_def create_task_def try_write_def insert_fk_def has_key_iff keyed_def
      split: sum.split)

lemma ensure_plan_linkage_same:
  "ensure_plan_linkage x s = (Inr y, t) \<Longrightarrow> task_parent_task_id y = task_parent_task_id x \<and> task_id y = task_id x"
  by (auto simp: ensure_plan_linkage_def Let_def bnd_Inr_iff ret_run split: if_splits)

lemma add_task_grows: "task_parent_task_id x = Some i \<Longrightarrow> grows i 1 (add_task x)"
proof -
  assume x: "task_parent_task_id x = Some i"
  have new: "grows i 1 (bnd (ensure_plan_linkage x) (\<lambda>y. bnd (create_task y) (\<lambda>_.
      bnd (emit ''task'' (task_id y) ''task_created'' (task_created_payload y)) (\<lambda>_. ret y))))"
  proof (rule grows_after_result)
    fix s y t
    assume "ensure_plan_linkage x s = (Inr y, t)"
    then have "task_parent_task_id y = Some i" using x ensure_plan_linkage_same by simp
    then show "grows i 1 (bnd (create_task y) (\<lambda>_.
        bnd (emit ''task'' (task_id y) ''task_created'' (task_created_payload y)) (\<lambda>_. ret y)))"
      by (intro grows_before create_task_grows keep_rules tasks_kept)
  qed (rule tasks_kept)
  have old: "grows i 1 (ret e)" for e :: Task
    using grows_keep [of "ret e"] by (auto intro: grows_mono keep_rules)
  have "grows i 1 (case e of None \<Rightarrow> bnd (ensure_plan_linkage x) (\<lambda>y. bnd (create_task y) (\<lambda>_.
      bnd (emit ''task'' (task_id y) ''task_created'' (task_created_payload y)) (\<lambda>_. ret y))) | Some e \<Rightarrow> ret e)" for e
    using new old by (cases e) simp_all
  then show ?thesis
    unfolding add_task_def by (intro grows_after keep_rules tasks_kept)
qed

lemma follow_on_grows: "grows i 1 (create_follow_on_task i k a)"
proof -
  have "grows i 1 (create_task_with_policy (follow_on_task_args parent i k a))" for parent
    unfolding create_task_with_policy_def
    by (intro grows_after tasks_kept add_task_grows) (simp add: task_of_args_def Let_def follow_on_task_args_def)
  then have "grows i 1 (case row of None \<Rightarrow> raise e | Some parent \<Rightarrow>
      bnd (create_task_with_policy (follow_on_task_args parent i k a)) (\<lambda>x.
      bnd (emit ''task'' (task_id x) ''follow_on_task_created'' p) (\<lambda>_. ret x)))" for row e p
    by (cases row) (auto intro!: grows_before keep_rules tasks_kept intro: grows_mono [OF grows_keep])
  then show ?thesis
    unfolding create_follow_on_task_def by (intro grows_after tasks_kept)
qed

lemma findings_grow: "grows i (length findings) (create_tasks_from_review_findings i k findings)"
proof -
  let ?indexed = "zip [1..<Suc (length findings)] findings"
  have "grows i 1 (bnd (lift_result r) (create_follow_on_task i k))" for r
    by (intro grows_after follow_on_grows keep_rules)
  then have "grows i (length ?indexed) (collect (\<lambda>(index, finding).
      bnd (lift_result (f index finding)) (create_follow_on_task i k)) ?indexed)" for f
    by (intro grows_collect) (simp add: case_prod_beta)
  moreover have "length ?indexed = length findings" by (simp del: upt_Suc)
  ultimately have many: "grows i (length findings) (collect (\<lambda>(index, finding).
      bnd (lift_result (f index finding)) (create_follow_on_task i k)) ?indexed)" for f
    by (simp only:)
  have body: "grows i (length findings) (bnd (collect (\<lambda>(index, finding).
      bnd (lift_result (f index finding)) (create_follow_on_task i k)) ?indexed)
      (\<lambda>created. bnd (when_do (b created) (update_objective_status j st)) (\<lambda>_. ret created)))" for f b j st
    by (intro grows_before many keep_rules tasks_kept)
  have blocked: "grows i (length findings) (bnd (mark_retry_tree_blocked p x k reason c) (\<lambda>_. ret []))" for p x reason c
    by (intro grows_still keep_rules tasks_kept)
  have none: "grows i (length findings) (raise e :: Task list op)" for e
    by (intro grows_still keep_rules)
  show ?thesis
    unfolding create_tasks_from_review_findings_def
  proof (rule grows_after [OF tasks_kept(12)])
    fix row :: "Task option"
    let ?f = "\<lambda>p x h c. bnd (collect (\<lambda>(index, finding).
        bnd (lift_result (finding_args p i k x h c index finding)) (create_follow_on_task i k)) ?indexed)
        (\<lambda>created. bnd (when_do (opt_str (task_objective_id p) \<noteq> [] \<and> created \<noteq> [])
          (update_objective_status (opt_str (task_objective_id p)) OS_PLANNING)) (\<lambda>_. ret created))"
    have "grows i (length findings) (case b of
        None \<Rightarrow> ?f p x h c
      | Some reason \<Rightarrow> bnd (mark_retry_tree_blocked p x k reason c) (\<lambda>_. ret []))" for b p x h c
      by (cases b) (simp_all only: option.case body blocked)
    then have "grows i (length findings) (bnd (retry_tree_root p) (\<lambda>x.
        bnd (remediation_block_reason p x k findings) (\<lambda>(b, h, c). case b of
          None \<Rightarrow> ?f p x h c
        | Some reason \<Rightarrow> bnd (mark_retry_tree_blocked p x k reason c) (\<lambda>_. ret []))))" for p
      by (intro grows_after tasks_kept) (simp only: case_prod_beta)
    then show "grows i (length findings) (case row of
        None \<Rightarrow> raise (ValueError (''Unknown parent task: '' @ i))
      | Some p \<Rightarrow> bnd (retry_tree_root p) (\<lambda>x. bnd (remediation_block_reason p x k findings)
          (\<lambda>(b, h, c). case b of None \<Rightarrow> ?f p x h c
            | Some reason \<Rightarrow> bnd (mark_retry_tree_blocked p x k reason c) (\<lambda>_. ret []))))"
      by (cases row) (simp_all only: option.case none)
  qed
qed

subsection \<open>The size of a tree\<close>

text \<open>A store is sound when no two tasks share an identifier and every parent is in the store.\<close>

definition sound_tasks :: "Task list \<Rightarrow> bool" where
  "sound_tasks tasks \<longleftrightarrow> keyed task_id tasks
     \<and> (\<forall>x\<in>set tasks. \<forall>i. task_parent_task_id x = Some i \<and> i \<noteq> [] \<longrightarrow> i \<in> task_id ` set tasks)"

definition tree_size :: "Task \<Rightarrow> store \<Rightarrow> nat" where
  "tree_size x s = card {j. (task_id x, j) \<in> (child_rel (project_tasks (task_project_id x) s))\<^sup>+}"

lemma retry_tree_descendants_size:
  "\<exists>ds. retry_tree_descendants x s = (Inr ds, s) \<and> length ds = tree_size x s"
  by (simp add: retry_tree_descendants_def bnd_run project_listing ret_run tree_below_length tree_size_def)

lemma child_rel_append: "child_rel (xs @ ys) = child_rel xs \<union> child_rel ys"
  by (auto simp: child_rel_def)

lemma finite_below: "finite {j. (i, j) \<in> (child_rel tasks)\<^sup>+}"
  by (metis List.finite_set finite_imageI ids_below)

text \<open>Leaves add themselves only.\<close>

lemma below_append:
  assumes leaves: "\<And>x t. x \<in> set new \<Longrightarrow> task_id x \<noteq> [] \<Longrightarrow> t \<in> set old \<union> set new \<Longrightarrow> task_parent_task_id t \<noteq> Some (task_id x)"
  shows "{j. (i, j) \<in> (child_rel (old @ new))\<^sup>+} \<subseteq> {j. (i, j) \<in> (child_rel old)\<^sup>+} \<union> task_id ` set new"
proof clarify
  fix j
  assume "(i, j) \<in> (child_rel (old @ new))\<^sup>+" and "j \<notin> task_id ` set new"
  then show "(i, j) \<in> (child_rel old)\<^sup>+"
  proof (induction rule: trancl_induct)
    case (base j)
    then show ?case by (auto simp: child_rel_append) (auto simp: child_rel_def)
  next
    case (step k j)
    then obtain x where x: "x \<in> set old" "task_id x = j" "task_parent_task_id x = Some k" "k \<noteq> []"
      by (auto simp: child_rel_def)
    then have "k \<notin> task_id ` set new" using leaves by fastforce
    with step x show ?case by (auto simp: child_rel_def intro: trancl_into_trancl)
  qed
qed

lemma tree_size_grown:
  assumes grown: "grown i k s t" and sound: "sound_tasks (st_tasks s)" and i: "i \<in> task_id ` set (st_tasks s)"
  shows "tree_size x t \<le> tree_size x s + k" and "sound_tasks (st_tasks t)"
proof -
  obtain new where new: "st_tasks t = st_tasks s @ new" "length new \<le> k" "\<forall>x\<in>set new. task_parent_task_id x = Some i"
    and keyed: "keyed task_id (st_tasks t)"
    using grown sound by (auto simp: grown_def sound_tasks_def)
  let ?mine = "filter (\<lambda>y. clause (Some (task_project_id x)) (Some (task_project_id y)))"
  have fresh: "task_id y \<notin> task_id ` set (st_tasks s)" if "y \<in> set new" for y
    using keyed that by (auto simp: keyed_def new(1) disjoint_iff)
  have leaves: "task_parent_task_id z \<noteq> Some (task_id y)"
    if "y \<in> set (?mine new)" "task_id y \<noteq> []" "z \<in> set (?mine (st_tasks s)) \<union> set (?mine new)" for y z
  proof
    assume parent: "task_parent_task_id z = Some (task_id y)"
    have "task_id y \<notin> task_id ` set (st_tasks s)" using that(1) by (intro fresh) simp
    then have "i \<noteq> task_id y" using i by blast
    with parent have "z \<notin> set new" using new(3) by auto
    then have "z \<in> set (st_tasks s)" using that(3) by auto
    then show False using parent fresh that(1,2) sound by (auto simp: sound_tasks_def)
  qed
  have "l \<in> task_id ` set (st_tasks t)" if "z \<in> set (st_tasks t)" "task_parent_task_id z = Some l" "l \<noteq> []" for z l
  proof -
    have "l \<in> task_id ` set (st_tasks s)"
    proof (cases "z \<in> set (st_tasks s)")
      case True
      then show ?thesis using sound that(2,3) unfolding sound_tasks_def by blast
    next
      case False
      then have "l = i" using that(1,2) new(1,3) by auto
      then show ?thesis using i by simp
    qed
    then show ?thesis unfolding new(1) by auto
  qed
  then show "sound_tasks (st_tasks t)" using keyed by (simp add: sound_tasks_def)
  have "{j. (task_id x, j) \<in> (child_rel (?mine (st_tasks s) @ ?mine new))\<^sup>+}
      \<subseteq> {j. (task_id x, j) \<in> (child_rel (?mine (st_tasks s)))\<^sup>+} \<union> task_id ` set (?mine new)"
    by (rule below_append) (rule leaves)
  then have "tree_size x t \<le> card ({j. (task_id x, j) \<in> (child_rel (?mine (st_tasks s)))\<^sup>+} \<union> task_id ` set (?mine new))"
    unfolding tree_size_def project_tasks_def new(1) filter_append by (intro card_mono) (simp_all add: finite_below)
  also have "\<dots> \<le> tree_size x s + card (task_id ` set (?mine new))"
    unfolding tree_size_def project_tasks_def by (rule card_Un_le)
  also have "card (task_id ` set (?mine new)) \<le> k"
    using new(2) by (metis card_length length_filter_le length_map list.set_map order_trans)
  finally show "tree_size x t \<le> tree_size x s + k" by simp
qed

subsection \<open>Splitting a failed task\<close>

text \<open>What is changed of a task by its dispositions leaves the tree alone.\<close>

definition skeleton :: "store \<Rightarrow> (string \<times> string option \<times> string) list" where
  "skeleton s = map (\<lambda>x. (task_id x, task_parent_task_id x, task_project_id x)) (st_tasks s)"

lemma skeleton_rel:
  "child_rel (project_tasks p s) =
     {(i, j). i \<noteq> [] \<and> (\<exists>q. clause (Some p) (Some q) \<and> (j, Some i, q) \<in> set (skeleton s))}"
proof (intro equalityI subrelI)
  fix i j
  assume "(i, j) \<in> child_rel (project_tasks p s)"
  then obtain x where "x \<in> set (st_tasks s)" "clause (Some p) (Some (task_project_id x))"
    "task_id x = j" "task_parent_task_id x = Some i" "i \<noteq> []"
    by (auto simp: child_rel_def project_tasks_def)
  then show "(i, j) \<in> {(i, j). i \<noteq> [] \<and> (\<exists>q. clause (Some p) (Some q) \<and> (j, Some i, q) \<in> set (skeleton s))}"
    by (auto simp: skeleton_def intro!: exI [of _ "task_project_id x"] rev_image_eqI)
next
  fix i j
  assume "(i, j) \<in> {(i, j). i \<noteq> [] \<and> (\<exists>q. clause (Some p) (Some q) \<and> (j, Some i, q) \<in> set (skeleton s))}"
  then obtain x where "x \<in> set (st_tasks s)" "clause (Some p) (Some (task_project_id x))"
    "task_id x = j" "task_parent_task_id x = Some i" "i \<noteq> []"
    by (auto simp: skeleton_def)
  then show "(i, j) \<in> child_rel (project_tasks p s)"
    unfolding child_rel_def project_tasks_def by auto
qed

lemma sound_skeleton:
  "sound_tasks (st_tasks s) \<longleftrightarrow> distinct (map fst (skeleton s))
     \<and> (\<forall>(j, p, q)\<in>set (skeleton s). \<forall>i. p = Some i \<and> i \<noteq> [] \<longrightarrow> i \<in> fst ` set (skeleton s))"
  by (simp add: sound_tasks_def keyed_def skeleton_def comp_def image_image)

lemma skeleton_same:
  assumes "skeleton t = skeleton s"
  shows "tree_size x t = tree_size x s" and "sound_tasks (st_tasks t) = sound_tasks (st_tasks s)"
    and "length (st_tasks t) = length (st_tasks s)"
proof -
  show "tree_size x t = tree_size x s" by (simp add: tree_size_def skeleton_rel assms)
  show "sound_tasks (st_tasks t) = sound_tasks (st_tasks s)" by (simp add: sound_skeleton assms)
  show "length (st_tasks t) = length (st_tasks s)" using arg_cong [OF assms, of length] by (simp add: skeleton_def)
qed

lemma keeps_skeleton: "keeps st_tasks m \<Longrightarrow> keeps skeleton m"
  by (simp add: keeps_def skeleton_def)

lemma metadata_keeps_skeleton: "keeps skeleton (update_task_external_metadata i d)"
  unfolding update_task_external_metadata_def
  by (intro keep_rules keeps_writes keeps_skeleton tasks_kept) (simp add: skeleton_def update_where_def)

text \<open>The reasons to block a split only read the store.\<close>

lemma classify_looks [look_rules]:
  "looks (failure_classification x k)" "looks (history_entry x)" "looks (build_retry_history x xs)"
  "looks (retry_tree_descendants x)" "looks (remediation_block_reason p x k fs)"
  unfolding failure_classification_def run_to_classify_def history_entry_def build_retry_history_def
    retry_tree_descendants_def remediation_block_reason_def list_tasks_def get_run_def list_runs_def
    list_evaluations_def list_failure_patterns_def list_decisions_def Let_def
  by (intro look_rules)+

lemma full_tree_is_blocked:
  assumes "REMEDIATION_TREE_CAP < tree_size x s + length findings \<or> REMEDIATION_TREE_CAP \<le> tree_size x s"
  shows "\<exists>reason h c. remediation_block_reason p x k findings s = (Inr (Some reason, h, c), s)"
proof -
  obtain ds where ds: "retry_tree_descendants x s = (Inr ds, s)" "length ds = tree_size x s"
    using retry_tree_descendants_size by blast
  obtain h where h: "build_retry_history x ds s = (Inr h, s)" using looksE [OF classify_looks(3)] .
  obtain c where c: "failure_classification p k s = (Inr c, s)" using looksE [OF classify_looks(1)] .
  show ?thesis
    using assms by (auto simp: remediation_block_reason_def bnd_run ds h c ret_run)
qed

lemma root_run [prog_simps]: "retry_tree_root x s = (Inr (root_of s x), s)"
  by (simp add: retry_tree_root_def root_of_def)

lemma get_task_run: "find_key task_id i (st_tasks s) = Some x \<Longrightarrow> get_task i s = (Inr (Some x), s)"
  by (simp add: get_task_def)

text \<open>The cap, for one call that creates tasks from findings.\<close>

lemma findings_within_cap:
  assumes run: "create_tasks_from_review_findings i k findings s = (r, t)"
    and x: "find_key task_id i (st_tasks s) = Some x" and sound: "sound_tasks (st_tasks s)"
  shows "sound_tasks (st_tasks t)"
    and "st_tasks t = st_tasks s \<or> tree_size (root_of s x) t \<le> REMEDIATION_TREE_CAP"
proof -
  have grown: "grown i (length findings) s t" using growsD [OF findings_grow run] .
  have i: "i \<in> task_id ` set (st_tasks s)" and id_x: "task_id x = i" using find_key_Some [OF x] by auto
  show "sound_tasks (st_tasks t)" by (rule tree_size_grown(2) [OF grown sound i])
  show "st_tasks t = st_tasks s \<or> tree_size (root_of s x) t \<le> REMEDIATION_TREE_CAP"
  proof (cases "tree_size (root_of s x) s + length findings \<le> REMEDIATION_TREE_CAP")
    case True
    then show ?thesis using tree_size_grown(1) [OF grown sound i, of "root_of s x"] by simp
  next
    case False
    then obtain reason h c where blocked:
      "remediation_block_reason x (root_of s x) k findings s = (Inr (Some reason, h, c), s)"
      using full_tree_is_blocked [of "root_of s x" s findings x k] by auto
    have "bnd (mark_retry_tree_blocked x (root_of s x) k reason c) (\<lambda>_. ret []) s = (r, t)"
      using run unfolding create_tasks_from_review_findings_def
        bnd_step [where m = "get_task i", OF get_task_run [OF x]] option.case
        bnd_step [where m = "retry_tree_root x", OF root_run]
        bnd_step [where m = "remediation_block_reason x (root_of s x) k findings", OF blocked] prod.case .
    moreover have "keeps st_tasks (bnd (mark_retry_tree_blocked x (root_of s x) k reason c) (\<lambda>_. ret [] :: Task list op))"
      by (intro keep_rules tasks_kept)
    ultimately have "st_tasks t = st_tasks s" by (rule keeps_run [rotated])
    then show ?thesis by simp
  qed
qed

lemma bnd_last:
  assumes "bnd m f s = (r, t)" and "m s = (r', u)" and "\<And>a. keeps g (f a)"
  shows "g t = g u"
  using assms by (cases r') (auto simp: bnd_run dest: keeps_run)

lemma split_outcome:
  assumes run: "split_failed_task x k findings merged payload s = (r, t)"
    and x: "find_key task_id (task_id x) (st_tasks s) = Some x" and sound: "sound_tasks (st_tasks s)"
  shows "sound_tasks (st_tasks t) \<and> (length (st_tasks t) = length (st_tasks s)
    \<or> tree_size (root_of s x) t \<le> REMEDIATION_TREE_CAP)"
proof -
  obtain b h c where reason: "remediation_block_reason x (root_of s x) k findings s = (Inr (b, h, c), s)"
    using looksE [OF classify_looks(5)] by (metis prod_cases3)
  have go: "(case b of Some reason \<Rightarrow>
         bnd (mark_retry_tree_blocked x (root_of s x) k reason c) (\<lambda>_.
         ret [(''status'', PStr ''blocked''), (''task_id'', PStr (task_id x)), (''reason'', PStr reason)])
     | None \<Rightarrow> bnd (create_tasks_from_review_findings (task_id x) k findings) (\<lambda>created.
         bnd (update_task_external_metadata (task_id x) merged) (\<lambda>_.
         bnd (emit ''task'' (task_id x) ''failed_task_split''
                (payload @ [(''created_task_ids'', str_list (map task_id created))])) (\<lambda>_.
         ret [(''status'', PStr ''split''), (''task_ids'', str_list (map task_id created))])))) s = (r, t)"
    using run unfolding split_failed_task_def bnd_step [where m = "retry_tree_root x", OF root_run]
      bnd_step [where m = "remediation_block_reason x (root_of s x) k findings", OF reason] prod.case .
  show ?thesis
  proof (cases b)
    case (Some reason)
    have "keeps st_tasks (bnd (mark_retry_tree_blocked x (root_of s x) k reason c) (\<lambda>_. ret d))" for d :: pydict
      by (intro keep_rules tasks_kept)
    then have "st_tasks t = st_tasks s" using go unfolding Some option.case by (rule keeps_run)
    then show ?thesis using sound by simp
  next
    case None
    obtain r' u where created: "create_tasks_from_review_findings (task_id x) k findings s = (r', u)" by fastforce
    have same: "skeleton t = skeleton u"
      using go unfolding None option.case
      by (rule bnd_last [where m = "create_tasks_from_review_findings (task_id x) k findings", OF _ created])
        (intro keep_rules metadata_keeps_skeleton keeps_skeleton tasks_kept)
    from findings_within_cap [OF created x sound] show ?thesis
      unfolding skeleton_same [OF same] by auto
  qed
qed

text \<open>C32. The cap on remediation holds. However a call that splits a failed task ends, with an exception
  included, it leaves the store sound, and either it has created no task or the tree of retries the
  task belongs to has at most fifteen descendants. A tree that is full is not
  grown by it.\<close>

theorem split_within_cap:
  assumes run: "apply_failed_task_disposition i disposition a s = (r, t)"
    and split: "py_lower (py_strip disposition) = ''split_into_narrower_tasks''"
    and x: "find_key task_id i (st_tasks s) = Some x" and sound: "sound_tasks (st_tasks s)"
  shows "sound_tasks (st_tasks t)
    \<and> (length (st_tasks t) = length (st_tasks s) \<or> tree_size (root_of s x) t \<le> 15)"
proof (cases "task_status x = TS_FAILED")
  case True
  obtain k merged payload where "split_failed_task x k (opt_list (da_findings a)) merged payload s = (r, t)"
    using run True by (auto simp: apply_failed_task_disposition_def get_task_def list_runs_def x split Let_def bnd_run)
  moreover have "find_key task_id (task_id x) (st_tasks s) = Some x" using x find_key_Some [OF x] by simp
  ultimately show ?thesis using split_outcome [OF _ _ sound] unfolding REMEDIATION_TREE_CAP_def by blast
next
  case False
  then have "t = s"
    using run by (auto simp: apply_failed_task_disposition_def get_task_def x Let_def bnd_run raise_run)
  with sound show ?thesis by simp
qed

end
