(* ===== verification/Task_Creation.thy ===== *)
theory Task_Creation
  imports Retry_Tree
begin

section \<open>What creating a task promises\<close>

text \<open>
  \<open>create_task_with_policy\<close> either finds the task of an external reference or adds one pending task, with
  its plan, its amendment and the non-negotiables of its objective.
\<close>

text \<open>The plan of a new task of an objective.\<close>

definition planned :: "Task \<Rightarrow> store \<Rightarrow> bool" where
  "planned x t \<longleftrightarrow> (\<exists>p\<in>set (st_plans t). task_plan_id x = Some (plan_id p)
     \<and> plan_objective_id p = opt_str (task_objective_id x) \<and> plan_approval_status p = ''approved''
     \<and> task_mermaid_node_id x = Some (canonical_node_id p) \<and> plan_mermaid_node_id p = task_mermaid_node_id x)"

lemma canonical_node_id_cong: "plan_id p = plan_id q \<Longrightarrow> canonical_node_id p = canonical_node_id q"
  by (simp add: canonical_node_id_def)

lemma auto_plan_fields:
  "plan_id (auto_plan x i fs c u) = i" "plan_objective_id (auto_plan x i fs c u) = opt_str (task_objective_id x)"
  "plan_approval_status (auto_plan x i fs c u) = ''approved''"
  "plan_mermaid_node_id (auto_plan x i fs c u) = Some (canonical_node_id (auto_plan x i fs c u))"
  by (simp_all add: auto_plan_def Let_def canonical_node_id_def)

lemma ensure_plan_linkage_links:
  assumes "ensure_plan_linkage x s = (Inr y, t)"
  shows "\<exists>p m. y = x\<lparr>task_plan_id := p, task_mermaid_node_id := m\<rparr>"
    and "opt_str (task_objective_id x) \<noteq> [] \<Longrightarrow> opt_str (task_plan_id x) = [] \<Longrightarrow> planned y t"
proof -
  have "y = x \<or> (\<exists>p m. y = x\<lparr>task_plan_id := p, task_mermaid_node_id := m\<rparr>) \<or> (\<exists>m. y = x\<lparr>task_mermaid_node_id := m\<rparr>)"
    using assms by (auto simp: ensure_plan_linkage_def Let_def bnd_Inr_iff ret_run split: if_splits)
  moreover have "x = x\<lparr>task_plan_id := task_plan_id x, task_mermaid_node_id := task_mermaid_node_id x\<rparr>"
    and "x\<lparr>task_mermaid_node_id := m\<rparr> = x\<lparr>task_plan_id := task_plan_id x, task_mermaid_node_id := m\<rparr>" for m
    by simp_all
  ultimately show "\<exists>p m. y = x\<lparr>task_plan_id := p, task_mermaid_node_id := m\<rparr>" by metis
  assume "opt_str (task_objective_id x) \<noteq> []" "opt_str (task_plan_id x) = []"
  with assms obtain i fs c u s1 where
    plan: "create_plan (auto_plan x i fs c u) s1 = (Inr (), t)"
    and y: "y = x\<lparr>task_plan_id := Some i, task_mermaid_node_id := Some (canonical_node_id (auto_plan x i fs c u))\<rparr>"
    by (auto simp: ensure_plan_linkage_def Let_def bnd_Inr_iff ret_run auto_plan_fields)
  let ?p = "(auto_plan x i fs c u)\<lparr>plan_slice := json_column (plan_slice (auto_plan x i fs c u)),
      plan_atomicity_assessment := json_column (plan_atomicity_assessment (auto_plan x i fs c u))\<rparr>"
  have "?p \<in> set (st_plans t)"
    using plan by (auto simp: create_plan_def try_write_run insert_fk_def split: if_splits)
  moreover have "canonical_node_id ?p = canonical_node_id (auto_plan x i fs c u)"
    by (rule canonical_node_id_cong) simp
  ultimately show "planned y t" unfolding planned_def y
    by (intro bexI [of _ ?p]) (simp_all add: auto_plan_fields)
qed

text \<open>The row of a task: its JSON columns come back sorted.\<close>

definition stored :: "Task \<Rightarrow> Task" where
  "stored x = x\<lparr>task_external_ref_metadata := json_column (task_external_ref_metadata x),
     task_scope := json_column (task_scope x), task_attempt_metadata := json_column (task_attempt_metadata x)\<rparr>"

definition referenced :: "Task \<Rightarrow> bool" where
  "referenced x \<longleftrightarrow> opt_str (task_external_ref_type x) \<noteq> [] \<and> opt_str (task_external_ref_id x) \<noteq> []
     \<and> opt_str (task_parent_task_id x) = [] \<and> opt_str (task_source_run_id x) = []"

lemma find_listed: "List.find P (order_by f xs) = Some x \<Longrightarrow> x \<in> set xs \<and> P x"
  by (metis find_Some_iff nth_mem set_order_by)

lemma add_task_outcome:
  assumes run: "add_task x s = (Inr y, t)"
  shows "referenced x \<and> t = s \<and> y \<in> set (st_tasks s)
      \<and> task_external_ref_type y = Some (opt_str (task_external_ref_type x))
      \<and> task_external_ref_id y = Some (opt_str (task_external_ref_id x))
    \<or> st_tasks t = st_tasks s @ [stored y] \<and> task_id y \<notin> task_id ` set (st_tasks s)
      \<and> (\<exists>p m. y = x\<lparr>task_plan_id := p, task_mermaid_node_id := m\<rparr>)
      \<and> (opt_str (task_objective_id x) \<noteq> [] \<and> opt_str (task_plan_id x) = [] \<longrightarrow> planned y t)
      \<and> (referenced x \<longrightarrow> (\<forall>z\<in>set (st_tasks s). task_external_ref_type z \<noteq> Some (opt_str (task_external_ref_type x))
           \<or> task_external_ref_id z \<noteq> Some (opt_str (task_external_ref_id x))))"
proof (cases "referenced x \<and> (\<exists>e. get_task_by_external_ref (opt_str (task_external_ref_type x)) (opt_str (task_external_ref_id x)) s = (Inr (Some e), s))")
  case True
  then have "t = s" and "get_task_by_external_ref (opt_str (task_external_ref_type x)) (opt_str (task_external_ref_id x)) s = (Inr (Some y), s)"
    using run by (auto simp: add_task_def referenced_def bnd_run ret_run)
  with True show ?thesis by (auto simp: get_task_by_external_ref_def dest: find_listed)
next
  case False
  then have none: "(if referenced x
          then get_task_by_external_ref (opt_str (task_external_ref_type x)) (opt_str (task_external_ref_id x))
          else ret None) s = (Inr None, s)"
    by (auto simp: get_task_by_external_ref_def ret_run)
  have "bnd (ensure_plan_linkage x) (\<lambda>y. bnd (create_task y) (\<lambda>_.
      bnd (emit ''task'' (task_id y) ''task_created'' (task_created_payload y)) (\<lambda>_. ret y))) s = (Inr y, t)"
    using run none by (simp add: add_task_def bnd_run [where m = "if b then m else n" for b m n] flip: referenced_def)
  then obtain s1 s2 where link: "ensure_plan_linkage x s = (Inr y, s1)" and row: "create_task y s1 = (Inr (), s2)"
    and event: "emit ''task'' (task_id y) ''task_created'' (task_created_payload y) s2 = (Inr (), t)"
    by (auto simp: bnd_Inr_iff ret_run)
  have kept: "st_tasks s1 = st_tasks s" "st_tasks t = st_tasks s2"
    using keeps_run [OF service_keeps_tasks(2) link] keeps_run [OF basic_keep_tasks(3) event] by simp_all
  have plans: "st_plans t = st_plans s1"
    using row event by (auto simp: create_task_def try_write_run emit_def create_event_def bnd_Inr_iff utc_now_def
        new_id_def rbind_Inr_iff split: sum.splits)
  have "st_tasks s2 = st_tasks s1 @ [stored y]" and "task_id y \<notin> task_id ` set (st_tasks s1)"
    using row by (auto simp: create_task_def try_write_run insert_fk_def has_key_iff stored_def split: if_splits)
  moreover have "referenced x \<longrightarrow> (\<forall>z\<in>set (st_tasks s). task_external_ref_type z \<noteq> Some (opt_str (task_external_ref_type x))
           \<or> task_external_ref_id z \<noteq> Some (opt_str (task_external_ref_id x)))"
    using none by (auto simp: get_task_by_external_ref_def find_None_iff)
  ultimately show ?thesis
    using kept ensure_plan_linkage_links [OF link] plans by (auto simp: planned_def)
qed

subsection \<open>Creation under the policy\<close>

text \<open>The scope a new task gets: the caller's, with the non-negotiables of the newest intent model of the
  objective unless the caller names some.\<close>

definition newest_intent :: "string \<Rightarrow> store \<Rightarrow> IntentModel option" where
  "newest_intent j s = last_option (order_by im_version (order_by im_created_at
     (filter (\<lambda>im. im_objective_id im = j) (st_intent_models s))))"

definition bound_scope :: "task_args \<Rightarrow> store \<Rightarrow> pydict" where
  "bound_scope a s =
     (case ta_objective_id a of
        None \<Rightarrow> opt_list (ta_scope a)
      | Some j \<Rightarrow>
          (case newest_intent j s of
             Some im \<Rightarrow>
               if im_non_negotiables im \<noteq> [] \<and> \<not> dict_has (opt_list (ta_scope a)) ''non_negotiables''
               then dict_set ''non_negotiables''
                 (str_list (filter (\<lambda>n. n \<noteq> []) (map py_strip (im_non_negotiables im)))) (opt_list (ta_scope a))
               else opt_list (ta_scope a)
           | None \<Rightarrow> opt_list (ta_scope a)))"

definition own_objective :: "task_args \<Rightarrow> store \<Rightarrow> bool" where
  "own_objective a s \<longleftrightarrow> (\<forall>j. ta_objective_id a = Some j \<longrightarrow>
     (\<exists>ob. find_key objective_id j (st_objectives s) = Some ob \<and> objective_project_id ob = ta_project_id a))"

lemma latest_intent_run: "latest_intent_model j s = (Inr (newest_intent j s), s)"
  by (simp add: latest_intent_model_def list_intent_models_def newest_intent_def bnd_run ret_run)

lemma frozen_scope_run:
  "\<exists>sc. frozen_scope j scope s = (Inr sc, s) \<and> opt_list sc =
     (case newest_intent j s of
        Some im \<Rightarrow> if im_non_negotiables im \<noteq> [] \<and> \<not> dict_has (opt_list scope) ''non_negotiables''
          then dict_set ''non_negotiables''
            (str_list (filter (\<lambda>n. n \<noteq> []) (map py_strip (im_non_negotiables im)))) (opt_list scope)
          else opt_list scope
      | None \<Rightarrow> opt_list scope)"
proof -
  have none: "\<not> dict_has (opt_list scope) k" if "scope = None" for k
    using that by (simp add: opt_list_def dict_has_def)
  show ?thesis
    by (auto simp: frozen_scope_def bnd_run latest_intent_run ret_run none opt_list_def split: option.split)
qed

lemma linked_scope_run:
  assumes "linked_scope a s = (Inr sc, t)"
  shows "t = s" and "opt_list sc = bound_scope a s" and "own_objective a s"
proof -
  have "t = s \<and> opt_list sc = bound_scope a s \<and> own_objective a s"
  proof (cases "ta_objective_id a")
    case None
    then show ?thesis using assms by (simp add: linked_scope_def ret_run bound_scope_def own_objective_def)
  next
    case (Some j)
    then obtain ob where ob: "find_key objective_id j (st_objectives s) = Some ob" "objective_project_id ob = ta_project_id a"
      and scope: "frozen_scope j (ta_scope a) s = (Inr sc, t)"
      using assms by (auto simp: linked_scope_def bnd_run get_objective_def raise_run split: option.splits if_splits)
    then show ?thesis
      using frozen_scope_run [of j "ta_scope a" s] Some by (auto simp: bound_scope_def own_objective_def)
  qed
  then show "t = s" and "opt_list sc = bound_scope a s" and "own_objective a s" by blast+
qed

definition args_referenced :: "task_args \<Rightarrow> bool" where
  "args_referenced a \<longleftrightarrow> opt_str (ta_external_ref_type a) \<noteq> [] \<and> opt_str (ta_external_ref_id a) \<noteq> []
     \<and> opt_str (ta_parent_task_id a) = [] \<and> opt_str (ta_source_run_id a) = []"

definition same_reference :: "task_args \<Rightarrow> Task \<Rightarrow> bool" where
  "same_reference a x \<longleftrightarrow> task_external_ref_type x = Some (opt_str (ta_external_ref_type a))
     \<and> task_external_ref_id x = Some (opt_str (ta_external_ref_id a))"

lemma task_of_args_fields:
  "referenced (task_of_args a sc i c u) \<longleftrightarrow> args_referenced a"
  "task_external_ref_type (task_of_args a sc i c u) = ta_external_ref_type a"
  "task_external_ref_id (task_of_args a sc i c u) = ta_external_ref_id a"
  "task_objective_id (task_of_args a sc i c u) = ta_objective_id a"
  "task_plan_id (task_of_args a sc i c u) = ta_plan_id a"
  "task_project_id (task_of_args a sc i c u) = ta_project_id a"
  "task_scope (task_of_args a sc i c u) = sc"
  "task_status (task_of_args a sc i c u) = TS_PENDING"
  "task_parent_task_id (task_of_args a sc i c u) = ta_parent_task_id a"
  "ta_strategy a \<in> set HIGH_RISK_TASK_STRATEGIES \<Longrightarrow>
     dict_has (task_external_ref_metadata (task_of_args a sc i c u)) ''task_amendment''"
  by (simp_all add: task_of_args_def Let_def referenced_def args_referenced_def apply_task_amendment_def)

text \<open>What the call has done: found a task, or added one.\<close>

definition reused :: "task_args \<Rightarrow> Task \<Rightarrow> store \<Rightarrow> store \<Rightarrow> bool" where
  "reused a x s t \<longleftrightarrow> args_referenced a \<and> same_reference a x \<and> x \<in> set (st_tasks s) \<and> st_tasks t = st_tasks s"

definition added :: "task_args \<Rightarrow> Task \<Rightarrow> store \<Rightarrow> store \<Rightarrow> bool" where
  "added a x s t \<longleftrightarrow> st_tasks t = st_tasks s @ [stored x] \<and> task_id x \<notin> task_id ` set (st_tasks s)
     \<and> task_status x = TS_PENDING \<and> task_project_id x = ta_project_id a \<and> task_objective_id x = ta_objective_id a
     \<and> task_external_ref_type x = ta_external_ref_type a \<and> task_external_ref_id x = ta_external_ref_id a
     \<and> task_scope x = bound_scope a s
     \<and> (ta_strategy a \<in> set HIGH_RISK_TASK_STRATEGIES \<longrightarrow> dict_has (task_external_ref_metadata x) ''task_amendment'')
     \<and> (opt_str (ta_objective_id a) \<noteq> [] \<and> opt_str (ta_plan_id a) = [] \<longrightarrow> planned x t)
     \<and> (args_referenced a \<longrightarrow> (\<forall>z\<in>set (st_tasks s). \<not> same_reference a z))"

lemma creation_outcome:
  assumes run: "create_task_with_policy a s = (Inr x, t)"
  shows "own_objective a s \<and> (reused a x s t \<or> added a x s t)"
proof -
  obtain sc i c u s1 s2 where scope: "linked_scope a s = (Inr sc, s1)" and tasks: "st_tasks s2 = st_tasks s1"
    and go: "add_task (task_of_args a (opt_list sc) i c u) s2 = (Inr x, t)"
    using run unfolding create_task_with_policy_def
  proof (elim bnd_InrE, goal_cases)
    case (1 sc s1 i s2 c s3 u s4)
    then have "st_tasks s4 = st_tasks s1" by (auto simp: new_id_def utc_now_def)
    then show ?case using 1 by blast
  qed
  note sc = linked_scope_run [OF scope]
  have "reused a x s t \<or> added a x s t"
    using add_task_outcome [OF go] tasks
  proof (elim disjE conjE exE)
    assume "referenced (task_of_args a (opt_list sc) i c u)" "t = s2" "x \<in> set (st_tasks s2)"
      "task_external_ref_type x = Some (opt_str (task_external_ref_type (task_of_args a (opt_list sc) i c u)))"
      "task_external_ref_id x = Some (opt_str (task_external_ref_id (task_of_args a (opt_list sc) i c u)))"
    then have "reused a x s t"
      using tasks sc(1) by (simp add: reused_def same_reference_def task_of_args_fields)
    then show ?thesis ..
  next
    fix p m
    assume new: "st_tasks t = st_tasks s2 @ [stored x]" "task_id x \<notin> task_id ` set (st_tasks s2)"
      "x = task_of_args a (opt_list sc) i c u\<lparr>task_plan_id := p, task_mermaid_node_id := m\<rparr>"
      "opt_str (task_objective_id (task_of_args a (opt_list sc) i c u)) \<noteq> []
        \<and> opt_str (task_plan_id (task_of_args a (opt_list sc) i c u)) = [] \<longrightarrow> planned x t"
      "referenced (task_of_args a (opt_list sc) i c u) \<longrightarrow> (\<forall>z\<in>set (st_tasks s2).
        task_external_ref_type z \<noteq> Some (opt_str (task_external_ref_type (task_of_args a (opt_list sc) i c u)))
        \<or> task_external_ref_id z \<noteq> Some (opt_str (task_external_ref_id (task_of_args a (opt_list sc) i c u))))"
    from new(4,5) have "opt_str (ta_objective_id a) \<noteq> [] \<and> opt_str (ta_plan_id a) = [] \<longrightarrow> planned x t"
      "args_referenced a \<longrightarrow> (\<forall>z\<in>set (st_tasks s2). \<not> same_reference a z)"
      by (simp_all add: task_of_args_fields same_reference_def)
    then have "added a x s t"
      using new(1-3) tasks sc(1,2) by (simp add: added_def task_of_args_fields)
    then show ?thesis ..
  qed
  with sc(3) show ?thesis by blast
qed

text \<open>C29. What creating a task does. A call that returns was for an objective of the same project, if for
  any. Either it returns the task that already has the external reference and adds none; or it adds
  one pending task under a new identifier. The new task's scope carries the non-negotiables of the
  newest intent model of its objective, unless the caller names its own; a risky strategy is amended;
  and a task of an objective that comes without a plan has one, approved and of the same objective,
  whose canonical node in the diagrams is the task's node.\<close>

theorem creating_a_task:
  assumes "create_task_with_policy a s = (Inr x, t)"
  shows "own_objective a s \<and> (reused a x s t \<or> added a x s t)"
  using assms by (rule creation_outcome)


subsection \<open>A concrete import\<close>

definition import_args :: task_args where
  "import_args = (task_args_default ''p1'' ''Title'' ''Do it'' 100 None None (Some ''github_issue'') (Some ''7''))
     \<lparr>ta_objective_id := Some ''o1''\<rparr>"

definition import_store :: store where
  "import_store = (empty_store 5)\<lparr>
     st_projects := [\<lparr>project_id = ''p1'', project_name = ''P'', project_description = [],
       project_adapter_name = ''generic'', project_workspace_policy = WP_ISOLATED_REQUIRED,
       project_promotion_mode = PM_BRANCH_AND_PR, project_repo_provider = None, project_repo_name = None,
       project_base_branch = ''main'', project_max_concurrent_tasks = 1, project_created_at = 0\<rparr>],
     st_objectives := [Task_Props.demo_objective]\<rparr>"

lemmas creation_eval = create_task_with_policy_def linked_scope_def get_objective_def bnd_run ret_run new_id_def
  utc_now_def frozen_scope_def latest_intent_run newest_intent_def last_option_def add_task_def task_of_args_def Let_def
  apply_task_amendment_def HIGH_RISK_TASK_STRATEGIES_def get_task_by_external_ref_def ensure_plan_linkage_def
  lift_result_run py_or_def create_plan_def try_write_run insert_fk_def has_key_def create_task_def emit_def
  create_event_def insert_row_def auto_plan_def opt_list_def opt_str_def order_by_def or_default_def dict_get_def
  task_args_default_def ref_ok_def

lemma import_runs: "\<exists>x t. create_task_with_policy import_args import_store = (Inr x, t)"
  by (simp add: creation_eval import_args_def import_store_def Task_Props.demo_objective_def empty_store_def)

lemma creating_a_task_witness:
  "\<exists>x t. create_task_with_policy import_args import_store = (Inr x, t) \<and> added import_args x import_store t"
proof -
  obtain x t where run: "create_task_with_policy import_args import_store = (Inr x, t)" using import_runs by blast
  have "\<not> reused import_args x import_store t"
    by (simp add: reused_def import_store_def empty_store_def)
  with creating_a_task [OF run] run show ?thesis by blast
qed

lemma import_twice:
  "\<exists>x t y u. create_task_with_policy import_args import_store = (Inr x, t)
     \<and> create_task_with_policy import_args t = (Inr y, u)"
  by (simp add: creation_eval import_args_def import_store_def Task_Props.demo_objective_def empty_store_def)


end
