(* ===== verification/Disposition_Props.thy ===== *)
theory Disposition_Props
  imports Retry_Tree Run_Props
begin

section \<open>What a disposition leaves of a failed task\<close>

text \<open>
  The four dispositions of \<open>apply_failed_task_disposition\<close> and the row of the task they leave. A failed task
  stops counting for its objective only when it is waived: one that was split or handed to the
  operator stays failed, and keeps its objective from being resolved.
\<close>

subsection \<open>The row of a task\<close>

definition row_of :: "string \<Rightarrow> store \<Rightarrow> Task option" where
  "row_of i s = find_key task_id i (st_tasks s)"

lemma keeps_row: "keeps st_tasks m \<Longrightarrow> keeps (row_of i) m"
  by (simp add: keeps_def row_of_def)

lemma grown_row: "grown j k s t \<Longrightarrow> row_of i s = Some x \<Longrightarrow> row_of i t = Some x"
  by (auto simp: grown_def row_of_def find_key_append)

lemma row_update:
  "row_of i (s\<lparr>st_tasks := update_where (\<lambda>x. task_id x = i) f (st_tasks s)\<rparr>) = map_option f (row_of i s)"
  if "\<And>x. task_id (f x) = task_id x"
  by (cases "row_of i s") (auto simp: row_of_def find_key_update that dest: find_key_Some)

lemma metadata_row:
  assumes "update_task_external_metadata i md s = (r, t)"
  shows "r = Inr ()" and "\<exists>now. row_of i t = map_option (\<lambda>x. x\<lparr>task_external_ref_metadata := json_column md,
      task_updated_at := now\<rparr>) (row_of i s)"
  using assms row_update [of "\<lambda>x. x\<lparr>task_external_ref_metadata := json_column md, task_updated_at := st_clock s (st_ticks s)\<rparr>"
      i "s\<lparr>st_ticks := Suc (st_ticks s)\<rparr>"]
  by (auto simp: update_task_external_metadata_def bnd_run utc_now_def row_of_def)

text \<open>The row after a step that returned and the steps that follow it.\<close>

lemma row_after:
  assumes "bnd m f s = (Inr b, u)" and "\<And>a. keeps st_tasks (f a)"
  obtains a t where "m s = (Inr a, t)" and "row_of i u = row_of i t"
proof -
  obtain a t where "m s = (Inr a, t)" and "f a t = (Inr b, u)" using assms(1) by (rule bnd_InrE)
  then show thesis using that keeps_run [OF keeps_row [OF assms(2)]] by metis
qed

lemma retry_row:
  assumes "retry_as_is x am merged payload s = (Inr d, t)"
  shows "\<exists>y. row_of (task_id x) t = Some y \<and> task_status y = TS_PENDING"
  using assms unfolding retry_as_is_def
proof (elim bnd_InrE, goal_cases)
  case (1 a1 s1 a2 s2 a3 s3 a4 s4 a5 s5)
  have "keeps (row_of (task_id x)) (when_do (opt_str (task_objective_id x) \<noteq> [])
      (update_objective_status (opt_str (task_objective_id x)) OS_PLANNING))"
    and "keeps (row_of (task_id x)) (emit ''task'' (task_id x) ''failed_task_requeued'' payload)"
    by (intro keeps_row keep_rules tasks_kept)+
  from keeps_run [OF this(1)] keeps_run [OF this(2)] 1(4,5)
  have "row_of (task_id x) s5 = row_of (task_id x) s3" by simp
  moreover have "t = s5" using 1(6) by (simp add: ret_run)
  ultimately show ?case using update_task_status_sets [OF 1(3)] by (auto simp: status_of_def row_of_def)
qed

text \<open>The three that leave the task failed mark it in its metadata.\<close>

definition marked :: "string \<Rightarrow> Task \<Rightarrow> pydict \<Rightarrow> store \<Rightarrow> bool" where
  "marked i x merged t \<longleftrightarrow> (\<exists>now. row_of i t =
     Some (x\<lparr>task_external_ref_metadata := json_column merged, task_updated_at := now\<rparr>))"

lemma marking:
  assumes "bnd (update_task_external_metadata i md) f s = (Inr b, t)" and "row_of i s = Some x"
    and "\<And>a. keeps st_tasks (f a)"
  shows "marked i x md t"
proof -
  obtain a u where "update_task_external_metadata i md s = (Inr a, u)" "row_of i t = row_of i u"
    using assms(1,3) by (rule row_after)
  with metadata_row(2) assms(2) show ?thesis by (fastforce simp: marked_def)
qed

lemma waive_row:
  assumes "waive_failed_task x why merged payload s = (Inr d, t)" and "row_of (task_id x) s = Some x"
  shows "marked (task_id x) x merged t"
  using assms unfolding waive_failed_task_def context_record_def
  by (rule marking) (intro keep_rules tasks_kept)

lemma operator_row:
  assumes "hand_to_operator x k title objective merged payload s = (Inr d, t)" and "row_of (task_id x) s = Some x"
  shows "marked (task_id x) x merged t"
  using assms(1) unfolding hand_to_operator_def
proof (elim bnd_InrE [where m = "create_follow_on_task i k f" for i f])
  fix y u
  assume created: "create_follow_on_task (task_id x) k
      ((follow_on_default (or_default (opt_str title) (''Manually implement: '' @ task_title x))
          (or_default (opt_str objective) (task_objective x)))
       \<lparr>fa_strategy := Some ''operator_ergonomics'', fa_validation_mode := Some ''lightweight_operator'',
        fa_overrides := Some [(''failed_task_disposition'', PDict payload), (''operator_owned'', PBool True)]\<rparr>) s
      = (Inr y, u)"
    and rest: "bnd (update_task_external_metadata (task_id x) merged) (\<lambda>_.
      bnd (when_do (opt_str (task_objective_id x) \<noteq> [])
            (update_objective_status (opt_str (task_objective_id x)) OS_PLANNING)) (\<lambda>_.
      bnd (emit ''task'' (task_id x) ''failed_task_manualized''
            (payload @ [(''operator_task_id'', PStr (task_id y))])) (\<lambda>_.
      ret [(''status'', PStr ''manual''), (''task_id'', PStr (task_id y))]))) u = (Inr d, t)"
  have "row_of (task_id x) u = Some x" using grown_row [OF growsD [OF follow_on_grows created] assms(2)] .
  with rest show ?thesis by (rule marking) (intro keep_rules tasks_kept)
qed

lemma split_row:
  assumes run: "split_failed_task x k findings merged payload s = (Inr d, t)" and x: "row_of (task_id x) s = Some x"
  shows "row_of (task_id x) t = Some x \<or> marked (task_id x) x merged t"
proof -
  obtain b h c where reason: "remediation_block_reason x (root_of s x) k findings s = (Inr (b, h, c), s)"
    using looksE [OF classify_looks(5)] by (metis prod_cases3)
  note go = run [unfolded split_failed_task_def bnd_step [where m = "retry_tree_root x", OF root_run]
    bnd_step [where m = "remediation_block_reason x (root_of s x) k findings", OF reason] prod.case]
  show ?thesis
  proof (cases b)
    case (Some r)
    have "keeps st_tasks (bnd (mark_retry_tree_blocked x (root_of s x) k r c) (\<lambda>_. ret d'))" for d' :: pydict
      by (intro keep_rules tasks_kept)
    then have "row_of (task_id x) t = row_of (task_id x) s"
      using go unfolding Some option.case by (intro keeps_run [OF keeps_row])
    with x show ?thesis by simp
  next
    case None
    obtain created u where made: "create_tasks_from_review_findings (task_id x) k findings s = (Inr created, u)"
      and rest: "bnd (update_task_external_metadata (task_id x) merged) (\<lambda>_.
         bnd (emit ''task'' (task_id x) ''failed_task_split''
                (payload @ [(''created_task_ids'', str_list (map task_id created))])) (\<lambda>_.
         ret [(''status'', PStr ''split''), (''task_ids'', str_list (map task_id created))])) u = (Inr d, t)"
      using go unfolding None option.case by (rule bnd_InrE)
    have "row_of (task_id x) u = Some x" using grown_row [OF growsD [OF findings_grow made] x] .
    with rest have "marked (task_id x) x merged t" by (rule marking) (intro keep_rules tasks_kept)
    then show ?thesis ..
  qed
qed

subsection \<open>Which dispositions stop a task from counting\<close>

definition waived :: "Task \<Rightarrow> bool" where
  "waived y \<longleftrightarrow> task_ignored_for_objective_phase (task_status y) (task_external_ref_metadata y)"

lemma dict_entry_column:
  assumes "distinct (map fst d)"
  shows "dict_entry (json_column d) k = map_option json_column (dict_entry d k)"
proof -
  have "sort_json (PDict e) = PDict (json_column e)" for e by (simp add: json_column_def)
  then show ?thesis
    by (cases "dict_get d k") (simp_all add: dict_entry_def dict_get_json_column [OF assms] del: sort_json.simps(2))
qed

lemma marked_waived:
  assumes "marked i x (dict_set ''failed_task_disposition'' (PDict (disposition_payload kind why k)) md) t"
    and keys: "distinct (map fst md)" and none: "workflow_state_disposition md = None"
    and failed: "task_status x = TS_FAILED"
  shows "\<exists>y. row_of i t = Some y \<and> task_status y = TS_FAILED
    \<and> task_external_ref_type y = task_external_ref_type x \<and> (waived y \<longleftrightarrow> py_strip kind = ''waive_obsolete'')"
proof -
  let ?md = "dict_set ''failed_task_disposition'' (PDict (disposition_payload kind why k)) md"
  have dist: "distinct (map fst ?md)" by (rule distinct_dict_set [OF keys])
  have "dict_entry ?md ''failed_task_disposition'' = Some (disposition_payload kind why k)"
    by (simp add: dict_entry_def)
  moreover have "dict_entry ?md ''workflow_state_disposition'' = None"
    using none by (simp add: dict_entry_def workflow_state_disposition_def)
  moreover have "dict_get (json_column (disposition_payload kind why k)) ''kind'' = PStr kind"
    by (subst dict_get_json_column) (simp_all add: disposition_payload_def)
  ultimately have "task_ignored_for_objective_phase TS_FAILED (json_column ?md) \<longleftrightarrow> py_strip kind = ''waive_obsolete''"
    by (simp add: task_ignored_for_objective_phase_def workflow_state_disposition_def dict_entry_column [OF dist])
  with assms(1) failed show ?thesis by (auto simp: marked_def waived_def)
qed

lemma unwaived_blocks:
  assumes "y \<in> set rows" and "task_status y = TS_FAILED" and "\<not> waived y"
    and "py_strip (opt_str (task_external_ref_type y)) \<noteq> ''objective_review''"
  shows "derived_status rows \<noteq> OS_RESOLVED"
proof -
  have "TS_FAILED \<in> set (effective_statuses rows)"
    using assms by (force simp: effective_statuses_def waived_def task_superseded_by_completed_peer_def Let_def)
  then have "effective_statuses rows \<noteq> []" and "\<not> list_all (\<lambda>st. st = TS_COMPLETED) (effective_statuses rows)"
    by (auto simp: list_all_iff)
  then show ?thesis by (simp add: derived_status_def Let_def)
qed

text \<open>The kinds of a call that returns.\<close>

definition kind_of :: "string \<Rightarrow> string" where
  "kind_of disposition = py_lower (py_strip disposition)"

lemma disposition_dispatch:
  assumes run: "apply_failed_task_disposition i disposition a s = (Inr result, t)" and x: "row_of i s = Some x"
  obtains k payload merged where "task_status x = TS_FAILED" and "task_id x = i"
    and "payload = disposition_payload (kind_of disposition) (da_rationale a) k"
    and "merged = dict_set ''failed_task_disposition'' (PDict payload) (task_external_ref_metadata x)"
    and "kind_of disposition = ''retry_as_is'' \<and> retry_as_is x (opt_list (da_attempt_metadata a)) merged payload s = (Inr result, t)
      \<or> kind_of disposition = ''split_into_narrower_tasks''
        \<and> split_failed_task x k (opt_list (da_findings a)) merged payload s = (Inr result, t)
      \<or> kind_of disposition = ''allow_manual_operator_implementation''
        \<and> hand_to_operator x k (da_operator_title a) (da_operator_objective a) merged payload s = (Inr result, t)
      \<or> kind_of disposition = ''waive_obsolete''
        \<and> waive_failed_task x (da_rationale a) merged payload s = (Inr result, t)"
proof -
  have get: "get_task i s = (Inr (Some x), s)" and id_x: "task_id x = i"
    using x by (auto simp: row_of_def get_task_run dest: find_key_Some)
  have failed: "task_status x = TS_FAILED"
    using run by (auto simp: apply_failed_task_disposition_def bnd_run get Let_def raise_run split: if_splits)
  show thesis
    using run failed
    by (intro that [OF failed id_x refl refl])
      (auto simp: apply_failed_task_disposition_def bnd_run get Let_def list_runs_def kind_of_def raise_run split: if_splits)
qed

text \<open>C33. What a disposition leaves. A call that returns was for a failed task and one of the four
  dispositions. \<open>retry_as_is\<close> leaves the task pending. \<open>waive_obsolete\<close> leaves it failed and out of the
  account of its objective. The other two leave it failed and in the account: however the tasks it was
  split into end, as long as its row stays as it is no set of tasks that contains it makes an objective
  resolved (unless it is a remediation task, which a completed peer supersedes).\<close>

theorem disposition_table:
  assumes run: "apply_failed_task_disposition i disposition a s = (Inr result, t)"
    and x: "row_of i s = Some x" and keys: "distinct (map fst (task_external_ref_metadata x))"
    and none: "workflow_state_disposition (task_external_ref_metadata x) = None" and counts: "\<not> waived x"
    and other: "py_strip (opt_str (task_external_ref_type x)) \<noteq> ''objective_review''"
  shows "task_status x = TS_FAILED
    \<and> (let kind = kind_of disposition in \<exists>y. row_of i t = Some y \<and>
        (kind = ''retry_as_is'' \<and> task_status y = TS_PENDING
         \<or> kind = ''waive_obsolete'' \<and> task_status y = TS_FAILED \<and> waived y
         \<or> kind \<in> set [''split_into_narrower_tasks'', ''allow_manual_operator_implementation'']
           \<and> task_status y = TS_FAILED \<and> \<not> waived y
           \<and> (\<forall>rows. y \<in> set rows \<longrightarrow> derived_status rows \<noteq> OS_RESOLVED)))"
proof -
  obtain k payload merged where failed: "task_status x = TS_FAILED" and id_x: "task_id x = i"
    and payload: "payload = disposition_payload (kind_of disposition) (da_rationale a) k"
    and merged: "merged = dict_set ''failed_task_disposition'' (PDict payload) (task_external_ref_metadata x)"
    and calls: "kind_of disposition = ''retry_as_is'' \<and> retry_as_is x (opt_list (da_attempt_metadata a)) merged payload s = (Inr result, t)
      \<or> kind_of disposition = ''split_into_narrower_tasks''
        \<and> split_failed_task x k (opt_list (da_findings a)) merged payload s = (Inr result, t)
      \<or> kind_of disposition = ''allow_manual_operator_implementation''
        \<and> hand_to_operator x k (da_operator_title a) (da_operator_objective a) merged payload s = (Inr result, t)
      \<or> kind_of disposition = ''waive_obsolete''
        \<and> waive_failed_task x (da_rationale a) merged payload s = (Inr result, t)"
    using run x by (rule disposition_dispatch)
  have row: "row_of (task_id x) s = Some x" using x id_x by simp
  have mark: "\<exists>y. row_of i t = Some y \<and> task_status y = TS_FAILED
      \<and> (waived y \<longleftrightarrow> py_strip (kind_of disposition) = ''waive_obsolete'')
      \<and> (\<not> waived y \<longrightarrow> (\<forall>rows. y \<in> set rows \<longrightarrow> derived_status rows \<noteq> OS_RESOLVED))"
    if "marked (task_id x) x merged t"
    using marked_waived [OF that [unfolded merged payload] keys none failed] unwaived_blocks other id_x by metis
  have strips: "py_strip ''split_into_narrower_tasks'' = ''split_into_narrower_tasks''"
    "py_strip ''allow_manual_operator_implementation'' = ''allow_manual_operator_implementation''"
    "py_strip ''waive_obsolete'' = ''waive_obsolete''"
    by (simp_all add: py_strip_def is_space_def)
  from calls show ?thesis
  proof (elim disjE conjE)
    assume "kind_of disposition = ''retry_as_is''"
      and "retry_as_is x (opt_list (da_attempt_metadata a)) merged payload s = (Inr result, t)"
    with retry_row failed id_x show ?thesis by (fastforce simp: Let_def)
  next
    assume kind: "kind_of disposition = ''split_into_narrower_tasks''"
      and "split_failed_task x k (opt_list (da_findings a)) merged payload s = (Inr result, t)"
    from split_row [OF this(2) row] show ?thesis
    proof
      assume "row_of (task_id x) t = Some x"
      then show ?thesis
        using kind failed counts unwaived_blocks [OF _ failed counts other] id_x by (auto simp: Let_def)
    qed (use mark strips kind failed in \<open>auto simp: Let_def\<close>)
  next
    assume kind: "kind_of disposition = ''allow_manual_operator_implementation''"
      and "hand_to_operator x k (da_operator_title a) (da_operator_objective a) merged payload s = (Inr result, t)"
    from mark [OF operator_row [OF this(2) row]] show ?thesis
      using kind failed strips by (auto simp: Let_def)
  next
    assume kind: "kind_of disposition = ''waive_obsolete''"
      and "waive_failed_task x (da_rationale a) merged payload s = (Inr result, t)"
    from mark [OF waive_row [OF this(2) row]] show ?thesis
      using kind failed strips by (auto simp: Let_def)
  qed
qed

subsection \<open>Concrete calls\<close>

definition demo_failed :: store where
  "demo_failed = (empty_store 5)\<lparr>st_tasks :=
     [demo_task\<lparr>task_status := TS_FAILED, task_objective_id := None\<rparr>,
      demo_task\<lparr>task_id := ''t2'', task_parent_task_id := Some ''t1'', task_objective_id := None\<rparr>]\<rparr>"

definition demo_disposition :: disposition_args where
  "demo_disposition = \<lparr>da_rationale = ''done elsewhere'', da_source_run_id = None, da_findings = None,
     da_operator_title = None, da_operator_objective = None, da_attempt_metadata = None\<rparr>"

lemma retry_tree_exact_witness:
  "\<exists>top_task ds. retry_tree_root (hd (st_tasks demo_failed)) demo_failed = (Inr top_task, demo_failed)
     \<and> retry_tree_descendants (hd (st_tasks demo_failed)) demo_failed = (Inr ds, demo_failed) \<and> distinct ds"
proof -
  have "keyed task_id (st_tasks demo_failed)" "hd (st_tasks demo_failed) \<in> set (st_tasks demo_failed)"
    by (simp_all add: demo_failed_def keyed_def demo_task_def)
  from retry_tree_exact [OF this] show ?thesis by metis
qed

lemma split_within_cap_witness:
  "\<exists>r t. apply_failed_task_disposition ''t1'' '' split_into_narrower_tasks'' demo_disposition demo_failed = (r, t)
     \<and> sound_tasks (st_tasks t)"
proof -
  obtain r t where run: "apply_failed_task_disposition ''t1'' '' split_into_narrower_tasks'' demo_disposition demo_failed = (r, t)"
    by fastforce
  have kind: "py_lower (py_strip '' split_into_narrower_tasks'') = ''split_into_narrower_tasks''"
    by (simp add: plain_string_simps)
  have "find_key task_id ''t1'' (st_tasks demo_failed) = Some (hd (st_tasks demo_failed))"
    and "sound_tasks (st_tasks demo_failed)"
    by (simp_all add: demo_failed_def demo_task_def sound_tasks_def keyed_def)
  from split_within_cap [OF run kind this] run show ?thesis by blast
qed

lemma disposition_table_witness:
  "\<exists>d t y. apply_failed_task_disposition ''t1'' ''waive_obsolete '' demo_disposition demo_failed = (Inr d, t)
     \<and> row_of ''t1'' t = Some y \<and> task_status y = TS_FAILED"
proof -
  have kind: "py_lower (py_strip ''waive_obsolete '') = ''waive_obsolete''"
    by (simp add: plain_string_simps)
  have "\<exists>d t. apply_failed_task_disposition ''t1'' ''waive_obsolete '' demo_disposition demo_failed = (Inr d, t)"
    by (simp add: apply_failed_task_disposition_def get_task_def bnd_run demo_failed_def demo_task_def kind
        list_runs_def demo_disposition_def waive_failed_task_def update_task_external_metadata_def utc_now_def
        emit_def new_id_def create_event_def try_write_run insert_row_def has_key_def ret_run empty_store_def
        Let_def opt_str_def del: py_strip_def)
  then obtain d t where run: "apply_failed_task_disposition ''t1'' ''waive_obsolete '' demo_disposition demo_failed = (Inr d, t)"
    by blast
  have "row_of ''t1'' demo_failed = Some (hd (st_tasks demo_failed))"
    by (simp add: row_of_def demo_failed_def demo_task_def)
  from disposition_table [OF run this] have "\<exists>y. row_of ''t1'' t = Some y \<and> task_status y = TS_FAILED"
    using kind by (auto simp: demo_failed_def demo_task_def workflow_state_disposition_def dict_entry_def waived_def
        task_ignored_for_objective_phase_def opt_str_def py_strip_def Let_def kind_of_def)
  with run show ?thesis by blast
qed

end
