(* ===== verification/Validators.thy ===== *)
theory Validators
  imports Task_Service
begin

section \<open>The validators of a promotion\<close>

text \<open>
  \<open>validation/base.py\<close>, \<open>validation/validators.py\<close> and \<open>validation/registry.py\<close>: the deterministic checks of the
  artifacts of a run before it is promoted. The files are an argument: whether a path exists, and what
  reading it as JSON gives. Reading can fail with an error the code catches, or with another one, such
  as a file that is not UTF-8, which it does not.
\<close>

subsection \<open>Issues and results\<close>

record ValidationIssue =
  vi_code :: string
  vi_summary :: string
  vi_details :: pydict
  vi_follow_on_title :: pyval
  vi_follow_on_objective :: pyval

record ValidationResult =
  vr_validator :: string
  vr_ok :: bool
  vr_summary :: string
  vr_issues :: "ValidationIssue list"

datatype json_file = Loaded pyval | Unreadable string | Undecodable exn

record files =
  fs_exists :: "string \<Rightarrow> bool"
  fs_json :: "string \<Rightarrow> json_file"

type_synonym validator = "files \<Rightarrow> Task \<Rightarrow> Artifact list \<Rightarrow> exn + ValidationResult"

definition passing :: "string \<Rightarrow> string \<Rightarrow> ValidationResult" where
  "passing name summary = \<lparr>vr_validator = name, vr_ok = True, vr_summary = summary, vr_issues = []\<rparr>"

definition failing :: "string \<Rightarrow> string \<Rightarrow> ValidationIssue list \<Rightarrow> ValidationResult" where
  "failing name summary issues = \<lparr>vr_validator = name, vr_ok = False, vr_summary = summary, vr_issues = issues\<rparr>"

definition issue :: "string \<Rightarrow> string \<Rightarrow> pydict \<Rightarrow> string \<Rightarrow> string \<Rightarrow> ValidationIssue" where
  "issue code summary details title objective =
     \<lparr>vi_code = code, vi_summary = summary, vi_details = details,
      vi_follow_on_title = PStr title, vi_follow_on_objective = PStr objective\<rparr>"

subsection \<open>Reading the reports\<close>

definition unreadable_issue :: "Artifact \<Rightarrow> string \<Rightarrow> ValidationIssue" where
  "unreadable_issue a err = issue ''report_unreadable'' ''Report artifact is unreadable or invalid JSON.''
     [(''path'', PStr (artifact_path a)), (''error'', PStr err)]
     (''Repair invalid report for '' @ artifact_run_id a)
     ''Generate a valid structured report artifact for promotion review.''"

fun report_payloads :: "files \<Rightarrow> Artifact list \<Rightarrow> exn + pydict list \<times> ValidationIssue list" where
  "report_payloads fs [] = Inr ([], [])"
| "report_payloads fs (a # rest) =
     (if artifact_kind a \<noteq> ''report'' then report_payloads fs rest
      else case fs_json fs (artifact_path a) of
             Undecodable e \<Rightarrow> Inl e
           | Unreadable err \<Rightarrow>
               rbind (report_payloads fs rest) (\<lambda>(payloads, issues). Inr (payloads, unreadable_issue a err # issues))
           | Loaded v \<Rightarrow>
               rbind (report_payloads fs rest) (\<lambda>(payloads, issues).
               Inr (case v of PDict d \<Rightarrow> d # payloads | _ \<Rightarrow> payloads, issues)))"

text \<open>The texts of the true elements of a list under a key, over all reports.\<close>

definition listed :: "string \<Rightarrow> pydict list \<Rightarrow> string list" where
  "listed k payloads = concat (map (\<lambda>p. case dict_get p k of PList xs \<Rightarrow> map py_str (filter truthy xs) | _ \<Rightarrow> []) payloads)"

definition checks :: "string \<Rightarrow> pydict list \<Rightarrow> pydict list" where
  "checks k payloads = concat (map (\<lambda>p. case dict_get p k of PDict d \<Rightarrow> [d] | _ \<Rightarrow> []) payloads)"

definition any_passed :: "pydict list \<Rightarrow> bool" where
  "any_passed cs = list_ex (\<lambda>c. truthy (dict_get c ''passed'')) cs"

text \<open>The validators that read the reports fail at once when one of them is unreadable.\<close>

definition with_reports :: "string \<Rightarrow> string \<Rightarrow> files \<Rightarrow> Artifact list \<Rightarrow> (pydict list \<Rightarrow> ValidationResult) \<Rightarrow> exn + ValidationResult" where
  "with_reports name what fs artifacts check =
     rbind (report_payloads fs artifacts) (\<lambda>(payloads, issues).
     Inr (if issues \<noteq> [] then failing name (''Unable to read report artifacts for '' @ what) issues
          else check payloads))"

subsection \<open>The validators\<close>

definition RequiredArtifactsValidator :: validator where
  "RequiredArtifactsValidator fs task artifacts =
     (let missing = sort (remdups (filter (\<lambda>k. k \<notin> artifact_kind ` set artifacts) (task_required_artifacts task))) in
      Inr (if missing = [] then passing ''required_artifacts'' ''Required artifacts are present.''
        else failing ''required_artifacts'' ''Required artifacts are missing.''
          [issue ''missing_required_artifacts'' ''Promotion candidate is missing required artifacts.''
             [(''missing'', str_list missing)] (''Restore missing artifacts for '' @ task_title task)
             (''Produce the missing required artifacts: '' @ join '', '' missing @ ''.'')]))"

definition ArtifactPathValidator :: validator where
  "ArtifactPathValidator fs task artifacts =
     (let missing = map artifact_path (filter (\<lambda>a. \<not> fs_exists fs (artifact_path a)) artifacts) in
      Inr (if missing = [] then passing ''artifact_paths'' ''Artifact files exist on disk.''
        else failing ''artifact_paths'' ''Artifact files are missing on disk.''
          [issue ''artifact_path_missing'' ''Stored artifact path no longer exists.''
             [(''missing_paths'', str_list missing)] (''Repair persisted artifacts for '' @ task_title task)
             ''Regenerate the missing persisted artifacts so promotion can validate them.'']))"

definition blocked_report_issues :: "Task \<Rightarrow> pydict list \<Rightarrow> ValidationIssue list" where
  "blocked_report_issues task payloads =
     map (\<lambda>p. \<lparr>vi_code = ''report_marked_blocked'',
           vi_summary = py_str (if dict_has p ''promotion_block_reason'' then dict_get p ''promotion_block_reason''
             else PStr ''Report marked promotion blocked.''),
           vi_details = p,
           vi_follow_on_title = py_or (dict_get p ''follow_on_title'')
             (PStr (''Resolve promotion blocker for '' @ task_title task)),
           vi_follow_on_objective = py_or (dict_get p ''follow_on_objective'')
             (PStr ''Address the blocker recorded in the report artifact and regenerate the candidate.'')\<rparr>)
       (filter (\<lambda>p. dict_get p ''promotion_blocked'' = PBool True) payloads)"

definition ReportArtifactValidator :: validator where
  "ReportArtifactValidator fs task artifacts =
     (if filter (\<lambda>a. artifact_kind a = ''report'') artifacts = []
      then Inr (passing ''report_artifact'' ''No report artifact available for structured validation.'')
      else rbind (report_payloads fs artifacts) (\<lambda>(payloads, issues).
        let issues = issues @ blocked_report_issues task payloads in
        Inr (if issues = [] then passing ''report_artifact'' ''Report artifacts passed structured validation.''
          else failing ''report_artifact'' ''Report artifacts failed structured validation.'' issues)))"

definition ChangedFilesValidator :: validator where
  "ChangedFilesValidator fs task artifacts =
     with_reports ''changed_files'' ''changed-file validation.'' fs artifacts (\<lambda>payloads.
       if listed ''changed_files'' payloads \<noteq> []
       then passing ''changed_files'' ''Structured report records changed-file evidence.''
       else failing ''changed_files'' ''Promotion candidate does not record changed-file evidence.''
         [issue ''missing_changed_files'' ''Structured promotion evidence does not show any changed files.''
            [(''task_id'', PStr (task_id task))] (''Record changed files for '' @ task_title task)
            ''Regenerate the candidate and include the changed source and test files in the structured report.''])"

definition CompileCheckValidator :: validator where
  "CompileCheckValidator fs task artifacts =
     with_reports ''compile_check'' ''compile validation.'' fs artifacts (\<lambda>payloads.
       let compile_checks = checks ''compile_check'' payloads in
       if any_passed compile_checks then passing ''compile_check'' ''Compile check passed.''
       else failing ''compile_check'' ''Promotion candidate lacks a passing compile check.''
         [issue ''compile_check_failed'' ''Structured promotion evidence does not contain a passing compile check.''
            [(''compile_checks'', PList (map PDict compile_checks))] (''Repair compile check for '' @ task_title task)
            ''Regenerate the candidate and ensure the code compiles cleanly before promotion.''])"

definition TestEvidenceValidator :: validator where
  "TestEvidenceValidator fs task artifacts =
     with_reports ''test_evidence'' ''test validation.'' fs artifacts (\<lambda>payloads.
       let test_files = listed ''test_files'' payloads; test_checks = checks ''test_check'' payloads in
       if test_files \<noteq> [] \<and> any_passed test_checks
       then passing ''test_evidence'' ''Structured test evidence passed.''
       else failing ''test_evidence'' ''Promotion candidate lacks passing test evidence.''
         [issue ''missing_test_evidence'' ''Structured promotion evidence does not include passing tests and named test files.''
            [(''test_files'', str_list test_files), (''test_checks'', PList (map PDict test_checks))]
            (''Add deterministic test evidence for '' @ task_title task)
            ''Regenerate the candidate with explicit test files and a passing deterministic test run in the structured report.''])"

definition ValidationProfileEvidenceValidator :: validator where
  "ValidationProfileEvidenceValidator fs task artifacts =
     with_reports ''validation_profile'' ''validation-profile checks.'' fs artifacts (\<lambda>payloads.
       let profiles = map (\<lambda>p. py_str (dict_get p ''validation_profile''))
             (filter (\<lambda>p. dict_get p ''validation_profile'' \<noteq> PNone) payloads) in
       if profiles = []
       then passing ''validation_profile''
         ''No report-level validation profile was declared; using task profile as authoritative.''
       else if task_validation_profile task \<in> set profiles
       then passing ''validation_profile'' ''Structured report matches the task validation profile.''
       else failing ''validation_profile'' ''Structured report does not match the task validation profile.''
         [issue ''validation_profile_mismatch''
            ''The report-level validation profile does not match the task profile.''
            [(''task_validation_profile'', PStr (task_validation_profile task)),
             (''report_profiles'', str_list (sort (remdups profiles)))]
            (''Align validation profile for '' @ task_title task)
            ''Regenerate the candidate using the correct validation profile and evidence contract.''])"

definition PythonTestFileValidator :: validator where
  "PythonTestFileValidator fs task artifacts =
     (if task_validation_profile task \<noteq> ''python''
      then Inr (passing ''python_test_files'' ''Task is not using the python profile.'')
      else with_reports ''python_test_files'' ''python test validation.'' fs artifacts (\<lambda>payloads.
        let test_files = listed ''test_files'' payloads in
        if test_files \<noteq> [] \<and> list_all (ends_with ''.py'') test_files
        then passing ''python_test_files'' ''Python profile test files look correct.''
        else failing ''python_test_files'' ''Python profile requires .py test files.''
          [issue ''python_test_file_mismatch'' ''Python validation profile requires Python test files.''
             [(''test_files'', str_list test_files)] (''Add Python test evidence for '' @ task_title task)
             ''Regenerate the candidate with Python test files that match the python validation profile.'']))"

definition ends_with_any :: "string list \<Rightarrow> string \<Rightarrow> bool" where
  "ends_with_any suffixes s = list_ex (\<lambda>x. ends_with x s) suffixes"

definition JavaScriptTestFileValidator :: validator where
  "JavaScriptTestFileValidator fs task artifacts =
     (if task_validation_profile task \<noteq> ''javascript''
      then Inr (passing ''javascript_test_files'' ''Task is not using the javascript profile.'')
      else with_reports ''javascript_test_files'' ''javascript test validation.'' fs artifacts (\<lambda>payloads.
        let test_files = listed ''test_files'' payloads in
        if test_files \<noteq> [] \<and> list_all (ends_with_any [''.js'', ''.jsx'', ''.ts'', ''.tsx'']) test_files
        then passing ''javascript_test_files'' ''JavaScript profile test files look correct.''
        else failing ''javascript_test_files'' ''JavaScript profile requires JS/TS test files.''
          [issue ''javascript_test_file_mismatch'' ''JavaScript validation profile requires JS/TS test files.''
             [(''test_files'', str_list test_files)] (''Add JavaScript test evidence for '' @ task_title task)
             ''Regenerate the candidate with JS or TS test files that match the javascript validation profile.'']))"

definition TerraformValidationValidator :: validator where
  "TerraformValidationValidator fs task artifacts =
     (if task_validation_profile task \<noteq> ''terraform''
      then Inr (passing ''terraform_validate'' ''Task is not using the terraform profile.'')
      else with_reports ''terraform_validate'' ''terraform validation.'' fs artifacts (\<lambda>payloads.
        let changed_files = listed ''changed_files'' payloads;
            validate_checks = checks ''terraform_validate'' payloads in
        if changed_files \<noteq> [] \<and> list_all (ends_with_any [''.tf'', ''.tfvars'', ''.hcl'']) changed_files
           \<and> any_passed validate_checks
        then passing ''terraform_validate'' ''Terraform validation evidence passed.''
        else failing ''terraform_validate''
          ''Terraform profile requires Terraform file changes and a passing terraform validation check.''
          [issue ''terraform_validation_missing''
             ''Terraform validation profile requires .tf/.tfvars/.hcl changes and a passing terraform validate result.''
             [(''changed_files'', str_list changed_files), (''terraform_validate'', PList (map PDict validate_checks))]
             (''Add Terraform validation evidence for '' @ task_title task)
             ''Regenerate the candidate with Terraform file changes and a passing terraform validation result in the structured report.'']))"

text \<open>\<open>list.insert(-1, x)\<close> puts \<open>x\<close> before the last element.\<close>

definition insert_before_last :: "'a \<Rightarrow> 'a list \<Rightarrow> 'a list" where
  "insert_before_last x xs = (if xs = [] then [x] else butlast xs @ [x, last xs])"

definition validators_for_profile :: "string \<Rightarrow> validator list" where
  "validators_for_profile profile =
     (let vs = [RequiredArtifactsValidator, ArtifactPathValidator, ValidationProfileEvidenceValidator,
            ChangedFilesValidator, CompileCheckValidator, ReportArtifactValidator];
          vs = (if profile = ''python'' then insert_before_last TestEvidenceValidator vs @ [PythonTestFileValidator] else vs);
          vs = (if profile = ''javascript'' then insert_before_last TestEvidenceValidator vs @ [JavaScriptTestFileValidator] else vs);
          vs = (if profile = ''terraform'' then vs @ [TerraformValidationValidator] else vs)
      in if profile = ''generic'' then insert_before_last TestEvidenceValidator vs else vs)"

text \<open>The registry: the built-in factory and what has been registered after it.\<close>

type_synonym validator_registry = "(string \<Rightarrow> validator list) list"

definition new_registry :: validator_registry where
  "new_registry = [validators_for_profile]"

definition register_profile_factory :: "(string \<Rightarrow> validator list) \<Rightarrow> validator_registry \<Rightarrow> validator_registry" where
  "register_profile_factory factory registry = registry @ [factory]"

definition registry_validators :: "validator_registry \<Rightarrow> string \<Rightarrow> validator list" where
  "registry_validators registry profile = concat (map (\<lambda>factory. factory profile) registry)"

definition run_validators :: "validator list \<Rightarrow> files \<Rightarrow> Task \<Rightarrow> Artifact list \<Rightarrow> exn + ValidationResult list" where
  "run_validators vs fs task artifacts = map_result (\<lambda>v. v fs task artifacts) vs"

definition all_issues :: "ValidationResult list \<Rightarrow> ValidationIssue list" where
  "all_issues results = concat (map vr_issues results)"

subsection \<open>What the validators accept\<close>

text \<open>The evidence a candidate has to show, without the order of the checks.\<close>

definition readable :: "files \<Rightarrow> Artifact list \<Rightarrow> bool" where
  "readable fs artifacts \<longleftrightarrow> (\<forall>a\<in>set artifacts. artifact_kind a = ''report'' \<longrightarrow> (\<exists>v. fs_json fs (artifact_path a) = Loaded v))"

definition decodable :: "files \<Rightarrow> Artifact list \<Rightarrow> bool" where
  "decodable fs artifacts \<longleftrightarrow> (\<forall>a\<in>set artifacts. artifact_kind a = ''report'' \<longrightarrow> (\<forall>e. fs_json fs (artifact_path a) \<noteq> Undecodable e))"

definition reports :: "files \<Rightarrow> Artifact list \<Rightarrow> pydict list" where
  "reports fs artifacts = concat (map (\<lambda>a. case fs_json fs (artifact_path a) of Loaded (PDict d) \<Rightarrow> [d] | _ \<Rightarrow> [])
     (filter (\<lambda>a. artifact_kind a = ''report'') artifacts))"

definition tested :: "pydict list \<Rightarrow> bool" where
  "tested ps \<longleftrightarrow> listed ''test_files'' ps \<noteq> [] \<and> any_passed (checks ''test_check'' ps)"

definition profile_evidence :: "string \<Rightarrow> pydict list \<Rightarrow> bool" where
  "profile_evidence profile ps \<longleftrightarrow>
     (profile \<in> {''python'', ''javascript'', ''generic''} \<longrightarrow> tested ps)
     \<and> (profile = ''python'' \<longrightarrow> (\<forall>f\<in>set (listed ''test_files'' ps). ends_with ''.py'' f))
     \<and> (profile = ''javascript'' \<longrightarrow> (\<forall>f\<in>set (listed ''test_files'' ps).
          \<exists>x\<in>{''.js'', ''.jsx'', ''.ts'', ''.tsx''}. ends_with x f))
     \<and> (profile = ''terraform'' \<longrightarrow> any_passed (checks ''terraform_validate'' ps)
          \<and> (\<forall>f\<in>set (listed ''changed_files'' ps). \<exists>x\<in>{''.tf'', ''.tfvars'', ''.hcl''}. ends_with x f))"

text \<open>A report that names a profile names the task's, at least one of them does.\<close>

definition profile_matches :: "Task \<Rightarrow> pydict list \<Rightarrow> bool" where
  "profile_matches task ps \<longleftrightarrow> (\<forall>p\<in>set ps. dict_get p ''validation_profile'' = PNone)
     \<or> (\<exists>p\<in>set ps. dict_get p ''validation_profile'' \<noteq> PNone
          \<and> py_str (dict_get p ''validation_profile'') = task_validation_profile task)"

definition evidence_complete :: "files \<Rightarrow> Task \<Rightarrow> Artifact list \<Rightarrow> bool" where
  "evidence_complete fs task artifacts \<longleftrightarrow>
     (let ps = reports fs artifacts in
      set (task_required_artifacts task) \<subseteq> artifact_kind ` set artifacts
      \<and> (\<forall>a\<in>set artifacts. fs_exists fs (artifact_path a))
      \<and> readable fs artifacts
      \<and> (\<forall>p\<in>set ps. dict_get p ''promotion_blocked'' \<noteq> PBool True)
      \<and> profile_matches task ps
      \<and> listed ''changed_files'' ps \<noteq> []
      \<and> any_passed (checks ''compile_check'' ps)
      \<and> profile_evidence (task_validation_profile task) ps)"

lemma report_payloads_run:
  assumes "decodable fs artifacts"
  shows "\<exists>issues. report_payloads fs artifacts = Inr (reports fs artifacts, issues) \<and> (issues = [] \<longleftrightarrow> readable fs artifacts)"
  using assms
proof (induction artifacts)
  case Nil
  then show ?case by (simp add: reports_def readable_def)
next
  case (Cons a rest)
  then have "decodable fs rest" by (simp add: decodable_def)
  with Cons.IH obtain issues where rest: "report_payloads fs rest = Inr (reports fs rest, issues)"
    "issues = [] \<longleftrightarrow> readable fs rest" by blast
  show ?case
  proof (cases "artifact_kind a = ''report''")
    case False
    with rest show ?thesis by (auto simp: reports_def readable_def)
  next
    case True
    with Cons.prems have "\<forall>e. fs_json fs (artifact_path a) \<noteq> Undecodable e" by (simp add: decodable_def)
    with True rest show ?thesis
      by (cases "fs_json fs (artifact_path a)") (auto simp: reports_def readable_def split: pyval.split)
  qed
qed

text \<open>What a validator promises: on files that can be decoded it returns, and its issues are empty exactly
  when its evidence is there.\<close>

definition agree :: "validator list \<Rightarrow> files \<Rightarrow> Task \<Rightarrow> Artifact list \<Rightarrow> bool \<Rightarrow> bool" where
  "agree vs fs task artifacts P \<longleftrightarrow> (\<exists>rs. run_validators vs fs task artifacts = Inr rs \<and> (all_issues rs = [] \<longleftrightarrow> P))"

locale evidence_check =
  fixes v :: validator and accepts :: "files \<Rightarrow> Task \<Rightarrow> Artifact list \<Rightarrow> bool"
  assumes returns_iff: "decodable fs artifacts \<Longrightarrow>
    \<exists>r. v fs task artifacts = Inr r \<and> (vr_issues r = [] \<longleftrightarrow> accepts fs task artifacts) \<and> (vr_ok r \<longleftrightarrow> vr_issues r = [])"
begin

lemma accepted: "decodable fs artifacts \<Longrightarrow> accepts fs task artifacts \<Longrightarrow>
    \<exists>r. v fs task artifacts = Inr r \<and> vr_issues r = []"
  using returns_iff by metis

lemma first_of:
  assumes "decodable fs artifacts" and "agree vs fs task artifacts P"
  shows "agree (v # vs) fs task artifacts (accepts fs task artifacts \<and> P)"
  using returns_iff [OF assms(1), of task] assms(2) by (auto simp: agree_def run_validators_def all_issues_def)

end

lemma reports_check:
  assumes "\<And>fs task artifacts. v fs task artifacts = with_reports name what fs artifacts (check task)"
    and "\<And>task ps. vr_issues (check task ps) = [] \<longleftrightarrow> good task ps"
    and "\<And>task ps. vr_ok (check task ps) \<longleftrightarrow> vr_issues (check task ps) = []"
  shows "evidence_check v (\<lambda>fs task artifacts. readable fs artifacts \<and> good task (reports fs artifacts))"
proof
  fix fs artifacts task
  assume "decodable fs artifacts"
  then show "\<exists>r. v fs task artifacts = Inr r
      \<and> (vr_issues r = [] \<longleftrightarrow> readable fs artifacts \<and> good task (reports fs artifacts)) \<and> (vr_ok r \<longleftrightarrow> vr_issues r = [])"
    using report_payloads_run [of fs artifacts] assms(2,3) by (auto simp: assms(1) with_reports_def failing_def)
qed

lemma guarded_check:
  assumes "evidence_check w accepts"
    and "\<And>fs task artifacts. v fs task artifacts
      = (if task_validation_profile task \<noteq> q then Inr (passing name summary) else w fs task artifacts)"
  shows "evidence_check v (\<lambda>fs task artifacts. task_validation_profile task = q \<longrightarrow> accepts fs task artifacts)"
  using assms by (auto simp: evidence_check_def passing_def)

lemma sort_remdups_Nil: "sort (remdups (xs :: 'a::linorder list)) = [] \<longleftrightarrow> xs = []"
  by (metis remdups_eq_nil_iff set_empty set_sort)

lemmas verdicts = passing_def failing_def issue_def

interpretation required_check: evidence_check RequiredArtifactsValidator
  "\<lambda>fs task artifacts. set (task_required_artifacts task) \<subseteq> artifact_kind ` set artifacts"
  by unfold_locales
    (auto simp: RequiredArtifactsValidator_def Let_def verdicts sort_remdups_Nil filter_empty_conv)

interpretation path_check: evidence_check ArtifactPathValidator
  "\<lambda>fs task artifacts. \<forall>a\<in>set artifacts. fs_exists fs (artifact_path a)"
  by unfold_locales (auto simp: ArtifactPathValidator_def Let_def verdicts filter_empty_conv)

interpretation profile_check: evidence_check ValidationProfileEvidenceValidator
  "\<lambda>fs task artifacts. readable fs artifacts \<and> profile_matches task (reports fs artifacts)"
  by (rule reports_check, rule ValidationProfileEvidenceValidator_def)
    (auto simp: verdicts profile_matches_def filter_empty_conv Let_def image_iff)

interpretation changed_check: evidence_check ChangedFilesValidator
  "\<lambda>fs task artifacts. readable fs artifacts \<and> listed ''changed_files'' (reports fs artifacts) \<noteq> []"
  by (rule reports_check, rule ChangedFilesValidator_def) (auto simp: verdicts)

interpretation compile_check: evidence_check CompileCheckValidator
  "\<lambda>fs task artifacts. readable fs artifacts \<and> any_passed (checks ''compile_check'' (reports fs artifacts))"
  by (rule reports_check, rule CompileCheckValidator_def) (auto simp: verdicts Let_def)

interpretation test_check: evidence_check TestEvidenceValidator
  "\<lambda>fs task artifacts. readable fs artifacts \<and> tested (reports fs artifacts)"
  by (rule reports_check, rule TestEvidenceValidator_def) (auto simp: verdicts tested_def Let_def)

lemma no_reports: "filter (\<lambda>a. artifact_kind a = ''report'') artifacts = [] \<Longrightarrow>
    readable fs artifacts \<and> reports fs artifacts = []"
  by (auto simp: readable_def reports_def filter_empty_conv)

interpretation blocked_check: evidence_check ReportArtifactValidator
  "\<lambda>fs task artifacts. readable fs artifacts
     \<and> (\<forall>p\<in>set (reports fs artifacts). dict_get p ''promotion_blocked'' \<noteq> PBool True)"
proof
  fix fs :: files and artifacts and task :: Task
  assume "decodable fs artifacts"
  then obtain issues where "report_payloads fs artifacts = Inr (reports fs artifacts, issues)"
    "issues = [] \<longleftrightarrow> readable fs artifacts" using report_payloads_run by blast
  then show "\<exists>r. ReportArtifactValidator fs task artifacts = Inr r
      \<and> (vr_issues r = [] \<longleftrightarrow> readable fs artifacts
          \<and> (\<forall>p\<in>set (reports fs artifacts). dict_get p ''promotion_blocked'' \<noteq> PBool True))
      \<and> (vr_ok r \<longleftrightarrow> vr_issues r = [])"
    using no_reports [of artifacts fs]
    by (auto simp: ReportArtifactValidator_def verdicts blocked_report_issues_def filter_empty_conv Let_def)
qed

definition python_tests :: "pydict list \<Rightarrow> bool" where
  "python_tests ps \<longleftrightarrow> listed ''test_files'' ps \<noteq> [] \<and> (\<forall>f\<in>set (listed ''test_files'' ps). ends_with ''.py'' f)"

definition javascript_tests :: "pydict list \<Rightarrow> bool" where
  "javascript_tests ps \<longleftrightarrow> listed ''test_files'' ps \<noteq> []
     \<and> (\<forall>f\<in>set (listed ''test_files'' ps). ends_with_any [''.js'', ''.jsx'', ''.ts'', ''.tsx''] f)"

definition terraform_changes :: "pydict list \<Rightarrow> bool" where
  "terraform_changes ps \<longleftrightarrow> listed ''changed_files'' ps \<noteq> []
     \<and> (\<forall>f\<in>set (listed ''changed_files'' ps). ends_with_any [''.tf'', ''.tfvars'', ''.hcl''] f)
     \<and> any_passed (checks ''terraform_validate'' ps)"

lemmas guarded_reports_check = guarded_check [OF reports_check [OF refl]]

interpretation python_check: evidence_check PythonTestFileValidator
  "\<lambda>fs task artifacts. task_validation_profile task = ''python'' \<longrightarrow>
     readable fs artifacts \<and> (\<lambda>_. python_tests) task (reports fs artifacts)"
  by (rule guarded_reports_check [OF _ _ PythonTestFileValidator_def])
    (auto simp: verdicts python_tests_def Let_def list_all_iff)

interpretation javascript_check: evidence_check JavaScriptTestFileValidator
  "\<lambda>fs task artifacts. task_validation_profile task = ''javascript'' \<longrightarrow>
     readable fs artifacts \<and> (\<lambda>_. javascript_tests) task (reports fs artifacts)"
  by (rule guarded_reports_check [OF _ _ JavaScriptTestFileValidator_def])
    (auto simp: verdicts javascript_tests_def Let_def list_all_iff)

interpretation terraform_check: evidence_check TerraformValidationValidator
  "\<lambda>fs task artifacts. task_validation_profile task = ''terraform'' \<longrightarrow>
     readable fs artifacts \<and> (\<lambda>_. terraform_changes) task (reports fs artifacts)"
  by (rule guarded_reports_check [OF _ _ TerraformValidationValidator_def])
    (auto simp: verdicts terraform_changes_def Let_def list_all_iff)

subsection \<open>A candidate is accepted exactly on complete evidence\<close>

lemma agree_none: "agree [] fs task artifacts True"
  by (simp add: agree_def run_validators_def all_issues_def)

lemmas first_checks = required_check.first_of path_check.first_of profile_check.first_of changed_check.first_of
  compile_check.first_of

lemmas last_checks = test_check.first_of blocked_check.first_of python_check.first_of javascript_check.first_of
  terraform_check.first_of agree_none

lemma agree_cong: "agree vs fs task artifacts P \<Longrightarrow> P \<longleftrightarrow> Q \<Longrightarrow> agree vs fs task artifacts Q"
  by simp

lemmas evidence_defs = evidence_complete_def profile_evidence_def python_tests_def javascript_tests_def
  terraform_changes_def tested_def Let_def ends_with_any_def

lemma python_agrees:
  assumes "decodable fs artifacts" and "task_validation_profile task = ''python''"
  shows "agree (validators_for_profile ''python'') fs task artifacts (evidence_complete fs task artifacts)"
  unfolding validators_for_profile_def insert_before_last_def Let_def
  apply simp
  apply (rule agree_cong, (rule first_checks last_checks, rule assms)+, rule agree_none)
  using assms(2) by (auto simp: evidence_defs)

lemma javascript_agrees:
  assumes "decodable fs artifacts" and "task_validation_profile task = ''javascript''"
  shows "agree (validators_for_profile ''javascript'') fs task artifacts (evidence_complete fs task artifacts)"
  unfolding validators_for_profile_def insert_before_last_def Let_def
  apply simp
  apply (rule agree_cong, (rule first_checks last_checks, rule assms)+, rule agree_none)
  using assms(2) by (auto simp: evidence_defs)

lemma terraform_agrees:
  assumes "decodable fs artifacts" and "task_validation_profile task = ''terraform''"
  shows "agree (validators_for_profile ''terraform'') fs task artifacts (evidence_complete fs task artifacts)"
  unfolding validators_for_profile_def insert_before_last_def Let_def
  apply simp
  apply (rule agree_cong, (rule first_checks last_checks, rule assms)+, rule agree_none)
  using assms(2) by (auto simp: evidence_defs)

lemma other_profile_agrees:
  assumes "decodable fs artifacts" and "task_validation_profile task \<notin> {''python'', ''javascript'', ''terraform''}"
  shows "agree (validators_for_profile (task_validation_profile task)) fs task artifacts (evidence_complete fs task artifacts)"
proof (cases "task_validation_profile task = ''generic''")
  case True
  show ?thesis
    unfolding True validators_for_profile_def insert_before_last_def Let_def
    apply simp
    apply (rule agree_cong, (rule first_checks last_checks, rule assms)+, rule agree_none)
    using True by (auto simp: evidence_defs)
next
  case False
  show ?thesis
    using assms(2) False unfolding validators_for_profile_def insert_before_last_def Let_def
    apply simp
    apply (rule agree_cong, (rule first_checks last_checks, rule assms)+, rule agree_none)
    by (auto simp: evidence_defs)
qed

lemma profile_validators_agree:
  assumes "decodable fs artifacts"
  shows "agree (validators_for_profile (task_validation_profile task)) fs task artifacts (evidence_complete fs task artifacts)"
  using python_agrees [OF assms] javascript_agrees [OF assms] terraform_agrees [OF assms] other_profile_agrees [OF assms]
  by (metis insert_iff empty_iff)

end
