(* ===== verification/Merge_Gate.thy ===== *)
theory Merge_Gate
  imports Validators
begin

section \<open>The merge gate\<close>

text \<open>
  \<open>merge_gate.py\<close>: the patterns of \<open>fnmatch\<close>, the decision whether a promoted run may be merged
  without a person, and the merge itself. The report of the run is read through the files of
  \<open>Validators\<close>; git and the test suite are arguments of the merge.
\<close>

subsection \<open>Patterns\<close>

text \<open>\<open>fnmatch.fnmatch\<close> of the standard library: \<open>*\<close> is any text, also over slashes, \<open>?\<close> any character,
  and brackets a set of characters and ranges, inverted by an exclamation mark. A bracket that is
  not closed stands for itself; a closing bracket at once after the opening one belongs to the set.\<close>

datatype glob_item = Star | Any_char | Lit char | Class bool string

definition close_class :: "bool \<Rightarrow> string \<Rightarrow> string \<Rightarrow> (bool \<times> string \<times> string) option" where
  "close_class negated head body =
     (case dropWhile (\<lambda>c. c \<noteq> CHR '']'') body of
        [] \<Rightarrow> None
      | _ # rest \<Rightarrow> Some (negated, head @ takeWhile (\<lambda>c. c \<noteq> CHR '']'') body, rest))"

definition open_class :: "bool \<Rightarrow> string \<Rightarrow> (bool \<times> string \<times> string) option" where
  "open_class negated s =
     (if take 1 s = '']'' then close_class negated '']'' (tl s) else close_class negated [] s)"

definition split_class :: "string \<Rightarrow> (bool \<times> string \<times> string) option" where
  "split_class s = (if take 1 s = ''!'' then open_class True (tl s) else open_class False s)"

lemma close_class_shorter:
  assumes "close_class n h body = Some (m, cs, rest)"
  shows "length rest < length body"
proof -
  from assms obtain c where "dropWhile (\<lambda>c. c \<noteq> CHR '']'') body = c # rest"
    by (auto simp: close_class_def split: list.splits)
  then show ?thesis using length_dropWhile_le [of "\<lambda>c. c \<noteq> CHR '']''" body] by simp
qed

lemma open_class_shorter: "open_class n s = Some (m, cs, rest) \<Longrightarrow> length rest < length s"
  by (cases s) (auto simp: open_class_def dest: close_class_shorter split: if_splits)

lemma split_class_shorter: "split_class s = Some (m, cs, rest) \<Longrightarrow> length rest < length s"
  by (cases s) (auto simp: split_class_def dest: open_class_shorter split: if_splits)

function parse_glob :: "string \<Rightarrow> glob_item list" where
  "parse_glob [] = []"
| "parse_glob (c # cs) =
     (if c = CHR ''*'' then Star # parse_glob cs
      else if c = CHR ''?'' then Any_char # parse_glob cs
      else if c = CHR ''['' then
        (case split_class cs of
           None \<Rightarrow> Lit c # parse_glob cs
         | Some (negated, stuff, rest) \<Rightarrow> Class negated stuff # parse_glob rest)
      else Lit c # parse_glob cs)"
  by pat_completeness auto
termination
  by (relation "measure length") (auto dest: split_class_shorter)

fun in_class :: "char \<Rightarrow> string \<Rightarrow> bool" where
  "in_class c (a # d # b # rest) =
     (if d = CHR ''-'' then a \<le> c \<and> c \<le> b \<or> in_class c rest else c = a \<or> in_class c (d # b # rest))"
| "in_class c (a # rest) = (c = a \<or> in_class c rest)"
| "in_class c [] = False"

fun glob_matches :: "glob_item list \<Rightarrow> string \<Rightarrow> bool" where
  "glob_matches [] s = (s = [])"
| "glob_matches (Star # p) [] = glob_matches p []"
| "glob_matches (Star # p) (c # cs) = (glob_matches p (c # cs) \<or> glob_matches (Star # p) cs)"
| "glob_matches (i # p) [] = False"
| "glob_matches (Any_char # p) (c # cs) = glob_matches p cs"
| "glob_matches (Lit a # p) (c # cs) = (a = c \<and> glob_matches p cs)"
| "glob_matches (Class negated stuff # p) (c # cs) = (in_class c stuff \<noteq> negated \<and> glob_matches p cs)"

definition fnmatch :: "string \<Rightarrow> string \<Rightarrow> bool" where
  "fnmatch s pattern = glob_matches (parse_glob pattern) s"

text \<open>What the items of a pattern match, without the recursion.\<close>

lemma glob_Star [simp]: "glob_matches (Star # p) s \<longleftrightarrow> (\<exists>a b. s = a @ b \<and> glob_matches p b)"
proof (induction s)
  case Nil
  show ?case by simp
next
  case (Cons c cs)
  have "glob_matches (Star # p) (c # cs) \<longleftrightarrow> glob_matches p (c # cs) \<or> (\<exists>a b. cs = a @ b \<and> glob_matches p b)"
    using Cons.IH by simp
  also have "\<dots> \<longleftrightarrow> (\<exists>a b. c # cs = a @ b \<and> glob_matches p b)"
    by (metis Cons_eq_append_conv append_Cons append_Nil)
  finally show ?case .
qed

declare glob_matches.simps(3) [simp del]

lemma glob_Lit [simp]: "glob_matches (Lit a # p) s \<longleftrightarrow> (\<exists>cs. s = a # cs \<and> glob_matches p cs)"
  by (cases s) auto

subsection \<open>The policy\<close>

definition DEFAULT_DENIED_PATHS :: "string list" where
  "DEFAULT_DENIED_PATHS =
     [''.github/**'', ''.gitignore'', ''pyproject.toml'', ''setup.py'', ''setup.cfg'', ''bin/*'',
      ''.accruvia-harness/config.json'', ''**/.env'', ''**/.env.*'', ''secrets/**'', ''*.pem'', ''*.key'']"

record MergePolicy =
  mp_denied_paths :: "string list"
  mp_require_compile_pass :: bool
  mp_require_test_pass :: bool
  mp_require_ship_ready :: bool
  mp_max_changed_files :: int
  mp_allow_deletions :: bool
  mp_target_branch :: string

definition MergePolicy_default :: MergePolicy where
  "MergePolicy_default =
     \<lparr>mp_denied_paths = DEFAULT_DENIED_PATHS, mp_require_compile_pass = True, mp_require_test_pass = True,
      mp_require_ship_ready = True, mp_max_changed_files = 50, mp_allow_deletions = True,
      mp_target_branch = ''main''\<rparr>"

record MergeDecision =
  md_auto_merge :: bool
  md_run_id :: string
  md_task_id :: string
  md_branch_name :: "string option"
  md_changed_files :: "string list"
  md_reason :: string
  md_concerns :: "string list"
  md_report :: "pydict option"

definition slashed :: "string \<Rightarrow> string" where
  "slashed path =
     (let normalized = map (\<lambda>c. if c = char_of (92 :: nat) then CHR ''/'' else c) path
      in if starts_with ''./'' normalized then drop 2 normalized else normalized)"

definition base_name :: "string \<Rightarrow> string" where
  "base_name p = rev (takeWhile (\<lambda>c. c \<noteq> CHR ''/'') (rev p))"

definition pattern_hits :: "string \<Rightarrow> string \<Rightarrow> bool" where
  "pattern_hits normalized pattern \<longleftrightarrow>
     fnmatch normalized pattern \<or> (CHR ''/'' \<notin> set pattern \<and> fnmatch (base_name normalized) pattern)"

definition matches_any :: "string \<Rightarrow> string list \<Rightarrow> string option" where
  "matches_any path patterns = List.find (pattern_hits (slashed path)) patterns"

subsection \<open>The decision\<close>

definition load_report :: "files \<Rightarrow> string \<Rightarrow> exn + pyval" where
  "load_report fs path =
     (case fs_json fs path of Loaded v \<Rightarrow> Inr v | Unreadable _ \<Rightarrow> Inr PNone | Undecodable e \<Rightarrow> Inl e)"

text \<open>\<open>(x or {}).get\<close>: a value that is neither false nor a dictionary has no \<open>get\<close>.\<close>

definition dict_or_empty :: "pyval \<Rightarrow> exn + pydict" where
  "dict_or_empty v =
     (case py_or v (PDict []) of PDict d \<Rightarrow> Inr d | _ \<Rightarrow> Inl (AttributeError ''object has no attribute get''))"

definition last6 :: "string \<Rightarrow> string" where
  "last6 s = drop (length s - 6) s"

definition branch_for_run :: "string \<Rightarrow> string option op" where
  "branch_for_run i =
     bnd (get_run i) (\<lambda>row.
     ret (case row of None \<Rightarrow> None
            | Some run \<Rightarrow> Some (''harness-'' @ last6 (run_task_id run) @ ''-'' @ last6 i)))"

definition reported_files :: "pydict \<Rightarrow> exn + string list" where
  "reported_files report =
     rbind (py_list (py_or (dict_get report ''changed_files'') (PList []))) (\<lambda>xs. Inr (map py_str xs))"

definition check_concern :: "bool \<Rightarrow> string \<Rightarrow> string \<Rightarrow> pydict \<Rightarrow> exn + string list" where
  "check_concern required k concern report =
     (if \<not> required then Inr []
      else rbind (dict_or_empty (dict_get report k)) (\<lambda>d.
        Inr (if truthy (dict_get d ''passed'') then [] else [concern])))"

definition denied_concerns :: "MergePolicy \<Rightarrow> string list \<Rightarrow> string list" where
  "denied_concerns policy changed =
     concat (map (\<lambda>p. case matches_any p (mp_denied_paths policy) of
        None \<Rightarrow> [] | Some m \<Rightarrow> [''denied_path:'' @ p @ '':'' @ m]) changed)"

definition policy_concerns :: "MergePolicy \<Rightarrow> pydict \<Rightarrow> string list \<Rightarrow> exn + string list" where
  "policy_concerns policy report changed =
     rbind (check_concern (mp_require_compile_pass policy) ''compile_check'' ''compile_check_not_passed'' report) (\<lambda>compiled.
     rbind (check_concern (mp_require_test_pass policy) ''test_check'' ''test_check_not_passed'' report) (\<lambda>tested.
     Inr ((if mp_require_ship_ready policy \<and> \<not> truthy (dict_get report ''ship_ready'') then [''self_review_not_ship_ready''] else [])
       @ compiled @ tested
       @ (if str_or_empty (dict_get report ''overall_validation'') = ''fail'' then [''validation_overall_failed''] else [])
       @ (if int (length changed) > mp_max_changed_files policy
          then [''changed_files_over_cap:'' @ dec_nat (length changed) @ ''>'' @ dec_int (mp_max_changed_files policy)] else [])
       @ denied_concerns policy changed)))"

definition refusal :: "string \<Rightarrow> string \<Rightarrow> string option \<Rightarrow> string \<Rightarrow> string \<Rightarrow> MergeDecision" where
  "refusal i task branch reason concern =
     \<lparr>md_auto_merge = False, md_run_id = i, md_task_id = task, md_branch_name = branch,
      md_changed_files = [], md_reason = reason, md_concerns = [concern], md_report = None\<rparr>"

definition evaluate_report :: "files \<Rightarrow> MergePolicy \<Rightarrow> Run \<Rightarrow> Artifact \<Rightarrow> MergeDecision op" where
  "evaluate_report fs policy run artifact =
     bnd (lift_result (load_report fs (artifact_path artifact))) (\<lambda>loaded.
     bnd (lift_result (dict_or_empty loaded)) (\<lambda>report.
     bnd (lift_result (reported_files report)) (\<lambda>changed.
     bnd (lift_result (policy_concerns policy report changed)) (\<lambda>concerns.
     bnd (branch_for_run (run_id run)) (\<lambda>branch.
     ret \<lparr>md_auto_merge = (concerns = []), md_run_id = run_id run, md_task_id = run_task_id run,
          md_branch_name = branch, md_changed_files = changed,
          md_reason = (if concerns = [] then ''all policy checks passed''
            else dec_nat (length concerns) @ '' concern(s) block auto-merge''),
          md_concerns = concerns, md_report = Some report\<rparr>)))))"

definition evaluate_run :: "files \<Rightarrow> MergePolicy \<Rightarrow> string \<Rightarrow> MergeDecision op" where
  "evaluate_run fs policy i =
     bnd (get_run i) (\<lambda>row.
     case row of
       None \<Rightarrow> ret (refusal i [] None ''run not found'' ''run_not_found'')
     | Some run \<Rightarrow>
         bnd (list_decisions i) (\<lambda>decisions.
         if decisions = [] then
           bnd (branch_for_run i) (\<lambda>branch. ret (refusal i (run_task_id run) branch ''no decision recorded'' ''no_decision''))
         else let action = decision_action (last decisions) in
         if action \<noteq> DA_PROMOTE then
           bnd (branch_for_run i) (\<lambda>branch. ret (refusal i (run_task_id run) branch
             (''decision is '' @ DecisionAction_value action @ '', not promote'')
             (''decision_not_promote:'' @ DecisionAction_value action)))
         else
           bnd (list_artifacts i) (\<lambda>artifacts.
           case List.find (\<lambda>a. artifact_kind a = ''report'') artifacts of
             None \<Rightarrow> bnd (branch_for_run i) (\<lambda>branch.
               ret (refusal i (run_task_id run) branch ''no report artifact'' ''missing_report''))
           | Some artifact \<Rightarrow> evaluate_report fs policy run artifact)))"


subsection \<open>What the default patterns protect\<close>

definition protected :: "string \<Rightarrow> bool" where
  "protected p \<longleftrightarrow>
     base_name p \<in> {''.gitignore'', ''pyproject.toml'', ''setup.py'', ''setup.cfg''}
     \<or> starts_with ''.github/'' p \<or> starts_with ''bin/'' p \<or> starts_with ''secrets/'' p
     \<or> p = ''.accruvia-harness/config.json''
     \<or> ends_with ''/.env'' p \<or> contains ''/.env.'' p \<or> ends_with ''.pem'' p \<or> ends_with ''.key'' p"

lemma base_name_end: "\<exists>d. p = d @ base_name p"
proof
  have "rev (rev p) = rev (takeWhile (\<lambda>c. c \<noteq> CHR ''/'') (rev p) @ dropWhile (\<lambda>c. c \<noteq> CHR ''/'') (rev p))"
    by (simp only: takeWhile_dropWhile_id)
  then show "p = rev (dropWhile (\<lambda>c. c \<noteq> CHR ''/'') (rev p)) @ base_name p"
    unfolding base_name_def by (simp only: rev_append rev_rev_ident)
qed

lemma base_name_plain: "CHR ''/'' \<notin> set p \<Longrightarrow> base_name p = p"
proof -
  assume "CHR ''/'' \<notin> set p"
  then have "takeWhile (\<lambda>c. c \<noteq> CHR ''/'') (rev p) = rev p" by (subst takeWhile_eq_all_conv) auto
  then show ?thesis unfolding base_name_def by (simp only: rev_rev_ident)
qed

lemma ends_with_iff: "ends_with p s \<longleftrightarrow> (\<exists>a. s = a @ p)"
proof
  assume "ends_with p s"
  then show "\<exists>a. s = a @ p" unfolding ends_with_def by (metis append_take_drop_id)
qed (auto simp: ends_with_def)

lemma glob_Lits: "glob_matches (map Lit w @ p) s \<longleftrightarrow> (\<exists>t. s = w @ t \<and> glob_matches p t)"
  by (induction w arbitrary: s) auto

lemma glob_prefix: "glob_matches (map Lit w @ [Star]) s \<longleftrightarrow> starts_with w s"
  "glob_matches (map Lit w @ [Star, Star]) s \<longleftrightarrow> starts_with w s"
  by (auto simp: glob_Lits starts_with_iff)

lemma glob_exact: "glob_matches (map Lit w) s \<longleftrightarrow> s = w"
  using glob_Lits [of w "[]"] by simp

lemma glob_Stars: "glob_matches (Star # Star # p) s \<longleftrightarrow> glob_matches (Star # p) s"
proof
  show "glob_matches (Star # Star # p) s \<Longrightarrow> glob_matches (Star # p) s" by simp (metis append.assoc)
  show "glob_matches (Star # p) s \<Longrightarrow> glob_matches (Star # Star # p) s" by simp (metis append_Nil)
qed

lemma glob_suffix: "glob_matches (Star # map Lit w) s \<longleftrightarrow> ends_with w s"
  "glob_matches (Star # Star # map Lit w) s \<longleftrightarrow> ends_with w s"
  unfolding glob_Stars by (simp_all add: glob_exact ends_with_iff)

lemma glob_inside: "glob_matches (Star # Star # map Lit w @ [Star]) s \<longleftrightarrow> contains w s"
  unfolding glob_Stars by (simp add: contains_iff glob_Lits) metis

lemma parse_literal:
  assumes "CHR ''*'' \<notin> set w" and "CHR ''?'' \<notin> set w" and "CHR ''['' \<notin> set w"
  shows "parse_glob (w @ p) = map Lit w @ parse_glob p"
  using assms by (induction w) auto

lemma fnmatch_kinds:
  assumes "CHR ''*'' \<notin> set w" and "CHR ''?'' \<notin> set w" and "CHR ''['' \<notin> set w"
  shows "fnmatch s w \<longleftrightarrow> s = w" and "fnmatch s (w @ ''*'') \<longleftrightarrow> starts_with w s"
    and "fnmatch s (w @ ''**'') \<longleftrightarrow> starts_with w s" and "fnmatch s (CHR ''*'' # w) \<longleftrightarrow> ends_with w s"
    and "fnmatch s (CHR ''*'' # CHR ''*'' # w) \<longleftrightarrow> ends_with w s"
    and "fnmatch s (CHR ''*'' # CHR ''*'' # w @ ''*'') \<longleftrightarrow> contains w s"
  using parse_literal [OF assms, of "[]"] parse_literal [OF assms, of "''*''"] parse_literal [OF assms, of "''**''"]
  by (simp_all add: fnmatch_def glob_exact glob_prefix glob_suffix glob_inside del: glob_Star)

lemma hits_name:
  assumes "CHR ''*'' \<notin> set w" and "CHR ''?'' \<notin> set w" and "CHR ''['' \<notin> set w" and "CHR ''/'' \<notin> set w"
  shows "pattern_hits p w \<longleftrightarrow> base_name p = w"
  using assms(4) base_name_plain by (auto simp: pattern_hits_def fnmatch_kinds(1) [OF assms(1-3)])

lemma hits_suffix:
  assumes "CHR ''*'' \<notin> set w" and "CHR ''?'' \<notin> set w" and "CHR ''['' \<notin> set w"
  shows "pattern_hits p (CHR ''*'' # w) \<longleftrightarrow> ends_with w p"
proof -
  have "ends_with w (base_name p) \<Longrightarrow> ends_with w p"
    using base_name_end [of p] by (metis append.assoc ends_with_iff)
  then show ?thesis by (auto simp: pattern_hits_def fnmatch_kinds(4) [OF assms])
qed

lemma hits_path: "CHR ''/'' \<in> set pattern \<Longrightarrow> pattern_hits p pattern \<longleftrightarrow> fnmatch p pattern"
  by (simp add: pattern_hits_def)

lemma default_hits:
  "pattern_hits p ''.github/**'' \<longleftrightarrow> starts_with ''.github/'' p"
  "pattern_hits p ''.gitignore'' \<longleftrightarrow> base_name p = ''.gitignore''"
  "pattern_hits p ''pyproject.toml'' \<longleftrightarrow> base_name p = ''pyproject.toml''"
  "pattern_hits p ''setup.py'' \<longleftrightarrow> base_name p = ''setup.py''"
  "pattern_hits p ''setup.cfg'' \<longleftrightarrow> base_name p = ''setup.cfg''"
  "pattern_hits p ''bin/*'' \<longleftrightarrow> starts_with ''bin/'' p"
  "pattern_hits p ''.accruvia-harness/config.json'' \<longleftrightarrow> p = ''.accruvia-harness/config.json''"
  "pattern_hits p ''**/.env'' \<longleftrightarrow> ends_with ''/.env'' p"
  "pattern_hits p ''**/.env.*'' \<longleftrightarrow> contains ''/.env.'' p"
  "pattern_hits p ''secrets/**'' \<longleftrightarrow> starts_with ''secrets/'' p"
  "pattern_hits p ''*.pem'' \<longleftrightarrow> ends_with ''.pem'' p"
  "pattern_hits p ''*.key'' \<longleftrightarrow> ends_with ''.key'' p"
  using fnmatch_kinds(3) [of "''.github/''" p] fnmatch_kinds(2) [of "''bin/''" p]
    fnmatch_kinds(1) [of "''.accruvia-harness/config.json''" p] fnmatch_kinds(5) [of "''/.env''" p]
    fnmatch_kinds(6) [of "''/.env.''" p] fnmatch_kinds(3) [of "''secrets/''" p]
  by (simp_all add: hits_name hits_suffix hits_path)

lemma find_list_ex: "List.find P xs \<noteq> None \<longleftrightarrow> list_ex P xs"
  by (induction xs) auto

lemma default_hits_core: "matches_any path DEFAULT_DENIED_PATHS \<noteq> None \<longleftrightarrow> protected (slashed path)"
  unfolding matches_any_def find_list_ex DEFAULT_DENIED_PATHS_def protected_def list.pred_inject list_ex_iff list.set
  by (simp add: default_hits) (simp only: disj_ac)

text \<open>C38. With the default policy the gate denies exactly the protected paths: a changed path is denied
  if and only if, read with slashes and without a leading \<open>./\<close>, it has a protected file name, lies
  under one of the three protected directories, is the configuration of the harness, ends in \<open>.pem\<close>
  or \<open>.key\<close>, or has \<open>.env\<close> behind a slash; so a \<open>.env\<close> at the top of the repository is not denied.\<close>

theorem default_policy_denies: "matches_any path DEFAULT_DENIED_PATHS \<noteq> None \<longleftrightarrow> protected (slashed path)"
  by (rule default_hits_core)

subsection \<open>When a run is merged\<close>

definition run_promoted :: "store \<Rightarrow> string \<Rightarrow> bool" where
  "run_promoted s i \<longleftrightarrow> (\<exists>d. last_option (order_by decision_created_at
     (filter (\<lambda>d. decision_run_id d = i) (st_decisions s))) = Some d \<and> decision_action d = DA_PROMOTE)"

definition run_report :: "store \<Rightarrow> string \<Rightarrow> Artifact option" where
  "run_report s i = List.find (\<lambda>a. artifact_kind a = ''report'')
     (order_by artifact_created_at (filter (\<lambda>a. artifact_run_id a = i) (st_artifacts s)))"

definition passes :: "pydict \<Rightarrow> string \<Rightarrow> bool" where
  "passes report k \<longleftrightarrow> (\<exists>d. dict_get report k = PDict d \<and> truthy (dict_get d ''passed''))"

definition mergeable_report :: "MergePolicy \<Rightarrow> pydict \<Rightarrow> string list \<Rightarrow> bool" where
  "mergeable_report policy report changed \<longleftrightarrow>
     (mp_require_ship_ready policy \<longrightarrow> truthy (dict_get report ''ship_ready''))
     \<and> (mp_require_compile_pass policy \<longrightarrow> passes report ''compile_check'')
     \<and> (mp_require_test_pass policy \<longrightarrow> passes report ''test_check'')
     \<and> str_or_empty (dict_get report ''overall_validation'') \<noteq> ''fail''
     \<and> int (length changed) \<le> mp_max_changed_files policy
     \<and> (\<forall>p\<in>set changed. matches_any p (mp_denied_paths policy) = None)"

definition mergeable :: "files \<Rightarrow> MergePolicy \<Rightarrow> store \<Rightarrow> string \<Rightarrow> bool" where
  "mergeable fs policy s i \<longleftrightarrow> has_key run_id i (st_runs s) \<and> run_promoted s i
     \<and> (\<exists>a v report changed. run_report s i = Some a \<and> load_report fs (artifact_path a) = Inr v
          \<and> dict_or_empty v = Inr report \<and> reported_files report = Inr changed
          \<and> mergeable_report policy report changed)"

lemma dict_or_empty_passed:
  "dict_or_empty (dict_get report k) = Inr d \<Longrightarrow> truthy (dict_get d ''passed'') \<longleftrightarrow> passes report k"
  by (cases "dict_get report k") (auto simp: dict_or_empty_def py_or_def passes_def split: if_splits)

lemma check_concern_Nil:
  "check_concern required k concern report = Inr cs \<Longrightarrow> cs = [] \<longleftrightarrow> (required \<longrightarrow> passes report k)"
  by (auto simp: check_concern_def rbind_Inr_iff dict_or_empty_passed split: if_splits)

lemma denied_concerns_Nil:
  "denied_concerns policy changed = [] \<longleftrightarrow> (\<forall>p\<in>set changed. matches_any p (mp_denied_paths policy) = None)"
  by (auto simp: denied_concerns_def split: option.split)

lemma policy_concerns_Nil:
  "policy_concerns policy report changed = Inr cs \<Longrightarrow> cs = [] \<longleftrightarrow> mergeable_report policy report changed"
  by (auto simp: policy_concerns_def rbind_Inr_iff mergeable_report_def denied_concerns_Nil
      dest!: check_concern_Nil split: if_splits)

lemma find_key_has_key: "has_key key k rows \<longleftrightarrow> find_key key k rows \<noteq> None"
  by (simp only: has_key_def find_key_def find_list_ex)

lemma branch_for_run_looks: "looks (branch_for_run i)"
  unfolding branch_for_run_def get_run_def by (intro look_rules)

lemma refusal_simps [simp]: "md_auto_merge (refusal i task b r c) = False" "md_concerns (refusal i task b r c) = [c]"
  by (simp_all add: refusal_def)

lemma after_branch:
  "bnd (branch_for_run i) (\<lambda>b. ret (f b)) s = (Inr d, t) \<Longrightarrow> t = s \<and> (\<exists>b. d = f b)"
  using branch_for_run_looks [of i] by (auto simp: bnd_Inr_iff ret_run dest: looks_run)

lemma evaluate_report_iff:
  assumes "evaluate_report fs policy run a s = (Inr d, t)"
  shows "t = s \<and> (md_auto_merge d \<longleftrightarrow> md_concerns d = []) \<and> (md_auto_merge d \<longleftrightarrow>
    (\<exists>v report changed. load_report fs (artifact_path a) = Inr v \<and> dict_or_empty v = Inr report
       \<and> reported_files report = Inr changed \<and> mergeable_report policy report changed))"
  using assms unfolding evaluate_report_def
  by (auto simp: bnd_Inr_iff lift_result_run ret_run
      dest!: looks_run [OF branch_for_run_looks] policy_concerns_Nil)

lemma evaluate_run_iff:
  assumes "evaluate_run fs policy i s = (Inr d, t)"
  shows "t = s \<and> (md_auto_merge d \<longleftrightarrow> md_concerns d = []) \<and> (md_auto_merge d \<longleftrightarrow> mergeable fs policy s i)"
proof (cases "find_key run_id i (st_runs s)")
  case None
  then have "\<not> has_key run_id i (st_runs s)" by (simp add: find_key_has_key)
  with None assms show ?thesis by (auto simp: evaluate_run_def get_run_def ret_run mergeable_def)
next
  case (Some run)
  let ?ds = "order_by decision_created_at (filter (\<lambda>d. decision_run_id d = i) (st_decisions s))"
  show ?thesis
  proof (cases "run_promoted s i")
    case False
    with Some assms show ?thesis
      by (auto simp: evaluate_run_def get_run_def list_decisions_def run_promoted_def last_option_def mergeable_def
          Let_def dest!: after_branch split: if_splits)
  next
    case True
    then have ds: "?ds \<noteq> []" "decision_action (last ?ds) = DA_PROMOTE"
      by (auto simp: run_promoted_def last_option_def split: if_splits)
    show ?thesis
    proof (cases "run_report s i")
      case None
      with Some True ds assms show ?thesis
        by (auto simp: evaluate_run_def get_run_def list_decisions_def list_artifacts_def run_report_def mergeable_def
            dest!: after_branch)
    next
      case (Some a)
      with \<open>find_key run_id i (st_runs s) = Some run\<close> ds assms have "evaluate_report fs policy run a s = (Inr d, t)"
        by (simp add: evaluate_run_def get_run_def list_decisions_def list_artifacts_def run_report_def)
      note evaluate_report_iff [OF this]
      moreover have "has_key run_id i (st_runs s)" using \<open>find_key run_id i (st_runs s) = Some run\<close> find_key_has_key [of run_id i "st_runs s"] by simp
      ultimately show ?thesis using Some True unfolding mergeable_def by auto
    qed
  qed
qed

text \<open>C37. When the merge gate returns, it has changed nothing, and it lets a run merge exactly when the
  run exists, its latest decision promotes it, its report can be read, and the report satisfies the
  policy: ready to ship, compiled, tested, not failed overall, not too many changed files, and none of
  them under a denied pattern.\<close>

theorem merge_gate_decides:
  assumes "evaluate_run fs policy i s = (Inr d, t)"
  shows "t = s \<and> (md_auto_merge d \<longleftrightarrow> mergeable fs policy s i)"
  using evaluate_run_iff [OF assms] by blast

definition gate_files :: "pyval \<Rightarrow> files" where
  "gate_files v = \<lparr>fs_exists = (\<lambda>_. True), fs_json = (\<lambda>_. Loaded v)\<rparr>"

definition gate_store :: store where
  "gate_store = (empty_store 0)
     \<lparr>st_runs := [\<lparr>run_id = ''run_1'', run_task_id = ''task_1'', run_status = RS_COMPLETED, run_attempt = 1,
        run_summary = [], run_branch_id = None, run_created_at = 0, run_updated_at = 0\<rparr>],
      st_decisions := [\<lparr>decision_id = ''d1'', decision_run_id = ''run_1'', decision_action = DA_PROMOTE,
        decision_rationale = [], decision_created_at = 0\<rparr>],
      st_artifacts := [\<lparr>artifact_id = ''a1'', artifact_run_id = ''run_1'', artifact_kind = ''report'',
        artifact_path = ''r.json'', artifact_summary = [], artifact_created_at = 0\<rparr>]\<rparr>"

definition good_report :: pydict where
  "good_report =
     [(''ship_ready'', PBool True), (''compile_check'', PDict [(''passed'', PBool True)]),
      (''test_check'', PDict [(''passed'', PBool True)]), (''changed_files'', PList [PStr ''.env''])]"

lemma merge_gate_decides_witness:
  "\<exists>d. evaluate_run (gate_files (PDict good_report)) MergePolicy_default ''run_1'' gate_store = (Inr d, gate_store)
     \<and> md_auto_merge d \<and> mergeable (gate_files (PDict good_report)) MergePolicy_default gate_store ''run_1''"
proof -
  have "\<not> protected (slashed ''.env'')"
    by (simp add: protected_def slashed_def base_name_def starts_with_def ends_with_def Let_def)
  then have "matches_any ''.env'' DEFAULT_DENIED_PATHS = None" using default_hits_core by blast
  then have concerns: "policy_concerns MergePolicy_default good_report [''.env''] = Inr []"
    by (simp add: policy_concerns_def check_concern_def MergePolicy_default_def good_report_def dict_or_empty_def
        py_or_def denied_concerns_def)
  have files: "reported_files good_report = Inr [''.env'']"
    by (simp add: reported_files_def good_report_def)
  have report: "load_report (gate_files (PDict good_report)) p = Inr (PDict good_report)"
    "dict_or_empty (PDict good_report) = Inr good_report" for p
    by (simp_all add: load_report_def gate_files_def dict_or_empty_def good_report_def py_or_def)
  obtain d where d: "evaluate_run (gate_files (PDict good_report)) MergePolicy_default ''run_1'' gate_store = (Inr d, gate_store)"
    "md_auto_merge d"
    by (simp add: evaluate_run_def get_run_def list_decisions_def list_artifacts_def gate_store_def find_key_def
        order_by_def evaluate_report_def bnd_run lift_result_run report files concerns branch_for_run_def ret_run)
  then show ?thesis using merge_gate_decides [OF d(1)] by blast
qed

subsection \<open>The merge\<close>

text \<open>\<open>execute_merge\<close> and \<open>auto_merge_run\<close> run git and the tests in a world of their own type. A call of git
  returns its exit code and its output, or raises, for instance on a timeout; the suite can also not
  start or run out of time, which the code catches.\<close>

record completed =
  cp_returncode :: int
  cp_stdout :: string
  cp_stderr :: string

datatype suite_run = Suite completed | Suite_stopped string

record 'w repo_env =
  re_is_repo :: "'w \<Rightarrow> bool"
  re_git :: "string list \<Rightarrow> ('w, completed) prog"
  re_suite :: "('w, suite_run) prog"

record MergeResult =
  mr_merged :: bool
  mr_commit_sha :: string
  mr_conflicts :: "string list"
  mr_stderr :: string

definition unmerged :: "string \<Rightarrow> MergeResult" where
  "unmerged err = \<lparr>mr_merged = False, mr_commit_sha = [], mr_conflicts = [], mr_stderr = err\<rparr>"

text \<open>\<open>splitlines\<close>, and the last line after \<open>strip\<close> by \<open>split\<close> at newlines.\<close>

definition stripped_lines :: "string \<Rightarrow> string list" where
  "stripped_lines s = filter (\<lambda>l. l \<noteq> []) (map py_strip (split_lines False [] s))"

definition last_line :: "string \<Rightarrow> string" where
  "last_line s = rev (takeWhile (\<lambda>c. c \<noteq> char_of (10 :: nat)) (rev (py_strip s)))"

definition undo_merge :: "'w repo_env \<Rightarrow> string \<Rightarrow> ('w, MergeResult) prog" where
  "undo_merge env why =
     bnd (re_git env [''reset'', ''--hard'', ''HEAD~1'']) (\<lambda>_.
     ret (unmerged (''full test suite failed after merge: '' @ why)))"

definition test_merge :: "'w repo_env \<Rightarrow> ('w, MergeResult) prog" where
  "test_merge env =
     bnd (re_suite env) (\<lambda>result.
     case result of
       Suite_stopped why \<Rightarrow> undo_merge env why
     | Suite run \<Rightarrow>
         if cp_returncode run \<noteq> 0
         then undo_merge env (if cp_stdout run \<noteq> [] then last_line (cp_stdout run) else ''unknown'')
         else bnd (re_git env [''rev-parse'', ''HEAD'']) (\<lambda>rc.
           ret \<lparr>mr_merged = True, mr_commit_sha = (if cp_returncode rc = 0 then py_strip (cp_stdout rc) else []),
                mr_conflicts = [], mr_stderr = []\<rparr>))"

definition merge_branch :: "'w repo_env \<Rightarrow> string \<Rightarrow> string \<Rightarrow> ('w, MergeResult) prog" where
  "merge_branch env branch message =
     bnd (re_git env [''merge'', ''--no-ff'', branch, ''-m'', message]) (\<lambda>rc.
     if cp_returncode rc \<noteq> 0 then
       bnd (re_git env [''diff'', ''--name-only'', ''--diff-filter=U'']) (\<lambda>conflicts.
       bnd (re_git env [''merge'', ''--abort'']) (\<lambda>_.
       ret \<lparr>mr_merged = False, mr_commit_sha = [], mr_conflicts = stripped_lines (cp_stdout conflicts),
            mr_stderr = or_default (cp_stderr rc) ''merge failed''\<rparr>))
     else test_merge env)"

definition execute_merge :: "'w repo_env \<Rightarrow> string \<Rightarrow> string \<Rightarrow> string option \<Rightarrow> ('w, MergeResult) prog" where
  "execute_merge env branch target merge_message =
     bnd (reads (re_is_repo env)) (\<lambda>is_repo.
     if \<not> is_repo then ret (unmerged ''not a git repository'')
     else bnd (re_git env [''rev-parse'', ''--verify'', branch]) (\<lambda>rc.
     if cp_returncode rc \<noteq> 0 then ret (unmerged (''branch not found: '' @ branch))
     else bnd (re_git env [''rev-parse'', ''--verify'', target]) (\<lambda>rc.
     if cp_returncode rc \<noteq> 0 then ret (unmerged (''target branch not found: '' @ target))
     else bnd (re_git env [''status'', ''--porcelain'', ''--untracked-files=no'']) (\<lambda>rc.
     if cp_returncode rc = 0 \<and> py_strip (cp_stdout rc) \<noteq> [] then ret (unmerged ''working tree is dirty'')
     else bnd (re_git env [''rev-parse'', ''--abbrev-ref'', ''HEAD'']) (\<lambda>rc.
     let current = (if cp_returncode rc = 0 then py_strip (cp_stdout rc) else []) in
     bnd (if current = target then ret None
          else bnd (re_git env [''checkout'', target]) (\<lambda>rc.
            ret (if cp_returncode rc \<noteq> 0
                 then Some (''failed to checkout '' @ target @ '': '' @ cp_stderr rc) else None))) (\<lambda>failed.
     case failed of
       Some err \<Rightarrow> ret (unmerged err)
     | None \<Rightarrow> merge_branch env branch
         (or_default (opt_str merge_message) (''Auto-merge '' @ branch @ '' (harness merge gate)'')))))))) "

definition merge_message :: "MergeDecision \<Rightarrow> string \<Rightarrow> string" where
  "merge_message d branch =
     ''Auto-merge '' @ branch @ '' (run '' @ md_run_id d @ '')'' @ NL @ NL
     @ ''Policy checks passed: compile+tests green, ship_ready=true, ''
     @ dec_nat (length (md_changed_files d)) @ '' files, no denied paths.'' @ NL"

text \<open>The decision reads the store; the merge then runs in the world of the repository.\<close>

definition auto_merge_run ::
  "'w repo_env \<Rightarrow> files \<Rightarrow> MergePolicy \<Rightarrow> bool \<Rightarrow> store \<Rightarrow> string
     \<Rightarrow> ('w, MergeDecision \<times> MergeResult option) prog"
where
  "auto_merge_run env fs policy dry_run s i =
     bnd (lift_result (fst (evaluate_run fs policy i s))) (\<lambda>d.
     if \<not> md_auto_merge d \<or> dry_run then ret (d, None)
     else case md_branch_name d of
       None \<Rightarrow> ret (refusal i (md_task_id d) None ''no branch name'' ''no_branch'', None)
     | Some branch \<Rightarrow>
         bnd (execute_merge env branch (mp_target_branch policy) (Some (merge_message d branch))) (\<lambda>r.
         ret (d, Some r)))"

lemma only_mergeable_runs_are_merged:
  assumes "auto_merge_run env fs policy dry_run s i w = (Inr (d, Some r), w')"
  shows "mergeable fs policy s i \<and> \<not> dry_run"
proof -
  obtain e t where e: "evaluate_run fs policy i s = (e, t)" by force
  with assms obtain d0 where "e = Inr d0" "md_auto_merge d0 \<and> \<not> dry_run"
    by (cases e) (auto simp: auto_merge_run_def bnd_run lift_result_run ret_run split: if_splits option.splits)
  then show ?thesis using e evaluate_run_iff by blast
qed

text \<open>After a merge that succeeded, a failing suite resets the branch by one commit, whether or not the
  merge made one.\<close>

lemma failing_suite_resets:
  assumes "re_git env [''merge'', ''--no-ff'', branch, ''-m'', message] w = (Inr rc, w1)" "cp_returncode rc = 0"
    and "re_suite env w1 = (Inr (Suite run), w2)" "cp_returncode run \<noteq> 0"
    and "re_git env [''reset'', ''--hard'', ''HEAD~1''] w2 = (x, w3)"
  shows "snd (merge_branch env branch message w) = w3"
  using assms by (cases x) (simp_all add: merge_branch_def test_merge_def undo_merge_def bnd_run ret_run)

end
