(* ===== verification/Promotion_Review.thy ===== *)
theory Promotion_Review
  imports Diagnosis
begin

section \<open>The promotion review skill\<close>

text \<open>
  \<open>skills/promotion_review.py\<close>: the reading and the checking of the final review of a candidate. The
  dictionary that is extracted from the answer is an argument. The validator of this skill changes
  the dictionary it checks, and the invocation returns the changed one; \<open>settled_review\<close> is that change.
\<close>

definition CONCERN_SEVERITIES :: "string list" where
  "CONCERN_SEVERITIES = [''blocker'', ''concern'', ''note'']"

definition promotion_review_schema :: schema where
  "promotion_review_schema =
     \<lparr>sc_required = [''approved'', ''rationale'', ''concerns''],
      sc_types = [(''approved'', ''bool''), (''rationale'', ''str''), (''concerns'', ''list''), (''summary'', ''str'')],
      sc_allowed_values = []\<rparr>"

definition normal_concern :: "pyval \<Rightarrow> pyval list" where
  "normal_concern item =
     (case item of
        PDict d \<Rightarrow>
          (let severity = py_lower (py_str (py_or (dict_get d ''severity'') (PStr ''note'')));
               severity = (if severity \<in> set CONCERN_SEVERITIES then severity else ''note'')
           in [PDict [(''severity'', PStr severity),
                      (''description'', PStr (py_strip (str_or_empty (dict_get d ''description''))))]])
      | _ \<Rightarrow> [])"

definition set_default :: "string \<Rightarrow> pyval \<Rightarrow> pydict \<Rightarrow> pydict" where
  "set_default k v d = (if dict_has d k then d else dict_set k v d)"

definition parse_promotion_review :: "pydict option \<Rightarrow> pydict" where
  "parse_promotion_review payload =
     (case payload of
        None \<Rightarrow> []
      | Some parsed \<Rightarrow>
          (let parsed = set_default ''summary'' (PStr []) parsed;
               parsed = (case dict_get parsed ''approved'' of
                  PStr s \<Rightarrow> dict_set ''approved''
                    (PBool (py_lower (py_strip s) \<in> {''true'', ''yes'', ''approve'', ''approved'', ''1''})) parsed
                | _ \<Rightarrow> parsed)
           in case dict_get parsed ''concerns'' of
                PList items \<Rightarrow> dict_set ''concerns'' (PList (concat (map normal_concern items))) parsed
              | _ \<Rightarrow> parsed))"

definition is_blocker :: "pyval \<Rightarrow> bool" where
  "is_blocker c = (case c of PDict d \<Rightarrow> dict_get d ''severity'' = PStr ''blocker'' | _ \<Rightarrow> False)"

definition blockers :: "pydict \<Rightarrow> pyval list" where
  "blockers parsed = (case dict_get parsed ''concerns'' of PList cs \<Rightarrow> filter is_blocker cs | _ \<Rightarrow> [])"

definition settled_review :: "pydict \<Rightarrow> pydict" where
  "settled_review parsed =
     (if fst (validate_against_schema parsed promotion_review_schema) \<and> blockers parsed \<noteq> []
         \<and> truthy (dict_get parsed ''approved'')
      then dict_set ''approved'' (PBool False) parsed else parsed)"

definition promotion_review_validate :: "pydict \<Rightarrow> exn + bool \<times> string list" where
  "promotion_review_validate parsed =
     (case validate_against_schema parsed promotion_review_schema of
        (False, errors) \<Rightarrow> Inr (False, errors)
      | (True, _) \<Rightarrow>
          (case get_default parsed ''rationale'' (PStr []) of
             PStr s \<Rightarrow> Inr (if py_strip s = [] then (False, [''rationale must be non-empty'']) else (True, []))
           | _ \<Rightarrow> Inl (AttributeError ''object has no attribute strip'')))"

definition blocker_concerns :: "SkillResult \<Rightarrow> string list" where
  "blocker_concerns r =
     concat (map (\<lambda>c. case c of PDict d \<Rightarrow> [str_or_empty (dict_get d ''description'')] | _ \<Rightarrow> [])
       (blockers (sr_output r)))"

definition invoke_promotion_review ::
  "(string \<Rightarrow> pydict option) \<Rightarrow> (exn \<Rightarrow> string) \<Rightarrow> string + llm_answer \<Rightarrow> string \<Rightarrow> bool \<Rightarrow> exn + SkillResult"
where
  "invoke_promotion_review extract =
     invoke_skill ''promotion_review'' (\<lambda>text. Inr (settled_review (parse_promotion_review (extract text))))
       promotion_review_validate"

text \<open>What the promotion service relies on: a verdict, and a reason for it.\<close>

definition review_ok :: "pydict \<Rightarrow> bool" where
  "review_ok output \<longleftrightarrow> conforms promotion_review_schema output
     \<and> (\<exists>s. dict_get output ''rationale'' = PStr s \<and> py_strip s \<noteq> [])"

interpretation promotion_review: skill promotion_review_validate review_ok
proof
  fix parsed errors
  assume a: "promotion_review_validate parsed = Inr (True, errors)"
  then have c: "conforms promotion_review_schema parsed"
    by (auto simp: promotion_review_validate_def simp flip: schema_accepts split: prod.splits bool.splits)
  then have "dict_has parsed ''rationale''" by (simp add: conforms_def promotion_review_schema_def)
  with a c show "review_ok parsed"
    by (auto simp: promotion_review_validate_def review_ok_def get_default_def
        split: prod.splits bool.splits pyval.splits if_splits)
next
  fix parsed ok errors
  assume "promotion_review_validate parsed = Inr (ok, errors)"
  then show "ok \<longleftrightarrow> errors = []"
    using validate_against_schema_iff [of parsed promotion_review_schema]
    by (auto simp: promotion_review_validate_def split: prod.splits bool.splits pyval.splits if_splits)
qed

lemma settled_schema: "conforms promotion_review_schema (settled_review parsed) \<Longrightarrow> conforms promotion_review_schema parsed"
  by (auto simp: settled_review_def split: if_splits)

lemma settled_blockers: "blockers (settled_review parsed) = blockers parsed"
  by (simp add: settled_review_def blockers_def)

lemma settled_approval:
  assumes "conforms promotion_review_schema (settled_review parsed)" and "truthy (dict_get (settled_review parsed) ''approved'')"
  shows "blockers (settled_review parsed) = []"
  using assms settled_schema [OF assms(1)] settled_blockers [of parsed]
  by (auto simp: settled_review_def split: if_splits)

text \<open>An accepted review that approves names no blocker, and gives a reason.\<close>

lemma approval_without_blockers:
  assumes "invoke_promotion_review extract show_exn answer dir w = Inr r" and "sr_success r"
    and "truthy (dict_get (sr_output r) ''approved'')"
  shows "blockers (sr_output r) = [] \<and> review_ok (sr_output r)"
proof -
  have ok: "review_ok (sr_output r)"
    using promotion_review.success_keeps_promise [OF assms(1) [unfolded invoke_promotion_review_def] assms(2)] by blast
  moreover obtain parsed where "sr_output r = settled_review parsed"
    using assms(1,2) by (auto simp: invoke_promotion_review_def invoke_skill_def new_result_def split: sum.splits prod.splits)
  ultimately show ?thesis using settled_approval [of parsed] assms(3) by (auto simp: review_ok_def)
qed

end
