(* ===== verification/Promotion_Service.thy ===== *)
theory Promotion_Service
  imports Merge_Gate Promotion_Review
begin

section \<open>The promotion service\<close>

text \<open>
  \<open>services/promotion_service.py\<close>: the review of a candidate by the validators, its affirmation by the
  promotion review skill and the merge gate, the application of an affirmed promotion, and the second
  review after a remediation. The answer of the language model, the files, and the service that
  applies a promotion to the repository are arguments; telemetry is left out.
\<close>

subsection \<open>The surroundings\<close>

datatype text_file = Text string | No_text string | Bad_text exn

record apply_result =
  ar_branch_name :: string
  ar_commit_sha :: string
  ar_pushed_ref :: pyval
  ar_pr_url :: pyval

datatype apply_outcome = Repository_applied apply_result | Process_error | Repository_raises exn

record promotion_env =
  pe_router :: bool
  pe_workspace_root :: string
  pe_validators :: "validator list option"
  pe_registry :: "validator_registry option"
  pe_files :: files
  pe_text :: "string \<Rightarrow> text_file"
  pe_answer :: "pydict \<Rightarrow> string + llm_answer"
  pe_extract :: "string \<Rightarrow> pydict option"
  pe_show :: "exn \<Rightarrow> string"
  pe_writable :: bool
  pe_apply :: "Project \<Rightarrow> Task \<Rightarrow> string \<Rightarrow> pyval \<Rightarrow> apply_outcome"

record PromotionReviewResult =
  pr_promotion :: PromotionRecord
  pr_follow_on_task_id :: "string option"

definition validators_for :: "promotion_env \<Rightarrow> string \<Rightarrow> validator list" where
  "validators_for env profile =
     (if opt_list (pe_validators env) \<noteq> [] then opt_list (pe_validators env)
      else case pe_registry env of
             Some registry \<Rightarrow> registry_validators registry profile
           | None \<Rightarrow> validators_for_profile profile)"

subsection \<open>Selecting a run and a promotion\<close>

definition select_run :: "string \<Rightarrow> string option \<Rightarrow> Run op" where
  "select_run task run =
     (case run of
        Some i \<Rightarrow> bnd (get_run i) (\<lambda>row.
          case row of
            None \<Rightarrow> raise (ValueError (''Unknown run '' @ i @ '' for task '' @ task))
          | Some r \<Rightarrow> if run_task_id r \<noteq> task
              then raise (ValueError (''Unknown run '' @ i @ '' for task '' @ task)) else ret r)
      | None \<Rightarrow> bnd (list_runs (Some task)) (\<lambda>runs.
          if runs = [] then raise (ValueError (''Task '' @ task @ '' has no runs to review'')) else ret (last runs)))"

definition select_promotion :: "string \<Rightarrow> string option \<Rightarrow> string option \<Rightarrow> PromotionRecord op" where
  "select_promotion task run promotion =
     bnd (list_promotions (Some task)) (\<lambda>promotions.
     case promotion of
       Some i \<Rightarrow> (case List.find (\<lambda>p. promotion_id p = i) promotions of
           Some p \<Rightarrow> ret p
         | None \<Rightarrow> raise (ValueError (''Unknown promotion '' @ i @ '' for task '' @ task)))
     | None \<Rightarrow> (case run of
           Some r \<Rightarrow> (let matching = filter (\<lambda>p. promotion_run_id p = r) promotions in
             if matching \<noteq> [] then ret (last matching)
             else raise (ValueError (''No promotion exists for run '' @ r @ '' on task '' @ task)))
         | None \<Rightarrow> if promotions = [] then raise (ValueError (''Task '' @ task @ '' has no promotion reviews''))
             else ret (last promotions)))"

subsection \<open>Issues and follow-on tasks\<close>

definition issue_dict :: "ValidationIssue \<Rightarrow> pyval" where
  "issue_dict i = PDict
     [(''code'', PStr (vi_code i)), (''summary'', PStr (vi_summary i)), (''details'', PDict (vi_details i)),
      (''follow_on_title'', vi_follow_on_title i), (''follow_on_objective'', vi_follow_on_objective i)]"

definition serialize_result :: "ValidationResult \<Rightarrow> pyval" where
  "serialize_result r = PDict
     [(''validator'', PStr (vr_validator r)), (''ok'', PBool (vr_ok r)), (''summary'', PStr (vr_summary r)),
      (''issues'', PList (map issue_dict (vr_issues r)))]"

definition str_or_none :: "pyval \<Rightarrow> pyval" where
  "str_or_none v = (if is_str v then v else PNone)"

definition issue_of_dict :: "pydict \<Rightarrow> ValidationIssue" where
  "issue_of_dict d =
     \<lparr>vi_code = py_str (get_default d ''code'' (PStr ''unknown_issue'')),
      vi_summary = py_str (get_default d ''summary'' (PStr ''Promotion issue'')),
      vi_details = (case dict_get d ''details'' of PDict x \<Rightarrow> x | _ \<Rightarrow> []),
      vi_follow_on_title = str_or_none (dict_get d ''follow_on_title''),
      vi_follow_on_objective = str_or_none (dict_get d ''follow_on_objective'')\<rparr>"

definition issues_of_result :: "pyval \<Rightarrow> exn + ValidationIssue list" where
  "issues_of_result v =
     (case v of
        PDict r \<Rightarrow> rbind (py_list (get_default r ''issues'' (PList []))) (\<lambda>items.
          Inr (concat (map (\<lambda>i. case i of PDict d \<Rightarrow> [issue_of_dict d] | _ \<Rightarrow> []) items)))
      | _ \<Rightarrow> Inr [])"

definition issues_from_promotion_details :: "pydict \<Rightarrow> exn + ValidationIssue list" where
  "issues_from_promotion_details details =
     rbind (py_list (get_default details ''validators'' (PList []))) (\<lambda>results.
     rbind (map_result issues_of_result results) (\<lambda>issues. Inr (concat issues)))"

definition follow_on_from_issues :: "string \<Rightarrow> ValidationIssue list \<Rightarrow> pyval \<times> string" where
  "follow_on_from_issues title issues =
     (if issues = [] then
        (PStr (''Resolve promotion failure for '' @ title),
         ''Address the promotion validation failures recorded for the rejected candidate and regenerate it.'')
      else
        (py_or (vi_follow_on_title (hd issues)) (PStr (''Resolve promotion failure for '' @ title)),
         ''Address all recorded promotion issues:'' @ NL
           @ join NL (map (\<lambda>i. ''- '' @ py_str (py_or (vi_follow_on_objective i) (PStr (vi_summary i)))) issues)))"

text \<open>A title that a report gives as something else than text has no place in the model of a task.\<close>

definition title_text :: "pyval \<Rightarrow> exn + string" where
  "title_text v = (case v of PStr s \<Rightarrow> Inr s | _ \<Rightarrow> Inl (OutsideModel ''a title that is not text''))"

definition follow_on_for :: "string \<Rightarrow> string \<Rightarrow> pyval \<times> string \<Rightarrow> string op" where
  "follow_on_for parent source_run what =
     bnd (find_follow_on_task parent source_run) (\<lambda>existing.
     case existing of
       Some t \<Rightarrow> ret (task_id t)
     | None \<Rightarrow>
         bnd (lift_result (title_text (fst what))) (\<lambda>title.
         bnd (create_follow_on_task parent source_run (follow_on_default title (snd what))) (\<lambda>t.
         ret (task_id t))))"

definition when_some :: "bool \<Rightarrow> 'a op \<Rightarrow> 'a option op" where
  "when_some b m = (if b then bnd m (\<lambda>a. ret (Some a)) else ret None)"

definition new_promotion :: "string \<Rightarrow> string \<Rightarrow> PromotionStatus \<Rightarrow> string \<Rightarrow> pydict \<Rightarrow> PromotionRecord op" where
  "new_promotion task run status summary details =
     bnd (new_id ''promotion'') (\<lambda>i.
     bnd utc_now (\<lambda>now.
     let promotion = \<lparr>promotion_id = i, promotion_task_id = task, promotion_run_id = run, promotion_status = status,
           promotion_summary = summary, promotion_details = details, promotion_created_at = now\<rparr>
     in bnd (create_promotion promotion) (\<lambda>_. ret promotion)))"

subsection \<open>Review\<close>

definition known_task :: "string \<Rightarrow> string \<Rightarrow> Task op" where
  "known_task what i =
     bnd (get_task i) (\<lambda>row. case row of None \<Rightarrow> raise (ValueError (what @ '': '' @ i)) | Some t \<Rightarrow> ret t)"

definition conclude_review ::
  "Task \<Rightarrow> Run \<Rightarrow> ValidationResult list \<Rightarrow> bool \<Rightarrow> PromotionReviewResult op"
where
  "conclude_review task run results create_follow_on =
     (let issues = all_issues results in
      if issues = [] then
        bnd (new_promotion (task_id task) (run_id run) PS_PENDING
               ''Deterministic promotion gates passed; awaiting LLM affirmation.''
               [(''validators'', PList (map serialize_result results)), (''affirmation_required'', PBool True)]) (\<lambda>p.
        bnd (emit ''task'' (task_id task) ''promotion_pending''
               [(''promotion_id'', PStr (promotion_id p)), (''run_id'', PStr (run_id run))]) (\<lambda>_.
        ret \<lparr>pr_promotion = p, pr_follow_on_task_id = None\<rparr>))
      else
        bnd (when_some create_follow_on
               (follow_on_for (task_id task) (run_id run) (follow_on_from_issues (task_title task) issues))) (\<lambda>follow_on.
        bnd (new_promotion (task_id task) (run_id run) PS_REJECTED ''Promotion review rejected the candidate.''
               [(''validators'', PList (map serialize_result results)), (''issue_count'', PInt (int (length issues))),
                (''follow_on_task_id'', opt_val follow_on)]) (\<lambda>p.
        bnd (emit ''task'' (task_id task) ''promotion_rejected''
               [(''promotion_id'', PStr (promotion_id p)), (''run_id'', PStr (run_id run)),
                (''follow_on_task_id'', opt_val follow_on)]) (\<lambda>_.
        ret \<lparr>pr_promotion = p, pr_follow_on_task_id = follow_on\<rparr>))))"

definition review_task :: "promotion_env \<Rightarrow> string \<Rightarrow> string option \<Rightarrow> bool \<Rightarrow> PromotionReviewResult op" where
  "review_task env i run_arg create_follow_on =
     bnd (known_task ''Unknown task'' i) (\<lambda>task.
     bnd (select_run i run_arg) (\<lambda>run.
     if run_status run \<noteq> RS_COMPLETED then raise (ValueError (''Run '' @ run_id run @ '' is not promotion-eligible''))
     else
     bnd (list_artifacts (run_id run)) (\<lambda>artifacts.
     bnd (lift_result (run_validators (validators_for env (task_validation_profile task)) (pe_files env) task artifacts)) (\<lambda>results.
     conclude_review task run results create_follow_on))))"

definition conclude_rereview ::
  "Task \<Rightarrow> string \<Rightarrow> Task \<Rightarrow> PromotionRecord option \<Rightarrow> Run \<Rightarrow> ValidationResult list \<Rightarrow> bool \<Rightarrow> PromotionReviewResult op"
where
  "conclude_rereview task remediation remediation_task base run results create_follow_on =
     (let issues = all_issues results;
          common = [(''review_mode'', PStr ''rereview''), (''base_promotion_id'', opt_val (map_option promotion_id base)),
            (''remediation_task_id'', PStr remediation), (''remediation_run_id'', PStr (run_id run))] in
      if issues = [] then
        bnd (new_promotion (task_id task) (run_id run) PS_PENDING
               ''Remediation candidate passed deterministic gates; awaiting LLM affirmation.''
               ([(''validators'', PList (map serialize_result results)), (''affirmation_required'', PBool True)] @ common)) (\<lambda>p.
        ret \<lparr>pr_promotion = p, pr_follow_on_task_id = None\<rparr>)
      else
        bnd (when_some create_follow_on
               (follow_on_for (task_id remediation_task) (run_id run) (follow_on_from_issues (task_title task) issues))) (\<lambda>follow_on.
        bnd (new_promotion (task_id task) (run_id run) PS_REJECTED ''Remediation candidate failed re-review.''
               ((''validators'', PList (map serialize_result results)) # common
                 @ [(''follow_on_task_id'', opt_val follow_on)])) (\<lambda>p.
        ret \<lparr>pr_promotion = p, pr_follow_on_task_id = follow_on\<rparr>)))"

definition rereview_task ::
  "promotion_env \<Rightarrow> string \<Rightarrow> string \<Rightarrow> string option \<Rightarrow> string option \<Rightarrow> bool \<Rightarrow> PromotionReviewResult op"
where
  "rereview_task env i remediation run_arg base_id create_follow_on =
     bnd (known_task ''Unknown task'' i) (\<lambda>task.
     bnd (known_task ''Unknown remediation task'' remediation) (\<lambda>remediation_task.
     bnd (if opt_str base_id \<noteq> [] then bnd (select_promotion i None base_id) (\<lambda>p. ret (Some p))
          else latest_promotion i) (\<lambda>base.
     bnd (select_run remediation run_arg) (\<lambda>run.
     bnd (list_artifacts (run_id run)) (\<lambda>artifacts.
     bnd (lift_result (run_validators (validators_for env (task_validation_profile task)) (pe_files env) task artifacts)) (\<lambda>results.
     conclude_rereview task remediation remediation_task base run results create_follow_on))))))"

definition decompose_review_findings_to_atomic_tasks :: "string \<Rightarrow> string \<Rightarrow> pydict list \<Rightarrow> string list op" where
  "decompose_review_findings_to_atomic_tasks parent source_run findings =
     bnd (create_tasks_from_review_findings parent source_run findings) (\<lambda>created. ret (map task_id created))"

subsection \<open>What the reviewer is shown\<close>

text \<open>The files of the artifacts are read in order; one that cannot be read is skipped, but a document of
  an unexpected shape raises.\<close>

definition json_or_skip :: "files \<Rightarrow> string \<Rightarrow> exn + pyval option" where
  "json_or_skip fs path =
     (case fs_json fs path of
        Loaded v \<Rightarrow> Inr (Some v)
      | Unreadable _ \<Rightarrow> Inr None
      | Undecodable e \<Rightarrow> (case e of ValueError _ \<Rightarrow> Inr None | KeyError _ \<Rightarrow> Inr None | _ \<Rightarrow> Inl e))"

definition as_dict :: "pyval \<Rightarrow> exn + pydict" where
  "as_dict v = (case v of PDict d \<Rightarrow> Inr d | _ \<Rightarrow> Inl (AttributeError ''object has no attribute get''))"

definition changed_paths :: "pyval list \<Rightarrow> string list" where
  "changed_paths entries =
     concat (map (\<lambda>e. case e of PDict d \<Rightarrow> if truthy (dict_get d ''path'') then [py_str (dict_get d ''path'')] else []
                                | _ \<Rightarrow> []) entries)"

definition scan_artifact :: "files \<Rightarrow> Artifact \<Rightarrow> string \<times> string list \<Rightarrow> exn + string \<times> string list" where
  "scan_artifact fs a found =
     (if artifact_kind a \<notin> {''scope_output'', ''implementation_output'', ''report''} then Inr found
      else rbind (json_or_skip fs (artifact_path a)) (\<lambda>loaded.
      case loaded of
        None \<Rightarrow> Inr found
      | Some v \<Rightarrow>
          rbind (as_dict v) (\<lambda>payload.
          if artifact_kind a = ''report'' then
            rbind (py_list (py_or (dict_get payload ''changed_files'') (PList []))) (\<lambda>items.
            Inr (fst found, snd found @ map py_str items))
          else
            rbind (as_dict (py_or (dict_get payload ''output'') (PDict []))) (\<lambda>output.
            if artifact_kind a = ''scope_output'' then Inr (str_or_empty (dict_get output ''approach''), snd found)
            else rbind (py_list (py_or (dict_get output ''changed_files'') (PList []))) (\<lambda>entries.
              Inr (fst found, snd found @ changed_paths entries))))))"

fun scan_artifacts :: "files \<Rightarrow> Artifact list \<Rightarrow> string \<times> string list \<Rightarrow> exn + string \<times> string list" where
  "scan_artifacts fs [] found = Inr found"
| "scan_artifacts fs (a # rest) found = rbind (scan_artifact fs a found) (scan_artifacts fs rest)"

definition in_first_order :: "'a list \<Rightarrow> 'a list" where
  "in_first_order xs = rev (remdups (rev xs))"

definition artifact_section :: "(string \<Rightarrow> text_file) \<Rightarrow> Artifact \<Rightarrow> exn + string" where
  "artifact_section text a =
     rbind (case text (artifact_path a) of
              Text s \<Rightarrow> Inr s | No_text err \<Rightarrow> Inr (''<unreadable: '' @ err @ ''>'') | Bad_text e \<Rightarrow> Inl e) (\<lambda>content.
     let content = (if 4000 < length content then take 4000 content @ NL @ ''...<truncated>'' else content)
     in Inr (''## '' @ artifact_kind a @ '': '' @ artifact_path a @ NL @ content))"

definition artifact_contents :: "(string \<Rightarrow> text_file) \<Rightarrow> Artifact list \<Rightarrow> exn + string" where
  "artifact_contents text artifacts =
     rbind (map_result (artifact_section text) (filter (\<lambda>a. artifact_kind a \<in> {''report'', ''plan''}) artifacts)) (\<lambda>sections.
     Inr (if sections = [] then ''<no readable artifact contents>'' else join (NL @ NL) sections))"

definition build_review_inputs :: "promotion_env \<Rightarrow> Task \<Rightarrow> PromotionRecord \<Rightarrow> Artifact list \<Rightarrow> exn + pydict" where
  "build_review_inputs env task promotion artifacts =
     rbind (scan_artifacts (pe_files env) artifacts ([], [])) (\<lambda>(approach, changed).
     rbind (artifact_contents (pe_text env) artifacts) (\<lambda>contents.
     Inr [(''title'', PStr (task_title task)), (''objective'', PStr (task_objective task)), (''diff'', PStr contents),
          (''validation_summary'',
             PStr (py_str (get_default (promotion_details promotion) ''validators'' (PList [])))),
          (''scope_approach'', PStr approach), (''changed_files'', str_list (in_first_order changed))]))"

subsection \<open>Applying an affirmed promotion\<close>

definition workspace_details_for_run :: "string \<Rightarrow> pydict option op" where
  "workspace_details_for_run run =
     bnd (list_events (Some ''run'') (Some run)) (\<lambda>events.
     ret (map_option event_payload
       (List.find (\<lambda>e. event_event_type e = ''project_workspace_prepared'') (rev events))))"

definition skipped :: "string \<Rightarrow> (string \<times> pyval) list \<Rightarrow> pydict" where
  "skipped reason extra = [(''status'', PStr ''skipped''), (''reason'', PStr reason)] @ extra"

definition remediation_branch :: "Task \<Rightarrow> pyval" where
  "remediation_branch task =
     (case dict_get (task_external_ref_metadata task) ''promotion_remediation'' of
        PDict d \<Rightarrow> dict_get d ''branch_name'' | _ \<Rightarrow> PNone)"

definition apply_in_repository :: "promotion_env \<Rightarrow> Project \<Rightarrow> Task \<Rightarrow> pydict \<Rightarrow> exn + pydict" where
  "apply_in_repository env project task details =
     (if \<not> dict_has details ''project_root'' then Inl (KeyError ''project_root'')
      else case dict_get details ''project_root'' of
        PStr project_root \<Rightarrow>
          (let target = remediation_branch task in
           case pe_apply env project task project_root target of
             Repository_raises e \<Rightarrow> Inl e
           | Process_error \<Rightarrow> Inr (skipped ''non_git_workspace'' [(''workspace_mode'', dict_get details ''workspace_mode'')])
           | Repository_applied r \<Rightarrow>
               Inr [(''status'', PStr ''applied''), (''branch_name'', PStr (ar_branch_name r)),
                    (''commit_sha'', PStr (ar_commit_sha r)), (''pushed_ref'', ar_pushed_ref r),
                    (''pr_url'', ar_pr_url r),
                    (''promotion_mode'', PStr (PromotionMode_value (project_promotion_mode project))),
                    (''updated_existing_review'', PBool (truthy target))])
      | _ \<Rightarrow> Inl (TypeError ''argument should be a str''))"

definition apply_approved_promotion :: "promotion_env \<Rightarrow> Task \<Rightarrow> Run \<Rightarrow> pydict op" where
  "apply_approved_promotion env task run =
     bnd (get_project (task_project_id task)) (\<lambda>row.
     case row of
       None \<Rightarrow> raise (ValueError (''Unknown project for task: '' @ task_project_id task))
     | Some project \<Rightarrow>
         bnd (workspace_details_for_run (run_id run)) (\<lambda>found.
         case found of
           None \<Rightarrow> ret (skipped ''missing_workspace_details'' [])
         | Some details \<Rightarrow>
             (case dict_get details ''workspace_mode'' of
                PList _ \<Rightarrow> raise (TypeError ''unhashable type'')
              | PDict _ \<Rightarrow> raise (TypeError ''unhashable type'')
              | mode \<Rightarrow>
                  if mode \<notin> {PStr ''git_worktree'', PStr ''git_clone''}
                  then ret (skipped ''non_git_workspace'' [(''workspace_mode'', mode)])
                  else lift_result (apply_in_repository env project task details))))"

subsection \<open>Affirmation\<close>

definition affirmation_run_dir :: "promotion_env \<Rightarrow> string \<Rightarrow> string op" where
  "affirmation_run_dir env i =
     bnd (get_run i) (\<lambda>row.
     case row of
       None \<Rightarrow> raise (ValueError (''Unknown run: '' @ i))
     | Some run \<Rightarrow> ret (pe_workspace_root env @ ''/runs/'' @ run_id run @ ''/promotion_affirmation''))"

definition review_verdict :: "SkillResult \<Rightarrow> bool \<times> string \<times> pyval list" where
  "review_verdict r =
     (if \<not> sr_success r then (False, ''promotion_review skill failed: '' @ join ''; '' (sr_errors r), [])
      else (truthy (dict_get (sr_output r) ''approved''), str_or_empty (dict_get (sr_output r) ''rationale''),
        case py_list (py_or (dict_get (sr_output r) ''concerns'') (PList [])) of Inr cs \<Rightarrow> cs | Inl _ \<Rightarrow> []))"

definition affirmation_dict :: "SkillResult \<Rightarrow> pydict" where
  "affirmation_dict r =
     (case review_verdict r of (approved, rationale, concerns) \<Rightarrow>
       [(''backend'', PStr (or_default (opt_str (sr_llm_backend r)) ''unknown'')),
        (''response_path'', PStr (opt_str (sr_response_path r))), (''prompt_path'', PStr (opt_str (sr_prompt_path r))),
        (''rationale'', PStr rationale), (''approved'', PBool approved), (''concerns'', PList concerns),
        (''skill'', PStr ''promotion_review'')])"

text \<open>The merge gate may only take an approval back; when it raises, the approval stands.\<close>

definition gate_verdict :: "promotion_env \<Rightarrow> store \<Rightarrow> string \<Rightarrow> bool \<times> (string \<times> pyval)" where
  "gate_verdict env s run =
     (case fst (evaluate_run (pe_files env) MergePolicy_default run s) of
        Inl e \<Rightarrow> (True, (''merge_gate_error'', PStr (pe_show env e)))
      | Inr d \<Rightarrow> (filter (\<lambda>c. c \<noteq> ''missing_report'') (md_concerns d) = [],
                   (''merge_gate_concerns'', str_list (md_concerns d))))"

definition update_and_emit :: "PromotionRecord \<Rightarrow> Task \<Rightarrow> string \<Rightarrow> pydict \<Rightarrow> unit op" where
  "update_and_emit p task event payload =
     bnd (update_promotion p) (\<lambda>_. emit ''task'' (task_id task) event payload)"

definition approve_promotion ::
  "promotion_env \<Rightarrow> Task \<Rightarrow> Run \<Rightarrow> PromotionRecord \<Rightarrow> pydict \<Rightarrow> string \<Rightarrow> PromotionReviewResult op"
where
  "approve_promotion env task run promotion details backend =
     bnd (apply_approved_promotion env task run) (\<lambda>applyback.
     let p = promotion\<lparr>promotion_status := PS_APPROVED,
               promotion_summary := ''Promotion affirmed by deterministic gates and LLM review.'',
               promotion_details := dict_set ''applyback'' (PDict applyback) details\<rparr> in
     bnd (update_and_emit p task ''promotion_approved''
            [(''promotion_id'', PStr (promotion_id p)), (''run_id'', PStr (run_id run)), (''llm_backend'', PStr backend)]) (\<lambda>_.
     bnd (when_do (dict_get applyback ''status'' = PStr ''applied'')
            (emit ''task'' (task_id task) ''promotion_applied''
              (dict_update [(''promotion_id'', PStr (promotion_id p)), (''run_id'', PStr (run_id run))] applyback))) (\<lambda>_.
     ret \<lparr>pr_promotion = p, pr_follow_on_task_id = None\<rparr>)))"

definition reject_promotion ::
  "Task \<Rightarrow> Run \<Rightarrow> PromotionRecord \<Rightarrow> pydict \<Rightarrow> string \<Rightarrow> bool \<Rightarrow> PromotionReviewResult op"
where
  "reject_promotion task run promotion details backend create_follow_on =
     bnd (lift_result (issues_from_promotion_details (promotion_details promotion))) (\<lambda>issues.
     bnd (when_some create_follow_on (follow_on_for (task_id task) (run_id run)
            (if issues \<noteq> [] then follow_on_from_issues (task_title task) issues
             else (PStr (''Address LLM promotion concerns for '' @ task_title task),
               ''Resolve the LLM promotion concerns recorded in the affirmation rationale and regenerate the candidate.'')))) (\<lambda>follow_on.
     let p = promotion\<lparr>promotion_status := PS_REJECTED, promotion_summary := ''Promotion rejected by LLM affirmation.'',
               promotion_details := dict_set ''follow_on_task_id'' (opt_val follow_on) details\<rparr> in
     bnd (update_and_emit p task ''promotion_rejected''
            [(''promotion_id'', PStr (promotion_id p)), (''run_id'', PStr (run_id run)),
             (''follow_on_task_id'', opt_val follow_on), (''llm_backend'', PStr backend)]) (\<lambda>_.
     ret \<lparr>pr_promotion = p, pr_follow_on_task_id = follow_on\<rparr>)))"

definition invoke_review :: "promotion_env \<Rightarrow> Task \<Rightarrow> PromotionRecord \<Rightarrow> Run \<Rightarrow> SkillResult op" where
  "invoke_review env task promotion run =
     bnd (list_artifacts (run_id run)) (\<lambda>artifacts.
     bnd (lift_result (build_review_inputs env task promotion artifacts)) (\<lambda>inputs.
     bnd (affirmation_run_dir env (run_id run)) (\<lambda>dir.
     lift_result (invoke_promotion_review (pe_extract env) (pe_show env) (pe_answer env inputs) dir (pe_writable env)))))"

definition conclude_affirmation ::
  "promotion_env \<Rightarrow> Task \<Rightarrow> PromotionRecord \<Rightarrow> Run \<Rightarrow> SkillResult \<Rightarrow> bool \<Rightarrow> PromotionReviewResult op"
where
  "conclude_affirmation env task promotion run r create_follow_on =
     (let approved = fst (review_verdict r); backend = or_default (opt_str (sr_llm_backend r)) ''unknown'' in
      bnd (reads (\<lambda>s. gate_verdict env s (run_id run))) (\<lambda>gate.
      let affirmation = (if approved then affirmation_dict r @ [snd gate] else affirmation_dict r);
          details = dict_set ''affirmation'' (PDict affirmation) (promotion_details promotion) in
      if approved \<and> fst gate then approve_promotion env task run promotion details backend
      else reject_promotion task run promotion details backend create_follow_on))"

definition affirm_review ::
  "promotion_env \<Rightarrow> string \<Rightarrow> string option \<Rightarrow> string option \<Rightarrow> bool \<Rightarrow> PromotionReviewResult op"
where
  "affirm_review env i run_arg promotion_arg create_follow_on =
     (if \<not> pe_router env then raise (ValueError ''No LLM router configured for promotion affirmation'')
      else
     bnd (known_task ''Unknown task'' i) (\<lambda>task.
     bnd (select_promotion i run_arg promotion_arg) (\<lambda>promotion.
     if promotion_status promotion \<noteq> PS_PENDING
     then raise (ValueError (''Promotion '' @ promotion_id promotion @ '' is not pending affirmation''))
     else
     bnd (select_run i (Some (promotion_run_id promotion))) (\<lambda>run.
     bnd (invoke_review env task promotion run) (\<lambda>r.
     conclude_affirmation env task promotion run r create_follow_on)))))"

end
