(* ===== verification/Promotion_Props.thy ===== *)
theory Promotion_Props
  imports Promotion_Service
begin

section \<open>What a promotion goes through\<close>

text \<open>
  The review by the validators, the affirmation, and the second review after a remediation: which
  promotions become pending, which of them are approved, and which can never be.
\<close>

subsection \<open>Steps\<close>

lemma known_task_run: "known_task what i s = (Inr task, t) \<longleftrightarrow> t = s \<and> find_key task_id i (st_tasks s) = Some task"
  by (auto simp: known_task_def get_task_def bnd_run raise_run ret_run split: option.splits)

lemma select_run_run:
  assumes "select_run task run_arg s = (Inr run, t)"
  shows "t = s \<and> run \<in> set (st_runs s) \<and> (task \<noteq> [] \<longrightarrow> run_task_id run = task) \<and> (\<forall>i. run_arg = Some i \<longrightarrow> run_id run = i)"
proof (cases run_arg)
  case None
  let ?runs = "filter (\<lambda>r. clause (Some task) (Some (run_task_id r))) (st_runs s)"
  from assms None have "t = s" "run = last (order_by run_created_at ?runs)" "order_by run_created_at ?runs \<noteq> []"
    by (auto simp: select_run_def list_runs_def bnd_run raise_run ret_run split: if_splits)
  then have "run \<in> set ?runs" using last_in_set set_order_by by metis
  with \<open>t = s\<close> None show ?thesis by (auto simp: clause_def)
next
  case (Some i)
  with assms show ?thesis
    by (auto simp: select_run_def get_run_def bnd_run raise_run ret_run dest: find_key_Some
        split: option.splits if_splits)
qed

lemma emit_promotions: "keeps st_promotions (emit a b c d)"
  unfolding emit_def create_event_def
  by (intro keep_rules new_id_keeps utc_now_keeps keeps_try_write)
    (auto simp: rbind_def split: sum.splits)

lemma new_promotion_run:
  assumes "new_promotion task run status summary details s = (Inr p, t)"
  shows "promotion_status p = status \<and> promotion_task_id p = task \<and> promotion_run_id p = run
    \<and> \<not> has_key promotion_id (promotion_id p) (st_promotions s)
    \<and> st_promotions t = st_promotions s @ [p\<lparr>promotion_details := json_column details\<rparr>] \<and> st_tasks t = st_tasks s
    \<and> st_runs t = st_runs s"
  using assms
  by (auto simp: new_promotion_def new_id_def utc_now_def create_promotion_def bnd_run try_write_run ret_run insert_fk_def Let_def
      split: sum.splits if_splits prod.splits)

lemma result_of_each: "map_result f xs = Inr ys \<Longrightarrow> x \<in> set xs \<Longrightarrow> \<exists>y. f x = Inr y"
  by (induction xs arbitrary: ys) (auto simp: rbind_Inr_iff)

lemma payloads_decodable: "report_payloads fs artifacts = Inr x \<Longrightarrow> decodable fs artifacts"
  by (induction artifacts arbitrary: x)
    (auto simp: decodable_def rbind_Inr_iff split: if_splits json_file.splits)

lemma profile_check_always: "ValidationProfileEvidenceValidator \<in> set (validators_for_profile profile)"
  by (simp add: validators_for_profile_def insert_before_last_def Let_def)

lemma validators_verdict:
  assumes "run_validators (validators_for_profile (task_validation_profile task)) fs task artifacts = Inr results"
  shows "all_issues results = [] \<longleftrightarrow> evidence_complete fs task artifacts"
proof -
  obtain r where "ValidationProfileEvidenceValidator fs task artifacts = Inr r"
    using result_of_each [OF assms [unfolded run_validators_def] profile_check_always] by blast
  then have "decodable fs artifacts"
    using payloads_decodable
    by (auto simp: ValidationProfileEvidenceValidator_def with_reports_def rbind_Inr_iff)
  from profile_validators_agree [OF this, of task] assms show ?thesis by (auto simp: agree_def)
qed

definition run_artifacts :: "store \<Rightarrow> string \<Rightarrow> Artifact list" where
  "run_artifacts s run = order_by artifact_created_at (filter (\<lambda>a. artifact_run_id a = run) (st_artifacts s))"

definition standard_validators :: "promotion_env \<Rightarrow> bool" where
  "standard_validators env \<longleftrightarrow> opt_list (pe_validators env) = [] \<and> pe_registry env \<in> {None, Some new_registry}"

lemma standard_validators_for: "standard_validators env \<Longrightarrow> validators_for env profile = validators_for_profile profile"
  by (auto simp: standard_validators_def validators_for_def new_registry_def registry_validators_def)

subsection \<open>Review\<close>

text \<open>What a review leaves: a promotion of the task and the selected run, pending without a follow-on
  task or rejected, stored as the last row.\<close>

definition reviewed :: "string \<Rightarrow> Run \<Rightarrow> PromotionReviewResult \<Rightarrow> store \<Rightarrow> bool" where
  "reviewed i run r t \<longleftrightarrow>
     (let p = pr_promotion r in promotion_task_id p = i \<and> promotion_run_id p = run_id run
        \<and> promotion_status p \<in> {PS_PENDING, PS_REJECTED}
        \<and> (promotion_status p = PS_PENDING \<longrightarrow> pr_follow_on_task_id r = None)
        \<and> (\<exists>rows. st_promotions t = rows @ [p\<lparr>promotion_details := json_column (promotion_details p)\<rparr>]))"

lemma new_promotion_details: "new_promotion task run status summary details s = (Inr p, t) \<Longrightarrow> promotion_details p = details"
  by (auto simp: new_promotion_def new_id_def utc_now_def create_promotion_def bnd_run try_write_run ret_run insert_fk_def Let_def
      split: sum.splits if_splits prod.splits)

lemma conclude_review_run:
  assumes "conclude_review task run results create_follow_on s = (Inr r, t)"
  shows "reviewed (task_id task) run r t \<and> (promotion_status (pr_promotion r) = PS_PENDING \<longleftrightarrow> all_issues results = [])
    \<and> (create_follow_on \<and> promotion_status (pr_promotion r) = PS_REJECTED \<longrightarrow> pr_follow_on_task_id r \<noteq> None)"
proof (cases "all_issues results = []")
  case True
  with assms obtain pm details summary u where
    "new_promotion (task_id task) (run_id run) PS_PENDING summary details s = (Inr pm, u)"
    "r = \<lparr>pr_promotion = pm, pr_follow_on_task_id = None\<rparr>" "st_promotions t = st_promotions u"
    by (auto simp: conclude_review_def bnd_Inr_iff ret_run dest!: keeps_run [OF emit_promotions])
  with True new_promotion_run [of "task_id task"] new_promotion_details [of "task_id task"] show ?thesis
    by (fastforce simp: reviewed_def Let_def)
next
  case False
  with assms obtain f pm details summary u v where
    "new_promotion (task_id task) (run_id run) PS_REJECTED summary details u = (Inr pm, v)"
    "r = \<lparr>pr_promotion = pm, pr_follow_on_task_id = f\<rparr>" "st_promotions t = st_promotions v"
    "create_follow_on \<longrightarrow> f \<noteq> None"
    by (auto simp: conclude_review_def bnd_Inr_iff ret_run when_some_def Let_def
        dest!: keeps_run [OF emit_promotions] split: if_splits)
  with False new_promotion_run [of "task_id task"] new_promotion_details [of "task_id task"] show ?thesis
    by (fastforce simp: reviewed_def Let_def)
qed

lemma review_core:
  assumes run: "review_task env i run_arg create_follow_on s = (Inr r, t)" and std: "standard_validators env"
  shows "\<exists>task run. find_key task_id i (st_tasks s) = Some task \<and> run \<in> set (st_runs s) \<and> (i \<noteq> [] \<longrightarrow> run_task_id run = i)
    \<and> run_status run = RS_COMPLETED \<and> reviewed i run r t
    \<and> (promotion_status (pr_promotion r) = PS_PENDING
         \<longleftrightarrow> evidence_complete (pe_files env) task (run_artifacts s (run_id run)))
    \<and> (create_follow_on \<and> promotion_status (pr_promotion r) = PS_REJECTED \<longrightarrow> pr_follow_on_task_id r \<noteq> None)"
proof -
  from run [unfolded review_task_def] obtain task s1 where "known_task ''Unknown task'' i s = (Inr task, s1)"
    and rest: "bnd (select_run i run_arg) (\<lambda>run. if run_status run \<noteq> RS_COMPLETED
         then raise (ValueError (''Run '' @ run_id run @ '' is not promotion-eligible''))
         else bnd (list_artifacts (run_id run)) (\<lambda>artifacts.
           bnd (lift_result (run_validators (validators_for env (task_validation_profile task)) (pe_files env) task artifacts)) (\<lambda>results.
           conclude_review task run results create_follow_on))) s1 = (Inr r, t)"
    by (rule bnd_InrE)
  then have s1: "s1 = s" and found: "find_key task_id i (st_tasks s) = Some task" by (simp_all add: known_task_run)
  then have i: "task_id task = i" using find_key_Some by metis
  from rest [unfolded s1] obtain picked s2 where picked: "select_run i run_arg s = (Inr picked, s2)"
    and rest: "(if run_status picked \<noteq> RS_COMPLETED
         then raise (ValueError (''Run '' @ run_id picked @ '' is not promotion-eligible''))
         else bnd (list_artifacts (run_id picked)) (\<lambda>artifacts.
           bnd (lift_result (run_validators (validators_for env (task_validation_profile task)) (pe_files env) task artifacts)) (\<lambda>results.
           conclude_review task picked results create_follow_on))) s2 = (Inr r, t)"
    by (rule bnd_InrE)
  note p = select_run_run [OF picked]
  let ?as = "run_artifacts s (run_id picked)"
  have eligible: "run_status picked = RS_COMPLETED" using rest by (auto simp: raise_run split: if_splits)
  with rest p obtain results where
    results: "run_validators (validators_for_profile (task_validation_profile task)) (pe_files env) task ?as = Inr results"
    and last: "conclude_review task picked results create_follow_on s = (Inr r, t)"
    by (auto simp: standard_validators_for [OF std] bnd_Inr_iff list_artifacts_def run_artifacts_def lift_result_run)
  from conclude_review_run [OF last] show ?thesis
    using found p eligible i validators_verdict [OF results] by auto
qed

text \<open>C35. With the standard validators a review that returns has selected a completed run of the task and
  stored a promotion for it, and this promotion is pending exactly when the evidence of the run is
  complete: its required artifacts are there, all artifact files exist, every report can be read and
  none is blocked, the profile matches, changed files and a passing compile check are named, and the
  evidence of the task's profile is given. Otherwise it is rejected, with a follow-on task when one was
  asked for.\<close>

theorem review_accepts_complete_evidence:
  assumes "review_task env i run_arg create_follow_on s = (Inr r, t)" and "standard_validators env"
  shows "\<exists>task run. find_key task_id i (st_tasks s) = Some task \<and> run \<in> set (st_runs s) \<and> (i \<noteq> [] \<longrightarrow> run_task_id run = i)
    \<and> run_status run = RS_COMPLETED \<and> reviewed i run r t
    \<and> (promotion_status (pr_promotion r) = PS_PENDING
         \<longleftrightarrow> evidence_complete (pe_files env) task (run_artifacts s (run_id run)))
    \<and> (create_follow_on \<and> promotion_status (pr_promotion r) = PS_REJECTED \<longrightarrow> pr_follow_on_task_id r \<noteq> None)"
  by (rule review_core [OF assms])

subsection \<open>Affirmation\<close>

definition gate_open :: "promotion_env \<Rightarrow> store \<Rightarrow> string \<Rightarrow> bool" where
  "gate_open env s run \<longleftrightarrow>
     (case fst (evaluate_run (pe_files env) MergePolicy_default run s) of
        Inl _ \<Rightarrow> True | Inr d \<Rightarrow> set (md_concerns d) \<subseteq> {''missing_report''})"

lemma gate_verdict_open: "fst (gate_verdict env s run) \<longleftrightarrow> gate_open env s run"
  by (auto simp: gate_verdict_def gate_open_def filter_empty_conv split: sum.split)

lemma select_promotion_keeps: "keeps (\<lambda>s. s) (select_promotion task run promotion)"
  unfolding select_promotion_def list_promotions_def Let_def by (intro keep_rules)

lemma select_promotion_run:
  "select_promotion task run promotion s = (Inr p, t) \<Longrightarrow>
    t = s \<and> p \<in> set (st_promotions s) \<and> (task \<noteq> [] \<longrightarrow> promotion_task_id p = task)"
proof -
  assume a: "select_promotion task run promotion s = (Inr p, t)"
  let ?ps = "order_by promotion_created_at (filter (\<lambda>p. clause (Some task) (Some (promotion_task_id p))) (st_promotions s))"
  have "p \<in> set ?ps"
  proof (cases promotion)
    case (Some i)
    with a have "List.find (\<lambda>p. promotion_id p = i) ?ps = Some p"
      by (auto simp: select_promotion_def list_promotions_def bnd_run raise_run ret_run split: option.splits)
    then show ?thesis by (metis find_Some_iff nth_mem)
  next
    case None
    have "xs \<noteq> [] \<Longrightarrow> set xs \<subseteq> set ?ps \<Longrightarrow> last xs \<in> set ?ps" for xs by (meson last_in_set subsetD)
    with a None show ?thesis
      unfolding select_promotion_def list_promotions_def
      by (auto simp: bnd_run raise_run ret_run Let_def simp del: set_order_by split: option.splits if_splits)
  qed
  then show ?thesis using keeps_run [OF select_promotion_keeps a] by (auto simp: clause_def)
qed

lemma invoke_review_keeps: "keeps (\<lambda>s. s) (invoke_review env task promotion run)"
  unfolding invoke_review_def list_artifacts_def affirmation_run_dir_def get_run_def by (intro keep_rules)

lemma invoke_review_run:
  "invoke_review env task promotion run s = (Inr r, t) \<Longrightarrow>
    \<exists>inputs dir. invoke_promotion_review (pe_extract env) (pe_show env) (pe_answer env inputs) dir (pe_writable env) = Inr r"
  by (auto simp: invoke_review_def list_artifacts_def affirmation_run_dir_def get_run_def bnd_Inr_iff lift_result_run)

lemma approve_promotion_run:
  assumes "approve_promotion env task run promotion details backend s = (Inr r, t)"
  shows "promotion_status (pr_promotion r) = PS_APPROVED \<and> promotion_id (pr_promotion r) = promotion_id promotion
    \<and> pr_follow_on_task_id r = None"
  using assms by (auto simp: approve_promotion_def bnd_Inr_iff ret_run Let_def)

lemma reject_promotion_run:
  assumes "reject_promotion task run promotion details backend create_follow_on s = (Inr r, t)"
  shows "promotion_status (pr_promotion r) = PS_REJECTED \<and> promotion_id (pr_promotion r) = promotion_id promotion
    \<and> (create_follow_on \<longrightarrow> pr_follow_on_task_id r \<noteq> None)"
  using assms by (auto simp: reject_promotion_def bnd_Inr_iff ret_run Let_def when_some_def split: if_splits)

lemma conclude_affirmation_run:
  assumes "conclude_affirmation env task p run r create_follow_on s = (Inr res, t)"
  shows "promotion_id (pr_promotion res) = promotion_id p
    \<and> (promotion_status (pr_promotion res) = PS_APPROVED \<longleftrightarrow>
         sr_success r \<and> truthy (dict_get (sr_output r) ''approved'') \<and> gate_open env s (run_id run))
    \<and> (promotion_status (pr_promotion res) \<noteq> PS_APPROVED \<longrightarrow> promotion_status (pr_promotion res) = PS_REJECTED
         \<and> (create_follow_on \<longrightarrow> pr_follow_on_task_id res \<noteq> None))"
proof -
  have verdict: "fst (review_verdict r) \<longleftrightarrow> sr_success r \<and> truthy (dict_get (sr_output r) ''approved'')"
    by (simp add: review_verdict_def)
  show ?thesis
  proof (cases "fst (review_verdict r) \<and> gate_open env s (run_id run)")
    case True
    with assms obtain details backend where "approve_promotion env task run p details backend s = (Inr res, t)"
      by (auto simp: conclude_affirmation_def gate_verdict_open Let_def)
    from approve_promotion_run [OF this] True verdict show ?thesis by simp
  next
    case False
    with assms obtain details backend where "reject_promotion task run p details backend create_follow_on s = (Inr res, t)"
      by (auto simp: conclude_affirmation_def gate_verdict_open Let_def split: if_splits)
    from reject_promotion_run [OF this] False verdict show ?thesis by auto
  qed
qed

lemma affirm_core:
  assumes "affirm_review env i run_arg promotion_arg create_follow_on s = (Inr res, t)"
  shows "\<exists>p r inputs dir. p \<in> set (st_promotions s) \<and> promotion_status p = PS_PENDING
    \<and> (i \<noteq> [] \<longrightarrow> (\<exists>run\<in>set (st_runs s). run_id run = promotion_run_id p \<and> run_task_id run = i \<and> promotion_task_id p = i))
    \<and> promotion_id (pr_promotion res) = promotion_id p
    \<and> invoke_promotion_review (pe_extract env) (pe_show env) (pe_answer env inputs) dir (pe_writable env) = Inr r
    \<and> (promotion_status (pr_promotion res) = PS_APPROVED \<longleftrightarrow>
         sr_success r \<and> truthy (dict_get (sr_output r) ''approved'') \<and> gate_open env s (promotion_run_id p))
    \<and> (promotion_status (pr_promotion res) \<noteq> PS_APPROVED \<longrightarrow> promotion_status (pr_promotion res) = PS_REJECTED
         \<and> (create_follow_on \<longrightarrow> pr_follow_on_task_id res \<noteq> None))"
proof -
  from assms have router: "pe_router env" by (auto simp: affirm_review_def raise_run split: if_splits)
  with assms obtain task p u where p: "select_promotion i run_arg promotion_arg s = (Inr p, u)"
    and rest: "(if promotion_status p \<noteq> PS_PENDING
         then raise (ValueError (''Promotion '' @ promotion_id p @ '' is not pending affirmation''))
         else bnd (select_run i (Some (promotion_run_id p))) (\<lambda>run.
           bnd (invoke_review env task p run) (\<lambda>r. conclude_affirmation env task p run r create_follow_on))) u = (Inr res, t)"
    unfolding affirm_review_def by (auto simp: bnd_Inr_iff [of "known_task _ _"] bnd_Inr_iff [of "select_promotion _ _ _"] known_task_run)
  have mem: "u = s" "p \<in> set (st_promotions s)" using select_promotion_run [OF p] by simp_all
  have pending: "promotion_status p = PS_PENDING" using rest by (auto simp: raise_run split: if_splits)
  with rest mem obtain run r where run: "select_run i (Some (promotion_run_id p)) s = (Inr run, s)"
    and r: "invoke_review env task p run s = (Inr r, s)"
    and last: "conclude_affirmation env task p run r create_follow_on s = (Inr res, t)"
    using select_run_run keeps_run [OF invoke_review_keeps] by (fastforce simp: bnd_Inr_iff)
  have id: "run_id run = promotion_run_id p" using select_run_run [OF run] by blast
  have own: "i \<noteq> [] \<longrightarrow> (\<exists>run\<in>set (st_runs s). run_id run = promotion_run_id p \<and> run_task_id run = i \<and> promotion_task_id p = i)"
    using select_run_run [OF run] select_promotion_run [OF p] by blast
  obtain inputs dir where inv: "invoke_promotion_review (pe_extract env) (pe_show env) (pe_answer env inputs) dir (pe_writable env) = Inr r"
    using invoke_review_run [OF r] by blast
  from conclude_affirmation_run [OF last] show ?thesis unfolding id using mem pending inv own by metis
qed


subsection \<open>The second review\<close>

lemma conclude_rereview_run:
  assumes "conclude_rereview task remediation rtask base run results create_follow_on s = (Inr r, t)"
  shows "promotion_task_id (pr_promotion r) = task_id task \<and> promotion_run_id (pr_promotion r) = run_id run
    \<and> (promotion_status (pr_promotion r) = PS_PENDING \<longrightarrow> st_runs t = st_runs s \<and> st_tasks t = st_tasks s
        \<and> \<not> has_key promotion_id (promotion_id (pr_promotion r)) (st_promotions s)
        \<and> st_promotions t = st_promotions s @ [(pr_promotion r)\<lparr>promotion_details := json_column (promotion_details (pr_promotion r))\<rparr>])"
proof (cases "all_issues results = []")
  case True
  with assms obtain pm details summary where
    "new_promotion (task_id task) (run_id run) PS_PENDING summary details s = (Inr pm, t)"
    "r = \<lparr>pr_promotion = pm, pr_follow_on_task_id = None\<rparr>"
    by (auto simp: conclude_rereview_def bnd_Inr_iff ret_run Let_def)
  then show ?thesis using new_promotion_run [of "task_id task"] new_promotion_details [of "task_id task"] by fastforce
next
  case False
  with assms obtain f pm details summary u v where
    "new_promotion (task_id task) (run_id run) PS_REJECTED summary details u = (Inr pm, v)"
    "r = \<lparr>pr_promotion = pm, pr_follow_on_task_id = f\<rparr>"
    by (auto simp: conclude_rereview_def bnd_Inr_iff ret_run Let_def)
  then show ?thesis using new_promotion_run [of "task_id task"] by fastforce
qed

lemma rereview_run:
  assumes "rereview_task env i remediation run_arg base_id create_follow_on s = (Inr r, t)" and "remediation \<noteq> []"
  shows "promotion_task_id (pr_promotion r) = i
    \<and> (\<exists>run\<in>set (st_runs s). run_task_id run = remediation \<and> run_id run = promotion_run_id (pr_promotion r))
    \<and> (promotion_status (pr_promotion r) = PS_PENDING \<longrightarrow> st_runs t = st_runs s \<and> st_tasks t = st_tasks s
        \<and> \<not> has_key promotion_id (promotion_id (pr_promotion r)) (st_promotions s)
        \<and> st_promotions t = st_promotions s @ [(pr_promotion r)\<lparr>promotion_details := json_column (promotion_details (pr_promotion r))\<rparr>])"
proof -
  let ?base = "if opt_str base_id \<noteq> [] then bnd (select_promotion i None base_id) (\<lambda>p. ret (Some p)) else latest_promotion i"
  have keeps: "keeps (\<lambda>s. s) ?base"
    unfolding latest_promotion_def list_promotions_def by (intro keep_rules select_promotion_keeps)
  from assms(1) obtain task rtask base run results where task: "find_key task_id i (st_tasks s) = Some task"
    and run: "select_run remediation run_arg s = (Inr run, s)"
    and last: "conclude_rereview task remediation rtask base run results create_follow_on s = (Inr r, t)"
    unfolding rereview_task_def bnd_Inr_iff known_task_run lift_result_run list_artifacts_def
    using keeps_run [OF keeps] select_run_run by fastforce
  have i: "task_id task = i" using task find_key_Some by metis
  have "promotion_task_id (pr_promotion r) = i \<and> promotion_run_id (pr_promotion r) = run_id run
    \<and> (promotion_status (pr_promotion r) = PS_PENDING \<longrightarrow> st_runs t = st_runs s \<and> st_tasks t = st_tasks s
        \<and> \<not> has_key promotion_id (promotion_id (pr_promotion r)) (st_promotions s)
        \<and> st_promotions t = st_promotions s @ [(pr_promotion r)\<lparr>promotion_details := json_column (promotion_details (pr_promotion r))\<rparr>])"
    using conclude_rereview_run [OF last] i by simp
  then show ?thesis using select_run_run [OF run] assms(2) by auto
qed

text \<open>C36. A promotion that a second review makes pending can never be affirmed while its row and its run
  stand: it belongs to the first task but names a run of the remediation task, and an affirmation only
  accepts a run of its own task. With identifiers that are unique no call of \<open>affirm_review\<close> on any task
  approves or rejects it.\<close>

theorem rereviewed_promotion_never_affirmed:
  assumes "rereview_task env i remediation run_arg base_id create_follow_on s = (Inr r, t)"
    and "promotion_status (pr_promotion r) = PS_PENDING"
    and "remediation \<noteq> i" and "remediation \<noteq> []" and "keyed run_id (st_runs s)"
    and "affirm_review env' j run_arg' promotion_arg' create_follow_on' t = (Inr res, u)" and "j \<noteq> []"
  shows "promotion_id (pr_promotion res) \<noteq> promotion_id (pr_promotion r)"
proof
  assume same: "promotion_id (pr_promotion res) = promotion_id (pr_promotion r)"
  note first = rereview_run [OF assms(1,4)]
  from affirm_core [OF assms(6)] assms(7) same obtain p run where p: "p \<in> set (st_promotions t)"
    "promotion_id p = promotion_id (pr_promotion r)" "promotion_task_id p = j"
    and run: "run \<in> set (st_runs t)" "run_id run = promotion_run_id p" "run_task_id run = j" by metis
  have "p \<notin> set (st_promotions s)" using p(2) first assms(2) by (metis has_key_iff image_eqI)
  with p(1) first assms(2) have "p = (pr_promotion r)\<lparr>promotion_details := json_column (promotion_details (pr_promotion r))\<rparr>"
    by auto
  with p(3) run(2) first have "j = i" "run_id run = promotion_run_id (pr_promotion r)" by simp_all
  with first run assms(2,3,5) show False unfolding keyed_def distinct_map by (metis inj_onD)
qed

subsection \<open>Concrete runs\<close>

definition promotion_task :: "string \<Rightarrow> Task" where
  "promotion_task i =
     \<lparr>task_id = i, task_project_id = ''p'', task_title = ''t'', task_objective = ''o'', task_objective_id = None,
      task_plan_id = None, task_mermaid_node_id = None, task_priority = 1, task_parent_task_id = None,
      task_source_run_id = None, task_external_ref_type = None, task_external_ref_id = None,
      task_external_ref_metadata = [], task_validation_profile = ''terraform'', task_validation_mode = ''m'',
      task_scope = [], task_strategy = ''default'', task_max_attempts = 3, task_max_branches = 1,
      task_required_artifacts = [], task_attempt_metadata = [], task_status = TS_COMPLETED,
      task_created_at = 0, task_updated_at = 0\<rparr>"

definition promotion_run :: "string \<Rightarrow> string \<Rightarrow> Run" where
  "promotion_run i task = \<lparr>run_id = i, run_task_id = task, run_status = RS_COMPLETED, run_attempt = 1,
     run_summary = [], run_branch_id = None, run_created_at = 0, run_updated_at = 0\<rparr>"

definition promotion_store :: store where
  "promotion_store = (empty_store 0)
     \<lparr>st_tasks := [promotion_task ''a'', promotion_task ''b''],
      st_runs := [promotion_run ''ra'' ''a'', promotion_run ''rb'' ''b''],
      st_promotions := [\<lparr>promotion_id = ''p0'', promotion_task_id = ''a'', promotion_run_id = ''ra'',
        promotion_status = PS_PENDING, promotion_summary = [], promotion_details = [], promotion_created_at = 0\<rparr>]\<rparr>"

definition quiet_env :: "validator list \<Rightarrow> promotion_env" where
  "quiet_env vs =
     \<lparr>pe_router = True, pe_workspace_root = ''w'', pe_validators = Some vs, pe_registry = None,
      pe_files = \<lparr>fs_exists = (\<lambda>_. False), fs_json = (\<lambda>_. Unreadable [])\<rparr>, pe_text = (\<lambda>_. No_text []),
      pe_answer = (\<lambda>_. Inl ''down''), pe_extract = (\<lambda>_. None), pe_show = (\<lambda>_. []), pe_writable = False,
      pe_apply = (\<lambda>_ _ _ _. Process_error)\<rparr>"

lemma review_accepts_complete_evidence_witness:
  "\<exists>r t. review_task (quiet_env []) ''a'' None False promotion_store = (Inr r, t)
     \<and> (\<exists>run. run_task_id run = ''a'' \<and> reviewed ''a'' run r t)"
proof -
  have "\<not> isl (fst (review_task (quiet_env []) ''a'' None False promotion_store))" by code_simp
  then obtain r t where run: "review_task (quiet_env []) ''a'' None False promotion_store = (Inr r, t)"
    by (metis isl_def prod.collapse sum.exhaust)
  have "standard_validators (quiet_env [])" by (simp add: standard_validators_def quiet_env_def opt_list_def)
  from review_accepts_complete_evidence [OF run this] run show ?thesis by blast
qed


lemma rereviewed_promotion_never_affirmed_witness:
  "\<exists>r t res u. rereview_task (quiet_env [RequiredArtifactsValidator]) ''a'' ''b'' None None False promotion_store = (Inr r, t)
     \<and> affirm_review (quiet_env []) ''a'' None (Some ''p0'') False t = (Inr res, u)
     \<and> promotion_id (pr_promotion res) \<noteq> promotion_id (pr_promotion r)"
proof -
  let ?first = "rereview_task (quiet_env [RequiredArtifactsValidator]) ''a'' ''b'' None None False promotion_store"
  have a: "case fst ?first of Inl _ \<Rightarrow> False | Inr r \<Rightarrow> promotion_status (pr_promotion r) = PS_PENDING" by code_simp
  then obtain r t where first: "?first = (Inr r, t)" "promotion_status (pr_promotion r) = PS_PENDING"
    by (cases ?first) (auto split: sum.splits)
  have "\<not> isl (fst (affirm_review (quiet_env []) ''a'' None (Some ''p0'') False (snd ?first)))" by code_simp
  with first(1) obtain res u where second: "affirm_review (quiet_env []) ''a'' None (Some ''p0'') False t = (Inr res, u)"
    by (metis isl_def prod.collapse snd_conv sum.exhaust)
  have "keyed run_id (st_runs promotion_store)" by (simp add: keyed_def promotion_store_def promotion_run_def)
  from rereviewed_promotion_never_affirmed [OF first _ _ this second] first(1) second show ?thesis by blast
qed

end
