(* ===== verification/Workflow_Service.thy ===== *)
theory Workflow_Service
  imports Task_Service Execution_Gate Task_Props
begin

section \<open>The workflow service\<close>

text \<open>
  \<open>services/workflow_service.py\<close>: whether an objective is ready for planning, execution and review, the
  state of a task in the queue, and the reconciliation of an objective, which may start the atomic
  generation or the review. The two starts are callbacks and arguments of the model.
\<close>

record ObjectiveReadiness =
  rd_stage :: string
  rd_ready :: bool
  rd_checks :: "gate_check list"

definition check_of :: "string \<Rightarrow> string \<Rightarrow> bool \<Rightarrow> string \<Rightarrow> gate_check" where
  "check_of key label ok detail =
     \<lparr>gc_key = key, gc_label = label, gc_ok = ok, gc_detail = (if ok then [] else detail)\<rparr>"

definition linked_tasks :: "string \<Rightarrow> Task list op" where
  "linked_tasks i =
     bnd (get_objective i) (\<lambda>objective.
     case objective of
       None \<Rightarrow> ret []
     | Some ob \<Rightarrow> bnd (list_tasks (Some (objective_project_id ob))) (\<lambda>tasks.
         ret (filter (\<lambda>t. task_objective_id t = Some i) tasks)))"

definition given_or_linked :: "Task list option \<Rightarrow> string \<Rightarrow> Task list op" where
  "given_or_linked supplied i = (if opt_list supplied \<noteq> [] then ret (opt_list supplied) else linked_tasks i)"

definition planning_readiness :: "string \<Rightarrow> ObjectiveReadiness op" where
  "planning_readiness i =
     bnd (objective_execution_gate i) (\<lambda>gate.
     ret \<lparr>rd_stage = ''planning'', rd_ready = gate_ready gate,
          rd_checks = filter (\<lambda>c. \<not> ends_with ''_placeholder'' (gc_key c)) (gate_checks gate)\<rparr>)"

definition execution_readiness :: "string \<Rightarrow> Task list option \<Rightarrow> ObjectiveReadiness op" where
  "execution_readiness i supplied =
     bnd (planning_readiness i) (\<lambda>base.
     bnd (given_or_linked supplied i) (\<lambda>linked.
     let checks = rd_checks base @ [check_of ''linked_tasks_exist'' ''Linked tasks exist'' (linked \<noteq> [])
           ''Execution needs at least one linked task to run.'']
     in ret \<lparr>rd_stage = ''execution'', rd_ready = list_all gc_ok checks, rd_checks = checks\<rparr>))"

definition waived_kind :: "pydict \<Rightarrow> string \<Rightarrow> string \<Rightarrow> bool" where
  "waived_kind metadata k kind \<longleftrightarrow>
     (case dict_get metadata k of PDict d \<Rightarrow> py_strip (str_or_empty (dict_get d ''kind'')) = kind | _ \<Rightarrow> False)"

definition is_waived_failed_task :: "Task \<Rightarrow> (string \<times> string) set \<Rightarrow> string set \<Rightarrow> bool" where
  "is_waived_failed_task task refs dimensions \<longleftrightarrow>
     (let metadata = task_external_ref_metadata task;
          ref_type = py_strip (opt_str (task_external_ref_type task));
          ref_id = py_strip (opt_str (task_external_ref_id task));
          dimension = (case dict_get metadata ''objective_review_remediation'' of
             PDict r \<Rightarrow> py_strip (str_or_empty (dict_get r ''dimension'')) | _ \<Rightarrow> [])
      in waived_kind metadata ''workflow_state_disposition'' ''ignore_obsolete''
         \<or> task_status task = TS_FAILED
           \<and> (waived_kind metadata ''failed_task_disposition'' ''waive_obsolete''
              \<or> ref_type = ''objective_review''
                \<and> (ref_id \<noteq> [] \<and> (ref_type, ref_id) \<in> refs
                   \<or> dimension \<noteq> [] \<and> dimension \<in> dimensions)))"

definition with_status :: "TaskStatus \<Rightarrow> Task list \<Rightarrow> Task list" where
  "with_status st tasks = filter (\<lambda>t. task_status t = st) tasks"

definition unresolved_failed :: "Task list \<Rightarrow> Task list" where
  "unresolved_failed linked =
     filter (\<lambda>t. \<not> is_waived_failed_task t (completed_refs linked) (completed_dimensions linked))
       (with_status TS_FAILED linked)"

definition review_checks :: "Task list \<Rightarrow> gate_check list" where
  "review_checks linked =
     (let active = length (with_status TS_ACTIVE linked); pending = length (with_status TS_PENDING linked);
          failed = length (unresolved_failed linked); completed = length (with_status TS_COMPLETED linked) in
      [check_of ''linked_tasks_exist'' ''Linked tasks exist'' (linked \<noteq> [])
         ''Review cannot start before the objective has linked tasks.'',
       check_of ''no_active_tasks'' ''No active tasks'' (active = 0) (dec_nat active @ '' task(s) are still active.''),
       check_of ''no_pending_tasks'' ''No pending tasks'' (pending = 0) (dec_nat pending @ '' task(s) are still pending.''),
       check_of ''no_unresolved_failed_tasks'' ''No unresolved failed tasks'' (failed = 0)
         (dec_nat failed @ '' failed task(s) still need disposition.''),
       check_of ''completed_task_exists'' ''Completed task exists'' (0 < completed)
         ''Review requires at least one completed task.''])"

definition review_readiness :: "string \<Rightarrow> Task list option \<Rightarrow> ObjectiveReadiness op" where
  "review_readiness i supplied =
     bnd (given_or_linked supplied i) (\<lambda>linked.
     ret \<lparr>rd_stage = ''review'', rd_ready = list_all gc_ok (review_checks linked), rd_checks = review_checks linked\<rparr>)"

subsection \<open>The queue\<close>

record queue_state =
  qs_state :: string
  qs_reason :: string
  qs_detail :: string

definition queue_state_for_task :: "Task \<Rightarrow> bool option \<Rightarrow> queue_state op" where
  "queue_state_for_task task review_ready =
     (if task_status task = TS_ACTIVE then ret \<lparr>qs_state = ''running'', qs_reason = ''Task is active.'', qs_detail = []\<rparr>
      else if task_status task = TS_COMPLETED then ret \<lparr>qs_state = ''done'', qs_reason = ''Task completed.'', qs_detail = []\<rparr>
      else if task_status task = TS_FAILED then ret \<lparr>qs_state = ''failed'', qs_reason = ''Task failed.'', qs_detail = []\<rparr>
      else if opt_str (task_objective_id task) = [] then
        ret \<lparr>qs_state = ''runnable'', qs_reason = ''Task is pending and not objective-gated.'', qs_detail = []\<rparr>
      else if task_bypasses_objective_execution_gate task then
        ret \<lparr>qs_state = ''runnable'',
          qs_reason = ''Objective review remediation may run while the parent objective is otherwise gated.'', qs_detail = []\<rparr>
      else bnd (objective_execution_gate (opt_str (task_objective_id task))) (\<lambda>gate.
        ret (if \<not> gate_ready gate then
               (case List.find (\<lambda>c. \<not> gc_ok c \<and> \<not> ends_with ''_placeholder'' (gc_key c)) (gate_checks gate) of
                  None \<Rightarrow> \<lparr>qs_state = ''blocked_by_gate'', qs_reason = ''Objective execution gate blocked.'', qs_detail = []\<rparr>
                | Some c \<Rightarrow> \<lparr>qs_state = ''blocked_by_gate'',
                    qs_reason = or_default (gc_label c) ''Objective execution gate blocked.'', qs_detail = gc_detail c\<rparr>)
             else if review_ready = Some True then
               \<lparr>qs_state = ''waiting_on_review'',
                qs_reason = ''Objective is ready for promotion review before more execution.'',
                qs_detail = ''Automatic promotion review should start now instead of keeping new work pending.''\<rparr>
             else \<lparr>qs_state = ''runnable'', qs_reason = ''Task is eligible to run.'', qs_detail = []\<rparr>)))"

subsection \<open>Reconciliation\<close>

record reconcile_args =
  rc_start_atomic :: "(string \<Rightarrow> unit op) option"
  rc_start_review :: "(string \<Rightarrow> unit op) option"
  rc_atomic_running :: bool
  rc_review_running :: bool
  rc_review_start_allowed :: bool

record reconcile_result =
  rr_changed :: bool
  rr_actions :: "string list"
  rr_status :: "ObjectiveStatus option"
  rr_planning_ready :: "bool option"
  rr_review_ready :: "bool option"

definition current_objective :: "string \<Rightarrow> Objective \<Rightarrow> Objective op" where
  "current_objective i old =
     bnd (get_objective i) (\<lambda>row. ret (case row of Some ob \<Rightarrow> ob | None \<Rightarrow> old))"

definition refresh_phase :: "string \<Rightarrow> Objective \<Rightarrow> Task list \<Rightarrow> (string list \<times> Objective) op" where
  "refresh_phase i objective linked =
     bnd (if linked \<noteq> [] then update_objective_phase i else ret (Some (objective_status objective))) (\<lambda>derived.
     case derived of
       None \<Rightarrow> ret ([], objective)
     | Some st \<Rightarrow>
         if st = objective_status objective then ret ([], objective)
         else bnd (current_objective i objective) (\<lambda>ob.
           ret ([''phase:'' @ ObjectiveStatus_value (objective_status objective) @ ''->'' @ ObjectiveStatus_value st], ob)))"

definition start_call :: "(string \<Rightarrow> unit op) option \<Rightarrow> string \<Rightarrow> unit op" where
  "start_call f i = (case f of None \<Rightarrow> ret () | Some g \<Rightarrow> g i)"

definition restart_atomic :: "ObjectiveReadiness \<Rightarrow> ObjectiveReadiness \<Rightarrow> Objective \<Rightarrow> Task list \<Rightarrow> bool" where
  "restart_atomic planning review objective linked \<longleftrightarrow>
     rd_ready planning
     \<and> (linked \<noteq> [] \<and> \<not> list_ex (\<lambda>t. task_status t \<in> {TS_PENDING, TS_ACTIVE}) linked)
     \<and> objective_status objective \<in> {OS_PAUSED, OS_PLANNING} \<and> \<not> rd_ready review"

definition starts_atomic :: "reconcile_args \<Rightarrow> ObjectiveReadiness \<Rightarrow> ObjectiveReadiness \<Rightarrow> Objective \<Rightarrow> Task list \<Rightarrow> bool" where
  "starts_atomic a planning review objective linked \<longleftrightarrow>
     rd_ready planning \<and> rc_start_atomic a \<noteq> None \<and> \<not> rc_atomic_running a
     \<and> (linked = [] \<or> restart_atomic planning review objective linked)"

definition starts_review :: "reconcile_args \<Rightarrow> ObjectiveReadiness \<Rightarrow> Objective \<Rightarrow> bool" where
  "starts_review a review objective \<longleftrightarrow>
     rd_ready review \<and> objective_status objective = OS_RESOLVED \<and> rc_start_review a \<noteq> None
     \<and> \<not> rc_review_running a \<and> rc_review_start_allowed a"

definition reconcile_objective :: "reconcile_args \<Rightarrow> string \<Rightarrow> reconcile_result op" where
  "reconcile_objective a i =
     bnd (get_objective i) (\<lambda>row.
     case row of
       None \<Rightarrow> ret \<lparr>rr_changed = False, rr_actions = [], rr_status = None, rr_planning_ready = None, rr_review_ready = None\<rparr>
     | Some objective \<Rightarrow>
         bnd (linked_tasks i) (\<lambda>linked.
         bnd (refresh_phase i objective linked) (\<lambda>(actions, objective).
         bnd (planning_readiness i) (\<lambda>planning.
         bnd (review_readiness i (Some linked)) (\<lambda>review.
         let atomic = starts_atomic a planning review objective linked in
         bnd (when_do atomic (start_call (rc_start_atomic a) i)) (\<lambda>_.
         let actions = actions @ (if \<not> atomic then []
               else if restart_atomic planning review objective linked then [''restart_atomic_generation'']
               else [''start_atomic_generation'']) in
         bnd (current_objective i objective) (\<lambda>objective.
         let reviewing = starts_review a review objective in
         bnd (when_do reviewing (start_call (rc_start_review a) i)) (\<lambda>_.
         let actions = actions @ (if reviewing then [''start_objective_review''] else []) in
         bnd (current_objective i objective) (\<lambda>final.
         ret \<lparr>rr_changed = (actions \<noteq> []), rr_actions = actions, rr_status = Some (objective_status final),
              rr_planning_ready = Some (rd_ready planning), rr_review_ready = Some (rd_ready review)\<rparr>)))))))))"

subsection \<open>Review readiness and the derived status\<close>

lemma waived_agrees:
  assumes "task_status t = TS_FAILED"
  shows "is_waived_failed_task t refs dims \<longleftrightarrow>
     task_ignored_for_objective_phase (task_status t) (task_external_ref_metadata t)
     \<or> task_superseded_by_completed_peer (task_status t) (task_external_ref_type t) (task_external_ref_id t)
         (task_external_ref_metadata t) refs dims"
proof -
  have empty: "\<not> waived_kind d k ''ignore_obsolete''" if "dict_get d k = PDict []" for d k
    using that by (simp add: waived_kind_def)
  show ?thesis
    using assms empty [of "task_external_ref_metadata t" "''workflow_state_disposition''"]
    by (auto simp: is_waived_failed_task_def waived_kind_def task_ignored_for_objective_phase_def
        task_superseded_by_completed_peer_def workflow_state_disposition_def dict_entry_def remediation_dimension_def
        Let_def split: pyval.splits)
qed

lemma counts_failed:
  "task_status t = TS_FAILED \<Longrightarrow> counts rows t \<longleftrightarrow> \<not> is_waived_failed_task t (completed_refs rows) (completed_dimensions rows)"
  by (auto simp: counts_def waived_agrees)

lemma review_checks_ok:
  "list_all gc_ok (review_checks linked) \<longleftrightarrow>
     (\<forall>t\<in>set linked. task_status t \<notin> {TS_ACTIVE, TS_PENDING}) \<and> unresolved_failed linked = []
     \<and> (\<exists>t\<in>set linked. task_status t = TS_COMPLETED)"
  by (auto simp: review_checks_def check_of_def with_status_def filter_empty_conv Let_def)

lemma status_cases: "(st :: TaskStatus) \<notin> {TS_ACTIVE, TS_PENDING} \<Longrightarrow> st = TS_COMPLETED \<or> st = TS_FAILED"
  by (cases st) auto

lemma settled_tasks_status:
  assumes "\<forall>t\<in>set rows. task_status t \<notin> {TS_ACTIVE, TS_PENDING}"
  shows "derived_status rows = (if unresolved_failed rows = [] then OS_RESOLVED else OS_PAUSED)"
proof -
  have sub: "deciding rows \<subseteq> set rows" by (auto simp: deciding_def)
  with assms have open_none: "\<not> (\<exists>t\<in>deciding rows. task_status t = TS_ACTIVE)"
    "\<not> (\<exists>t\<in>deciding rows. task_status t = TS_PENDING)" by auto
  have "(\<forall>t\<in>deciding rows. task_status t = TS_COMPLETED) \<longleftrightarrow> unresolved_failed rows = []"
  proof
    assume all: "\<forall>t\<in>deciding rows. task_status t = TS_COMPLETED"
    show "unresolved_failed rows = []"
    proof (rule ccontr)
      assume "unresolved_failed rows \<noteq> []"
      then obtain t where t: "t \<in> set rows" "task_status t = TS_FAILED" "counts rows t"
        by (auto simp: unresolved_failed_def with_status_def filter_empty_conv counts_failed)
      then have "t \<in> deciding rows" by (auto simp: deciding_def)
      with all t(2) show False by auto
    qed
  next
    assume none: "unresolved_failed rows = []"
    show "\<forall>t\<in>deciding rows. task_status t = TS_COMPLETED"
    proof
      fix t
      assume t: "t \<in> deciding rows"
      show "task_status t = TS_COMPLETED"
      proof (rule ccontr)
        assume "task_status t \<noteq> TS_COMPLETED"
        with t assms sub have "task_status t = TS_FAILED" using status_cases by blast
        with t assms have "counts rows t" "t \<in> set rows" by (auto simp: deciding_def split: if_splits)
        with none \<open>task_status t = TS_FAILED\<close> show False
          by (auto simp: unresolved_failed_def with_status_def filter_empty_conv counts_failed)
      qed
    qed
  qed
  with open_none derived_status_core [of rows rows] show ?thesis by simp
qed

text \<open>C40. An objective is ready for review exactly when the status derived from its tasks is resolved, one
  of them is completed and none is open. A resolved objective with an open task that was marked
  obsolete, or whose tasks are all waived failures, is therefore not ready.\<close>

theorem review_ready_iff:
  "list_all gc_ok (review_checks linked) \<longleftrightarrow>
     derived_status linked = OS_RESOLVED \<and> TS_COMPLETED \<in> task_status ` set linked
     \<and> task_status ` set linked \<inter> {TS_PENDING, TS_ACTIVE} = {}"
proof -
  have "TS_COMPLETED \<in> task_status ` set linked \<longleftrightarrow> (\<exists>t\<in>set linked. task_status t = TS_COMPLETED)"
    "task_status ` set linked \<inter> {TS_PENDING, TS_ACTIVE} = {} \<longleftrightarrow>
       (\<forall>t\<in>set linked. task_status t \<notin> {TS_PENDING, TS_ACTIVE})"
    by (metis (no_types, lifting) image_iff, blast)
  then show ?thesis
    unfolding review_checks_ok using settled_tasks_status [of linked] by (simp only:) (auto split: if_splits)
qed

subsection \<open>Reconciliation moves a settled objective on, or leaves it\<close>

definition objective_tasks :: "store \<Rightarrow> string \<Rightarrow> Task list" where
  "objective_tasks s i = filter (\<lambda>t. task_objective_id t = Some i) (st_tasks s)"

lemma gate_looks: "looks (objective_execution_gate i)"
  unfolding objective_execution_gate_def get_objective_def latest_intent_model_def list_intent_models_def
    list_context_records_def latest_mermaid_artifact_def list_mermaid_artifacts_def Let_def
  by (intro look_rules)

lemma linked_tasks_looks: "looks (linked_tasks i)"
  unfolding linked_tasks_def get_objective_def list_tasks_def by (intro look_rules)

lemma planning_looks: "looks (planning_readiness i)"
  unfolding planning_readiness_def by (intro look_rules gate_looks)

lemma review_looks: "looks (review_readiness i supplied)"
  unfolding review_readiness_def given_or_linked_def by (intro look_rules linked_tasks_looks)

lemma current_looks: "looks (current_objective i old)"
  unfolding current_objective_def get_objective_def by (intro look_rules)

lemma refresh_run:
  assumes "find_key objective_id i (st_objectives s) = Some ob" and "objective_tasks s i \<noteq> []" and "linked \<noteq> []"
    and "refresh_phase i ob' linked s = (Inr (acts, ob1), s1)" and "objective_status ob' = objective_status ob"
  shows "objective_status ob1 = derived_status (objective_tasks s i) \<and> acts \<in> {[], [hd acts]} \<and> (\<forall>a\<in>set acts. take 1 a = ''p'')
    \<and> (\<exists>x. find_key objective_id i (st_objectives s1) = Some x \<and> objective_status x = derived_status (objective_tasks s i))"
proof -
  let ?st = "derived_status (objective_tasks s i)"
  obtain s2 where up: "update_objective_phase i s = (Inr (Some ?st), s2)"
    and row: "\<exists>x. find_key objective_id i (st_objectives s2) = Some x \<and> objective_status x = ?st"
    using assms(1,2) find_key_Some [OF assms(1)]
    by (auto simp: update_objective_phase_def objective_tasks_def bnd_run utc_now_def ret_run Let_def find_key_update)
  show ?thesis
    using assms(3,4,5) up row
    by (auto simp: refresh_phase_def bnd_run ret_run current_objective_def get_objective_def split: if_splits)
qed

lemma linked_tasks_run:
  assumes "find_key objective_id i (st_objectives s) = Some ob"
    and "\<forall>t\<in>set (objective_tasks s i). task_project_id t = objective_project_id ob"
  shows "\<exists>linked. linked_tasks i s = (Inr linked, s) \<and> set linked = set (objective_tasks s i)"
  using assms
  by (auto simp: linked_tasks_def get_objective_def list_tasks_def bnd_run ret_run objective_tasks_def clause_def by_priority_def)

lemma unresolved_failed_Nil:
  "unresolved_failed rows = [] \<longleftrightarrow> (\<forall>t\<in>set rows. task_status t = TS_FAILED \<longrightarrow>
     is_waived_failed_task t (completed_refs rows) (completed_dimensions rows))"
  by (auto simp: unresolved_failed_def with_status_def filter_empty_conv)

lemma unresolved_failed_set:
  assumes "set rows = set rows'"
  shows "unresolved_failed rows = [] \<longleftrightarrow> unresolved_failed rows' = []"
proof -
  have "completed_refs rows = completed_refs rows'" "completed_dimensions rows = completed_dimensions rows'"
    using assms by (auto simp: completed_refs_def completed_dimensions_def)
  with assms show ?thesis by (simp add: unresolved_failed_Nil)
qed

lemma planning_ready:
  assumes "i \<noteq> []"
  shows "\<exists>planning. planning_readiness i s = (Inr planning, s) \<and> (rd_ready planning \<longleftrightarrow> executable_objective i s)"
  using gate_ready_core [OF assms, of s] by (auto simp: planning_readiness_def bnd_run ret_run)

lemma executable_cong:
  assumes "objective_id ` set (st_objectives t) = objective_id ` set (st_objectives s)"
    and "st_intent_models t = st_intent_models s" and "st_context_records t = st_context_records s"
    and "st_mermaid_artifacts t = st_mermaid_artifacts s"
  shows "executable_objective i t \<longleftrightarrow> executable_objective i s"
  unfolding executable_objective_def newest_mermaid_def assms ..

lemma update_keeps_executable: "keeps (executable_objective i) (update_objective_phase j)"
  unfolding update_objective_phase_def Let_def
proof (intro keep_rules utc_now_keeps keeps_writes)
  show "executable_objective i (s\<lparr>st_ticks := n\<rparr>) \<longleftrightarrow> executable_objective i s" for s n
    by (rule executable_cong) simp_all
  show "executable_objective i (s\<lparr>st_objectives := update_where (\<lambda>x. objective_id x = j)
      (\<lambda>x. x\<lparr>objective_status := st, objective_updated_at := now\<rparr>) (st_objectives s)\<rparr>) \<longleftrightarrow> executable_objective i s"
    for s st now by (rule executable_cong) (auto simp: update_where_def image_Un image_image)
qed

lemma refresh_keeps_executable: "keeps (executable_objective i) (refresh_phase j ob linked)"
  unfolding refresh_phase_def by (intro keep_rules update_keeps_executable looks_keeps current_looks)


lemma looks_total: "looks m \<Longrightarrow> total m"
  unfolding total_def looks_def by blast

lemma total_option: "total m \<Longrightarrow> (\<And>x. total (k x)) \<Longrightarrow> total (case c of None \<Rightarrow> m | Some x \<Rightarrow> k x)"
  by (cases c) auto

lemma total_prod: "(\<And>x y. total (k x y)) \<Longrightarrow> total (case p of (x, y) \<Rightarrow> k x y)"
  by (cases p) auto

lemma refresh_total: "total (refresh_phase i ob linked)"
proof -
  have "total (update_objective_phase i)"
    by (auto simp: total_def update_objective_phase_def bnd_run ret_run utc_now_def Let_def)
  moreover have "total (ret x)" for x :: 'a by (rule looks_total [OF looks_ret])
  ultimately show ?thesis unfolding refresh_phase_def
    by (intro total_bnd looks_total [OF current_looks] looks_total [OF looks_ret])
      (auto split: option.split intro!: total_bnd looks_total current_looks look_rules)
qed

definition failed_objective :: store where
  "failed_objective = demo_gate\<lparr>st_tasks := [demo_task\<lparr>task_objective_id := Some ''obj_1'',
     task_project_id := ''project_1'', task_status := TS_FAILED\<rparr>]\<rparr>"

definition quiet_reconcile :: reconcile_args where
  "quiet_reconcile = \<lparr>rc_start_atomic = Some (\<lambda>_. ret ()), rc_start_review = Some (\<lambda>_. ret ()),
     rc_atomic_running = False, rc_review_running = False, rc_review_start_allowed = True\<rparr>"

lemma quiet_total: "total (reconcile_objective quiet_reconcile i)"
proof -
  have backs: "total (when_do b (start_call (rc_start_atomic quiet_reconcile) j))"
    "total (when_do b (start_call (rc_start_review quiet_reconcile) j))" for b j
    by (auto simp: when_do_def start_call_def quiet_reconcile_def intro!: looks_total look_rules)
  have obj: "total (get_objective i)" unfolding get_objective_def by (intro looks_total look_rules)
  show ?thesis unfolding reconcile_objective_def Let_def
    by (intro total_bnd total_option total_prod obj refresh_total backs looks_total [OF linked_tasks_looks]
        looks_total [OF planning_looks] looks_total [OF review_looks] looks_total [OF current_looks]
        looks_total [OF looks_ret])
qed


end
