(* ===== verification/Apply_Changes.thy ===== *)
theory Apply_Changes
  imports Skill_Base Py_Prog
begin

section \<open>The files of a workspace and the application of changes\<close>

text \<open>
  The last part of \<open>skills/implement.py\<close>, \<open>apply_changes\<close> with its two helpers, and the reading of the
  files in scope by \<open>services/work_orchestrator.py\<close>, over a tree of files. A place in the tree is
  the list of names of its absolute path. The tree has no symbolic links and every file in it can be
  written; what \<open>read_text\<close> does with a file is part of the file: its text, the exception of a strict
  decoding with the text that a lenient one gives, or the error of the system.
\<close>

subsection \<open>Files\<close>

datatype node = Dir | Text string | Undecodable exn string | Unreadable string

type_synonym place = "string list"
type_synonym tree = "place \<Rightarrow> node option"

definition node_at :: "tree \<Rightarrow> place \<Rightarrow> node option" where
  "node_at fs p = (if p = [] then Some Dir else fs p)"

definition there :: "tree \<Rightarrow> place \<Rightarrow> bool" where
  "there fs p \<longleftrightarrow> node_at fs p \<noteq> None"

definition is_file :: "tree \<Rightarrow> place \<Rightarrow> bool" where
  "is_file fs p \<longleftrightarrow> (case node_at fs p of None \<Rightarrow> False | Some Dir \<Rightarrow> False | _ \<Rightarrow> True)"

text \<open>Reading a text file turns every line ending into a line feed; writing leaves line feeds alone.\<close>

fun universal_newlines :: "string \<Rightarrow> string" where
  "universal_newlines [] = []"
| "universal_newlines [c] = (if c = CHR 0x0D then [CHR 0x0A] else [c])"
| "universal_newlines (c # d # cs) =
     (if c = CHR 0x0D then CHR 0x0A # universal_newlines (if d = CHR 0x0A then cs else d # cs)
      else c # universal_newlines (d # cs))"

definition write_text :: "place \<Rightarrow> string \<Rightarrow> tree \<Rightarrow> exn + tree" where
  "write_text p s fs = (if node_at fs p = Some Dir then Inl (OutsideModel ''IsADirectoryError'')
     else Inr (fs(p \<mapsto> Text s)))"

text \<open>\<open>mkdir(parents=True, exist_ok=True)\<close>, from the top.\<close>

fun make_dirs :: "place \<Rightarrow> place \<Rightarrow> tree \<Rightarrow> exn + tree" where
  "make_dirs done_part [] fs = Inr fs"
| "make_dirs done_part (x # xs) fs =
     (let p = done_part @ [x] in
      case fs p of
        None \<Rightarrow> make_dirs p xs (fs(p \<mapsto> Dir))
      | Some Dir \<Rightarrow> make_dirs p xs fs
      | Some _ \<Rightarrow> Inl (OutsideModel ''FileExistsError''))"

definition unlink :: "place \<Rightarrow> tree \<Rightarrow> exn + tree" where
  "unlink p fs = (if node_at fs p = Some Dir then Inl (OutsideModel ''IsADirectoryError'') else Inr (fs(p := None)))"

subsection \<open>Paths\<close>

fun split_slash :: "string \<Rightarrow> string \<Rightarrow> string list" where
  "split_slash acc [] = [rev acc]"
| "split_slash acc (c # cs) = (if c = CHR ''/'' then rev acc # split_slash [] cs else split_slash (c # acc) cs)"

definition path_parts :: "string \<Rightarrow> string list" where
  "path_parts s = filter (\<lambda>x. x \<noteq> [] \<and> x \<noteq> ''.'') (split_slash [] s)"

fun walk :: "place \<Rightarrow> string list \<Rightarrow> place" where
  "walk p [] = p"
| "walk p (x # xs) = walk (if x = ''..'' then butlast p else p @ [x]) xs"

text \<open>\<open>(root / path).resolve()\<close>; an absolute path replaces the root.\<close>

definition resolve :: "place \<Rightarrow> string \<Rightarrow> place" where
  "resolve ws path = walk (if starts_with ''/'' path then [] else ws) (path_parts path)"

definition under :: "place \<Rightarrow> place \<Rightarrow> bool" where
  "under ws p \<longleftrightarrow> take (length ws) p = ws"

definition with_slashes :: "string \<Rightarrow> string" where
  "with_slashes s = map (\<lambda>c. if c = CHR 0x5C then CHR ''/'' else c) s"

definition normalize_rel :: "string \<Rightarrow> string" where
  "normalize_rel path =
     (let normalized = with_slashes path
      in if starts_with ''./'' normalized then drop 2 normalized else normalized)"

definition resolve_in_workspace :: "place \<Rightarrow> string \<Rightarrow> place option" where
  "resolve_in_workspace ws rel_path =
     (let target = resolve ws rel_path in if under ws target then Some target else None)"

subsection \<open>Searching and replacing\<close>

text \<open>\<open>content.count(needle)\<close> of a non-empty needle counts from left to right without overlaps; the number
  says how many characters of the last occurrence are still to come.\<close>

fun occurrences :: "string \<Rightarrow> nat \<Rightarrow> string \<Rightarrow> nat" where
  "occurrences needle n [] = 0"
| "occurrences needle (Suc n) (c # cs) = occurrences needle n cs"
| "occurrences needle 0 (c # cs) =
     (if starts_with needle (c # cs) then Suc (occurrences needle (length needle - 1) cs)
      else occurrences needle 0 cs)"

fun replace_first :: "string \<Rightarrow> string \<Rightarrow> string \<Rightarrow> string" where
  "replace_first old new [] = []"
| "replace_first old new (c # cs) =
     (if starts_with old (c # cs) then new @ drop (length old) (c # cs) else c # replace_first old new cs)"

subsection \<open>apply_changes\<close>

record ApplySummary =
  as_written :: "string list"
  as_deleted :: "string list"
  as_rejected :: "(string \<times> string) list"
  as_edits_applied :: nat
  as_new_files_created :: nat

definition no_changes :: ApplySummary where
  "no_changes = \<lparr>as_written = [], as_deleted = [], as_rejected = [], as_edits_applied = 0, as_new_files_created = 0\<rparr>"

text \<open>The first pass checks every edit against the contents in memory.\<close>

record edit_state =
  es_rejections :: "(string \<times> string) list"
  es_verified :: "(place \<times> string) list"
  es_cache :: "(string \<times> string) list"

definition reject_edit :: "string \<Rightarrow> string \<Rightarrow> edit_state \<Rightarrow> exn + edit_state" where
  "reject_edit path reason st = Inr (st\<lparr>es_rejections := es_rejections st @ [(path, reason)]\<rparr>)"

definition entry_dict :: "pyval \<Rightarrow> exn + pydict" where
  "entry_dict v = (case v of PDict d \<Rightarrow> Inr d | _ \<Rightarrow> Inl (AttributeError ''object has no attribute get''))"

definition replace_anchor :: "place \<Rightarrow> string \<Rightarrow> string \<Rightarrow> string \<Rightarrow> edit_state \<Rightarrow> string \<Rightarrow> exn + edit_state" where
  "replace_anchor target path old new st content =
     (let st = st\<lparr>es_cache := dict_set path content (es_cache st)\<rparr>; n = occurrences old 0 content
      in if n = 0 then reject_edit path ''old_string_not_found'' st
         else if 1 < n then reject_edit path (''old_string_not_unique:'' @ dec_nat n) st
         else Inr (st\<lparr>es_cache := dict_set path (replace_first old new content) (es_cache st),
                      es_verified := es_verified st @ [(target, path)]\<rparr>))"

definition verify_edit :: "place \<Rightarrow> string list \<Rightarrow> tree \<Rightarrow> pyval \<Rightarrow> edit_state \<Rightarrow> exn + edit_state" where
  "verify_edit ws allowed fs item st =
     rbind (entry_dict item) (\<lambda>entry.
     let path = normalize_rel (str_or_empty (dict_get entry ''path'')) in
     if path = [] then Inr st
     else if path \<notin> set allowed then reject_edit path ''edit_out_of_scope'' st
     else case resolve_in_workspace ws path of
       None \<Rightarrow> reject_edit path ''path_escape'' st
     | Some target \<Rightarrow>
         if \<not> is_file fs target then reject_edit path ''edit_target_missing'' st
         else
           let old = str_or_empty (dict_get entry ''old_string'');
               new = str_or_empty (dict_get entry ''new_string'')
           in if old = [] then reject_edit path ''edit_empty_old_string'' st
              else case map_of (es_cache st) path of
                Some content \<Rightarrow> replace_anchor target path old new st content
              | None \<Rightarrow>
                  (case node_at fs target of
                     Some (Text s) \<Rightarrow> replace_anchor target path old new st (universal_newlines s)
                   | Some (Undecodable e _) \<Rightarrow> Inl e
                   | Some (Unreadable err) \<Rightarrow> reject_edit path (''read_failed:'' @ err) st
                   | _ \<Rightarrow> Inr st))"

fun verify_edits :: "place \<Rightarrow> string list \<Rightarrow> tree \<Rightarrow> pyval list \<Rightarrow> edit_state \<Rightarrow> exn + edit_state" where
  "verify_edits ws allowed fs [] st = Inr st"
| "verify_edits ws allowed fs (item # items) st =
     rbind (verify_edit ws allowed fs item st) (verify_edits ws allowed fs items)"

text \<open>The second pass writes every edited file once. Steps of the application work on the tree and the
  summary.\<close>

definition write_edit :: "(string \<times> string) list \<Rightarrow> place \<times> string \<Rightarrow> (tree \<times> ApplySummary, unit) prog" where
  "write_edit cache verified =
     (case verified of (target, path) \<Rightarrow>
        writes (\<lambda>(fs, s).
          (if path \<in> set (as_written s) then (fs, s\<lparr>as_edits_applied := as_edits_applied s + 1\<rparr>)
           else (case map_of cache path of None \<Rightarrow> fs | Some content \<Rightarrow> fs(target \<mapsto> Text content),
                 s\<lparr>as_written := as_written s @ [path], as_edits_applied := as_edits_applied s + 1\<rparr>))))"

definition reject_change :: "string \<Rightarrow> string \<Rightarrow> (tree \<times> ApplySummary, unit) prog" where
  "reject_change path reason =
     writes (\<lambda>(fs, s). (fs, s\<lparr>as_rejected := as_rejected s @ [(path, reason)]\<rparr>))"

definition on_tree :: "(tree \<Rightarrow> exn + tree) \<Rightarrow> (tree \<times> ApplySummary, unit) prog" where
  "on_tree f = try_write (\<lambda>(fs, s). map_sum id (\<lambda>gs. (gs, s)) (f fs))"

definition create_file :: "place \<Rightarrow> string list \<Rightarrow> pyval \<Rightarrow> (tree \<times> ApplySummary, unit) prog" where
  "create_file ws allowed item =
     bnd (lift_result (entry_dict item)) (\<lambda>entry.
     let path = normalize_rel (str_or_empty (dict_get entry ''path'')) in
     if path = [] then ret ()
     else if path \<notin> set allowed then reject_change path ''new_file_out_of_scope''
     else case resolve_in_workspace ws path of
       None \<Rightarrow> reject_change path ''path_escape''
     | Some target \<Rightarrow>
         bnd (reads (\<lambda>(fs, s). there fs target)) (\<lambda>exists.
         if exists then reject_change path ''new_file_already_exists''
         else
           bnd (on_tree (make_dirs [] (butlast target))) (\<lambda>_.
           bnd (on_tree (write_text target (str_or_empty (dict_get entry ''content'')))) (\<lambda>_.
           writes (\<lambda>(fs, s). (fs, s\<lparr>as_written := as_written s @ (if path \<in> set (as_written s) then [] else [path]),
                                    as_new_files_created := as_new_files_created s + 1\<rparr>))))))"

definition delete_file :: "place \<Rightarrow> string list \<Rightarrow> pyval \<Rightarrow> (tree \<times> ApplySummary, unit) prog" where
  "delete_file ws allowed raw =
     (let path = normalize_rel (py_str raw) in
      if path = [] then ret ()
      else if path \<notin> set allowed then reject_change path ''delete_out_of_scope''
      else case resolve_in_workspace ws path of
        None \<Rightarrow> reject_change path ''path_escape''
      | Some target \<Rightarrow>
          bnd (reads (\<lambda>(fs, s). there fs target)) (\<lambda>exists.
          when_do exists
            (bnd (on_tree (unlink target)) (\<lambda>_.
             writes (\<lambda>(fs, s). (fs, s\<lparr>as_deleted := as_deleted s @ [path]\<rparr>))))))"

definition apply_edits :: "place \<Rightarrow> string list \<Rightarrow> pyval list \<Rightarrow> (tree \<times> ApplySummary, unit) prog" where
  "apply_edits ws allowed items =
     bnd (reads fst) (\<lambda>fs.
     bnd (lift_result (verify_edits ws allowed fs items \<lparr>es_rejections = [], es_verified = [], es_cache = []\<rparr>)) (\<lambda>st.
     if es_rejections st \<noteq> []
     then writes (\<lambda>(fs, s). (fs, s\<lparr>as_rejected := as_rejected s @ es_rejections st\<rparr>))
     else for_each (es_verified st) (write_edit (es_cache st))))"

definition items_of :: "pydict \<Rightarrow> string \<Rightarrow> exn + pyval list" where
  "items_of output k = py_list (py_or (dict_get output k) (PList []))"

definition apply_changes :: "pydict \<Rightarrow> place \<Rightarrow> string list \<Rightarrow> (tree, ApplySummary) prog" where
  "apply_changes output ws allowed_files fs =
     (let allowed = map normalize_rel allowed_files;
          steps =
            bnd (lift_result (items_of output ''edits'')) (\<lambda>edits.
            bnd (apply_edits ws allowed edits) (\<lambda>_.
            bnd (lift_result (items_of output ''new_files'')) (\<lambda>new_files.
            bnd (for_each new_files (create_file ws allowed)) (\<lambda>_.
            bnd (lift_result (items_of output ''deleted_files'')) (\<lambda>deleted.
            for_each deleted (delete_file ws allowed))))))
      in case steps (fs, no_changes) of
           (Inl e, (gs, _)) \<Rightarrow> (Inl e, gs)
         | (Inr _, (gs, s)) \<Rightarrow> (Inr s, gs))"

text \<open>\<open>_load_file_contents\<close>: what the language model is shown of the files in scope.\<close>

definition lenient_text :: "node option \<Rightarrow> string option" where
  "lenient_text n =
     (case n of Some (Text s) \<Rightarrow> Some (universal_newlines s)
      | Some (Undecodable _ s) \<Rightarrow> Some (universal_newlines s) | _ \<Rightarrow> None)"

fun load_file_contents :: "place \<Rightarrow> tree \<Rightarrow> string list \<Rightarrow> (string \<times> string) list \<Rightarrow> (string \<times> string) list" where
  "load_file_contents ws fs [] contents = contents"
| "load_file_contents ws fs (rel # rels) contents =
     (let target = resolve ws (with_slashes rel) in
      load_file_contents ws fs rels
        (if under ws target
         then (case lenient_text (node_at fs target) of
                 Some text \<Rightarrow> dict_set rel (take 40000 text) contents
               | None \<Rightarrow> contents)
         else contents))"

subsection \<open>Which files change\<close>

text \<open>A place the change lists may touch: the file of an allowed path inside the workspace, or a directory
  on the way to one.\<close>

definition allowed_place :: "place \<Rightarrow> string list \<Rightarrow> place \<Rightarrow> bool" where
  "allowed_place ws allowed_files p \<longleftrightarrow>
     (\<exists>a\<in>set allowed_files. resolve_in_workspace ws (normalize_rel a) = Some p)"

definition on_the_way :: "place \<Rightarrow> string list \<Rightarrow> place \<Rightarrow> bool" where
  "on_the_way ws allowed_files p \<longleftrightarrow>
     (\<exists>a\<in>set allowed_files. \<exists>t. resolve_in_workspace ws (normalize_rel a) = Some t
        \<and> length p < length t \<and> take (length p) t = p)"

definition confined :: "place \<Rightarrow> string list \<Rightarrow> tree \<Rightarrow> tree \<Rightarrow> bool" where
  "confined ws allowed_files fs gs \<longleftrightarrow>
     (\<forall>p. gs p = fs p \<or> allowed_place ws allowed_files p
        \<or> (fs p = None \<and> gs p = Some Dir \<and> on_the_way ws allowed_files p))"

lemma confined_refl [simp]: "confined ws al fs fs"
  by (simp add: confined_def)

lemma confined_trans: "confined ws al fs gs \<Longrightarrow> confined ws al gs hs \<Longrightarrow> confined ws al fs hs"
  unfolding confined_def
proof (intro allI)
  fix p
  assume "\<forall>p. gs p = fs p \<or> allowed_place ws al p \<or> (fs p = None \<and> gs p = Some Dir \<and> on_the_way ws al p)"
    and "\<forall>p. hs p = gs p \<or> allowed_place ws al p \<or> (gs p = None \<and> hs p = Some Dir \<and> on_the_way ws al p)"
  from this [THEN spec, of p]
  show "hs p = fs p \<or> allowed_place ws al p \<or> (fs p = None \<and> hs p = Some Dir \<and> on_the_way ws al p)" by auto
qed

lemma confined_upd: "confined ws al fs gs \<Longrightarrow> allowed_place ws al t \<Longrightarrow> confined ws al fs (gs(t := n))"
  by (auto simp: confined_def)

lemma make_dirs_confined:
  assumes "make_dirs d xs gs = Inr hs" and "resolve_in_workspace ws (normalize_rel a) = Some (d @ xs @ [x])"
    and "a \<in> set al" and "confined ws al fs gs"
  shows "confined ws al fs hs"
  using assms
proof (induction d xs gs rule: make_dirs.induct)
  case (1 d gs)
  then show ?case by simp
next
  case (2 d y ys gs)
  have way: "on_the_way ws al (d @ [y])"
    using 2 (4,5) unfolding on_the_way_def
    by (intro bexI [of _ a] exI [of _ "d @ (y # ys) @ [x]"]) simp_all
  show ?case
  proof (cases "gs (d @ [y])")
    case None
    have "confined ws al gs (gs(d @ [y] \<mapsto> Dir))"
      using None way by (auto simp: confined_def)
    then have "confined ws al fs (gs(d @ [y] \<mapsto> Dir))" using 2(6) by (rule confined_trans [rotated])
    with None 2(1) [of "d @ [y]"] 2(3,4,5) show ?thesis by (simp add: Let_def fun_upd_def)
  next
    case (Some n)
    with 2(2) [of "d @ [y]" n] 2(3,4,5,6) show ?thesis by (cases n) (simp_all add: Let_def)
  qed
qed

text \<open>Every step keeps the tree within the allowed places, also when it raises.\<close>

abbreviation stays :: "place \<Rightarrow> string list \<Rightarrow> tree \<Rightarrow> (tree \<times> ApplySummary, 'a) prog \<Rightarrow> bool" where
  "stays ws al fs \<equiv> preserves (\<lambda>s. confined ws al fs (fst s))"

lemma stays_writes: "(\<And>gs s. confined ws al fs gs \<Longrightarrow> confined ws al fs (fst (f (gs, s)))) \<Longrightarrow> stays ws al fs (writes f)"
  by (auto simp: preserves_def)

lemma stays_on_tree:
  "(\<And>gs hs. confined ws al fs gs \<Longrightarrow> f gs = Inr hs \<Longrightarrow> confined ws al fs hs) \<Longrightarrow> stays ws al fs (on_tree f)"
  by (auto simp: preserves_def on_tree_def try_write_def map_sum_def split: sum.splits prod.splits)

lemma stays_reject [preserve_rules]: "stays ws al fs (reject_change path reason)"
  unfolding reject_change_def by (rule stays_writes) simp

lemma stays_target:
  "stays ws al fs m \<Longrightarrow> (\<And>t. x = Some t \<Longrightarrow> stays ws al fs (k t))
     \<Longrightarrow> stays ws al fs (case x of None \<Rightarrow> m | Some t \<Rightarrow> k t)"
  by (cases x) auto

lemma allowed_target:
  "path \<in> normalize_rel ` set al \<Longrightarrow> resolve_in_workspace ws path = Some t \<Longrightarrow> allowed_place ws al t"
  by (auto simp: allowed_place_def)

definition verified_ok :: "place \<Rightarrow> string list \<Rightarrow> edit_state \<Rightarrow> bool" where
  "verified_ok ws al st \<longleftrightarrow> (\<forall>(t, path)\<in>set (es_verified st). allowed_place ws al t)"

lemma verify_edit_ok:
  assumes "verify_edit ws (map normalize_rel al) fs item st = Inr st'" and "verified_ok ws al st"
  shows "verified_ok ws al st'"
  using assms allowed_target
  by (fastforce simp: verify_edit_def reject_edit_def replace_anchor_def verified_ok_def rbind_Inr_iff Let_def
      split: if_splits option.splits node.splits)

lemma verify_edits_ok:
  "verify_edits ws (map normalize_rel al) fs items st = Inr st' \<Longrightarrow> verified_ok ws al st \<Longrightarrow> verified_ok ws al st'"
  by (induction items arbitrary: st) (auto simp: rbind_Inr_iff dest: verify_edit_ok)

lemma stays_write_edit: "allowed_place ws al (fst v) \<Longrightarrow> stays ws al fs (write_edit cache v)"
  unfolding write_edit_def by (cases v) (auto intro!: stays_writes confined_upd split: option.splits)

lemma stays_apply_edits: "stays ws al fs (apply_edits ws (map normalize_rel al) items)"
  unfolding preserves_def
proof (intro allI impI)
  fix s :: "tree \<times> ApplySummary"
  assume w: "confined ws al fs (fst s)"
  let ?init = "\<lparr>es_rejections = [], es_verified = [], es_cache = []\<rparr> :: edit_state"
  show "confined ws al fs (fst (snd (apply_edits ws (map normalize_rel al) items s)))"
  proof (cases "verify_edits ws (map normalize_rel al) (fst s) items ?init")
    case (Inl e)
    with w show ?thesis by (simp add: apply_edits_def bnd_run lift_result_run)
  next
    case (Inr st)
    then have "verified_ok ws al st" using verify_edits_ok by (fastforce simp: verified_ok_def)
    then have "stays ws al fs (for_each (es_verified st) (write_edit (es_cache st)))"
      by (auto simp: verified_ok_def intro!: preserves_for_each stays_write_edit)
    with Inr w show ?thesis
      by (auto simp: apply_edits_def bnd_run lift_result_run preserves_def split: prod.splits)
  qed
qed

lemma stays_create_file: "stays ws al fs (create_file ws (map normalize_rel al) item)"
proof -
  have dirs: "stays ws al fs (on_tree (make_dirs [] (butlast t)))"
    if "path \<in> normalize_rel ` set al" "resolve_in_workspace ws path = Some t" for path t
  proof (cases t rule: rev_cases)
    case Nil
    then show ?thesis by (auto intro!: stays_on_tree)
  next
    case (snoc ys y)
    with that show ?thesis by (auto intro!: stays_on_tree dest: make_dirs_confined)
  qed
  have contents: "stays ws al fs (on_tree (write_text t s))"
    if "path \<in> normalize_rel ` set al" "resolve_in_workspace ws path = Some t" for path t s
    using allowed_target [OF that] by (auto intro!: stays_on_tree confined_upd simp: write_text_def split: if_splits)
  show ?thesis unfolding create_file_def Let_def
    by (intro preserve_rules stays_target; (rule stays_writes dirs contents)?; auto)
qed

lemma stays_delete_file: "stays ws al fs (delete_file ws (map normalize_rel al) item)"
proof -
  have del: "stays ws al fs (on_tree (unlink t))"
    if "path \<in> normalize_rel ` set al" "resolve_in_workspace ws path = Some t" for path t
    using allowed_target [OF that] by (auto intro!: stays_on_tree confined_upd simp: unlink_def split: if_splits)
  show ?thesis unfolding delete_file_def Let_def
    by (intro preserve_rules stays_target; (rule stays_writes del)?; auto)
qed

lemma apply_changes_confined: "apply_changes output ws al fs = (r, gs) \<Longrightarrow> confined ws al fs gs"
proof -
  assume a: "apply_changes output ws al fs = (r, gs)"
  let ?steps = "bnd (lift_result (items_of output ''edits'')) (\<lambda>edits.
            bnd (apply_edits ws (map normalize_rel al) edits) (\<lambda>_.
            bnd (lift_result (items_of output ''new_files'')) (\<lambda>new_files.
            bnd (for_each new_files (create_file ws (map normalize_rel al))) (\<lambda>_.
            bnd (lift_result (items_of output ''deleted_files'')) (\<lambda>deleted.
            for_each deleted (delete_file ws (map normalize_rel al)))))))"
  have "stays ws al fs ?steps"
    by (intro preserve_rules stays_apply_edits stays_create_file stays_delete_file)
  then have "confined ws al fs (fst (snd (?steps (fs, no_changes))))" by (rule preservesD) simp
  with a show ?thesis by (auto simp: apply_changes_def Let_def split: prod.splits sum.splits)
qed

subsection \<open>What a list of edits does to a file\<close>

text \<open>The reference: the edits of one file in order, each with an anchor that occurs once in what the edits
  before it made.\<close>

fun replay :: "(string \<times> string) list \<Rightarrow> string \<Rightarrow> string option" where
  "replay [] content = Some content"
| "replay ((old, new) # es) content =
     (if old \<noteq> [] \<and> occurrences old 0 content = 1 then replay es (replace_first old new content) else None)"

definition edit_item :: "string \<Rightarrow> string \<times> string \<Rightarrow> pyval" where
  "edit_item path e = PDict [(''path'', PStr path), (''old_string'', PStr (fst e)), (''new_string'', PStr (snd e))]"

definition edit_output :: "string \<Rightarrow> (string \<times> string) list \<Rightarrow> pydict" where
  "edit_output path es = [(''edits'', PList (map (edit_item path) es)), (''new_files'', PList []), (''deleted_files'', PList [])]"

lemma edit_item_fields [simp]:
  "entry_dict (edit_item path e) = Inr [(''path'', PStr path), (''old_string'', PStr (fst e)), (''new_string'', PStr (snd e))]"
  by (simp add: edit_item_def entry_dict_def)

lemma edit_fields [simp]:
  "dict_get [(''path'', PStr p), (''old_string'', PStr a), (''new_string'', PStr b)] ''path'' = PStr p"
  "dict_get [(''path'', PStr p), (''old_string'', PStr a), (''new_string'', PStr b)] ''old_string'' = PStr a"
  "dict_get [(''path'', PStr p), (''old_string'', PStr a), (''new_string'', PStr b)] ''new_string'' = PStr b"
  by (simp_all add: dict_get_def)

text \<open>What the file holds for the next edit.\<close>

definition current :: "tree \<Rightarrow> place \<Rightarrow> string \<Rightarrow> edit_state \<Rightarrow> string \<Rightarrow> bool" where
  "current fs t path st content \<longleftrightarrow>
     (map_of (es_cache st) path = Some content
      \<or> map_of (es_cache st) path = None \<and> (\<exists>s. fs t = Some (Text s) \<and> content = universal_newlines s))"

definition editable :: "place \<Rightarrow> string list \<Rightarrow> tree \<Rightarrow> string \<Rightarrow> place \<Rightarrow> bool" where
  "editable ws al fs path t \<longleftrightarrow> normalize_rel path \<in> normalize_rel ` set al \<and> normalize_rel path \<noteq> []
     \<and> resolve_in_workspace ws (normalize_rel path) = Some t \<and> is_file fs t \<and> t \<noteq> []"

lemma verify_one:
  assumes "editable ws al fs path t" and "current fs t (normalize_rel path) st content"
  shows "\<exists>st'. verify_edit ws (map normalize_rel al) fs (edit_item path (old, new)) st = Inr st'
    \<and> (if old \<noteq> [] \<and> occurrences old 0 content = 1
        then es_rejections st' = es_rejections st \<and> es_verified st' = es_verified st @ [(t, normalize_rel path)]
          \<and> map_of (es_cache st') (normalize_rel path) = Some (replace_first old new content)
          \<and> current fs t (normalize_rel path) st' (replace_first old new content)
        else es_rejections st' \<noteq> [] \<and> current fs t (normalize_rel path) st' content)"
proof -
  have "verify_edit ws (map normalize_rel al) fs (edit_item path (old, new)) st =
      (if old = [] then reject_edit (normalize_rel path) ''edit_empty_old_string'' st
       else replace_anchor t (normalize_rel path) old new st content)"
    using assms
    by (auto simp: editable_def verify_edit_def rbind_def Let_def current_def node_at_def)
  with assms show ?thesis
    by (auto simp: reject_edit_def replace_anchor_def Let_def current_def map_of_dict_set)
qed

lemma verify_all:
  assumes "editable ws al fs path t" and "current fs t (normalize_rel path) st content"
  shows "\<exists>st'. verify_edits ws (map normalize_rel al) fs (map (edit_item path) es) st = Inr st'
    \<and> (if es_rejections st = [] then
         (case replay es content of
            Some content' \<Rightarrow> es_rejections st' = [] \<and> es_verified st' = es_verified st @ replicate (length es) (t, normalize_rel path)
              \<and> (es \<noteq> [] \<longrightarrow> map_of (es_cache st') (normalize_rel path) = Some content')
          | None \<Rightarrow> es_rejections st' \<noteq> [])
        else es_rejections st' \<noteq> [])"
  using assms(2)
proof (induction es arbitrary: st content)
  case Nil
  then show ?case by simp
next
  case (Cons e es)
  obtain old new where e: "e = (old, new)" by force
  let ?ok = "old \<noteq> [] \<and> occurrences old 0 content = 1"
  obtain st1 where st1: "verify_edit ws (map normalize_rel al) fs (edit_item path (old, new)) st = Inr st1"
    "if ?ok then es_rejections st1 = es_rejections st \<and> es_verified st1 = es_verified st @ [(t, normalize_rel path)]
          \<and> map_of (es_cache st1) (normalize_rel path) = Some (replace_first old new content)
          \<and> current fs t (normalize_rel path) st1 (replace_first old new content)
        else es_rejections st1 \<noteq> [] \<and> current fs t (normalize_rel path) st1 content"
    using verify_one [OF assms(1) Cons.prems, of old new] by blast
  show ?case
  proof (cases ?ok)
    case True
    with st1 have cur: "current fs t (normalize_rel path) st1 (replace_first old new content)" by simp
    from Cons.IH [OF cur] show ?thesis
      using True st1 e by (cases es) (auto simp: rbind_def split: option.splits if_splits)
  next
    case False
    with st1 have cur: "current fs t (normalize_rel path) st1 content" and rej: "es_rejections st1 \<noteq> []" by auto
    from Cons.IH [OF cur] rej show ?thesis
      using False st1(1) e by (auto simp: rbind_def)
  qed
qed

lemma write_same:
  assumes "map_of cache (normalize_rel path) = Some content"
  shows "for_each (replicate n (t, normalize_rel path)) (write_edit cache) (gs, s) =
    (Inr (), if n = 0 then (gs, s)
       else (if normalize_rel path \<in> set (as_written s) then gs else gs(t \<mapsto> Text content),
             s\<lparr>as_written := as_written s @ (if normalize_rel path \<in> set (as_written s) then [] else [normalize_rel path]),
               as_edits_applied := as_edits_applied s + n\<rparr>))"
  using assms by (induction n arbitrary: gs s) (auto simp: ret_def write_edit_def bnd_run)

lemma edits_replayed:
  assumes "editable ws al fs path t" and s: "fs t = Some (Text s)" and "es \<noteq> []"
  shows "case replay es (universal_newlines s) of
      Some content \<Rightarrow> apply_changes (edit_output path es) ws al fs =
        (Inr (no_changes\<lparr>as_written := [normalize_rel path], as_edits_applied := length es\<rparr>), fs(t \<mapsto> Text content))
    | None \<Rightarrow> (\<exists>r. r \<noteq> [] \<and> apply_changes (edit_output path es) ws al fs = (Inr (no_changes\<lparr>as_rejected := r\<rparr>), fs))"
proof -
  let ?init = "\<lparr>es_rejections = [], es_verified = [], es_cache = []\<rparr> :: edit_state"
  have items: "items_of (edit_output path es) ''edits'' = Inr (map (edit_item path) es)"
      "items_of (edit_output path es) ''new_files'' = Inr []" "items_of (edit_output path es) ''deleted_files'' = Inr []"
    by (simp_all add: items_of_def edit_output_def dict_get_def)
  have init: "current fs t (normalize_rel path) ?init (universal_newlines s)" using s by (simp add: current_def)
  from verify_all [OF assms(1) init, of es] obtain st where
    st: "verify_edits ws (map normalize_rel al) fs (map (edit_item path) es) ?init = Inr st"
    "case replay es (universal_newlines s) of
       Some content \<Rightarrow> es_rejections st = [] \<and> es_verified st = replicate (length es) (t, normalize_rel path)
              \<and> (es \<noteq> [] \<longrightarrow> map_of (es_cache st) (normalize_rel path) = Some content)
     | None \<Rightarrow> es_rejections st \<noteq> []"
    by (cases "replay es (universal_newlines s)") auto
  show ?thesis
  proof (cases "replay es (universal_newlines s)")
    case None
    with st items show ?thesis
      by (simp add: apply_changes_def Let_def bnd_run lift_result_run apply_edits_def ret_run no_changes_def)
  next
    case (Some content)
    with st items assms show ?thesis
      by (simp add: apply_changes_def Let_def bnd_run lift_result_run apply_edits_def ret_run no_changes_def write_same)
  qed
qed

subsection \<open>The properties\<close>

text \<open>
  C1. Applying the changes of the language model touches only files whose paths the scope allows and that
  lie inside the workspace, and makes directories only on the way to such a file; this holds for any
  output of the model, also when the application stops with an exception half way.
\<close>

theorem changes_stay_in_scope:
  assumes "apply_changes output ws allowed_files fs = (r, gs)" and "gs p \<noteq> fs p"
  shows "allowed_place ws allowed_files p \<or> (fs p = None \<and> gs p = Some Dir \<and> on_the_way ws allowed_files p)"
  using apply_changes_confined [OF assms(1)] assms(2) by (auto simp: confined_def)

definition demo_tree :: tree where
  "demo_tree = [[''w'', ''s''] \<mapsto> Dir, [''w'', ''s'', ''a''] \<mapsto> Text ''xz'']"

lemma changes_stay_in_scope_witness:
  "snd (apply_changes (edit_output ''s/a'' [(''x'', ''y'')]) [''w''] [''s/a'', ''../b''] demo_tree) [''w'', ''s'', ''a''] = Some (Text ''yz'')
   \<and> allowed_place [''w''] [''s/a'', ''../b''] [''w'', ''s'', ''a'']"
proof -
  let ?run = "apply_changes (edit_output ''s/a'' [(''x'', ''y'')]) [''w''] [''s/a'', ''../b''] demo_tree"
  have new: "snd ?run [''w'', ''s'', ''a''] = Some (Text ''yz'')" by code_simp
  then have differs: "snd ?run [''w'', ''s'', ''a''] \<noteq> demo_tree [''w'', ''s'', ''a'']" by (simp add: demo_tree_def)
  have "?run = (fst ?run, snd ?run)" by simp
  from changes_stay_in_scope [OF this differs] new show ?thesis by (simp add: demo_tree_def)
qed

text \<open>
  C2. A list of edits of one file is applied as a whole or not at all: when every anchor occurs once in the
  text the edits before it produced, the file ends as the sequential replacement of the anchors, read with
  normalised line endings; otherwise no file changes, nothing is reported as written and there is a rejection.
\<close>

theorem edits_all_or_nothing:
  assumes "editable ws allowed_files fs path t" and "fs t = Some (Text s)" and "es \<noteq> []"
  shows "case replay es (universal_newlines s) of
      Some content \<Rightarrow> apply_changes (edit_output path es) ws allowed_files fs =
        (Inr (no_changes\<lparr>as_written := [normalize_rel path], as_edits_applied := length es\<rparr>), fs(t \<mapsto> Text content))
    | None \<Rightarrow> (\<exists>r. r \<noteq> [] \<and> apply_changes (edit_output path es) ws allowed_files fs = (Inr (no_changes\<lparr>as_rejected := r\<rparr>), fs))"
  using edits_replayed [OF assms] .

lemma edits_all_or_nothing_witness:
  "replay [(''x'', ''yy''), (''yyz'', ''v'')] ''xz'' = Some ''v''
   \<and> snd (apply_changes (edit_output ''./s/a'' [(''x'', ''yy''), (''yyz'', ''v'')]) [''w''] [''s/a''] demo_tree)
       = demo_tree([''w'', ''s'', ''a''] \<mapsto> Text ''v'')"
proof -
  have e: "editable [''w''] [''s/a''] demo_tree ''./s/a'' [''w'', ''s'', ''a'']" by code_simp
  have r: "replay [(''x'', ''yy''), (''yyz'', ''v'')] ''xz'' = Some ''v''" by code_simp
  show ?thesis
    using edits_all_or_nothing [OF e, of "''xz''" "[(''x'', ''yy''), (''yyz'', ''v'')]"] r by (simp add: demo_tree_def)
qed

text \<open>Two spellings of one path, both in scope, are two files for the cache of the first pass: both edits
  are reported as applied, and the second write loses the first edit.\<close>

lemma two_spellings_lose_an_edit:
  "case apply_changes [(''edits'', PList [edit_item ''s/a'' (''x'', ''1''), edit_item ''s//a'' (''z'', ''2'')])]
      [''w''] [''s/a'', ''s//a''] demo_tree of
     (Inr s, gs) \<Rightarrow> as_rejected s = [] \<and> as_edits_applied s = 2 \<and> gs [''w'', ''s'', ''a''] = Some (Text ''x2'')
   | _ \<Rightarrow> False"
  by code_simp

text \<open>An edit of a file with DOS line endings rewrites every line ending of the file.\<close>

lemma edits_rewrite_line_endings:
  "snd (apply_changes (edit_output ''s/a'' [(''x'', ''y'')]) [''w''] [''s/a'']
      ([[''w'', ''s'', ''a''] \<mapsto> Text [CHR ''x'', CHR 0x0D, CHR 0x0A, CHR ''z'', CHR 0x0D, CHR 0x0A]])) [''w'', ''s'', ''a'']
     = Some (Text [CHR ''y'', CHR 0x0A, CHR ''z'', CHR 0x0A])"
  by code_simp


end
