(* ===== verification/Work_Skills.thy ===== *)
theory Work_Skills
  imports Promotion_Review Plan_Draft Mermaid_Render
begin

section \<open>The skills of the work pipeline\<close>

text \<open>
  The reading and the checking of the answers of the skills that a task passes through:
  \<open>skills/scope.py\<close>, \<open>skills/implement.py\<close>, \<open>skills/self_review.py\<close>, \<open>skills/fix_tests.py\<close> and
  \<open>skills/follow_on.py\<close>. The dictionary extracted from an answer is an argument. Each skill is an
  interpretation of the contract \<open>skill\<close>.
\<close>

subsection \<open>Steps the skills share\<close>

definition string_items :: "pyval list \<Rightarrow> pyval" where
  "string_items items = PList (map (\<lambda>v. PStr (py_str v)) (filter truthy items))"

definition coerce_list :: "string \<Rightarrow> (pyval list \<Rightarrow> pyval) \<Rightarrow> pydict \<Rightarrow> pydict" where
  "coerce_list k f parsed = (case dict_get parsed k of PList items \<Rightarrow> dict_set k (f items) parsed | _ \<Rightarrow> parsed)"

text \<open>\<open>if not parsed.get(k, "").strip(): return False, [err]\<close> as the last check of a validator.\<close>

definition text_given :: "pydict \<Rightarrow> string \<Rightarrow> string \<Rightarrow> exn + bool \<times> string list" where
  "text_given parsed k err =
     (case get_default parsed k (PStr []) of
        PStr s \<Rightarrow> Inr (if py_strip s = [] then (False, [err]) else (True, []))
      | _ \<Rightarrow> Inl (AttributeError ''object has no attribute strip''))"

definition has_text :: "pydict \<Rightarrow> string \<Rightarrow> bool" where
  "has_text parsed k \<longleftrightarrow> (\<exists>s. dict_get parsed k = PStr s \<and> py_strip s \<noteq> [])"

lemma text_given_accepts: "text_given parsed k err = Inr (True, errors) \<Longrightarrow> has_text parsed k"
  by (auto simp: text_given_def get_default_def has_text_def split: pyval.splits if_splits)

text \<open>An answer of a validator is coherent when it accepts exactly without complaints.\<close>

definition coherent :: "exn + bool \<times> string list \<Rightarrow> bool" where
  "coherent r \<longleftrightarrow> (\<forall>ok errors. r = Inr (ok, errors) \<longrightarrow> (ok \<longleftrightarrow> errors = []))"

named_theorems coherent_rules \<open>composition rules for coherent\<close>

lemma coherentD: "coherent r \<Longrightarrow> r = Inr (ok, errors) \<Longrightarrow> ok \<longleftrightarrow> errors = []"
  by (simp add: coherent_def)

lemma coherent_basic [coherent_rules]: "coherent (Inr (False, [err]))" "coherent (Inr (True, []))"
  by (simp_all add: coherent_def)

lemma coherent_if [coherent_rules]: "coherent r \<Longrightarrow> coherent r' \<Longrightarrow> coherent (if b then r else r')"
  by simp

lemma coherent_text_given [coherent_rules]: "coherent (text_given parsed k err)"
  by (auto simp: coherent_def text_given_def split: pyval.splits if_splits)

text \<open>A validator that starts from its schema and goes on with further checks.\<close>

definition after_schema :: "schema \<Rightarrow> pydict \<Rightarrow> (exn + bool \<times> string list) \<Rightarrow> exn + bool \<times> string list" where
  "after_schema sc parsed rest =
     (case validate_against_schema parsed sc of (True, _) \<Rightarrow> rest | (False, errors) \<Rightarrow> Inr (False, errors))"

lemma after_schema_accepts:
  assumes "after_schema sc parsed rest = Inr (True, errors)"
  shows "conforms sc parsed \<and> rest = Inr (True, errors)"
proof -
  from assms obtain es where "validate_against_schema parsed sc = (True, es)" "rest = Inr (True, errors)"
    by (auto simp: after_schema_def split: prod.splits bool.splits)
  then show ?thesis using validate_against_schema_iff [of parsed sc True es] by simp
qed

lemma coherent_after_schema [coherent_rules]: "coherent rest \<Longrightarrow> coherent (after_schema sc parsed rest)"
  using validate_against_schema_iff [of parsed sc]
  by (auto simp: coherent_def after_schema_def split: prod.splits bool.splits)

text \<open>A loop over the entries of a list that returns the first complaint.\<close>

fun first_complaint :: "(pyval \<Rightarrow> string option) \<Rightarrow> pyval list \<Rightarrow> string option" where
  "first_complaint f [] = None"
| "first_complaint f (x # xs) = (case f x of Some err \<Rightarrow> Some err | None \<Rightarrow> first_complaint f xs)"

lemma first_complaint_None: "first_complaint f xs = None \<longleftrightarrow> (\<forall>x\<in>set xs. f x = None)"
  by (induction xs) (auto split: option.splits)

definition complain :: "string option \<Rightarrow> (exn + bool \<times> string list) \<Rightarrow> exn + bool \<times> string list" where
  "complain c rest = (case c of Some err \<Rightarrow> Inr (False, [err]) | None \<Rightarrow> rest)"

lemma complain_accepts: "complain c rest = Inr (True, errors) \<longleftrightarrow> c = None \<and> rest = Inr (True, errors)"
  by (auto simp: complain_def split: option.splits)

lemma coherent_complain [coherent_rules]: "coherent rest \<Longrightarrow> coherent (complain c rest)"
  by (auto simp: coherent_def complain_def split: option.splits)

definition list_at :: "pydict \<Rightarrow> string \<Rightarrow> pyval list" where
  "list_at parsed k = (case dict_get parsed k of PList xs \<Rightarrow> xs | _ \<Rightarrow> [])"

subsection \<open>Scope\<close>

definition scope_schema :: schema where
  "scope_schema =
     \<lparr>sc_required = [''files_to_touch'', ''approach'', ''risks''],
      sc_types = [(''files_to_touch'', ''list''), (''files_not_to_touch'', ''list''), (''approach'', ''str''),
        (''risks'', ''list''), (''estimated_complexity'', ''str'')],
      sc_allowed_values = [(''estimated_complexity'', [''trivial'', ''small'', ''medium'', ''large'', ''too_large''])]\<rparr>"

definition path_items :: "pyval list \<Rightarrow> pyval" where
  "path_items items =
     PList (map (\<lambda>v. PStr (case v of PDict d \<Rightarrow> py_str (dict_get d ''path'') | _ \<Rightarrow> py_str v)) (filter truthy items))"

definition parse_scope :: "pydict option \<Rightarrow> pydict" where
  "parse_scope payload =
     (case payload of
        None \<Rightarrow> []
      | Some parsed \<Rightarrow>
          coerce_list ''risks'' string_items
            (coerce_list ''files_not_to_touch'' path_items
              (coerce_list ''files_to_touch'' path_items
                (set_default ''estimated_complexity'' (PStr ''medium'')
                  (set_default ''files_not_to_touch'' (PList []) parsed)))))"

definition scope_validate :: "pydict \<Rightarrow> exn + bool \<times> string list" where
  "scope_validate parsed =
     after_schema scope_schema parsed
       (if \<not> truthy (dict_get parsed ''files_to_touch'') then Inr (False, [''files_to_touch must be non-empty''])
        else text_given parsed ''approach'' ''approach must be non-empty'')"

definition scope_ok :: "pydict \<Rightarrow> bool" where
  "scope_ok output \<longleftrightarrow> conforms scope_schema output \<and> has_text output ''approach''
     \<and> (\<exists>paths. dict_get output ''files_to_touch'' = PList paths \<and> paths \<noteq> [])"

interpretation scope: skill scope_validate scope_ok
proof
  fix parsed errors
  assume "scope_validate parsed = Inr (True, errors)"
  then have c: "conforms scope_schema parsed" "truthy (dict_get parsed ''files_to_touch'')"
      "text_given parsed ''approach'' ''approach must be non-empty'' = Inr (True, errors)"
    by (auto simp: scope_validate_def dest!: after_schema_accepts split: if_splits)
  then have "is_list (dict_get parsed ''files_to_touch'')"
    by (simp add: conforms_def scope_schema_def)
  then obtain paths where "dict_get parsed ''files_to_touch'' = PList paths"
    by (auto simp: is_list_def split: pyval.splits)
  with c show "scope_ok parsed" by (auto simp: scope_ok_def dest: text_given_accepts)
next
  fix parsed ok errors
  assume "scope_validate parsed = Inr (ok, errors)"
  moreover have "coherent (scope_validate parsed)" unfolding scope_validate_def by (intro coherent_rules)
  ultimately show "ok \<longleftrightarrow> errors = []" by (rule coherentD [rotated])
qed

subsection \<open>Implement and fix tests\<close>

definition implement_schema :: schema where
  "implement_schema =
     \<lparr>sc_required = [''rationale''],
      sc_types = [(''edits'', ''list''), (''new_files'', ''list''), (''deleted_files'', ''list''), (''rationale'', ''str'')],
      sc_allowed_values = []\<rparr>"

definition normal_edit :: "pyval \<Rightarrow> pyval list" where
  "normal_edit item =
     (case item of
        PDict d \<Rightarrow>
          (let path = stripped (dict_get d ''path''); old = dict_get d ''old_string''; new = dict_get d ''new_string''
           in if path = [] \<or> old = PNone \<or> new = PNone then []
              else [PDict [(''path'', PStr path), (''old_string'', PStr (py_str old)), (''new_string'', PStr (py_str new))]])
      | _ \<Rightarrow> [])"

definition normal_new_file :: "pyval \<Rightarrow> pyval list" where
  "normal_new_file item =
     (case item of
        PDict d \<Rightarrow>
          (let path = stripped (dict_get d ''path''); content = dict_get d ''content''
           in if path = [] \<or> content = PNone then []
              else [PDict [(''path'', PStr path), (''content'', PStr (py_str content))]])
      | _ \<Rightarrow> [])"

definition parse_implement :: "pydict option \<Rightarrow> pydict" where
  "parse_implement payload =
     (case payload of
        None \<Rightarrow> []
      | Some parsed \<Rightarrow>
          coerce_list ''deleted_files'' string_items
            (coerce_list ''new_files'' (\<lambda>xs. PList (concat (map normal_new_file xs)))
              (coerce_list ''edits'' (\<lambda>xs. PList (concat (map normal_edit xs)))
                (set_default ''deleted_files'' (PList [])
                  (set_default ''new_files'' (PList []) (set_default ''edits'' (PList []) parsed))))))"

definition edit_keys :: "pydict \<Rightarrow> bool" where
  "edit_keys d \<longleftrightarrow> dict_has d ''path'' \<and> dict_has d ''old_string'' \<and> dict_has d ''new_string''"

definition edit_complaint :: "pyval \<Rightarrow> string option" where
  "edit_complaint item =
     (case item of
        PDict d \<Rightarrow> if \<not> edit_keys d then Some ''each edits entry must have path, old_string, new_string''
                   else if py_eq (dict_get d ''old_string'') (dict_get d ''new_string'')
                   then Some ''edits entry old_string must differ from new_string'' else None
      | _ \<Rightarrow> Some ''each edits entry must be an object'')"

definition new_file_complaint :: "pyval \<Rightarrow> string option" where
  "new_file_complaint item =
     (case item of
        PDict d \<Rightarrow> if \<not> (dict_has d ''path'' \<and> dict_has d ''content'')
                   then Some ''each new_files entry must have path and content'' else None
      | _ \<Rightarrow> Some ''each new_files entry must be an object'')"

definition implement_validate :: "pydict \<Rightarrow> exn + bool \<times> string list" where
  "implement_validate parsed =
     after_schema implement_schema parsed
       (let edits = list_at parsed ''edits''; new_files = list_at parsed ''new_files''; deleted = list_at parsed ''deleted_files''
        in if edits = [] \<and> new_files = [] \<and> deleted = []
           then Inr (False, [''must have at least one of: edits, new_files, deleted_files''])
           else complain (first_complaint edit_complaint edits)
                 (complain (first_complaint new_file_complaint new_files)
                   (text_given parsed ''rationale'' ''rationale must be non-empty'')))"

text \<open>What the application of the changes relies on.\<close>

definition changes_ok :: "pydict \<Rightarrow> bool" where
  "changes_ok output \<longleftrightarrow>
     (\<forall>v\<in>set (list_at output ''edits''). \<exists>d. v = PDict d \<and> edit_keys d
        \<and> \<not> py_eq (dict_get d ''old_string'') (dict_get d ''new_string''))
     \<and> (\<forall>v\<in>set (list_at output ''new_files''). \<exists>d. v = PDict d \<and> dict_has d ''path'' \<and> dict_has d ''content'')"

definition implement_ok :: "pydict \<Rightarrow> bool" where
  "implement_ok output \<longleftrightarrow> conforms implement_schema output \<and> has_text output ''rationale'' \<and> changes_ok output
     \<and> (list_at output ''edits'' \<noteq> [] \<or> list_at output ''new_files'' \<noteq> [] \<or> list_at output ''deleted_files'' \<noteq> [])"

lemma edit_complaint_None: "edit_complaint v = None \<longleftrightarrow>
    (\<exists>d. v = PDict d \<and> edit_keys d \<and> \<not> py_eq (dict_get d ''old_string'') (dict_get d ''new_string''))"
  by (simp add: edit_complaint_def split: pyval.splits)

lemma new_file_complaint_None: "new_file_complaint v = None \<longleftrightarrow> (\<exists>d. v = PDict d \<and> dict_has d ''path'' \<and> dict_has d ''content'')"
  by (simp add: new_file_complaint_def split: pyval.splits)

interpretation implement: skill implement_validate implement_ok
proof
  fix parsed errors
  assume "implement_validate parsed = Inr (True, errors)"
  then show "implement_ok parsed"
    unfolding implement_validate_def Let_def
    by (auto simp: implement_ok_def changes_ok_def complain_accepts first_complaint_None edit_complaint_None
        new_file_complaint_None text_given_accepts dest!: after_schema_accepts split: if_splits)
next
  fix parsed ok errors
  assume "implement_validate parsed = Inr (ok, errors)"
  moreover have "coherent (implement_validate parsed)" unfolding implement_validate_def Let_def by (intro coherent_rules)
  ultimately show "ok \<longleftrightarrow> errors = []" by (rule coherentD [rotated])
qed

definition fix_tests_schema :: schema where
  "fix_tests_schema = \<lparr>sc_required = [''edits'', ''rationale''],
     sc_types = [(''edits'', ''list''), (''rationale'', ''str'')], sc_allowed_values = []\<rparr>"

definition parse_fix_tests :: "pydict option \<Rightarrow> pydict" where
  "parse_fix_tests payload =
     (case payload of
        None \<Rightarrow> []
      | Some parsed \<Rightarrow> coerce_list ''edits'' (\<lambda>xs. PList (concat (map normal_edit xs))) (set_default ''edits'' (PList []) parsed))"

definition fix_complaint :: "pyval \<Rightarrow> string option" where
  "fix_complaint item =
     (case item of
        PDict d \<Rightarrow> if \<not> edit_keys d then Some ''each edits entry must have path, old_string, new_string'' else None
      | _ \<Rightarrow> Some ''each edits entry must be an object'')"

definition fix_tests_validate :: "pydict \<Rightarrow> exn + bool \<times> string list" where
  "fix_tests_validate parsed =
     after_schema fix_tests_schema parsed
       (let edits = list_at parsed ''edits'' in
        if edits = [] then Inr (False, [''edits must contain at least one fix''])
        else complain (first_complaint fix_complaint edits)
              (text_given parsed ''rationale'' ''rationale must be non-empty''))"

definition fix_tests_ok :: "pydict \<Rightarrow> bool" where
  "fix_tests_ok output \<longleftrightarrow> list_at output ''edits'' \<noteq> [] \<and> has_text output ''rationale''
     \<and> (\<forall>v\<in>set (list_at output ''edits''). \<exists>d. v = PDict d \<and> edit_keys d)"

lemma fix_complaint_None: "fix_complaint v = None \<longleftrightarrow> (\<exists>d. v = PDict d \<and> edit_keys d)"
  by (simp add: fix_complaint_def split: pyval.splits)

interpretation fix_tests: skill fix_tests_validate fix_tests_ok
proof
  fix parsed errors
  assume "fix_tests_validate parsed = Inr (True, errors)"
  then show "fix_tests_ok parsed"
    unfolding fix_tests_validate_def Let_def
    by (auto simp: fix_tests_ok_def complain_accepts first_complaint_None fix_complaint_None text_given_accepts
        dest!: after_schema_accepts split: if_splits)
next
  fix parsed ok errors
  assume "fix_tests_validate parsed = Inr (ok, errors)"
  moreover have "coherent (fix_tests_validate parsed)" unfolding fix_tests_validate_def Let_def by (intro coherent_rules)
  ultimately show "ok \<longleftrightarrow> errors = []" by (rule coherentD [rotated])
qed

subsection \<open>Self review\<close>

definition REVIEW_SEVERITIES :: "string list" where
  "REVIEW_SEVERITIES = [''blocker'', ''major'', ''minor'', ''nitpick'']"

definition self_review_schema :: schema where
  "self_review_schema = \<lparr>sc_required = [''issues'', ''ship_ready'', ''summary''],
     sc_types = [(''issues'', ''list''), (''ship_ready'', ''bool''), (''summary'', ''str'')], sc_allowed_values = []\<rparr>"

definition normal_issue :: "pyval \<Rightarrow> pyval list" where
  "normal_issue item =
     (case item of
        PDict d \<Rightarrow>
          (let severity = py_lower (py_str (py_or (dict_get d ''severity'') (PStr ''minor'')));
               severity = (if severity \<in> set REVIEW_SEVERITIES then severity else ''minor'')
           in [PDict [(''severity'', PStr severity), (''file'', PStr (str_or_empty (dict_get d ''file''))),
                      (''description'', PStr (stripped (dict_get d ''description'')))]])
      | _ \<Rightarrow> [])"

definition parse_self_review :: "pydict option \<Rightarrow> pydict" where
  "parse_self_review payload =
     (case payload of
        None \<Rightarrow> []
      | Some parsed \<Rightarrow>
          (let parsed = coerce_list ''issues'' (\<lambda>xs. PList (concat (map normal_issue xs))) parsed
           in case dict_get parsed ''ship_ready'' of
                PStr s \<Rightarrow> dict_set ''ship_ready'' (PBool (py_lower (py_strip s) \<in> {''true'', ''yes'', ''1''})) parsed
              | _ \<Rightarrow> parsed))"

definition is_blocking :: "pyval \<Rightarrow> bool" where
  "is_blocking v = (case v of PDict d \<Rightarrow> dict_get d ''severity'' \<in> {PStr ''blocker'', PStr ''major''} | _ \<Rightarrow> False)"

definition blocking_issues :: "pydict \<Rightarrow> pyval list" where
  "blocking_issues parsed = filter is_blocking (list_at parsed ''issues'')"

text \<open>The validator also changes the dictionary it checks: a review with blocking issues is never ready.\<close>

definition settled_self_review :: "pydict \<Rightarrow> pydict" where
  "settled_self_review parsed =
     (if fst (validate_against_schema parsed self_review_schema) \<and> blocking_issues parsed \<noteq> []
         \<and> truthy (dict_get parsed ''ship_ready'')
      then dict_set ''ship_ready'' (PBool False) parsed else parsed)"

definition self_review_validate :: "pydict \<Rightarrow> exn + bool \<times> string list" where
  "self_review_validate parsed = after_schema self_review_schema parsed (Inr (True, []))"

interpretation self_review: skill self_review_validate "conforms self_review_schema"
proof
  fix parsed errors
  assume "self_review_validate parsed = Inr (True, errors)"
  then show "conforms self_review_schema parsed"
    by (auto simp: self_review_validate_def dest: after_schema_accepts)
next
  fix parsed ok errors
  assume "self_review_validate parsed = Inr (ok, errors)"
  moreover have "coherent (self_review_validate parsed)" unfolding self_review_validate_def by (intro coherent_rules)
  ultimately show "ok \<longleftrightarrow> errors = []" by (rule coherentD [rotated])
qed

lemma settled_self_review_blocking:
  assumes "conforms self_review_schema (settled_self_review parsed)"
    and "truthy (dict_get (settled_self_review parsed) ''ship_ready'')"
  shows "blocking_issues (settled_self_review parsed) = []"
proof -
  have same: "blocking_issues (settled_self_review parsed) = blocking_issues parsed"
    by (simp add: settled_self_review_def blocking_issues_def list_at_def)
  have "conforms self_review_schema parsed"
    using assms(1) by (auto simp: settled_self_review_def split: if_splits)
  with assms(2) same show ?thesis by (auto simp: settled_self_review_def split: if_splits)
qed

subsubsection \<open>The operator's non-negotiables\<close>

text \<open>The files of a diff, and the file names a non-negotiable mentions.\<close>

definition changed_in_diff :: "string \<Rightarrow> string list" where
  "changed_in_diff diff =
     concat (map (\<lambda>line. if starts_with ''+++ b/'' line \<or> starts_with ''--- a/'' line then [py_strip (drop 6 line)] else [])
       (split_lines False [] diff))"

definition FILE_RE :: regex where
  "FILE_RE = seq [Maybe (Lit ''`''),
     Group 1 (seq [Some_of (One (\<lambda>c. c \<in> set ''ABCDEFGHIJKLMNOPQRSTUVWXYZabcdefghijklmnopqrstuvwxyz0123456789_./-'')),
       Lit ''.'', alt (map Lit [''py'', ''ts'', ''js'', ''tsx'', ''jsx'', ''md'', ''yaml'', ''yml'', ''toml'', ''txt''])]),
     Maybe (Lit ''`'')]"

definition mentioned_files :: "string \<Rightarrow> string list" where
  "mentioned_files text = filter (\<lambda>p. p \<noteq> []) (map (\<lambda>gs. py_strip (group_of gs 1)) (re_finditer FILE_RE text))"

definition forbids :: "string \<Rightarrow> bool" where
  "forbids lowered \<longleftrightarrow> (\<exists>w\<in>set [''must not'', ''should not'', ''forbidden'', ''outside'', ''never'', ''do not touch'']. contains w lowered)"

definition requires :: "string \<Rightarrow> bool" where
  "requires lowered \<longleftrightarrow> (\<exists>w\<in>set [''must be in'', ''must have'', ''must add'', ''add to'', ''must modify'', ''in this file'',
     ''only modify'', ''in '']. contains w lowered)"

definition violation :: "string \<Rightarrow> string \<Rightarrow> pyval" where
  "violation path description =
     PDict [(''severity'', PStr ''blocker''), (''file'', PStr path), (''description'', PStr (''NON_NEGOTIABLE VIOLATED: '' @ description))]"

definition file_violations :: "string list \<Rightarrow> string \<Rightarrow> string \<Rightarrow> pyval list" where
  "file_violations changed text path =
     (let lowered = py_lower text in
      if forbids lowered then
        (if path \<in> set changed
         then [violation path (''diff touches forbidden path '' @ [CHR 0x27] @ path @ [CHR 0x27] @ '' ('' @ text @ '')'')] else [])
      else if requires lowered \<and> path \<notin> set changed
        then [violation path (''diff does not touch required path '' @ [CHR 0x27] @ path @ [CHR 0x27] @ '' ('' @ text @ '')'')]
      else [])"

definition violations :: "pyval list \<Rightarrow> string \<Rightarrow> pyval list" where
  "violations non_negotiables diff =
     concat (map (\<lambda>nn. let text = stripped nn in concat (map (file_violations (changed_in_diff diff) text) (mentioned_files text)))
       non_negotiables)"

definition enforce_non_negotiables :: "pydict \<Rightarrow> pyval list \<Rightarrow> string \<Rightarrow> exn + pydict" where
  "enforce_non_negotiables parsed non_negotiables diff =
     (if non_negotiables = [] then Inr parsed
      else rbind (py_list (py_or (dict_get parsed ''issues'') (PList []))) (\<lambda>issues.
        let found = violations non_negotiables diff;
            parsed = dict_set ''issues'' (PList (issues @ found)) parsed
        in Inr (if found \<noteq> [] then dict_set ''ship_ready'' (PBool False) parsed else parsed)))"

lemma enforced_not_ready:
  assumes "enforce_non_negotiables parsed non_negotiables diff = Inr output" and "violations non_negotiables diff \<noteq> []"
  shows "dict_get output ''ship_ready'' = PBool False"
proof -
  have "non_negotiables \<noteq> []" using assms(2) by (auto simp: violations_def)
  with assms show ?thesis by (auto simp: enforce_non_negotiables_def rbind_Inr_iff Let_def)
qed

lemma enforced_ready:
  assumes "enforce_non_negotiables parsed non_negotiables diff = Inr output"
    and "violations non_negotiables diff = []" and "conforms self_review_schema parsed"
  shows "dict_get output ''ship_ready'' = dict_get parsed ''ship_ready'' \<and> list_at output ''issues'' = list_at parsed ''issues''"
  using assms by (auto simp: enforce_non_negotiables_def rbind_Inr_iff Let_def list_at_def conforms_def self_review_schema_def
      is_list_def py_or_def py_list_def split: if_splits pyval.splits)

text \<open>The alternatives of the pattern are tried in order, so \<open>.tsx\<close> is read as \<open>.ts\<close>: a forbidden file of that
  kind is never recognised in a diff.\<close>

lemma tsx_is_cut: "mentioned_files ''b.tsx'' = [''b.ts'']"
  by code_simp

subsubsection \<open>Feedback\<close>

definition feedback_lines :: "string \<Rightarrow> string \<Rightarrow> pydict list \<Rightarrow> string list" where
  "feedback_lines severity label issues =
     map (\<lambda>d. label @ (if truthy (dict_get d ''file'') then '' ('' @ py_str (dict_get d ''file'') @ '')'' else [])
              @ '': '' @ py_str (get_default d ''description'' (PStr [])))
       (filter (\<lambda>d. dict_get d ''severity'' = PStr severity) issues)"

definition issue_dict :: "pyval \<Rightarrow> exn + pydict" where
  "issue_dict v = (case v of PDict d \<Rightarrow> Inr d | _ \<Rightarrow> Inl (AttributeError ''object has no attribute get''))"

definition feedback_for_retry :: "pydict \<Rightarrow> exn + string" where
  "feedback_for_retry output =
     rbind (py_list (py_or (dict_get output ''issues'') (PList []))) (\<lambda>items.
     rbind (map_result issue_dict items) (\<lambda>issues.
     let summary = stripped (dict_get output ''summary'') in
     Inr (join NL (feedback_lines ''blocker'' ''BLOCKER'' issues @ feedback_lines ''major'' ''MAJOR'' issues
           @ (if summary = [] then [] else [''Summary: '' @ summary])))))"

subsection \<open>Follow-on tasks\<close>

definition follow_on_schema :: schema where
  "follow_on_schema = \<lparr>sc_required = [''proposed_tasks'', ''summary''],
     sc_types = [(''proposed_tasks'', ''list''), (''summary'', ''str'')], sc_allowed_values = []\<rparr>"

definition path_list_field :: "pydict \<Rightarrow> string \<Rightarrow> pydict" where
  "path_list_field item k = (case dict_get item k of PList ps \<Rightarrow> [(k, string_items ps)] | _ \<Rightarrow> [])"

definition text_field :: "pydict \<Rightarrow> string \<Rightarrow> pydict" where
  "text_field item k = (if truthy (dict_get item k) then [(k, PStr (py_str (dict_get item k)))] else [])"

definition normal_proposal :: "pyval \<Rightarrow> pyval list" where
  "normal_proposal v =
     (case v of
        PDict item \<Rightarrow>
          (let title = stripped (dict_get item ''title''); objective = stripped (dict_get item ''objective'')
           in if title = [] \<or> objective = [] then []
              else [PDict ([(''title'', PStr title), (''objective'', PStr objective),
                  (''priority'', PStr (py_str (py_or (dict_get item ''priority'') (PStr ''P2'')))),
                  (''rationale'', PStr (stripped (dict_get item ''rationale'')))]
                @ path_list_field item ''allowed_paths'' @ path_list_field item ''forbidden_paths''
                @ text_field item ''strategy'' @ text_field item ''validation_profile'')])
      | _ \<Rightarrow> [])"

definition parse_follow_on :: "pydict option \<Rightarrow> pydict" where
  "parse_follow_on payload =
     (case payload of
        None \<Rightarrow> []
      | Some parsed \<Rightarrow> coerce_list ''proposed_tasks'' (\<lambda>xs. PList (concat (map normal_proposal xs)))
          (set_default ''summary'' (PStr []) parsed))"

definition follow_on_validate :: "pydict \<Rightarrow> exn + bool \<times> string list" where
  "follow_on_validate parsed =
     after_schema follow_on_schema parsed
       (if list_at parsed ''proposed_tasks'' = [] then Inr (False, [''proposed_tasks must contain at least one task''])
        else Inr (True, []))"

definition follow_on_ok :: "pydict \<Rightarrow> bool" where
  "follow_on_ok output \<longleftrightarrow> conforms follow_on_schema output \<and> list_at output ''proposed_tasks'' \<noteq> []"

interpretation follow_on: skill follow_on_validate follow_on_ok
proof
  fix parsed errors
  assume "follow_on_validate parsed = Inr (True, errors)"
  then show "follow_on_ok parsed"
    by (auto simp: follow_on_validate_def follow_on_ok_def dest: after_schema_accepts split: if_splits)
next
  fix parsed ok errors
  assume "follow_on_validate parsed = Inr (ok, errors)"
  moreover have "coherent (follow_on_validate parsed)" unfolding follow_on_validate_def by (intro coherent_rules)
  ultimately show "ok \<longleftrightarrow> errors = []" by (rule coherentD [rotated])
qed


end
