(* ===== verification/Work_Checks.thy ===== *)
theory Work_Checks
  imports Apply_Changes Work_Skills Merge_Gate
begin

section \<open>The checks of the work pipeline\<close>

text \<open>
  The skills that call no language model: \<open>skills/validate.py\<close>, \<open>skills/quality_gate.py\<close> and
  \<open>skills/commit.py\<close>, and the helpers of \<open>services/work_orchestrator.py\<close> that read the workspace: the diff,
  the commands of a validation, the tests that import a module and the changelog.

  A pipeline works on a \<open>shop\<close>: the tree of files, the artifacts written for the run, the directories of
  the skills that were invoked, and a world of its own type for everything outside. What runs outside, a shell command, a program
  such as git or a linter, and the language model, is an argument and may change the whole shop.
\<close>

record 'w shop =
  sh_tree :: tree
  sh_artifacts :: "(string \<times> pydict \<times> string) list"
  sh_invoked :: "string list"
  sh_world :: 'w

type_synonym ('w, 'a) job = "('w shop, 'a) prog"

datatype shell_run = Finished completed | Timed_out string string | Not_launched string

text \<open>What the pipeline is given: the workspace, the directory of the run, the language model with the
  extraction of a dictionary from its answer, the shell, programs (whose call may fail, with a text), the ledger's
  answer, the texts collected for the prompts, the date and the time a command took.\<close>

record 'w pipe_env =
  pe_workspace :: place
  pe_run_dir :: string
  pe_llm :: "string \<Rightarrow> pydict \<Rightarrow> string \<Rightarrow> ('w, string + llm_answer) job"
  pe_extract :: "string \<Rightarrow> pydict option"
  pe_show :: "exn \<Rightarrow> string"
  pe_shell :: "string \<Rightarrow> int \<Rightarrow> ('w, shell_run) job"
  pe_run :: "string list \<Rightarrow> ('w, string + completed) job"
  pe_within_budget :: "string \<Rightarrow> ('w, bool) job"
  pe_context :: "Task \<Rightarrow> 'w shop \<Rightarrow> pydict"
  pe_references :: "'w shop \<Rightarrow> string list \<Rightarrow> pyval"
  pe_today :: string
  pe_elapsed :: "'w shop \<Rightarrow> pyval"

definition finished :: "string \<Rightarrow> pydict \<Rightarrow> SkillResult" where
  "finished n output = (new_result n)\<lparr>sr_success := True, sr_output := output\<rparr>"

definition unfinished :: "string \<Rightarrow> pydict \<Rightarrow> string \<Rightarrow> SkillResult" where
  "unfinished n output err = (new_result n)\<lparr>sr_output := output, sr_errors := [err]\<rparr>"

subsection \<open>Validate\<close>

record command =
  cm_name :: string
  cm_cmd :: string
  cm_timeout :: "int option"

definition command :: "string \<Rightarrow> string \<Rightarrow> int \<Rightarrow> command" where
  "command n c t = \<lparr>cm_name = n, cm_cmd = c, cm_timeout = Some t\<rparr>"

definition PROFILE_COMMANDS :: "(string \<times> command list) list" where
  "PROFILE_COMMANDS =
     [(''python'', [command ''compile'' ''python -m compileall -q .'' 120,
                    command ''tests'' ''python -m pytest -q --no-header -x'' 600]),
      (''javascript'', [command ''build'' ''npm run build --if-present'' 300, command ''tests'' ''npm test --silent'' 600]),
      (''generic'', [command ''check'' ''make test'' 600]),
      (''lightweight_operator'', [])]"

definition commands_for_profile :: "string \<Rightarrow> command list" where
  "commands_for_profile profile =
     (case map_of PROFILE_COMMANDS profile of
        Some cs \<Rightarrow> cs | None \<Rightarrow> [command ''check'' ''make test'' 600])"

definition outcome_of :: "shell_run \<Rightarrow> int \<times> string \<times> string" where
  "outcome_of run =
     (case run of
        Finished c \<Rightarrow> (cp_returncode c, cp_stdout c, cp_stderr c)
      | Timed_out out err \<Rightarrow> (124, out, err)
      | Not_launched err \<Rightarrow> (127, [], ''failed to launch: '' @ err))"

definition take_last :: "nat \<Rightarrow> string \<Rightarrow> string" where
  "take_last n s = drop (length s - n) s"

text \<open>The commands run in order; the first that fails gives the evidence and ends the run.\<close>

fun run_commands :: "'w pipe_env \<Rightarrow> string \<Rightarrow> command list \<Rightarrow> pyval list \<Rightarrow> ('w, string \<times> pyval list \<times> string) job" where
  "run_commands env dir [] results = ret (''pass'', results, [])"
| "run_commands env dir (entry # rest) results =
     (let name = or_default (cm_name entry) ''command''; cmd = py_strip (cm_cmd entry) in
      if cmd = []
      then run_commands env dir rest
             (results @ [PDict [(''name'', PStr name), (''status'', PStr ''skipped''), (''exit_code'', PInt 0)]])
      else
        bnd (pe_shell env cmd (case cm_timeout entry of Some t \<Rightarrow> if t = 0 then 300 else t | None \<Rightarrow> 300)) (\<lambda>run.
        bnd (reads (pe_elapsed env)) (\<lambda>elapsed.
        case outcome_of run of (exit_code, out, err) \<Rightarrow>
          let status = (if exit_code = 0 then ''pass'' else ''fail'');
              results = results @ [PDict [(''name'', PStr name), (''status'', PStr status), (''exit_code'', PInt exit_code),
                (''elapsed_seconds'', elapsed), (''log_path'', PStr (dir @ ''/validate_'' @ name @ ''.log''))]]
          in if exit_code = 0 then run_commands env dir rest results
             else ret (''fail'', results, take_last 4000 (py_strip (out @ NL @ err))))))"

definition invoke_validate :: "'w pipe_env \<Rightarrow> command list \<Rightarrow> string \<Rightarrow> ('w, SkillResult) job" where
  "invoke_validate env commands dir =
     (if commands = []
      then ret (finished ''validate'' [(''overall'', PStr ''skipped''), (''results'', PList []),
             (''failure_evidence'', PStr []), (''elapsed_seconds'', PFloat 0 0)])
      else
        bnd (run_commands env dir commands []) (\<lambda>(overall, results, evidence).
        bnd (reads (pe_elapsed env)) (\<lambda>elapsed.
        ret (finished ''validate'' [(''overall'', PStr overall), (''results'', PList results),
             (''failure_evidence'', PStr evidence), (''elapsed_seconds'', elapsed)]))))"

definition validate_validate :: "pydict \<Rightarrow> exn + bool \<times> string list" where
  "validate_validate parsed =
     (let errors =
        (if dict_get parsed ''overall'' \<in> {PStr ''pass'', PStr ''fail'', PStr ''skipped''} then []
         else [''invalid overall: '' @ py_str (dict_get parsed ''overall'')])
        @ (if is_list (dict_get parsed ''results'') then [] else [''results must be a list''])
      in Inr (errors = [], errors))"

text \<open>The contract of its output; the pipeline never asks the validator, since the skill builds the output itself.\<close>

definition verdict_ok :: "pydict \<Rightarrow> bool" where
  "verdict_ok output \<longleftrightarrow> dict_get output ''overall'' \<in> {PStr ''pass'', PStr ''fail'', PStr ''skipped''}
     \<and> is_list (dict_get output ''results'')"

interpretation validate: skill validate_validate verdict_ok
  by unfold_locales (auto simp: validate_validate_def verdict_ok_def Let_def split: if_splits)

lemma run_commands_overall:
  "run_commands env dir commands results w = (Inr (overall, rs, evidence), w') \<Longrightarrow> overall \<in> {''pass'', ''fail''}"
  by (induction commands arbitrary: results w)
     (auto simp: ret_def Let_def bnd_run split: if_splits prod.splits sum.splits)

text \<open>A deterministic run reports a verdict that its own validator accepts.\<close>

lemma invoke_validate_ok:
  assumes "invoke_validate env commands dir w = (Inr r, w')"
  shows "verdict_ok (sr_output r) \<and> sr_success r"
proof (cases "commands = []")
  case True
  with assms show ?thesis
    by (auto simp: invoke_validate_def ret_def finished_def new_result_def verdict_ok_def dict_get_def is_list_def)
next
  case False
  with assms obtain overall rs evidence v where run: "run_commands env dir commands [] w = (Inr (overall, rs, evidence), v)"
      and r: "r = finished ''validate'' [(''overall'', PStr overall), (''results'', PList rs),
             (''failure_evidence'', PStr evidence), (''elapsed_seconds'', pe_elapsed env v)]"
    by (auto simp: invoke_validate_def bnd_Inr_iff ret_def)
  then show ?thesis using run_commands_overall [OF run]
    by (auto simp: finished_def new_result_def verdict_ok_def dict_get_def is_list_def)
qed

text \<open>Passing means that every command that was run ended with the exit code 0: each result says so.\<close>

definition result_clean :: "pyval \<Rightarrow> bool" where
  "result_clean v = (case v of PDict d \<Rightarrow> dict_get d ''exit_code'' = PInt 0 | _ \<Rightarrow> False)"

lemma run_commands_pass:
  "run_commands env dir commands results w = (Inr (''pass'', rs, evidence), w') \<Longrightarrow>
     list_all result_clean results \<Longrightarrow> list_all result_clean rs \<and> length rs = length results + length commands"
  by (induction commands arbitrary: results w)
     (fastforce simp: ret_def Let_def bnd_run result_clean_def dict_get_def split: if_splits prod.splits sum.splits)+

end
