(* ===== verification/Quality_Gate.thy ===== *)
theory Quality_Gate
  imports Work_Checks
begin

section \<open>The quality gate and the commit\<close>

text \<open>
  \<open>skills/quality_gate.py\<close>: lint, the scan for secrets, docstrings and type hints of the changed files, and
  \<open>skills/commit.py\<close>. The linter and git are programs outside; the patterns of the secrets run on the
  engine of \<open>Py_Regex\<close>.
\<close>

subsection \<open>Secrets\<close>

text \<open>The matches of a pattern with the place where each begins, as \<open>scan\<close> finds them.\<close>

fun spans :: "nat \<Rightarrow> regex \<Rightarrow> string \<Rightarrow> string \<Rightarrow> (nat \<times> (nat \<times> string) list) list" where
  "spans 0 r before after = []"
| "spans (Suc n) r before [] = []"
| "spans (Suc n) r before (c # cs) =
     (case matches r (before, c # cs, []) of
        p # _ \<Rightarrow> if length (to_come p) < length (c # cs)
                then (length before, groups p) # spans n r (fst p) (to_come p)
                else spans n r (c # before) cs
      | [] \<Rightarrow> spans n r (c # before) cs)"

definition At_least :: "nat \<Rightarrow> (char \<Rightarrow> bool) \<Rightarrow> regex" where
  "At_least n f = seq (replicate n (One f) @ [Many (One f)])"

definition alnum :: "char \<Rightarrow> bool" where
  "alnum c \<longleftrightarrow> c \<in> set ''ABCDEFGHIJKLMNOPQRSTUVWXYZabcdefghijklmnopqrstuvwxyz0123456789''"

definition quote_mark :: "char \<Rightarrow> bool" where
  "quote_mark c \<longleftrightarrow> c = CHR 0x27 \<or> c = CHR 0x22"

definition Underscore_or_dash :: regex where
  "Underscore_or_dash = Maybe (One (\<lambda>c. c = CHR ''_'' \<or> c = CHR ''-''))"

definition SECRET_PATTERNS :: "(regex \<times> string) list" where
  "SECRET_PATTERNS =
     [(seq [alt [seq [Lit_i ''api'', Underscore_or_dash, Lit_i ''key''], seq [Lit_i ''secret'', Underscore_or_dash, Lit_i ''key''],
             Lit_i ''password'', Lit_i ''token''],
           Space, Py_Regex.Lit ''='', Space, One quote_mark, At_least 8 (\<lambda>c. \<not> quote_mark c)], ''hardcoded_credential''),
      (seq [Lit_i ''bearer'', Some_of (One is_space), At_least 20 (\<lambda>c. alnum c \<or> c \<in> set ''_-.'')], ''bearer_token''),
      (seq (Py_Regex.Lit ''AKIA'' # replicate 16 (One (\<lambda>c. c \<in> set ''0123456789ABCDEFGHIJKLMNOPQRSTUVWXYZ''))), ''aws_access_key''),
      (seq [Py_Regex.Lit ''-----BEGIN '', Maybe (alt (map Py_Regex.Lit [''RSA '', ''EC '', ''DSA ''])), Py_Regex.Lit ''PRIVATE KEY-----''],
        ''private_key''),
      (seq [Lit_i ''sk-'', At_least 20 alnum], ''api_key_pattern'')]"

definition SECRET_ALLOWLIST :: "string list" where
  "SECRET_ALLOWLIST =
     [''test_'', ''example'', ''placeholder'', ''REDACTED'', ''xxx'', ''your_'', ''fake_'', ''mock_'', ''dummy_'']"

definition secret_findings :: "string \<Rightarrow> string \<Rightarrow> regex \<times> string \<Rightarrow> pyval list" where
  "secret_findings content path pattern =
     concat (map (\<lambda>(start, gs).
         let text = group_of gs 0 in
         if (\<exists>allow\<in>set SECRET_ALLOWLIST. contains allow (py_lower text)) then []
         else [PDict [(''file'', PStr path), (''category'', PStr (snd pattern)),
                 (''line'', PStr (dec_nat (length (filter (\<lambda>c. c = CHR 0x0A) (take start content)) + 1))),
                 (''snippet'', PStr (take 40 text @ ''...''))]])
       (spans (length content) (Group 0 (fst pattern)) [] content))"

definition scan_secrets :: "string \<Rightarrow> string \<Rightarrow> pyval list" where
  "scan_secrets content path = concat (map (secret_findings content path) SECRET_PATTERNS)"

subsection \<open>Docstrings and type hints\<close>

text \<open>\<open>s.replace(old, new)\<close> of a non-empty text; the number says how many characters of the last occurrence are
  still to come.\<close>

fun replace_all :: "string \<Rightarrow> string \<Rightarrow> nat \<Rightarrow> string \<Rightarrow> string" where
  "replace_all old new n [] = []"
| "replace_all old new (Suc n) (c # cs) = replace_all old new n cs"
| "replace_all old new 0 (c # cs) =
     (if starts_with old (c # cs) then new @ replace_all old new (length old - 1) cs else c # replace_all old new 0 cs)"

definition until :: "char \<Rightarrow> string \<Rightarrow> string" where
  "until c s = takeWhile (\<lambda>d. d \<noteq> c) s"

definition starts_docstring :: "string \<Rightarrow> bool" where
  "starts_docstring s \<longleftrightarrow>
     (let dq = replicate 3 (CHR 0x22); sq = replicate 3 (CHR 0x27) in
      starts_with dq s \<or> starts_with sq s \<or> starts_with (CHR ''r'' # dq) s \<or> starts_with (CHR ''r'' # sq) s)"

definition declared_name :: "string \<Rightarrow> string" where
  "declared_name stripped_line =
     replace_all ''class '' [] 0 (replace_all ''def '' [] 0 (until (CHR '':'') (until (CHR ''('') stripped_line)))"

definition quality_issue :: "string \<Rightarrow> string \<Rightarrow> string \<Rightarrow> nat \<Rightarrow> pyval" where
  "quality_issue path what name i =
     PDict [(''file'', PStr path), (''issue'', PStr what), (''name'', PStr name), (''line'', PStr (dec_nat (i + 1)))]"

fun docstring_issues :: "string \<Rightarrow> nat \<Rightarrow> string list \<Rightarrow> pyval list" where
  "docstring_issues path i [] = []"
| "docstring_issues path i (line # rest) =
     (let s = py_strip line;
          documented = (case filter (\<lambda>l. l \<noteq> []) (map py_strip (take 3 rest)) of l # _ \<Rightarrow> starts_docstring l | [] \<Rightarrow> False)
      in (if (starts_with ''def '' s \<or> starts_with ''class '' s) \<and> \<not> starts_with ''def _'' s \<and> \<not> documented
          then [quality_issue path ''missing_docstring'' (declared_name s) i] else [])
         @ docstring_issues path (i + 1) rest)"

definition check_docstrings :: "string \<Rightarrow> string \<Rightarrow> pyval list" where
  "check_docstrings content path = docstring_issues path 0 (split_lines False [] content)"

text \<open>Everything before the last colon, when there is one that is not the first character.\<close>

definition signature :: "string \<Rightarrow> string option" where
  "signature s = (case dropWhile (\<lambda>c. c \<noteq> CHR '':'') (rev s) of
       _ # before \<Rightarrow> if before = [] then None else Some (rev before) | [] \<Rightarrow> None)"

fun type_hint_issues :: "string \<Rightarrow> nat \<Rightarrow> string list \<Rightarrow> pyval list" where
  "type_hint_issues path i [] = []"
| "type_hint_issues path i (line # rest) =
     (let s = py_strip line in
      (if starts_with ''def '' s \<and> \<not> starts_with ''def _'' s
          \<and> (case signature s of Some sig \<Rightarrow> \<not> contains ''->'' sig | None \<Rightarrow> False)
       then [quality_issue path ''missing_return_type'' (replace_all ''def '' [] 0 (until (CHR ''('') s)) i] else [])
      @ type_hint_issues path (i + 1) rest)"

definition check_type_hints :: "string \<Rightarrow> string \<Rightarrow> pyval list" where
  "check_type_hints content path = type_hint_issues path 0 (split_lines False [] content)"

subsection \<open>Lint\<close>

definition lint_issue :: "string \<Rightarrow> pyval list" where
  "lint_issue line =
     (if CHR '':'' \<in> set line \<and> (\<exists>code\<in>set [''E'', ''W'', ''F''].
           ends_with ('' '' @ code) line \<or> contains ('' '' @ code @ '' '') line)
      then [PDict [(''issue'', PStr ''lint''), (''detail'', PStr (py_strip line))]]
      else if py_strip line \<noteq> [] \<and> \<not> starts_with ''Found'' line \<and> \<not> starts_with ''All checks'' line
      then [PDict [(''issue'', PStr ''lint''), (''detail'', PStr (py_strip line))]]
      else [])"

definition LINTERS :: "(string \<times> string list) list" where
  "LINTERS = [(''ruff'', [''python'', ''-m'', ''ruff'', ''check'', ''--select=E,W,F'', ''--no-fix'']),
     (''eslint'', [''npx'', ''eslint'', ''--no-error-on-unmatched-pattern''])]"

text \<open>The status of the lint and its issues.\<close>

definition run_lint :: "'w pipe_env \<Rightarrow> string list \<Rightarrow> string \<Rightarrow> ('w, string \<times> pyval list) job" where
  "run_lint env changed linter =
     (if changed = [] then ret (''skip'', [])
      else case map_of LINTERS linter of
        None \<Rightarrow> ret (''skip'', [])
      | Some cmd \<Rightarrow>
          bnd (pe_run env (cmd @ changed)) (\<lambda>result.
          case result of
            Inl _ \<Rightarrow> ret (''skip'', [])
          | Inr run \<Rightarrow>
              let issues = concat (map lint_issue (split_lines False [] (cp_stdout run))) in
              ret (if issues = [] then ''pass'' else ''warn'', take 10 issues)))"

subsection \<open>The gate\<close>

definition lenient_contents :: "'w pipe_env \<Rightarrow> 'w shop \<Rightarrow> string list \<Rightarrow> (string \<times> string) list" where
  "lenient_contents env w paths =
     concat (map (\<lambda>rel. case lenient_text (node_at (sh_tree w) (resolve (pe_workspace env) rel)) of
                          Some text \<Rightarrow> [(rel, text)] | None \<Rightarrow> []) paths)"

definition check_entry :: "string \<Rightarrow> string \<Rightarrow> pyval list \<Rightarrow> pyval" where
  "check_entry name status issues = PDict [(''name'', PStr name), (''status'', PStr status), (''issues'', PList issues)]"

definition counted :: "pyval list \<Rightarrow> string \<Rightarrow> string list" where
  "counted issues what = (if issues = [] then [] else [dec_nat (length issues) @ '' '' @ what])"

definition gate_output :: "string \<Rightarrow> pyval list \<Rightarrow> pyval list \<Rightarrow> pyval list \<Rightarrow> pyval list \<Rightarrow> pydict" where
  "gate_output lint_status lint_issues secrets docs types =
     [(''passed'', PBool (secrets = [])),
      (''checks'', PList [check_entry ''lint'' lint_status lint_issues,
         check_entry ''security_scan'' (if secrets = [] then ''pass'' else ''fail'') secrets,
         check_entry ''docstring_coverage'' (if docs = [] then ''pass'' else ''warn'') docs,
         check_entry ''type_hint_coverage'' (if types = [] then ''pass'' else ''warn'') types]),
      (''quality_concerns'', PList (take 20 (take 10 lint_issues @ secrets))),
      (''summary'', PStr (or_default (join ''; '' (counted secrets ''potential secret(s) detected''
         @ counted docs ''missing docstring(s)'' @ counted types ''missing type hint(s)''
         @ counted lint_issues ''lint issue(s)'')) ''All quality checks passed''))]"

definition invoke_quality_gate :: "'w pipe_env \<Rightarrow> string list \<Rightarrow> ('w, SkillResult) job" where
  "invoke_quality_gate env changed =
     (let py_files = filter (ends_with ''.py'') changed;
          js_files = filter (\<lambda>f. \<exists>e\<in>set [''.js'', ''.jsx'', ''.ts'', ''.tsx'']. ends_with e f) changed
      in bnd (if py_files \<noteq> [] then run_lint env py_files ''ruff''
              else if js_files \<noteq> [] then run_lint env js_files ''eslint''
              else ret (''skip'', [])) (\<lambda>(status, issues).
         bnd (reads (\<lambda>w. (lenient_contents env w changed, lenient_contents env w py_files))) (\<lambda>(all_files, py).
         ret (finished ''quality_gate''
           (gate_output status issues (concat (map (\<lambda>(p, c). scan_secrets c p) all_files))
              (concat (map (\<lambda>(p, c). check_docstrings c p) py))
              (concat (map (\<lambda>(p, c). check_type_hints c p) py)))))))"

subsection \<open>Commit\<close>

text \<open>A call of git that fails is the exit code 127.\<close>

definition git :: "'w pipe_env \<Rightarrow> string list \<Rightarrow> ('w, completed) job" where
  "git env args =
     bnd (pe_run env (''git'' # args)) (\<lambda>r.
     ret (case r of Inr c \<Rightarrow> c
          | Inl err \<Rightarrow> \<lparr>cp_returncode = 127, cp_stdout = [], cp_stderr = ''git invocation failed: '' @ err\<rparr>))"

definition commit_output :: "bool \<Rightarrow> string \<Rightarrow> string list \<Rightarrow> string \<Rightarrow> pydict" where
  "commit_output committed sha staged err =
     [(''committed'', PBool committed), (''commit_sha'', PStr sha), (''staged'', PList (map PStr staged)), (''stderr'', PStr err)]"

definition invoke_commit :: "'w pipe_env \<Rightarrow> string list \<Rightarrow> string \<Rightarrow> string \<Rightarrow> string \<Rightarrow> ('w, SkillResult) job" where
  "invoke_commit env paths message author_name author_email =
     bnd (reads (\<lambda>w. there (sh_tree w) (pe_workspace env) \<and> there (sh_tree w) (pe_workspace env @ [''.git'']))) (\<lambda>repo.
     if \<not> repo then ret (unfinished ''commit'' [] ''workspace is not a git repository'')
     else if paths = [] then ret (finished ''commit'' (commit_output False [] [] []))
     else
       bnd (git env ([''add'', ''--''] @ paths)) (\<lambda>added.
       if cp_returncode added \<noteq> 0
       then ret (unfinished ''commit'' (commit_output False [] [] (cp_stderr added)) (''git add failed: '' @ cp_stderr added))
       else
         bnd (git env ((if author_name \<noteq> [] \<and> author_email \<noteq> []
                         then [''-c'', ''user.name='' @ author_name, ''-c'', ''user.email='' @ author_email] else [])
                       @ [''commit'', ''-m'', message])) (\<lambda>done_commit.
         if cp_returncode done_commit \<noteq> 0
         then ret (unfinished ''commit'' (commit_output False [] paths (cp_stderr done_commit))
                    (''git commit failed: '' @ cp_stderr done_commit))
         else
           bnd (git env [''rev-parse'', ''HEAD'']) (\<lambda>sha.
           ret (finished ''commit'' (commit_output True
             (if cp_returncode sha = 0 then py_strip (cp_stdout sha) else []) paths (cp_stderr done_commit)))))))"

end
