(* ===== verification/Work_Orchestrator.thy ===== *)
theory Work_Orchestrator
  imports Quality_Gate Diagnosis Policy
begin

section \<open>The work pipeline\<close>

text \<open>
  \<open>services/work_orchestrator.py\<close>: one run of a task through scope, implementation, self review with one
  retry, validation, diagnosis, up to three rounds of test fixes, the quality gate and the commit. Progress
  events and telemetry are left out; the texts collected for the prompts come from the environment.
\<close>

subsection \<open>Helpers\<close>

definition write_artifact :: "string \<Rightarrow> pydict \<Rightarrow> string \<Rightarrow> ('w, unit) job" where
  "write_artifact kind payload summary = writes (\<lambda>w. w\<lparr>sh_artifacts := sh_artifacts w @ [(kind, payload, summary)]\<rparr>)"

definition artifact_tuples :: "string \<Rightarrow> (string \<times> pydict \<times> string) list \<Rightarrow> (string \<times> string \<times> string) list" where
  "artifact_tuples run_dir arts = map (\<lambda>(kind, _, summary). (kind, run_dir @ ''/'' @ kind @ ''.json'', summary)) arts"

text \<open>\<open>_git_diff\<close>: untracked files are marked first; any failure gives the empty diff.\<close>

definition untracked :: "string \<Rightarrow> string list" where
  "untracked status = concat (map (\<lambda>line. if starts_with ''?? '' line then [py_strip (drop 3 line)] else []) (split_lines False [] status))"

definition show_diff :: "'w pipe_env \<Rightarrow> ('w, string) job" where
  "show_diff env =
     bnd (pe_run env [''git'', ''diff'', ''--no-color'']) (\<lambda>r.
     ret (case r of Inr c \<Rightarrow> if cp_returncode c = 0 then cp_stdout c else [] | Inl _ \<Rightarrow> []))"

definition git_diff :: "'w pipe_env \<Rightarrow> ('w, string) job" where
  "git_diff env =
     bnd (pe_run env [''git'', ''status'', ''--porcelain'']) (\<lambda>r.
     case r of
       Inl _ \<Rightarrow> ret []
     | Inr c \<Rightarrow>
         let new_paths = (if cp_returncode c = 0 then untracked (cp_stdout c) else []) in
         if new_paths = [] then show_diff env
         else bnd (pe_run env ([''git'', ''add'', ''-N'', ''--''] @ new_paths)) (\<lambda>added.
           case added of Inl _ \<Rightarrow> ret [] | Inr _ \<Rightarrow> show_diff env))"

definition is_test_path :: "string \<Rightarrow> bool" where
  "is_test_path path \<longleftrightarrow>
     (let norm = with_slashes path; base = base_name norm in
      starts_with ''tests/'' norm \<or> contains ''/tests/'' norm \<or> starts_with ''test_'' base \<or> ends_with ''_test.py'' base)"

definition stage_passed :: "pydict \<Rightarrow> string \<Rightarrow> bool" where
  "stage_passed output stage \<longleftrightarrow>
     (\<exists>v\<in>set (list_at output ''results''). case v of
        PDict d \<Rightarrow> py_str (dict_get d ''name'') = stage \<and> py_str (dict_get d ''status'') = ''pass'' | _ \<Rightarrow> False)"

definition verbose_command :: "command \<Rightarrow> command" where
  "verbose_command c =
     (if contains ''pytest'' (cm_cmd c)
      then let v = replace_all ''--no-header'' ''--tb=long'' 0 (replace_all ''-q'' ''-vv'' 0 (cm_cmd c))
           in c\<lparr>cm_cmd := (if contains ''-vv'' v then v else v @ '' -vv --tb=long'')\<rparr>
      else c)"

definition looks_like_assertion :: "pydict \<Rightarrow> bool" where
  "looks_like_assertion output \<longleftrightarrow>
     (let evidence = py_lower (str_or_empty (dict_get output ''failure_evidence'')) in
      (\<exists>sig\<in>set [''assertionerror'', ''assert '', ''failed'', ''expected'', ''!='', ''assertequal'', ''asserttrue'', ''assertin''].
         contains sig evidence)
      \<and> \<not> (\<exists>sig\<in>set [''modulenotfounderror'', ''importerror'', ''syntaxerror'', ''indentationerror''].
         contains sig evidence))"

text \<open>\<open>_find_importing_tests\<close>: the tests pytest collects whose text imports a changed module.\<close>

definition drop_suffix :: "string \<Rightarrow> string \<Rightarrow> string" where
  "drop_suffix suffix s = (if ends_with suffix s then take (length s - length suffix) s else s)"

definition dotted_name :: "string \<Rightarrow> string" where
  "dotted_name path =
     map (\<lambda>c. if c = CHR ''/'' then CHR ''.'' else c)
       (drop_suffix ''/__init__'' (drop_suffix ''.py'' (remove_prefix ''src/'' (with_slashes path))))"

fun before_colons :: "string \<Rightarrow> string option" where
  "before_colons [] = None"
| "before_colons [c] = None"
| "before_colons (c # d # cs) =
     (if c = CHR '':'' \<and> d = CHR '':'' then Some [] else map_option ((#) c) (before_colons (d # cs)))"

definition collected_tests :: "string \<Rightarrow> string list" where
  "collected_tests listing =
     sort (remdups (map with_slashes (filter (ends_with ''.py'')
       (concat (map (\<lambda>line. case before_colons (py_strip line) of Some p \<Rightarrow> [p] | None \<Rightarrow> []) (split_lines False [] listing))))))"

definition imports_any :: "'w pipe_env \<Rightarrow> 'w shop \<Rightarrow> string list \<Rightarrow> string \<Rightarrow> bool" where
  "imports_any env w modules test_file \<longleftrightarrow>
     (case lenient_text (node_at (sh_tree w) (resolve (pe_workspace env) test_file)) of
        None \<Rightarrow> False
      | Some text \<Rightarrow> \<exists>m\<in>set modules. contains (''import '' @ m) text \<or> contains (''from '' @ m) text)"

definition find_importing_tests :: "'w pipe_env \<Rightarrow> string list \<Rightarrow> ('w, string list) job" where
  "find_importing_tests env sources =
     bnd (reads (\<lambda>w. there (sh_tree w) (pe_workspace env))) (\<lambda>exists.
     let modules = filter (\<lambda>m. m \<noteq> []) (map dotted_name sources) in
     if sources = [] \<or> \<not> exists \<or> modules = [] then ret []
     else
       bnd (pe_run env [''python'', ''-m'', ''pytest'', ''--collect-only'', ''-q'']) (\<lambda>r.
       case r of
         Inl _ \<Rightarrow> ret []
       | Inr c \<Rightarrow> reads (\<lambda>w. take 10 (filter (imports_any env w modules) (collected_tests (cp_stdout c))))))"

definition quoted_paths :: "string list \<Rightarrow> string" where
  "quoted_paths paths = join '' '' (map (\<lambda>p. [CHR 0x22] @ p @ [CHR 0x22]) paths)"

definition scoped_commands :: "string list \<Rightarrow> command list" where
  "scoped_commands tests =
     [command ''compile'' ''python -m compileall -q .'' 120,
      command ''tests'' (''python -m pytest -q --no-header -x '' @ quoted_paths tests) 600]"

definition append_new :: "string list \<Rightarrow> string list \<Rightarrow> string list" where
  "append_new = foldl (\<lambda>acc t. if t \<in> set acc then acc else acc @ [t])"

definition resolve_validate_commands :: "'w pipe_env \<Rightarrow> string \<Rightarrow> string \<Rightarrow> string list \<Rightarrow> ('w, command list) job" where
  "resolve_validate_commands env profile mode changed =
     (if py_strip mode = ''lightweight_operator'' then ret []
      else
        bnd (reads (\<lambda>w. case map_of [(''generic'', ''Makefile''), (''javascript'', ''package.json'')] profile of
               Some marker \<Rightarrow> \<not> there (sh_tree w) (pe_workspace env @ [marker]) | None \<Rightarrow> False)) (\<lambda>unmarked.
        if unmarked then ret []
        else if profile \<noteq> ''python'' then ret (commands_for_profile profile)
        else if filter (ends_with ''.py'') changed = [] then ret []
        else
          let tests = filter (\<lambda>p. is_test_path p \<and> ends_with ''.py'' p) changed;
              sources = filter (\<lambda>p. ends_with ''.py'' p \<and> \<not> is_test_path p) changed
          in bnd (if sources = [] then ret [] else find_importing_tests env sources) (\<lambda>importing.
             let tests = append_new tests importing in
             ret (if tests = [] then commands_for_profile profile else scoped_commands tests))))"

subsection \<open>Calling the skills\<close>

text \<open>An invocation makes its directory, asks the language model and reads the answer.\<close>

definition call_skill ::
  "'w pipe_env \<Rightarrow> string \<Rightarrow> (pydict option \<Rightarrow> pydict) \<Rightarrow> (pydict \<Rightarrow> exn + bool \<times> string list) \<Rightarrow> pydict \<Rightarrow> string
     \<Rightarrow> ('w, SkillResult) job"
where
  "call_skill env name parse validate_output inputs dir =
     bnd (writes (\<lambda>w. w\<lparr>sh_invoked := sh_invoked w @ [dir]\<rparr>)) (\<lambda>_.
     bnd (pe_llm env name inputs dir) (\<lambda>answer.
     lift_result (invoke_skill name (\<lambda>text. Inr (parse (pe_extract env text))) validate_output (pe_show env) answer dir True)))"

definition result_payload :: "SkillResult \<Rightarrow> pydict" where
  "result_payload r =
     [(''success'', PBool (sr_success r)), (''errors'', PList (map PStr (sr_errors r))), (''output'', PDict (sr_output r))]"

definition skill_dir :: "'w pipe_env \<Rightarrow> string \<Rightarrow> string" where
  "skill_dir env name = pe_run_dir env @ ''/skill_'' @ name"

definition task_fields :: "Task \<Rightarrow> pydict" where
  "task_fields task = [(''title'', PStr (task_title task)), (''objective'', PStr (task_objective task))]"

definition dict_value :: "(string \<times> string) list \<Rightarrow> pyval" where
  "dict_value d = PDict (map (\<lambda>(k, v). (k, PStr v)) d)"

definition result_of :: "string \<Rightarrow> string \<Rightarrow> pydict \<Rightarrow> (string \<times> string \<times> string) list \<Rightarrow> WorkResult" where
  "result_of outcome summary diagnostics arts =
     \<lparr>wr_summary = summary, wr_artifacts = arts, wr_outcome = outcome, wr_diagnostics = Some diagnostics\<rparr>"

definition stop_with :: "'w pipe_env \<Rightarrow> string \<Rightarrow> string \<Rightarrow> pydict \<Rightarrow> ('w, WorkResult) job" where
  "stop_with env outcome summary diagnostics =
     bnd (reads sh_artifacts) (\<lambda>arts. ret (result_of outcome summary diagnostics (artifact_tuples (pe_run_dir env) arts)))"

subsection \<open>Scope\<close>

definition plan_scope :: "pydict \<Rightarrow> exn + pydict" where
  "plan_scope ts =
     rbind (py_list (dict_get ts ''files_to_touch'')) (\<lambda>files.
     rbind (py_list (py_or (dict_get ts ''files_not_to_touch'') (PList []))) (\<lambda>others.
     rbind (py_list (py_or (dict_get ts ''risks'') (PList []))) (\<lambda>risks.
     Inr [(''files_to_touch'', PList files), (''files_not_to_touch'', PList others),
          (''approach'', PStr (py_str (dict_get ts ''approach''))), (''risks'', PList risks),
          (''estimated_complexity'', PStr (py_str (py_or (dict_get ts ''estimated_complexity'') (PStr ''medium''))))])))"

definition precomputed :: "pydict \<Rightarrow> bool" where
  "precomputed ts \<longleftrightarrow> truthy (dict_get ts ''files_to_touch'') \<and> truthy (dict_get ts ''approach'')"

definition scope_inputs :: "Task \<Rightarrow> pydict \<Rightarrow> string \<Rightarrow> pyval \<Rightarrow> pydict" where
  "scope_inputs task context feedback prior =
     task_fields task
     @ [(''strategy'', PStr (task_strategy task)),
        (''allowed_paths'', py_or (dict_get (task_scope task) ''allowed_paths'') (PList [])),
        (''forbidden_paths'', py_or (dict_get (task_scope task) ''forbidden_paths'') (PList []))]
     @ context @ [(''prior_scope'', prior), (''retry_feedback'', PStr feedback)]"

definition scope_stage :: "'w pipe_env \<Rightarrow> Task \<Rightarrow> string \<Rightarrow> pyval \<Rightarrow> ('w, WorkResult + pydict) job" where
  "scope_stage env task feedback prior =
     (let ts = task_scope task in
      if precomputed ts then
        bnd (lift_result (plan_scope ts)) (\<lambda>scope.
        bnd (write_artifact ''scope_output''
              [(''success'', PBool True), (''errors'', PList []), (''output'', PDict scope)] ''Scope from plan (no LLM call)'') (\<lambda>_.
        bnd (write_artifact ''plan'' scope ''Plan-derived scope (approach, files_to_touch, risks)'') (\<lambda>_.
        ret (Inr scope))))
      else
        bnd (reads (pe_context env task)) (\<lambda>context.
        bnd (call_skill env ''scope'' parse_scope scope_validate (scope_inputs task context feedback prior) (skill_dir env ''scope'')) (\<lambda>r.
        bnd (write_artifact ''scope_output'' (result_payload r) ''Structured scope decision'') (\<lambda>_.
        if sr_success r
        then bnd (write_artifact ''plan'' (sr_output r) ''Scope-derived plan (approach, files_to_touch, risks)'') (\<lambda>_.
             ret (Inr (sr_output r)))
        else bnd (stop_with env ''failed'' ''Scope skill failed to produce valid output.''
               [(''stage'', PStr ''scope''), (''worker_outcome'', PStr ''failed''),
                (''failure_category'', PStr ''scope_skill_failure''), (''failure_message'', PStr (join ''; '' (sr_errors r))),
                (''validation_profile'', PStr (task_validation_profile task))]) (\<lambda>res.
             ret (Inl res))))))"

definition too_large_result :: "'w pipe_env \<Rightarrow> Task \<Rightarrow> pydict \<Rightarrow> ('w, WorkResult) job" where
  "too_large_result env task scope =
     stop_with env ''blocked'' ''Scope flagged task as too large; split before implementing.''
       [(''stage'', PStr ''scope''), (''worker_outcome'', PStr ''blocked''), (''failure_category'', PStr ''scope_too_broad''),
        (''failure_message'', get_default scope ''approach'' (PStr ''Scope marked too_large'')), (''needs_split'', PBool True),
        (''validation_profile'', PStr (task_validation_profile task))]"

subsection \<open>Implementation\<close>

text \<open>The files in scope are texts, since the code calls a method of strings on them.\<close>

definition string_paths :: "pydict \<Rightarrow> exn + string list" where
  "string_paths scope =
     rbind (py_list (py_or (dict_get scope ''files_to_touch'') (PList [])))
       (map_result (\<lambda>v. case v of PStr s \<Rightarrow> Inr s | _ \<Rightarrow> Inl (AttributeError ''object has no attribute replace'')))"

definition implement_inputs :: "Task \<Rightarrow> pydict \<Rightarrow> string list \<Rightarrow> (string \<times> string) list \<Rightarrow> pyval \<Rightarrow> string \<Rightarrow> pydict" where
  "implement_inputs task scope files contents references feedback =
     task_fields task
     @ [(''approach'', get_default scope ''approach'' (PStr [])), (''files_to_touch'', PList (map PStr files)),
        (''files_not_to_touch'', py_or (dict_get scope ''files_not_to_touch'') (PList [])),
        (''risks'', py_or (dict_get scope ''risks'') (PList [])), (''file_contents'', dict_value contents),
        (''reference_contents'', references), (''retry_feedback'', PStr feedback)]"

text \<open>One call of the implementation; the suffix names a retry round, also in the description of its artifacts.\<close>

definition in_round :: "string \<Rightarrow> string" where
  "in_round suffix = (if suffix = [] then [] else '' (retry round '' @ drop (length ''_retry_'') suffix @ '')'')"

definition implement_once ::
  "'w pipe_env \<Rightarrow> Task \<Rightarrow> pydict \<Rightarrow> string list \<Rightarrow> string \<Rightarrow> string \<Rightarrow> ('w, SkillResult) job"
where
  "implement_once env task scope files feedback suffix =
     bnd (reads (\<lambda>w. load_file_contents (pe_workspace env) (sh_tree w) files [])) (\<lambda>contents.
     bnd (reads (\<lambda>w. pe_references env w files)) (\<lambda>references.
     bnd (call_skill env ''implement'' parse_implement implement_validate
            (implement_inputs task scope files contents references feedback) (skill_dir env (''implement'' @ suffix))) (\<lambda>r.
     bnd (write_artifact (''implementation_output'' @ suffix) (result_payload r) (''Structured implementation output'' @ in_round suffix)) (\<lambda>_.
     ret r))))"

definition apply_to_tree :: "'w pipe_env \<Rightarrow> pydict \<Rightarrow> string list \<Rightarrow> ('w, ApplySummary) job" where
  "apply_to_tree env output allowed w =
     (case apply_changes output (pe_workspace env) allowed (sh_tree w) of (r, fs) \<Rightarrow> (r, w\<lparr>sh_tree := fs\<rparr>))"

definition rejection_values :: "(string \<times> string) list \<Rightarrow> pyval" where
  "rejection_values rejected = PList (map (\<lambda>(p, why). PDict [(''path'', PStr p), (''reason'', PStr why)]) rejected)"

definition summary_payload :: "ApplySummary \<Rightarrow> pydict" where
  "summary_payload s =
     [(''written'', PList (map PStr (as_written s))), (''deleted'', PList (map PStr (as_deleted s))),
      (''rejected'', rejection_values (as_rejected s)), (''edits_applied'', PInt (int (as_edits_applied s))),
      (''new_files_created'', PInt (int (as_new_files_created s)))]"

definition apply_once :: "'w pipe_env \<Rightarrow> SkillResult \<Rightarrow> string list \<Rightarrow> string \<Rightarrow> ('w, ApplySummary) job" where
  "apply_once env r files suffix =
     bnd (apply_to_tree env (sr_output r) files) (\<lambda>summary.
     bnd (write_artifact (''apply_changes_summary'' @ suffix) (summary_payload summary) (''File-apply audit'' @ in_round suffix)) (\<lambda>_.
     ret summary))"

text \<open>The summaries of two rounds: the rejections are dictionaries, which \<open>dict.fromkeys\<close> cannot hold.\<close>

definition merge_summaries :: "ApplySummary \<Rightarrow> ApplySummary \<Rightarrow> exn + ApplySummary" where
  "merge_summaries a b =
     (if as_rejected a @ as_rejected b \<noteq> [] then Inl (TypeError ''unhashable type: dict'')
      else Inr (a\<lparr>as_written := append_new [] (as_written a @ as_written b),
                  as_edits_applied := as_edits_applied a + as_edits_applied b,
                  as_new_files_created := as_new_files_created a + as_new_files_created b\<rparr>))"

subsection \<open>Self review and the retry\<close>

definition review_inputs :: "Task \<Rightarrow> pydict \<Rightarrow> string \<Rightarrow> pyval list \<Rightarrow> pydict" where
  "review_inputs task scope diff non_negotiables =
     task_fields task
     @ [(''approach'', get_default scope ''approach'' (PStr [])), (''risks'', py_or (dict_get scope ''risks'') (PList [])),
        (''diff'', PStr diff), (''non_negotiables'', PList non_negotiables)]"

definition enforced :: "SkillResult \<Rightarrow> pyval list \<Rightarrow> string \<Rightarrow> exn + SkillResult" where
  "enforced r non_negotiables diff =
     (if sr_success r \<and> non_negotiables \<noteq> []
      then rbind (enforce_non_negotiables (sr_output r) non_negotiables diff) (\<lambda>output. Inr (r\<lparr>sr_output := output\<rparr>))
      else Inr r)"

definition review_once :: "'w pipe_env \<Rightarrow> Task \<Rightarrow> pydict \<Rightarrow> pyval list \<Rightarrow> string \<Rightarrow> ('w, SkillResult \<times> string) job" where
  "review_once env task scope non_negotiables suffix =
     bnd (git_diff env) (\<lambda>diff.
     bnd (call_skill env ''self_review'' (\<lambda>p. settled_self_review (parse_self_review p)) self_review_validate
            (review_inputs task scope diff non_negotiables) (skill_dir env (''self_review'' @ suffix))) (\<lambda>r.
     bnd (lift_result (enforced r non_negotiables diff)) (\<lambda>r.
     bnd (write_artifact (''self_review_output'' @ suffix) (result_payload r) (''Staff-engineer self-review'' @ in_round suffix)) (\<lambda>_.
     ret (r, diff)))))"

definition ship_ready :: "SkillResult \<Rightarrow> bool" where
  "ship_ready review \<longleftrightarrow> sr_success review \<and> truthy (dict_get (sr_output review) ''ship_ready'')"

text \<open>What the rounds leave for the later stages.\<close>

record work_state =
  ws_implemented :: SkillResult
  ws_summary :: ApplySummary
  ws_review :: SkillResult
  ws_diff :: string

definition joined_feedback :: "string \<Rightarrow> string \<Rightarrow> string" where
  "joined_feedback a b = join (NL @ NL) (filter (\<lambda>s. s \<noteq> []) [a, b])"

text \<open>The loop of the retries; \<open>n\<close> rounds are left, and the round that runs next is \<open>k\<close>.\<close>

fun retry_rounds ::
  "nat \<Rightarrow> nat \<Rightarrow> 'w pipe_env \<Rightarrow> Task \<Rightarrow> pydict \<Rightarrow> string list \<Rightarrow> pyval list \<Rightarrow> string \<Rightarrow> work_state \<Rightarrow> ('w, work_state) job"
where
  "retry_rounds 0 k env task scope files non_negotiables feedback st = ret st"
| "retry_rounds (Suc n) k env task scope files non_negotiables feedback st =
     (if ship_ready (ws_review st) \<or> \<not> sr_success (ws_review st) \<or> \<not> sr_success (ws_implemented st) then ret st
      else
        let suffix = ''_retry_'' @ dec_nat k in
        bnd (lift_result (feedback_for_retry (sr_output (ws_review st)))) (\<lambda>prior_feedback.
        bnd (implement_once env task scope files (joined_feedback feedback prior_feedback) suffix) (\<lambda>r.
        if \<not> sr_success r then ret (st\<lparr>ws_implemented := r\<rparr>)
        else
          bnd (apply_once env r files suffix) (\<lambda>retry_summary.
          bnd (lift_result (merge_summaries (ws_summary st) retry_summary)) (\<lambda>summary.
          bnd (review_once env task scope non_negotiables suffix) (\<lambda>(review, diff).
          retry_rounds n (Suc k) env task scope files non_negotiables feedback
            \<lparr>ws_implemented = r, ws_summary = summary, ws_review = review, ws_diff = diff\<rparr>))))))"

definition IMPL_SELF_REVIEW_MAX_ROUNDS :: nat where
  "IMPL_SELF_REVIEW_MAX_ROUNDS = 2"

definition write_stage :: "'w pipe_env \<Rightarrow> Task \<Rightarrow> pydict \<Rightarrow> string \<Rightarrow> ('w, WorkResult + work_state) job" where
  "write_stage env task scope feedback =
     bnd (lift_result (string_paths scope)) (\<lambda>files.
     bnd (implement_once env task scope files feedback []) (\<lambda>r.
     if \<not> sr_success r
     then bnd (stop_with env ''failed'' ''Implement skill failed to produce valid output.''
            [(''stage'', PStr ''implement''), (''worker_outcome'', PStr ''failed''),
             (''failure_category'', PStr ''implement_skill_failure''), (''failure_message'', PStr (join ''; '' (sr_errors r))),
             (''validation_profile'', PStr (task_validation_profile task))]) (\<lambda>res. ret (Inl res))
     else
       bnd (apply_once env r files []) (\<lambda>summary.
       if as_rejected summary \<noteq> [] \<and> as_written summary = []
       then bnd (stop_with env ''failed'' ''All proposed file writes were rejected as out of scope.''
              [(''stage'', PStr ''apply_changes''), (''worker_outcome'', PStr ''failed''),
               (''failure_category'', PStr ''scope_violation''),
               (''failure_message'', PStr (''Rejected: '' @ py_str (rejection_values (as_rejected summary)))),
               (''validation_profile'', PStr (task_validation_profile task))]) (\<lambda>res. ret (Inl res))
       else
         bnd (lift_result (py_list (py_or (dict_get (task_scope task) ''non_negotiables'') (PList [])))) (\<lambda>non_negotiables.
         bnd (review_once env task scope non_negotiables []) (\<lambda>(review, diff).
         bnd (retry_rounds (IMPL_SELF_REVIEW_MAX_ROUNDS - 1) 2 env task scope files non_negotiables feedback
               \<lparr>ws_implemented = r, ws_summary = summary, ws_review = review, ws_diff = diff\<rparr>) (\<lambda>st.
         ret (Inr st)))))))"

subsection \<open>Validation, diagnosis and test fixes\<close>

definition overall_of :: "pydict \<Rightarrow> string \<Rightarrow> string" where
  "overall_of output dflt = py_str (py_or (dict_get output ''overall'') (PStr dflt))"

definition evidence_of :: "pydict \<Rightarrow> string" where
  "evidence_of output = str_or_empty (dict_get output ''failure_evidence'')"

text \<open>\<open>float(text)\<close> of a decimal numeral without underscores; infinities and NaN, which no validator accepts, stay texts.\<close>

definition digits_value :: "string \<Rightarrow> int option" where
  "digits_value s = (if s \<noteq> [] \<and> list_all (\<lambda>c. digit_val c \<noteq> None) s then parse_digits False 0 s else None)"

definition mantissa_value :: "string \<Rightarrow> (int \<times> int) option" where
  "mantissa_value s =
     (let whole_part = takeWhile (\<lambda>c. c \<noteq> CHR ''.'') s; rest = dropWhile (\<lambda>c. c \<noteq> CHR ''.'') s in
      case rest of
        [] \<Rightarrow> map_option (\<lambda>i. (i, 0)) (digits_value whole_part)
      | _ # fraction \<Rightarrow> map_option (\<lambda>i. (i, - int (length fraction))) (digits_value (whole_part @ fraction)))"

definition exponent_value :: "string \<Rightarrow> int option" where
  "exponent_value s =
     (case s of [] \<Rightarrow> None | c # cs \<Rightarrow>
        if c = CHR ''-'' then map_option uminus (digits_value cs)
        else if c = CHR ''+'' then digits_value cs else digits_value s)"

definition unsigned_float :: "string \<Rightarrow> (int \<times> int) option" where
  "unsigned_float s =
     (let m = takeWhile (\<lambda>c. c \<noteq> CHR ''e'' \<and> c \<noteq> CHR ''E'') s; rest = drop (length m) s in
      case rest of
        [] \<Rightarrow> mantissa_value m
      | _ # ex \<Rightarrow> (case (mantissa_value m, exponent_value ex) of
            (Some (i, e), Some x) \<Rightarrow> Some (i, e + x) | _ \<Rightarrow> None))"

definition parse_float :: "string \<Rightarrow> (int \<times> int) option" where
  "parse_float s =
     (case py_strip s of
        [] \<Rightarrow> None
      | c # cs \<Rightarrow>
          if c = CHR ''-'' then map_option (\<lambda>(i, e). (- i, e)) (unsigned_float cs)
          else if c = CHR ''+'' then unsigned_float cs else unsigned_float (c # cs))"

definition coerce_confidence :: "pyval \<Rightarrow> pyval" where
  "coerce_confidence v = (case v of PStr s \<Rightarrow> (case parse_float s of Some (m, e) \<Rightarrow> PFloat m e | None \<Rightarrow> v) | _ \<Rightarrow> v)"

definition coerce_cooldown :: "pyval \<Rightarrow> pyval" where
  "coerce_cooldown v =
     (case v of
        PStr s \<Rightarrow> (case parse_float s of Some (m, e) \<Rightarrow> PInt (float_trunc m e) | None \<Rightarrow> v)
      | PFloat m e \<Rightarrow> PInt (float_trunc m e)
      | _ \<Rightarrow> v)"

definition coerce_field :: "string \<Rightarrow> (pyval \<Rightarrow> pyval) \<Rightarrow> pydict \<Rightarrow> pydict" where
  "coerce_field k f d = (if dict_has d k then dict_set k (f (dict_get d k)) d else d)"

definition parse_diagnose :: "pydict option \<Rightarrow> pydict" where
  "parse_diagnose payload =
     (case payload of
        None \<Rightarrow> []
      | Some parsed \<Rightarrow> set_default ''scope_adjustment'' (PStr [])
          (coerce_field ''cooldown_seconds'' coerce_cooldown (coerce_field ''confidence'' coerce_confidence parsed)))"

definition diagnose_stage :: "'w pipe_env \<Rightarrow> Task \<Rightarrow> Run \<Rightarrow> pydict \<Rightarrow> ('w, pydict option) job" where
  "diagnose_stage env task run validation =
     bnd (call_skill env ''diagnose'' parse_diagnose diagnose_validate
            [(''evidence'', PStr (evidence_of validation)),
             (''context'', PStr (''task: '' @ task_title task @ ''; objective: '' @ task_objective task)),
             (''attempt'', PInt (run_attempt run))] (skill_dir env ''diagnose'')) (\<lambda>r.
     bnd (write_artifact ''diagnosis_output'' (result_payload r) ''Diagnosed validation failure'') (\<lambda>_.
     ret (if sr_success r then Some (sr_output r) else None)))"

text \<open>\<open>_try_fix_tests\<close>: the first changed test file is shown to the skill; only changed test files may be edited.\<close>

definition strict_text :: "node option \<Rightarrow> exn + string option" where
  "strict_text n =
     (case n of Some (Text s) \<Rightarrow> Inr (Some (universal_newlines s)) | Some (node.Undecodable e _) \<Rightarrow> Inl e | _ \<Rightarrow> Inr None)"

definition try_fix_tests ::
  "'w pipe_env \<Rightarrow> Task \<Rightarrow> string \<Rightarrow> string \<Rightarrow> string list \<Rightarrow> nat \<Rightarrow> ('w, SkillResult option) job"
where
  "try_fix_tests env task diff evidence tests k =
     (case tests of
        [] \<Rightarrow> ret None
      | test_path # _ \<Rightarrow>
          bnd (reads (\<lambda>w. strict_text (node_at (sh_tree w) (resolve (pe_workspace env) test_path)))) (\<lambda>text.
          bnd (lift_result text) (\<lambda>content.
          case content of
            None \<Rightarrow> ret None
          | Some content \<Rightarrow>
              bnd (call_skill env ''fix_tests'' parse_fix_tests fix_tests_validate
                     (task_fields task @ [(''diff'', PStr (take 8000 diff)), (''failure_output'', PStr (take 8000 evidence)),
                        (''test_file_path'', PStr test_path), (''test_file_content'', PStr (take 40000 content))])
                     (skill_dir env (''fix_tests_'' @ dec_nat k))) (\<lambda>r.
              bnd (write_artifact (''fix_tests_'' @ dec_nat k @ ''_output'') (result_payload r)
                     (''Test assertion fixes from /fix-tests (round '' @ dec_nat k @ '')'')) (\<lambda>_.
              if \<not> sr_success r then ret (Some r)
              else
                bnd (apply_to_tree env (sr_output r) tests) (\<lambda>summary.
                bnd (write_artifact (''fix_tests_'' @ dec_nat k @ ''_apply'') (summary_payload summary)
                       (''Apply /fix-tests edits (round '' @ dec_nat k @ '')'')) (\<lambda>_.
                ret (Some r))))))))"

text \<open>The rounds of fixes; \<open>n\<close> are left. The answer is a validation that did not fail.\<close>

fun fix_rounds ::
  "nat \<Rightarrow> nat \<Rightarrow> 'w pipe_env \<Rightarrow> Task \<Rightarrow> command list \<Rightarrow> pydict \<Rightarrow> string \<Rightarrow> string list \<Rightarrow> ('w, SkillResult option) job"
where
  "fix_rounds 0 k env task commands validation diff tests = ret None"
| "fix_rounds (Suc n) k env task commands validation diff tests =
     bnd (invoke_validate env (map verbose_command commands) (skill_dir env (''validate_verbose_'' @ dec_nat k))) (\<lambda>verbose.
     bnd (try_fix_tests env task diff (or_default (evidence_of (sr_output verbose)) (evidence_of validation)) tests k) (\<lambda>fix.
     case fix of
       None \<Rightarrow> ret None
     | Some r \<Rightarrow>
         if \<not> sr_success r then ret None
         else
           bnd (invoke_validate env commands (skill_dir env (''validate_retry_'' @ dec_nat k))) (\<lambda>again.
           bnd (write_artifact (''validation_retry_'' @ dec_nat k @ ''_output'') (sr_output again)
                  (''Re-validation after /fix-tests round '' @ dec_nat k)) (\<lambda>_.
           if overall_of (sr_output again) ''fail'' \<noteq> ''fail'' then ret (Some again)
           else fix_rounds n (Suc k) env task commands validation diff tests))))"

definition MAX_FIX_ROUNDS :: nat where
  "MAX_FIX_ROUNDS = 3"

definition wants_test_fixes :: "pydict option \<Rightarrow> pydict \<Rightarrow> string list \<Rightarrow> bool" where
  "wants_test_fixes diagnosis validation tests \<longleftrightarrow>
     (case diagnosis of
        None \<Rightarrow> False
      | Some d \<Rightarrow> dict_get d ''classification'' \<in> {PStr ''code_defect'', PStr ''test_infrastructure_failure''}
          \<and> looks_like_assertion validation \<and> tests \<noteq> [])"

text \<open>The last validation, its verdict and the diagnosis that remains.\<close>

definition profile_of :: "Task \<Rightarrow> string" where
  "profile_of task = or_default (task_validation_profile task) ''generic''"

definition check_stage :: "'w pipe_env \<Rightarrow> Task \<Rightarrow> Run \<Rightarrow> work_state \<Rightarrow> ('w, string \<times> pydict \<times> pydict option) job" where
  "check_stage env task run st =
     bnd (resolve_validate_commands env (profile_of task) (task_validation_mode task) (as_written (ws_summary st))) (\<lambda>commands.
     bnd (invoke_validate env commands (skill_dir env ''validate'')) (\<lambda>first.
     bnd (write_artifact ''validation_output'' (sr_output first) ''Deterministic compile+test validation'') (\<lambda>_.
     let overall = overall_of (sr_output first) ''skipped''; tests = filter is_test_path (as_written (ws_summary st)) in
     if overall \<noteq> ''fail'' then ret (overall, sr_output first, None)
     else
       bnd (diagnose_stage env task run (sr_output first)) (\<lambda>diagnosis.
       if \<not> wants_test_fixes diagnosis (sr_output first) tests then ret (overall, sr_output first, diagnosis)
       else
         bnd (fix_rounds MAX_FIX_ROUNDS 1 env task commands (sr_output first) (ws_diff st) tests) (\<lambda>fixed.
         case fixed of
           Some again \<Rightarrow> ret (overall_of (sr_output again) ''fail'', sr_output again, None)
         | None \<Rightarrow> ret (overall, sr_output first, diagnosis))))))"


end
