(* ===== verification/Cost_Ledger.thy ===== *)
theory Cost_Ledger
  imports Diagnosis
begin

section \<open>The daily cost ledger\<close>

text \<open>
  \<open>cost_tracker.py\<close>: the ledger is a file of sums, one for each project and day. Sums are rationals.
  What the file holds when it is read is part of the model: nothing, a file that cannot be read or is not JSON,
  a content on which the reading raises, or the sums.
\<close>

datatype ledger_file = Missing | Broken | Raising exn | Ledger "(string \<times> rat) list"

text \<open>The file \<open>llm_metadata.json\<close> of a run.\<close>

datatype metadata_file = Bad_metadata | Metadata pyval

definition load_ledger :: "ledger_file \<Rightarrow> exn + (string \<times> rat) list" where
  "load_ledger led = (case led of Missing \<Rightarrow> Inr [] | Broken \<Rightarrow> Inr [] | Raising e \<Rightarrow> Inl e | Ledger d \<Rightarrow> Inr d)"

definition ledger_key :: "string \<Rightarrow> string \<Rightarrow> string" where
  "ledger_key project date = project @ '':'' @ date"

definition run_cost :: "metadata_file \<Rightarrow> exn + rat" where
  "run_cost led =
     (case led of
        Bad_metadata \<Rightarrow> Inr 0
      | Metadata (PDict d) \<Rightarrow>
          (case py_float (py_or (dict_get d ''cost_usd'') (PFloat 0 0)) of
             Inr c \<Rightarrow> Inr c | Inl (TypeError _) \<Rightarrow> Inr 0 | Inl (ValueError _) \<Rightarrow> Inr 0 | Inl e \<Rightarrow> Inl e)
      | Metadata _ \<Rightarrow> Inl (AttributeError ''object has no attribute get''))"

definition spent :: "(string \<times> rat) list \<Rightarrow> string \<Rightarrow> rat" where
  "spent ledger key = (case map_of ledger key of Some c \<Rightarrow> c | None \<Rightarrow> 0)"

definition record_run_cost :: "string \<Rightarrow> string \<Rightarrow> metadata_file \<Rightarrow> ledger_file \<Rightarrow> (exn + rat) \<times> ledger_file" where
  "record_run_cost project today metadata led =
     (case run_cost metadata of
        Inl e \<Rightarrow> (Inl e, led)
      | Inr cost \<Rightarrow>
          (case load_ledger led of
             Inl e \<Rightarrow> (Inl e, led)
           | Inr ledger \<Rightarrow>
               let key = ledger_key project today
               in (Inr cost, Ledger (dict_set key (spent ledger key + cost) ledger))))"

definition daily_cost :: "string \<Rightarrow> string \<Rightarrow> ledger_file \<Rightarrow> exn + rat" where
  "daily_cost project date led = rbind (load_ledger led) (\<lambda>ledger. Inr (spent ledger (ledger_key project date)))"

definition check_budget :: "string \<Rightarrow> string \<Rightarrow> rat \<Rightarrow> ledger_file \<Rightarrow> exn + bool \<times> rat" where
  "check_budget project today daily_limit led =
     rbind (daily_cost project today led) (\<lambda>used. Inr (0 \<le> daily_limit - used, daily_limit - used))"

subsection \<open>What the ledger promises\<close>

fun record_costs :: "string \<Rightarrow> string \<Rightarrow> metadata_file list \<Rightarrow> ledger_file \<Rightarrow> ledger_file" where
  "record_costs project today [] led = led"
| "record_costs project today (m # ms) led = record_costs project today ms (snd (record_run_cost project today m led))"

definition costs :: "metadata_file list \<Rightarrow> rat" where
  "costs ms = sum_list (map (\<lambda>m. case run_cost m of Inr c \<Rightarrow> c | Inl _ \<Rightarrow> 0) ms)"

lemma spent_dict_set: "spent (dict_set k v d) k' = (if k' = k then v else spent d k')"
  by (induction k v d rule: dict_set.induct) (auto simp: spent_def)

lemma record_run_cost_spent:
  assumes "load_ledger led = Inr ledger"
  shows "\<exists>ledger'. load_ledger (snd (record_run_cost project today m led)) = Inr ledger'
    \<and> spent ledger' k = spent ledger k + (if k = ledger_key project today then costs [m] else 0)"
  using assms by (auto simp: record_run_cost_def costs_def load_ledger_def Let_def spent_dict_set split: sum.splits)

lemma record_costs_spent:
  assumes "load_ledger led = Inr ledger"
  shows "\<exists>ledger'. load_ledger (record_costs project today ms led) = Inr ledger'
    \<and> spent ledger' k = spent ledger k + (if k = ledger_key project today then costs ms else 0)"
  using assms
proof (induction ms arbitrary: led ledger)
  case Nil
  then show ?case by (simp add: costs_def)
next
  case (Cons m ms)
  obtain mid where mid: "load_ledger (snd (record_run_cost project today m led)) = Inr mid"
    "spent mid k = spent ledger k + (if k = ledger_key project today then costs [m] else 0)"
    using record_run_cost_spent [OF Cons.prems] by blast
  have "costs (m # ms) = costs [m] + costs ms" by (simp add: costs_def)
  with Cons.IH [OF mid(1)] mid(2) show ?case by auto
qed

text \<open>After the costs of some runs of a project on one day, the budget of that day has lost their sum, and the budget
  of another project or day nothing. A run whose cost cannot be read costs nothing.\<close>

lemma budget_of_recorded_costs:
  "check_budget project' today' limit (record_costs project today ms Missing) =
     Inr (if ledger_key project' today' = ledger_key project today then (costs ms \<le> limit, limit - costs ms)
          else (0 \<le> limit, limit))"
  using record_costs_spent [of Missing "[]" project today ms "ledger_key project' today'"]
  by (auto simp: check_budget_def daily_cost_def rbind_def load_ledger_def spent_def split: ledger_file.splits)

text \<open>A directory in the place of the ledger, which is what \<open>control_watch.py\<close> passes, reads as an empty ledger:
  every project is within its budget.\<close>

lemma broken_ledger_allows: "check_budget project today 20 Broken = Inr (True, 20)"
  by (simp add: check_budget_def daily_cost_def load_ledger_def spent_def rbind_def)

end
