(* ===== verification/Spec2Isabelle.thy ===== *)
theory Spec2Isabelle
  imports Domain_Dicts Transitions Control_Props Record_Props Queue_Service Decision_Service LLM_Gate Control_Runtime Plan_Diagram Workspace_Cleanup Queue_Runs Task_Creation Disposition_Props Promotion_Props Workflow_Service Work_Orchestrator Cost_Ledger
begin

text \<open>
  This directory models the core of \<open>accruvia_harness\<close>, the Python program under
  \<open>src/src/accruvia_harness\<close>, and proves what makes it correct. All paths below are relative to it.

  The program. The harness plans, runs and judges pieces of software work done by language models.
  A project holds objectives; an objective has an intent, interrogation reviews, diagrams and plans;
  its tasks are leased to workers, and every run of a task is planned, worked on, analysed and
  decided. The state is one SQLite database, reached through \<open>SQLiteHarnessStore\<close> (\<open>store.py\<close> and the
  mixins under \<open>persistence/\<close>). Beside the tasks stands a control plane (\<open>control_plane.py\<close>): a system
  row, five lanes, cooldowns, budgets and an event log, which say whether work may be handed out. The
  queue service leases a task, asks the execution gate and the control plane, calls the run
  service and reports events to the runtime observer; the observer classifies failures and tells the
  control plane to pause, cool down or freeze. The decision service takes finished runs from a queue
  and applies the decision policy to them. Skills are the contracts for the answers of language models.

  Conventions. A method that uses the database is a function from the store to a result or an
  exception and the new store (\<open>Py_Prog\<close>); an exception leaves the writes made before it, because each
  statement block of the code commits on its own. A table is the list of its rows in insertion order
  (\<open>Sql_Table\<close>). Dataclasses are records, string enumerations are datatypes with the value map of the
  code, dictionaries and JSON values are \<open>pyval\<close> trees (\<open>Py_Values\<close>, with the conversions of Python in
  \<open>Py_Convert\<close> and the text of numbers in \<open>Decimal\<close>). Instants are integers in microseconds, the
  ISO texts the database compares being ordered like the instants; floats are rationals, or a
  decimal mantissa and exponent where they are printed; characters are single bytes. The clock and
  the random identifiers are streams in the store about which nothing is assumed. What lies outside
  the program (language models, worker processes, availability probes, the callbacks of a
  caller) is an argument of the definitions that use it.

  The theories and the code they model.
  \<^item> \<open>Domain_Types\<close>, \<open>Domain_Dicts\<close>, \<open>Transitions\<close>: \<open>domain.py\<close>. Enumerations and records; the dictionary
    codecs with their round trips, proved once in the locale \<open>dict_codec\<close>; the transition tables of tasks,
    objectives and phases as instances of the locale \<open>status_machine\<close>, with reachability.
  \<^item> \<open>Store\<close>: the state. \<open>Control_Store\<close>, \<open>Task_Store\<close>, \<open>Record_Store\<close>: the methods of the store over it
    (\<open>persistence/control_plane.py\<close>, \<open>project_task.py\<close>, \<open>context_records.py\<close>, \<open>run_records.py\<close>,
    \<open>events_metrics.py\<close>, \<open>failure_patterns.py\<close>, and \<open>store.py\<close>). \<open>Task_Props\<close> and \<open>Record_Props\<close> hold what they
    promise: the caps on leases, the choice of a lease, the derived status of an objective, the order of
    the decision queue, recovery at start-up, version numbers, metrics.
  \<^item> \<open>Control_Plane\<close>: the methods of \<open>ControlPlane\<close>. \<open>Control_Refine\<close> states an abstract control plane (the
    system row and the lanes, without tables, clock readings or events) and proves that every method
    meets its guard and implements the abstract call; \<open>Control_Props\<close> derives the behaviour over
    sequences of calls, exceptions included.
  \<^item> \<open>Execution_Gate\<close> (\<open>context_control.py\<close>), \<open>LLM_Gate\<close> (\<open>llm_availability.py\<close>), \<open>Queue_Service\<close>
    (\<open>services/queue_service.py\<close>): whether and which task is handed out. The loop of \<open>process_next_task\<close>
    has fuel; any amount above the number of tasks in the store is enough, and that is proved.
  \<^item> \<open>Task_Service\<close> (\<open>services/task_service.py\<close>): the creation of tasks with their plans, follow-on tasks, the
    tree of retries and the dispositions of failed tasks. \<open>Task_Creation\<close> proves what a new task has,
    \<open>Retry_Tree\<close> the cap on a tree of retries, \<open>Disposition_Props\<close> what becomes of a failed task.
  \<^item> \<open>Run_Service\<close> (\<open>services/run_service.py\<close>): \<open>run_once\<close>, one run of a task from its plan to the decision
    on it, with every early return and the handling of an exception. \<open>Run_Props\<close> proves what it leaves
    in the store, \<open>Run_Liveness\<close> that it returns when its callbacks do. \<open>Branch_Service\<close> models the parallel
    branches and the loop \<open>run_until_stable\<close>, whose fuel is the number of attempts left plus two;
    \<open>Run_Stability\<close> proves that this is enough, and \<open>Branch_Props\<close> that the best branch is kept.
    \<open>Workspace_Cleanup\<close> models the removal of the workspaces of finished tasks at the start of a run.
    \<open>Queue_Runs\<close> puts \<open>run_once\<close> under the queue service and shows that the two leave no task active.
  \<^item> \<open>Policy\<close> (\<open>policy.py\<close>) and \<open>Decision_Service\<close> (\<open>services/decision_service.py\<close>): analysis of a run, the
    decision on it, and its effect on the store.
  \<^item> \<open>Skill_Base\<close> (\<open>skills/base.py\<close>): the schema validator, the outcome of an invocation and the locale
    \<open>skill\<close>, the contract of every validator: a successful invocation carries an output that keeps the
    validator's promise. \<open>Diagnosis\<close> (\<open>skills/diagnose.py\<close>) and \<open>Plan_Draft\<close> (\<open>skills/plan_draft.py\<close>) interpret it.
    \<open>Py_Regex\<close> holds a matcher for the regular expressions of the code, \<open>Mermaid_Render\<close> and \<open>Plan_Diagram\<close>
    (\<open>mermaid/render.py\<close>) the diagrams drawn from plans. \<open>Classifier\<close> (\<open>control_classifier.py\<close>) builds on the first; the second goes on to the stored plans.
  \<^item> \<open>Control_Runtime\<close> (\<open>control_runtime.py\<close>, \<open>control_breadcrumbs.py\<close>): the observer, event by event.

  Some properties record what the code does where that is not what it seems to mean: a lane of a
  frozen system can run again after a cooldown, \<open>mark_degraded\<close> is undone by its own reconciliation, a
  resolved objective reopens, \<open>get_objective\<close> hides the phase, the availability gate refuses for longer
  than it announces. Their texts say so.

  Not modelled. The command line, the web interface and the MCP server (argument parsing, printing and
  views of the store); the clients of language models, GitHub, GitLab and git (calls to other programs);
  prompts; the extraction of JSON from an answer; files (breadcrumb bundles, workspaces, artifacts);
  telemetry and log messages; the services that promote branches and review objectives and the
  remaining skills. The last group is planned.
\<close>

end
